(* ===== verification/Go_Prelude.thy ===== *)
theory Go_Prelude
  imports Main "HOL-Library.Sublist"
begin

text \<open>
  The part of the Go language and of its standard library that the modelled packages share:
  byte strings (\<^verbatim>\<open>strings.TrimSpace\<close>, \<^verbatim>\<open>strings.ToLower\<close>, \<^verbatim>\<open>strings.EqualFold\<close>,
  \<^verbatim>\<open>strings.LastIndex\<close>, \<^verbatim>\<open>strings.Split\<close>), decimal integers (\<^verbatim>\<open>strconv\<close>), 64 bit
  wrap-around, instants and calendar dates of the business time zone
  (\<^verbatim>\<open>internal/timeutil\<close>), the error values of the program, and state passing computations
  that may fail. A Go string is a sequence of bytes, so it is a \<^typ>\<open>string\<close>, whose
  characters are bytes.
\<close>

named_theorems go_string \<open>rewrites on Go string helpers\<close>
named_theorems go_act \<open>unfoldings of failing computations\<close>

section \<open>Integers\<close>

text \<open>\<^verbatim>\<open>int64\<close> values are integers in the signed 64 bit range; an arithmetic result is
  brought back into the range by \<open>wrap64\<close>.\<close>

definition wrap64 :: "int \<Rightarrow> int" where
  "wrap64 n = (n + 2 ^ 63) mod 2 ^ 64 - 2 ^ 63"

definition is_int64 :: "int \<Rightarrow> bool" where
  "is_int64 n \<longleftrightarrow> - (2 ^ 63) \<le> n \<and> n < 2 ^ 63"

lemma wrap64_range [simp]: "is_int64 (wrap64 n)"
proof -
  have "0 \<le> (n + 2 ^ 63) mod (2 ^ 64 :: int)" and "(n + 2 ^ 63) mod (2 ^ 64 :: int) < 2 ^ 64"
    by simp_all
  then show ?thesis by (simp add: wrap64_def is_int64_def)
qed

lemma wrap64_id: "is_int64 n \<Longrightarrow> wrap64 n = n"
  by (simp add: wrap64_def is_int64_def)

text \<open>\<^verbatim>\<open>uint64\<close> counters.\<close>

definition wrapu64 :: "nat \<Rightarrow> nat" where
  "wrapu64 n = n mod 2 ^ 64"

lemma wrapu64_id: "n < 2 ^ 64 \<Longrightarrow> wrapu64 n = n"
  by (simp add: wrapu64_def)

section \<open>Byte strings\<close>

subsection \<open>strings.TrimSpace\<close>

text \<open>The UTF-8 encodings of the white space characters of \<^verbatim>\<open>unicode.IsSpace\<close>: the six
  ASCII ones, U+0085, U+00A0, U+1680, U+2000 to U+200A, U+2028, U+2029, U+202F, U+205F and
  U+3000. None is a prefix or a suffix of another.\<close>

definition space_encodings :: "string list" where
  "space_encodings =
     map (\<lambda>b. [char_of b]) [0x20 :: nat, 0x09, 0x0A, 0x0B, 0x0C, 0x0D]
     @ map (map char_of) [[0xC2 :: nat, 0x85], [0xC2, 0xA0], [0xE1, 0x9A, 0x80],
         [0xE2, 0x80, 0x80], [0xE2, 0x80, 0x81], [0xE2, 0x80, 0x82], [0xE2, 0x80, 0x83],
         [0xE2, 0x80, 0x84], [0xE2, 0x80, 0x85], [0xE2, 0x80, 0x86], [0xE2, 0x80, 0x87],
         [0xE2, 0x80, 0x88], [0xE2, 0x80, 0x89], [0xE2, 0x80, 0x8A], [0xE2, 0x80, 0xA8],
         [0xE2, 0x80, 0xA9], [0xE2, 0x80, 0xAF], [0xE2, 0x81, 0x9F], [0xE3, 0x80, 0x80]]"

text \<open>Drop encodings of a list from the front until none is a prefix. An empty encoding is
  never dropped, so that the recursion ends whatever the list.\<close>

function strip_front :: "'a list list \<Rightarrow> 'a list \<Rightarrow> 'a list" where
  "strip_front ws s =
     (case find (\<lambda>w. w \<noteq> [] \<and> prefix w s) ws of
        None \<Rightarrow> s
      | Some w \<Rightarrow> strip_front ws (drop (length w) s))"
  by pat_completeness auto
termination
proof (relation "measure (\<lambda>(ws, s). length s)")
  fix ws :: "'a list list" and s w
  assume "find (\<lambda>w. w \<noteq> [] \<and> prefix w s) ws = Some w"
  then have "w \<noteq> []" and "prefix w s" by (auto simp: find_Some_iff)
  then have "0 < length w" and "length w \<le> length s" by (auto dest: prefix_length_le)
  then have "length s - length w < length s" by linarith
  then show "((ws, drop (length w) s), ws, s) \<in> measure (\<lambda>(ws, s). length s)" by simp
qed simp

declare strip_front.simps [simp del]

definition TrimLeftSpace :: "string \<Rightarrow> string" where
  "TrimLeftSpace s = strip_front space_encodings s"

definition TrimRightSpace :: "string \<Rightarrow> string" where
  "TrimRightSpace s = rev (strip_front (map rev space_encodings) (rev s))"

definition TrimSpace :: "string \<Rightarrow> string" where
  "TrimSpace s = TrimRightSpace (TrimLeftSpace s)"

lemma strip_front_stable:
  "find (\<lambda>w. w \<noteq> [] \<and> prefix w (strip_front ws s)) ws = None"
proof (induction ws s rule: strip_front.induct)
  case (1 ws s)
  show ?case
  proof (cases "find (\<lambda>w. w \<noteq> [] \<and> prefix w s) ws")
    case None
    then show ?thesis by (simp add: strip_front.simps [of ws s])
  next
    case (Some w)
    with "1.IH" show ?thesis by (simp add: strip_front.simps [of ws s])
  qed
qed

lemma strip_front_fixed:
  "find (\<lambda>w. w \<noteq> [] \<and> prefix w s) ws = None \<Longrightarrow> strip_front ws s = s"
  by (simp add: strip_front.simps [of ws s])

lemma strip_front_suffix: "suffix (strip_front ws s) s"
proof (induction ws s rule: strip_front.induct)
  case (1 ws s)
  show ?case
  proof (cases "find (\<lambda>w. w \<noteq> [] \<and> prefix w s) ws")
    case None
    then show ?thesis by (simp add: strip_front.simps [of ws s])
  next
    case (Some w)
    with "1.IH" have "suffix (strip_front ws (drop (length w) s)) (drop (length w) s)" by simp
    then have "suffix (strip_front ws (drop (length w) s)) s"
      using suffix_drop suffix_order.trans by blast
    with Some show ?thesis by (simp add: strip_front.simps [of ws s])
  qed
qed

lemma TrimSpace_prefix_free:
  "find (\<lambda>w. w \<noteq> [] \<and> prefix w (TrimSpace s)) space_encodings = None"
proof -
  have "suffix (rev (TrimSpace s)) (rev (TrimLeftSpace s))"
    by (simp add: TrimSpace_def TrimRightSpace_def strip_front_suffix)
  then have "prefix (TrimSpace s) (TrimLeftSpace s)"
    by (simp add: suffix_to_prefix)
  moreover have "find (\<lambda>w. w \<noteq> [] \<and> prefix w (TrimLeftSpace s)) space_encodings = None"
    by (simp add: TrimLeftSpace_def strip_front_stable)
  ultimately show ?thesis
    by (auto simp: find_None_iff dest: prefix_order.trans)
qed

lemma TrimSpace_idem [simp, go_string]: "TrimSpace (TrimSpace s) = TrimSpace s"
proof -
  have left: "TrimLeftSpace (TrimSpace s) = TrimSpace s"
    unfolding TrimLeftSpace_def by (rule strip_front_fixed [OF TrimSpace_prefix_free])
  have right: "TrimRightSpace (TrimSpace s) = TrimSpace s"
    unfolding TrimSpace_def TrimRightSpace_def
    by (simp add: strip_front_fixed strip_front_stable)
  show ?thesis
    by (subst TrimSpace_def) (simp add: left right)
qed

lemma strip_front_Nil [simp]: "strip_front ws [] = []"
  by (rule strip_front_fixed) (auto simp: find_None_iff)

lemma TrimSpace_Nil [simp, go_string]: "TrimSpace [] = []"
  by (simp add: TrimSpace_def TrimLeftSpace_def TrimRightSpace_def)

lemma TrimSpace_nonempty: "TrimSpace s \<noteq> [] \<Longrightarrow> s \<noteq> []"
  by auto

text \<open>A string of printable ASCII characters other than blanks is unchanged.\<close>

definition ascii_word :: "string \<Rightarrow> bool" where
  "ascii_word s \<longleftrightarrow> list_all (\<lambda>c. 0x20 < (of_char c :: nat) \<and> (of_char c :: nat) < 0x7F) s"

lemma ascii_word_Cons [simp]:
  "ascii_word (c # s) \<longleftrightarrow> 0x20 < (of_char c :: nat) \<and> (of_char c :: nat) < 0x7F \<and> ascii_word s"
  by (auto simp: ascii_word_def)

lemma ascii_word_Nil [simp]: "ascii_word []"
  by (simp add: ascii_word_def)

lemma ascii_word_append [simp]: "ascii_word (s @ t) \<longleftrightarrow> ascii_word s \<and> ascii_word t"
  by (auto simp: ascii_word_def)

lemma space_encoding_not_ascii:
  assumes "w \<in> set space_encodings"
  shows "w \<noteq> [] \<and> \<not> (0x20 < (of_char (hd w) :: nat) \<and> (of_char (hd w) :: nat) < 0x7F)
    \<and> \<not> (0x20 < (of_char (last w) :: nat) \<and> (of_char (last w) :: nat) < 0x7F)"
  using assms by (auto simp: space_encodings_def)

definition ascii_edge :: "char \<Rightarrow> bool" where
  "ascii_edge c \<longleftrightarrow> 0x20 < (of_char c :: nat) \<and> (of_char c :: nat) < 0x7F"

lemma prefix_ascii_edge:
  assumes "prefix w s" and "w \<noteq> []"
  shows "hd w = hd s"
  using assms by (cases w; cases s) auto

text \<open>Only the ends matter: a string that begins and ends with a printable ASCII character
  other than a blank is unchanged.\<close>

lemma TrimSpace_edges:
  assumes "s \<noteq> []" and "ascii_edge (hd s)" and "ascii_edge (last s)"
  shows "TrimSpace s = s"
proof -
  have "\<not> prefix w s" if w: "w \<in> set space_encodings" for w
    using prefix_ascii_edge [of w s] space_encoding_not_ascii [OF w] assms(2)
    by (auto simp: ascii_edge_def)
  then have left: "TrimLeftSpace s = s"
    by (simp add: TrimLeftSpace_def strip_front_fixed find_None_iff)
  have "\<not> prefix (rev w) (rev s)" if w: "w \<in> set space_encodings" for w
    using prefix_ascii_edge [of "rev w" "rev s"] space_encoding_not_ascii [OF w] assms
    by (auto simp: ascii_edge_def hd_rev)
  then have "TrimRightSpace s = s"
    by (simp add: TrimRightSpace_def strip_front_fixed find_None_iff)
  with left show ?thesis by (simp add: TrimSpace_def)
qed

lemma TrimSpace_ascii_word: "ascii_word s \<Longrightarrow> TrimSpace s = s"
proof (cases "s = []")
  case False
  assume "ascii_word s"
  then have "\<forall>c \<in> set s. ascii_edge c" by (simp add: ascii_word_def ascii_edge_def list_all_iff)
  with False show ?thesis by (intro TrimSpace_edges) simp_all
qed simp

text \<open>Trimming keeps every printable ASCII character.\<close>

lemma strip_front_mem:
  "c \<in> set s \<Longrightarrow> (\<And>w. w \<in> set ws \<Longrightarrow> c \<notin> set w) \<Longrightarrow> c \<in> set (strip_front ws s)"
proof (induction ws s rule: strip_front.induct)
  case (1 ws s)
  show ?case
  proof (cases "find (\<lambda>w. w \<noteq> [] \<and> prefix w s) ws")
    case None
    then show ?thesis using "1.prems"(1) by (simp add: strip_front.simps [of ws s])
  next
    case (Some w)
    then have "w \<in> set ws" "prefix w s" by (auto simp: find_Some_iff)
    then have "c \<in> set (drop (length w) s)" using "1.prems" by (auto simp: prefix_def)
    then show ?thesis using "1.IH" [OF Some] "1.prems"(2) Some by (simp add: strip_front.simps [of ws s])
  qed
qed

lemma TrimSpace_mem: "c \<in> set s \<Longrightarrow> ascii_edge c \<Longrightarrow> c \<in> set (TrimSpace s)"
proof -
  assume c: "c \<in> set s" "ascii_edge c"
  have "c \<notin> set w" if "w \<in> set space_encodings" for w
    using that c(2) by (auto simp: space_encodings_def ascii_edge_def)
  with c show ?thesis
    by (auto simp: TrimSpace_def TrimLeftSpace_def TrimRightSpace_def intro!: strip_front_mem)
qed

lemma TrimSpace_Cons: "ascii_edge c \<Longrightarrow> TrimSpace (c # s) \<noteq> []"
  using TrimSpace_mem [of c "c # s"] by force

lemma TrimSpace_colon [simp]: "TrimSpace (s @ CHR '':'' # t) \<noteq> []"
  using TrimSpace_mem [of "CHR '':''" "s @ CHR '':'' # t"] by (force simp: ascii_edge_def)

subsection \<open>strings.ToLower and strings.EqualFold\<close>

text \<open>
  \<^verbatim>\<open>strings.ToLower\<close> maps runes; U+212A (KELVIN SIGN) and U+0130 are the only runes outside
  ASCII whose lower case is an ASCII letter. All other runes outside ASCII are left as they
  are here: the program compares the result with ASCII literals only, and neither such a rune
  nor its lower case is ASCII.
\<close>

definition lower_byte :: "char \<Rightarrow> char" where
  "lower_byte c = (let n = (of_char c :: nat) in if 65 \<le> n \<and> n \<le> 90 then char_of (n + 32) else c)"

fun ToLower :: "string \<Rightarrow> string" where
  "ToLower [] = []"
| "ToLower (a # s) =
     (if take 3 (a # s) = map char_of [0xE2 :: nat, 0x84, 0xAA] then CHR ''k'' # ToLower (drop 2 s)
      else if take 2 (a # s) = map char_of [0xC4 :: nat, 0xB0] then CHR ''i'' # ToLower (drop 1 s)
      else lower_byte a # ToLower s)"

text \<open>\<^verbatim>\<open>strings.EqualFold\<close> compares under simple folding: besides the ASCII letters, U+212A
  folds to k and U+017F (LATIN SMALL LETTER LONG S) to s.\<close>

fun fold_key :: "string \<Rightarrow> string" where
  "fold_key [] = []"
| "fold_key (a # s) =
     (if take 3 (a # s) = map char_of [0xE2 :: nat, 0x84, 0xAA] then CHR ''k'' # fold_key (drop 2 s)
      else if take 2 (a # s) = map char_of [0xC5 :: nat, 0xBF] then CHR ''s'' # fold_key (drop 1 s)
      else lower_byte a # fold_key s)"

declare fold_key.simps [simp del]

definition EqualFold :: "string \<Rightarrow> string \<Rightarrow> bool" where
  "EqualFold s t \<longleftrightarrow> fold_key s = fold_key t"

subsection \<open>Searching and splitting at a byte\<close>

fun LastIndexByte :: "char \<Rightarrow> string \<Rightarrow> nat option" where
  "LastIndexByte c [] = None"
| "LastIndexByte c (x # xs) =
     (case LastIndexByte c xs of
        Some i \<Rightarrow> Some (Suc i)
      | None \<Rightarrow> if x = c then Some 0 else None)"

fun SplitByte :: "char \<Rightarrow> string \<Rightarrow> string list" where
  "SplitByte c [] = [[]]"
| "SplitByte c (x # xs) =
     (if x = c then [] # SplitByte c xs
      else case SplitByte c xs of
             [] \<Rightarrow> [[x]]
           | p # ps \<Rightarrow> (x # p) # ps)"

text \<open>\<^verbatim>\<open>strings.Cut\<close> at a one byte separator: the part before and the part after the first
  occurrence.\<close>

fun CutByte :: "char \<Rightarrow> string \<Rightarrow> (string \<times> string) option" where
  "CutByte c [] = None"
| "CutByte c (x # xs) =
     (if x = c then Some ([], xs)
      else map_option (\<lambda>(b, a). (x # b, a)) (CutByte c xs))"

definition TrimRightByte :: "char \<Rightarrow> string \<Rightarrow> string" where
  "TrimRightByte c s = rev (dropWhile (\<lambda>x. x = c) (rev s))"

definition Contains :: "string \<Rightarrow> string \<Rightarrow> bool" where
  "Contains s sub \<longleftrightarrow> sublist sub s"

fun JoinWith :: "string \<Rightarrow> string list \<Rightarrow> string" where
  "JoinWith sep [] = []"
| "JoinWith sep [x] = x"
| "JoinWith sep (x # xs) = x @ sep @ JoinWith sep xs"

lemma LastIndexByte_None [simp]: "c \<notin> set s \<Longrightarrow> LastIndexByte c s = None"
  by (induction s) auto

lemma LastIndexByte_append: "c \<notin> set t \<Longrightarrow> LastIndexByte c (s @ c # t) = Some (length s)"
  by (induction s) auto

lemma LastIndexByte_Some:
  "LastIndexByte c s = Some i \<Longrightarrow> i < length s \<and> s ! i = c \<and> c \<notin> set (drop (Suc i) s)"
proof (induction s arbitrary: i)
  case Nil
  then show ?case by simp
next
  case (Cons x xs)
  have none: "LastIndexByte c ys = None \<Longrightarrow> c \<notin> set ys" for ys
    by (induction ys) (auto split: option.splits if_splits)
  show ?case
  proof (cases "LastIndexByte c xs")
    case None
    with Cons.prems none show ?thesis by (auto split: if_splits)
  next
    case (Some j)
    with Cons.prems Cons.IH [OF Some] show ?thesis by auto
  qed
qed

section \<open>Decimal numbers\<close>

definition digit_char :: "nat \<Rightarrow> char" where
  "digit_char d = char_of (48 + d)"

definition is_digit :: "char \<Rightarrow> bool" where
  "is_digit c \<longleftrightarrow> 48 \<le> (of_char c :: nat) \<and> (of_char c :: nat) \<le> 57"

definition digit_val :: "char \<Rightarrow> nat" where
  "digit_val c = (of_char c :: nat) - 48"

fun Utoa :: "nat \<Rightarrow> string" where
  "Utoa n = (if n < 10 then [digit_char n] else Utoa (n div 10) @ [digit_char (n mod 10)])"

declare Utoa.simps [simp del]

definition Itoa :: "int \<Rightarrow> string" where
  "Itoa n = (if n < 0 then CHR ''-'' # Utoa (nat (- n)) else Utoa (nat n))"

definition digits_val :: "string \<Rightarrow> nat" where
  "digits_val s = foldl (\<lambda>acc c. 10 * acc + digit_val c) 0 s"

text \<open>\<^verbatim>\<open>strconv.ParseUint(s, 10, 64)\<close> and \<^verbatim>\<open>strconv.ParseInt(s, 10, 64)\<close>, which
  \<^verbatim>\<open>strconv.Atoi\<close> agrees with; \<open>None\<close> is their error.\<close>

definition ParseUint64 :: "string \<Rightarrow> nat option" where
  "ParseUint64 s =
     (if s \<noteq> [] \<and> list_all is_digit s \<and> digits_val s < 2 ^ 64 then Some (digits_val s) else None)"

definition ParseInt64 :: "string \<Rightarrow> int option" where
  "ParseInt64 s =
     (let neg = (case s of c # _ \<Rightarrow> c = CHR ''-'' | [] \<Rightarrow> False);
          body = (case s of c # r \<Rightarrow> if c = CHR ''-'' \<or> c = CHR ''+'' then r else s | [] \<Rightarrow> [])
      in if body = [] \<or> \<not> list_all is_digit body then None
         else let n = (if neg then - int (digits_val body) else int (digits_val body))
              in if is_int64 n then Some n else None)"

lemma of_char_char_of_digit: "d < 10 \<Longrightarrow> (of_char (digit_char d) :: nat) = 48 + d"
  by (simp add: digit_char_def)

lemma is_digit_digit_char [simp]: "d < 10 \<Longrightarrow> is_digit (digit_char d)"
  by (simp add: is_digit_def of_char_char_of_digit)

lemma digit_val_digit_char [simp]: "d < 10 \<Longrightarrow> digit_val (digit_char d) = d"
  by (simp add: digit_val_def of_char_char_of_digit)

lemma digits_val_snoc: "digits_val (s @ [c]) = 10 * digits_val s + digit_val c"
  by (simp add: digits_val_def)

lemma digits_val_Utoa [simp]: "digits_val (Utoa n) = n"
proof (induction n rule: Utoa.induct)
  case (1 n)
  show ?case
  proof (cases "n < 10")
    case True
    then show ?thesis by (simp add: Utoa.simps [of n] digits_val_def)
  next
    case False
    with "1.IH" show ?thesis by (simp add: Utoa.simps [of n] digits_val_snoc)
  qed
qed

lemma Utoa_digits [simp]: "list_all is_digit (Utoa n)"
proof (induction n rule: Utoa.induct)
  case (1 n)
  then show ?case by (simp add: Utoa.simps [of n])
qed

lemma Utoa_not_Nil [simp]: "Utoa n \<noteq> []"
  by (simp add: Utoa.simps [of n])

lemma Utoa_no_byte: "\<not> is_digit c \<Longrightarrow> c \<notin> set (Utoa n)"
  using Utoa_digits [of n] by (auto simp: list_all_iff)

lemma ParseUint64_Utoa [simp]: "n < 2 ^ 64 \<Longrightarrow> ParseUint64 (Utoa n) = Some n"
  by (simp add: ParseUint64_def)

lemma ascii_word_digits: "list_all is_digit s \<Longrightarrow> ascii_word s"
  by (auto simp: ascii_word_def is_digit_def list_all_iff)

lemma ascii_word_Utoa [simp]: "ascii_word (Utoa n)"
  by (rule ascii_word_digits) simp

lemma Utoa_hd_digit: "\<exists>c r. Utoa n = c # r \<and> is_digit c"
  using Utoa_digits [of n] Utoa_not_Nil [of n] by (cases "Utoa n") auto

lemma ParseInt64_Itoa: "0 \<le> n \<Longrightarrow> is_int64 n \<Longrightarrow> ParseInt64 (Itoa n) = Some n"
proof -
  assume n: "0 \<le> n" "is_int64 n"
  obtain c r where u: "Utoa (nat n) = c # r" "is_digit c" using Utoa_hd_digit by blast
  then have "c \<noteq> CHR ''-'' \<and> c \<noteq> CHR ''+''" by (auto simp: is_digit_def)
  with u n show ?thesis
    using Utoa_digits [of "nat n"] digits_val_Utoa [of "nat n"]
    by (simp add: ParseInt64_def Itoa_def Let_def)
qed

section \<open>Instants and calendar dates\<close>

text \<open>
  A \<^verbatim>\<open>time.Time\<close> is the number of nanoseconds since the Unix epoch; its location only
  matters for printing, and every instant the program prints is first moved to the business
  location. \<^verbatim>\<open>internal/timeutil\<close> loads \<^verbatim>\<open>Asia/Shanghai\<close> and falls back to the fixed
  zone eight hours east of UTC; the fixed zone is the one modelled, and it agrees with the
  loaded one for every instant since 1991.
\<close>

type_synonym gotime = int

definition second :: int where "second = 1000000000"

definition zeroTime :: gotime where "zeroTime = - 62135596800 * second"

definition IsZero :: "gotime \<Rightarrow> bool" where "IsZero t \<longleftrightarrow> t = zeroTime"

definition businessOffset :: int where "businessOffset = 8 * 60 * 60 * second"

definition day_length :: int where "day_length = 86400 * second"

text \<open>The proleptic Gregorian calendar: the day number of a date counted from 1970-01-01, and
  the date of a day number.\<close>

type_synonym civil = "int \<times> int \<times> int"

definition days_from_civil :: "civil \<Rightarrow> int" where
  "days_from_civil c =
     (case c of (y, m, d) \<Rightarrow>
        let y' = (if m \<le> 2 then y - 1 else y);
            yoe = y' mod 400;
            mp = (if m > 2 then m - 3 else m + 9);
            doy = (153 * mp + 2) div 5 + d - 1;
            doe = yoe * 365 + yoe div 4 - yoe div 100 + doy
        in y' div 400 * 146097 + doe - 719468)"

definition civil_from_days :: "int \<Rightarrow> civil" where
  "civil_from_days z =
     (let z' = z + 719468;
          doe = z' mod 146097;
          yoe = (doe - doe div 1460 + doe div 36524 - doe div 146096) div 365;
          doy = doe - (365 * yoe + yoe div 4 - yoe div 100);
          mp = (5 * doy + 2) div 153;
          d = doy - (153 * mp + 2) div 5 + 1;
          m = (if mp < 10 then mp + 3 else mp - 9);
          y = yoe + z' div 146097 * 400
      in (if m \<le> 2 then y + 1 else y, m, d))"

definition is_leap :: "int \<Rightarrow> bool" where
  "is_leap y \<longleftrightarrow> y mod 4 = 0 \<and> (y mod 100 \<noteq> 0 \<or> y mod 400 = 0)"

definition days_in_month :: "int \<Rightarrow> int \<Rightarrow> int" where
  "days_in_month y m =
     (if m = 2 then (if is_leap y then 29 else 28)
      else if m \<in> {4, 6, 9, 11} then 30 else 31)"

definition valid_civil :: "civil \<Rightarrow> bool" where
  "valid_civil c \<longleftrightarrow>
     (case c of (y, m, d) \<Rightarrow> 0 \<le> y \<and> y \<le> 9999 \<and> 1 \<le> m \<and> m \<le> 12 \<and> 1 \<le> d \<and> d \<le> days_in_month y m)"

text \<open>The last decimal digit of a number, and the fixed width decimals of the layouts.\<close>

definition dchar :: "int \<Rightarrow> char" where
  "dchar n = digit_char (nat (n mod 10))"

definition dig2 :: "int \<Rightarrow> string" where
  "dig2 n = [dchar (n div 10), dchar n]"

definition dig4 :: "int \<Rightarrow> string" where
  "dig4 n = [dchar (n div 1000), dchar (n div 100), dchar (n div 10), dchar n]"

text \<open>Layout \<^verbatim>\<open>2006-01-02\<close>: a four digit year, wider or negative years in full.\<close>

definition formatDate :: "civil \<Rightarrow> string" where
  "formatDate c =
     (case c of (y, m, d) \<Rightarrow>
        (if y < 0 then CHR ''-'' # (if y > - 10000 then dig4 (- y) else Utoa (nat (- y)))
         else if y < 10000 then dig4 y else Utoa (nat y))
        @ ''-'' @ dig2 m @ ''-'' @ dig2 d)"

definition businessDate :: "gotime \<Rightarrow> civil" where
  "businessDate t = civil_from_days ((t + businessOffset) div day_length)"

definition formatBusinessDate :: "gotime \<Rightarrow> string" where
  "formatBusinessDate t = formatDate (businessDate t)"

definition num2 :: "char \<Rightarrow> char \<Rightarrow> int" where
  "num2 a b = int (10 * digit_val a + digit_val b)"

definition check_civil :: "civil \<Rightarrow> civil option" where
  "check_civil c = (if valid_civil c then Some c else None)"

text \<open>\<^verbatim>\<open>time.ParseInLocation\<close> with layouts \<^verbatim>\<open>2006-01-02\<close> and \<^verbatim>\<open>20060102\<close>.\<close>

fun parseDate10 :: "string \<Rightarrow> civil option" where
  "parseDate10 [a, b, c, d, x, e, f, y, g, h] =
     (if list_all is_digit [a, b, c, d, e, f, g, h] \<and> x = CHR ''-'' \<and> y = CHR ''-''
      then check_civil (100 * num2 a b + num2 c d, num2 e f, num2 g h) else None)"
| "parseDate10 _ = None"

fun parseDate8 :: "string \<Rightarrow> civil option" where
  "parseDate8 [a, b, c, d, e, f, g, h] =
     (if list_all is_digit [a, b, c, d, e, f, g, h]
      then check_civil (100 * num2 a b + num2 c d, num2 e f, num2 g h) else None)"
| "parseDate8 _ = None"

definition dateInstant :: "civil \<Rightarrow> gotime" where
  "dateInstant c = days_from_civil c * day_length - businessOffset"

lemma is_digit_dchar [simp]: "is_digit (dchar n)"
proof -
  have "nat (n mod 10) < 10" by linarith
  then show ?thesis by (simp add: dchar_def)
qed

lemma digit_val_dchar [simp]: "int (digit_val (dchar n)) = n mod 10"
proof -
  have "nat (n mod 10) < 10" by linarith
  then show ?thesis by (simp add: dchar_def)
qed

lemma num2_dchar [simp]: "num2 (dchar a) (dchar b) = 10 * (a mod 10) + b mod 10"
  by (simp add: num2_def)

lemma decimal2:
  fixes n :: int
  assumes "0 \<le> n" and "n < 100"
  shows "10 * (n div 10 mod 10) + n mod 10 = n"
proof -
  from assms have "0 \<le> n div 10" and "n div 10 < 10" by linarith+
  then show ?thesis by (simp add: mod_pos_pos_trivial)
qed

lemma decimal4:
  fixes n :: int
  assumes "0 \<le> n" and "n < 10000"
  shows "100 * (10 * (n div 1000 mod 10) + n div 100 mod 10) + (10 * (n div 10 mod 10) + n mod 10) = n"
proof -
  have h: "n div 1000 = n div 100 div 10" by (simp add: zdiv_zmult2_eq [symmetric])
  have u: "10 * (n div 100 div 10 mod 10) + n div 100 mod 10 = n div 100"
    using assms by (intro decimal2) auto
  have l: "10 * (n div 10 mod 10) + n mod 10 = n mod 100"
    using zmod_zmult2_eq [of 10 n 10] by simp
  show ?thesis by (simp only: h u l mult_div_mod_eq)
qed

lemma parseDate10_formatDate:
  assumes "valid_civil c"
  shows "parseDate10 (formatDate c) = Some c"
proof -
  obtain y m d where c: "c = (y, m, d)" by (cases c)
  from assms c have b: "0 \<le> y" "y < 10000" "1 \<le> m" "m \<le> 12" "1 \<le> d" "d \<le> 31"
    by (auto simp: valid_civil_def days_in_month_def split: if_splits)
  then have f: "formatDate c = dig4 y @ ''-'' @ dig2 m @ ''-'' @ dig2 d"
    by (simp add: formatDate_def c)
  from b have "10 * (m div 10 mod 10) + m mod 10 = m" "10 * (d div 10 mod 10) + d mod 10 = d"
    by (auto intro: decimal2)
  with decimal4 [OF b(1,2)] have "parseDate10 (formatDate c) = check_civil (y, m, d)"
    by (simp only: f dig4_def dig2_def append.simps parseDate10.simps num2_dchar list.pred_inject
        is_digit_dchar if_True simp_thms)
  with assms c show ?thesis by (simp add: check_civil_def)
qed

lemma parseDate10_valid: "parseDate10 s = Some c \<Longrightarrow> valid_civil c"
  by (cases s rule: parseDate10.cases) (auto simp: check_civil_def split: if_splits)

lemma parseDate8_valid: "parseDate8 s = Some c \<Longrightarrow> valid_civil c"
  by (cases s rule: parseDate8.cases) (auto simp: check_civil_def split: if_splits)

lemma length_formatDate: "valid_civil c \<Longrightarrow> length (formatDate c) = 10"
  by (auto simp: formatDate_def valid_civil_def dig4_def dig2_def)

lemma ascii_dchar: "32 < (of_char (dchar n) :: nat) \<and> (of_char (dchar n) :: nat) < 127"
  using is_digit_dchar [of n] by (simp add: is_digit_def)

lemma ascii_word_formatDate: "valid_civil c \<Longrightarrow> ascii_word (formatDate c)"
  by (auto simp: formatDate_def valid_civil_def dig4_def dig2_def ascii_dchar)

section \<open>Errors\<close>

text \<open>
  One constructor per error value the modelled packages create or test for with
  \<^verbatim>\<open>errors.Is\<close>. A wrapped sentinel keeps the arguments of its message.
\<close>

datatype error =
    ErrInvalidSchema string string
  | ErrOrderAt nat error
  | ErrRouteNotFound string
  | ErrAccountDisabled string
  | ErrTradingDisabled string
  | ErrOrderTerminalNotCancelable string string string
  | ErrOrderWithoutLeavesNotCancelable string string
  | ErrDuplicateGatewayOrder string
  | ErrIdempotencyConflict string
  | ErrUnsupportedBusinessType
  | ErrMissingLedger
  | ErrMissingPublisher
  | ErrInvalidLedgerInput string
  | ErrOrderConflict string string string
  | ErrOrderNotFound string
  | ErrArchivedCommandNotFound
  | ErrStreamCheckpointNotFound
  | ErrAssetNotFound string
  | ErrUnsupportedAction string
  | ErrArchivedCommand string
  | ErrJSON string
  | ErrDatabase string
  | ErrPublish string
  | ErrPayload string
  | ErrText string

text \<open>\<^verbatim>\<open>errors.Is\<close> against the sentinels the code tests for.\<close>

fun is_ErrOrderNotFound_err :: "error \<Rightarrow> bool" where
  "is_ErrOrderNotFound_err (ErrOrderNotFound _) = True"
| "is_ErrOrderNotFound_err (ErrOrderAt _ e) = is_ErrOrderNotFound_err e"
| "is_ErrOrderNotFound_err _ = False"

fun is_ErrOrderConflict_err :: "error \<Rightarrow> bool" where
  "is_ErrOrderConflict_err (ErrOrderConflict _ _ _) = True"
| "is_ErrOrderConflict_err (ErrOrderAt _ e) = is_ErrOrderConflict_err e"
| "is_ErrOrderConflict_err _ = False"

fun is_ErrArchivedCommandNotFound_err :: "error \<Rightarrow> bool" where
  "is_ErrArchivedCommandNotFound_err ErrArchivedCommandNotFound = True"
| "is_ErrArchivedCommandNotFound_err (ErrOrderAt _ e) = is_ErrArchivedCommandNotFound_err e"
| "is_ErrArchivedCommandNotFound_err _ = False"

section \<open>Failing computations over a state\<close>

text \<open>
  A Go function that changes state and returns a value and an error is a function from the
  state to a result and the new state: the error leaves the changes made before it.
\<close>

type_synonym ('s, 'a) act = "'s \<Rightarrow> (error + 'a) \<times> 's"

definition ret :: "'a \<Rightarrow> ('s, 'a) act" where
  "ret x s = (Inr x, s)"

definition raise :: "error \<Rightarrow> ('s, 'a) act" where
  "raise e s = (Inl e, s)"

definition of_res :: "error + 'a \<Rightarrow> ('s, 'a) act" where
  "of_res r s = (r, s)"

definition of_total :: "('s \<Rightarrow> 'a \<times> 's) \<Rightarrow> ('s, 'a) act" where
  "of_total f s = (case f s of (x, s') \<Rightarrow> (Inr x, s'))"

definition seq :: "('s, 'a) act \<Rightarrow> ('a \<Rightarrow> ('s, 'b) act) \<Rightarrow> ('s, 'b) act" where
  "seq m f s = (case m s of (Inl e, s') \<Rightarrow> (Inl e, s') | (Inr x, s') \<Rightarrow> f x s')"

text \<open>Run a computation and hand its error, if any, to the code that follows.\<close>

definition attempt :: "('s, 'a) act \<Rightarrow> (error + 'a \<Rightarrow> ('s, 'b) act) \<Rightarrow> ('s, 'b) act" where
  "attempt m f s = (case m s of (r, s') \<Rightarrow> f r s')"

lemma ret_apply [simp, go_act]: "ret x s = (Inr x, s)"
  by (simp add: ret_def)

lemma raise_apply [simp, go_act]: "raise e s = (Inl e, s)"
  by (simp add: raise_def)

lemma of_res_Inl [simp, go_act]: "of_res (Inl e) s = (Inl e, s)"
  by (simp add: of_res_def)

lemma of_res_Inr [simp, go_act]: "of_res (Inr x) s = (Inr x, s)"
  by (simp add: of_res_def)

lemma seq_Inl [simp, go_act]: "m s = (Inl e, s') \<Longrightarrow> seq m f s = (Inl e, s')"
  by (simp add: seq_def)

lemma seq_Inr [simp, go_act]: "m s = (Inr x, s') \<Longrightarrow> seq m f s = f x s'"
  by (simp add: seq_def)

lemma attempt_eq [simp, go_act]: "m s = (r, s') \<Longrightarrow> attempt m f s = f r s'"
  by (simp add: attempt_def)

lemma seq_InrE:
  assumes "seq m f s = (Inr y, t)"
  obtains x s' where "m s = (Inr x, s')" and "f x s' = (Inr y, t)"
  using assms by (auto simp: seq_def split: prod.splits sum.splits)

lemma seq_split:
  "P (seq m f s) \<longleftrightarrow>
     (\<forall>e s'. m s = (Inl e, s') \<longrightarrow> P (Inl e, s')) \<and> (\<forall>x s'. m s = (Inr x, s') \<longrightarrow> P (f x s'))"
  by (auto simp: seq_def split: prod.splits sum.splits)

lemma attemptE:
  assumes "attempt m f s = r"
  obtains x s' where "m s = (x, s')" and "f x s' = r"
  using assms by (auto simp: attempt_def split: prod.splits)

text \<open>A property of states that every step of a computation keeps is kept by the whole. This
  is the rule the invariant proofs of the services compose with.\<close>

definition keeps :: "('s \<Rightarrow> bool) \<Rightarrow> ('s, 'a) act \<Rightarrow> bool" where
  "keeps I m \<longleftrightarrow> (\<forall>s. I s \<longrightarrow> I (snd (m s)))"

named_theorems keeps_intro \<open>composition rules of the invariant calculus\<close>

lemma keepsI: "(\<And>s. I s \<Longrightarrow> I (snd (m s))) \<Longrightarrow> keeps I m"
  by (simp add: keeps_def)

lemma keepsD: "keeps I m \<Longrightarrow> I s \<Longrightarrow> m s = (r, t) \<Longrightarrow> I t"
  by (auto simp: keeps_def dest: spec [where x = s])

lemma keeps_ret [keeps_intro, simp]: "keeps I (ret x)"
  by (simp add: keeps_def)

lemma keeps_raise [keeps_intro, simp]: "keeps I (raise e)"
  by (simp add: keeps_def)

lemma keeps_of_res [keeps_intro, simp]: "keeps I (of_res r)"
  by (simp add: keeps_def of_res_def)

lemma keeps_of_total: "(\<And>s. I s \<Longrightarrow> I (snd (f s))) \<Longrightarrow> keeps I (of_total f)"
  by (simp add: keeps_def of_total_def split_beta)

lemma keeps_seq [keeps_intro]: "keeps I m \<Longrightarrow> (\<And>x. keeps I (f x)) \<Longrightarrow> keeps I (seq m f)"
  by (auto simp: keeps_def seq_def split: prod.splits sum.splits)

text \<open>The same when the second part relies on what the first one returns.\<close>

lemma keeps_seq_res:
  "keeps I m \<Longrightarrow> (\<And>x s t. m s = (Inr x, t) \<Longrightarrow> keeps I (f x)) \<Longrightarrow> keeps I (seq m f)"
  unfolding keeps_def seq_def by (auto split: prod.splits sum.splits)

lemma keeps_attempt [keeps_intro]:
  "keeps I m \<Longrightarrow> (\<And>r. keeps I (f r)) \<Longrightarrow> keeps I (attempt m f)"
  by (auto simp: keeps_def attempt_def split: prod.splits)

lemma keeps_if [keeps_intro]: "keeps I m \<Longrightarrow> keeps I n \<Longrightarrow> keeps I (if b then m else n)"
  by simp

lemma keeps_cases: "(b \<Longrightarrow> keeps I m) \<Longrightarrow> (\<not> b \<Longrightarrow> keeps I n) \<Longrightarrow> keeps I (if b then m else n)"
  by simp

lemma keeps_sum_case [keeps_intro]:
  "(\<And>e. keeps I (f e)) \<Longrightarrow> (\<And>x. keeps I (g x)) \<Longrightarrow> keeps I (case r of Inl e \<Rightarrow> f e | Inr x \<Rightarrow> g x)"
  by (cases r) simp_all

lemma keeps_option_case [keeps_intro]:
  "keeps I f \<Longrightarrow> (\<And>x. keeps I (g x)) \<Longrightarrow> keeps I (case r of None \<Rightarrow> f | Some x \<Rightarrow> g x)"
  by (cases r) simp_all

lemma keeps_prod_case [keeps_intro]:
  "(\<And>x y. keeps I (f x y)) \<Longrightarrow> keeps I (case r of (x, y) \<Rightarrow> f x y)"
  by (cases r) simp

lemma keeps_Let [keeps_intro]: "(\<And>x. keeps I (f x)) \<Longrightarrow> keeps I (Let v f)"
  by simp

text \<open>A computation stays in a relation when it relates every state with the state it leaves.\<close>

definition stays :: "('s \<Rightarrow> 's \<Rightarrow> bool) \<Rightarrow> ('s, 'a) act \<Rightarrow> bool" where
  "stays R m \<longleftrightarrow> (\<forall>s. R s (snd (m s)))"

lemma staysI: "(\<And>s. R s (snd (m s))) \<Longrightarrow> stays R m"
  by (simp add: stays_def)

lemma staysD: "stays R m \<Longrightarrow> m s = (r, t) \<Longrightarrow> R s t"
  by (metis stays_def snd_conv)

lemma stays_snd: "stays R m \<Longrightarrow> R s (snd (m s))"
  by (simp add: stays_def)

locale world_preorder =
  fixes R :: "'s \<Rightarrow> 's \<Rightarrow> bool"
  assumes R_refl: "R s s" and R_trans: "R s t \<Longrightarrow> R t u \<Longrightarrow> R s u"
begin

lemma ret: "stays R (ret x)"
  by (simp add: stays_def R_refl)

lemma raise: "stays R (raise e)"
  by (simp add: stays_def R_refl)

lemma of_res: "stays R (of_res r)"
  by (simp add: stays_def of_res_def R_refl)

lemma seq: "stays R m \<Longrightarrow> (\<And>x. stays R (f x)) \<Longrightarrow> stays R (seq m f)"
  by (auto simp: stays_def seq_def split: prod.splits sum.splits) (metis R_trans snd_conv)+

lemma attempt: "stays R m \<Longrightarrow> (\<And>r. stays R (f r)) \<Longrightarrow> stays R (attempt m f)"
  by (auto simp: stays_def attempt_def split: prod.splits) (metis R_trans snd_conv)

lemma if_act: "stays R m \<Longrightarrow> stays R n \<Longrightarrow> stays R (if b then m else n)"
  by simp

lemma sum_case: "(\<And>e. stays R (f e)) \<Longrightarrow> (\<And>x. stays R (g x)) \<Longrightarrow>
    stays R (case r of Inl e \<Rightarrow> f e | Inr x \<Rightarrow> g x)"
  by (cases r) simp_all

lemma option_case: "stays R f \<Longrightarrow> (\<And>x. stays R (g x)) \<Longrightarrow>
    stays R (case r of None \<Rightarrow> f | Some x \<Rightarrow> g x)"
  by (cases r) simp_all

lemma let_act: "(\<And>x. stays R (f x)) \<Longrightarrow> stays R (Let v f)"
  by simp

lemma prod_case: "(\<And>x y. stays R (f x y)) \<Longrightarrow> stays R (case r of (x, y) \<Rightarrow> f x y)"
  by (cases r) simp

lemma list_case: "stays R f \<Longrightarrow> (\<And>x xs. stays R (g x xs)) \<Longrightarrow>
    stays R (case r of [] \<Rightarrow> f | x # xs \<Rightarrow> g x xs)"
  by (cases r) simp_all

lemmas rules = ret raise of_res seq attempt if_act sum_case option_case prod_case list_case let_act

end

end
