(* ===== verification/Go_Float.thy ===== *)
theory Go_Float
  imports Complex_Main "HOL-Library.Log_Nat"
begin

text \<open>
  \<^verbatim>\<open>float64\<close>: the IEEE 754 binary64 values as exact rationals with the three special values,
  Go's comparisons on them, and rounding to nearest, ties to even, of an exact rational. The
  two zeros are one value here: they compare equal in Go, and the modelled code neither
  divides by a zero nor reads a sign bit.
\<close>

datatype float64 = NaN | PosInf | NegInf | Fin rat

text \<open>Go's \<^verbatim>\<open><\<close>, \<^verbatim>\<open><=\<close> and \<^verbatim>\<open>==\<close>: every comparison with a NaN is false.\<close>

fun flt :: "float64 \<Rightarrow> float64 \<Rightarrow> bool" where
  "flt (Fin a) (Fin b) = (a < b)"
| "flt NegInf (Fin _) = True"
| "flt NegInf PosInf = True"
| "flt (Fin _) PosInf = True"
| "flt _ _ = False"

fun feq :: "float64 \<Rightarrow> float64 \<Rightarrow> bool" where
  "feq (Fin a) (Fin b) = (a = b)"
| "feq PosInf PosInf = True"
| "feq NegInf NegInf = True"
| "feq _ _ = False"

definition fle :: "float64 \<Rightarrow> float64 \<Rightarrow> bool" where
  "fle a b \<longleftrightarrow> flt a b \<or> feq a b"

definition fzero :: float64 where "fzero = Fin 0"

definition finite_float :: "float64 \<Rightarrow> bool" where
  "finite_float x \<longleftrightarrow> (case x of Fin _ \<Rightarrow> True | _ \<Rightarrow> False)"

lemma feq_refl: "feq x x \<longleftrightarrow> x \<noteq> NaN"
  by (cases x) auto

lemma feq_eq: "feq x y \<Longrightarrow> x = y"
  by (cases x; cases y) auto

lemma flt_irrefl [simp]: "\<not> flt x x"
  by (cases x) auto

lemma positive_not_NaN: "flt fzero x \<Longrightarrow> x \<noteq> NaN"
  by (auto simp: fzero_def)

text \<open>A price test \<^verbatim>\<open>price <= 0\<close> of the code is false for a NaN as well as for a positive
  value.\<close>

lemma not_fle_fzero: "\<not> fle x fzero \<longleftrightarrow> flt fzero x \<or> x = NaN"
  by (cases x) (auto simp: fle_def fzero_def)

definition pow2 :: "int \<Rightarrow> rat" where
  "pow2 k = (if 0 \<le> k then 2 ^ nat k else 1 / 2 ^ nat (- k))"

text \<open>The binary exponent of a positive rational: \<open>pow2 e \<le> q < pow2 (e + 1)\<close>.\<close>

definition rat_exponent :: "rat \<Rightarrow> int" where
  "rat_exponent q =
     (case quotient_of q of (a, b) \<Rightarrow>
        let k = int (floorlog 2 (nat a)) - int (floorlog 2 (nat b))
        in if pow2 k \<le> q then k else k - 1)"

definition round_half_even :: "rat \<Rightarrow> int" where
  "round_half_even x =
     (let f = floor x; r = x - of_int f
      in if r < 1 / 2 then f else if r > 1 / 2 then f + 1 else if even f then f else f + 1)"

definition round64 :: "rat \<Rightarrow> float64" where
  "round64 q =
     (if q = 0 then Fin 0
      else let a = \<bar>q\<bar>;
               k = max (rat_exponent a - 52) (- 1074);
               v = of_int (round_half_even (a / pow2 k)) * pow2 k
           in if v \<ge> pow2 1024 then (if q > 0 then PosInf else NegInf)
              else Fin (if q > 0 then v else - v))"

text \<open>Conversion of an \<^verbatim>\<open>int64\<close>: exact up to 2 ^ 53.\<close>

definition float_of_int :: "int \<Rightarrow> float64" where
  "float_of_int n = round64 (of_int n)"

lemma round_half_even_of_int [simp]: "round_half_even (of_int n) = n"
  by (simp add: round_half_even_def)

lemma pow2_pos [simp]: "0 < pow2 k"
  by (simp add: pow2_def)

lemma rat_exponent_of_int:
  assumes "0 < n" and "n < 2 ^ 53"
  shows "rat_exponent (of_int n) \<le> 52"
proof -
  have q: "quotient_of (of_int n :: rat) = (n, 1)" by simp
  have "nat n < 2 ^ 53" using assms by (simp add: nat_less_iff)
  then have "floorlog 2 (nat n) \<le> 53" by (simp add: floorlog_le_iff)
  moreover have "floorlog 2 (nat 1) = 1" by (simp add: floorlog_eq_zero_iff compute_floorlog)
  ultimately have k: "int (floorlog 2 (nat n)) - int (floorlog 2 (nat 1)) \<le> 52" by simp
  then show ?thesis by (auto simp: rat_exponent_def q Let_def)
qed

lemma round64_of_int_pos:
  assumes "0 < n" and "n < 2 ^ 53"
  shows "round64 (of_int n) = Fin (of_int n)"
proof -
  define k where "k = max (rat_exponent (of_int n) - 52) (- 1074)"
  have k: "k \<le> 0" using rat_exponent_of_int [OF assms] by (simp add: k_def)
  have div: "of_int n / pow2 k = (of_int (n * 2 ^ nat (- k)) :: rat)"
    using k by (auto simp: pow2_def)
  have v: "of_int (round_half_even (of_int n / pow2 k)) * pow2 k = (of_int n :: rat)"
    using k by (auto simp: div simp del: of_int_mult) (auto simp: pow2_def)
  have "(of_int n :: rat) < of_int (2 ^ 53)" using assms(2) of_int_less_iff by blast
  also have "\<dots> \<le> pow2 1024" by (simp add: pow2_def power_increasing)
  finally show ?thesis using assms(1) v
    by (simp add: round64_def Let_def k_def [symmetric])
qed

lemma round64_minus: "round64 (- q) = (case round64 q of Fin v \<Rightarrow> Fin (- v) | PosInf \<Rightarrow> NegInf
    | NegInf \<Rightarrow> PosInf | NaN \<Rightarrow> NaN)"
  by (auto simp: round64_def Let_def)

lemma float_of_int_exact:
  assumes "\<bar>n\<bar> < 2 ^ 53"
  shows "float_of_int n = Fin (of_int n)"
proof (cases n "0 :: int" rule: linorder_cases)
  case less
  with assms have "round64 (of_int (- n)) = Fin (of_int (- n))"
    by (intro round64_of_int_pos) auto
  then show ?thesis
    using round64_minus [of "of_int (- n)"] by (simp add: float_of_int_def)
next
  case equal
  then show ?thesis by (simp add: float_of_int_def round64_def)
next
  case greater
  with assms show ?thesis by (simp add: float_of_int_def round64_of_int_pos)
qed

section \<open>Arithmetic\<close>

text \<open>Sum, difference, product and \<^verbatim>\<open>math.Abs\<close>: the exact result is rounded.\<close>

fun fneg :: "float64 \<Rightarrow> float64" where
  "fneg NaN = NaN"
| "fneg PosInf = NegInf"
| "fneg NegInf = PosInf"
| "fneg (Fin a) = Fin (- a)"

fun fadd :: "float64 \<Rightarrow> float64 \<Rightarrow> float64" where
  "fadd (Fin a) (Fin b) = round64 (a + b)"
| "fadd NaN _ = NaN"
| "fadd _ NaN = NaN"
| "fadd PosInf NegInf = NaN"
| "fadd NegInf PosInf = NaN"
| "fadd PosInf _ = PosInf"
| "fadd _ PosInf = PosInf"
| "fadd NegInf _ = NegInf"
| "fadd _ NegInf = NegInf"

definition fsub :: "float64 \<Rightarrow> float64 \<Rightarrow> float64" where
  "fsub a b = fadd a (fneg b)"

fun fsign :: "float64 \<Rightarrow> int" where
  "fsign NaN = 0"
| "fsign PosInf = 1"
| "fsign NegInf = - 1"
| "fsign (Fin a) = (if 0 < a then 1 else if a < 0 then - 1 else 0)"

fun fmul :: "float64 \<Rightarrow> float64 \<Rightarrow> float64" where
  "fmul (Fin a) (Fin b) = round64 (a * b)"
| "fmul NaN _ = NaN"
| "fmul _ NaN = NaN"
| "fmul a b = (if fsign a * fsign b = 0 then NaN else if fsign a * fsign b > 0 then PosInf else NegInf)"

fun fabs :: "float64 \<Rightarrow> float64" where
  "fabs NegInf = PosInf"
| "fabs (Fin a) = Fin \<bar>a\<bar>"
| "fabs x = x"

text \<open>Quotient by a value that is not zero, and \<^verbatim>\<open>math.Round\<close>, which rounds halves away from zero.\<close>

fun fdiv :: "float64 \<Rightarrow> float64 \<Rightarrow> float64" where
  "fdiv (Fin a) (Fin b) = (if b = 0 then NaN else round64 (a / b))"
| "fdiv NaN _ = NaN"
| "fdiv _ NaN = NaN"
| "fdiv (Fin a) _ = Fin 0"
| "fdiv a (Fin b) = (if b < 0 then fneg a else a)"
| "fdiv _ _ = NaN"

fun fround :: "float64 \<Rightarrow> float64" where
  "fround (Fin a) = Fin (of_int (if 0 \<le> a then floor (a + 1 / 2) else - floor (1 / 2 - a)))"
| "fround x = x"

end
