(* ===== verification/Trading.thy ===== *)
theory Trading
  imports Go_Prelude Go_Float
begin

text \<open>
  Package \<^verbatim>\<open>internal/trading\<close>: the trading schema (\<^verbatim>\<open>schema.go\<close>) and its validation
  (\<^verbatim>\<open>validation.go\<close>). The string typed enumerations stay strings, since values outside the
  declared constants reach the code from JSON and from the database; a struct is a record whose
  fields carry a prefix for the struct.
\<close>

section \<open>Enumerations\<close>

type_synonym Exchange = string
type_synonym TradeSide = string
type_synonym BusinessType = string
type_synonym OffsetType = string
type_synonym AccountStatus = string
type_synonym OrderStatus = string
type_synonym GatewayStatus = string
type_synonym ReplyStatus = string
type_synonym EventType = string
type_synonym ErrorCode = string

definition ExchangeSH :: Exchange where "ExchangeSH = ''SH''"
definition ExchangeSZ :: Exchange where "ExchangeSZ = ''SZ''"
definition ExchangeBJ :: Exchange where "ExchangeBJ = ''BJ''"

definition TradeSideBuy :: TradeSide where "TradeSideBuy = ''B''"
definition TradeSideSell :: TradeSide where "TradeSideSell = ''S''"
definition TradeSidePurchase :: TradeSide where "TradeSidePurchase = ''P''"
definition TradeSideRedemption :: TradeSide where "TradeSideRedemption = ''R''"

definition BusinessTypeStock :: BusinessType where "BusinessTypeStock = ''S''"
definition BusinessTypeETF :: BusinessType where "BusinessTypeETF = ''E''"

definition OffsetTypeOpen :: OffsetType where "OffsetTypeOpen = ''O''"
definition OffsetTypeClose :: OffsetType where "OffsetTypeClose = ''C''"

definition AccountStatusEnabled :: AccountStatus where "AccountStatusEnabled = ''enabled''"
definition AccountStatusDisabled :: AccountStatus where "AccountStatusDisabled = ''disabled''"

definition OrderStatusCreated :: OrderStatus where "OrderStatusCreated = ''created''"
definition OrderStatusAccepted :: OrderStatus where "OrderStatusAccepted = ''accepted''"
definition OrderStatusWorking :: OrderStatus where "OrderStatusWorking = ''working''"
definition OrderStatusPartiallyFilled :: OrderStatus where "OrderStatusPartiallyFilled = ''partially_filled''"
definition OrderStatusFilled :: OrderStatus where "OrderStatusFilled = ''filled''"
definition OrderStatusCancelled :: OrderStatus where "OrderStatusCancelled = ''cancelled''"
definition OrderStatusRejected :: OrderStatus where "OrderStatusRejected = ''rejected''"

definition GatewayStatusAccepted :: GatewayStatus where "GatewayStatusAccepted = ''accepted''"
definition GatewayStatusWorking :: GatewayStatus where "GatewayStatusWorking = ''working''"
definition GatewayStatusFilled :: GatewayStatus where "GatewayStatusFilled = ''filled''"
definition GatewayStatusCancelled :: GatewayStatus where "GatewayStatusCancelled = ''cancelled''"
definition GatewayStatusRejected :: GatewayStatus where "GatewayStatusRejected = ''rejected''"

definition ReplyStatusAccepted :: ReplyStatus where "ReplyStatusAccepted = ''accepted''"
definition ReplyStatusPartial :: ReplyStatus where "ReplyStatusPartial = ''partial''"
definition ReplyStatusCompleted :: ReplyStatus where "ReplyStatusCompleted = ''completed''"
definition ReplyStatusRejected :: ReplyStatus where "ReplyStatusRejected = ''rejected''"
definition ReplyStatusFailed :: ReplyStatus where "ReplyStatusFailed = ''failed''"

definition ErrorBrokerNotReady :: ErrorCode where "ErrorBrokerNotReady = ''BROKER_NOT_READY''"
definition ErrorCancelResponseTimeout :: ErrorCode where "ErrorCancelResponseTimeout = ''CANCEL_RESPONSE_TIMEOUT''"
definition ErrorCommandOutcomeUnknown :: ErrorCode where "ErrorCommandOutcomeUnknown = ''COMMAND_OUTCOME_UNKNOWN''"

definition EventTypeOrder :: EventType where "EventTypeOrder = ''order.event''"

text \<open>The constants of one enumeration are pairwise different and none is the empty string; the
  proofs use these facts and never the spelling.\<close>

lemmas Exchange_consts = ExchangeSH_def ExchangeSZ_def ExchangeBJ_def

lemma Exchange_nonempty [simp]:
  "ExchangeSH \<noteq> []"
  "ExchangeSZ \<noteq> []"
  "ExchangeBJ \<noteq> []"
  "[] \<noteq> ExchangeSH" "[] \<noteq> ExchangeSZ" "[] \<noteq> ExchangeBJ"
  by (simp_all add: Exchange_consts)

lemma Exchange_distinct [simp]:
  "ExchangeSH \<noteq> ExchangeSZ"
  "ExchangeSH \<noteq> ExchangeBJ"
  "ExchangeSZ \<noteq> ExchangeSH"
  "ExchangeSZ \<noteq> ExchangeBJ"
  "ExchangeBJ \<noteq> ExchangeSH"
  "ExchangeBJ \<noteq> ExchangeSZ"
  by (simp_all add: Exchange_consts)

lemmas TradeSide_consts = TradeSideBuy_def TradeSideSell_def TradeSidePurchase_def
  TradeSideRedemption_def

lemma TradeSide_nonempty [simp]:
  "TradeSideBuy \<noteq> []"
  "TradeSideSell \<noteq> []"
  "TradeSidePurchase \<noteq> []"
  "TradeSideRedemption \<noteq> []"
  "[] \<noteq> TradeSideBuy"
  "[] \<noteq> TradeSideSell"
  "[] \<noteq> TradeSidePurchase"
  "[] \<noteq> TradeSideRedemption"
  by (simp_all add: TradeSide_consts)

lemma TradeSide_distinct [simp]:
  "TradeSideBuy \<noteq> TradeSideSell"
  "TradeSideBuy \<noteq> TradeSidePurchase"
  "TradeSideBuy \<noteq> TradeSideRedemption"
  "TradeSideSell \<noteq> TradeSideBuy"
  "TradeSideSell \<noteq> TradeSidePurchase"
  "TradeSideSell \<noteq> TradeSideRedemption"
  "TradeSidePurchase \<noteq> TradeSideBuy"
  "TradeSidePurchase \<noteq> TradeSideSell"
  "TradeSidePurchase \<noteq> TradeSideRedemption"
  "TradeSideRedemption \<noteq> TradeSideBuy"
  "TradeSideRedemption \<noteq> TradeSideSell"
  "TradeSideRedemption \<noteq> TradeSidePurchase"
  by (simp_all add: TradeSide_consts)

lemmas BusinessType_consts = BusinessTypeStock_def BusinessTypeETF_def

lemma BusinessType_nonempty [simp]:
  "BusinessTypeStock \<noteq> []"
  "BusinessTypeETF \<noteq> []"
  "[] \<noteq> BusinessTypeStock" "[] \<noteq> BusinessTypeETF"
  by (simp_all add: BusinessType_consts)

lemma BusinessType_distinct [simp]:
  "BusinessTypeStock \<noteq> BusinessTypeETF"
  "BusinessTypeETF \<noteq> BusinessTypeStock"
  by (simp_all add: BusinessType_consts)

lemmas OffsetType_consts = OffsetTypeOpen_def OffsetTypeClose_def

lemma OffsetType_nonempty [simp]:
  "OffsetTypeOpen \<noteq> []"
  "OffsetTypeClose \<noteq> []"
  "[] \<noteq> OffsetTypeOpen" "[] \<noteq> OffsetTypeClose"
  by (simp_all add: OffsetType_consts)

lemma OffsetType_distinct [simp]:
  "OffsetTypeOpen \<noteq> OffsetTypeClose"
  "OffsetTypeClose \<noteq> OffsetTypeOpen"
  by (simp_all add: OffsetType_consts)

lemmas AccountStatus_consts = AccountStatusEnabled_def AccountStatusDisabled_def

lemma AccountStatus_nonempty [simp]:
  "AccountStatusEnabled \<noteq> []"
  "AccountStatusDisabled \<noteq> []"
  "[] \<noteq> AccountStatusEnabled" "[] \<noteq> AccountStatusDisabled"
  by (simp_all add: AccountStatus_consts)

lemma AccountStatus_distinct [simp]:
  "AccountStatusEnabled \<noteq> AccountStatusDisabled"
  "AccountStatusDisabled \<noteq> AccountStatusEnabled"
  by (simp_all add: AccountStatus_consts)

lemmas OrderStatus_consts = OrderStatusCreated_def OrderStatusAccepted_def OrderStatusWorking_def
  OrderStatusPartiallyFilled_def OrderStatusFilled_def OrderStatusCancelled_def
  OrderStatusRejected_def

lemma OrderStatus_nonempty [simp]:
  "OrderStatusCreated \<noteq> []"
  "OrderStatusAccepted \<noteq> []"
  "OrderStatusWorking \<noteq> []"
  "OrderStatusPartiallyFilled \<noteq> []"
  "OrderStatusFilled \<noteq> []"
  "OrderStatusCancelled \<noteq> []"
  "OrderStatusRejected \<noteq> []"
  "[] \<noteq> OrderStatusCreated"
  "[] \<noteq> OrderStatusAccepted"
  "[] \<noteq> OrderStatusWorking"
  "[] \<noteq> OrderStatusPartiallyFilled"
  "[] \<noteq> OrderStatusFilled"
  "[] \<noteq> OrderStatusCancelled"
  "[] \<noteq> OrderStatusRejected"
  by (simp_all add: OrderStatus_consts)

lemma OrderStatus_distinct [simp]:
  "OrderStatusCreated \<noteq> OrderStatusAccepted"
  "OrderStatusCreated \<noteq> OrderStatusWorking"
  "OrderStatusCreated \<noteq> OrderStatusPartiallyFilled"
  "OrderStatusCreated \<noteq> OrderStatusFilled"
  "OrderStatusCreated \<noteq> OrderStatusCancelled"
  "OrderStatusCreated \<noteq> OrderStatusRejected"
  "OrderStatusAccepted \<noteq> OrderStatusCreated"
  "OrderStatusAccepted \<noteq> OrderStatusWorking"
  "OrderStatusAccepted \<noteq> OrderStatusPartiallyFilled"
  "OrderStatusAccepted \<noteq> OrderStatusFilled"
  "OrderStatusAccepted \<noteq> OrderStatusCancelled"
  "OrderStatusAccepted \<noteq> OrderStatusRejected"
  "OrderStatusWorking \<noteq> OrderStatusCreated"
  "OrderStatusWorking \<noteq> OrderStatusAccepted"
  "OrderStatusWorking \<noteq> OrderStatusPartiallyFilled"
  "OrderStatusWorking \<noteq> OrderStatusFilled"
  "OrderStatusWorking \<noteq> OrderStatusCancelled"
  "OrderStatusWorking \<noteq> OrderStatusRejected"
  "OrderStatusPartiallyFilled \<noteq> OrderStatusCreated"
  "OrderStatusPartiallyFilled \<noteq> OrderStatusAccepted"
  "OrderStatusPartiallyFilled \<noteq> OrderStatusWorking"
  "OrderStatusPartiallyFilled \<noteq> OrderStatusFilled"
  "OrderStatusPartiallyFilled \<noteq> OrderStatusCancelled"
  "OrderStatusPartiallyFilled \<noteq> OrderStatusRejected"
  "OrderStatusFilled \<noteq> OrderStatusCreated"
  "OrderStatusFilled \<noteq> OrderStatusAccepted"
  "OrderStatusFilled \<noteq> OrderStatusWorking"
  "OrderStatusFilled \<noteq> OrderStatusPartiallyFilled"
  "OrderStatusFilled \<noteq> OrderStatusCancelled"
  "OrderStatusFilled \<noteq> OrderStatusRejected"
  "OrderStatusCancelled \<noteq> OrderStatusCreated"
  "OrderStatusCancelled \<noteq> OrderStatusAccepted"
  "OrderStatusCancelled \<noteq> OrderStatusWorking"
  "OrderStatusCancelled \<noteq> OrderStatusPartiallyFilled"
  "OrderStatusCancelled \<noteq> OrderStatusFilled"
  "OrderStatusCancelled \<noteq> OrderStatusRejected"
  "OrderStatusRejected \<noteq> OrderStatusCreated"
  "OrderStatusRejected \<noteq> OrderStatusAccepted"
  "OrderStatusRejected \<noteq> OrderStatusWorking"
  "OrderStatusRejected \<noteq> OrderStatusPartiallyFilled"
  "OrderStatusRejected \<noteq> OrderStatusFilled"
  "OrderStatusRejected \<noteq> OrderStatusCancelled"
  by (simp_all add: OrderStatus_consts)

lemmas GatewayStatus_consts = GatewayStatusAccepted_def GatewayStatusWorking_def
  GatewayStatusFilled_def GatewayStatusCancelled_def GatewayStatusRejected_def

lemma GatewayStatus_nonempty [simp]:
  "GatewayStatusAccepted \<noteq> []"
  "GatewayStatusWorking \<noteq> []"
  "GatewayStatusFilled \<noteq> []"
  "GatewayStatusCancelled \<noteq> []"
  "GatewayStatusRejected \<noteq> []"
  "[] \<noteq> GatewayStatusAccepted"
  "[] \<noteq> GatewayStatusWorking"
  "[] \<noteq> GatewayStatusFilled"
  "[] \<noteq> GatewayStatusCancelled"
  "[] \<noteq> GatewayStatusRejected"
  by (simp_all add: GatewayStatus_consts)

lemma GatewayStatus_distinct [simp]:
  "GatewayStatusAccepted \<noteq> GatewayStatusWorking"
  "GatewayStatusAccepted \<noteq> GatewayStatusFilled"
  "GatewayStatusAccepted \<noteq> GatewayStatusCancelled"
  "GatewayStatusAccepted \<noteq> GatewayStatusRejected"
  "GatewayStatusWorking \<noteq> GatewayStatusAccepted"
  "GatewayStatusWorking \<noteq> GatewayStatusFilled"
  "GatewayStatusWorking \<noteq> GatewayStatusCancelled"
  "GatewayStatusWorking \<noteq> GatewayStatusRejected"
  "GatewayStatusFilled \<noteq> GatewayStatusAccepted"
  "GatewayStatusFilled \<noteq> GatewayStatusWorking"
  "GatewayStatusFilled \<noteq> GatewayStatusCancelled"
  "GatewayStatusFilled \<noteq> GatewayStatusRejected"
  "GatewayStatusCancelled \<noteq> GatewayStatusAccepted"
  "GatewayStatusCancelled \<noteq> GatewayStatusWorking"
  "GatewayStatusCancelled \<noteq> GatewayStatusFilled"
  "GatewayStatusCancelled \<noteq> GatewayStatusRejected"
  "GatewayStatusRejected \<noteq> GatewayStatusAccepted"
  "GatewayStatusRejected \<noteq> GatewayStatusWorking"
  "GatewayStatusRejected \<noteq> GatewayStatusFilled"
  "GatewayStatusRejected \<noteq> GatewayStatusCancelled"
  by (simp_all add: GatewayStatus_consts)

section \<open>Structs\<close>

text \<open>Values of \<^verbatim>\<open>map[string]any\<close>, as \<^verbatim>\<open>encoding/json\<close> and the code itself put them there: a
  decoded number is a finite \<^verbatim>\<open>float64\<close>, and the code adds strings, booleans and integers only.
  A context is \<open>None\<close> for the nil map.\<close>

datatype any =
    AnyNil | AnyBool bool | AnyInt int | AnyFloat rat | AnyStr string
  | AnyList "any list" | AnyObj "(string \<times> any) list"

type_synonym ctxmap = "(string \<rightharpoonup> any) option"

definition ctx_lookup :: "ctxmap \<Rightarrow> string \<Rightarrow> any option" where
  "ctx_lookup c k = (case c of None \<Rightarrow> None | Some m \<Rightarrow> m k)"

record Account =
  aAccountID :: string
  aBrokerID :: string
  aGatewayID :: string
  aStreamPrefix :: string
  aStatus :: AccountStatus
  aEnabled :: bool
  aTradingEnabled :: bool
  aSimulated :: bool
  aTags :: "string \<rightharpoonup> string"
  aUpdatedAt :: gotime

record SubmitOrderRequest =
  sAccountID :: string
  sClientOrderID :: string
  sGatewayOrderID :: string
  sTradeDate :: string
  sSymbol :: string
  sExchange :: Exchange
  sTradeSide :: TradeSide
  sBusinessType :: BusinessType
  sOffsetType :: OffsetType
  sPrice :: float64
  sQty :: int
  sIdempotencyKey :: string
  sStrategyType :: string
  sStrategyID :: string
  sBasketID :: string
  sParentOrderID :: string
  sT0OrderGroupID :: string

record BatchSubmitOrderRequest =
  bAccountID :: string
  bOrders :: "SubmitOrderRequest list"
  bIdempotencyKey :: string

record CancelOrderRequest =
  cAccountID :: string
  cGatewayOrderID :: string
  cCancelID :: string
  cIdempotencyKey :: string

record Order =
  oAccountID :: string
  oClientOrderID :: string
  oGatewayOrderID :: string
  oOrderID :: int
  oOrderStreamID :: string
  oCounterSessionID :: string
  oTradeDate :: string
  oSymbol :: string
  oName :: string
  oExchange :: Exchange
  oTradeSide :: TradeSide
  oBusinessType :: BusinessType
  oOffsetType :: OffsetType
  oLimitPrice :: float64
  oOrderQty :: int
  oSubmittedQty :: int
  oCumFilledQty :: int
  oLeavesQty :: int
  oCancelledQty :: int
  oInvalidQty :: int
  oAvgFillPrice :: float64
  oFee :: float64
  oStatus :: OrderStatus
  oGatewayStatus :: GatewayStatus
  oAdapterStatusCode :: int
  oAdapterStatusName :: string
  oIsTerminal :: bool
  oRejectCode :: ErrorCode
  oRejectMessage :: string
  oOriginMessageID :: string
  oRequestID :: string
  oIdempotencyKey :: string
  oShareholderID :: string
  oStrategyType :: string
  oStrategyID :: string
  oBasketID :: string
  oParentOrderID :: string
  oT0OrderGroupID :: string
  oCreatedAt :: gotime
  oAcceptedAt :: gotime
  oInsertedAt :: gotime
  oLastUpdatedAt :: gotime
  oTerminalAt :: gotime
  oAdapterContext :: ctxmap

text \<open>The zero value \<^verbatim>\<open>trading.Order{}\<close>.\<close>

definition Order0 :: Order where
  "Order0 = \<lparr>oAccountID = [], oClientOrderID = [], oGatewayOrderID = [], oOrderID = 0,
     oOrderStreamID = [], oCounterSessionID = [], oTradeDate = [], oSymbol = [], oName = [],
     oExchange = [], oTradeSide = [], oBusinessType = [], oOffsetType = [], oLimitPrice = fzero,
     oOrderQty = 0, oSubmittedQty = 0, oCumFilledQty = 0, oLeavesQty = 0, oCancelledQty = 0,
     oInvalidQty = 0, oAvgFillPrice = fzero, oFee = fzero, oStatus = [], oGatewayStatus = [],
     oAdapterStatusCode = 0, oAdapterStatusName = [], oIsTerminal = False, oRejectCode = [],
     oRejectMessage = [], oOriginMessageID = [], oRequestID = [], oIdempotencyKey = [],
     oShareholderID = [], oStrategyType = [], oStrategyID = [], oBasketID = [],
     oParentOrderID = [], oT0OrderGroupID = [], oCreatedAt = zeroTime, oAcceptedAt = zeroTime,
     oInsertedAt = zeroTime, oLastUpdatedAt = zeroTime, oTerminalAt = zeroTime,
     oAdapterContext = None\<rparr>"

record OrderEvent =
  eEventID :: string
  eEventType :: EventType
  eAccountID :: string
  eGatewayOrderID :: string
  eStatus :: OrderStatus
  eGatewayStatus :: GatewayStatus
  eIsTerminal :: bool
  eOrder :: Order
  eProducedAt :: gotime
  eAdapterContext :: ctxmap

record OrderQuery =
  qAccountID :: string
  qGatewayOrderID :: string
  qClientOrderID :: string
  qOriginMessageID :: string
  qSymbol :: string
  qExchange :: Exchange
  qStatus :: OrderStatus
  qTradeDate :: string
  qDateFrom :: string
  qDateTo :: string
  qHistory :: bool
  qStrategyType :: string
  qStrategyID :: string
  qBasketID :: string
  qParentOrderID :: string
  qT0OrderGroupID :: string
  qLimit :: int
  qCursor :: string

record Asset =
  asAccountID :: string
  asCashAvailable :: float64
  asCashTotal :: float64
  asNetAsset :: float64
  asMarketValue :: float64
  asStockValue :: float64
  asFundValue :: float64
  asReverseRepoReceivable :: float64
  asCommission :: float64
  asDayProfit :: float64
  asPositionProfit :: float64
  asCloseProfit :: float64
  asCredit :: float64
  asUpdatedAt :: gotime

record Position =
  pAccountID :: string
  pTradeDate :: string
  pSnapshotType :: string
  pSymbol :: string
  pName :: string
  pExchange :: Exchange
  pQuantity :: int
  pSellableQty :: int
  pInitialQty :: int
  pTodayQty :: int
  pAvgCost :: float64
  pTotalCost :: float64
  pAvgCostSource :: string
  pCostComplete :: bool
  pLastPrice :: float64
  pMarketValue :: float64
  pUnrealizedPnL :: float64
  pDayUnrealizedPnL :: float64
  pSettledProfit :: float64
  pShareholderID :: string
  pUpdatedAt :: gotime

record Fill =
  fFillID :: string
  fAccountID :: string
  fGatewayOrderID :: string
  fOrderID :: int
  fOrderStreamID :: string
  fSymbol :: string
  fName :: string
  fExchange :: Exchange
  fTradeSide :: TradeSide
  fBusinessType :: BusinessType
  fPrice :: float64
  fQty :: int
  fFee :: float64
  fTradeDate :: string
  fMatchTimestamp :: int
  fMatchedAt :: gotime
  fShareholderID :: string
  fStrategyType :: string
  fStrategyID :: string
  fBasketID :: string
  fParentOrderID :: string
  fT0OrderGroupID :: string
  fAdapterContext :: ctxmap

record ComponentTransfer =
  tFillID :: string
  tAccountID :: string
  tGatewayOrderID :: string
  tOrderID :: int
  tOrderStreamID :: string
  tSymbol :: string
  tName :: string
  tExchange :: Exchange
  tPrice :: float64
  tQty :: int
  tTradeSide :: TradeSide
  tBusinessType :: BusinessType
  tRecordType :: string
  tTransferType :: string
  tIsTransfer :: bool
  tComponentSymbol :: string
  tComponentName :: string
  tComponentExchange :: Exchange
  tComponentQty :: int
  tComponentValue :: "float64 option"
  tCashSubstitution :: bool
  tBrokerTradeSide :: string
  tBrokerBusinessType :: string
  tTradeDate :: string
  tMatchTimestamp :: int
  tMatchedAt :: gotime
  tShareholderID :: string
  tStrategyType :: string
  tStrategyID :: string
  tBasketID :: string
  tParentOrderID :: string
  tT0OrderGroupID :: string
  tAdapterContext :: ctxmap

record FillQuery =
  fqAccountID :: string
  fqGatewayOrderID :: string
  fqSymbol :: string
  fqExchange :: Exchange
  fqTradeDate :: string
  fqDateFrom :: string
  fqDateTo :: string
  fqHistory :: bool
  fqStrategyType :: string
  fqStrategyID :: string
  fqBasketID :: string
  fqParentOrderID :: string
  fqT0OrderGroupID :: string
  fqLimit :: int
  fqCursor :: string

record ComponentTransferQuery =
  tqAccountID :: string
  tqGatewayOrderID :: string
  tqSymbol :: string
  tqExchange :: Exchange
  tqTradeDate :: string
  tqDateFrom :: string
  tqDateTo :: string
  tqHistory :: bool
  tqBasketID :: string
  tqLimit :: int
  tqCursor :: string

record PositionQuery =
  pqAccountID :: string
  pqSymbol :: string
  pqExchange :: Exchange
  pqTradeDate :: string
  pqDateFrom :: string
  pqDateTo :: string
  pqSnapshotType :: string
  pqHistory :: bool
  pqLimit :: int
  pqCursor :: string

section \<open>Validity of the enumerations\<close>

definition Exchange_Valid :: "Exchange \<Rightarrow> bool" where
  "Exchange_Valid x \<longleftrightarrow> x \<in> {ExchangeSH, ExchangeSZ, ExchangeBJ}"

definition TradeSide_Valid :: "TradeSide \<Rightarrow> bool" where
  "TradeSide_Valid x \<longleftrightarrow> x \<in> {TradeSideBuy, TradeSideSell, TradeSidePurchase, TradeSideRedemption}"

definition BusinessType_Valid :: "BusinessType \<Rightarrow> bool" where
  "BusinessType_Valid x \<longleftrightarrow> x \<in> {BusinessTypeStock, BusinessTypeETF}"

definition OffsetType_Valid :: "OffsetType \<Rightarrow> bool" where
  "OffsetType_Valid x \<longleftrightarrow> (if x = [] then True else x \<in> {OffsetTypeOpen, OffsetTypeClose})"

definition OrderStatus_Terminal :: "OrderStatus \<Rightarrow> bool" where
  "OrderStatus_Terminal x \<longleftrightarrow> x \<in> {OrderStatusFilled, OrderStatusCancelled, OrderStatusRejected}"

definition OrderStatus_Valid :: "OrderStatus \<Rightarrow> bool" where
  "OrderStatus_Valid x \<longleftrightarrow> x \<in> {OrderStatusCreated, OrderStatusAccepted, OrderStatusWorking,
     OrderStatusPartiallyFilled, OrderStatusFilled, OrderStatusCancelled, OrderStatusRejected}"

definition GatewayStatus_Terminal :: "GatewayStatus \<Rightarrow> bool" where
  "GatewayStatus_Terminal x \<longleftrightarrow>
     x \<in> {GatewayStatusFilled, GatewayStatusCancelled, GatewayStatusRejected}"

text \<open>The gateway statuses the ledger schema admits (\<^verbatim>\<open>orders_gateway_status_check\<close>).\<close>

definition GatewayStatus_Known :: "GatewayStatus \<Rightarrow> bool" where
  "GatewayStatus_Known x \<longleftrightarrow> x \<in> {GatewayStatusAccepted, GatewayStatusWorking,
     GatewayStatusFilled, GatewayStatusCancelled, GatewayStatusRejected}"

definition IsQueuedDayOrderExpiryCandidate :: "Order \<Rightarrow> bool" where
  "IsQueuedDayOrderExpiryCandidate ord =
     (if oIsTerminal ord \<or> OrderStatus_Terminal (oStatus ord)
         \<or> oBusinessType ord \<noteq> BusinessTypeStock then False
      else if oGatewayStatus ord \<noteq> GatewayStatusWorking
         \<or> \<not> EqualFold (TrimSpace (oAdapterStatusName ord)) ''queued'' then False
      else if oOrderQty ord \<le> 0 \<or> oLeavesQty ord \<le> 0 then False
      else oStatus ord \<in> {OrderStatusAccepted, OrderStatusWorking, OrderStatusPartiallyFilled})"

section \<open>Reconciling statuses with quantities\<close>

definition orderStatusForGatewayStatus :: "GatewayStatus \<Rightarrow> OrderStatus" where
  "orderStatusForGatewayStatus g =
     (if g = GatewayStatusAccepted then OrderStatusAccepted
      else if g = GatewayStatusWorking then OrderStatusWorking
      else if g = GatewayStatusFilled then OrderStatusFilled
      else if g = GatewayStatusCancelled then OrderStatusCancelled
      else if g = GatewayStatusRejected then OrderStatusRejected
      else OrderStatusCreated)"

definition gatewayStatusForOrderStatus :: "OrderStatus \<Rightarrow> GatewayStatus \<Rightarrow> GatewayStatus" where
  "gatewayStatusForOrderStatus st g =
     (if st = OrderStatusWorking \<or> st = OrderStatusPartiallyFilled
      then (if g \<noteq> [] \<and> g \<noteq> GatewayStatusAccepted then g else GatewayStatusWorking)
      else if st = OrderStatusFilled then GatewayStatusFilled
      else if st = OrderStatusCancelled then GatewayStatusCancelled
      else if st = OrderStatusRejected then GatewayStatusRejected
      else if g \<noteq> [] then g else GatewayStatusAccepted)"

definition NormalizeOrderExecutionState ::
    "OrderStatus \<Rightarrow> GatewayStatus \<Rightarrow> int \<Rightarrow> int \<Rightarrow> int \<Rightarrow> OrderStatus \<times> GatewayStatus \<times> bool" where
  "NormalizeOrderExecutionState st g orderQty cumFilledQty leavesQty =
     (let filledReported = (st = OrderStatusFilled \<or> g = GatewayStatusFilled);
          quantityComplete = (orderQty > 0 \<and> cumFilledQty \<ge> orderQty \<and> leavesQty = 0)
      in if filledReported \<and> \<not> quantityComplete
         then (if cumFilledQty > 0 then (OrderStatusPartiallyFilled, GatewayStatusWorking, False)
               else (OrderStatusWorking, GatewayStatusWorking, False))
         else if OrderStatus_Terminal st then (st, gatewayStatusForOrderStatus st g, True)
         else if GatewayStatus_Terminal g then (orderStatusForGatewayStatus g, g, True)
         else if quantityComplete then (OrderStatusFilled, GatewayStatusFilled, True)
         else if cumFilledQty > 0 \<and> leavesQty > 0
         then (OrderStatusPartiallyFilled,
               (if g = [] \<or> g = GatewayStatusAccepted then GatewayStatusWorking else g), False)
         else if st \<noteq> [] then (st, gatewayStatusForOrderStatus st g, False)
         else if g \<noteq> [] then (orderStatusForGatewayStatus g, g, GatewayStatus_Terminal g)
         else (OrderStatusCreated, GatewayStatusAccepted, False))"

definition NormalizeTradeSide :: "string \<Rightarrow> TradeSide \<times> bool" where
  "NormalizeTradeSide value =
     (let v = ToLower (TrimSpace value)
      in if v \<in> {''b'', ''buy''} then (TradeSideBuy, True)
         else if v \<in> {''s'', ''sell''} then (TradeSideSell, True)
         else if v \<in> {''p'', ''purchase''} then (TradeSidePurchase, True)
         else if v \<in> {''r'', ''redemption'', ''redeem''} then (TradeSideRedemption, True)
         else ([], False))"

definition NormalizeBusinessType :: "string \<Rightarrow> BusinessType \<times> bool" where
  "NormalizeBusinessType value =
     (let v = ToLower (TrimSpace value)
      in if v \<in> {''s'', ''stock''} then (BusinessTypeStock, True)
         else if v \<in> {''e'', ''etf''} then (BusinessTypeETF, True)
         else ([], False))"

section \<open>Request validation\<close>

text \<open>A check returns the first violated rule, \<open>Inr ()\<close> for \<^verbatim>\<open>nil\<close>.\<close>

definition SubmitOrderRequest_Validate :: "SubmitOrderRequest \<Rightarrow> error + unit" where
  "SubmitOrderRequest_Validate req =
     (if TrimSpace (sAccountID req) = [] then Inl (ErrInvalidSchema ''account_id'' ''is required'')
      else if TrimSpace (sSymbol req) = [] then Inl (ErrInvalidSchema ''symbol'' ''is required'')
      else if \<not> Exchange_Valid (sExchange req)
      then Inl (ErrInvalidSchema ''exchange'' ''must be SH, SZ, or BJ'')
      else if \<not> TradeSide_Valid (sTradeSide req)
      then Inl (ErrInvalidSchema ''trade_side'' ''must be B, S, P, or R'')
      else if \<not> BusinessType_Valid (sBusinessType req)
      then Inl (ErrInvalidSchema ''business_type'' ''must be S or E'')
      else if \<not> OffsetType_Valid (sOffsetType req)
      then Inl (ErrInvalidSchema ''offset_type'' ''must be O, C, or empty'')
      else if fle (sPrice req) fzero then Inl (ErrInvalidSchema ''price'' ''must be positive'')
      else if sQty req \<le> 0 then Inl (ErrInvalidSchema ''qty'' ''must be positive'')
      else Inr ())"

text \<open>\<^verbatim>\<open>fmt.Sprintf("orders[%d].f", i)\<close>.\<close>

definition order_field :: "nat \<Rightarrow> string \<Rightarrow> string" where
  "order_field i f = ''orders['' @ Utoa i @ '']'' @ f"

text \<open>The loop of \<^verbatim>\<open>BatchSubmitOrderRequest.Validate\<close>: the index, the gateway order ids seen so
  far, the orders left.\<close>

fun batch_validate_loop ::
    "string \<Rightarrow> nat \<Rightarrow> string list \<Rightarrow> SubmitOrderRequest list \<Rightarrow> error + unit" where
  "batch_validate_loop acct i seen [] = Inr ()"
| "batch_validate_loop acct i seen (ord # ords) =
     (let ord' = (if TrimSpace (sAccountID ord) = [] then ord\<lparr>sAccountID := acct\<rparr> else ord)
      in if sAccountID ord' \<noteq> acct
         then Inl (ErrInvalidSchema (order_field i ''.account_id'') ''must match batch account_id'')
         else case SubmitOrderRequest_Validate ord' of
                Inl e \<Rightarrow> Inl (ErrOrderAt i e)
              | Inr _ \<Rightarrow>
                  if sGatewayOrderID ord' = [] then batch_validate_loop acct (Suc i) seen ords
                  else if sGatewayOrderID ord' \<in> set seen
                  then Inl (ErrInvalidSchema (order_field i ''.gateway_order_id'')
                              ''must be unique in the batch'')
                  else batch_validate_loop acct (Suc i) (sGatewayOrderID ord' # seen) ords)"

definition BatchSubmitOrderRequest_Validate :: "BatchSubmitOrderRequest \<Rightarrow> error + unit" where
  "BatchSubmitOrderRequest_Validate req =
     (if TrimSpace (bAccountID req) = [] then Inl (ErrInvalidSchema ''account_id'' ''is required'')
      else if bOrders req = []
      then Inl (ErrInvalidSchema ''orders'' ''must contain at least one order'')
      else batch_validate_loop (bAccountID req) 0 [] (bOrders req))"

definition CancelOrderRequest_Validate :: "CancelOrderRequest \<Rightarrow> error + unit" where
  "CancelOrderRequest_Validate req =
     (if TrimSpace (cAccountID req) = [] then Inl (ErrInvalidSchema ''account_id'' ''is required'')
      else if TrimSpace (cGatewayOrderID req) = []
      then Inl (ErrInvalidSchema ''gateway_order_id'' ''is required'')
      else Inr ())"

lemmas status_defs = OrderStatus_Terminal_def OrderStatus_Valid_def GatewayStatus_Terminal_def
  GatewayStatus_Known_def

lemmas normalize_defs = NormalizeOrderExecutionState_def orderStatusForGatewayStatus_def
  gatewayStatusForOrderStatus_def status_defs

section \<open>Lemmas on normalisation\<close>

lemma terminal_gatewayStatusForOrderStatus:
  "OrderStatus_Terminal st \<Longrightarrow> GatewayStatus_Terminal (gatewayStatusForOrderStatus st g)"
  by (auto simp: gatewayStatusForOrderStatus_def status_defs)

lemma open_gatewayStatusForOrderStatus:
  "\<not> OrderStatus_Terminal st \<Longrightarrow> \<not> GatewayStatus_Terminal g \<Longrightarrow>
   \<not> GatewayStatus_Terminal (gatewayStatusForOrderStatus st g)"
  by (auto simp: gatewayStatusForOrderStatus_def status_defs)

lemma orderStatusForGatewayStatus_terminal [simp]:
  "OrderStatus_Terminal (orderStatusForGatewayStatus g) \<longleftrightarrow> GatewayStatus_Terminal g"
  by (auto simp: orderStatusForGatewayStatus_def status_defs)

lemma orderStatusForGatewayStatus_filled [simp]:
  "orderStatusForGatewayStatus g = OrderStatusFilled \<longleftrightarrow> g = GatewayStatusFilled"
  by (auto simp: orderStatusForGatewayStatus_def)

lemma normalize_terminal_flag:
  assumes "NormalizeOrderExecutionState st g q c l = (st', g', t)"
  shows "(t \<longleftrightarrow> OrderStatus_Terminal st') \<and> (t \<longleftrightarrow> GatewayStatus_Terminal g')"
  using assms
  by (auto simp: normalize_defs Let_def split: if_splits)

lemma normalize_filled_complete:
  assumes "NormalizeOrderExecutionState st g q c l = (st', g', t)"
    and "st' = OrderStatusFilled \<or> g' = GatewayStatusFilled"
  shows "q > 0 \<and> c \<ge> q \<and> l = 0"
  using assms by (auto simp: normalize_defs Let_def split: if_splits)

lemma normalize_filled_iff:
  assumes "NormalizeOrderExecutionState st g q c l = (st', g', t)"
  shows "st' = OrderStatusFilled \<longleftrightarrow> g' = GatewayStatusFilled"
  using assms by (auto simp: normalize_defs Let_def split: if_splits)

lemma normalize_status_nonempty:
  assumes "NormalizeOrderExecutionState st g q c l = (st', g', t)"
  shows "st' \<noteq> [] \<and> g' \<noteq> []"
  using assms by (auto simp: normalize_defs Let_def split: if_splits)

text \<open>Where each branch of the normalisation lands.\<close>

lemma NormalizeOrderExecutionState_cases:
  assumes "NormalizeOrderExecutionState st g q c l = (st', g', t)"
  obtains (downgrade) "st = OrderStatusFilled \<or> g = GatewayStatusFilled"
      "\<not> (q > 0 \<and> c \<ge> q \<and> l = 0)" "g' = GatewayStatusWorking" "\<not> t"
      "st' = (if c > 0 then OrderStatusPartiallyFilled else OrderStatusWorking)"
    | (status) "OrderStatus_Terminal st" "st' = st" "g' = gatewayStatusForOrderStatus st g" "t"
        "st = OrderStatusFilled \<longrightarrow> q > 0 \<and> c \<ge> q \<and> l = 0"
    | (gateway) "\<not> OrderStatus_Terminal st" "GatewayStatus_Terminal g"
        "st' = orderStatusForGatewayStatus g" "g' = g" "t"
        "g = GatewayStatusFilled \<longrightarrow> q > 0 \<and> c \<ge> q \<and> l = 0"
    | (complete) "q > 0" "c \<ge> q" "l = 0" "st' = OrderStatusFilled" "g' = GatewayStatusFilled" "t"
    | (partial) "\<not> OrderStatus_Terminal st" "\<not> GatewayStatus_Terminal g" "c > 0" "l > 0"
        "st' = OrderStatusPartiallyFilled" "\<not> t" "\<not> (q > 0 \<and> c \<ge> q \<and> l = 0)"
        "g' = (if g = [] \<or> g = GatewayStatusAccepted then GatewayStatusWorking else g)"
    | (open_status) "\<not> OrderStatus_Terminal st" "\<not> GatewayStatus_Terminal g" "st \<noteq> []" "st' = st"
        "g' = gatewayStatusForOrderStatus st g" "\<not> t" "\<not> (q > 0 \<and> c \<ge> q \<and> l = 0)"
        "\<not> (c > 0 \<and> l > 0)"
    | (open_gateway) "st = []" "\<not> GatewayStatus_Terminal g" "g \<noteq> []"
        "st' = orderStatusForGatewayStatus g" "g' = g" "\<not> t" "\<not> (q > 0 \<and> c \<ge> q \<and> l = 0)"
        "\<not> (c > 0 \<and> l > 0)"
    | (blank) "st = []" "g = []" "st' = OrderStatusCreated" "g' = GatewayStatusAccepted" "\<not> t"
        "\<not> (q > 0 \<and> c \<ge> q \<and> l = 0)" "\<not> (c > 0 \<and> l > 0)"
proof -
  define complete where "complete \<longleftrightarrow> q > 0 \<and> c \<ge> q \<and> l = 0"
  consider "(st = OrderStatusFilled \<or> g = GatewayStatusFilled) \<and> \<not> complete"
    | "\<not> ((st = OrderStatusFilled \<or> g = GatewayStatusFilled) \<and> \<not> complete)" "OrderStatus_Terminal st"
    | "\<not> ((st = OrderStatusFilled \<or> g = GatewayStatusFilled) \<and> \<not> complete)" "\<not> OrderStatus_Terminal st"
      "GatewayStatus_Terminal g"
    | "\<not> OrderStatus_Terminal st" "\<not> GatewayStatus_Terminal g" "complete"
    | "\<not> OrderStatus_Terminal st" "\<not> GatewayStatus_Terminal g" "\<not> complete" "c > 0 \<and> l > 0"
    | "\<not> OrderStatus_Terminal st" "\<not> GatewayStatus_Terminal g" "\<not> complete" "\<not> (c > 0 \<and> l > 0)"
      "st \<noteq> []"
    | "\<not> GatewayStatus_Terminal g" "\<not> complete" "\<not> (c > 0 \<and> l > 0)" "st = []" "g \<noteq> []"
    | "\<not> complete" "\<not> (c > 0 \<and> l > 0)" "st = []" "g = []"
    by blast
  note cases = this
  have nf: "\<not> OrderStatus_Terminal st \<Longrightarrow> st \<noteq> OrderStatusFilled"
      "\<not> GatewayStatus_Terminal g \<Longrightarrow> g \<noteq> GatewayStatusFilled"
      "\<not> OrderStatus_Terminal []" "\<not> GatewayStatus_Terminal []"
    by (auto simp: status_defs)
  have def: "(if (st = OrderStatusFilled \<or> g = GatewayStatusFilled) \<and> \<not> complete
         then (if c > 0 then (OrderStatusPartiallyFilled, GatewayStatusWorking, False)
               else (OrderStatusWorking, GatewayStatusWorking, False))
         else if OrderStatus_Terminal st then (st, gatewayStatusForOrderStatus st g, True)
         else if GatewayStatus_Terminal g then (orderStatusForGatewayStatus g, g, True)
         else if complete then (OrderStatusFilled, GatewayStatusFilled, True)
         else if c > 0 \<and> l > 0
         then (OrderStatusPartiallyFilled,
               (if g = [] \<or> g = GatewayStatusAccepted then GatewayStatusWorking else g), False)
         else if st \<noteq> [] then (st, gatewayStatusForOrderStatus st g, False)
         else if g \<noteq> [] then (orderStatusForGatewayStatus g, g, GatewayStatus_Terminal g)
         else (OrderStatusCreated, GatewayStatusAccepted, False)) = (st', g', t)"
    using assms by (simp only: NormalizeOrderExecutionState_def Let_def complete_def)
  from cases show thesis
  proof cases
    case 1
    with def have eq: "(if c > 0 then (OrderStatusPartiallyFilled, GatewayStatusWorking, False)
        else (OrderStatusWorking, GatewayStatusWorking, False)) = (st', g', t)"
      by (simp only: if_True simp_thms)
    from eq have "st' = (if c > 0 then OrderStatusPartiallyFilled else OrderStatusWorking)"
        "g' = GatewayStatusWorking" "\<not> t"
      by (cases "c > 0"; simp)+
    with 1 show ?thesis unfolding complete_def by (intro downgrade) blast+
  next
    case 2
    with def have "st' = st" "g' = gatewayStatusForOrderStatus st g" "t" by auto
    with 2 show ?thesis unfolding complete_def by (intro status) blast+
  next
    case 3
    with def have "st' = orderStatusForGatewayStatus g" "g' = g" "t" by auto
    with 3 show ?thesis unfolding complete_def by (intro gateway) blast+
  next
    case 4
    with def have "st' = OrderStatusFilled" "g' = GatewayStatusFilled" "t" by simp_all
    with 4 show ?thesis unfolding complete_def by (intro complete) blast+
  next
    case 5
    with def nf have "st' = OrderStatusPartiallyFilled" "\<not> t"
        "g' = (if g = [] \<or> g = GatewayStatusAccepted then GatewayStatusWorking else g)"
      by auto
    with 5 show ?thesis unfolding complete_def by (intro partial) blast+
  next
    case 6
    with def nf have "st' = st" "g' = gatewayStatusForOrderStatus st g" "\<not> t" by auto
    with 6 show ?thesis unfolding complete_def by (intro open_status) blast+
  next
    case 7
    with def nf have "st' = orderStatusForGatewayStatus g" "g' = g" "\<not> t" by auto
    with 7 show ?thesis unfolding complete_def by (intro open_gateway) blast+
  next
    case 8
    with def nf have "st' = OrderStatusCreated" "g' = GatewayStatusAccepted" "\<not> t" by auto
    with 8 show ?thesis unfolding complete_def by (intro blank) blast+
  qed
qed

text \<open>A second run changes nothing: the code normalises when it ingests an order, when it
  writes it and when it reads it back.\<close>

lemma normalize_stable:
  assumes "NormalizeOrderExecutionState st g q c l = (st', g', t)"
  shows "NormalizeOrderExecutionState st' g' q c l = (st', g', t)"
  using assms
proof (cases rule: NormalizeOrderExecutionState_cases)
  case downgrade
  then show ?thesis
    by (auto simp: NormalizeOrderExecutionState_def status_defs gatewayStatusForOrderStatus_def)
next
  case status
  then have "st \<in> {OrderStatusFilled, OrderStatusCancelled, OrderStatusRejected}"
    by (simp add: OrderStatus_Terminal_def)
  with status show ?thesis
    by (auto simp: NormalizeOrderExecutionState_def status_defs gatewayStatusForOrderStatus_def)
next
  case gateway
  then have "g \<in> {GatewayStatusFilled, GatewayStatusCancelled, GatewayStatusRejected}"
    by (simp add: GatewayStatus_Terminal_def)
  with gateway show ?thesis
    by (auto simp: NormalizeOrderExecutionState_def status_defs gatewayStatusForOrderStatus_def
        orderStatusForGatewayStatus_def)
next
  case complete
  then show ?thesis
    by (simp add: NormalizeOrderExecutionState_def status_defs gatewayStatusForOrderStatus_def)
next
  case partial
  then show ?thesis
    by (auto simp: NormalizeOrderExecutionState_def status_defs)
next
  case open_status
  then have "\<not> GatewayStatus_Terminal g'" by (simp add: open_gatewayStatusForOrderStatus)
  moreover from open_status have "gatewayStatusForOrderStatus st g' = g'"
    by (auto simp: gatewayStatusForOrderStatus_def status_defs split: if_splits)
  ultimately show ?thesis using open_status
    by (auto simp: NormalizeOrderExecutionState_def Let_def OrderStatus_Terminal_def
        GatewayStatus_Terminal_def)
next
  case open_gateway
  then show ?thesis
    by (auto simp: NormalizeOrderExecutionState_def status_defs orderStatusForGatewayStatus_def
        gatewayStatusForOrderStatus_def)
next
  case blank
  then show ?thesis
    by (auto simp: NormalizeOrderExecutionState_def status_defs gatewayStatusForOrderStatus_def)
qed

text \<open>Statuses the ledger schema knows stay known.\<close>

lemma orderStatusForGatewayStatus_valid [simp]: "OrderStatus_Valid (orderStatusForGatewayStatus g)"
  by (simp add: orderStatusForGatewayStatus_def OrderStatus_Valid_def)

lemma gatewayStatusForOrderStatus_known:
  "g = [] \<or> GatewayStatus_Known g \<Longrightarrow> GatewayStatus_Known (gatewayStatusForOrderStatus st g)"
  by (auto simp: gatewayStatusForOrderStatus_def GatewayStatus_Known_def)

lemma known_consts [simp]:
  "OrderStatus_Valid OrderStatusCreated" "OrderStatus_Valid OrderStatusWorking"
  "OrderStatus_Valid OrderStatusPartiallyFilled" "OrderStatus_Valid OrderStatusFilled"
  "GatewayStatus_Known GatewayStatusAccepted" "GatewayStatus_Known GatewayStatusWorking"
  "GatewayStatus_Known GatewayStatusFilled"
  by (simp_all add: OrderStatus_Valid_def GatewayStatus_Known_def)

lemma normalize_valid:
  assumes "NormalizeOrderExecutionState st g q c l = (st', g', t)"
    and st: "st = [] \<or> OrderStatus_Valid st" and g: "g = [] \<or> GatewayStatus_Known g"
  shows "OrderStatus_Valid st' \<and> GatewayStatus_Known g'"
proof -
  have trm: "OrderStatus_Terminal st \<Longrightarrow> OrderStatus_Valid st"
    "GatewayStatus_Terminal g \<Longrightarrow> GatewayStatus_Known g"
    by (auto simp: status_defs)
  show ?thesis
    using assms(1) st g trm gatewayStatusForOrderStatus_known [OF g, of st]
    unfolding NormalizeOrderExecutionState_def Let_def
    by (elim disjE; simp split: if_split_asm; elim conjE; hypsubst; simp)
qed

section \<open>Lemmas on request validation\<close>

lemma SubmitOrderRequest_Validate_ok:
  "SubmitOrderRequest_Validate req = Inr () \<longleftrightarrow>
     TrimSpace (sAccountID req) \<noteq> [] \<and> TrimSpace (sSymbol req) \<noteq> []
     \<and> Exchange_Valid (sExchange req) \<and> TradeSide_Valid (sTradeSide req)
     \<and> BusinessType_Valid (sBusinessType req) \<and> OffsetType_Valid (sOffsetType req)
     \<and> \<not> fle (sPrice req) fzero \<and> 0 < sQty req"
  by (auto simp: SubmitOrderRequest_Validate_def split: if_splits)

text \<open>The order the loop validates: a blank account is the batch's.\<close>

definition batch_child :: "string \<Rightarrow> SubmitOrderRequest \<Rightarrow> SubmitOrderRequest" where
  "batch_child acct ord = (if TrimSpace (sAccountID ord) = [] then ord\<lparr>sAccountID := acct\<rparr> else ord)"

lemma sGatewayOrderID_batch_child [simp]: "sGatewayOrderID (batch_child a ord) = sGatewayOrderID ord"
  by (simp add: batch_child_def)

lemma batch_validate_loop_step:
  "batch_validate_loop acct i seen (ord # ords) = Inr () \<longleftrightarrow>
     sAccountID (batch_child acct ord) = acct
     \<and> SubmitOrderRequest_Validate (batch_child acct ord) = Inr ()
     \<and> (if sGatewayOrderID ord = [] then batch_validate_loop acct (Suc i) seen ords = Inr ()
        else sGatewayOrderID ord \<notin> set seen
          \<and> batch_validate_loop acct (Suc i) (sGatewayOrderID ord # seen) ords = Inr ())"
  by (auto simp: Let_def batch_child_def split: sum.splits if_splits)

lemma batch_validate_loop_ok:
  "batch_validate_loop acct i seen ords = Inr () \<longleftrightarrow>
     (\<forall>ord \<in> set ords. sAccountID (batch_child acct ord) = acct
        \<and> SubmitOrderRequest_Validate (batch_child acct ord) = Inr ())
     \<and> distinct (filter (\<lambda>g. g \<noteq> []) (map sGatewayOrderID ords))
     \<and> set (filter (\<lambda>g. g \<noteq> []) (map sGatewayOrderID ords)) \<inter> set seen = {}"
proof (induction ords arbitrary: i seen)
  case Nil
  then show ?case by simp
next
  case (Cons ord ords)
  show ?case
    by (subst batch_validate_loop_step) (auto simp: Cons.IH simp del: batch_validate_loop.simps)
qed

section \<open>Properties\<close>

text \<open>C14: The reconciled state of an order is consistent whatever was reported: the terminal flag
  agrees with both statuses, the order is filled exactly when its gateway status is, a filled
  order has its whole quantity executed and none left, and no status is blank.\<close>

theorem normalize_consistent:
  "case NormalizeOrderExecutionState st g q c l of (st', g', t) \<Rightarrow>
     t = OrderStatus_Terminal st' \<and> t = GatewayStatus_Terminal g'
     \<and> (st' = OrderStatusFilled) = (g' = GatewayStatusFilled)
     \<and> (st' \<noteq> OrderStatusFilled \<or> q > 0 \<and> c \<ge> q \<and> l = 0)
     \<and> st' \<noteq> [] \<and> g' \<noteq> []"
proof -
  obtain st' g' t where eq: "NormalizeOrderExecutionState st g q c l = (st', g', t)"
    by (cases "NormalizeOrderExecutionState st g q c l")
  show ?thesis
    using normalize_terminal_flag [OF eq] normalize_filled_complete [OF eq]
      normalize_filled_iff [OF eq] normalize_status_nonempty [OF eq] by (auto simp: eq)
qed

theorem normalize_consistent_witness:
  "let st' = fst (NormalizeOrderExecutionState OrderStatusFilled [] 100 40 60) in
     st' \<noteq> OrderStatusFilled \<and> st' \<noteq> []"
proof -
  have "NormalizeOrderExecutionState OrderStatusFilled [] 100 40 60
      = (OrderStatusPartiallyFilled, GatewayStatusWorking, False)"
    by (simp add: NormalizeOrderExecutionState_def)
  with normalize_consistent [where st = OrderStatusFilled and g = "[]" and q = 100 and c = 40 and l = 60] show ?thesis by simp
qed

text \<open>When an order ends up filled. The reconciled status is filled if and only if the
  quantities are complete and the reported statuses do not say otherwise: either filled was the
  reported order status, or the order status is open and the gateway status is filled or open.
  So a cancelled or rejected report is never turned into a fill.\<close>

theorem normalize_filled_exact:
  "fst (NormalizeOrderExecutionState st g q c l) = OrderStatusFilled \<longleftrightarrow>
     q > 0 \<and> c \<ge> q \<and> l = 0
     \<and> (st = OrderStatusFilled
        \<or> \<not> OrderStatus_Terminal st \<and> (g = GatewayStatusFilled \<or> \<not> GatewayStatus_Terminal g))"
proof -
  have t: "OrderStatus_Terminal OrderStatusFilled" "GatewayStatus_Terminal GatewayStatusFilled"
    "OrderStatusFilled \<noteq> []"
    by (simp_all add: status_defs)
  show ?thesis
    unfolding NormalizeOrderExecutionState_def Let_def
    by (cases "q > 0 \<and> c \<ge> q \<and> l = 0"; cases "OrderStatus_Terminal st"; cases "GatewayStatus_Terminal g")
       (use t in \<open>auto split: if_splits\<close>)
qed

theorem normalize_filled_exact_witness:
  "fst (NormalizeOrderExecutionState OrderStatusWorking GatewayStatusWorking 100 100 0) = OrderStatusFilled"
  by (subst normalize_filled_exact) (simp add: status_defs)

text \<open>Reconciling is idempotent. The state is reconciled when an event is ingested, when the
  order is written and when it is read back; the repetitions change nothing.\<close>

theorem normalize_idempotent:
  "case NormalizeOrderExecutionState st g q c l of (st', g', t) \<Rightarrow>
     NormalizeOrderExecutionState st' g' q c l = (st', g', t)"
  using normalize_stable by (auto split: prod.splits)

text \<open>A batch is accepted if and only if it names an account, has an order, every order is for
  that account (a blank account stands for it) and valid on its own, and the gateway order ids
  given are pairwise different.\<close>

theorem batch_validate_iff:
  "BatchSubmitOrderRequest_Validate req = Inr () \<longleftrightarrow>
     TrimSpace (bAccountID req) \<noteq> [] \<and> bOrders req \<noteq> []
     \<and> list_all (\<lambda>ord. sAccountID (batch_child (bAccountID req) ord) = bAccountID req
          \<and> SubmitOrderRequest_Validate (batch_child (bAccountID req) ord) = Inr ()) (bOrders req)
     \<and> distinct (filter (\<lambda>g. g \<noteq> []) (map sGatewayOrderID (bOrders req)))"
  by (simp add: BatchSubmitOrderRequest_Validate_def batch_validate_loop_ok list_all_iff)

end
