(* ===== verification/Event_Hub.thy ===== *)
theory Event_Hub
  imports Trading
begin

text \<open>
  \<^verbatim>\<open>internal/events/hub.go\<close>: the in-process event hub behind the event stream of the API. It
  numbers the events it publishes, keeps the last \<open>replayCapacity\<close> of them, delivers each to the
  bounded channel of every matching subscriber, and resumes a subscriber from a cursor. A
  channel is the list of events buffered in it; the hub's mutex makes each operation one step.
\<close>

section \<open>State\<close>

definition TypeGap :: string where "TypeGap = ''relay.gap''"
definition DefaultReplayCapacity :: int where "DefaultReplayCapacity = 2048"

text \<open>The values of an event's data.\<close>

datatype event_value =
    EvNil | EvBool bool | EvInt int | EvStr string | EvTime gotime
  | EvMap "(string \<times> event_value) list"

record Event =
  evID :: string
  evType :: string
  evAccountIDs :: "string list"
  evTime :: gotime
  evSource :: string
  evStream :: string
  evLastStreamID :: string
  evData :: event_value

record Resume =
  rRequestedCursor :: string
  rCurrentCursor :: string
  rOldestCursor :: string
  rStatus :: string
  rReason :: string
  rEvents :: "Event list"
  rReconciliationRequired :: bool

record Subscription =
  fltAccountID :: string
  fltBuffer :: int

text \<open>A subscriber: its account filter, the capacity of its channel and what is buffered.\<close>

record subscriber =
  subAccountID :: string
  subCap :: nat
  subCh :: "Event list"

record Hub =
  epoch :: string
  nextSubID :: nat
  nextEventID :: nat
  replayCapacity :: int
  history :: "Event list"
  subscribers :: "nat \<rightharpoonup> subscriber"

section \<open>Cursors\<close>

text \<open>\<^verbatim>\<open>fmt.Sprintf("%x", n)\<close>.\<close>

definition hex_char :: "nat \<Rightarrow> char" where
  "hex_char d = (if d < 10 then digit_char d else char_of (87 + d))"

fun Xtoa :: "nat \<Rightarrow> string" where
  "Xtoa n = (if n < 16 then [hex_char n] else Xtoa (n div 16) @ [hex_char (n mod 16)])"

declare Xtoa.simps [simp del]

definition cursorOf :: "string \<Rightarrow> nat \<Rightarrow> string" where
  "cursorOf ep sequence = ''evt-'' @ ep @ ''-'' @ Utoa sequence"

definition cursorLocked :: "Hub \<Rightarrow> nat \<Rightarrow> string" where
  "cursorLocked hub sequence = cursorOf (epoch hub) sequence"

definition parseCursor :: "string \<Rightarrow> string \<times> nat \<times> bool" where
  "parseCursor cursor0 =
     (let cursor = TrimSpace cursor0
      in if \<not> prefix ''evt-'' cursor then ([], 0, False)
         else case LastIndexByte (CHR ''-'') cursor of
                None \<Rightarrow> ([], 0, False)
              | Some separator \<Rightarrow>
                  if separator \<le> length ''evt-'' \<or> separator = length cursor - 1 then ([], 0, False)
                  else case ParseUint64 (drop (separator + 1) cursor) of
                         None \<Rightarrow> ([], 0, False)
                       | Some sequence \<Rightarrow>
                           (drop (length ''evt-'') (take separator cursor), sequence, True))"

section \<open>Operations\<close>

definition NewHubWithReplayCapacity :: "int \<Rightarrow> nat \<Rightarrow> nat \<Rightarrow> Hub" where
  "NewHubWithReplayCapacity capacity nanos counter =
     \<lparr>epoch = Xtoa nanos @ ''-'' @ Xtoa counter, nextSubID = 0, nextEventID = 0,
      replayCapacity = (if capacity < 0 then 0 else capacity), history = [],
      subscribers = Map.empty\<rparr>"

definition NewHub :: "nat \<Rightarrow> nat \<Rightarrow> Hub" where
  "NewHub nanos counter = NewHubWithReplayCapacity DefaultReplayCapacity nanos counter"

fun normalize_ids_loop :: "string list \<Rightarrow> string list \<Rightarrow> string list" where
  "normalize_ids_loop normalized [] = normalized"
| "normalize_ids_loop normalized (a # as) =
     (let a' = TrimSpace a
      in if a' = [] then normalize_ids_loop normalized as
         else if a' \<in> set normalized then normalize_ids_loop normalized as
         else normalize_ids_loop (normalized @ [a']) as)"

definition normalizeAccountIDs :: "string list \<Rightarrow> string list" where
  "normalizeAccountIDs accountIDs = normalize_ids_loop [] accountIDs"

definition subscriberMatches :: "string \<Rightarrow> Event \<Rightarrow> bool" where
  "subscriberMatches accountID event \<longleftrightarrow>
     accountID = [] \<or> evAccountIDs event = [] \<or> accountID \<in> set (evAccountIDs event)"

definition slowConsumerGap :: "string \<Rightarrow> Event \<Rightarrow> Event" where
  "slowConsumerGap accountID current =
     \<lparr>evID = evID current, evType = TypeGap,
      evAccountIDs = (if accountID \<noteq> [] then [accountID] else evAccountIDs current),
      evTime = evTime current, evSource = ''relay-api'', evStream = [], evLastStreamID = [],
      evData = EvMap [(''reason'', EvStr ''slow_consumer''),
                       (''current_cursor'', EvStr (evID current)),
                       (''reconciliation_required'', EvBool True)]\<rparr>"

text \<open>The body of the delivery loop for one subscriber: a full channel is drained and gets a gap
  marker instead.\<close>

definition deliver :: "Event \<Rightarrow> subscriber \<Rightarrow> subscriber" where
  "deliver event sub =
     (if \<not> subscriberMatches (subAccountID sub) event then sub
      else if length (subCh sub) < subCap sub then sub\<lparr>subCh := subCh sub @ [event]\<rparr>
      else sub\<lparr>subCh := [slowConsumerGap (subAccountID sub) event]\<rparr>)"

definition appendHistoryLocked :: "Event \<Rightarrow> Hub \<Rightarrow> Hub" where
  "appendHistoryLocked event hub =
     (if replayCapacity hub \<le> 0 then hub
      else if int (length (history hub)) = replayCapacity hub
      then hub\<lparr>history := tl (history hub) @ [event]\<rparr>
      else hub\<lparr>history := history hub @ [event]\<rparr>)"

text \<open>The event as it is stored and delivered: default type, business time (\<open>now\<close> when it has
  none), normalised accounts.\<close>

definition prepareEvent :: "gotime \<Rightarrow> Event \<Rightarrow> Event" where
  "prepareEvent now event =
     event\<lparr>evType := (if evType event = [] then ''relay.event'' else evType event),
           evTime := (if IsZero (evTime event) then now else evTime event),
           evAccountIDs := normalizeAccountIDs (evAccountIDs event)\<rparr>"

definition Publish :: "gotime \<Rightarrow> Event \<Rightarrow> Hub \<Rightarrow> Event \<times> Hub" where
  "Publish now event0 hub0 =
     (let sequence = wrapu64 (nextEventID hub0 + 1);
          event = (prepareEvent now event0)\<lparr>evID := cursorLocked hub0 sequence\<rparr>;
          hub1 = appendHistoryLocked event (hub0\<lparr>nextEventID := sequence\<rparr>)
      in (event, hub1\<lparr>subscribers := (\<lambda>i. map_option (deliver event) (subscribers hub1 i))\<rparr>))"

definition resumeLocked :: "string \<Rightarrow> string \<Rightarrow> Hub \<Rightarrow> Resume" where
  "resumeLocked accountID requested hub =
     (let resume = \<lparr>rRequestedCursor = requested,
                     rCurrentCursor = cursorLocked hub (nextEventID hub),
                     rOldestCursor = (case history hub of [] \<Rightarrow> [] | e # _ \<Rightarrow> evID e),
                     rStatus = ''fresh'', rReason = [], rEvents = [],
                     rReconciliationRequired = False\<rparr>
      in if requested = [] then resume
         else let resume = resume\<lparr>rReconciliationRequired := True\<rparr> in
           case parseCursor requested of (ep, sequence, ok) \<Rightarrow>
             if \<not> ok then resume\<lparr>rStatus := ''gap'', rReason := ''invalid_cursor''\<rparr>
             else if ep \<noteq> epoch hub then resume\<lparr>rStatus := ''gap'', rReason := ''server_restart''\<rparr>
             else if sequence > nextEventID hub
             then resume\<lparr>rStatus := ''gap'', rReason := ''cursor_ahead''\<rparr>
             else let earliest = (case history hub of
                                    [] \<Rightarrow> wrapu64 (nextEventID hub + 1)
                                  | e # _ \<Rightarrow> fst (snd (parseCursor (evID e))))
                  in if wrapu64 (sequence + 1) < earliest
                     then resume\<lparr>rStatus := ''gap'', rReason := ''cursor_expired''\<rparr>
                     else resume\<lparr>rStatus := ''resumed'',
                            rEvents := filter (\<lambda>e. case parseCursor (evID e) of
                                (_, n, valid) \<Rightarrow> valid \<and> n > sequence \<and> subscriberMatches accountID e)
                              (history hub)\<rparr>)"

text \<open>\<^verbatim>\<open>SubscribeFrom\<close> returns the subscription's id (which stands for its channel and its
  unsubscribe function), the resume answer and the hub.\<close>

definition SubscribeFrom :: "Subscription \<Rightarrow> string \<Rightarrow> Hub \<Rightarrow> nat \<times> Resume \<times> Hub" where
  "SubscribeFrom filt lastEventID hub =
     (let buffer = (if fltBuffer filt \<le> 0 then 32 else fltBuffer filt);
          sub = \<lparr>subAccountID = TrimSpace (fltAccountID filt), subCap = nat buffer, subCh = []\<rparr>;
          resume = resumeLocked (subAccountID sub) (TrimSpace lastEventID) hub;
          subID = wrapu64 (nextSubID hub + 1)
      in (subID, resume,
          hub\<lparr>nextSubID := subID, subscribers := (subscribers hub)(subID \<mapsto> sub)\<rparr>))"

definition Unsubscribe :: "nat \<Rightarrow> Hub \<Rightarrow> Hub" where
  "Unsubscribe subID hub = hub\<lparr>subscribers := (subscribers hub)(subID := None)\<rparr>"

definition CurrentCursor :: "Hub option \<Rightarrow> string" where
  "CurrentCursor hub = (case hub of None \<Rightarrow> [] | Some h \<Rightarrow> cursorLocked h (nextEventID h))"

definition ReplayCapacity :: "Hub option \<Rightarrow> int" where
  "ReplayCapacity hub = (case hub of None \<Rightarrow> 0 | Some h \<Rightarrow> replayCapacity h)"

text \<open>The exported methods accept a nil hub: publishing to it is the identity, subscribing to it
  subscribes to a fresh hub nobody publishes to.\<close>

definition Hub_Publish :: "gotime \<Rightarrow> Event \<Rightarrow> Hub option \<Rightarrow> Event \<times> Hub option" where
  "Hub_Publish now event hub =
     (case hub of None \<Rightarrow> (event, None)
      | Some h \<Rightarrow> (case Publish now event h of (e, h') \<Rightarrow> (e, Some h')))"

definition Hub_SubscribeFrom ::
    "nat \<Rightarrow> nat \<Rightarrow> Subscription \<Rightarrow> string \<Rightarrow> Hub option \<Rightarrow> nat \<times> Resume \<times> Hub option" where
  "Hub_SubscribeFrom nanos counter filt lastEventID hub =
     (case hub of
        None \<Rightarrow> (case SubscribeFrom filt lastEventID (NewHub nanos counter) of
                   (i, r, _) \<Rightarrow> (i, r, None))
      | Some h \<Rightarrow> (case SubscribeFrom filt lastEventID h of (i, r, h') \<Rightarrow> (i, r, Some h')))"

text \<open>A consumer takes the oldest event out of its channel.\<close>

definition receive :: "nat \<Rightarrow> Hub \<Rightarrow> (Event \<times> Hub) option" where
  "receive subID hub =
     (case subscribers hub subID of
        None \<Rightarrow> None
      | Some sub \<Rightarrow> (case subCh sub of
            [] \<Rightarrow> None
          | e # es \<Rightarrow> Some (e, hub\<lparr>subscribers := (subscribers hub)(subID \<mapsto> sub\<lparr>subCh := es\<rparr>)\<rparr>)))"

section \<open>Cursor codec\<close>

text \<open>What the resume logic relies on: a cursor made for an epoch and a sequence number parses
  back to both. The window lemma is the resume filter's correctness for any such codec.\<close>

locale cursor_codec =
  fixes good_epoch :: "string \<Rightarrow> bool"
    and mk :: "string \<Rightarrow> nat \<Rightarrow> string"
    and parse :: "string \<Rightarrow> string \<times> nat \<times> bool"
  assumes parse_mk: "good_epoch ep \<Longrightarrow> n < 2 ^ 64 \<Longrightarrow> parse (mk ep n) = (ep, n, True)"
begin

lemma mk_inj:
  assumes "good_epoch ep" and "m < 2 ^ 64" and "n < 2 ^ 64" and "mk ep m = mk ep n"
  shows "m = n"
proof -
  have "parse (mk ep m) = parse (mk ep n)" by (simp only: assms(4))
  then show ?thesis by (simp only: parse_mk [OF assms(1,2)] parse_mk [OF assms(1,3)] prod.inject)
qed

lemma window_after:
  assumes "good_epoch ep" and "map evID h = map (mk ep) [Suc k..<Suc n]" and "n < 2 ^ 64"
  shows "filter (\<lambda>e. case parse (evID e) of (_, m, ok) \<Rightarrow> ok \<and> m > j \<and> P e) h
    = filter P (drop (j - k) h)"
  using assms(2)
proof (induction h arbitrary: k)
  case Nil
  then show ?case by simp
next
  case (Cons e h)
  have "length (e # h) = n - k"
    using arg_cong [OF Cons.prems, of length] by (simp only: length_map length_upt diff_Suc_Suc)
  then have "k < n" by simp
  then have "[Suc k..<Suc n] = Suc k # [Suc (Suc k)..<Suc n]"
    by (simp add: upt_conv_Cons)
  with Cons.prems have e: "evID e = mk ep (Suc k)"
    and h: "map evID h = map (mk ep) [Suc (Suc k)..<Suc n]"
    by (simp_all del: upt_Suc)
  from \<open>k < n\<close> assms(1,3) e have p: "parse (evID e) = (ep, Suc k, True)"
    by (simp add: parse_mk)
  have IH: "filter (\<lambda>e. case parse (evID e) of (_, m, ok) \<Rightarrow> ok \<and> m > j \<and> P e) h
      = filter P (drop (j - Suc k) h)"
    by (rule Cons.IH [OF h])
  show ?case
  proof (cases "j \<le> k")
    case True
    then show ?thesis using p IH by simp
  next
    case False
    then have "j - k = Suc (j - Suc k)" by simp
    then show ?thesis using p IH False by simp
  qed
qed

end

lemma parseCursor_cursorOf:
  assumes "ep \<noteq> []" and "n < 2 ^ 64"
  shows "parseCursor (cursorOf ep n) = (ep, n, True)"
proof -
  have sep: "CHR ''-'' \<notin> set (Utoa n)"
    by (rule Utoa_no_byte) (simp add: is_digit_def)
  have "last (Utoa n) \<in> set (Utoa n)" by simp
  then have "is_digit (last (Utoa n))"
    using Utoa_digits [of n] by (simp add: list_all_iff)
  then have trim: "TrimSpace (cursorOf ep n) = cursorOf ep n"
    by (intro TrimSpace_edges) (auto simp: cursorOf_def ascii_edge_def is_digit_def)
  have cur: "cursorOf ep n = (''evt-'' @ ep) @ CHR ''-'' # Utoa n" by (simp add: cursorOf_def)
  have idx: "LastIndexByte (CHR ''-'') (cursorOf ep n) = Some (length (''evt-'' @ ep))"
    unfolding cur by (rule LastIndexByte_append [OF sep])
  show ?thesis
    unfolding parseCursor_def trim Let_def idx
    using assms Utoa_not_Nil [of n] by (simp add: cur)
qed

interpretation cur: cursor_codec "\<lambda>ep. ep \<noteq> []" cursorOf parseCursor
  by unfold_locales (rule parseCursor_cursorOf)

section \<open>Runs of the hub\<close>

text \<open>
  A run interleaves publications, subscriptions, consumers taking events and unsubscriptions.
  Three ghost fields record what the hub forgets: every event published, the number of events
  published before each subscription, and what each consumer has taken. The two counters are
  64 bits wide; a run is followed until one of them would wrap.
\<close>

record hub_world =
  hub :: Hub
  plog :: "Event list"
  since :: "nat \<Rightarrow> nat"
  got :: "nat \<Rightarrow> Event list"

inductive hub_step :: "hub_world \<Rightarrow> hub_world \<Rightarrow> bool" where
  publish: "Publish now e (hub w) = (e', h') \<Longrightarrow> nextEventID (hub w) + 2 < 2 ^ 64 \<Longrightarrow>
    hub_step w (w\<lparr>hub := h', plog := plog w @ [e']\<rparr>)"
| subscribe: "SubscribeFrom filt c (hub w) = (i, r, h') \<Longrightarrow> nextSubID (hub w) + 1 < 2 ^ 64 \<Longrightarrow>
    hub_step w (w\<lparr>hub := h', since := (since w)(i := length (plog w)), got := (got w)(i := [])\<rparr>)"
| unsubscribe: "hub_step w (w\<lparr>hub := Unsubscribe i (hub w)\<rparr>)"
| take_event: "receive i (hub w) = Some (e, h') \<Longrightarrow>
    hub_step w (w\<lparr>hub := h', got := (got w)(i := got w i @ [e])\<rparr>)"

definition start_world :: "int \<Rightarrow> nat \<Rightarrow> nat \<Rightarrow> hub_world" where
  "start_world capacity nanos counter =
     \<lparr>hub = NewHubWithReplayCapacity capacity nanos counter, plog = [], since = (\<lambda>_. 0),
      got = (\<lambda>_. [])\<rparr>"

inductive hub_reach :: "hub_world \<Rightarrow> bool" where
  start: "hub_reach (start_world capacity nanos counter)"
| step: "hub_reach w \<Longrightarrow> hub_step w w' \<Longrightarrow> hub_reach w'"

text \<open>What a subscriber is owed: unless a gap marker tells it that events were dropped, what it
  has taken and what waits for it are the matching events since it subscribed, in order.\<close>

definition no_silent_loss :: "hub_world \<Rightarrow> nat \<Rightarrow> subscriber \<Rightarrow> bool" where
  "no_silent_loss w i sub \<longleftrightarrow>
     (\<exists>e \<in> set (got w i @ subCh sub). evType e = TypeGap)
     \<or> got w i @ subCh sub = filter (subscriberMatches (subAccountID sub)) (drop (since w i) (plog w))"

definition sub_inv :: "hub_world \<Rightarrow> nat \<Rightarrow> subscriber \<Rightarrow> bool" where
  "sub_inv w i sub \<longleftrightarrow> i \<le> nextSubID (hub w) \<and> 0 < subCap sub \<and> length (subCh sub) \<le> subCap sub
     \<and> since w i \<le> length (plog w) \<and> no_silent_loss w i sub"

definition hub_inv :: "hub_world \<Rightarrow> bool" where
  "hub_inv w \<longleftrightarrow>
     epoch (hub w) \<noteq> [] \<and> 0 \<le> replayCapacity (hub w)
     \<and> nextEventID (hub w) = length (plog w) \<and> length (plog w) + 1 < 2 ^ 64
     \<and> map evID (plog w) = map (cursorOf (epoch (hub w))) [1..<Suc (length (plog w))]
     \<and> history (hub w) = drop (length (plog w) - nat (replayCapacity (hub w))) (plog w)
     \<and> (\<forall>i sub. subscribers (hub w) i = Some sub \<longrightarrow> sub_inv w i sub)"

lemma Xtoa_not_Nil [simp]: "Xtoa n \<noteq> []"
  by (simp add: Xtoa.simps [of n])

lemma hub_inv_start: "hub_inv (start_world capacity nanos counter)"
  by (simp add: hub_inv_def start_world_def NewHubWithReplayCapacity_def)

lemma appendHistoryLocked_fields [simp]:
  "epoch (appendHistoryLocked e h) = epoch h"
  "nextSubID (appendHistoryLocked e h) = nextSubID h"
  "nextEventID (appendHistoryLocked e h) = nextEventID h"
  "replayCapacity (appendHistoryLocked e h) = replayCapacity h"
  "subscribers (appendHistoryLocked e h) = subscribers h"
  by (simp_all add: appendHistoryLocked_def)

text \<open>Appending to the history keeps it the last \<open>replayCapacity\<close> events of the log.\<close>

lemma appendHistoryLocked_suffix:
  assumes "0 \<le> replayCapacity h"
    and "history h = drop (length l - nat (replayCapacity h)) l"
  shows "history (appendHistoryLocked e h) = drop (length (l @ [e]) - nat (replayCapacity h)) (l @ [e])"
proof -
  define c where "c = nat (replayCapacity h)"
  have len: "length (history h) = min c (length l)" using assms(2) by (simp add: c_def)
  consider "c = 0" | "0 < c" "length l < c" | "0 < c" "c \<le> length l" by linarith
  then show ?thesis
  proof cases
    case 1
    with assms show ?thesis by (simp add: appendHistoryLocked_def c_def)
  next
    case 2
    with len assms show ?thesis by (auto simp: appendHistoryLocked_def c_def)
  next
    case 3
    with len have full: "int (length (history h)) = replayCapacity h" by (simp add: c_def)
    have "tl (history h) = drop (Suc (length l - c)) l"
      using assms(2) by (simp add: c_def drop_Suc tl_drop)
    moreover from 3 have "Suc (length l) - c = Suc (length l - c)" by (simp add: Suc_diff_le)
    moreover from 3 have "Suc (length l - c) \<le> length l" by linarith
    moreover from 3 have "0 < replayCapacity h" by (simp add: c_def)
    ultimately show ?thesis using full 3
      by (simp add: appendHistoryLocked_def c_def [symmetric])
  qed
qed

lemma Publish_hub:
  assumes "Publish now e0 h = (e, h')"
  shows "e = (prepareEvent now e0)\<lparr>evID := cursorLocked h (wrapu64 (nextEventID h + 1))\<rparr>"
    and "epoch h' = epoch h" and "nextSubID h' = nextSubID h"
    and "replayCapacity h' = replayCapacity h"
    and "nextEventID h' = wrapu64 (nextEventID h + 1)"
    and "history h' = history (appendHistoryLocked e (h\<lparr>nextEventID := wrapu64 (nextEventID h + 1)\<rparr>))"
    and "subscribers h' = (\<lambda>i. map_option (deliver e) (subscribers h i))"
  using assms by (auto simp: Publish_def Let_def)

lemma deliver_fields [simp]:
  "subAccountID (deliver e sub) = subAccountID sub" "subCap (deliver e sub) = subCap sub"
  by (simp_all add: deliver_def)

lemma deliver_bound: "0 < subCap sub \<Longrightarrow> length (subCh sub) \<le> subCap sub \<Longrightarrow>
    length (subCh (deliver e sub)) \<le> subCap sub"
  by (auto simp: deliver_def)

lemma deliver_no_silent_loss:
  assumes "no_silent_loss w i sub" and "since w i \<le> length (plog w)"
  shows "no_silent_loss (w\<lparr>hub := h', plog := plog w @ [e]\<rparr>) i (deliver e sub)"
proof -
  consider (skip) "\<not> subscriberMatches (subAccountID sub) e"
    | (room) "subscriberMatches (subAccountID sub) e" "length (subCh sub) < subCap sub"
    | (full) "subscriberMatches (subAccountID sub) e" "\<not> length (subCh sub) < subCap sub"
    by blast
  then show ?thesis
  proof cases
    case skip
    with assms show ?thesis by (auto simp: no_silent_loss_def deliver_def)
  next
    case room
    with assms show ?thesis
      by (auto simp: no_silent_loss_def deliver_def simp flip: append_assoc)
  next
    case full
    then show ?thesis by (simp add: no_silent_loss_def deliver_def slowConsumerGap_def)
  qed
qed

lemma hub_inv_publish:
  assumes inv: "hub_inv w" and pub: "Publish now e0 (hub w) = (e, h')"
    and bound: "nextEventID (hub w) + 2 < 2 ^ 64"
  shows "hub_inv (w\<lparr>hub := h', plog := plog w @ [e]\<rparr>)"
proof -
  note h' = Publish_hub [OF pub]
  from inv have n: "nextEventID (hub w) = length (plog w)" by (simp add: hub_inv_def)
  from bound n have seq: "wrapu64 (nextEventID (hub w) + 1) = Suc (length (plog w))"
    by (simp add: wrapu64_def)
  have id: "evID e = cursorOf (epoch (hub w)) (Suc (length (plog w)))"
    using h'(1) [unfolded seq] by (simp add: cursorLocked_def)
  have hist: "history h' = drop (length (plog w @ [e]) - nat (replayCapacity (hub w))) (plog w @ [e])"
    unfolding h'(6) seq
    using appendHistoryLocked_suffix [of "hub w\<lparr>nextEventID := Suc (length (plog w))\<rparr>" "plog w" e] inv
    by (simp add: hub_inv_def)
  have subs: "sub_inv (w\<lparr>hub := h', plog := plog w @ [e]\<rparr>) i sub"
    if new: "subscribers h' i = Some sub" for i sub
  proof -
    from new obtain old where old: "subscribers (hub w) i = Some old" "sub = deliver e old"
      by (auto simp: h'(7))
    with inv have "sub_inv w i old" by (simp add: hub_inv_def)
    with old deliver_no_silent_loss [of w i old e h'] deliver_bound [of old e] h'(3) show ?thesis
      by (auto simp: sub_inv_def)
  qed
  show ?thesis
    using inv bound n seq id hist subs h'(2,4,5) by (simp add: hub_inv_def)
qed

lemma hub_inv_subscribe:
  assumes inv: "hub_inv w" and sub: "SubscribeFrom filt c (hub w) = (i, r, h')"
    and bound: "nextSubID (hub w) + 1 < 2 ^ 64"
  shows "hub_inv (w\<lparr>hub := h', since := (since w)(i := length (plog w)), got := (got w)(i := [])\<rparr>)"
proof -
  from sub bound have i: "i = Suc (nextSubID (hub w))"
    by (auto simp: SubscribeFrom_def Let_def wrapu64_def)
  have old: "j \<noteq> i" if "subscribers (hub w) j = Some s" for j s
    using inv that i by (force simp: hub_inv_def sub_inv_def)
  have frame: "sub_inv (w\<lparr>hub := h', since := (since w)(i := length (plog w)), got := (got w)(i := [])\<rparr>) j s"
    if "subscribers (hub w) j = Some s" for j s
  proof -
    from inv that have "sub_inv w j s" by (simp add: hub_inv_def)
    with old [OF that] sub i show ?thesis
      by (auto simp: sub_inv_def no_silent_loss_def SubscribeFrom_def Let_def)
  qed
  have new: "sub_inv (w\<lparr>hub := h', since := (since w)(i := length (plog w)), got := (got w)(i := [])\<rparr>) i s"
    if "subscribers h' i = Some s" for s
    using that sub i by (auto simp: sub_inv_def no_silent_loss_def SubscribeFrom_def Let_def)
  have subs: "sub_inv (w\<lparr>hub := h', since := (since w)(i := length (plog w)), got := (got w)(i := [])\<rparr>) j s"
    if "subscribers h' j = Some s" for j s
  proof (cases "j = i")
    case True
    with that new show ?thesis by simp
  next
    case False
    with that sub have "subscribers (hub w) j = Some s"
      by (auto simp: SubscribeFrom_def Let_def)
    then show ?thesis by (rule frame)
  qed
  have "epoch h' = epoch (hub w)" "replayCapacity h' = replayCapacity (hub w)"
    "nextEventID h' = nextEventID (hub w)" "history h' = history (hub w)"
    using sub by (auto simp: SubscribeFrom_def Let_def)
  with inv subs show ?thesis by (simp add: hub_inv_def)
qed

lemma sub_inv_frame:
  assumes "nextSubID h' = nextSubID (hub w)" and "g j = got w j"
  shows "sub_inv (w\<lparr>hub := h', got := g\<rparr>) j sub = sub_inv w j sub"
  using assms by (simp add: sub_inv_def no_silent_loss_def)

lemma hub_inv_unsubscribe: "hub_inv w \<Longrightarrow> hub_inv (w\<lparr>hub := Unsubscribe i (hub w)\<rparr>)"
  using sub_inv_frame [of "Unsubscribe i (hub w)" w "got w"]
  by (auto simp: hub_inv_def Unsubscribe_def split: if_splits)

lemma hub_inv_receive:
  assumes inv: "hub_inv w" and recv: "receive i (hub w) = Some (e, h')"
  shows "hub_inv (w\<lparr>hub := h', got := (got w)(i := got w i @ [e])\<rparr>)"
proof -
  from recv obtain sub es where sub: "subscribers (hub w) i = Some sub" "subCh sub = e # es"
    and h': "h' = hub w\<lparr>subscribers := (subscribers (hub w))(i \<mapsto> sub\<lparr>subCh := es\<rparr>)\<rparr>"
    by (auto simp: receive_def split: option.splits list.splits)
  have "sub_inv w i sub" using inv sub by (simp add: hub_inv_def)
  then have own: "sub_inv (w\<lparr>hub := h', got := (got w)(i := got w i @ [e])\<rparr>) i (sub\<lparr>subCh := es\<rparr>)"
    using sub(2) h' by (simp add: sub_inv_def no_silent_loss_def)
  have "sub_inv (w\<lparr>hub := h', got := (got w)(i := got w i @ [e])\<rparr>) j s"
    if "subscribers h' j = Some s" for j s
  proof (cases "j = i")
    case True
    with that h' own show ?thesis by simp
  next
    case False
    with that h' inv have "sub_inv w j s" by (simp add: hub_inv_def)
    with False h' show ?thesis by (simp add: sub_inv_frame)
  qed
  with inv h' show ?thesis by (simp add: hub_inv_def)
qed

lemma hub_step_inv: "hub_step w w' \<Longrightarrow> hub_inv w \<Longrightarrow> hub_inv w'"
  by (induction rule: hub_step.induct)
     (auto intro: hub_inv_publish hub_inv_subscribe hub_inv_unsubscribe hub_inv_receive)

lemma hub_reach_inv: "hub_reach w \<Longrightarrow> hub_inv w"
  by (induction rule: hub_reach.induct) (auto intro: hub_inv_start hub_step_inv)

section \<open>Resuming from a cursor\<close>

lemma history_ids:
  assumes "hub_inv w"
  shows "map evID (history (hub w))
    = map (cursorOf (epoch (hub w)))
        [Suc (length (plog w) - nat (replayCapacity (hub w)))..<Suc (length (plog w))]"
proof -
  let ?d = "length (plog w) - nat (replayCapacity (hub w))"
  from assms have hist: "history (hub w) = drop ?d (plog w)"
    and ids: "map evID (plog w) = map (cursorOf (epoch (hub w))) [1..<Suc (length (plog w))]"
    by (simp_all only: hub_inv_def)
  have "map evID (history (hub w)) = drop ?d (map evID (plog w))"
    by (simp add: hist drop_map)
  also have "\<dots> = map (cursorOf (epoch (hub w))) (drop ?d [1..<Suc (length (plog w))])"
    by (simp only: ids drop_map)
  also have "drop ?d [1..<Suc (length (plog w))] = [Suc ?d..<Suc (length (plog w))]"
    by (simp only: drop_upt plus_1_eq_Suc)
  finally show ?thesis .
qed

text \<open>The oldest sequence number still held is one more than the number of events dropped.\<close>

lemma earliest_sequence:
  assumes inv: "hub_inv w"
  shows "(case history (hub w) of
            [] \<Rightarrow> wrapu64 (nextEventID (hub w) + 1)
          | e # _ \<Rightarrow> fst (snd (parseCursor (evID e))))
    = Suc (length (plog w) - nat (replayCapacity (hub w)))"
proof (cases "history (hub w)")
  case Nil
  with inv have "length (plog w) \<le> length (plog w) - nat (replayCapacity (hub w))"
    by (auto simp: hub_inv_def)
  with Nil inv show ?thesis by (simp add: hub_inv_def wrapu64_def)
next
  case (Cons e es)
  define k where "k = length (plog w) - nat (replayCapacity (hub w))"
  have "length (history (hub w)) = length (plog w) - k"
    using inv by (simp add: hub_inv_def k_def)
  with Cons have k: "k < length (plog w)" by simp
  then have "[Suc k..<Suc (length (plog w))] = Suc k # [Suc (Suc k)..<Suc (length (plog w))]"
    by (simp add: upt_conv_Cons)
  with history_ids [OF inv] Cons have "evID e = cursorOf (epoch (hub w)) (Suc k)"
    by (simp add: k_def [symmetric] del: upt_Suc)
  moreover from inv have "epoch (hub w) \<noteq> []" and "length (plog w) < 2 ^ 64"
    by (simp_all add: hub_inv_def)
  ultimately have "parseCursor (evID e) = (epoch (hub w), Suc k, True)"
    using k by (simp add: parseCursor_cursorOf)
  then show ?thesis unfolding Cons k_def by simp
qed

lemma cursorLocked_not_Nil [simp]: "cursorLocked h n \<noteq> []"
  by (simp add: cursorLocked_def cursorOf_def)

lemma resumeLocked_cursor:
  fixes w :: hub_world and k :: nat and a :: string
  assumes inv: "hub_inv w" and k: "k < 2 ^ 64"
  defines "n \<equiv> length (plog w)" and "c \<equiv> nat (replayCapacity (hub w))"
    and "r \<equiv> resumeLocked a (cursorLocked (hub w) k) (hub w)"
  shows "rReconciliationRequired r"
    and "n < k \<Longrightarrow> rStatus r = ''gap'' \<and> rReason r = ''cursor_ahead'' \<and> rEvents r = []"
    and "k < n - c \<Longrightarrow> rStatus r = ''gap'' \<and> rReason r = ''cursor_expired'' \<and> rEvents r = []"
    and "n - c \<le> k \<Longrightarrow> k \<le> n \<Longrightarrow> rStatus r = ''resumed''
      \<and> rEvents r = filter (subscriberMatches a) (drop k (plog w))"
proof -
  from inv have ep: "epoch (hub w) \<noteq> []" and n: "nextEventID (hub w) = n" and b: "n + 1 < 2 ^ 64"
    by (simp_all add: hub_inv_def n_def)
  have parse: "parseCursor (cursorLocked (hub w) k) = (epoch (hub w), k, True)"
    using ep k by (simp add: cursorLocked_def parseCursor_cursorOf)
  note early = earliest_sequence [OF inv, folded n_def c_def]
  have wrap: "k \<le> n \<Longrightarrow> wrapu64 (k + 1) = Suc k" using b by (simp add: wrapu64_def)
  have window: "filter (\<lambda>e. case parseCursor (evID e) of
        (_, m, ok) \<Rightarrow> ok \<and> m > k \<and> subscriberMatches a e) (history (hub w))
      = filter (subscriberMatches a) (drop (k - (n - c)) (history (hub w)))"
    using cur.window_after [OF ep history_ids [OF inv, folded n_def c_def]] b by simp
  have hist: "history (hub w) = drop (n - c) (plog w)" using inv by (simp add: hub_inv_def n_def c_def)
  show "rReconciliationRequired r"
    by (simp add: r_def resumeLocked_def Let_def parse)
  show "n < k \<Longrightarrow> rStatus r = ''gap'' \<and> rReason r = ''cursor_ahead'' \<and> rEvents r = []"
    by (simp add: r_def resumeLocked_def Let_def parse n)
  show "k < n - c \<Longrightarrow> rStatus r = ''gap'' \<and> rReason r = ''cursor_expired'' \<and> rEvents r = []"
    using wrap early by (simp add: r_def resumeLocked_def Let_def parse n)
  show "rStatus r = ''resumed'' \<and> rEvents r = filter (subscriberMatches a) (drop k (plog w))"
    if "n - c \<le> k" "k \<le> n"
    using that wrap early window hist by (simp add: r_def resumeLocked_def Let_def parse n)
qed

text \<open>C10: The hub resumes a client exactly. In every reachable state, for the cursor of sequence
  number \<open>k\<close> of the running hub, the answer is \<^verbatim>\<open>resumed\<close> if and only if \<open>k\<close> lies in the retained
  window, and then the replayed events are all the events published after \<open>k\<close> that match the
  subscriber, in order and each once; outside the window the answer is a gap with the reason.\<close>

theorem hub_resume_exact:
  assumes "hub_reach w" and "k < 2 ^ 64"
  shows "let n = length (plog w);
             r = resumeLocked a (cursorLocked (hub w) k) (hub w)
         in rReconciliationRequired r
            \<and> (rStatus r = ''resumed'' \<longleftrightarrow> n - nat (replayCapacity (hub w)) \<le> k \<and> k \<le> n)
            \<and> (rStatus r = ''resumed'' \<longrightarrow> rEvents r = filter (subscriberMatches a) (drop k (plog w)))
            \<and> (rStatus r \<noteq> ''resumed'' \<longrightarrow> rStatus r = ''gap'' \<and> rEvents r = []
                 \<and> rReason r = (if n < k then ''cursor_ahead'' else ''cursor_expired''))"
proof -
  note inv = hub_reach_inv [OF assms(1)]
  note facts = resumeLocked_cursor [OF inv assms(2), of a]
  let ?n = "length (plog w)" and ?c = "nat (replayCapacity (hub w))"
  consider "?n < k" | "k < ?n - ?c" | "?n - ?c \<le> k" "k \<le> ?n" by linarith
  then show ?thesis using facts by cases (simp_all add: Let_def)
qed

text \<open>A concrete run for the witnesses: two events published by a hub that keeps one.\<close>

definition demo_event :: Event where
  "demo_event = \<lparr>evID = [], evType = ''order.changed'', evAccountIDs = [''A1''], evTime = 5,
     evSource = [], evStream = [], evLastStreamID = [], evData = EvNil\<rparr>"

definition publish_world :: "Event \<Rightarrow> hub_world \<Rightarrow> hub_world" where
  "publish_world e w = (case Publish 7 e (hub w) of (e', h') \<Rightarrow> w\<lparr>hub := h', plog := plog w @ [e']\<rparr>)"

definition subscribe_world :: "Subscription \<Rightarrow> string \<Rightarrow> hub_world \<Rightarrow> hub_world" where
  "subscribe_world f c w = (case SubscribeFrom f c (hub w) of (i, r, h') \<Rightarrow>
     w\<lparr>hub := h', since := (since w)(i := length (plog w)), got := (got w)(i := [])\<rparr>)"

lemma publish_world_reach:
  "hub_reach w \<Longrightarrow> nextEventID (hub w) + 2 < 2 ^ 64 \<Longrightarrow> hub_reach (publish_world e w)"
  by (cases "Publish 7 e (hub w)")
     (auto simp: publish_world_def intro: hub_reach.step [OF _ hub_step.publish])

lemma subscribe_world_reach:
  "hub_reach w \<Longrightarrow> nextSubID (hub w) + 1 < 2 ^ 64 \<Longrightarrow> hub_reach (subscribe_world f c w)"
  by (cases "SubscribeFrom f c (hub w)")
     (auto simp: subscribe_world_def intro: hub_reach.step [OF _ hub_step.subscribe])

lemma nextEventID_publish_world:
  "nextEventID (hub (publish_world e w)) = wrapu64 (nextEventID (hub w) + 1)"
  by (simp add: publish_world_def Publish_def Let_def)

definition demo_world :: hub_world where
  "demo_world = publish_world demo_event (publish_world demo_event (start_world 1 10 1))"

lemma demo_world_reach: "hub_reach demo_world"
  unfolding demo_world_def
  by (intro publish_world_reach hub_reach.start)
     (simp_all add: nextEventID_publish_world start_world_def NewHubWithReplayCapacity_def wrapu64_def)

lemma demo_world_plog: "length (plog demo_world) = 2"
  by (simp add: demo_world_def publish_world_def Publish_def Let_def start_world_def)

theorem hub_resume_exact_witness:
  "hub_reach demo_world \<and> (1 :: nat) < 2 ^ 64
   \<and> rStatus (resumeLocked ''A1'' (cursorLocked (hub demo_world) 1) (hub demo_world)) = ''resumed''
   \<and> rEvents (resumeLocked ''A1'' (cursorLocked (hub demo_world) 1) (hub demo_world))
       = filter (subscriberMatches ''A1'') (drop 1 (plog demo_world))"
proof -
  have cap: "replayCapacity (hub demo_world) = 1"
    by (simp add: demo_world_def publish_world_def Publish_def Let_def start_world_def
        NewHubWithReplayCapacity_def)
  show ?thesis
    using hub_resume_exact [OF demo_world_reach, of 1 "''A1''"] demo_world_reach
    by (simp add: Let_def cap demo_world_plog)
qed

text \<open>C9: No silent loss. In every reachable state, a subscriber's channel never exceeds its
  capacity, and unless a gap marker is among the events it took or that wait for it, those
  events are exactly the matching events published since it subscribed, in order.\<close>

theorem hub_no_silent_loss:
  assumes "hub_reach w" and "subscribers (hub w) i = Some sub"
  shows "length (subCh sub) \<le> subCap sub
    \<and> ((\<exists>e \<in> set (got w i @ subCh sub). evType e = TypeGap)
       \<or> got w i @ subCh sub
           = filter (subscriberMatches (subAccountID sub)) (drop (since w i) (plog w)))"
  using hub_reach_inv [OF assms(1)] assms(2)
  by (simp add: hub_inv_def sub_inv_def no_silent_loss_def)

definition demo_sub_world :: hub_world where
  "demo_sub_world = publish_world demo_event
     (subscribe_world \<lparr>fltAccountID = ''A1'', fltBuffer = 1\<rparr> [] (start_world 4 10 1))"

lemma demo_sub_world_reach: "hub_reach demo_sub_world"
  unfolding demo_sub_world_def
  by (intro publish_world_reach subscribe_world_reach hub_reach.start)
     (simp_all add: subscribe_world_def SubscribeFrom_def Let_def start_world_def
       NewHubWithReplayCapacity_def)

theorem hub_no_silent_loss_witness:
  "\<exists>sub. hub_reach demo_sub_world \<and> subscribers (hub demo_sub_world) 1 = Some sub
     \<and> length (subCh sub) \<le> subCap sub"
proof -
  obtain sub where "subscribers (hub demo_sub_world) 1 = Some sub"
    by (auto simp: demo_sub_world_def publish_world_def subscribe_world_def Publish_def Let_def
        SubscribeFrom_def start_world_def NewHubWithReplayCapacity_def wrapu64_def
        appendHistoryLocked_def)
  then show ?thesis
    using hub_no_silent_loss [OF demo_sub_world_reach] demo_sub_world_reach by blast
qed

section \<open>Resuming and then listening\<close>

lemma hub_step_log: "hub_step w w' \<Longrightarrow> \<exists>l. plog w' = plog w @ l"
  by (induction rule: hub_step.induct) auto

lemma hub_step_since:
  assumes "hub_step w w'" and "i \<le> nextSubID (hub w)"
  shows "since w' i = since w i \<and> i \<le> nextSubID (hub w')"
  using assms
proof (induction rule: hub_step.induct)
  case (publish now e w e' h')
  then show ?case using Publish_hub(3) [OF publish(1)] by simp
next
  case (subscribe filt c w j r h')
  then show ?case by (auto simp: SubscribeFrom_def Let_def wrapu64_def)
next
  case (unsubscribe w j)
  then show ?case by (simp add: Unsubscribe_def)
next
  case (take_event j w e h')
  then show ?case by (auto simp: receive_def split: option.splits list.splits)
qed

lemma hub_step_account:
  assumes "hub_step w w'" and "i \<le> nextSubID (hub w)" and "subscribers (hub w') i = Some s"
  shows "\<exists>s0. subscribers (hub w) i = Some s0 \<and> subAccountID s0 = subAccountID s"
  using assms
proof (induction rule: hub_step.induct)
  case (publish now e w e' h')
  then show ?case using Publish_hub(7) [OF publish(1)] by auto
next
  case (subscribe filt c w j r h')
  then show ?case by (auto simp: SubscribeFrom_def Let_def wrapu64_def split: if_splits)
next
  case (unsubscribe w j)
  then show ?case by (auto simp: Unsubscribe_def split: if_splits)
next
  case (take_event j w e h')
  then show ?case by (auto simp: receive_def split: option.splits list.splits if_splits)
qed

text \<open>Worlds later in the same run.\<close>

inductive hub_later :: "hub_world \<Rightarrow> hub_world \<Rightarrow> bool" for w where
  now: "hub_later w w"
| later: "hub_later w v \<Longrightarrow> hub_step v u \<Longrightarrow> hub_later w u"

lemma hub_later_frame:
  assumes "hub_later w w'" and "i \<le> nextSubID (hub w)"
  shows "(\<exists>l. plog w' = plog w @ l) \<and> since w' i = since w i \<and> i \<le> nextSubID (hub w')
    \<and> (hub_reach w \<longrightarrow> hub_reach w')"
  using assms
proof (induction rule: hub_later.induct)
  case now
  then show ?case by simp
next
  case (later v u)
  then show ?case
    using hub_step_log [of v u] hub_step_since [of v u i] hub_reach.step [of v u]
    by (metis append.assoc)
qed

lemma hub_later_account:
  assumes "hub_later w w'" and "i \<le> nextSubID (hub w)" and "subscribers (hub w') i = Some s"
  shows "\<exists>s0. subscribers (hub w) i = Some s0 \<and> subAccountID s0 = subAccountID s"
  using assms
proof (induction arbitrary: s rule: hub_later.induct)
  case now
  then show ?case by simp
next
  case (later v u)
  have "i \<le> nextSubID (hub v)" using hub_later_frame [OF later.hyps(1) later.prems(1)] by simp
  from hub_step_account [OF later.hyps(2) this later.prems(2)] later.IH [OF later.prems(1)]
  show ?case by fastforce
qed

lemma subscribe_world_sub:
  assumes "SubscribeFrom filt c (hub w) = (i, r, h')"
  shows "since (subscribe_world filt c w) i = length (plog w)"
    and "plog (subscribe_world filt c w) = plog w"
    and "nextSubID (hub (subscribe_world filt c w)) = i"
    and "r = resumeLocked (TrimSpace (fltAccountID filt)) (TrimSpace c) (hub w)"
    and "map_option subAccountID (subscribers (hub (subscribe_world filt c w)) i)
      = Some (TrimSpace (fltAccountID filt))"
  using assms by (auto simp: subscribe_world_def SubscribeFrom_def Let_def)

lemma TrimSpace_cursorLocked [simp]: "TrimSpace (cursorLocked h k) = cursorLocked h k"
proof -
  have "last (Utoa k) \<in> set (Utoa k)" by simp
  then have "is_digit (last (Utoa k))" using Utoa_digits [of k] by (simp add: list_all_iff)
  then show ?thesis
    by (intro TrimSpace_edges) (auto simp: cursorLocked_def cursorOf_def ascii_edge_def is_digit_def)
qed

lemma resumed_events:
  assumes inv: "hub_inv w" and k: "k < 2 ^ 64"
    and r: "r = resumeLocked a (cursorLocked (hub w) k) (hub w)" and ok: "rStatus r = ''resumed''"
  shows "k \<le> length (plog w) \<and> rEvents r = filter (subscriberMatches a) (drop k (plog w))"
proof -
  let ?n = "length (plog w)" and ?c = "nat (replayCapacity (hub w))"
  note facts = resumeLocked_cursor [OF inv k, of a, folded r]
  consider "?n < k" | "k < ?n - ?c" | "?n - ?c \<le> k" "k \<le> ?n" by linarith
  then show ?thesis using facts ok by cases simp_all
qed

text \<open>C29: Reconnection without loss or duplication. A client that resumes from cursor \<open>k\<close> with
  answer \<^verbatim>\<open>resumed\<close> and keeps listening has, at any later point of the run at which no gap marker
  reached it, the replayed events followed by the live ones equal to all matching events
  published after \<open>k\<close>.\<close>

theorem hub_resume_then_listen:
  assumes reach: "hub_reach w" and k: "k < 2 ^ 64" and ids: "nextSubID (hub w) + 1 < 2 ^ 64"
    and sub: "SubscribeFrom filt (cursorLocked (hub w) k) (hub w) = (i, r, h')"
    and resumed: "rStatus r = ''resumed''"
    and later: "hub_later (subscribe_world filt (cursorLocked (hub w) k) w) w'"
    and alive: "subscribers (hub w') i = Some s"
    and nogap: "\<not> (\<exists>e \<in> set (got w' i @ subCh s). evType e = TypeGap)"
  shows "rEvents r @ got w' i @ subCh s
    = filter (subscriberMatches (TrimSpace (fltAccountID filt))) (drop k (plog w'))"
proof -
  let ?a = "TrimSpace (fltAccountID filt)"
  note w1 = subscribe_world_sub [OF sub]
  have reach1: "hub_reach (subscribe_world filt (cursorLocked (hub w) k) w)"
    using reach ids by (rule subscribe_world_reach)
  obtain l where log: "plog w' = plog w @ l" and since: "since w' i = length (plog w)"
    and reach': "hub_reach w'"
    using hub_later_frame [OF later, of i] w1 reach1 by auto
  have acct: "subAccountID s = ?a"
    using hub_later_account [OF later _ alive] w1(3,5) by auto
  have r: "r = resumeLocked ?a (cursorLocked (hub w) k) (hub w)"
    using w1(4) by simp
  note past = resumed_events [OF hub_reach_inv [OF reach] k r resumed]
  have "got w' i @ subCh s = filter (subscriberMatches ?a) l"
  proof -
    have "sub_inv w' i s" using hub_reach_inv [OF reach'] alive by (simp only: hub_inv_def)
    then show ?thesis using nogap acct since log by (auto simp: sub_inv_def no_silent_loss_def)
  qed
  with past log show ?thesis by simp
qed

definition demo_client :: Subscription where
  "demo_client = \<lparr>fltAccountID = ''A1'', fltBuffer = 4\<rparr>"

definition demo_later :: hub_world where
  "demo_later = publish_world demo_event
     (subscribe_world demo_client (cursorLocked (hub demo_world) 1) demo_world)"

theorem hub_resume_then_listen_witness:
  "let sf = SubscribeFrom demo_client (cursorLocked (hub demo_world) 1) (hub demo_world)
   in \<exists>s. subscribers (hub demo_later) (fst sf) = Some s
     \<and> rEvents (fst (snd sf)) @ got demo_later (fst sf) @ subCh s
        = filter (subscriberMatches (TrimSpace (fltAccountID demo_client)))
            (drop 1 (plog demo_later))"
proof -
  obtain i r h' where sf:
    "SubscribeFrom demo_client (cursorLocked (hub demo_world) 1) (hub demo_world) = (i, r, h')"
    by (cases "SubscribeFrom demo_client (cursorLocked (hub demo_world) 1) (hub demo_world)")
  have sub0: "nextSubID (hub demo_world) = 0"
    by (simp add: demo_world_def publish_world_def Publish_def Let_def start_world_def
        NewHubWithReplayCapacity_def)
  let ?w1 = "subscribe_world demo_client (cursorLocked (hub demo_world) 1) demo_world"
  have r: "r = resumeLocked (TrimSpace (fltAccountID demo_client))
      (cursorLocked (hub demo_world) 1) (hub demo_world)"
    and w1: "hub ?w1 = h'" "got ?w1 i = []" "nextEventID h' = nextEventID (hub demo_world)"
      "subscribers h' i = Some \<lparr>subAccountID = TrimSpace ''A1'', subCap = 4, subCh = []\<rparr>"
    using sf by (auto simp: subscribe_world_def SubscribeFrom_def Let_def demo_client_def)
  obtain e h2 where pub: "Publish 7 demo_event h' = (e, h2)" by (cases "Publish 7 demo_event h'")
  note h2 = Publish_hub [OF pub]
  have e: "evType e \<noteq> TypeGap"
    unfolding h2(1) by (simp add: prepareEvent_def demo_event_def TypeGap_def)
  have "nextEventID h' = 2"
    using w1(3) hub_reach_inv [OF demo_world_reach] demo_world_plog by (simp add: hub_inv_def)
  then have "hub_step ?w1 (?w1\<lparr>hub := h2, plog := plog ?w1 @ [e]\<rparr>)"
    using pub by (intro hub_step.publish [where now = 7 and e = demo_event]) (simp_all only: w1(1), simp)
  then have later: "hub_later ?w1 demo_later"
    unfolding demo_later_def publish_world_def w1(1) pub prod.case
    by (rule hub_later.later [OF hub_later.now])
  define s where "s = deliver e \<lparr>subAccountID = TrimSpace ''A1'', subCap = 4, subCh = []\<rparr>"
  have alive: "subscribers (hub demo_later) i = Some s" "got demo_later i = []"
    unfolding demo_later_def publish_world_def w1(1) pub by (simp_all add: h2(7) w1 s_def del: One_nat_def)
  have nogap: "\<not> (\<exists>e \<in> set (got demo_later i @ subCh s). evType e = TypeGap)"
    using e alive(2) by (simp add: s_def deliver_def)
  have "replayCapacity (hub demo_world) = 1"
    by (simp add: demo_world_def publish_world_def Publish_def Let_def start_world_def
        NewHubWithReplayCapacity_def)
  then have ok: "rStatus r = ''resumed''"
    using resumeLocked_cursor(4) [OF hub_reach_inv [OF demo_world_reach], of 1] demo_world_plog
    by (simp add: r)
  show ?thesis
    using hub_resume_then_listen [OF demo_world_reach _ _ sf ok later alive(1) nogap] sub0 alive(1)
    by (simp add: sf Let_def del: One_nat_def)
qed

end
