(* ===== verification/Go_Time.thy ===== *)
theory Go_Time
  imports Go_Prelude
begin

text \<open>
  Time stamps as text: \<^verbatim>\<open>timeutil.FormatRFC3339Nano\<close> and what \<^verbatim>\<open>time.Parse\<close> accepts for the layouts
  the relay uses. \<^verbatim>\<open>time.Parse\<close> takes a one or two digit hour, two digit minutes and seconds and
  any number of fraction digits after a period or a comma, whether or not the layout has them, so
  the RFC 3339 layouts with and without a fraction accept the same texts, as do the local ones.
\<close>

section \<open>Printing\<close>

definition fracDigits :: "int \<Rightarrow> string" where
  "fracDigits ns =
     (if ns = 0 then []
      else CHR ''.'' # rev (dropWhile (\<lambda>c. c = CHR ''0'')
        (rev (map (\<lambda>k. dchar (ns div 10 ^ k)) [8, 7, 6, 5, 4, 3, 2, 1, 0]))))"

definition FormatRFC3339Nano :: "gotime \<Rightarrow> string" where
  "FormatRFC3339Nano t =
     (if IsZero t then ''0001-01-01T00:00:00Z''
      else let r = (t + businessOffset) mod day_length; s = r div second
           in formatBusinessDate t @ ''T'' @ dig2 (s div 3600) @ '':'' @ dig2 (s div 60 mod 60) @ '':''
              @ dig2 (s mod 60) @ fracDigits (r mod second) @ ''+08:00'')"

section \<open>Parsing\<close>

fun getnum :: "bool \<Rightarrow> string \<Rightarrow> (int \<times> string) option" where
  "getnum fixed [] = None"
| "getnum fixed [a] = (if is_digit a \<and> \<not> fixed then Some (int (digit_val a), []) else None)"
| "getnum fixed (a # b # s) =
     (if \<not> is_digit a then None
      else if is_digit b then Some (num2 a b, s)
      else if fixed then None else Some (int (digit_val a), b # s))"

fun expect :: "char \<Rightarrow> string \<Rightarrow> string option" where
  "expect c [] = None"
| "expect c (x # s) = (if x = c then Some s else None)"

text \<open>The first nine digits of a fraction, as nanoseconds.\<close>

definition nanosOf :: "string \<Rightarrow> int" where
  "nanosOf ds = int (digits_val (take 9 ds)) * 10 ^ (9 - length (take 9 ds))"

definition takeFraction :: "string \<Rightarrow> int \<times> string" where
  "takeFraction s =
     (case s of
        p # d # r \<Rightarrow>
          if (p = CHR ''.'' \<or> p = CHR '','') \<and> is_digit d
          then (nanosOf (takeWhile is_digit (d # r)), dropWhile is_digit (d # r)) else (0, s)
      | _ \<Rightarrow> (0, s))"

text \<open>\<^verbatim>\<open>15:04:05\<close> and a fraction: the nanosecond of the day and the text left.\<close>

definition takeClock :: "string \<Rightarrow> (int \<times> string) option" where
  "takeClock s =
     Option.bind (getnum False s) (\<lambda>(h, s).
     Option.bind (expect (CHR '':'') s) (\<lambda>s.
     Option.bind (getnum True s) (\<lambda>(m, s).
     Option.bind (expect (CHR '':'') s) (\<lambda>s.
     Option.bind (getnum True s) (\<lambda>(sec, s).
       if h < 24 \<and> m < 60 \<and> sec < 60
       then (case takeFraction s of (ns, s') \<Rightarrow> Some ((h * 3600 + m * 60 + sec) * second + ns, s'))
       else None)))))"

text \<open>\<^verbatim>\<open>Z07:00\<close>: seconds east of UTC.\<close>

fun takeZone :: "string \<Rightarrow> (int \<times> string) option" where
  "takeZone (c # s) =
     (if c = CHR ''Z'' then Some (0, s)
      else case s of
        h1 # h2 # d # m1 # m2 # r \<Rightarrow>
          if (c = CHR ''+'' \<or> c = CHR ''-'') \<and> d = CHR '':'' \<and> list_all is_digit [h1, h2, m1, m2]
             \<and> num2 h1 h2 \<le> 24 \<and> num2 m1 m2 \<le> 60
          then Some ((if c = CHR ''+'' then 1 else - 1) * (num2 h1 h2 * 3600 + num2 m1 m2 * 60), r)
          else None
      | _ \<Rightarrow> None)"
| "takeZone [] = None"

definition parseRFC3339 :: "string \<Rightarrow> gotime option" where
  "parseRFC3339 s =
     Option.bind (parseDate10 (take 10 s)) (\<lambda>c.
     Option.bind (expect (CHR ''T'') (drop 10 s)) (\<lambda>r.
     Option.bind (takeClock r) (\<lambda>(ns, r).
     Option.bind (takeZone r) (\<lambda>(off, r).
       if r = [] then Some (days_from_civil c * day_length + ns - off * second) else None))))"

definition parseLocal :: "string \<Rightarrow> gotime option" where
  "parseLocal s =
     Option.bind (parseDate10 (take 10 s)) (\<lambda>c.
     Option.bind (expect (CHR '' '') (drop 10 s)) (\<lambda>r.
     Option.bind (takeClock r) (\<lambda>(ns, r).
       if r = [] then Some (dateInstant c + ns) else None)))"

text \<open>\<^verbatim>\<open>parseTime\<close> of \<^verbatim>\<open>internal/redisstream/message.go\<close>.\<close>

definition parseTime :: "string \<Rightarrow> gotime" where
  "parseTime value =
     (let v = TrimSpace value
      in if v = [] then zeroTime
         else case parseRFC3339 v of
                Some t \<Rightarrow> t
              | None \<Rightarrow> (case parseLocal v of Some t \<Rightarrow> t | None \<Rightarrow> zeroTime))"

end
