(* ===== verification/Streams.thy ===== *)
theory Streams
  imports Trading Go_Time "HOL-Library.List_Lexorder" "HOL-Library.Char_ord"
begin

text \<open>
  The naming of the Redis streams (\<^verbatim>\<open>internal/redisstream/streams.go\<close>), the command envelope and
  its routing to a stream (\<^verbatim>\<open>internal/redisstream/command.go\<close>), and the part of the configuration
  that selects an account's route (\<^verbatim>\<open>internal/config/config.go\<close>).
\<close>

section \<open>Configuration\<close>

record AccountRouteConfig =
  rcAccountID :: string
  rcBrokerID :: string
  rcGatewayID :: string
  rcStreamPrefix :: string
  rcEnabled :: bool
  rcTradingEnabled :: bool
  rcSimulated :: bool

record RedisConfig =
  rdEnv :: string
  rdBrokerID :: string
  rdGatewayID :: string

record Config =
  cfgAccounts :: "AccountRouteConfig list"
  cfgRedis :: RedisConfig

definition AccountRoute :: "Config \<Rightarrow> string \<Rightarrow> AccountRouteConfig option" where
  "AccountRoute cfg accountID = find (\<lambda>account. rcAccountID account = accountID) (cfgAccounts cfg)"

definition relayPrefix :: "string \<Rightarrow> string \<Rightarrow> string \<Rightarrow> string" where
  "relayPrefix env broker gateway = ''relay:'' @ env @ '':v1:'' @ broker @ '':'' @ gateway"

definition streamPrefixForAccount :: "string \<Rightarrow> AccountRouteConfig \<Rightarrow> string" where
  "streamPrefixForAccount redisEnv account =
     (let env = TrimSpace redisEnv; broker = TrimSpace (rcBrokerID account);
          gateway = TrimSpace (rcGatewayID account)
      in if env = [] \<or> broker = [] \<or> gateway = [] then [] else relayPrefix env broker gateway)"

section \<open>Stream names\<close>

definition Protocol :: string where "Protocol = ''relay.stream.v1''"
definition SuffixCmdTrade :: string where "SuffixCmdTrade = ''cmd.trade''"
definition SuffixCmdQuery :: string where "SuffixCmdQuery = ''cmd.query''"
definition SuffixReply :: string where "SuffixReply = ''reply''"
definition SuffixEvent :: string where "SuffixEvent = ''event''"
definition SuffixHB :: string where "SuffixHB = ''hb''"
definition SuffixDLQ :: string where "SuffixDLQ = ''dlq''"

lemmas suffix_defs = SuffixCmdTrade_def SuffixCmdQuery_def SuffixReply_def SuffixEvent_def
  SuffixHB_def SuffixDLQ_def

record Streams =
  stPrefix :: string
  stCmdTrade :: string
  stCmdQuery :: string
  stReply :: string
  stEvent :: string
  stHB :: string
  stDLQ :: string

definition cleanPrefix :: "string \<Rightarrow> string" where
  "cleanPrefix prefix0 = TrimRightByte (CHR '':'') (TrimSpace prefix0)"

definition NewStreams :: "string \<Rightarrow> Streams" where
  "NewStreams prefix0 =
     (let prefix = cleanPrefix prefix0
      in \<lparr>stPrefix = prefix, stCmdTrade = prefix @ '':'' @ SuffixCmdTrade,
          stCmdQuery = prefix @ '':'' @ SuffixCmdQuery, stReply = prefix @ '':'' @ SuffixReply,
          stEvent = prefix @ '':'' @ SuffixEvent, stHB = prefix @ '':'' @ SuffixHB,
          stDLQ = prefix @ '':'' @ SuffixDLQ\<rparr>)"

definition Streams_All :: "Streams \<Rightarrow> string list" where
  "Streams_All s = [stCmdTrade s, stCmdQuery s, stReply s, stEvent s, stHB s, stDLQ s]"

definition PrefixFromRedisConfig :: "RedisConfig \<Rightarrow> string" where
  "PrefixFromRedisConfig cfg =
     (if TrimSpace (rdEnv cfg) = [] \<or> TrimSpace (rdBrokerID cfg) = [] \<or> TrimSpace (rdGatewayID cfg) = []
      then [] else relayPrefix (rdEnv cfg) (rdBrokerID cfg) (rdGatewayID cfg))"

text \<open>The set of cleaned, nonempty prefixes, in \<^verbatim>\<open>sort.Strings\<close> order (bytewise).\<close>

definition PrefixesFromConfig :: "Config \<Rightarrow> string list" where
  "PrefixesFromConfig cfg =
     sort (remdups (filter (\<lambda>p. p \<noteq> [])
       (map cleanPrefix (map rcStreamPrefix (cfgAccounts cfg) @ [PrefixFromRedisConfig (cfgRedis cfg)]))))"

definition streamNameForRole :: "Streams \<Rightarrow> string \<Rightarrow> string" where
  "streamNameForRole streams role =
     (if role = SuffixReply then stReply streams
      else if role = SuffixEvent then stEvent streams
      else if role = SuffixHB then stHB streams
      else if role = SuffixDLQ then stDLQ streams
      else [])"

definition roleFromStream :: "string \<Rightarrow> string" where
  "roleFromStream stream =
     (case LastIndexByte (CHR '':'') stream of
        Some idx \<Rightarrow> if idx + 1 < length stream then drop (idx + 1) stream else []
      | None \<Rightarrow> [])"

definition directionFromRole :: "string \<Rightarrow> string" where
  "directionFromRole role =
     (if role = SuffixCmdTrade \<or> role = SuffixCmdQuery then ''in'' else ''out'')"

definition outputRoles :: "string list \<Rightarrow> string list" where
  "outputRoles roles =
     (if roles = [] then [SuffixReply, SuffixEvent]
      else filter (\<lambda>r. r \<noteq> []) (map TrimSpace roles))"

section \<open>Commands\<close>

definition ActionOrderSubmit :: string where "ActionOrderSubmit = ''order.submit''"
definition ActionOrderBatchSubmit :: string where "ActionOrderBatchSubmit = ''order.batch.submit''"
definition ActionOrderCancel :: string where "ActionOrderCancel = ''order.cancel''"
definition ActionAccountAsset :: string where "ActionAccountAsset = ''account.asset.query''"
definition ActionAccountPositions :: string where "ActionAccountPositions = ''account.positions.query''"
definition ActionOrderList :: string where "ActionOrderList = ''order.list.query''"
definition ActionFillList :: string where "ActionFillList = ''fill.list.query''"
definition ActionFeeList :: string where "ActionFeeList = ''fee.list.query''"

lemmas action_defs = ActionOrderSubmit_def ActionOrderBatchSubmit_def ActionOrderCancel_def
  ActionAccountAsset_def ActionAccountPositions_def ActionOrderList_def ActionFillList_def
  ActionFeeList_def

text \<open>The payloads the relay publishes: the requests, and the map of a query command with its
  optional trade date.\<close>

datatype command_payload =
    SubmitPayload SubmitOrderRequest
  | BatchPayload BatchSubmitOrderRequest
  | CancelPayload CancelOrderRequest
  | QueryPayload string "string option"

record CommandEnvelope =
  ceProtocol :: string
  ceMessageType :: string
  ceMessageID :: string
  ceRequestID :: string
  ceCorrelationID :: string
  ceIdempotencyKey :: string
  ceAction :: string
  cePayload :: command_payload
  ceSentAt :: string

record CommandPublishResult =
  prStreamKey :: string
  prStreamID :: string
  prBodyBytes :: nat

definition CommandPublishResult0 :: CommandPublishResult where
  "CommandPublishResult0 = \<lparr>prStreamKey = [], prStreamID = [], prBodyBytes = 0\<rparr>"

text \<open>\<open>now\<close> is the wall clock, read when the caller gives no time.\<close>

definition NewCommandEnvelope ::
    "gotime \<Rightarrow> string \<Rightarrow> string \<Rightarrow> string \<Rightarrow> string \<Rightarrow> string \<Rightarrow> command_payload \<Rightarrow> gotime \<Rightarrow> CommandEnvelope"
  where
  "NewCommandEnvelope now action messageID requestID correlationID idempotencyKey payload sentAt =
     \<lparr>ceProtocol = Protocol, ceMessageType = ''command'', ceMessageID = messageID,
      ceRequestID = requestID, ceCorrelationID = correlationID, ceIdempotencyKey = idempotencyKey,
      ceAction = action, cePayload = payload,
      ceSentAt = FormatRFC3339Nano (if IsZero sentAt then now else sentAt)\<rparr>"

definition CommandStreamForAction :: "Streams \<Rightarrow> string \<Rightarrow> error + string" where
  "CommandStreamForAction streams action =
     (if action = ActionOrderSubmit \<or> action = ActionOrderBatchSubmit \<or> action = ActionOrderCancel
      then Inr (stCmdTrade streams)
      else if action = ActionAccountAsset \<or> action = ActionAccountPositions \<or> action = ActionOrderList
         \<or> action = ActionFillList \<or> action = ActionFeeList
      then Inr (stCmdQuery streams)
      else Inl (ErrUnsupportedAction action))"

section \<open>Lemmas\<close>

lemma NewCommandEnvelope_fields [simp]:
  "ceMessageType (NewCommandEnvelope now a m r c k p t) = ''command''"
  "ceMessageID (NewCommandEnvelope now a m r c k p t) = m"
  "ceRequestID (NewCommandEnvelope now a m r c k p t) = r"
  "ceCorrelationID (NewCommandEnvelope now a m r c k p t) = c"
  "ceIdempotencyKey (NewCommandEnvelope now a m r c k p t) = k"
  "ceAction (NewCommandEnvelope now a m r c k p t) = a"
  "cePayload (NewCommandEnvelope now a m r c k p t) = p"
  by (simp_all add: NewCommandEnvelope_def)

lemma CommandStreamForAction_simps [simp]:
  "CommandStreamForAction s ActionOrderSubmit = Inr (stCmdTrade s)"
  "CommandStreamForAction s ActionOrderBatchSubmit = Inr (stCmdTrade s)"
  "CommandStreamForAction s ActionOrderCancel = Inr (stCmdTrade s)"
  by (simp_all add: CommandStreamForAction_def)

lemma AccountRoute_Some:
  "AccountRoute cfg a = Some r \<Longrightarrow> r \<in> set (cfgAccounts cfg) \<and> rcAccountID r = a"
  by (auto simp: AccountRoute_def find_Some_iff)

lemma roleFromStream_suffix:
  assumes "CHR '':'' \<notin> set role" and "role \<noteq> []"
  shows "roleFromStream (p @ '':'' @ role) = role"
  using LastIndexByte_append [OF assms(1), of p] assms(2) by (simp add: roleFromStream_def)

lemma suffixes_ok:
  "role \<in> {SuffixCmdTrade, SuffixCmdQuery, SuffixReply, SuffixEvent, SuffixHB, SuffixDLQ} \<Longrightarrow>
   CHR '':'' \<notin> set role \<and> role \<noteq> []"
  by (auto simp: suffix_defs)

section \<open>Properties\<close>

text \<open>The six streams of an account's prefix are pairwise different, and the role read back
  from each name is the role it was made for, so a message is always processed in the role of
  the stream it came from.\<close>

lemma streams_roles:
  "distinct (Streams_All (NewStreams p))
   \<and> map roleFromStream (Streams_All (NewStreams p))
       = [SuffixCmdTrade, SuffixCmdQuery, SuffixReply, SuffixEvent, SuffixHB, SuffixDLQ]"
proof -
  have "map roleFromStream (Streams_All (NewStreams p))
      = [SuffixCmdTrade, SuffixCmdQuery, SuffixReply, SuffixEvent, SuffixHB, SuffixDLQ]"
    using roleFromStream_suffix suffixes_ok by (simp add: Streams_All_def NewStreams_def Let_def)
  moreover have "distinct (Streams_All (NewStreams p))"
    by (simp add: Streams_All_def NewStreams_def Let_def suffix_defs)
  ultimately show ?thesis by blast
qed

text \<open>The prefixes the synchronisation reads are sorted, without duplicates and never empty,
  and they are exactly the cleaned prefixes of the accounts and of the Redis section.\<close>

lemma prefixes_from_config:
  "sorted (PrefixesFromConfig cfg) \<and> distinct (PrefixesFromConfig cfg)
   \<and> set (PrefixesFromConfig cfg)
       = cleanPrefix ` (rcStreamPrefix ` set (cfgAccounts cfg) \<union> {PrefixFromRedisConfig (cfgRedis cfg)}) - {[]}"
  by (auto simp: PrefixesFromConfig_def)

end
