(* ===== verification/Go_Json.thy ===== *)
theory Go_Json
  imports Streams
begin

text \<open>
  \<^verbatim>\<open>encoding/json\<close> between Go values and JSON values, and the struct codecs of the command requests.
  The step between a JSON value and its text is a parameter of the models that need it (a
  \<^emph>\<open>codec\<close>). A number literal is an integer literal or a decimal one: an \<^verbatim>\<open>int64\<close> field accepts the
  first only.
\<close>

datatype json =
    JNull | JBool bool | JInt int | JDec rat | JStr string
  | JArr "json list" | JObj "(string \<times> json) list"

record codec =
  js_print :: "json \<Rightarrow> string"
  js_parse :: "string \<Rightarrow> json option"

section \<open>Encoding\<close>

text \<open>A \<^verbatim>\<open>float64\<close> prints without a fraction or an exponent when it is an integer below 1e21; NaN and
  the infinities cannot be marshalled.\<close>

definition json_of_float :: "float64 \<Rightarrow> json option" where
  "json_of_float x =
     (case x of
        Fin q \<Rightarrow> Some (if of_int (floor q) = q \<and> \<bar>q\<bar> < 10 ^ 21 then JInt (floor q) else JDec q)
      | _ \<Rightarrow> None)"

definition omitempty :: "string \<Rightarrow> string \<Rightarrow> (string \<times> json) list" where
  "omitempty k s = (if s = [] then [] else [(k, JStr s)])"

definition encode_submit :: "SubmitOrderRequest \<Rightarrow> json option" where
  "encode_submit r =
     map_option (\<lambda>price. JObj
       ([(''account_id'', JStr (sAccountID r))] @ omitempty ''client_order_id'' (sClientOrderID r)
        @ omitempty ''gateway_order_id'' (sGatewayOrderID r) @ omitempty ''trade_date'' (sTradeDate r)
        @ [(''symbol'', JStr (sSymbol r)), (''exchange'', JStr (sExchange r)),
           (''trade_side'', JStr (sTradeSide r)), (''business_type'', JStr (sBusinessType r))]
        @ omitempty ''offset_type'' (sOffsetType r)
        @ [(''price'', price), (''qty'', JInt (sQty r))]
        @ omitempty ''idempotency_key'' (sIdempotencyKey r)
        @ omitempty ''strategy_type'' (sStrategyType r) @ omitempty ''strategy_id'' (sStrategyID r)
        @ omitempty ''basket_id'' (sBasketID r) @ omitempty ''parent_order_id'' (sParentOrderID r)
        @ omitempty ''t0_order_group_id'' (sT0OrderGroupID r)))
     (json_of_float (sPrice r))"

fun encode_all :: "('a \<Rightarrow> json option) \<Rightarrow> 'a list \<Rightarrow> json list option" where
  "encode_all f [] = Some []"
| "encode_all f (x # xs) =
     (case f x of None \<Rightarrow> None | Some v \<Rightarrow> map_option ((#) v) (encode_all f xs))"

definition encode_batch :: "BatchSubmitOrderRequest \<Rightarrow> json option" where
  "encode_batch r =
     map_option (\<lambda>orders. JObj
       ([(''account_id'', JStr (bAccountID r)), (''orders'', JArr orders)]
        @ omitempty ''idempotency_key'' (bIdempotencyKey r)))
     (encode_all encode_submit (bOrders r))"

definition encode_cancel :: "CancelOrderRequest \<Rightarrow> json" where
  "encode_cancel r = JObj
     ([(''account_id'', JStr (cAccountID r)), (''gateway_order_id'', JStr (cGatewayOrderID r))]
      @ omitempty ''cancel_id'' (cCancelID r) @ omitempty ''idempotency_key'' (cIdempotencyKey r))"

definition encode_payload :: "command_payload \<Rightarrow> json option" where
  "encode_payload p =
     (case p of
        SubmitPayload r \<Rightarrow> encode_submit r
      | BatchPayload r \<Rightarrow> encode_batch r
      | CancelPayload r \<Rightarrow> Some (encode_cancel r)
      | QueryPayload a d \<Rightarrow>
          Some (JObj ([(''account_id'', JStr a)] @ (case d of None \<Rightarrow> [] | Some t \<Rightarrow> [(''trade_date'', JStr t)]))))"

definition encode_envelope :: "CommandEnvelope \<Rightarrow> json option" where
  "encode_envelope e =
     map_option (\<lambda>payload. JObj
       (omitempty ''protocol'' (ceProtocol e)
        @ [(''message_type'', JStr (ceMessageType e)), (''message_id'', JStr (ceMessageID e))]
        @ omitempty ''request_id'' (ceRequestID e) @ omitempty ''correlation_id'' (ceCorrelationID e)
        @ omitempty ''idempotency_key'' (ceIdempotencyKey e)
        @ [(''action'', JStr (ceAction e)), (''payload'', payload)]
        @ omitempty ''sent_at'' (ceSentAt e)))
     (encode_payload (cePayload e))"

section \<open>Decoding\<close>

text \<open>
  Decoding into a struct visits the object's members in order. A member goes to the field whose
  name matches it without regard to case, \<^verbatim>\<open>null\<close> leaves the field, a value of the wrong type leaves
  it too and makes the whole call return an error after the other members were stored.
\<close>

definition jfield :: "(json \<Rightarrow> 'a option) \<Rightarrow> string \<Rightarrow> 'a \<Rightarrow> (string \<times> json) list \<Rightarrow> 'a \<times> bool" where
  "jfield dec k d ps =
     foldl (\<lambda>(x, err) (key, v).
         if EqualFold key k
         then (if v = JNull then (x, err) else case dec v of Some y \<Rightarrow> (y, err) | None \<Rightarrow> (x, True))
         else (x, err))
       (d, False) ps"

text \<open>The members of the object, and whether the value is of another kind.\<close>

fun jmembers :: "json \<Rightarrow> (string \<times> json) list" where
  "jmembers (JObj ps) = ps"
| "jmembers _ = []"

definition jnot_object :: "json \<Rightarrow> bool" where
  "jnot_object v \<longleftrightarrow> (case v of JObj _ \<Rightarrow> False | JNull \<Rightarrow> False | _ \<Rightarrow> True)"

fun dec_string :: "json \<Rightarrow> string option" where
  "dec_string (JStr s) = Some s"
| "dec_string _ = None"

fun dec_bool :: "json \<Rightarrow> bool option" where
  "dec_bool (JBool b) = Some b"
| "dec_bool _ = None"

fun dec_int64 :: "json \<Rightarrow> int option" where
  "dec_int64 (JInt n) = (if is_int64 n then Some n else None)"
| "dec_int64 _ = None"

definition dec_rat :: "rat \<Rightarrow> float64 option" where
  "dec_rat q = (case round64 q of Fin v \<Rightarrow> Some (Fin v) | _ \<Rightarrow> None)"

fun dec_float64 :: "json \<Rightarrow> float64 option" where
  "dec_float64 (JInt n) = dec_rat (of_int n)"
| "dec_float64 (JDec q) = dec_rat q"
| "dec_float64 _ = None"

abbreviation jstr :: "string \<Rightarrow> (string \<times> json) list \<Rightarrow> string" where
  "jstr k ps \<equiv> fst (jfield dec_string k [] ps)"

abbreviation jint :: "string \<Rightarrow> (string \<times> json) list \<Rightarrow> int" where
  "jint k ps \<equiv> fst (jfield dec_int64 k 0 ps)"

abbreviation jfloat :: "string \<Rightarrow> (string \<times> json) list \<Rightarrow> float64" where
  "jfloat k ps \<equiv> fst (jfield dec_float64 k fzero ps)"

abbreviation jbool :: "string \<Rightarrow> (string \<times> json) list \<Rightarrow> bool" where
  "jbool k ps \<equiv> fst (jfield dec_bool k False ps)"

definition str_errs :: "string list \<Rightarrow> (string \<times> json) list \<Rightarrow> bool" where
  "str_errs ks ps \<longleftrightarrow> list_ex (\<lambda>k. snd (jfield dec_string k [] ps)) ks"

definition int_errs :: "string list \<Rightarrow> (string \<times> json) list \<Rightarrow> bool" where
  "int_errs ks ps \<longleftrightarrow> list_ex (\<lambda>k. snd (jfield dec_int64 k 0 ps)) ks"

definition float_errs :: "string list \<Rightarrow> (string \<times> json) list \<Rightarrow> bool" where
  "float_errs ks ps \<longleftrightarrow> list_ex (\<lambda>k. snd (jfield dec_float64 k fzero ps)) ks"

definition bool_errs :: "string list \<Rightarrow> (string \<times> json) list \<Rightarrow> bool" where
  "bool_errs ks ps \<longleftrightarrow> list_ex (\<lambda>k. snd (jfield dec_bool k False ps)) ks"

definition submit_of_members :: "(string \<times> json) list \<Rightarrow> SubmitOrderRequest" where
  "submit_of_members ps =
     \<lparr>sAccountID = jstr ''account_id'' ps, sClientOrderID = jstr ''client_order_id'' ps,
      sGatewayOrderID = jstr ''gateway_order_id'' ps, sTradeDate = jstr ''trade_date'' ps,
      sSymbol = jstr ''symbol'' ps, sExchange = jstr ''exchange'' ps,
      sTradeSide = jstr ''trade_side'' ps, sBusinessType = jstr ''business_type'' ps,
      sOffsetType = jstr ''offset_type'' ps, sPrice = jfloat ''price'' ps, sQty = jint ''qty'' ps,
      sIdempotencyKey = jstr ''idempotency_key'' ps, sStrategyType = jstr ''strategy_type'' ps,
      sStrategyID = jstr ''strategy_id'' ps, sBasketID = jstr ''basket_id'' ps,
      sParentOrderID = jstr ''parent_order_id'' ps, sT0OrderGroupID = jstr ''t0_order_group_id'' ps\<rparr>"

definition submit_errs :: "json \<Rightarrow> bool" where
  "submit_errs v \<longleftrightarrow>
     (let ps = jmembers v in jnot_object v
      \<or> str_errs [''account_id'', ''client_order_id'', ''gateway_order_id'', ''trade_date'', ''symbol'',
           ''exchange'', ''trade_side'', ''business_type'', ''offset_type'', ''idempotency_key'',
           ''strategy_type'', ''strategy_id'', ''basket_id'', ''parent_order_id'', ''t0_order_group_id''] ps
      \<or> float_errs [''price''] ps \<or> int_errs [''qty''] ps)"

text \<open>\<^verbatim>\<open>json.Unmarshal\<close> into the request structs; \<open>None\<close> is its error.\<close>

definition decode_submit :: "json \<Rightarrow> SubmitOrderRequest option" where
  "decode_submit v = (if submit_errs v then None else Some (submit_of_members (jmembers v)))"

definition dec_orders :: "json \<Rightarrow> SubmitOrderRequest list option" where
  "dec_orders v =
     (case v of
        JArr vs \<Rightarrow> if list_ex submit_errs vs then None else Some (map (\<lambda>v. submit_of_members (jmembers v)) vs)
      | _ \<Rightarrow> None)"

definition decode_batch :: "json \<Rightarrow> BatchSubmitOrderRequest option" where
  "decode_batch v =
     (let ps = jmembers v
      in if jnot_object v \<or> str_errs [''account_id'', ''idempotency_key''] ps
            \<or> snd (jfield dec_orders ''orders'' [] ps) then None
         else Some \<lparr>bAccountID = jstr ''account_id'' ps,
                    bOrders = fst (jfield dec_orders ''orders'' [] ps),
                    bIdempotencyKey = jstr ''idempotency_key'' ps\<rparr>)"

definition decode_cancel :: "json \<Rightarrow> CancelOrderRequest option" where
  "decode_cancel v =
     (let ps = jmembers v
      in if jnot_object v
            \<or> str_errs [''account_id'', ''gateway_order_id'', ''cancel_id'', ''idempotency_key''] ps then None
         else Some \<lparr>cAccountID = jstr ''account_id'' ps, cGatewayOrderID = jstr ''gateway_order_id'' ps,
                    cCancelID = jstr ''cancel_id'' ps, cIdempotencyKey = jstr ''idempotency_key'' ps\<rparr>)"

text \<open>The \<^verbatim>\<open>json.RawMessage\<close> member \<^verbatim>\<open>payload\<close>: the last one counts, a \<^verbatim>\<open>null\<close> too.\<close>

definition raw_member :: "string \<Rightarrow> (string \<times> json) list \<Rightarrow> json option" where
  "raw_member k ps = foldl (\<lambda>x (key, v). if EqualFold key k then Some v else x) None ps"

section \<open>Lemmas\<close>

lemma jfield_Nil [simp]: "jfield dec k d [] = (d, False)"
  by (simp add: jfield_def)

lemma jfield_skip [simp]:
  "\<not> EqualFold key k \<Longrightarrow> jfield dec k d ((key, v) # ps) = jfield dec k d ps"
  by (simp add: jfield_def)

lemma jfield_skips:
  "list_all (\<lambda>(key, v). \<not> EqualFold key k) ps \<Longrightarrow> jfield dec k d (ps @ qs) = jfield dec k d qs"
  by (induction ps) auto

lemma jfield_hit:
  assumes "EqualFold key k" and "dec v = Some y" and "v \<noteq> JNull"
  shows "jfield dec k d ((key, v) # ps) = jfield dec k y ps"
  using assms by (simp add: jfield_def)

lemma jfield_omitempty_skip [simp]:
  "\<not> EqualFold key k \<Longrightarrow> jfield dec k d (omitempty key s @ ps) = jfield dec k d ps"
  by (simp add: omitempty_def)

lemma jfield_omitempty_hit [simp]:
  "EqualFold key k \<Longrightarrow> jfield dec_string k [] (omitempty key s @ ps) = jfield dec_string k s ps"
  by (simp add: omitempty_def jfield_hit)

lemma jfield_omitempty_last [simp]:
  "EqualFold key k \<Longrightarrow> jfield dec_string k [] (omitempty key s) = (s, False)"
  "\<not> EqualFold key k \<Longrightarrow> jfield dec k d (omitempty key s) = (d, False)"
  using jfield_omitempty_hit [of key k s "[]"] jfield_omitempty_skip [of key k dec d s "[]"]
  by simp_all

lemma jfield_str_hit [simp]:
  "EqualFold key k \<Longrightarrow> jfield dec_string k d ((key, JStr s) # ps) = jfield dec_string k s ps"
  by (simp add: jfield_hit)

text \<open>The member names of the requests are their own folding, so that matching them is equality.\<close>

definition name_chars :: string where
  "name_chars = ''abcdefghijklmnopqrstuvwxyz0123456789_''"

lemma name_chars_plain:
  "list_all (\<lambda>c. lower_byte c = c \<and> (of_char c :: nat) < 128) name_chars"
  by (simp add: name_chars_def lower_byte_def)

lemma fold_key_plain: "set s \<subseteq> set name_chars \<Longrightarrow> fold_key s = s"
proof (induction s)
  case Nil
  then show ?case by (simp add: fold_key.simps)
next
  case (Cons c s)
  then have c: "lower_byte c = c" "(of_char c :: nat) < 128"
    using name_chars_plain by (auto simp: list_all_iff)
  have "c \<noteq> char_of (0xE2 :: nat)" "c \<noteq> char_of (0xC5 :: nat)"
    using c(2) by auto
  with Cons c(1) show ?case by (simp add: fold_key.simps)
qed

lemma fold_key_names [simp]:
  "fold_key ''account_id'' = ''account_id''" "fold_key ''client_order_id'' = ''client_order_id''"
  "fold_key ''gateway_order_id'' = ''gateway_order_id''" "fold_key ''trade_date'' = ''trade_date''"
  "fold_key ''symbol'' = ''symbol''" "fold_key ''exchange'' = ''exchange''"
  "fold_key ''trade_side'' = ''trade_side''" "fold_key ''business_type'' = ''business_type''"
  "fold_key ''offset_type'' = ''offset_type''" "fold_key ''price'' = ''price''"
  "fold_key ''qty'' = ''qty''" "fold_key ''idempotency_key'' = ''idempotency_key''"
  "fold_key ''strategy_type'' = ''strategy_type''" "fold_key ''strategy_id'' = ''strategy_id''"
  "fold_key ''basket_id'' = ''basket_id''" "fold_key ''parent_order_id'' = ''parent_order_id''"
  "fold_key ''t0_order_group_id'' = ''t0_order_group_id''" "fold_key ''cancel_id'' = ''cancel_id''"
  "fold_key ''orders'' = ''orders''" "fold_key ''payload'' = ''payload''"
  "fold_key ''action'' = ''action''" "fold_key ''message_id'' = ''message_id''"
  "fold_key ''message_type'' = ''message_type''" "fold_key ''request_id'' = ''request_id''"
  "fold_key ''correlation_id'' = ''correlation_id''" "fold_key ''protocol'' = ''protocol''"
  "fold_key ''sent_at'' = ''sent_at''"
  by (rule fold_key_plain; simp add: name_chars_def)+

text \<open>Values a request can carry over the wire unchanged: a finite \<^verbatim>\<open>float64\<close> price and a 64 bit
  quantity.\<close>

definition wire_price :: "float64 \<Rightarrow> bool" where
  "wire_price x \<longleftrightarrow> (case x of Fin q \<Rightarrow> round64 q = Fin q | _ \<Rightarrow> False)"

definition wire_request :: "SubmitOrderRequest \<Rightarrow> bool" where
  "wire_request r \<longleftrightarrow> wire_price (sPrice r) \<and> is_int64 (sQty r)"

lemma json_of_float_wire:
  assumes "wire_price x"
  obtains v where "json_of_float x = Some v" and "dec_float64 v = Some x" and "v \<noteq> JNull"
proof -
  from assms obtain q where q: "x = Fin q" "round64 q = Fin q"
    by (auto simp: wire_price_def split: float64.splits)
  show thesis
  proof (rule that)
    show "json_of_float x
        = Some (if of_int (floor q) = q \<and> \<bar>q\<bar> < 10 ^ 21 then JInt (floor q) else JDec q)"
      by (simp add: json_of_float_def q(1))
  qed (use q in \<open>auto simp: dec_rat_def\<close>)
qed

lemma decode_encode_submit:
  assumes "wire_request r"
  obtains v where "encode_submit r = Some v" and "decode_submit v = Some r" and "\<not> submit_errs v"
    and "submit_of_members (jmembers v) = r"
proof -
  from assms have price: "wire_price (sPrice r)" and qty: "is_int64 (sQty r)"
    by (simp_all add: wire_request_def)
  obtain p where p: "json_of_float (sPrice r) = Some p" "dec_float64 p = Some (sPrice r)" "p \<noteq> JNull"
    by (rule json_of_float_wire [OF price])
  define v where "v = the (encode_submit r)"
  have v: "encode_submit r = Some v" by (simp add: v_def encode_submit_def p(1))
  have pr: "jfield dec_float64 ''price'' d ((''price'', p) # ps) = jfield dec_float64 ''price'' (sPrice r) ps" for d ps
    using p by (simp add: jfield_hit EqualFold_def)
  have qt: "jfield dec_int64 ''qty'' d ((''qty'', JInt (sQty r)) # ps) = jfield dec_int64 ''qty'' (sQty r) ps" for d ps
    using qty by (simp add: jfield_hit EqualFold_def)
  have m: "submit_of_members (jmembers v) = r"
    by (simp add: v_def encode_submit_def p(1) submit_of_members_def EqualFold_def pr qt)
  moreover have e: "\<not> submit_errs v"
    by (simp add: v_def encode_submit_def p(1) submit_errs_def jnot_object_def str_errs_def
        float_errs_def int_errs_def EqualFold_def pr qt)
  ultimately show thesis using v by (intro that) (simp_all add: decode_submit_def)
qed

lemma decode_encode_cancel: "decode_cancel (encode_cancel r) = Some r"
  by (simp add: decode_cancel_def encode_cancel_def jnot_object_def str_errs_def EqualFold_def)

lemma encode_all_submits:
  assumes "list_all wire_request rs"
  obtains vs where "encode_all encode_submit rs = Some vs" and "\<not> list_ex submit_errs vs"
    and "map (\<lambda>v. submit_of_members (jmembers v)) vs = rs"
  using assms
proof (induction rs arbitrary: thesis)
  case Nil
  then show ?case by simp
next
  case (Cons r rs)
  from Cons.prems(2) obtain v where v: "encode_submit r = Some v" "\<not> submit_errs v"
      "submit_of_members (jmembers v) = r"
    by (auto elim: decode_encode_submit)
  from Cons obtain vs where vs: "encode_all encode_submit rs = Some vs" "\<not> list_ex submit_errs vs"
      "map (\<lambda>v. submit_of_members (jmembers v)) vs = rs"
    by auto
  show ?case by (rule Cons.prems(1) [of "v # vs"]) (use v vs in simp_all)
qed

lemma decode_encode_batch:
  assumes "list_all wire_request (bOrders r)"
  obtains v where "encode_batch r = Some v" and "decode_batch v = Some r"
proof -
  obtain vs where vs: "encode_all encode_submit (bOrders r) = Some vs" "\<not> list_ex submit_errs vs"
      "map (\<lambda>v. submit_of_members (jmembers v)) vs = bOrders r"
    by (rule encode_all_submits [OF assms])
  have orders: "jfield dec_orders ''orders'' d ((''orders'', JArr vs) # ps)
      = jfield dec_orders ''orders'' (bOrders r) ps" for d ps
    using vs by (simp add: jfield_hit EqualFold_def dec_orders_def)
  show thesis
  proof (rule that)
    show "encode_batch r = Some (JObj ([(''account_id'', JStr (bAccountID r)), (''orders'', JArr vs)]
        @ omitempty ''idempotency_key'' (bIdempotencyKey r)))"
      by (simp add: encode_batch_def vs(1))
  qed (simp add: decode_batch_def jnot_object_def str_errs_def EqualFold_def orders)
qed

lemma raw_member_append:
  "raw_member k (ps @ qs) = (case raw_member k qs of Some v \<Rightarrow> Some v | None \<Rightarrow> raw_member k ps)"
  by (induction qs rule: rev_induct) (auto simp: raw_member_def split: option.splits)

lemma raw_member_Cons:
  "raw_member k ((key, v) # ps)
   = (case raw_member k ps of Some x \<Rightarrow> Some x | None \<Rightarrow> if EqualFold key k then Some v else None)"
  using raw_member_append [of k "[(key, v)]" ps] by (simp add: raw_member_def split: option.splits)

lemma raw_member_Nil [simp]: "raw_member k [] = None"
  by (simp add: raw_member_def)

lemma raw_member_omitempty:
  "\<not> EqualFold key k \<Longrightarrow> raw_member k (omitempty key s) = None"
  by (simp add: omitempty_def raw_member_Cons)

lemma encode_envelope_payload:
  assumes "encode_payload (cePayload e) = Some p"
  obtains ps where "encode_envelope e = Some (JObj ps)" and "raw_member ''payload'' ps = Some p"
  using assms
  by (simp add: encode_envelope_def raw_member_append raw_member_Cons raw_member_omitempty EqualFold_def)

section \<open>Properties\<close>

text \<open>The command codecs round trip. A submit request with a finite price and a 64 bit
  quantity, a batch of such requests and a cancel request are decoded from their JSON encoding
  to themselves, all fields and the order of the children included.\<close>

theorem command_codec_roundtrip:
  assumes "wire_request r" and "list_all wire_request (bOrders b)"
  shows "Option.bind (encode_submit r) decode_submit = Some r
    \<and> Option.bind (encode_batch b) decode_batch = Some b
    \<and> decode_cancel (encode_cancel c) = Some c"
proof -
  obtain v where "encode_submit r = Some v" "decode_submit v = Some r"
    by (rule decode_encode_submit [OF assms(1)])
  moreover obtain u where "encode_batch b = Some u" "decode_batch u = Some b"
    by (rule decode_encode_batch [OF assms(2)])
  ultimately show ?thesis by (simp add: decode_encode_cancel)
qed

definition demo_submit :: SubmitOrderRequest where
  "demo_submit = \<lparr>sAccountID = ''A1'', sClientOrderID = [], sGatewayOrderID = ''gw-1'', sTradeDate = [],
     sSymbol = ''600000'', sExchange = ExchangeSH, sTradeSide = TradeSideBuy,
     sBusinessType = BusinessTypeStock, sOffsetType = [], sPrice = Fin 10, sQty = 100,
     sIdempotencyKey = ''k1'', sStrategyType = [], sStrategyID = [], sBasketID = [],
     sParentOrderID = [], sT0OrderGroupID = []\<rparr>"

lemma demo_submit_wire: "wire_request demo_submit"
proof -
  have "round64 10 = Fin 10" using round64_of_int_pos [of 10] by simp
  then show ?thesis by (simp add: wire_request_def demo_submit_def wire_price_def is_int64_def)
qed

theorem command_codec_roundtrip_witness:
  "Option.bind (encode_submit demo_submit) decode_submit = Some demo_submit
   \<and> Option.bind (encode_batch \<lparr>bAccountID = ''A1'', bOrders = [demo_submit], bIdempotencyKey = ''b1''\<rparr>)
       decode_batch = Some \<lparr>bAccountID = ''A1'', bOrders = [demo_submit], bIdempotencyKey = ''b1''\<rparr>"
  using command_codec_roundtrip [OF demo_submit_wire,
      of "\<lparr>bAccountID = ''A1'', bOrders = [demo_submit], bIdempotencyKey = ''b1''\<rparr>"] demo_submit_wire
  by simp

end
