(* ===== verification/Ledger_Dates.thy ===== *)
theory Ledger_Dates
  imports Trading
begin

text \<open>
  Dates and cursors of the ledger repository (\<^verbatim>\<open>internal/ledger/repository.go\<close>): trade dates in their
  two notations, date ranges of queries, offsets of pages, and the trade date of an order.
\<close>

definition normalizeTradeDate :: "string \<Rightarrow> error + string" where
  "normalizeTradeDate value =
     (let v = TrimSpace value
      in if v = [] then Inr []
         else case (if length v = 8 then parseDate8 v else parseDate10 v) of
                None \<Rightarrow> Inl (ErrInvalidLedgerInput ''date must be YYYYMMDD or YYYY-MM-DD'')
              | Some c \<Rightarrow> Inr (formatDate c))"

text \<open>\<^verbatim>\<open>dateFrom > dateTo\<close> on strings: bytewise lexicographic order.\<close>

fun string_less :: "string \<Rightarrow> string \<Rightarrow> bool" where
  "string_less [] [] = False"
| "string_less [] (_ # _) = True"
| "string_less (_ # _) [] = False"
| "string_less (a # s) (b # t) =
     ((of_char a :: nat) < of_char b \<or> a = b \<and> string_less s t)"

definition normalizeQueryDates ::
    "string \<Rightarrow> string \<Rightarrow> string \<Rightarrow> error + string \<times> string \<times> string" where
  "normalizeQueryDates tradeDate0 dateFrom0 dateTo0 =
     (let tradeDate = TrimSpace tradeDate0; dateFrom = TrimSpace dateFrom0; dateTo = TrimSpace dateTo0
      in if tradeDate \<noteq> []
         then case normalizeTradeDate tradeDate of
                Inl e \<Rightarrow> Inl e
              | Inr d \<Rightarrow>
                  if dateFrom \<noteq> [] \<or> dateTo \<noteq> []
                  then Inl (ErrInvalidLedgerInput ''trade_date cannot be combined with date_from/date_to'')
                  else Inr (d, d, d)
         else case (if dateFrom \<noteq> [] then normalizeTradeDate dateFrom else Inr dateFrom) of
                Inl e \<Rightarrow> Inl e
              | Inr from \<Rightarrow>
                  (case (if dateTo \<noteq> [] then normalizeTradeDate dateTo else Inr dateTo) of
                     Inl e \<Rightarrow> Inl e
                   | Inr to \<Rightarrow>
                       if from \<noteq> [] \<and> to \<noteq> [] \<and> string_less to from
                       then Inl (ErrInvalidLedgerInput ''date_from must be <= date_to'')
                       else Inr ([], from, to)))"

definition queryCursorOffset :: "string \<Rightarrow> error + int" where
  "queryCursorOffset cursor0 =
     (let cursor = TrimSpace cursor0
      in if cursor = [] then Inr 0
         else case ParseInt64 cursor of
                None \<Rightarrow> Inl (ErrInvalidLedgerInput ''cursor must be a non-negative offset'')
              | Some offset \<Rightarrow>
                  if offset < 0 then Inl (ErrInvalidLedgerInput ''cursor must be a non-negative offset'')
                  else Inr offset)"

text \<open>\<^verbatim>\<open>dateStart\<close> of a blank value parses the empty string and fails.\<close>

definition dateStart :: "string \<Rightarrow> error + gotime" where
  "dateStart value =
     (case normalizeTradeDate value of
        Inl e \<Rightarrow> Inl e
      | Inr d \<Rightarrow> (case parseDate10 d of
            None \<Rightarrow> Inl (ErrInvalidLedgerInput ''date'')
          | Some c \<Rightarrow> Inr (dateInstant c)))"

definition dateEndExclusive :: "string \<Rightarrow> error + gotime" where
  "dateEndExclusive value = (case dateStart value of Inl e \<Rightarrow> Inl e | Inr t \<Rightarrow> Inr (t + day_length))"

definition nextTradeDate :: "string \<Rightarrow> error + string" where
  "nextTradeDate value =
     (case dateStart value of Inl e \<Rightarrow> Inl e | Inr t \<Rightarrow> Inr (formatBusinessDate (t + day_length)))"

definition normalizeOrderTradeDate :: "Order \<Rightarrow> error + string" where
  "normalizeOrderTradeDate ord =
     (if oTradeDate ord \<noteq> [] then normalizeTradeDate (oTradeDate ord)
      else case find (\<lambda>t. \<not> IsZero t)
             [oInsertedAt ord, oAcceptedAt ord, oCreatedAt ord, oLastUpdatedAt ord, oTerminalAt ord] of
             Some t \<Rightarrow> Inr (formatBusinessDate t)
           | None \<Rightarrow> Inl (ErrInvalidLedgerInput ''trade_date or order timestamp is required''))"

section \<open>Lemmas\<close>

lemma normalizeTradeDate_cases:
  assumes "normalizeTradeDate s = Inr d"
  obtains "TrimSpace s = []" "d = []"
  | c where "TrimSpace s \<noteq> []" "valid_civil c" "d = formatDate c"
  using assms
  by (auto simp: normalizeTradeDate_def Let_def split: if_splits option.splits
      dest: parseDate8_valid parseDate10_valid)

lemma TrimSpace_formatDate [simp]: "valid_civil c \<Longrightarrow> TrimSpace (formatDate c) = formatDate c"
  by (simp add: TrimSpace_ascii_word ascii_word_formatDate)

lemma formatDate_not_Nil: "valid_civil c \<Longrightarrow> formatDate c \<noteq> []"
  using length_formatDate [of c] by auto

lemma normalizeTradeDate_formatDate [simp]:
  "valid_civil c \<Longrightarrow> normalizeTradeDate (formatDate c) = Inr (formatDate c)"
  by (simp add: normalizeTradeDate_def Let_def formatDate_not_Nil length_formatDate parseDate10_formatDate)

lemma normalizeTradeDate_stable:
  "normalizeTradeDate s = Inr d \<Longrightarrow> normalizeTradeDate d = Inr d"
  by (erule normalizeTradeDate_cases) (simp_all add: normalizeTradeDate_def [of "[]"])

lemma normalizeTradeDate_trimmed: "normalizeTradeDate s = Inr d \<Longrightarrow> TrimSpace d = d"
  by (erule normalizeTradeDate_cases) simp_all

lemma normalizeTradeDate_nonempty:
  "normalizeTradeDate s = Inr d \<Longrightarrow> TrimSpace s \<noteq> [] \<Longrightarrow> d \<noteq> []"
  by (erule normalizeTradeDate_cases) (simp_all add: formatDate_not_Nil)

section \<open>Properties\<close>

text \<open>C32: Trade dates are brought to one notation. A date that is accepted comes out blank or as
  the ten character form of a date of the calendar, and normalising it again changes nothing, so
  the key under which an order is stored does not depend on how often its date was normalised.\<close>

theorem trade_date_canonical:
  assumes "normalizeTradeDate s = Inr d"
  shows "normalizeTradeDate d = Inr d \<and> (d = [] \<longleftrightarrow> TrimSpace s = [])
    \<and> (d = [] \<or> length d = 10 \<and> map_option formatDate (parseDate10 d) = Some d)"
  using assms
  by (rule normalizeTradeDate_cases)
     (auto simp: normalizeTradeDate_def [of "[]"] formatDate_not_Nil length_formatDate parseDate10_formatDate)

theorem trade_date_canonical_witness:
  "normalizeTradeDate ''20240229'' = Inr ''2024-02-29''
   \<and> normalizeTradeDate ''2024-02-29'' = Inr ''2024-02-29''"
proof -
  have "TrimSpace ''20240229'' = ''20240229''"
    by (rule TrimSpace_ascii_word) simp
  moreover have "parseDate8 ''20240229'' = Some (2024, 2, 29)"
    by (simp add: is_digit_def num2_def digit_val_def check_civil_def valid_civil_def
        days_in_month_def is_leap_def)
  moreover have "formatDate (2024, 2, 29) = ''2024-02-29''"
    by code_simp
  ultimately have n: "normalizeTradeDate ''20240229'' = Inr ''2024-02-29''"
    by (simp add: normalizeTradeDate_def)
  with trade_date_canonical [OF n] show ?thesis by simp
qed

end
