(* ===== verification/Ledger_Orders.thy ===== *)
theory Ledger_Orders
  imports Ledger_Dates
begin

text \<open>
  The order part of the ledger (\<^verbatim>\<open>internal/ledger/repository.go\<close>, \<^verbatim>\<open>internal/ledger/sql.go\<close>): the
  normalisation of orders and order events, the rows of the tables \<^verbatim>\<open>accounts\<close>, \<^verbatim>\<open>orders\<close>,
  \<^verbatim>\<open>order_events\<close> and \<^verbatim>\<open>raw_stream_messages\<close> with the constraints of the migrations, the statements
  as functions on them and the repository operations that run them. A nullable column is an
  option, \<open>None\<close> for NULL. The database may fail: each statement consumes one entry of a schedule
  that says whether it runs, fails without effect, or takes effect and then fails to report it.
\<close>

section \<open>Columns\<close>

text \<open>The conversions of the storage: a price through NUMERIC(20,6) and back, an instant through
  TIMESTAMPTZ and back.\<close>

record pg =
  pg_money :: "float64 \<Rightarrow> float64"
  pg_time :: "gotime \<Rightarrow> gotime"

text \<open>A \<^verbatim>\<open>jsonb\<close> column that holds a context: a context map, the \<^verbatim>\<open>null\<close> a nil map is marshalled to,
  or the array that \<^verbatim>\<open>||\<close> makes of two values that are not both objects.\<close>

datatype jsonb = JbNull | JbObj "string \<rightharpoonup> any" | JbArr "jsonb list"

definition jsonb_of_ctx :: "ctxmap \<Rightarrow> jsonb" where
  "jsonb_of_ctx c = (case c of None \<Rightarrow> JbNull | Some m \<Rightarrow> JbObj m)"

fun jb_elems :: "jsonb \<Rightarrow> jsonb list" where
  "jb_elems (JbArr xs) = xs"
| "jb_elems v = [v]"

definition jb_concat :: "jsonb \<Rightarrow> jsonb \<Rightarrow> jsonb" where
  "jb_concat a b =
     (case (a, b) of (JbObj m, JbObj n) \<Rightarrow> JbObj (m ++ n) | _ \<Rightarrow> JbArr (jb_elems a @ jb_elems b))"

text \<open>The operator \<^verbatim>\<open>?\<close>; an array here has no string among its elements.\<close>

fun jb_has :: "string \<Rightarrow> jsonb \<Rightarrow> bool" where
  "jb_has k (JbObj m) = (m k \<noteq> None)"
| "jb_has k _ = False"

text \<open>\<^verbatim>\<open>COALESCE(c ->> 'reported_fee_source', 'unavailable') = 'unavailable'\<close>.\<close>

definition fee_unavailable :: "jsonb \<Rightarrow> bool" where
  "fee_unavailable c =
     (case c of
        JbObj m \<Rightarrow> (case m ''reported_fee_source'' of
            None \<Rightarrow> True
          | Some AnyNil \<Rightarrow> True
          | Some (AnyStr s) \<Rightarrow> s = ''unavailable''
          | _ \<Rightarrow> False)
      | _ \<Rightarrow> True)"

definition nullString :: "string \<Rightarrow> string option" where
  "nullString v = (let t = TrimSpace v in if t = [] then None else Some t)"

definition nullInt64 :: "int \<Rightarrow> int option" where
  "nullInt64 v = (if v = 0 then None else Some v)"

definition nullFloat64 :: "float64 \<Rightarrow> float64 option" where
  "nullFloat64 v = (if feq v fzero then None else Some v)"

definition nullTime :: "gotime \<Rightarrow> gotime option" where
  "nullTime t = (if IsZero t then None else Some t)"

definition coalesce :: "'a option \<Rightarrow> 'a option \<Rightarrow> 'a option" where
  "coalesce a b = (case a of Some x \<Rightarrow> Some x | None \<Rightarrow> b)"

definition of_null :: "'a \<Rightarrow> 'a option \<Rightarrow> 'a" where
  "of_null d v = (case v of None \<Rightarrow> d | Some x \<Rightarrow> x)"

text \<open>\<^verbatim>\<open>GREATEST\<close> on NUMERIC, where NaN is the largest value.\<close>

definition num_greatest :: "float64 \<Rightarrow> float64 \<Rightarrow> float64" where
  "num_greatest a b = (if a = NaN \<or> b = NaN then NaN else if flt a b then b else a)"

section \<open>Rows\<close>

record order_row =
  wAccountID :: string
  wClientOrderID :: "string option"
  wGatewayOrderID :: string
  wOrderID :: "int option"
  wOrderStreamID :: "string option"
  wTradeDate :: string
  wStrategyType :: "string option"
  wStrategyID :: "string option"
  wBasketID :: "string option"
  wParentOrderID :: "string option"
  wT0OrderGroupID :: "string option"
  wSymbol :: string
  wName :: string
  wExchange :: Exchange
  wTradeSide :: TradeSide
  wBusinessType :: BusinessType
  wOffsetType :: "string option"
  wLimitPrice :: float64
  wOrderQty :: int
  wSubmittedQty :: int
  wCumFilledQty :: int
  wLeavesQty :: int
  wCancelledQty :: int
  wInvalidQty :: int
  wAvgFillPrice :: "float64 option"
  wFee :: float64
  wStatus :: OrderStatus
  wGatewayStatus :: GatewayStatus
  wAdapterStatusCode :: "int option"
  wAdapterStatusName :: "string option"
  wIsTerminal :: bool
  wRejectCode :: "string option"
  wRejectMessage :: "string option"
  wOriginMessageID :: "string option"
  wRequestID :: "string option"
  wIdempotencyKey :: "string option"
  wShareholderID :: "string option"
  wCreatedAt :: gotime
  wAcceptedAt :: "gotime option"
  wInsertedAt :: "gotime option"
  wLastUpdatedAt :: "gotime option"
  wTerminalAt :: "gotime option"
  wRawPayload :: Order
  wAdapterContext :: jsonb
  wUpdatedAt :: gotime

record StreamRef =
  srKey :: string
  srID :: string

record SourceRef =
  soOriginMessageID :: string
  soRequestID :: string
  soCorrelationID :: string
  soIdempotencyKey :: string

record event_row =
  vAccountID :: string
  vGatewayOrderID :: string
  vEventID :: "string option"
  vStatus :: OrderStatus
  vGatewayStatus :: GatewayStatus
  vIsTerminal :: bool
  vTradeDate :: string
  vStreamKey :: "string option"
  vStreamID :: "string option"
  vOriginMessageID :: "string option"
  vRequestID :: "string option"
  vCorrelationID :: "string option"
  vProducedAt :: "gotime option"
  vPayload :: OrderEvent
  vAdapterContext :: jsonb

text \<open>The columns of a raw message that the code reads; \<open>'b\<close> is the type of a JSON body.\<close>

record 'b RawStreamMessage =
  rmStreamKey :: string
  rmStreamID :: string
  rmOriginMessageID :: string
  rmRequestID :: string
  rmCorrelationID :: string
  rmIdempotencyKey :: string
  rmDirection :: string
  rmRole :: string
  rmMessageType :: string
  rmAction :: string
  rmEventType :: string
  rmStatus :: string
  rmCode :: string
  rmAccountID :: string
  rmGatewayOrderID :: string
  rmBody :: "'b option"
  rmBodyText :: string
  rmParseError :: string
  rmReceivedAt :: gotime

datatype fault = NoFault | FaultBefore | FaultAfter

record 'b ledger_db =
  dbAccounts :: "string \<rightharpoonup> Account"
  dbOrders :: "order_row list"
  dbOrderEvents :: "event_row list"
  dbRaw :: "'b RawStreamMessage list"
  dbServerNow :: gotime
  dbClientNow :: gotime
  dbFaults :: "fault list"

definition run_stmt ::
    "(('b, 'z) ledger_db_scheme, 'r) act \<Rightarrow> (('b, 'z) ledger_db_scheme, 'r) act" where
  "run_stmt m s =
     (case dbFaults s of
        [] \<Rightarrow> m s
      | f # fs \<Rightarrow>
          let s1 = s\<lparr>dbFaults := fs\<rparr>
          in case f of
               NoFault \<Rightarrow> m s1
             | FaultBefore \<Rightarrow> (Inl (ErrDatabase ''08006''), s1)
             | FaultAfter \<Rightarrow> (Inl (ErrDatabase ''08006''), snd (m s1)))"

definition isUniqueViolation :: "error \<Rightarrow> bool" where
  "isUniqueViolation e \<longleftrightarrow> e = ErrDatabase ''23505''"

section \<open>Normalisation\<close>

fun firstNonEmptyRaw :: "string list \<Rightarrow> string" where
  "firstNonEmptyRaw [] = []"
| "firstNonEmptyRaw (v # vs) = (if TrimSpace v \<noteq> [] then v else firstNonEmptyRaw vs)"

definition trimOrder :: "Order \<Rightarrow> Order" where
  "trimOrder ord = ord\<lparr>oAccountID := TrimSpace (oAccountID ord),
     oClientOrderID := TrimSpace (oClientOrderID ord),
     oGatewayOrderID := TrimSpace (oGatewayOrderID ord),
     oOrderStreamID := TrimSpace (oOrderStreamID ord), oTradeDate := TrimSpace (oTradeDate ord),
     oSymbol := TrimSpace (oSymbol ord), oName := TrimSpace (oName ord),
     oOriginMessageID := TrimSpace (oOriginMessageID ord), oRequestID := TrimSpace (oRequestID ord),
     oIdempotencyKey := TrimSpace (oIdempotencyKey ord),
     oShareholderID := TrimSpace (oShareholderID ord), oStrategyType := TrimSpace (oStrategyType ord),
     oStrategyID := TrimSpace (oStrategyID ord), oBasketID := TrimSpace (oBasketID ord),
     oParentOrderID := TrimSpace (oParentOrderID ord),
     oT0OrderGroupID := TrimSpace (oT0OrderGroupID ord)\<rparr>"

definition orderInputError :: "Order \<Rightarrow> string option" where
  "orderInputError ord =
     (if TrimSpace (oAccountID ord) = [] then Some ''account_id is required''
      else if TrimSpace (oGatewayOrderID ord) = [] then Some ''gateway_order_id is required''
      else if TrimSpace (oSymbol ord) = [] then Some ''symbol is required''
      else if \<not> Exchange_Valid (oExchange ord) then Some ''exchange must be SH, SZ, or BJ''
      else if \<not> TradeSide_Valid (oTradeSide ord) then Some ''trade_side must be B, S, P, or R''
      else if \<not> BusinessType_Valid (oBusinessType ord) then Some ''business_type must be S or E''
      else if \<not> OffsetType_Valid (oOffsetType ord) then Some ''offset_type must be O, C, or empty''
      else if fle (oLimitPrice ord) fzero then Some ''limit_price must be positive''
      else if oOrderQty ord \<le> 0 then Some ''order_qty must be positive''
      else None)"

text \<open>The end of \<^verbatim>\<open>normalizeOrder\<close>: default statuses, reconciliation with the quantities, and the
  quantities that follow from the state.\<close>

definition orderState :: "Order \<Rightarrow> OrderStatus \<times> GatewayStatus \<times> bool" where
  "orderState ord =
     NormalizeOrderExecutionState
       (if oStatus ord = [] then OrderStatusCreated else oStatus ord)
       (if oGatewayStatus ord = [] then GatewayStatusAccepted else oGatewayStatus ord)
       (oOrderQty ord) (oCumFilledQty ord) (oLeavesQty ord)"

definition settleOrder :: "Order \<Rightarrow> Order" where
  "settleOrder ord0 =
     (case orderState ord0 of
        (st, g, inferred) \<Rightarrow>
          let ord1 = ord0\<lparr>oStatus := st, oGatewayStatus := g,
                oIsTerminal := (inferred \<or> OrderStatus_Terminal st \<or> GatewayStatus_Terminal g)\<rparr>;
              ord2 = (if st = OrderStatusFilled
                      then ord1\<lparr>oCumFilledQty := oOrderQty ord1, oLeavesQty := 0\<rparr> else ord1)
          in if oLeavesQty ord2 = 0 \<and> oCumFilledQty ord2 = 0 \<and> oCancelledQty ord2 = 0
                \<and> oInvalidQty ord2 = 0 \<and> \<not> oIsTerminal ord2
             then ord2\<lparr>oLeavesQty := oOrderQty ord2\<rparr> else ord2)"

definition normalizeOrder :: "Order \<Rightarrow> error + Order" where
  "normalizeOrder ord0 =
     (let ord = trimOrder ord0
      in case orderInputError ord of
           Some msg \<Rightarrow> Inl (ErrInvalidLedgerInput msg)
         | None \<Rightarrow>
             (case normalizeOrderTradeDate ord of
                Inl e \<Rightarrow> Inl e
              | Inr d \<Rightarrow> Inr (settleOrder (ord\<lparr>oTradeDate := d\<rparr>))))"

text \<open>\<^verbatim>\<open>normalizeOrderEvent\<close> in three parts: identity, trade date, state.\<close>

definition identifyEvent :: "OrderEvent \<Rightarrow> OrderEvent" where
  "identifyEvent ev0 =
     (let acct = TrimSpace (if TrimSpace (eAccountID ev0) = [] then oAccountID (eOrder ev0) else eAccountID ev0);
          gw = TrimSpace (if TrimSpace (eGatewayOrderID ev0) = [] then oGatewayOrderID (eOrder ev0)
                          else eGatewayOrderID ev0);
          ord = eOrder ev0
      in ev0\<lparr>eAccountID := acct, eGatewayOrderID := gw,
             eOrder := ord\<lparr>oAccountID := firstNonEmptyRaw [TrimSpace (oAccountID ord), acct],
               oGatewayOrderID := firstNonEmptyRaw [TrimSpace (oGatewayOrderID ord), gw],
               oTradeDate := TrimSpace (oTradeDate ord), oStrategyType := TrimSpace (oStrategyType ord),
               oStrategyID := TrimSpace (oStrategyID ord), oBasketID := TrimSpace (oBasketID ord),
               oParentOrderID := TrimSpace (oParentOrderID ord),
               oT0OrderGroupID := TrimSpace (oT0OrderGroupID ord)\<rparr>\<rparr>)"

definition eventTradeDate :: "OrderEvent \<Rightarrow> error + string" where
  "eventTradeDate ev =
     (case (if oTradeDate (eOrder ev) \<noteq> [] then Inr (oTradeDate (eOrder ev))
            else if \<not> IsZero (eProducedAt ev) then Inr (formatBusinessDate (eProducedAt ev))
            else normalizeOrderTradeDate (eOrder ev)) of
        Inl e \<Rightarrow> Inl e
      | Inr d \<Rightarrow> if d \<noteq> [] then normalizeTradeDate d else Inr d)"

definition eventState :: "OrderEvent \<Rightarrow> OrderStatus \<times> GatewayStatus \<times> bool" where
  "eventState ev =
     (let ord = eOrder ev;
          st = (if eStatus ev = [] then oStatus ord else eStatus ev);
          g = (if eGatewayStatus ev = [] then oGatewayStatus ord else eGatewayStatus ev)
      in NormalizeOrderExecutionState (if st = [] then OrderStatusCreated else st)
           (if g = [] then GatewayStatusAccepted else g) (oOrderQty ord) (oCumFilledQty ord) (oLeavesQty ord))"

definition settleEvent :: "OrderEvent \<Rightarrow> OrderEvent" where
  "settleEvent ev0 =
     (case eventState ev0 of
        (st, g, inferred) \<Rightarrow>
          let t = (inferred \<or> OrderStatus_Terminal st \<or> GatewayStatus_Terminal g);
              ord1 = (eOrder ev0)\<lparr>oStatus := st, oGatewayStatus := g, oIsTerminal := t\<rparr>;
              ord2 = (if st = OrderStatusFilled
                      then ord1\<lparr>oCumFilledQty := oOrderQty ord1, oLeavesQty := 0\<rparr> else ord1)
          in ev0\<lparr>eStatus := st, eGatewayStatus := g, eIsTerminal := t, eOrder := ord2\<rparr>)"

definition normalizeOrderEvent :: "OrderEvent \<Rightarrow> error + OrderEvent" where
  "normalizeOrderEvent ev0 =
     (let ev1 = (if eEventType ev0 = [] then ev0\<lparr>eEventType := EventTypeOrder\<rparr> else ev0)
      in if eEventType ev1 \<noteq> EventTypeOrder
         then Inl (ErrInvalidLedgerInput ''event_type must be order.event'')
         else let ev2 = identifyEvent ev1
              in case eventTradeDate ev2 of
                   Inl e \<Rightarrow> Inl e
                 | Inr d \<Rightarrow>
                     let ev3 = ev2\<lparr>eOrder := (eOrder ev2)\<lparr>oTradeDate := d\<rparr>\<rparr>
                     in if TrimSpace (eAccountID ev3) = []
                        then Inl (ErrInvalidLedgerInput ''account_id is required'')
                        else if TrimSpace (eGatewayOrderID ev3) = []
                        then Inl (ErrInvalidLedgerInput ''gateway_order_id is required'')
                        else Inr (settleEvent ev3))"

text \<open>\<^verbatim>\<open>json.Marshal\<close> of an order fails on a price that is not finite.\<close>

definition order_marshals :: "Order \<Rightarrow> bool" where
  "order_marshals ord \<longleftrightarrow>
     finite_float (oLimitPrice ord) \<and> finite_float (oAvgFillPrice ord) \<and> finite_float (oFee ord)"

section \<open>Statements on orders\<close>

text \<open>The VALUES of \<^verbatim>\<open>insertOrderSQL\<close>.\<close>

definition order_values :: "pg \<Rightarrow> gotime \<Rightarrow> Order \<Rightarrow> order_row" where
  "order_values P now ord =
     \<lparr>wAccountID = oAccountID ord, wClientOrderID = nullString (oClientOrderID ord),
      wGatewayOrderID = oGatewayOrderID ord, wOrderID = nullInt64 (oOrderID ord),
      wOrderStreamID = nullString (oOrderStreamID ord), wTradeDate = TrimSpace (oTradeDate ord),
      wStrategyType = nullString (oStrategyType ord), wStrategyID = nullString (oStrategyID ord),
      wBasketID = nullString (oBasketID ord), wParentOrderID = nullString (oParentOrderID ord),
      wT0OrderGroupID = nullString (oT0OrderGroupID ord), wSymbol = oSymbol ord, wName = oName ord,
      wExchange = oExchange ord, wTradeSide = oTradeSide ord, wBusinessType = oBusinessType ord,
      wOffsetType = nullString (oOffsetType ord), wLimitPrice = pg_money P (oLimitPrice ord),
      wOrderQty = oOrderQty ord, wSubmittedQty = oSubmittedQty ord,
      wCumFilledQty = oCumFilledQty ord, wLeavesQty = oLeavesQty ord,
      wCancelledQty = oCancelledQty ord, wInvalidQty = oInvalidQty ord,
      wAvgFillPrice = map_option (pg_money P) (nullFloat64 (oAvgFillPrice ord)),
      wFee = pg_money P (oFee ord), wStatus = oStatus ord, wGatewayStatus = oGatewayStatus ord,
      wAdapterStatusCode = nullInt64 (oAdapterStatusCode ord),
      wAdapterStatusName = nullString (oAdapterStatusName ord), wIsTerminal = oIsTerminal ord,
      wRejectCode = nullString (oRejectCode ord), wRejectMessage = nullString (oRejectMessage ord),
      wOriginMessageID = nullString (oOriginMessageID ord), wRequestID = nullString (oRequestID ord),
      wIdempotencyKey = nullString (oIdempotencyKey ord),
      wShareholderID = nullString (oShareholderID ord),
      wCreatedAt = pg_time P (of_null now (nullTime (oCreatedAt ord))),
      wAcceptedAt = map_option (pg_time P) (nullTime (oAcceptedAt ord)),
      wInsertedAt = map_option (pg_time P) (nullTime (oInsertedAt ord)),
      wLastUpdatedAt = map_option (pg_time P) (nullTime (oLastUpdatedAt ord)),
      wTerminalAt = map_option (pg_time P) (nullTime (oTerminalAt ord)),
      wRawPayload = ord, wAdapterContext = jsonb_of_ctx (oAdapterContext ord),
      wUpdatedAt = pg_time P now\<rparr>"

text \<open>The CHECK constraints of \<^verbatim>\<open>orders\<close> and the ranges of its column types.\<close>

definition orders_check :: "order_row \<Rightarrow> bool" where
  "orders_check r \<longleftrightarrow>
     flt fzero (wLimitPrice r) \<and> flt (wLimitPrice r) (Fin (10 ^ 14)) \<and> 0 < wOrderQty r
     \<and> 0 \<le> wSubmittedQty r \<and> 0 \<le> wCumFilledQty r \<and> 0 \<le> wLeavesQty r \<and> 0 \<le> wCancelledQty r
     \<and> 0 \<le> wInvalidQty r
     \<and> Exchange_Valid (wExchange r) \<and> TradeSide_Valid (wTradeSide r)
     \<and> BusinessType_Valid (wBusinessType r)
     \<and> (case wOffsetType r of None \<Rightarrow> True | Some x \<Rightarrow> x = OffsetTypeOpen \<or> x = OffsetTypeClose)
     \<and> OrderStatus_Valid (wStatus r) \<and> GatewayStatus_Known (wGatewayStatus r)
     \<and> (wIsTerminal r \<longrightarrow> OrderStatus_Terminal (wStatus r))
     \<and> (case wAdapterStatusCode r of None \<Rightarrow> True | Some n \<Rightarrow> - (2 ^ 31) \<le> n \<and> n < 2 ^ 31)"

definition same_key :: "order_row \<Rightarrow> order_row \<Rightarrow> bool" where
  "same_key a b \<longleftrightarrow> wAccountID a = wAccountID b \<and> wTradeDate a = wTradeDate b
     \<and> wGatewayOrderID a = wGatewayOrderID b"

text \<open>The partial unique indexes on the client order id and on the idempotency key.\<close>

definition same_alias :: "order_row \<Rightarrow> order_row \<Rightarrow> bool" where
  "same_alias a b \<longleftrightarrow> wAccountID a = wAccountID b
     \<and> (wClientOrderID a \<noteq> None \<and> wClientOrderID a = wClientOrderID b
        \<or> wIdempotencyKey a \<noteq> None \<and> wIdempotencyKey a = wIdempotencyKey b)"

definition add_order_row :: "order_row \<Rightarrow> (('b, 'z) ledger_db_scheme, unit) act" where
  "add_order_row r s =
     (if list_ex (same_alias r) (dbOrders s) then (Inl (ErrDatabase ''23505''), s)
      else if dbAccounts s (wAccountID r) = None then (Inl (ErrDatabase ''23503''), s)
      else (Inr (), s\<lparr>dbOrders := dbOrders s @ [r]\<rparr>))"

definition insertOrderSQL :: "order_row \<Rightarrow> (('b, 'z) ledger_db_scheme, unit) act" where
  "insertOrderSQL r s =
     (if \<not> orders_check r then (Inl (ErrDatabase ''23514''), s)
      else if list_ex (same_key r) (dbOrders s) then (Inl (ErrDatabase ''23505''), s)
      else add_order_row r s)"

text \<open>The subquery of \<^verbatim>\<open>terminal_at\<close>: the first terminal event with the status that arrives.\<close>

definition first_terminal_event :: "order_row \<Rightarrow> event_row list \<Rightarrow> gotime option" where
  "first_terminal_event r evs =
     fold (\<lambda>v acc. case vProducedAt v of
              None \<Rightarrow> acc
            | Some t \<Rightarrow> Some (case acc of None \<Rightarrow> t | Some u \<Rightarrow> min u t))
       (filter (\<lambda>v. vAccountID v = wAccountID r \<and> vTradeDate v = wTradeDate r
            \<and> vGatewayOrderID v = wGatewayOrderID r \<and> vIsTerminal v
            \<and> (vStatus v = wStatus r \<or> vGatewayStatus v = wGatewayStatus r)) evs) None"

text \<open>\<^verbatim>\<open>DO UPDATE SET\<close> of \<^verbatim>\<open>upsertOrderSQL\<close>: \<open>old\<close> is the stored row, \<open>new\<close> is EXCLUDED.\<close>

definition upsert_merge :: "pg \<Rightarrow> gotime \<Rightarrow> event_row list \<Rightarrow> order_row \<Rightarrow> order_row \<Rightarrow> order_row" where
  "upsert_merge P now evs old new =
     (let reply = jb_has ''relay_reply_status'' (wAdapterContext new);
          keep = wIsTerminal old \<and> \<not> wIsTerminal new;
          rejected = (wStatus new = OrderStatusRejected \<or> wGatewayStatus new = GatewayStatusRejected);
          keepReject = keep \<and> wStatus old = OrderStatusRejected
      in old\<lparr>wClientOrderID := coalesce (wClientOrderID new) (wClientOrderID old),
           wOrderID := coalesce (wOrderID new) (wOrderID old),
           wOrderStreamID := coalesce (wOrderStreamID new) (wOrderStreamID old),
           wTradeDate := wTradeDate new,
           wStrategyType := coalesce (wStrategyType new) (wStrategyType old),
           wStrategyID := coalesce (wStrategyID new) (wStrategyID old),
           wBasketID := coalesce (wBasketID new) (wBasketID old),
           wParentOrderID := coalesce (wParentOrderID new) (wParentOrderID old),
           wT0OrderGroupID := coalesce (wT0OrderGroupID new) (wT0OrderGroupID old),
           wCreatedAt := wCreatedAt new,
           wSymbol := wSymbol new, wName := wName new, wExchange := wExchange new,
           wTradeSide := wTradeSide new, wBusinessType := wBusinessType new,
           wOffsetType := coalesce (wOffsetType new) (wOffsetType old),
           wLimitPrice := wLimitPrice new, wOrderQty := wOrderQty new,
           wSubmittedQty := (if reply then wSubmittedQty new else max (wSubmittedQty old) (wSubmittedQty new)),
           wCumFilledQty := (if reply \<or> wIsTerminal new then wCumFilledQty new
                             else max (wCumFilledQty old) (wCumFilledQty new)),
           wLeavesQty := (if reply then wLeavesQty new else if keep then wLeavesQty old else wLeavesQty new),
           wCancelledQty := (if reply then wCancelledQty new else max (wCancelledQty old) (wCancelledQty new)),
           wInvalidQty := (if reply then wInvalidQty new else max (wInvalidQty old) (wInvalidQty new)),
           wAvgFillPrice := (if reply then wAvgFillPrice new
                             else coalesce (wAvgFillPrice new) (wAvgFillPrice old)),
           wFee := (if jb_has ''fee_record_id'' (wAdapterContext old)
                       \<and> fee_unavailable (wAdapterContext new) then wFee old else wFee new),
           wStatus := (if reply then wStatus new else if keep then wStatus old else wStatus new),
           wGatewayStatus := (if reply then wGatewayStatus new
                              else if keep then wGatewayStatus old else wGatewayStatus new),
           wAdapterStatusCode := (if reply then wAdapterStatusCode new
                                  else coalesce (wAdapterStatusCode new) (wAdapterStatusCode old)),
           wAdapterStatusName := (if reply then wAdapterStatusName new
                                  else coalesce (wAdapterStatusName new) (wAdapterStatusName old)),
           wIsTerminal := (if reply then wIsTerminal new else wIsTerminal old \<or> wIsTerminal new),
           wRejectCode := (if keepReject then wRejectCode old
                           else if rejected then wRejectCode new else None),
           wRejectMessage := (if keepReject then wRejectMessage old
                              else if rejected then wRejectMessage new else None),
           wOriginMessageID := coalesce (wOriginMessageID old) (wOriginMessageID new),
           wRequestID := coalesce (wRequestID old) (wRequestID new),
           wIdempotencyKey := coalesce (wIdempotencyKey old) (wIdempotencyKey new),
           wShareholderID := coalesce (wShareholderID new) (wShareholderID old),
           wAcceptedAt := coalesce (wAcceptedAt new) (wAcceptedAt old),
           wInsertedAt := coalesce (wInsertedAt new) (wInsertedAt old),
           wLastUpdatedAt := coalesce (wLastUpdatedAt new) (wLastUpdatedAt old),
           wTerminalAt :=
             (if reply \<and> \<not> wIsTerminal new then None
              else if reply
              then coalesce (wTerminalAt new) (coalesce (first_terminal_event new evs)
                     (coalesce (wTerminalAt old) (coalesce (wLastUpdatedAt new) (Some (pg_time P now)))))
              else if keep then wTerminalAt old
              else if wIsTerminal new
              then coalesce (wTerminalAt new) (coalesce (wTerminalAt old)
                     (coalesce (wLastUpdatedAt new) (Some (pg_time P now))))
              else wTerminalAt old),
           wRawPayload := wRawPayload new,
           wAdapterContext := (if reply then wAdapterContext new
                               else jb_concat (wAdapterContext old) (wAdapterContext new)),
           wUpdatedAt := pg_time P now\<rparr>)"

definition upsertOrderSQL :: "pg \<Rightarrow> order_row \<Rightarrow> (('b, 'z) ledger_db_scheme, unit) act" where
  "upsertOrderSQL P new s =
     (if \<not> orders_check new then (Inl (ErrDatabase ''23514''), s)
      else case find (same_key new) (dbOrders s) of
             None \<Rightarrow> add_order_row new s
           | Some old \<Rightarrow>
               let merge = (\<lambda>x. upsert_merge P (dbServerNow s) (dbOrderEvents s) x new); r = merge old
               in if \<not> orders_check r then (Inl (ErrDatabase ''23514''), s)
                  else if list_ex (\<lambda>x. \<not> same_key new x \<and> same_alias r x) (dbOrders s)
                  then (Inl (ErrDatabase ''23505''), s)
                  else (Inr (), s\<lparr>dbOrders := map (\<lambda>x. if same_key new x then merge x else x) (dbOrders s)\<rparr>))"

text \<open>\<^verbatim>\<open>SET\<close> of \<^verbatim>\<open>updateOrderStatusSQL\<close>, its parameters taken from the normalised event.\<close>

definition update_merge :: "pg \<Rightarrow> gotime \<Rightarrow> OrderEvent \<Rightarrow> order_row \<Rightarrow> order_row" where
  "update_merge P now ev old =
     (let ord = eOrder ev; t = eIsTerminal ev;
          keep = wIsTerminal old \<and> \<not> t;
          keepReject = keep \<and> wStatus old = OrderStatusRejected;
          rejected = (eStatus ev = OrderStatusRejected \<or> eGatewayStatus ev = GatewayStatusRejected);
          produced = map_option (pg_time P) (nullTime (eProducedAt ev))
      in old\<lparr>wOrderID := coalesce (nullInt64 (oOrderID ord)) (wOrderID old),
           wOrderStreamID := coalesce (nullString (oOrderStreamID ord)) (wOrderStreamID old),
           wTradeDate := TrimSpace (oTradeDate ord),
           wStrategyType := coalesce (nullString (oStrategyType ord)) (wStrategyType old),
           wStrategyID := coalesce (nullString (oStrategyID ord)) (wStrategyID old),
           wBasketID := coalesce (nullString (oBasketID ord)) (wBasketID old),
           wParentOrderID := coalesce (nullString (oParentOrderID ord)) (wParentOrderID old),
           wT0OrderGroupID := coalesce (nullString (oT0OrderGroupID ord)) (wT0OrderGroupID old),
           wSubmittedQty := max (wSubmittedQty old) (oSubmittedQty ord),
           wCumFilledQty := (if t then oCumFilledQty ord else max (wCumFilledQty old) (oCumFilledQty ord)),
           wLeavesQty := (if keep then wLeavesQty old
                          else if oLeavesQty ord > 0 \<or> t then oLeavesQty ord else wLeavesQty old),
           wCancelledQty := max (wCancelledQty old) (oCancelledQty ord),
           wInvalidQty := max (wInvalidQty old) (oInvalidQty ord),
           wAvgFillPrice := coalesce (map_option (pg_money P) (nullFloat64 (oAvgFillPrice ord)))
                              (wAvgFillPrice old),
           wFee := num_greatest (wFee old) (pg_money P (oFee ord)),
           wStatus := (if keep then wStatus old else eStatus ev),
           wGatewayStatus := (if keep then wGatewayStatus old else eGatewayStatus ev),
           wIsTerminal := (wIsTerminal old \<or> t),
           wRejectCode := (if keepReject then wRejectCode old
                           else if rejected then nullString (oRejectCode ord) else None),
           wRejectMessage := (if keepReject then wRejectMessage old
                              else if rejected then nullString (oRejectMessage ord) else None),
           wLastUpdatedAt := coalesce produced (Some (pg_time P now)),
           wTerminalAt :=
             (if keep then wTerminalAt old
              else if t
              then coalesce (map_option (pg_time P) (nullTime (oTerminalAt ord)))
                     (coalesce produced (coalesce (wTerminalAt old) (Some (pg_time P now))))
              else wTerminalAt old),
           wAdapterContext := jb_concat (wAdapterContext old) (jsonb_of_ctx (eAdapterContext ev)),
           wUpdatedAt := pg_time P now\<rparr>)"

definition event_key :: "OrderEvent \<Rightarrow> order_row \<Rightarrow> bool" where
  "event_key ev r \<longleftrightarrow> wAccountID r = eAccountID ev \<and> wGatewayOrderID r = eGatewayOrderID ev
     \<and> wTradeDate r = TrimSpace (oTradeDate (eOrder ev))"

text \<open>The result is the number of rows affected.\<close>

definition updateOrderStatusSQL :: "pg \<Rightarrow> OrderEvent \<Rightarrow> (('b, 'z) ledger_db_scheme, nat) act" where
  "updateOrderStatusSQL P ev s =
     (let hit = filter (event_key ev) (dbOrders s);
          upd = update_merge P (dbServerNow s) ev
      in if list_ex (\<lambda>r. \<not> orders_check (upd r)) hit then (Inl (ErrDatabase ''23514''), s)
         else (Inr (length hit),
               s\<lparr>dbOrders := map (\<lambda>r. if event_key ev r then upd r else r) (dbOrders s)\<rparr>))"

end
