(* ===== verification/Ledger_Repo.thy ===== *)
theory Ledger_Repo
  imports Ledger_Orders
begin

text \<open>
  The repository operations of \<^verbatim>\<open>internal/ledger/repository.go\<close> on accounts, orders, order events and
  archived commands: each checks and normalises its input, runs its statement and interprets the
  outcome. \<open>P\<close> is the storage conversion.
\<close>

section \<open>ORDER BY\<close>

fun insert_by :: "('a \<Rightarrow> 'a \<Rightarrow> bool) \<Rightarrow> 'a \<Rightarrow> 'a list \<Rightarrow> 'a list" where
  "insert_by lt x [] = [x]"
| "insert_by lt x (y # ys) = (if lt y x then y # insert_by lt x ys else x # y # ys)"

definition order_by :: "('a \<Rightarrow> 'a \<Rightarrow> bool) \<Rightarrow> 'a list \<Rightarrow> 'a list" where
  "order_by lt xs = foldr (insert_by lt) xs []"

lemma set_insert_by [simp]: "set (insert_by lt x ys) = insert x (set ys)"
  by (induction ys) auto

lemma set_order_by [simp]: "set (order_by lt xs) = set xs"
  by (induction xs) (simp_all add: order_by_def)

lemma order_by_Nil [simp]: "order_by lt [] = []"
  by (simp add: order_by_def)

lemma order_by_single [simp]: "order_by lt [x] = [x]"
  by (simp add: order_by_def)

lemma order_by_eq_Nil [simp]: "order_by lt xs = [] \<longleftrightarrow> xs = []"
  by (metis set_order_by set_empty)

section \<open>Writing\<close>

definition UpsertAccount :: "Account \<Rightarrow> (('b, 'z) ledger_db_scheme, unit) act" where
  "UpsertAccount account s =
     (if TrimSpace (aAccountID account) = []
      then (Inl (ErrInvalidLedgerInput ''account_id is required''), s)
      else if TrimSpace (aBrokerID account) = []
      then (Inl (ErrInvalidLedgerInput ''broker_id is required''), s)
      else let acc = account\<lparr>
                 aStatus := (if aStatus account = [] then AccountStatusDisabled else aStatus account),
                 aUpdatedAt := (if IsZero (aUpdatedAt account) then dbClientNow s else aUpdatedAt account)\<rparr>
           in run_stmt (\<lambda>s.
                if aStatus acc \<notin> {AccountStatusEnabled, AccountStatusDisabled, ''readonly''}
                then (Inl (ErrDatabase ''23514''), s)
                else (Inr (), s\<lparr>dbAccounts := (dbAccounts s)(aAccountID acc \<mapsto> acc)\<rparr>)) s)"

definition writeOrder ::
    "(order_row \<Rightarrow> (('b, 'z) ledger_db_scheme, unit) act) \<Rightarrow> pg \<Rightarrow> Order
     \<Rightarrow> (('b, 'z) ledger_db_scheme, unit) act" where
  "writeOrder query P ord s =
     (if \<not> order_marshals ord then (Inl (ErrInvalidLedgerInput ''marshal json''), s)
      else run_stmt (\<lambda>s. query (order_values P (dbServerNow s) ord) s) s)"

definition CreateOrder :: "pg \<Rightarrow> Order \<Rightarrow> (('b, 'z) ledger_db_scheme, unit) act" where
  "CreateOrder P ord s =
     (case normalizeOrder ord of
        Inl e \<Rightarrow> (Inl e, s)
      | Inr n \<Rightarrow>
          (case writeOrder insertOrderSQL P n s of
             (Inr _, s') \<Rightarrow> (Inr (), s')
           | (Inl e, s') \<Rightarrow>
               (Inl (if isUniqueViolation e
                     then ErrOrderConflict (oAccountID n) (oTradeDate n) (oGatewayOrderID n) else e), s')))"

definition UpsertOrder :: "pg \<Rightarrow> Order \<Rightarrow> (('b, 'z) ledger_db_scheme, unit) act" where
  "UpsertOrder P ord s =
     (case normalizeOrder ord of
        Inl e \<Rightarrow> (Inl e, s)
      | Inr n \<Rightarrow> writeOrder (upsertOrderSQL P) P n s)"

definition event_values :: "pg \<Rightarrow> OrderEvent \<Rightarrow> StreamRef \<Rightarrow> SourceRef \<Rightarrow> event_row" where
  "event_values P ev stream source =
     \<lparr>vAccountID = eAccountID ev, vGatewayOrderID = eGatewayOrderID ev,
      vEventID = nullString (eEventID ev), vStatus = eStatus ev, vGatewayStatus = eGatewayStatus ev,
      vIsTerminal = eIsTerminal ev, vTradeDate = TrimSpace (oTradeDate (eOrder ev)),
      vStreamKey = nullString (srKey stream), vStreamID = nullString (srID stream),
      vOriginMessageID = nullString (firstNonEmptyRaw [soOriginMessageID source, oOriginMessageID (eOrder ev)]),
      vRequestID = nullString (firstNonEmptyRaw [soRequestID source, oRequestID (eOrder ev)]),
      vCorrelationID = nullString (soCorrelationID source),
      vProducedAt = map_option (pg_time P) (nullTime (eProducedAt ev)),
      vPayload = ev, vAdapterContext = jsonb_of_ctx (eAdapterContext ev)\<rparr>"

definition event_conflict :: "event_row \<Rightarrow> event_row \<Rightarrow> bool" where
  "event_conflict a b \<longleftrightarrow>
     vEventID a \<noteq> None \<and> vAccountID a = vAccountID b \<and> vEventID a = vEventID b
     \<or> vStreamKey a \<noteq> None \<and> vStreamID a \<noteq> None \<and> vStreamKey a = vStreamKey b \<and> vStreamID a = vStreamID b"

text \<open>\<^verbatim>\<open>ON CONFLICT DO NOTHING\<close>: an event that was stored before is skipped; the foreign key to the
  order is checked for a new one.\<close>

definition appendOrderEventSQL :: "event_row \<Rightarrow> (('b, 'z) ledger_db_scheme, unit) act" where
  "appendOrderEventSQL v s =
     (if \<not> OrderStatus_Valid (vStatus v) \<or> \<not> GatewayStatus_Known (vGatewayStatus v)
      then (Inl (ErrDatabase ''23514''), s)
      else if list_ex (event_conflict v) (dbOrderEvents s) then (Inr (), s)
      else if list_ex (\<lambda>r. wAccountID r = vAccountID v \<and> wTradeDate r = vTradeDate v
                          \<and> wGatewayOrderID r = vGatewayOrderID v) (dbOrders s)
      then (Inr (), s\<lparr>dbOrderEvents := dbOrderEvents s @ [v]\<rparr>)
      else (Inl (ErrDatabase ''23503''), s))"

definition AppendOrderEvent ::
    "pg \<Rightarrow> OrderEvent \<Rightarrow> StreamRef \<Rightarrow> SourceRef \<Rightarrow> (('b, 'z) ledger_db_scheme, unit) act" where
  "AppendOrderEvent P event stream source s =
     (case normalizeOrderEvent event of
        Inl e \<Rightarrow> (Inl e, s)
      | Inr n \<Rightarrow>
          if \<not> order_marshals (eOrder n) then (Inl (ErrInvalidLedgerInput ''marshal json''), s)
          else run_stmt (appendOrderEventSQL (event_values P n stream source)) s)"

definition UpdateOrderStatus :: "pg \<Rightarrow> OrderEvent \<Rightarrow> (('b, 'z) ledger_db_scheme, unit) act" where
  "UpdateOrderStatus P event s =
     (case normalizeOrderEvent event of
        Inl e \<Rightarrow> (Inl e, s)
      | Inr n \<Rightarrow>
          (case run_stmt (updateOrderStatusSQL P n) s of
             (Inl e, s') \<Rightarrow> (Inl e, s')
           | (Inr rows, s') \<Rightarrow>
               if rows = 0 then (Inl (ErrOrderNotFound (eGatewayOrderID n)), s') else (Inr (), s')))"

section \<open>Reading\<close>

text \<open>A number of a context comes back as a \<^verbatim>\<open>float64\<close>.\<close>

definition reload_int :: "int \<Rightarrow> any" where
  "reload_int n = (case float_of_int n of Fin q \<Rightarrow> AnyFloat q | _ \<Rightarrow> AnyNil)"

primrec any_reload :: "any \<Rightarrow> any" where
  "any_reload AnyNil = AnyNil"
| "any_reload (AnyBool b) = AnyBool b"
| "any_reload (AnyInt n) = reload_int n"
| "any_reload (AnyFloat q) = AnyFloat q"
| "any_reload (AnyStr s) = AnyStr s"
| "any_reload (AnyList xs) = AnyList (map any_reload xs)"
| "any_reload (AnyObj ps) = AnyObj (map (map_prod id any_reload) ps)"

definition scan_context :: "jsonb \<Rightarrow> error + ctxmap" where
  "scan_context v =
     (case v of
        JbObj m \<Rightarrow> Inr (Some (\<lambda>k. map_option any_reload (m k)))
      | JbNull \<Rightarrow> Inr None
      | JbArr _ \<Rightarrow> Inl (ErrJSON ''adapter_context''))"

definition mapStringValue :: "ctxmap \<Rightarrow> string \<Rightarrow> string" where
  "mapStringValue c k = (case ctx_lookup c k of Some (AnyStr s) \<Rightarrow> TrimSpace s | _ \<Rightarrow> [])"

definition scan_row :: "order_row \<Rightarrow> ctxmap \<Rightarrow> Order" where
  "scan_row r ctx =
     \<lparr>oAccountID = wAccountID r, oClientOrderID = of_null [] (wClientOrderID r),
      oGatewayOrderID = wGatewayOrderID r, oOrderID = of_null 0 (wOrderID r),
      oOrderStreamID = of_null [] (wOrderStreamID r),
      oCounterSessionID = mapStringValue ctx ''counter_session_id'', oTradeDate = wTradeDate r,
      oSymbol = wSymbol r, oName = wName r, oExchange = wExchange r, oTradeSide = wTradeSide r,
      oBusinessType = wBusinessType r, oOffsetType = of_null [] (wOffsetType r),
      oLimitPrice = wLimitPrice r, oOrderQty = wOrderQty r, oSubmittedQty = wSubmittedQty r,
      oCumFilledQty = wCumFilledQty r, oLeavesQty = wLeavesQty r, oCancelledQty = wCancelledQty r,
      oInvalidQty = wInvalidQty r, oAvgFillPrice = of_null fzero (wAvgFillPrice r), oFee = wFee r,
      oStatus = wStatus r, oGatewayStatus = wGatewayStatus r,
      oAdapterStatusCode = of_null 0 (wAdapterStatusCode r),
      oAdapterStatusName = of_null [] (wAdapterStatusName r), oIsTerminal = wIsTerminal r,
      oRejectCode = of_null [] (wRejectCode r), oRejectMessage = of_null [] (wRejectMessage r),
      oOriginMessageID = of_null [] (wOriginMessageID r), oRequestID = of_null [] (wRequestID r),
      oIdempotencyKey = of_null [] (wIdempotencyKey r),
      oShareholderID = of_null [] (wShareholderID r), oStrategyType = of_null [] (wStrategyType r),
      oStrategyID = of_null [] (wStrategyID r), oBasketID = of_null [] (wBasketID r),
      oParentOrderID = of_null [] (wParentOrderID r), oT0OrderGroupID = of_null [] (wT0OrderGroupID r),
      oCreatedAt = wCreatedAt r, oAcceptedAt = of_null zeroTime (wAcceptedAt r),
      oInsertedAt = of_null zeroTime (wInsertedAt r),
      oLastUpdatedAt = of_null zeroTime (wLastUpdatedAt r),
      oTerminalAt = of_null zeroTime (wTerminalAt r), oAdapterContext = ctx\<rparr>"

definition scanOrder :: "order_row \<Rightarrow> error + Order" where
  "scanOrder r =
     (case scan_context (wAdapterContext r) of
        Inl e \<Rightarrow> Inl e
      | Inr ctx \<Rightarrow>
          (case NormalizeOrderExecutionState (wStatus r) (wGatewayStatus r) (wOrderQty r)
                  (wCumFilledQty r) (wLeavesQty r) of
             (st, g, t) \<Rightarrow>
               let ord = (scan_row r ctx)\<lparr>oStatus := st, oGatewayStatus := g, oIsTerminal := t\<rparr>
               in Inr (if st = OrderStatusFilled
                       then ord\<lparr>oCumFilledQty := oOrderQty ord, oLeavesQty := 0\<rparr> else ord)))"

definition dateNum :: "string \<Rightarrow> int" where
  "dateNum s = (case parseDate10 s of Some c \<Rightarrow> days_from_civil c | None \<Rightarrow> 0)"

definition touchedAt :: "order_row \<Rightarrow> gotime" where
  "touchedAt r = of_null (wCreatedAt r) (wLastUpdatedAt r)"

text \<open>\<^verbatim>\<open>getOrderSQL\<close> and \<^verbatim>\<open>getOrderByIdempotencyKeySQL\<close>.\<close>

definition newest_date_first :: "order_row \<Rightarrow> order_row \<Rightarrow> bool" where
  "newest_date_first a b \<longleftrightarrow>
     dateNum (wTradeDate b) < dateNum (wTradeDate a)
     \<or> dateNum (wTradeDate a) = dateNum (wTradeDate b) \<and> touchedAt b < touchedAt a"

definition newest_first :: "order_row \<Rightarrow> order_row \<Rightarrow> bool" where
  "newest_first a b \<longleftrightarrow>
     touchedAt b < touchedAt a
     \<or> touchedAt a = touchedAt b \<and> string_less (wGatewayOrderID b) (wGatewayOrderID a)"

definition getOrderSQL :: "string \<Rightarrow> string \<Rightarrow> order_row list \<Rightarrow> order_row list" where
  "getOrderSQL acct gw rows =
     take 1 (order_by newest_date_first
       (filter (\<lambda>r. wAccountID r = acct \<and> wGatewayOrderID r = gw) rows))"

definition getOrderByIdempotencyKeySQL :: "string \<Rightarrow> string \<Rightarrow> order_row list \<Rightarrow> order_row list" where
  "getOrderByIdempotencyKeySQL acct key rows =
     take 1 (order_by newest_first
       (filter (\<lambda>r. wAccountID r = acct \<and> wIdempotencyKey r = Some key) rows))"

definition read_one :: "string \<Rightarrow> (order_row list \<Rightarrow> order_row list)
    \<Rightarrow> (('b, 'z) ledger_db_scheme, Order) act" where
  "read_one what q =
     seq (run_stmt (\<lambda>s. (Inr (q (dbOrders s)), s)))
       (\<lambda>rows. case rows of [] \<Rightarrow> raise (ErrOrderNotFound what) | r # _ \<Rightarrow> of_res (scanOrder r))"

definition GetOrder :: "string \<Rightarrow> string \<Rightarrow> (('b, 'z) ledger_db_scheme, Order) act" where
  "GetOrder accountID0 gatewayOrderID0 =
     (let accountID = TrimSpace accountID0; gatewayOrderID = TrimSpace gatewayOrderID0
      in if accountID = [] then raise (ErrInvalidLedgerInput ''account_id is required'')
         else if gatewayOrderID = [] then raise (ErrInvalidLedgerInput ''gateway_order_id is required'')
         else read_one gatewayOrderID (getOrderSQL accountID gatewayOrderID))"

definition GetOrderByIdempotencyKey ::
    "string \<Rightarrow> string \<Rightarrow> (('b, 'z) ledger_db_scheme, Order) act" where
  "GetOrderByIdempotencyKey accountID0 idempotencyKey0 =
     (let accountID = TrimSpace accountID0; idempotencyKey = TrimSpace idempotencyKey0
      in if accountID = [] then raise (ErrInvalidLedgerInput ''account_id is required'')
         else if idempotencyKey = [] then raise (ErrInvalidLedgerInput ''idempotency_key is required'')
         else read_one idempotencyKey (getOrderByIdempotencyKeySQL accountID idempotencyKey))"

section \<open>Listing orders\<close>

text \<open>\<^verbatim>\<open>normalizeOrderQuery\<close> of the repository.\<close>

definition repoOrderQuery :: "OrderQuery \<Rightarrow> error + OrderQuery" where
  "repoOrderQuery q0 =
     (let q = q0\<lparr>qAccountID := TrimSpace (qAccountID q0),
            qGatewayOrderID := TrimSpace (qGatewayOrderID q0),
            qClientOrderID := TrimSpace (qClientOrderID q0),
            qOriginMessageID := TrimSpace (qOriginMessageID q0), qSymbol := TrimSpace (qSymbol q0),
            qCursor := TrimSpace (qCursor q0), qStrategyType := TrimSpace (qStrategyType q0),
            qStrategyID := TrimSpace (qStrategyID q0), qBasketID := TrimSpace (qBasketID q0),
            qParentOrderID := TrimSpace (qParentOrderID q0),
            qT0OrderGroupID := TrimSpace (qT0OrderGroupID q0)\<rparr>
      in case normalizeQueryDates (qTradeDate q) (qDateFrom q) (qDateTo q) of
           Inl e \<Rightarrow> Inl e
         | Inr (d, from, to) \<Rightarrow>
             if qExchange q \<noteq> [] \<and> \<not> Exchange_Valid (qExchange q)
             then Inl (ErrInvalidLedgerInput ''exchange must be SH, SZ, or BJ'')
             else if qStatus q \<noteq> [] \<and> \<not> OrderStatus_Valid (qStatus q)
             then Inl (ErrInvalidLedgerInput ''status is invalid'')
             else case queryCursorOffset (qCursor q) of
                    Inl e \<Rightarrow> Inl e
                  | Inr _ \<Rightarrow>
                      let l1 = (if qLimit q \<le> 0 then 100 else qLimit q);
                          l2 = (if l1 > 500 then 500 else l1)
                      in Inr (q\<lparr>qTradeDate := d, qDateFrom := from, qDateTo := to, qLimit := l2\<rparr>))"

definition filter_text :: "string \<Rightarrow> string \<Rightarrow> bool" where
  "filter_text want v \<longleftrightarrow> want = [] \<or> v = want"

definition filter_null :: "string \<Rightarrow> string option \<Rightarrow> bool" where
  "filter_null want v \<longleftrightarrow> want = [] \<or> v = Some want"

text \<open>The WHERE clause \<^verbatim>\<open>buildListOrdersSQL\<close> assembles.\<close>

definition order_matches :: "OrderQuery \<Rightarrow> order_row \<Rightarrow> bool" where
  "order_matches q r \<longleftrightarrow>
     filter_text (qAccountID q) (wAccountID r) \<and> filter_text (qGatewayOrderID q) (wGatewayOrderID r)
     \<and> filter_null (qClientOrderID q) (wClientOrderID r)
     \<and> filter_null (qOriginMessageID q) (wOriginMessageID r)
     \<and> filter_text (qSymbol q) (wSymbol r) \<and> filter_text (qExchange q) (wExchange r)
     \<and> filter_text (qStatus q) (wStatus r) \<and> filter_null (qStrategyType q) (wStrategyType r)
     \<and> filter_null (qStrategyID q) (wStrategyID r) \<and> filter_null (qBasketID q) (wBasketID r)
     \<and> filter_null (qParentOrderID q) (wParentOrderID r)
     \<and> filter_null (qT0OrderGroupID q) (wT0OrderGroupID r)
     \<and> (qDateFrom q = [] \<or> dateNum (qDateFrom q) \<le> dateNum (wTradeDate r))
     \<and> (qDateTo q = [] \<or> dateNum (wTradeDate r) < dateNum (qDateTo q) + 1)"

definition cursor_value :: "string \<Rightarrow> int" where
  "cursor_value c = (case queryCursorOffset c of Inr n \<Rightarrow> n | Inl _ \<Rightarrow> 0)"

definition listOrdersSQL :: "OrderQuery \<Rightarrow> order_row list \<Rightarrow> order_row list" where
  "listOrdersSQL q rows =
     take (nat (qLimit q)) (drop (nat (cursor_value (qCursor q)))
       (order_by newest_first (filter (order_matches q) rows)))"

fun scan_all :: "order_row list \<Rightarrow> error + Order list" where
  "scan_all [] = Inr []"
| "scan_all (r # rs) =
     (case scanOrder r of
        Inl e \<Rightarrow> Inl e
      | Inr ord \<Rightarrow> (case scan_all rs of Inl e \<Rightarrow> Inl e | Inr ords \<Rightarrow> Inr (ord # ords)))"

definition ListOrders :: "OrderQuery \<Rightarrow> (('b, 'z) ledger_db_scheme, Order list) act" where
  "ListOrders query =
     (case repoOrderQuery query of
        Inl e \<Rightarrow> raise e
      | Inr q \<Rightarrow>
          seq (run_stmt (\<lambda>s. (Inr (listOrdersSQL q (dbOrders s)), s))) (\<lambda>rows. of_res (scan_all rows)))"

section \<open>Archive\<close>

definition stored_raw :: "pg \<Rightarrow> gotime \<Rightarrow> 'b RawStreamMessage \<Rightarrow> 'b RawStreamMessage" where
  "stored_raw P now m =
     m\<lparr>rmMessageType := TrimSpace (rmMessageType m), rmAction := TrimSpace (rmAction m),
       rmEventType := TrimSpace (rmEventType m), rmStatus := TrimSpace (rmStatus m),
       rmCode := TrimSpace (rmCode m), rmAccountID := TrimSpace (rmAccountID m),
       rmGatewayOrderID := TrimSpace (rmGatewayOrderID m),
       rmOriginMessageID := TrimSpace (rmOriginMessageID m), rmRequestID := TrimSpace (rmRequestID m),
       rmCorrelationID := TrimSpace (rmCorrelationID m),
       rmIdempotencyKey := TrimSpace (rmIdempotencyKey m), rmBodyText := TrimSpace (rmBodyText m),
       rmParseError := TrimSpace (rmParseError m),
       rmReceivedAt := pg_time P (if IsZero (rmReceivedAt m) then now else rmReceivedAt m)\<rparr>"

definition same_entry :: "'b RawStreamMessage \<Rightarrow> 'b RawStreamMessage \<Rightarrow> bool" where
  "same_entry a b \<longleftrightarrow> rmStreamKey a = rmStreamKey b \<and> rmStreamID a = rmStreamID b"

definition stream_roles :: "string list" where
  "stream_roles = [''cmd.trade'', ''cmd.query'', ''reply'', ''event'', ''hb'', ''dlq'']"

text \<open>The columns are nullable texts; a blank text is NULL and is read back blank, so the stored
  message keeps the blank. A message archived again replaces the stored one in its place.\<close>

definition archiveRawStreamMessageSQL ::
    "'b RawStreamMessage \<Rightarrow> (('b, 'z) ledger_db_scheme, unit) act" where
  "archiveRawStreamMessageSQL m s =
     (if rmDirection m \<notin> {''in'', ''out''} \<or> rmRole m \<notin> set stream_roles
      then (Inl (ErrDatabase ''23514''), s)
      else if list_ex (same_entry m) (dbRaw s)
      then (Inr (), s\<lparr>dbRaw := map (\<lambda>x. if same_entry m x then m else x) (dbRaw s)\<rparr>)
      else (Inr (), s\<lparr>dbRaw := dbRaw s @ [m]\<rparr>))"

definition ArchiveRawStreamMessage ::
    "pg \<Rightarrow> 'b RawStreamMessage \<Rightarrow> (('b, 'z) ledger_db_scheme, unit) act" where
  "ArchiveRawStreamMessage P m s =
     (if TrimSpace (rmStreamKey m) = [] then (Inl (ErrInvalidLedgerInput ''stream_key is required''), s)
      else if TrimSpace (rmStreamID m) = [] then (Inl (ErrInvalidLedgerInput ''stream_id is required''), s)
      else if TrimSpace (rmDirection m) = [] then (Inl (ErrInvalidLedgerInput ''direction is required''), s)
      else if TrimSpace (rmRole m) = [] then (Inl (ErrInvalidLedgerInput ''stream_role is required''), s)
      else run_stmt (archiveRawStreamMessageSQL (stored_raw P (dbClientNow s) m)) s)"

definition is_command :: "'b RawStreamMessage \<Rightarrow> bool" where
  "is_command m \<longleftrightarrow> rmDirection m = ''in'' \<and> rmRole m = ''cmd.trade'' \<and> rmMessageType m = ''command''"

definition oldest_first :: "'b RawStreamMessage \<Rightarrow> 'b RawStreamMessage \<Rightarrow> bool" where
  "oldest_first a b \<longleftrightarrow> rmReceivedAt a < rmReceivedAt b"

definition queryArchivedCommand ::
    "('b RawStreamMessage \<Rightarrow> bool) \<Rightarrow> (('b, 'z) ledger_db_scheme, 'b RawStreamMessage) act" where
  "queryArchivedCommand p =
     seq (run_stmt (\<lambda>s. (Inr (take 1 (order_by oldest_first (filter (\<lambda>m. is_command m \<and> p m) (dbRaw s)))), s)))
       (\<lambda>rows. case rows of [] \<Rightarrow> raise ErrArchivedCommandNotFound | m # _ \<Rightarrow> ret m)"

definition GetArchivedCommand ::
    "string \<Rightarrow> string \<Rightarrow> string \<Rightarrow> (('b, 'z) ledger_db_scheme, 'b RawStreamMessage) act" where
  "GetArchivedCommand accountID0 action0 idempotencyKey0 =
     (let accountID = TrimSpace accountID0; action = TrimSpace action0;
          idempotencyKey = TrimSpace idempotencyKey0
      in if accountID = [] \<or> action = [] \<or> idempotencyKey = []
         then raise (ErrInvalidLedgerInput ''account_id, action, and idempotency_key are required'')
         else queryArchivedCommand (\<lambda>m. rmAccountID m = accountID \<and> rmAction m = action
                \<and> rmIdempotencyKey m = idempotencyKey))"

definition GetArchivedCommandByMessageID ::
    "string \<Rightarrow> (('b, 'z) ledger_db_scheme, 'b RawStreamMessage) act" where
  "GetArchivedCommandByMessageID messageID0 =
     (let messageID = TrimSpace messageID0
      in if messageID = [] then raise (ErrInvalidLedgerInput ''message_id is required'')
         else queryArchivedCommand (\<lambda>m. rmOriginMessageID m = messageID))"

end
