(* ===== verification/Order_Flow.thy ===== *)
theory Order_Flow
  imports Go_Json Ledger_Repo
begin

text \<open>
  The order service (\<^verbatim>\<open>internal/orderflow/service.go\<close>): submission of single orders and of batches,
  cancellation, refresh queries and order listing. The service talks to its ledger, publisher, id
  generator and clock through interfaces; they are records of operations on a world \<open>'s\<close>, so
  that every statement below the service may change the world and fail.
\<close>

section \<open>Interfaces\<close>

record 's LedgerWriter =
  lwUpsertAccount :: "Account \<Rightarrow> ('s, unit) act"
  lwCreateOrder :: "Order \<Rightarrow> ('s, unit) act"
  lwGetOrder :: "string \<Rightarrow> string \<Rightarrow> ('s, Order) act"
  lwGetOrderByIdempotencyKey :: "string \<Rightarrow> string \<Rightarrow> ('s, Order) act"
  lwListOrders :: "OrderQuery \<Rightarrow> ('s, Order list) act"
  lwListFills :: "FillQuery \<Rightarrow> ('s, Fill list) act"
  lwListComponentTransfers :: "(ComponentTransferQuery \<Rightarrow> ('s, ComponentTransfer list) act) option"
  lwGetLatestAsset :: "string \<Rightarrow> ('s, Asset) act"
  lwListPositions :: "PositionQuery \<Rightarrow> ('s, Position list) act"
  lwListPositionSnapshots :: "PositionQuery \<Rightarrow> ('s, Position list) act"
  lwArchiveRawStreamMessage :: "json RawStreamMessage \<Rightarrow> ('s, unit) act"
  lwGetArchivedCommand :: "string \<Rightarrow> string \<Rightarrow> string \<Rightarrow> ('s, json RawStreamMessage) act"
  lwGetArchivedCommandByMessageID :: "string \<Rightarrow> ('s, json RawStreamMessage) act"

type_synonym 's CommandPublisher = "string \<Rightarrow> CommandEnvelope \<Rightarrow> ('s, CommandPublishResult) act"

text \<open>A service without a publisher (\<^verbatim>\<open>nil\<close>) still answers queries.\<close>

record 's Service =
  svConfig :: Config
  svLedger :: "'s LedgerWriter"
  svPublisher :: "'s CommandPublisher option"
  svNewID :: "string \<Rightarrow> ('s, string) act"
  svNow :: "('s, gotime) act"
  svCodec :: codec

record SubmitOrderResult =
  srAccountID :: string
  srAction :: string
  srOrder :: Order
  srMessageID :: string
  srStreamKey :: string
  srStreamID :: string
  srIdempotencyKey :: string
  srRequestID :: string
  srPublished :: CommandPublishResult
  srReplayed :: bool

record BatchSubmitOrderResult =
  brAccountID :: string
  brAction :: string
  brOrders :: "Order list"
  brMessageID :: string
  brStreamKey :: string
  brStreamID :: string
  brIdempotencyKey :: string
  brRequestID :: string
  brPublished :: CommandPublishResult
  brReplayed :: bool

record CancelOrderResult =
  crAccountID :: string
  crAction :: string
  crOrder :: Order
  crCancelID :: string
  crMessageID :: string
  crStreamKey :: string
  crStreamID :: string
  crIdempotencyKey :: string
  crRequestID :: string
  crPublished :: CommandPublishResult
  crReplayed :: bool

record RefreshQueryResult =
  rrAccountID :: string
  rrAction :: string
  rrMessageID :: string
  rrStreamKey :: string
  rrStreamID :: string
  rrIdempotencyKey :: string
  rrRequestID :: string
  rrPublished :: CommandPublishResult

record commandReceiptMetadata =
  cmMessageID :: string
  cmStreamKey :: string
  cmStreamID :: string
  cmIdempotencyKey :: string
  cmRequestID :: string
  cmPublished :: CommandPublishResult

section \<open>Routes\<close>

definition routeForConfiguredAccount :: "'s Service \<Rightarrow> string \<Rightarrow> error + AccountRouteConfig" where
  "routeForConfiguredAccount service accountID =
     (case AccountRoute (svConfig service) (TrimSpace accountID) of
        None \<Rightarrow> Inl (ErrRouteNotFound accountID)
      | Some route \<Rightarrow> Inr route)"

definition routeForEnabledAccount :: "'s Service \<Rightarrow> string \<Rightarrow> error + AccountRouteConfig" where
  "routeForEnabledAccount service accountID =
     (case routeForConfiguredAccount service accountID of
        Inl e \<Rightarrow> Inl e
      | Inr route \<Rightarrow> if \<not> rcEnabled route then Inl (ErrAccountDisabled accountID) else Inr route)"

definition routeForAccount :: "'s Service \<Rightarrow> string \<Rightarrow> error + AccountRouteConfig" where
  "routeForAccount service accountID =
     (case AccountRoute (svConfig service) accountID of
        None \<Rightarrow> Inl (ErrRouteNotFound accountID)
      | Some route \<Rightarrow>
          if \<not> rcEnabled route then Inl (ErrAccountDisabled accountID)
          else if \<not> rcTradingEnabled route then Inl (ErrTradingDisabled accountID)
          else Inr route)"

text \<open>The account a route stands for, as the three publishing operations upsert it.\<close>

definition accountFromRoute :: "AccountRouteConfig \<Rightarrow> gotime \<Rightarrow> Account" where
  "accountFromRoute route now =
     \<lparr>aAccountID = rcAccountID route, aBrokerID = rcBrokerID route, aGatewayID = rcGatewayID route,
      aStreamPrefix = rcStreamPrefix route, aStatus = AccountStatusEnabled, aEnabled = rcEnabled route,
      aTradingEnabled = rcTradingEnabled route, aSimulated = rcSimulated route,
      aTags = [''source'' \<mapsto> ''config''], aUpdatedAt = now\<rparr>"

section \<open>Requests and drafts\<close>

definition submitTradeDate :: "string \<Rightarrow> gotime \<Rightarrow> string" where
  "submitTradeDate value0 now =
     (let value = TrimSpace value0
      in if value \<noteq> []
         then (if length value = 8
               then take 4 value @ ''-'' @ take 2 (drop 4 value) @ ''-'' @ take 2 (drop 6 value) else value)
         else if IsZero now then [] else formatBusinessDate now)"

definition sameOptionalTradeDate :: "string \<Rightarrow> string \<Rightarrow> bool" where
  "sameOptionalTradeDate existing0 requested0 =
     (let existing = submitTradeDate existing0 zeroTime; requested = submitTradeDate requested0 zeroTime
      in existing = [] \<or> requested = [] \<or> existing = requested)"

definition validateSupportedSubmitOrder :: "SubmitOrderRequest \<Rightarrow> error + unit" where
  "validateSupportedSubmitOrder req =
     (if sBusinessType req = BusinessTypeETF then Inl ErrUnsupportedBusinessType else Inr ())"

definition draftOrderFromRequest :: "SubmitOrderRequest \<Rightarrow> gotime \<Rightarrow> Order" where
  "draftOrderFromRequest req now =
     Order0\<lparr>oAccountID := sAccountID req, oClientOrderID := sClientOrderID req,
       oGatewayOrderID := sGatewayOrderID req, oTradeDate := submitTradeDate (sTradeDate req) now,
       oSymbol := sSymbol req, oExchange := sExchange req, oTradeSide := sTradeSide req,
       oBusinessType := sBusinessType req, oOffsetType := sOffsetType req, oLimitPrice := sPrice req,
       oOrderQty := sQty req, oLeavesQty := sQty req, oStatus := OrderStatusCreated,
       oGatewayStatus := GatewayStatusAccepted, oIsTerminal := False,
       oIdempotencyKey := sIdempotencyKey req, oStrategyType := TrimSpace (sStrategyType req),
       oStrategyID := TrimSpace (sStrategyID req), oBasketID := TrimSpace (sBasketID req),
       oParentOrderID := TrimSpace (sParentOrderID req),
       oT0OrderGroupID := TrimSpace (sT0OrderGroupID req), oCreatedAt := now, oLastUpdatedAt := now,
       oAdapterContext := Some [''draft_source'' \<mapsto> AnyStr ''relay-api'']\<rparr>"

definition sameSubmitOrder :: "Order \<Rightarrow> SubmitOrderRequest \<Rightarrow> bool" where
  "sameSubmitOrder ord req \<longleftrightarrow>
     oAccountID ord = sAccountID req \<and> oClientOrderID ord = sClientOrderID req
     \<and> oGatewayOrderID ord = sGatewayOrderID req \<and> oSymbol ord = sSymbol req
     \<and> oExchange ord = sExchange req \<and> oTradeSide ord = sTradeSide req
     \<and> oBusinessType ord = sBusinessType req \<and> oOffsetType ord = sOffsetType req
     \<and> feq (oLimitPrice ord) (sPrice req) \<and> oOrderQty ord = sQty req
     \<and> sameOptionalTradeDate (oTradeDate ord) (sTradeDate req)
     \<and> oStrategyType ord = TrimSpace (sStrategyType req) \<and> oStrategyID ord = TrimSpace (sStrategyID req)
     \<and> oBasketID ord = TrimSpace (sBasketID req) \<and> oParentOrderID ord = TrimSpace (sParentOrderID req)
     \<and> oT0OrderGroupID ord = TrimSpace (sT0OrderGroupID req)"

definition same_trimmed :: "string \<Rightarrow> string \<Rightarrow> bool" where
  "same_trimmed a b \<longleftrightarrow> TrimSpace a = TrimSpace b"

definition sameSubmitOrderRequests :: "SubmitOrderRequest \<Rightarrow> SubmitOrderRequest \<Rightarrow> bool" where
  "sameSubmitOrderRequests left right \<longleftrightarrow>
     same_trimmed (sAccountID left) (sAccountID right)
     \<and> same_trimmed (sClientOrderID left) (sClientOrderID right)
     \<and> same_trimmed (sGatewayOrderID left) (sGatewayOrderID right)
     \<and> same_trimmed (sSymbol left) (sSymbol right)
     \<and> sExchange left = sExchange right \<and> sTradeSide left = sTradeSide right
     \<and> sBusinessType left = sBusinessType right \<and> sOffsetType left = sOffsetType right
     \<and> feq (sPrice left) (sPrice right) \<and> sQty left = sQty right
     \<and> sameOptionalTradeDate (sTradeDate left) (sTradeDate right)
     \<and> same_trimmed (sIdempotencyKey left) (sIdempotencyKey right)
     \<and> same_trimmed (sStrategyType left) (sStrategyType right)
     \<and> same_trimmed (sStrategyID left) (sStrategyID right)
     \<and> same_trimmed (sBasketID left) (sBasketID right)
     \<and> same_trimmed (sParentOrderID left) (sParentOrderID right)
     \<and> same_trimmed (sT0OrderGroupID left) (sT0OrderGroupID right)"

definition sameCancelOrder :: "CancelOrderRequest \<Rightarrow> CancelOrderRequest \<Rightarrow> bool" where
  "sameCancelOrder left right \<longleftrightarrow>
     same_trimmed (cAccountID left) (cAccountID right)
     \<and> same_trimmed (cGatewayOrderID left) (cGatewayOrderID right)
     \<and> same_trimmed (cCancelID left) (cCancelID right)
     \<and> same_trimmed (cIdempotencyKey left) (cIdempotencyKey right)"

section \<open>Archived commands\<close>

text \<open>The envelope is the archived text, or the archived value when there is no text; a missing
  value is read as the empty object.\<close>

definition archivedCommandPayload :: "codec \<Rightarrow> json RawStreamMessage \<Rightarrow> error + json" where
  "archivedCommandPayload C raw =
     (let body = TrimSpace (rmBodyText raw)
      in case (if body \<noteq> [] then js_parse C body else Some (of_null (JObj []) (rmBody raw))) of
           None \<Rightarrow> Inl (ErrArchivedCommand ''decode archived command envelope'')
         | Some v \<Rightarrow>
             if jnot_object v then Inl (ErrArchivedCommand ''decode archived command envelope'')
             else case raw_member ''payload'' (jmembers v) of
                    None \<Rightarrow> Inl (ErrArchivedCommand ''has no payload'')
                  | Some p \<Rightarrow> Inr p)"

definition archivedSubmitOrderRequest ::
    "codec \<Rightarrow> json RawStreamMessage \<Rightarrow> string \<Rightarrow> error + SubmitOrderRequest" where
  "archivedSubmitOrderRequest C raw gatewayOrderID =
     (case archivedCommandPayload C raw of
        Inl e \<Rightarrow> Inl e
      | Inr payload \<Rightarrow>
          if TrimSpace (rmAction raw) = ActionOrderSubmit
          then (case decode_submit payload of
                  None \<Rightarrow> Inl (ErrArchivedCommand ''decode archived submit command'')
                | Some r \<Rightarrow> Inr r)
          else if TrimSpace (rmAction raw) = ActionOrderBatchSubmit
          then (case decode_batch payload of
                  None \<Rightarrow> Inl (ErrArchivedCommand ''decode archived batch command'')
                | Some b \<Rightarrow>
                    (case find (\<lambda>ord. same_trimmed (sGatewayOrderID ord) gatewayOrderID) (bOrders b) of
                       None \<Rightarrow> Inl (ErrArchivedCommand ''archived batch command has no child'')
                     | Some ord \<Rightarrow> Inr (if TrimSpace (sAccountID ord) = []
                                       then ord\<lparr>sAccountID := bAccountID b\<rparr> else ord)))
          else Inl (ErrArchivedCommand ''unexpected action''))"

definition archivedCancelRequest ::
    "codec \<Rightarrow> json RawStreamMessage \<Rightarrow> error + CancelOrderRequest" where
  "archivedCancelRequest C raw =
     (case archivedCommandPayload C raw of
        Inl e \<Rightarrow> Inl e
      | Inr payload \<Rightarrow> (case decode_cancel payload of
            None \<Rightarrow> Inl (ErrArchivedCommand ''decode archived cancel command'')
          | Some r \<Rightarrow> Inr r))"

definition metadataFromArchivedCommand ::
    "codec \<Rightarrow> json RawStreamMessage \<Rightarrow> string \<Rightarrow> string \<Rightarrow> commandReceiptMetadata" where
  "metadataFromArchivedCommand C raw idempotencyKey fallbackRequestID =
     (let requestID = (if TrimSpace (rmRequestID raw) = [] then TrimSpace fallbackRequestID
                       else TrimSpace (rmRequestID raw));
          archivedKey = (if TrimSpace (rmIdempotencyKey raw) = [] then TrimSpace idempotencyKey
                         else TrimSpace (rmIdempotencyKey raw));
          bodyBytes = (if rmBodyText raw \<noteq> [] then length (rmBodyText raw)
                       else let b = js_print C (of_null (JObj []) (rmBody raw))
                            in if b = ''null'' then 0 else length b)
      in \<lparr>cmMessageID = TrimSpace (rmOriginMessageID raw), cmStreamKey = TrimSpace (rmStreamKey raw),
          cmStreamID = TrimSpace (rmStreamID raw), cmIdempotencyKey = archivedKey,
          cmRequestID = requestID,
          cmPublished = \<lparr>prStreamKey = TrimSpace (rmStreamKey raw), prStreamID = TrimSpace (rmStreamID raw),
                         prBodyBytes = bodyBytes\<rparr>\<rparr>)"

definition replayedCommandMetadata ::
    "'s Service \<Rightarrow> string \<Rightarrow> string \<Rightarrow> string \<Rightarrow> string \<Rightarrow> ('s, commandReceiptMetadata) act" where
  "replayedCommandMetadata service accountID action idempotencyKey fallbackRequestID =
     attempt (lwGetArchivedCommand (svLedger service) accountID action idempotencyKey) (\<lambda>r.
       case r of
         Inl e \<Rightarrow>
           if is_ErrArchivedCommandNotFound_err e
           then ret \<lparr>cmMessageID = [], cmStreamKey = [], cmStreamID = [], cmIdempotencyKey = idempotencyKey,
                     cmRequestID = fallbackRequestID, cmPublished = CommandPublishResult0\<rparr>
           else raise e
       | Inr archived \<Rightarrow>
           ret (metadataFromArchivedCommand (svCodec service) archived idempotencyKey fallbackRequestID))"

definition replayedSubmitResult ::
    "'s Service \<Rightarrow> Order \<Rightarrow> string \<Rightarrow> string \<Rightarrow> ('s, SubmitOrderResult) act" where
  "replayedSubmitResult service ord idempotencyKey fallbackRequestID =
     (let originalRequestID = (if TrimSpace (oRequestID ord) = [] then fallbackRequestID
                               else TrimSpace (oRequestID ord))
      in seq (replayedCommandMetadata service (oAccountID ord) ActionOrderSubmit idempotencyKey originalRequestID)
           (\<lambda>m. ret \<lparr>srAccountID = oAccountID ord, srAction = ActionOrderSubmit, srOrder = ord,
              srMessageID = (if cmMessageID m = [] then oOriginMessageID ord else cmMessageID m),
              srStreamKey = cmStreamKey m, srStreamID = cmStreamID m,
              srIdempotencyKey = cmIdempotencyKey m, srRequestID = cmRequestID m,
              srPublished = cmPublished m, srReplayed = True\<rparr>))"

definition replayedBatchSubmitResult ::
    "'s Service \<Rightarrow> string \<Rightarrow> Order list \<Rightarrow> string \<Rightarrow> string \<Rightarrow> ('s, BatchSubmitOrderResult) act" where
  "replayedBatchSubmitResult service accountID ords idempotencyKey fallbackRequestID =
     (let originalRequestID = (case ords of
            ord # _ \<Rightarrow> if TrimSpace (oRequestID ord) \<noteq> [] then oRequestID ord else fallbackRequestID
          | [] \<Rightarrow> fallbackRequestID)
      in seq (replayedCommandMetadata service accountID ActionOrderBatchSubmit idempotencyKey originalRequestID)
           (\<lambda>m. ret \<lparr>brAccountID = accountID, brAction = ActionOrderBatchSubmit, brOrders = ords,
              brMessageID = (case ords of ord # _ \<Rightarrow> if cmMessageID m = [] then oOriginMessageID ord else cmMessageID m
                             | [] \<Rightarrow> cmMessageID m),
              brStreamKey = cmStreamKey m, brStreamID = cmStreamID m,
              brIdempotencyKey = cmIdempotencyKey m, brRequestID = cmRequestID m,
              brPublished = cmPublished m, brReplayed = True\<rparr>))"

section \<open>Preflight\<close>

definition sameOriginalSubmitOrder ::
    "'s Service \<Rightarrow> Order \<Rightarrow> SubmitOrderRequest \<Rightarrow> ('s, bool) act" where
  "sameOriginalSubmitOrder service ord requested =
     attempt (if TrimSpace (oOriginMessageID ord) \<noteq> []
              then lwGetArchivedCommandByMessageID (svLedger service) (oOriginMessageID ord)
              else lwGetArchivedCommand (svLedger service) (oAccountID ord) ActionOrderSubmit (oIdempotencyKey ord))
       (\<lambda>r. case r of
          Inl e \<Rightarrow> if is_ErrArchivedCommandNotFound_err e then ret (sameSubmitOrder ord requested) else raise e
        | Inr archived \<Rightarrow>
            (case archivedSubmitOrderRequest (svCodec service) archived (sGatewayOrderID requested) of
               Inl e \<Rightarrow> raise e
             | Inr original \<Rightarrow> ret (sameSubmitOrderRequests original requested)))"

text \<open>The order that answers the request without a new command, or \<open>None\<close> when there is none.\<close>

definition preflightSubmitOrder :: "'s Service \<Rightarrow> SubmitOrderRequest \<Rightarrow> ('s, Order option) act" where
  "preflightSubmitOrder service req =
     attempt (lwGetOrder (svLedger service) (sAccountID req) (sGatewayOrderID req)) (\<lambda>r.
       case r of
         Inr existing \<Rightarrow>
           if oIdempotencyKey existing \<noteq> sIdempotencyKey req
           then raise (ErrDuplicateGatewayOrder (sGatewayOrderID req))
           else seq (sameOriginalSubmitOrder service existing req) (\<lambda>same.
                  if \<not> same then raise (ErrIdempotencyConflict (sIdempotencyKey req))
                  else ret (Some existing))
       | Inl e \<Rightarrow>
           if \<not> is_ErrOrderNotFound_err e then raise e
           else attempt (lwGetOrderByIdempotencyKey (svLedger service) (sAccountID req) (sIdempotencyKey req))
             (\<lambda>r. case r of
                Inr existing \<Rightarrow>
                  seq (sameOriginalSubmitOrder service existing req) (\<lambda>same.
                    if oGatewayOrderID existing \<noteq> sGatewayOrderID req \<or> \<not> same
                    then raise (ErrIdempotencyConflict (sIdempotencyKey req))
                    else ret (Some existing))
              | Inl e \<Rightarrow> if is_ErrOrderNotFound_err e then ret None else raise e))"

section \<open>Publishing\<close>

definition archiveCommand ::
    "'s Service \<Rightarrow> CommandPublishResult \<Rightarrow> CommandEnvelope \<Rightarrow> string \<Rightarrow> string \<Rightarrow> string \<Rightarrow> ('s, unit) act"
  where
  "archiveCommand service published envelope role accountID gatewayOrderID =
     (case encode_envelope envelope of
        None \<Rightarrow> raise (ErrJSON ''envelope'')
      | Some v \<Rightarrow>
          seq (svNow service) (\<lambda>now.
            lwArchiveRawStreamMessage (svLedger service)
              \<lparr>rmStreamKey = prStreamKey published, rmStreamID = prStreamID published,
               rmOriginMessageID = ceMessageID envelope, rmRequestID = ceRequestID envelope,
               rmCorrelationID = ceCorrelationID envelope, rmIdempotencyKey = ceIdempotencyKey envelope,
               rmDirection = ''in'', rmRole = role, rmMessageType = ceMessageType envelope,
               rmAction = ceAction envelope, rmEventType = [], rmStatus = [], rmCode = [],
               rmAccountID = accountID, rmGatewayOrderID = gatewayOrderID, rmBody = Some v,
               rmBodyText = js_print (svCodec service) v, rmParseError = [], rmReceivedAt = now\<rparr>))"

text \<open>The sequence the operations end with: find the stream, publish, archive.\<close>

definition publishAndArchive ::
    "'s Service \<Rightarrow> 's CommandPublisher \<Rightarrow> AccountRouteConfig \<Rightarrow> CommandEnvelope \<Rightarrow> string \<Rightarrow> string \<Rightarrow> string
     \<Rightarrow> ('s, CommandPublishResult) act" where
  "publishAndArchive service publish route envelope role accountID gatewayOrderID =
     (case CommandStreamForAction (NewStreams (rcStreamPrefix route)) (ceAction envelope) of
        Inl e \<Rightarrow> raise e
      | Inr streamKey \<Rightarrow>
          seq (publish streamKey envelope) (\<lambda>published.
          seq (archiveCommand service published envelope role accountID gatewayOrderID) (\<lambda>_.
            ret published)))"

section \<open>Submitting an order\<close>

definition orNewID :: "'s Service \<Rightarrow> string \<Rightarrow> string \<Rightarrow> ('s, string) act" where
  "orNewID service value kind = (if TrimSpace value = [] then svNewID service kind else ret value)"

definition completeSubmit :: "'s Service \<Rightarrow> SubmitOrderRequest \<Rightarrow> ('s, SubmitOrderRequest) act" where
  "completeSubmit service req =
     seq (orNewID service (sGatewayOrderID req) ''gw'') (\<lambda>gw.
       ret (req\<lparr>sGatewayOrderID := gw,
         sIdempotencyKey := (if TrimSpace (sIdempotencyKey req) = []
                             then ''order:'' @ sAccountID req @ '':'' @ gw else sIdempotencyKey req),
         sClientOrderID := (if TrimSpace (sClientOrderID req) = [] then gw else sClientOrderID req)\<rparr>))"

text \<open>From the reservation of the order in the ledger on.\<close>

definition reserveAndPublish ::
    "'s Service \<Rightarrow> 's CommandPublisher \<Rightarrow> AccountRouteConfig \<Rightarrow> SubmitOrderRequest \<Rightarrow> gotime
     \<Rightarrow> string \<Rightarrow> string \<Rightarrow> ('s, SubmitOrderResult) act" where
  "reserveAndPublish service publish route normalized now messageID requestID =
     (let ord = (draftOrderFromRequest normalized now)\<lparr>oOriginMessageID := messageID, oRequestID := requestID\<rparr>;
          envelope = NewCommandEnvelope now ActionOrderSubmit messageID requestID requestID
                       (sIdempotencyKey normalized) (SubmitPayload normalized) now
      in seq (lwUpsertAccount (svLedger service) (accountFromRoute route now)) (\<lambda>_.
         attempt (lwCreateOrder (svLedger service) ord) (\<lambda>r.
           case r of
             Inl e \<Rightarrow>
               if is_ErrOrderConflict_err e
               then seq (preflightSubmitOrder service normalized) (\<lambda>found.
                      case found of
                        Some existing \<Rightarrow>
                          replayedSubmitResult service existing (sIdempotencyKey normalized) requestID
                      | None \<Rightarrow> raise e)
               else raise e
           | Inr _ \<Rightarrow>
               seq (publishAndArchive service publish route envelope SuffixCmdTrade
                      (sAccountID normalized) (sGatewayOrderID normalized)) (\<lambda>published.
                 ret \<lparr>srAccountID = sAccountID normalized, srAction = ActionOrderSubmit, srOrder = ord,
                      srMessageID = messageID, srStreamKey = prStreamKey published,
                      srStreamID = prStreamID published, srIdempotencyKey = sIdempotencyKey normalized,
                      srRequestID = requestID, srPublished = published, srReplayed = False\<rparr>))))"

text \<open>The clock of the service never shows the zero time, so the envelope carries \<open>now\<close>.\<close>

definition SubmitOrder ::
    "'s Service \<Rightarrow> SubmitOrderRequest \<Rightarrow> string \<Rightarrow> ('s, SubmitOrderResult) act" where
  "SubmitOrder service req optsRequestID =
     (case SubmitOrderRequest_Validate req of
        Inl e \<Rightarrow> raise e
      | Inr _ \<Rightarrow>
     (case validateSupportedSubmitOrder req of
        Inl e \<Rightarrow> raise e
      | Inr _ \<Rightarrow>
     (case routeForAccount service (sAccountID req) of
        Inl e \<Rightarrow> raise e
      | Inr route \<Rightarrow>
     (case svPublisher service of
        None \<Rightarrow> raise ErrMissingPublisher
      | Some publish \<Rightarrow>
          seq (completeSubmit service req) (\<lambda>completed.
          seq (svNow service) (\<lambda>now.
            let normalized = completed\<lparr>sTradeDate := submitTradeDate (sTradeDate completed) now\<rparr>;
                requestID = TrimSpace optsRequestID
            in seq (preflightSubmitOrder service normalized) (\<lambda>found.
                 case found of
                   Some existing \<Rightarrow>
                     replayedSubmitResult service existing (sIdempotencyKey normalized) requestID
                 | None \<Rightarrow>
                     seq (svNewID service ''msg-order-submit'') (\<lambda>messageID.
                     seq (if requestID = [] then svNewID service ''req-order-submit'' else ret requestID)
                       (reserveAndPublish service publish route normalized now messageID)))))))))"

section \<open>Submitting a batch\<close>

text \<open>One child after the loop body has completed it.\<close>

definition completeChild ::
    "'s Service \<Rightarrow> string \<Rightarrow> string \<Rightarrow> gotime \<Rightarrow> SubmitOrderRequest \<Rightarrow> ('s, SubmitOrderRequest) act" where
  "completeChild service batchAccount batchKey now req0 =
     (let req = batch_child batchAccount req0
      in seq (orNewID service (sGatewayOrderID req) ''gw'') (\<lambda>gw.
           ret (req\<lparr>sGatewayOrderID := gw,
             sClientOrderID := (if TrimSpace (sClientOrderID req) = [] then gw else sClientOrderID req),
             sIdempotencyKey := (if TrimSpace (sIdempotencyKey req) = [] then batchKey @ '':'' @ gw
                                 else sIdempotencyKey req),
             sTradeDate := submitTradeDate (sTradeDate req) now\<rparr>)))"

definition batchDraft :: "SubmitOrderRequest \<Rightarrow> gotime \<Rightarrow> nat \<Rightarrow> Order" where
  "batchDraft req now i =
     (draftOrderFromRequest req now)\<lparr>oAdapterContext :=
        Some [''draft_source'' \<mapsto> AnyStr ''relay-api'', ''batch_source'' \<mapsto> AnyStr ''relay-api'',
              ''batch_index'' \<mapsto> AnyInt (int i)]\<rparr>"

text \<open>The loop of \<^verbatim>\<open>BatchSubmitOrders\<close>: the gateway order id each idempotency key was used with, the
  index, the children left. A child comes out with the stored order that answers it, if any.\<close>

fun prepareBatch ::
    "'s Service \<Rightarrow> string \<Rightarrow> string \<Rightarrow> gotime \<Rightarrow> (string \<times> string) list \<Rightarrow> nat \<Rightarrow> SubmitOrderRequest list
     \<Rightarrow> ('s, (SubmitOrderRequest \<times> Order option) list) act" where
  "prepareBatch service acct key now seen i [] = ret []"
| "prepareBatch service acct key now seen i (req # reqs) =
     (case validateSupportedSubmitOrder (batch_child acct req) of
        Inl e \<Rightarrow> raise (ErrOrderAt i e)
      | Inr _ \<Rightarrow>
          seq (completeChild service acct key now req) (\<lambda>child.
            if (case map_of seen (sIdempotencyKey child) of
                  Some previous \<Rightarrow> previous \<noteq> sGatewayOrderID child | None \<Rightarrow> False)
            then raise (ErrIdempotencyConflict (sIdempotencyKey child))
            else seq (preflightSubmitOrder service child) (\<lambda>found.
                 seq (prepareBatch service acct key now
                        ((sIdempotencyKey child, sGatewayOrderID child) # seen) (Suc i) reqs) (\<lambda>rest.
                   ret ((child, found) # rest)))))"

text \<open>Reserving the drafts one by one.\<close>

fun reserveBatch ::
    "'s Service \<Rightarrow> string \<Rightarrow> string \<Rightarrow> (SubmitOrderRequest \<times> Order) list \<Rightarrow> ('s, Order list) act" where
  "reserveBatch service messageID requestID [] = ret []"
| "reserveBatch service messageID requestID ((req, draft) # rest) =
     (let ord = draft\<lparr>oOriginMessageID := messageID, oRequestID := requestID\<rparr>
      in attempt (lwCreateOrder (svLedger service) ord) (\<lambda>r.
           case r of
             Inl e \<Rightarrow>
               if is_ErrOrderConflict_err e
               then seq (preflightSubmitOrder service req) (\<lambda>found.
                      case found of
                        Some existing \<Rightarrow> raise (ErrDuplicateGatewayOrder (oGatewayOrderID existing))
                      | None \<Rightarrow> raise e)
               else raise e
           | Inr _ \<Rightarrow>
               seq (reserveBatch service messageID requestID rest) (\<lambda>ords. ret (ord # ords))))"

definition batchDrafts ::
    "gotime \<Rightarrow> (SubmitOrderRequest \<times> Order option) list \<Rightarrow> (SubmitOrderRequest \<times> Order) list" where
  "batchDrafts now children =
     map (\<lambda>(i, (req, _)). (req, batchDraft req now i))
       (filter (\<lambda>(i, (req, found)). found = None) (enumerate 0 children))"

definition replayedChildren :: "(SubmitOrderRequest \<times> Order option) list \<Rightarrow> Order list" where
  "replayedChildren children = List.map_filter snd children"

definition BatchSubmitOrders ::
    "'s Service \<Rightarrow> BatchSubmitOrderRequest \<Rightarrow> string \<Rightarrow> ('s, BatchSubmitOrderResult) act" where
  "BatchSubmitOrders service req optsRequestID =
     (case BatchSubmitOrderRequest_Validate req of
        Inl e \<Rightarrow> raise e
      | Inr _ \<Rightarrow>
     (case routeForAccount service (bAccountID req) of
        Inl e \<Rightarrow> raise e
      | Inr route \<Rightarrow>
     (case svPublisher service of
        None \<Rightarrow> raise ErrMissingPublisher
      | Some publish \<Rightarrow>
          seq (svNow service) (\<lambda>now.
          seq (if TrimSpace (bIdempotencyKey req) = []
               then seq (svNewID service ''batch'') (\<lambda>i. ret (''batch:'' @ bAccountID req @ '':'' @ i))
               else ret (bIdempotencyKey req)) (\<lambda>key.
          seq (lwUpsertAccount (svLedger service) (accountFromRoute route now)) (\<lambda>_.
          seq (prepareBatch service (bAccountID req) key now [] 0 (bOrders req)) (\<lambda>children.
            let requestID = TrimSpace optsRequestID; replayed = replayedChildren children;
                drafts = batchDrafts now children;
                normalized = req\<lparr>bIdempotencyKey := key, bOrders := map fst children\<rparr>
            in if replayed \<noteq> []
               then (if drafts = []
                     then replayedBatchSubmitResult service (bAccountID req) replayed key requestID
                     else raise (ErrDuplicateGatewayOrder ''batch contains both replayed and new''))
               else
                 seq (svNewID service ''msg-order-batch-submit'') (\<lambda>messageID.
                 seq (if requestID = [] then svNewID service ''req-order-batch-submit'' else ret requestID)
                   (\<lambda>requestID.
                 seq (reserveBatch service messageID requestID drafts) (\<lambda>ords.
                 seq (publishAndArchive service publish route
                        (NewCommandEnvelope now ActionOrderBatchSubmit messageID requestID requestID key
                           (BatchPayload normalized) now) SuffixCmdTrade (bAccountID req) []) (\<lambda>published.
                   ret \<lparr>brAccountID = bAccountID req, brAction = ActionOrderBatchSubmit, brOrders = ords,
                        brMessageID = messageID, brStreamKey = prStreamKey published,
                        brStreamID = prStreamID published, brIdempotencyKey = key,
                        brRequestID = requestID, brPublished = published, brReplayed = False\<rparr>)))))))))))"

section \<open>Cancelling an order\<close>

definition replayedCancel ::
    "'s Service \<Rightarrow> CancelOrderRequest \<Rightarrow> json RawStreamMessage \<Rightarrow> string \<Rightarrow> ('s, CancelOrderResult) act" where
  "replayedCancel service normalized archived optsRequestID =
     (case archivedCancelRequest (svCodec service) archived of
        Inl e \<Rightarrow> raise e
      | Inr previous \<Rightarrow>
          if \<not> sameCancelOrder previous normalized
          then raise (ErrIdempotencyConflict (cIdempotencyKey normalized))
          else seq (lwGetOrder (svLedger service) (cAccountID normalized) (cGatewayOrderID normalized)) (\<lambda>ord.
            let m = metadataFromArchivedCommand (svCodec service) archived (cIdempotencyKey normalized)
                      (TrimSpace optsRequestID)
            in ret \<lparr>crAccountID = cAccountID normalized, crAction = ActionOrderCancel, crOrder = ord,
                    crCancelID = cCancelID previous, crMessageID = cmMessageID m,
                    crStreamKey = cmStreamKey m, crStreamID = cmStreamID m,
                    crIdempotencyKey = cmIdempotencyKey m, crRequestID = cmRequestID m,
                    crPublished = cmPublished m, crReplayed = True\<rparr>))"

definition cancelRefusal :: "CancelOrderRequest \<Rightarrow> Order \<Rightarrow> error option" where
  "cancelRefusal req ord =
     (if oIsTerminal ord \<or> OrderStatus_Terminal (oStatus ord)
      then Some (ErrOrderTerminalNotCancelable (cAccountID req) (cGatewayOrderID req) (oStatus ord))
      else if oOrderQty ord > 0 \<and> oLeavesQty ord \<le> 0
      then Some (ErrOrderWithoutLeavesNotCancelable (cAccountID req) (cGatewayOrderID req))
      else None)"

definition publishCancel ::
    "'s Service \<Rightarrow> 's CommandPublisher \<Rightarrow> AccountRouteConfig \<Rightarrow> CancelOrderRequest \<Rightarrow> string
     \<Rightarrow> ('s, CancelOrderResult) act" where
  "publishCancel service publish route normalized optsRequestID =
     seq (lwGetOrder (svLedger service) (cAccountID normalized) (cGatewayOrderID normalized)) (\<lambda>ord.
       case cancelRefusal normalized ord of
         Some e \<Rightarrow> raise e
       | None \<Rightarrow>
           seq (svNow service) (\<lambda>now.
           seq (svNewID service ''msg-order-cancel'') (\<lambda>messageID.
           seq (if TrimSpace optsRequestID = [] then svNewID service ''req-order-cancel''
                else ret (TrimSpace optsRequestID)) (\<lambda>requestID.
           seq (publishAndArchive service publish route
                  (NewCommandEnvelope now ActionOrderCancel messageID requestID requestID
                     (cIdempotencyKey normalized) (CancelPayload normalized) now) SuffixCmdTrade
                  (cAccountID normalized) (cGatewayOrderID normalized)) (\<lambda>published.
             ret \<lparr>crAccountID = cAccountID normalized, crAction = ActionOrderCancel, crOrder = ord,
                  crCancelID = cCancelID normalized, crMessageID = messageID,
                  crStreamKey = prStreamKey published, crStreamID = prStreamID published,
                  crIdempotencyKey = cIdempotencyKey normalized, crRequestID = requestID,
                  crPublished = published, crReplayed = False\<rparr>)))))"

definition CancelOrder ::
    "'s Service \<Rightarrow> CancelOrderRequest \<Rightarrow> string \<Rightarrow> ('s, CancelOrderResult) act" where
  "CancelOrder service req optsRequestID =
     (case CancelOrderRequest_Validate req of
        Inl e \<Rightarrow> raise e
      | Inr _ \<Rightarrow>
     (case routeForAccount service (cAccountID req) of
        Inl e \<Rightarrow> raise e
      | Inr route \<Rightarrow>
     (case svPublisher service of
        None \<Rightarrow> raise ErrMissingPublisher
      | Some publish \<Rightarrow>
          seq (orNewID service (cCancelID req) ''cancel'') (\<lambda>cancelID.
            let normalized = req\<lparr>cCancelID := cancelID,
                  cIdempotencyKey := (if TrimSpace (cIdempotencyKey req) = []
                    then ''cancel:'' @ cAccountID req @ '':'' @ cGatewayOrderID req @ '':'' @ cancelID
                    else cIdempotencyKey req)\<rparr>
            in attempt (lwGetArchivedCommand (svLedger service) (cAccountID normalized) ActionOrderCancel
                          (cIdempotencyKey normalized)) (\<lambda>r.
                 case r of
                   Inr archived \<Rightarrow> replayedCancel service normalized archived optsRequestID
                 | Inl e \<Rightarrow>
                     if is_ErrArchivedCommandNotFound_err e
                     then publishCancel service publish route normalized optsRequestID
                     else raise e)))))"

section \<open>Refresh queries\<close>

definition publishAccountQuery ::
    "'s Service \<Rightarrow> string \<Rightarrow> string \<Rightarrow> string \<Rightarrow> string \<Rightarrow> string \<Rightarrow> ('s, RefreshQueryResult) act" where
  "publishAccountQuery service accountID0 action kind optsRequestID optsTradeDate =
     (let accountID = TrimSpace accountID0
      in case routeForEnabledAccount service accountID of
           Inl e \<Rightarrow> raise e
         | Inr route \<Rightarrow>
        (case svPublisher service of
           None \<Rightarrow> raise ErrMissingPublisher
         | Some publish \<Rightarrow>
             seq (svNow service) (\<lambda>now.
             seq (svNewID service (''msg-'' @ kind @ ''-query'')) (\<lambda>messageID.
             seq (if TrimSpace optsRequestID = [] then svNewID service (''req-'' @ kind @ ''-query'')
                  else ret (TrimSpace optsRequestID)) (\<lambda>requestID.
               let idempotencyKey = kind @ '':query:'' @ accountID @ '':'' @ requestID;
                   payload = QueryPayload accountID (if TrimSpace optsTradeDate = [] then None
                                                     else Some (TrimSpace optsTradeDate))
               in seq (lwUpsertAccount (svLedger service) (accountFromRoute route now)) (\<lambda>_.
                  seq (publishAndArchive service publish route
                         (NewCommandEnvelope now action messageID requestID requestID idempotencyKey payload now)
                         SuffixCmdQuery accountID []) (\<lambda>published.
                    ret \<lparr>rrAccountID = accountID, rrAction = action, rrMessageID = messageID,
                         rrStreamKey = prStreamKey published, rrStreamID = prStreamID published,
                         rrIdempotencyKey = idempotencyKey, rrRequestID = requestID,
                         rrPublished = published\<rparr>)))))))"

definition RefreshAsset :: "'s Service \<Rightarrow> string \<Rightarrow> string \<Rightarrow> string \<Rightarrow> ('s, RefreshQueryResult) act" where
  "RefreshAsset service acct = publishAccountQuery service acct ActionAccountAsset ''asset''"

definition RefreshPositions :: "'s Service \<Rightarrow> string \<Rightarrow> string \<Rightarrow> string \<Rightarrow> ('s, RefreshQueryResult) act" where
  "RefreshPositions service acct = publishAccountQuery service acct ActionAccountPositions ''positions''"

definition RefreshOrders :: "'s Service \<Rightarrow> string \<Rightarrow> string \<Rightarrow> string \<Rightarrow> ('s, RefreshQueryResult) act" where
  "RefreshOrders service acct = publishAccountQuery service acct ActionOrderList ''orders''"

definition RefreshFills :: "'s Service \<Rightarrow> string \<Rightarrow> string \<Rightarrow> string \<Rightarrow> ('s, RefreshQueryResult) act" where
  "RefreshFills service acct = publishAccountQuery service acct ActionFillList ''fills''"

definition RefreshFees :: "'s Service \<Rightarrow> string \<Rightarrow> string \<Rightarrow> string \<Rightarrow> ('s, RefreshQueryResult) act" where
  "RefreshFees service acct = publishAccountQuery service acct ActionFeeList ''fees''"

end
