(* ===== verification/Order_Safety.thy ===== *)
theory Order_Safety
  imports Order_Flow
begin

text \<open>
  At most one publication. The service relies on its ledger for one thing: a created order
  reserves its account and idempotency key for ever, and creating succeeds only while they are
  free. The contract below states that law over any world, and the invariant proved from it says
  that no idempotency key is ever published twice, whatever fails in between.
\<close>

section \<open>What is published\<close>

text \<open>The account and idempotency key an order is identified by, as the ledger stores them.\<close>

definition request_key :: "SubmitOrderRequest \<Rightarrow> string \<times> string" where
  "request_key r = (TrimSpace (sAccountID r), TrimSpace (sIdempotencyKey r))"

definition order_identity :: "Order \<Rightarrow> string \<times> string" where
  "order_identity ord = (TrimSpace (oAccountID ord), TrimSpace (oIdempotencyKey ord))"

definition submit_keys :: "CommandEnvelope \<Rightarrow> (string \<times> string) list" where
  "submit_keys e =
     (case cePayload e of
        SubmitPayload r \<Rightarrow> [request_key r]
      | BatchPayload b \<Rightarrow> map request_key (bOrders b)
      | _ \<Rightarrow> [])"

definition published_keys :: "CommandEnvelope list \<Rightarrow> (string \<times> string) list" where
  "published_keys es = concat (map submit_keys es)"

definition at_most_once :: "(string \<times> string) set \<Rightarrow> CommandEnvelope list \<Rightarrow> bool" where
  "at_most_once reserved es \<longleftrightarrow> distinct (published_keys es) \<and> set (published_keys es) \<subseteq> reserved"

lemma at_most_once_grow: "at_most_once R es \<Longrightarrow> R \<subseteq> R' \<Longrightarrow> at_most_once R' es"
  by (auto simp: at_most_once_def)

lemma at_most_once_publish:
  assumes "at_most_once R es" and "distinct (submit_keys e)" and "set (submit_keys e) \<inter> R = {}"
    and "R \<subseteq> R'" and "set (submit_keys e) \<subseteq> R'"
  shows "at_most_once R' (es @ [e])"
  using assms by (auto simp: at_most_once_def published_keys_def)

lemma order_identity_draft [simp]:
  "order_identity ((draftOrderFromRequest r now)\<lparr>oOriginMessageID := m, oRequestID := q\<rparr>) = request_key r"
  "order_identity ((batchDraft r now i)\<lparr>oOriginMessageID := m, oRequestID := q\<rparr>) = request_key r"
  by (simp_all add: order_identity_def request_key_def draftOrderFromRequest_def batchDraft_def)

section \<open>The contract\<close>

definition quiet :: "('s \<Rightarrow> (string \<times> string) set) \<Rightarrow> ('s \<Rightarrow> CommandEnvelope list) \<Rightarrow> 's \<Rightarrow> 's \<Rightarrow> bool" where
  "quiet reserved sent s t \<longleftrightarrow> reserved s \<subseteq> reserved t \<and> sent t = sent s"

locale order_service =
  fixes service :: "'s Service"
    and reserved :: "'s \<Rightarrow> (string \<times> string) set"
    and sent :: "'s \<Rightarrow> CommandEnvelope list"
  assumes create_quiet: "stays (quiet reserved sent) (lwCreateOrder (svLedger service) ord)"
    and create_reserves: "lwCreateOrder (svLedger service) ord s = (Inr (), t) \<Longrightarrow>
      snd (order_identity ord) \<noteq> [] \<Longrightarrow>
      order_identity ord \<notin> reserved s \<and> order_identity ord \<in> reserved t"
    and account_quiet: "stays (quiet reserved sent) (lwUpsertAccount (svLedger service) acc)"
    and get_quiet: "stays (quiet reserved sent) (lwGetOrder (svLedger service) a g)"
    and get_key_quiet: "stays (quiet reserved sent) (lwGetOrderByIdempotencyKey (svLedger service) a k)"
    and archived_quiet: "stays (quiet reserved sent) (lwGetArchivedCommand (svLedger service) a c k)"
    and archived_id_quiet: "stays (quiet reserved sent) (lwGetArchivedCommandByMessageID (svLedger service) m)"
    and archive_quiet: "stays (quiet reserved sent) (lwArchiveRawStreamMessage (svLedger service) raw)"
    and new_id_quiet: "stays (quiet reserved sent) (svNewID service p)"
    and now_quiet: "stays (quiet reserved sent) (svNow service)"
    and publish_once: "svPublisher service = Some publish \<Longrightarrow> publish key e s = (r, t) \<Longrightarrow>
      reserved t = reserved s \<and> (sent t = sent s \<or> sent t = sent s @ [e])"
begin

sublocale q: world_preorder "quiet reserved sent"
  by unfold_locales (auto simp: quiet_def)

lemmas ops_quiet = create_quiet account_quiet get_quiet get_key_quiet archived_quiet
  archived_id_quiet archive_quiet new_id_quiet now_quiet

lemma sameOriginal_quiet: "stays (quiet reserved sent) (sameOriginalSubmitOrder service ord req)"
  unfolding sameOriginalSubmitOrder_def by (intro q.rules ops_quiet)

lemma preflight_quiet: "stays (quiet reserved sent) (preflightSubmitOrder service req)"
  unfolding preflightSubmitOrder_def by (intro q.rules ops_quiet sameOriginal_quiet)

lemma metadata_quiet: "stays (quiet reserved sent) (replayedCommandMetadata service a c k r)"
  unfolding replayedCommandMetadata_def by (intro q.rules ops_quiet)

lemma replayed_quiet:
  "stays (quiet reserved sent) (replayedSubmitResult service ord k r)"
  "stays (quiet reserved sent) (replayedBatchSubmitResult service a ords k r)"
  unfolding replayedSubmitResult_def replayedBatchSubmitResult_def
  by (intro q.rules metadata_quiet)+

lemma complete_quiet:
  "stays (quiet reserved sent) (orNewID service v k)"
  "stays (quiet reserved sent) (completeSubmit service req)"
  "stays (quiet reserved sent) (completeChild service a b now req)"
  unfolding completeSubmit_def completeChild_def orNewID_def by (intro q.rules ops_quiet)+

lemma archiveCommand_quiet: "stays (quiet reserved sent) (archiveCommand service p e role a g)"
  unfolding archiveCommand_def by (intro q.rules ops_quiet)

lemma prepareBatch_quiet: "stays (quiet reserved sent) (prepareBatch service a k now seen i reqs)"
  by (induction reqs arbitrary: seen i)
     (simp_all only: prepareBatch.simps, (intro q.rules complete_quiet preflight_quiet | assumption)+)

lemmas quiets = ops_quiet sameOriginal_quiet preflight_quiet metadata_quiet replayed_quiet
  complete_quiet archiveCommand_quiet prepareBatch_quiet

text \<open>Publishing adds at most the given command.\<close>

lemma publishAndArchive_once:
  assumes "svPublisher service = Some publish"
    and "publishAndArchive service publish route e role a g s = (r, t)"
  shows "reserved s \<subseteq> reserved t \<and> (sent t = sent s \<or> sent t = sent s @ [e])"
  using assms(2) publish_once [OF assms(1)] staysD [OF archiveCommand_quiet]
  by (auto simp: publishAndArchive_def seq_def quiet_def split: sum.splits prod.splits) blast+

abbreviation safe :: "'s \<Rightarrow> bool" where
  "safe s \<equiv> at_most_once (reserved s) (sent s)"

lemma safe_quiet: "stays (quiet reserved sent) m \<Longrightarrow> keeps safe m"
  by (auto simp: keeps_def stays_def quiet_def intro: at_most_once_grow)

lemma safe_publish:
  assumes "safe s" and "svPublisher service = Some publish"
    and "quiet reserved sent s u"
    and "distinct (submit_keys e)" and "set (submit_keys e) \<inter> reserved s = {}"
    and "set (submit_keys e) \<subseteq> reserved u"
    and "publishAndArchive service publish route e role a g u = (r, t)"
  shows "safe t"
proof -
  have t: "reserved u \<subseteq> reserved t" "sent t = sent u \<or> sent t = sent u @ [e]"
    using publishAndArchive_once [OF assms(2,7)] by auto
  from assms(3) have u: "reserved s \<subseteq> reserved u" "sent u = sent s" by (simp_all add: quiet_def)
  from t(2) show ?thesis
  proof
    assume "sent t = sent u"
    then show ?thesis using assms(1) u t(1) by (auto intro: at_most_once_grow)
  next
    assume s: "sent t = sent u @ [e]"
    have "reserved s \<subseteq> reserved t" "set (submit_keys e) \<subseteq> reserved t" using assms(6) u t(1) by auto
    then show ?thesis
      unfolding s u(2) by (rule at_most_once_publish [OF assms(1,4,5)])
  qed
qed

text \<open>Creating a draft and then publishing the command it belongs to.\<close>

lemma safe_reserve_one:
  assumes pub: "svPublisher service = Some publish"
    and key: "submit_keys e = [order_identity ord]" "snd (order_identity ord) \<noteq> []"
    and rest: "\<And>err. stays (quiet reserved sent) (f err)"
  shows "keeps safe (attempt (lwCreateOrder (svLedger service) ord) (\<lambda>r.
    case r of Inl err \<Rightarrow> f err
    | Inr _ \<Rightarrow> seq (publishAndArchive service publish route e role a g) (\<lambda>p. ret (h p))))"
proof (rule keepsI)
  fix s assume s: "safe s"
  obtain r u where c: "lwCreateOrder (svLedger service) ord s = (r, u)" by fastforce
  then have q: "quiet reserved sent s u" by (rule staysD [OF create_quiet])
  show "safe (snd (attempt (lwCreateOrder (svLedger service) ord) (\<lambda>r.
    case r of Inl err \<Rightarrow> f err
    | Inr _ \<Rightarrow> seq (publishAndArchive service publish route e role a g) (\<lambda>p. ret (h p))) s))"
  proof (cases r)
    case (Inl err)
    from s q have "safe u" by (auto simp: quiet_def intro: at_most_once_grow)
    with safe_quiet [OF rest [of err]] show ?thesis by (simp add: c Inl keeps_def)
  next
    case (Inr x)
    then have "order_identity ord \<notin> reserved s \<and> order_identity ord \<in> reserved u"
      using create_reserves [of ord s u] c key(2) by simp
    then have "safe t" if "publishAndArchive service publish route e role a g u = (r', t)" for r' t
      using safe_publish [OF s pub q _ _ _ that] by (simp add: key(1))
    then show ?thesis by (auto simp: c Inr seq_def split: prod.splits sum.splits)
  qed
qed

lemma safe_reserveAndPublish:
  assumes "svPublisher service = Some publish" and "TrimSpace (sIdempotencyKey req) \<noteq> []"
  shows "keeps safe (reserveAndPublish service publish route req now m q)"
  unfolding reserveAndPublish_def Let_def
  by (rule keeps_seq [OF safe_quiet [OF account_quiet]], rule safe_reserve_one [OF assms(1)])
     (auto simp: submit_keys_def NewCommandEnvelope_def request_key_def assms(2)
       intro!: q.rules preflight_quiet replayed_quiet)

text \<open>A completed request always has a key.\<close>

lemma completeSubmit_key:
  "completeSubmit service req s = (Inr r, t) \<Longrightarrow> TrimSpace (sIdempotencyKey r) \<noteq> []"
  by (auto simp: completeSubmit_def orNewID_def TrimSpace_Cons ascii_edge_def elim!: seq_InrE
      split: if_splits)

lemma completeChild_key:
  "completeChild service a b now req s = (Inr r, t) \<Longrightarrow> TrimSpace (sIdempotencyKey r) \<noteq> []"
  by (auto simp: completeChild_def orNewID_def Let_def elim!: seq_InrE split: if_splits)

lemma safe_if_newID: "keeps safe (if b then svNewID service k else ret x)"
  by (intro safe_quiet q.rules new_id_quiet)

lemmas safe_first = keeps_seq [OF safe_quiet [OF now_quiet]] keeps_seq [OF safe_quiet [OF new_id_quiet]]
  keeps_seq [OF safe_quiet [OF preflight_quiet]] keeps_seq [OF safe_if_newID]
  keeps_seq [OF safe_quiet [OF account_quiet]]

lemma SubmitOrder_safe: "keeps safe (SubmitOrder service req opts)"
proof (cases "svPublisher service")
  case None
  then show ?thesis unfolding SubmitOrder_def by (intro keeps_sum_case keeps_raise) simp
next
  case (Some publish)
  have "keeps safe (seq (completeSubmit service req) (\<lambda>completed.
          seq (svNow service) (\<lambda>now.
            let normalized = completed\<lparr>sTradeDate := submitTradeDate (sTradeDate completed) now\<rparr>;
                requestID = TrimSpace opts
            in seq (preflightSubmitOrder service normalized) (\<lambda>found.
                 case found of
                   Some existing \<Rightarrow>
                     replayedSubmitResult service existing (sIdempotencyKey normalized) requestID
                 | None \<Rightarrow>
                     seq (svNewID service ''msg-order-submit'') (\<lambda>messageID.
                     seq (if requestID = [] then svNewID service ''req-order-submit'' else ret requestID)
                       (reserveAndPublish service publish route normalized now messageID))))))" for route
    unfolding Let_def
    by (intro keeps_seq_res [OF safe_quiet [OF complete_quiet(2)]] safe_first keeps_option_case
          safe_quiet [OF replayed_quiet(1)] safe_reserveAndPublish [OF Some])
       (simp add: completeSubmit_key)
  with Some show ?thesis unfolding SubmitOrder_def by (intro keeps_sum_case keeps_raise) simp
qed

text \<open>Reserving a batch.\<close>

lemma reserveBatch_quiet: "stays (quiet reserved sent) (reserveBatch service m q drafts)"
proof (induction drafts)
  case (Cons d rest)
  then show ?case
    by (cases d) (simp only: reserveBatch.simps, intro q.rules ops_quiet preflight_quiet)
qed (simp only: reserveBatch.simps q.ret)

lemma reserveBatch_reserves:
  assumes "reserveBatch service m q drafts s = (Inr ords, t)"
    and "\<forall>(req, ord) \<in> set drafts. order_identity (ord\<lparr>oOriginMessageID := m, oRequestID := q\<rparr>) = request_key req
      \<and> snd (request_key req) \<noteq> []"
  shows "distinct (map (\<lambda>d. request_key (fst d)) drafts)
    \<and> set (map (\<lambda>d. request_key (fst d)) drafts) \<inter> reserved s = {}
    \<and> set (map (\<lambda>d. request_key (fst d)) drafts) \<subseteq> reserved t"
  using assms
proof (induction drafts arbitrary: s ords)
  case (Cons d rest)
  obtain req draft where d: "d = (req, draft)" by (cases d)
  let ?ord = "draft\<lparr>oOriginMessageID := m, oRequestID := q\<rparr>"
  from Cons.prems(2) have k: "order_identity ?ord = request_key req" "snd (request_key req) \<noteq> []"
    by (auto simp: d)
  obtain r u where c: "lwCreateOrder (svLedger service) ?ord s = (r, u)" by fastforce
  with Cons.prems(1) obtain ords' where r: "r = Inr ()"
    and rest: "reserveBatch service m q rest u = (Inr ords', t)"
    by (auto simp: d Let_def elim!: seq_InrE split: sum.splits if_splits option.splits)
  have u: "quiet reserved sent s u" using c by (rule staysD [OF create_quiet])
  have t: "quiet reserved sent u t" using rest by (rule staysD [OF reserveBatch_quiet])
  have ih: "distinct (map (\<lambda>d. request_key (fst d)) rest)
    \<and> set (map (\<lambda>d. request_key (fst d)) rest) \<inter> reserved u = {}
    \<and> set (map (\<lambda>d. request_key (fst d)) rest) \<subseteq> reserved t"
    using Cons.prems(2) by (intro Cons.IH [OF rest]) simp
  have "request_key req \<notin> reserved s \<and> request_key req \<in> reserved u"
    using create_reserves [of ?ord s u] c k by (simp add: r)
  with ih u t show ?case by (auto simp: d quiet_def)
qed simp

lemma prepareBatch_keys:
  "prepareBatch service a k now seen i reqs s = (Inr children, t) \<Longrightarrow>
    \<forall>c \<in> set children. snd (request_key (fst c)) \<noteq> []"
proof (induction reqs arbitrary: seen i s children)
  case (Cons req reqs)
  from Cons.prems obtain child u found v rest seen'
    where "completeChild service a k now req s = (Inr child, u)" and c: "children = (child, found) # rest"
      and r: "prepareBatch service a k now seen' (Suc i) reqs v = (Inr rest, t)"
    by (auto elim!: seq_InrE split: sum.splits if_splits)
  then show ?case using completeChild_key Cons.IH [OF r] by (auto simp: request_key_def)
qed simp

lemma batchDrafts_all: "replayedChildren children = [] \<Longrightarrow> map fst (batchDrafts now children) = map fst children"
proof -
  assume "replayedChildren children = []"
  then have "\<forall>c \<in> set children. snd c = None"
    by (induction children) (auto simp: replayedChildren_def map_filter_simps split: option.splits)
  then have "filter (\<lambda>(i, (req, found)). found = None) (enumerate n children) = enumerate n children" for n
    by (induction children arbitrary: n) auto
  then show ?thesis
    by (simp add: batchDrafts_def split_beta comp_def) (metis map_map [unfolded comp_def] map_snd_enumerate)
qed

lemma batchDrafts_identity:
  "(req, ord) \<in> set (batchDrafts now children) \<Longrightarrow>
    order_identity (ord\<lparr>oOriginMessageID := m, oRequestID := q\<rparr>) = request_key req
    \<and> (\<exists>c \<in> set children. req = fst c)"
  by (auto simp: batchDrafts_def in_set_enumerate_eq) (metis fst_conv nth_mem)

lemma safe_reserveBatch:
  assumes pub: "svPublisher service = Some publish"
    and new: "replayedChildren children = []"
    and keys: "\<forall>c \<in> set children. snd (request_key (fst c)) \<noteq> []"
    and e: "submit_keys e = map (\<lambda>c. request_key (fst c)) children"
  shows "keeps safe (seq (reserveBatch service m q (batchDrafts now children)) (\<lambda>ords.
    seq (publishAndArchive service publish route e role a g) (\<lambda>p. ret (h ords p))))"
proof (rule keepsI)
  fix s assume s: "safe s"
  let ?drafts = "batchDrafts now children"
  have same: "map (\<lambda>d. request_key (fst d)) ?drafts = submit_keys e"
    using arg_cong [OF batchDrafts_all [OF new, of now], of "map request_key"] by (simp add: e comp_def)
  obtain r u where c: "reserveBatch service m q ?drafts s = (r, u)" by fastforce
  then have q: "quiet reserved sent s u" by (rule staysD [OF reserveBatch_quiet])
  show "safe (snd (seq (reserveBatch service m q ?drafts) (\<lambda>ords.
    seq (publishAndArchive service publish route e role a g) (\<lambda>p. ret (h ords p))) s))"
  proof (cases r)
    case (Inl err)
    with s q c show ?thesis by (auto simp: quiet_def intro: at_most_once_grow)
  next
    case (Inr ords)
    have "distinct (submit_keys e) \<and> set (submit_keys e) \<inter> reserved s = {}
        \<and> set (submit_keys e) \<subseteq> reserved u"
      unfolding same [symmetric] using keys batchDrafts_identity
      by (intro reserveBatch_reserves [OF c [unfolded Inr]]) fastforce
    then have "safe t" if "publishAndArchive service publish route e role a g u = (r', t)" for r' t
      using safe_publish [OF s pub q _ _ _ that] by simp
    then show ?thesis by (auto simp: c Inr seq_def split: prod.splits sum.splits)
  qed
qed

lemma BatchSubmitOrders_safe: "keeps safe (BatchSubmitOrders service req opts)"
proof (cases "svPublisher service")
  case None
  then show ?thesis unfolding BatchSubmitOrders_def by (intro keeps_sum_case keeps_raise) simp
next
  case (Some publish)
  have key: "keeps safe (if b then seq (svNewID service k) (\<lambda>i. ret (f i)) else ret x)" for b k x and f :: "string \<Rightarrow> string"
    by (intro safe_quiet q.rules new_id_quiet)
  show ?thesis
    unfolding BatchSubmitOrders_def Let_def Some option.case
    by (intro keeps_sum_case keeps_raise safe_first keeps_seq [OF key]
          keeps_seq_res [OF safe_quiet [OF prepareBatch_quiet]] keeps_cases
          safe_quiet [OF replayed_quiet(2)] safe_reserveBatch [OF Some])
       (auto simp: submit_keys_def NewCommandEnvelope_def comp_def dest: prepareBatch_keys)
qed

lemma safe_publish_quiet:
  assumes "svPublisher service = Some publish" and "submit_keys e = []"
  shows "keeps safe (publishAndArchive service publish route e role a g)"
  using safe_publish [OF _ assms(1), of s s e for s] assms(2)
  by (intro keepsI) (metis q.R_refl distinct.simps(1) empty_subsetI inf_bot_left list.set(1) prod.collapse)

lemma CancelOrder_safe: "keeps safe (CancelOrder service req opts)"
proof (cases "svPublisher service")
  case None
  then show ?thesis unfolding CancelOrder_def by (intro keeps_sum_case keeps_raise) simp
next
  case (Some publish)
  have "keeps safe (publishCancel service publish route r opts)" for route r
    unfolding publishCancel_def
    by (intro keeps_seq [OF safe_quiet [OF get_quiet]] keeps_option_case keeps_raise safe_first
          keeps_seq [OF safe_publish_quiet [OF Some]] keeps_ret)
       (simp add: submit_keys_def NewCommandEnvelope_def)
  moreover have "keeps safe (replayedCancel service r raw opts)" for r raw
    unfolding replayedCancel_def by (intro safe_quiet q.rules get_quiet)
  ultimately show ?thesis
    unfolding CancelOrder_def Some option.case
    by (intro keeps_intro safe_quiet [OF complete_quiet(1)] safe_quiet [OF archived_quiet])
qed

lemma publishAccountQuery_safe: "keeps safe (publishAccountQuery service a act k opts d)"
proof (cases "svPublisher service")
  case None
  then show ?thesis unfolding publishAccountQuery_def Let_def by (intro keeps_sum_case keeps_raise) simp
next
  case (Some publish)
  then show ?thesis
    unfolding publishAccountQuery_def Let_def Some option.case
    by (intro keeps_sum_case keeps_raise safe_first keeps_seq [OF safe_publish_quiet [OF Some]] keeps_ret)
       (simp add: submit_keys_def NewCommandEnvelope_def)
qed

end

end
