(* ===== verification/Ledger_Laws.thy ===== *)
theory Ledger_Laws
  imports Ledger_Repo
begin

text \<open>
  What the order tables guarantee. A row, once stored, keeps its account, trade date and gateway
  order id, and its origin message, request and idempotency key once they are set; no row is ever
  removed; the unique keys stay unique; the terminal flag agrees with the status. These hold for
  every repository operation, whatever the database fails on.
\<close>

section \<open>Rows that evolve\<close>

definition set_once :: "'a option \<Rightarrow> 'a option \<Rightarrow> bool" where
  "set_once old new \<longleftrightarrow> old = None \<or> new = old"

definition row_evolves :: "order_row \<Rightarrow> order_row \<Rightarrow> bool" where
  "row_evolves old new \<longleftrightarrow>
     wAccountID new = wAccountID old \<and> wTradeDate new = wTradeDate old
     \<and> wGatewayOrderID new = wGatewayOrderID old
     \<and> set_once (wOriginMessageID old) (wOriginMessageID new)
     \<and> set_once (wRequestID old) (wRequestID new) \<and> set_once (wIdempotencyKey old) (wIdempotencyKey new)"

text \<open>The rows at the front evolve in place, new rows are appended.\<close>

definition rows_evolve :: "('r \<Rightarrow> 'r \<Rightarrow> bool) \<Rightarrow> 'r list \<Rightarrow> 'r list \<Rightarrow> bool" where
  "rows_evolve R xs ys \<longleftrightarrow> length xs \<le> length ys \<and> list_all2 R xs (take (length xs) ys)"

definition db_rel ::
    "(order_row \<Rightarrow> order_row \<Rightarrow> bool) \<Rightarrow> ('b, 'z) ledger_db_scheme \<Rightarrow> ('b, 'z) ledger_db_scheme \<Rightarrow> bool" where
  "db_rel R s t \<longleftrightarrow> rows_evolve R (dbOrders s) (dbOrders t)"

lemma set_once_coalesce [simp]: "set_once a (coalesce a b)"
  by (simp add: set_once_def coalesce_def split: option.splits)

lemma set_once_refl [simp]: "set_once a a"
  by (simp add: set_once_def)

lemma row_evolves_refl [simp]: "row_evolves r r"
  by (simp add: row_evolves_def)

lemma row_evolves_trans: "row_evolves a b \<Longrightarrow> row_evolves b c \<Longrightarrow> row_evolves a c"
  by (auto simp: row_evolves_def set_once_def)

lemma rows_evolve_refl: "(\<And>x. R x x) \<Longrightarrow> rows_evolve R xs xs"
  by (simp add: rows_evolve_def list_all2_conv_all_nth)

lemma rows_evolve_trans:
  assumes "\<And>a b c. R a b \<Longrightarrow> R b c \<Longrightarrow> R a c" and "rows_evolve R xs ys" and "rows_evolve R ys zs"
  shows "rows_evolve R xs zs"
  unfolding rows_evolve_def list_all2_conv_all_nth
proof (intro conjI allI impI)
  fix i assume "i < length xs"
  with assms(2,3) have "R (xs ! i) (ys ! i)" "R (ys ! i) (zs ! i)"
    by (auto simp: rows_evolve_def list_all2_conv_all_nth)
  then have "R (xs ! i) (zs ! i)" by (rule assms(1))
  with \<open>i < length xs\<close> show "R (xs ! i) (take (length xs) zs ! i)" by simp
qed (use assms(2,3) in \<open>auto simp: rows_evolve_def\<close>)

lemma rows_evolve_map: "(\<And>x. x \<in> set xs \<Longrightarrow> R x (f x)) \<Longrightarrow> rows_evolve R xs (map f xs)"
  by (simp add: rows_evolve_def list_all2_conv_all_nth)

lemma rows_evolve_append: "(\<And>x. R x x) \<Longrightarrow> rows_evolve R xs (xs @ ys)"
  by (simp add: rows_evolve_def list_all2_conv_all_nth)

lemma rows_evolve_mem:
  assumes "rows_evolve R xs ys" and "x \<in> set xs"
  obtains y where "y \<in> set ys" and "R x y"
proof -
  from assms(2) obtain i where i: "i < length xs" "x = xs ! i" by (auto simp: in_set_conv_nth)
  with assms(1) have "i < length ys" "R x (ys ! i)"
    by (auto simp: rows_evolve_def list_all2_conv_all_nth)
  with that [of "ys ! i"] show thesis by simp
qed

section \<open>Statements\<close>

text \<open>The statements leave the rows, evolve them or append a row.\<close>

lemma upsert_merge_evolves: "same_key new old \<Longrightarrow> row_evolves old (upsert_merge P now evs old new)"
  by (simp add: upsert_merge_def Let_def row_evolves_def same_key_def)

lemma update_merge_evolves: "event_key ev old \<Longrightarrow> row_evolves old (update_merge P now ev old)"
  by (simp add: update_merge_def Let_def row_evolves_def event_key_def)

lemma CreateOrder_state:
  "snd (CreateOrder P ord s)
   = (case normalizeOrder ord of Inl _ \<Rightarrow> s | Inr n \<Rightarrow> snd (writeOrder insertOrderSQL P n s))"
  by (simp add: CreateOrder_def split: sum.split prod.split)

lemma UpdateOrderStatus_state:
  "snd (UpdateOrderStatus P ev s)
   = (case normalizeOrderEvent ev of Inl _ \<Rightarrow> s | Inr n \<Rightarrow> snd (run_stmt (updateOrderStatusSQL P n) s))"
  by (simp add: UpdateOrderStatus_def split: sum.split prod.split)

locale row_relation =
  fixes R :: "order_row \<Rightarrow> order_row \<Rightarrow> bool" and allowed :: "order_row \<Rightarrow> bool"
    and reported :: "OrderEvent \<Rightarrow> bool"
  assumes row_refl: "R r r" and row_trans: "R a b \<Longrightarrow> R b c \<Longrightarrow> R a c"
    and row_upsert: "allowed new \<Longrightarrow> same_key new old \<Longrightarrow> R old (upsert_merge P now evs old new)"
    and row_update: "reported ev \<Longrightarrow> event_key ev old \<Longrightarrow> R old (update_merge P now ev old)"
begin

sublocale d: world_preorder "db_rel R"
  by unfold_locales
    (auto simp: db_rel_def intro: rows_evolve_refl row_refl rows_evolve_trans row_trans)

lemma run_stmt_rel: "stays (db_rel R) m \<Longrightarrow> stays (db_rel R) (run_stmt m)"
proof (rule staysI)
  fix s assume m: "stays (db_rel R) m"
  have "db_rel R s (snd (m (s\<lparr>dbFaults := fs\<rparr>)))" for fs
    using m [unfolded stays_def, rule_format, of "s\<lparr>dbFaults := fs\<rparr>"] by (simp add: db_rel_def)
  moreover have "db_rel R s (snd (m s))" using m by (simp add: stays_def)
  moreover have "db_rel R s (s\<lparr>dbFaults := fs\<rparr>)" for fs
    by (simp add: db_rel_def rows_evolve_refl row_refl)
  ultimately show "db_rel R s (snd (run_stmt m s))"
    by (simp add: run_stmt_def Let_def split: list.splits fault.splits)
qed

text \<open>A statement that leaves the orders alone.\<close>

lemma same_orders: "(\<And>s. dbOrders (snd (m s)) = dbOrders s) \<Longrightarrow> stays (db_rel R) m"
  by (simp add: stays_def db_rel_def rows_evolve_refl row_refl)

lemma insert_rel: "stays (db_rel R) (insertOrderSQL r)"
  by (simp add: stays_def db_rel_def insertOrderSQL_def add_order_row_def rows_evolve_refl
      rows_evolve_append row_refl)

lemma upsert_rel: "allowed new \<Longrightarrow> stays (db_rel R) (upsertOrderSQL P new)"
  by (auto simp: stays_def db_rel_def upsertOrderSQL_def add_order_row_def Let_def rows_evolve_refl
      rows_evolve_append row_refl row_upsert split: option.splits intro!: rows_evolve_map)

lemma update_rel: "reported ev \<Longrightarrow> stays (db_rel R) (updateOrderStatusSQL P ev)"
  by (auto simp: stays_def db_rel_def updateOrderStatusSQL_def Let_def rows_evolve_refl row_refl
      row_update intro!: rows_evolve_map)

text \<open>The operations.\<close>

lemma writeOrder_rel:
  assumes "\<And>now. stays (db_rel R) (q (order_values P now ord))"
  shows "stays (db_rel R) (writeOrder q P ord)"
proof -
  have "stays (db_rel R) (\<lambda>s. q (order_values P (dbServerNow s) ord) s)"
    using assms by (simp add: stays_def)
  then have "stays (db_rel R) (run_stmt (\<lambda>s. q (order_values P (dbServerNow s) ord) s))"
    by (rule run_stmt_rel)
  then show ?thesis by (simp add: writeOrder_def stays_def d.R_refl)
qed

lemma CreateOrder_rel: "stays (db_rel R) (CreateOrder P ord)"
  by (rule staysI)
    (simp add: CreateOrder_state d.R_refl stays_snd [OF writeOrder_rel [OF insert_rel]] split: sum.split)

lemma UpsertOrder_rel:
  assumes "\<And>n now. normalizeOrder ord = Inr n \<Longrightarrow> allowed (order_values P now n)"
  shows "stays (db_rel R) (UpsertOrder P ord)"
proof (cases "normalizeOrder ord")
  case (Inr n)
  have "stays (db_rel R) (writeOrder (upsertOrderSQL P) P n)"
    by (intro writeOrder_rel upsert_rel assms Inr)
  with Inr show ?thesis by (simp add: stays_def UpsertOrder_def)
qed (simp add: stays_def UpsertOrder_def d.R_refl)

lemma UpdateOrderStatus_rel:
  assumes "\<And>n. normalizeOrderEvent ev = Inr n \<Longrightarrow> reported n"
  shows "stays (db_rel R) (UpdateOrderStatus P ev)"
  using assms
  by (intro staysI)
    (simp add: UpdateOrderStatus_state d.R_refl stays_snd [OF run_stmt_rel [OF update_rel]] split: sum.split)

lemma append_rel: "stays (db_rel R) (run_stmt (appendOrderEventSQL v))"
  by (rule run_stmt_rel, rule same_orders) (simp add: appendOrderEventSQL_def)

lemma AppendOrderEvent_rel: "stays (db_rel R) (AppendOrderEvent P ev stream source)"
  by (rule staysI) (simp add: AppendOrderEvent_def d.R_refl stays_snd [OF append_rel] split: sum.split)

lemma account_rel: "stays (db_rel R) (run_stmt (\<lambda>s. if b then (Inl e, s) else (Inr (), dbAccounts_update (f s) s)))"
  by (rule run_stmt_rel, rule same_orders) simp

lemma UpsertAccount_rel: "stays (db_rel R) (UpsertAccount acc)"
  unfolding UpsertAccount_def Let_def
  by (rule staysI) (simp add: d.R_refl stays_snd [OF account_rel] del: insert_iff)

lemma query_rel: "stays (db_rel R) (run_stmt (\<lambda>s. (Inr (f s), s)))"
  by (rule run_stmt_rel, rule same_orders) simp

lemma reads_rel:
  "stays (db_rel R) (GetOrder a g)" "stays (db_rel R) (GetOrderByIdempotencyKey a k)"
  "stays (db_rel R) (ListOrders qry)"
  "stays (db_rel R) (GetArchivedCommand a c k)" "stays (db_rel R) (GetArchivedCommandByMessageID m)"
  unfolding GetOrder_def GetOrderByIdempotencyKey_def ListOrders_def read_one_def GetArchivedCommand_def
    GetArchivedCommandByMessageID_def queryArchivedCommand_def
  by (intro d.rules query_rel)+

lemma archive_rel: "stays (db_rel R) (run_stmt (archiveRawStreamMessageSQL m))"
  by (rule run_stmt_rel, rule same_orders) (simp add: archiveRawStreamMessageSQL_def)

lemma Archive_rel: "stays (db_rel R) (ArchiveRawStreamMessage P raw)"
  by (rule staysI) (simp add: ArchiveRawStreamMessage_def d.R_refl stays_snd [OF archive_rel])

end

section \<open>Calls\<close>

text \<open>The calls that write the order tables, and what happens around them: the clocks move and
  the database starts or stops failing.\<close>

datatype 'b ledger_call =
    CallCreateOrder Order | CallUpsertOrder Order | CallUpdateOrderStatus OrderEvent
  | CallAppendOrderEvent OrderEvent StreamRef SourceRef | CallUpsertAccount Account
  | CallArchive "'b RawStreamMessage" | Clocks gotime gotime | Faults "fault list"

fun ledger_step :: "pg \<Rightarrow> 'b ledger_call \<Rightarrow> ('b, 'z) ledger_db_scheme \<Rightarrow> ('b, 'z) ledger_db_scheme" where
  "ledger_step P (CallCreateOrder ord) s = snd (CreateOrder P ord s)"
| "ledger_step P (CallUpsertOrder ord) s = snd (UpsertOrder P ord s)"
| "ledger_step P (CallUpdateOrderStatus ev) s = snd (UpdateOrderStatus P ev s)"
| "ledger_step P (CallAppendOrderEvent ev stream source) s = snd (AppendOrderEvent P ev stream source s)"
| "ledger_step P (CallUpsertAccount acc) s = snd (UpsertAccount acc s)"
| "ledger_step P (CallArchive raw) s = snd (ArchiveRawStreamMessage P raw s)"
| "ledger_step P (Clocks client server) s = s\<lparr>dbClientNow := client, dbServerNow := server\<rparr>"
| "ledger_step P (Faults fs) s = s\<lparr>dbFaults := fs\<rparr>"

definition ledger_run :: "pg \<Rightarrow> 'b ledger_call list \<Rightarrow> ('b, 'z) ledger_db_scheme \<Rightarrow> ('b, 'z) ledger_db_scheme" where
  "ledger_run P calls s = fold (ledger_step P) calls s"

context row_relation
begin

definition permitted :: "pg \<Rightarrow> 'b ledger_call \<Rightarrow> bool" where
  "permitted P c \<longleftrightarrow>
     (case c of
        CallUpsertOrder ord \<Rightarrow> (\<forall>n now. normalizeOrder ord = Inr n \<longrightarrow> allowed (order_values P now n))
      | CallUpdateOrderStatus ev \<Rightarrow> (\<forall>n. normalizeOrderEvent ev = Inr n \<longrightarrow> reported n)
      | _ \<Rightarrow> True)"

lemma still_rel: "dbOrders t = dbOrders s \<Longrightarrow> db_rel R s t"
  by (simp add: db_rel_def rows_evolve_refl row_refl)

lemma step_rel: "permitted P c \<Longrightarrow> db_rel R s (ledger_step P c s)"
  by (cases c)
    (simp_all add: permitted_def stays_snd CreateOrder_rel UpsertOrder_rel UpdateOrderStatus_rel
      AppendOrderEvent_rel UpsertAccount_rel Archive_rel still_rel)

lemma run_rel: "(\<And>c. c \<in> set calls \<Longrightarrow> permitted P c) \<Longrightarrow> db_rel R s (ledger_run P calls s)"
  unfolding ledger_run_def
proof (induction calls arbitrary: s)
  case (Cons c calls)
  then have "db_rel R s (ledger_step P c s)" by (simp add: step_rel)
  moreover have "db_rel R (ledger_step P c s) (fold (ledger_step P) calls (ledger_step P c s))"
    using Cons by simp
  ultimately show ?case by (simp add: d.R_trans)
qed (simp add: d.R_refl)

end

interpretation identity: row_relation row_evolves "\<lambda>_. True" "\<lambda>_. True"
  by unfold_locales
    (auto intro: row_evolves_trans upsert_merge_evolves update_merge_evolves)

text \<open>Progress of an order: a terminal order stays terminal, quantities do not shrink, and the
  filled quantity does not shrink until the terminal report. Only the snapshot of a reply (a
  context with \<^verbatim>\<open>relay_reply_status\<close>) corrects an order.\<close>

definition row_progress :: "(string \<times> string \<times> int) set \<Rightarrow> order_row \<Rightarrow> order_row \<Rightarrow> bool" where
  "row_progress finals old new \<longleftrightarrow>
     wAccountID new = wAccountID old \<and> wGatewayOrderID new = wGatewayOrderID old
     \<and> (wIsTerminal old \<longrightarrow> wIsTerminal new) \<and> wSubmittedQty old \<le> wSubmittedQty new
     \<and> wCancelledQty old \<le> wCancelledQty new \<and> wInvalidQty old \<le> wInvalidQty new
     \<and> (wCumFilledQty old \<le> wCumFilledQty new
        \<or> (\<exists>q. (wAccountID old, wGatewayOrderID old, q) \<in> finals \<and> q \<le> wCumFilledQty new))"

definition corrects :: "jsonb \<Rightarrow> bool" where
  "corrects c \<longleftrightarrow> jb_has ''relay_reply_status'' c"

interpretation progress: row_relation "row_progress finals"
    "\<lambda>new. \<not> corrects (wAdapterContext new)
      \<and> (wIsTerminal new \<longrightarrow> (wAccountID new, wGatewayOrderID new, wCumFilledQty new) \<in> finals)"
    "\<lambda>ev. eIsTerminal ev \<longrightarrow> (eAccountID ev, eGatewayOrderID ev, oCumFilledQty (eOrder ev)) \<in> finals" for finals
proof unfold_locales
  show "row_progress finals a c" if "row_progress finals a b" "row_progress finals b c" for a b c
    using that by (fastforce simp: row_progress_def)
qed (auto simp: row_progress_def corrects_def upsert_merge_def update_merge_def same_key_def event_key_def Let_def)

text \<open>A terminal order and reports that are not terminal.\<close>

definition row_frozen :: "order_row \<Rightarrow> order_row \<Rightarrow> bool" where
  "row_frozen old new \<longleftrightarrow>
     (wIsTerminal old \<longrightarrow>
        wIsTerminal new \<and> wStatus new = wStatus old \<and> wGatewayStatus new = wGatewayStatus old
        \<and> wLeavesQty new = wLeavesQty old \<and> wTerminalAt new = wTerminalAt old
        \<and> wCumFilledQty old \<le> wCumFilledQty new
        \<and> (wStatus old = OrderStatusRejected \<longrightarrow>
             wRejectCode new = wRejectCode old \<and> wRejectMessage new = wRejectMessage old))"

interpretation frozen: row_relation row_frozen
    "\<lambda>new. \<not> corrects (wAdapterContext new) \<and> \<not> wIsTerminal new" "\<lambda>ev. \<not> eIsTerminal ev"
  by unfold_locales
    (auto simp: row_frozen_def corrects_def upsert_merge_def update_merge_def Let_def)

section \<open>Invariants of the rows\<close>

locale row_invariant =
  fixes I :: "order_row \<Rightarrow> bool"
  assumes fresh: "normalizeOrder ord = Inr n \<Longrightarrow> orders_check (order_values P now n) \<Longrightarrow>
      I (order_values P now n)"
    and merged: "I old \<Longrightarrow> I new \<Longrightarrow> same_key new old \<Longrightarrow>
      I (upsert_merge P now evs old new)"
    and updated: "normalizeOrderEvent ev0 = Inr ev \<Longrightarrow> I old \<Longrightarrow> orders_check (update_merge P now ev old) \<Longrightarrow>
      I (update_merge P now ev old)"
begin

definition all_rows :: "('b, 'z) ledger_db_scheme \<Rightarrow> bool" where
  "all_rows s \<longleftrightarrow> (\<forall>r \<in> set (dbOrders s). I r)"

lemma all_rows_faults [simp]: "all_rows (s\<lparr>dbFaults := fs\<rparr>) = all_rows s"
  by (simp add: all_rows_def)

lemma run_stmt_keeps: "keeps all_rows m \<Longrightarrow> keeps all_rows (run_stmt m)"
  by (simp add: keeps_def run_stmt_def Let_def split: list.split fault.split)

lemma insert_keeps: "normalizeOrder ord = Inr n \<Longrightarrow> keeps all_rows (\<lambda>s. insertOrderSQL (order_values P (dbServerNow s) n) s)"
  by (auto simp: keeps_def all_rows_def insertOrderSQL_def add_order_row_def fresh)

lemma upsert_keeps: "normalizeOrder ord = Inr n \<Longrightarrow> keeps all_rows (\<lambda>s. upsertOrderSQL P (order_values P (dbServerNow s) n) s)"
  by (auto simp: keeps_def all_rows_def upsertOrderSQL_def add_order_row_def Let_def fresh merged
      split: option.splits)

lemma update_keeps: "normalizeOrderEvent ev = Inr n \<Longrightarrow> keeps all_rows (updateOrderStatusSQL P n)"
  by (auto simp: keeps_def all_rows_def updateOrderStatusSQL_def Let_def list_ex_iff intro: updated)

lemma keeps_state: "keeps all_rows m \<Longrightarrow> all_rows s \<Longrightarrow> all_rows (snd (m s))"
  by (simp add: keeps_def)

lemma orders_keep: "(\<And>s. dbOrders (snd (m s)) = dbOrders s) \<Longrightarrow> keeps all_rows (run_stmt m)"
  by (rule run_stmt_keeps) (simp add: keeps_def all_rows_def)

lemma step_keeps: "all_rows s \<Longrightarrow> all_rows (ledger_step P c s)"
proof (cases c)
  case (CallCreateOrder ord)
  then show "all_rows s \<Longrightarrow> ?thesis"
    by (auto simp: CreateOrder_state writeOrder_def split: sum.split
        intro: keeps_state [OF run_stmt_keeps [OF insert_keeps]])
next
  case (CallUpsertOrder ord)
  then show "all_rows s \<Longrightarrow> ?thesis"
    by (auto simp: UpsertOrder_def writeOrder_def split: sum.split
        intro: keeps_state [OF run_stmt_keeps [OF upsert_keeps]])
next
  case (CallUpdateOrderStatus ev)
  then show "all_rows s \<Longrightarrow> ?thesis"
    by (auto simp: UpdateOrderStatus_state split: sum.split
        intro: keeps_state [OF run_stmt_keeps [OF update_keeps]])
next
  case (CallAppendOrderEvent ev stream source)
  then show "all_rows s \<Longrightarrow> ?thesis"
    by (auto simp: AppendOrderEvent_def appendOrderEventSQL_def split: sum.split
        intro: keeps_state [OF orders_keep])
next
  case (CallUpsertAccount acc)
  then show "all_rows s \<Longrightarrow> ?thesis"
    by (auto simp: UpsertAccount_def Let_def intro!: keeps_state [OF orders_keep])
next
  case (CallArchive raw)
  then show "all_rows s \<Longrightarrow> ?thesis"
    by (auto simp: ArchiveRawStreamMessage_def archiveRawStreamMessageSQL_def
        intro: keeps_state [OF orders_keep])
qed (simp_all add: all_rows_def)

lemma run_keeps: "all_rows s \<Longrightarrow> all_rows (ledger_run P calls s)"
  unfolding ledger_run_def by (induction calls arbitrary: s) (simp_all add: step_keeps)

end

text \<open>The terminal flag of a row agrees with its status.\<close>

definition flag_ok :: "order_row \<Rightarrow> bool" where
  "flag_ok r \<longleftrightarrow> wIsTerminal r = OrderStatus_Terminal (wStatus r)"

lemma settleOrder_state:
  assumes "orderState ord = (st, g, t)"
  shows "oStatus (settleOrder ord) = st"
    and "oIsTerminal (settleOrder ord) = (t \<or> OrderStatus_Terminal st \<or> GatewayStatus_Terminal g)"
  by (simp_all add: settleOrder_def assms Let_def)

lemma settleOrder_flag: "OrderStatus_Terminal (oStatus (settleOrder ord)) \<Longrightarrow> oIsTerminal (settleOrder ord)"
  by (cases "orderState ord") (simp add: settleOrder_state)

lemma settleEvent_flag: "OrderStatus_Terminal (eStatus (settleEvent ev)) \<Longrightarrow> eIsTerminal (settleEvent ev)"
  by (cases "eventState ev") (simp add: settleEvent_def Let_def)

lemma normalizeOrder_settled:
  assumes "normalizeOrder ord = Inr n"
  obtains m where "n = settleOrder m"
  using assms by (auto simp: normalizeOrder_def Let_def split: option.splits sum.splits)

lemma normalizeOrderEvent_settled:
  assumes "normalizeOrderEvent ev = Inr n"
  obtains m where "n = settleEvent m"
  using assms by (auto simp: normalizeOrderEvent_def Let_def split: sum.splits if_splits)

lemma upsert_flag: "flag_ok old \<Longrightarrow> flag_ok new \<Longrightarrow> flag_ok (upsert_merge P now evs old new)"
  by (auto simp: flag_ok_def upsert_merge_def Let_def)

lemma update_flag:
  assumes "normalizeOrderEvent ev = Inr n" and "flag_ok old" and "orders_check (update_merge P now n old)"
  shows "flag_ok (update_merge P now n old)"
proof -
  obtain m where "n = settleEvent m" using assms(1) by (rule normalizeOrderEvent_settled)
  then have "OrderStatus_Terminal (eStatus n) \<Longrightarrow> eIsTerminal n" by (simp add: settleEvent_flag)
  with assms(2,3) show ?thesis
    by (auto simp: flag_ok_def orders_check_def update_merge_def Let_def split: if_splits)
qed

interpretation flags: row_invariant flag_ok
proof unfold_locales
  fix ord n P now
  assume n: "normalizeOrder ord = Inr n" and c: "orders_check (order_values P now n)"
  obtain m where "n = settleOrder m" using n by (rule normalizeOrder_settled)
  with c settleOrder_flag [of m] show "flag_ok (order_values P now n)"
    by (auto simp: flag_ok_def orders_check_def order_values_def)
qed (auto intro: upsert_flag update_flag)

section \<open>Storing and reading an order\<close>

text \<open>A settled state is not changed by reading it back.\<close>

lemma normalize_fresh_leaves:
  assumes "NormalizeOrderExecutionState st g q 0 0 = (st', g', False)" and "q > 0"
  shows "NormalizeOrderExecutionState st' g' q 0 q = (st', g', False)"
  using normalize_stable [OF assms(1)] assms(2)
  by (auto simp: NormalizeOrderExecutionState_def Let_def split: if_splits)

lemma settleOrder_stable:
  assumes "n = settleOrder ord" and "oOrderQty ord > 0"
  shows "NormalizeOrderExecutionState (oStatus n) (oGatewayStatus n) (oOrderQty n) (oCumFilledQty n)
      (oLeavesQty n) = (oStatus n, oGatewayStatus n, oIsTerminal n)
    \<and> (oStatus n = OrderStatusFilled \<longrightarrow> oCumFilledQty n = oOrderQty n \<and> oLeavesQty n = 0)"
proof -
  obtain st g t where state: "orderState ord = (st, g, t)" by (metis prod_cases3)
  note eq = state [unfolded orderState_def]
  have t: "(t \<or> OrderStatus_Terminal st \<or> GatewayStatus_Terminal g) = t"
    using normalize_terminal_flag [OF eq] by blast
  show ?thesis
  proof (cases "st = OrderStatusFilled")
    case True
    have "NormalizeOrderExecutionState st g (oOrderQty ord) (oOrderQty ord) 0 = (st, g, t)"
      using normalize_stable [OF eq] normalize_filled_complete [OF eq] True assms(2)
      by (simp add: NormalizeOrderExecutionState_def Let_def split: if_splits)
    moreover have "t" using normalize_terminal_flag [OF eq] True by (simp add: status_defs)
    ultimately show ?thesis using state t by (simp add: assms(1) settleOrder_def Let_def True)
  next
    case False
    show ?thesis
    proof (cases "oLeavesQty ord = 0 \<and> oCumFilledQty ord = 0 \<and> oCancelledQty ord = 0 \<and> oInvalidQty ord = 0 \<and> \<not> t")
      case True
      then have "NormalizeOrderExecutionState st g (oOrderQty ord) 0 (oOrderQty ord) = (st, g, False)"
        using normalize_fresh_leaves [of _ _ "oOrderQty ord" st g] eq assms(2) by auto
      with True show ?thesis using state t False by (simp add: assms(1) settleOrder_def Let_def)
    next
      case no: False
      then show ?thesis using state t False normalize_stable [OF eq]
        by (auto simp: assms(1) settleOrder_def Let_def)
    qed
  qed
qed

text \<open>A created order: its row was free and is appended.\<close>

lemma run_stmt_Inr:
  assumes "run_stmt m s = (Inr x, t)"
  obtains fs where "m (s\<lparr>dbFaults := fs\<rparr>) = (Inr x, t)" and "dbFaults s = [] \<longrightarrow> fs = []"
proof (cases "dbFaults s")
  case Nil
  then have same: "s\<lparr>dbFaults := []\<rparr> = s" by (cases s) simp
  have "m s = (Inr x, t)" using assms Nil by (simp add: run_stmt_def)
  then show thesis using that [of "[]", unfolded same] by blast
next
  case (Cons f fs)
  with assms have "m (s\<lparr>dbFaults := fs\<rparr>) = (Inr x, t)"
    by (auto simp: run_stmt_def Let_def split: fault.splits)
  then show thesis by (rule that) (simp add: Cons)
qed

lemma CreateOrder_success:
  assumes "CreateOrder P ord s = (Inr (), t)"
  obtains n fs where "normalizeOrder ord = Inr n"
    and "orders_check (order_values P (dbServerNow s) n)"
    and "\<not> list_ex (same_key (order_values P (dbServerNow s) n)) (dbOrders s)"
    and "\<not> list_ex (same_alias (order_values P (dbServerNow s) n)) (dbOrders s)"
    and "t = s\<lparr>dbFaults := fs, dbOrders := dbOrders s @ [order_values P (dbServerNow s) n]\<rparr>"
    and "dbFaults s = [] \<longrightarrow> fs = []"
proof -
  from assms obtain n where n: "normalizeOrder ord = Inr n" "writeOrder insertOrderSQL P n s = (Inr (), t)"
    by (auto simp: CreateOrder_def split: sum.splits prod.splits)
  then have "run_stmt (\<lambda>s. insertOrderSQL (order_values P (dbServerNow s) n) s) s = (Inr (), t)"
    by (simp add: writeOrder_def split: if_splits)
  then obtain fs where "insertOrderSQL (order_values P (dbServerNow s) n) (s\<lparr>dbFaults := fs\<rparr>) = (Inr (), t)"
    and fs: "dbFaults s = [] \<longrightarrow> fs = []"
    by (auto elim: run_stmt_Inr)
  then show thesis
    using that [OF n(1), of fs] by (auto simp: insertOrderSQL_def add_order_row_def split: if_splits)
qed

lemma nullString_trimmed: "TrimSpace v = v \<Longrightarrow> of_null [] (nullString v) = v"
  by (simp add: nullString_def of_null_def Let_def)

lemma of_null_int [simp]: "of_null 0 (nullInt64 v) = v"
  by (simp add: nullInt64_def of_null_def)

lemma trim_fields_settle [simp]:
  "oAccountID (settleOrder ord) = oAccountID ord" "oGatewayOrderID (settleOrder ord) = oGatewayOrderID ord"
  "oTradeDate (settleOrder ord) = oTradeDate ord" "oClientOrderID (settleOrder ord) = oClientOrderID ord"
  "oSymbol (settleOrder ord) = oSymbol ord" "oOrderQty (settleOrder ord) = oOrderQty ord"
  "oIdempotencyKey (settleOrder ord) = oIdempotencyKey ord" "oRequestID (settleOrder ord) = oRequestID ord"
  "oOriginMessageID (settleOrder ord) = oOriginMessageID ord" "oAdapterContext (settleOrder ord) = oAdapterContext ord"
  "oLimitPrice (settleOrder ord) = oLimitPrice ord"
  "oExchange (settleOrder ord) = oExchange ord" "oTradeSide (settleOrder ord) = oTradeSide ord"
  "oBusinessType (settleOrder ord) = oBusinessType ord" "oOffsetType (settleOrder ord) = oOffsetType ord"
  "oStrategyType (settleOrder ord) = oStrategyType ord" "oStrategyID (settleOrder ord) = oStrategyID ord"
  "oBasketID (settleOrder ord) = oBasketID ord" "oParentOrderID (settleOrder ord) = oParentOrderID ord"
  "oT0OrderGroupID (settleOrder ord) = oT0OrderGroupID ord"
  by (cases "orderState ord"; simp add: settleOrder_def Let_def)+

lemma normalizeOrder_form:
  assumes "normalizeOrder ord = Inr n"
  obtains d where "n = settleOrder ((trimOrder ord)\<lparr>oTradeDate := d\<rparr>)"
    and "orderInputError (trimOrder ord) = None"
  using assms by (auto simp: normalizeOrder_def Let_def split: option.splits sum.splits)

text \<open>The identity of an order and of what is stored under it.\<close>

definition same_order :: "Order \<Rightarrow> Order \<Rightarrow> bool" where
  "same_order a b \<longleftrightarrow>
     oAccountID a = oAccountID b \<and> oClientOrderID a = oClientOrderID b
     \<and> oGatewayOrderID a = oGatewayOrderID b \<and> oTradeDate a = oTradeDate b \<and> oSymbol a = oSymbol b
     \<and> oExchange a = oExchange b \<and> oTradeSide a = oTradeSide b \<and> oBusinessType a = oBusinessType b
     \<and> oOrderQty a = oOrderQty b \<and> oCumFilledQty a = oCumFilledQty b \<and> oLeavesQty a = oLeavesQty b
     \<and> oStatus a = oStatus b \<and> oGatewayStatus a = oGatewayStatus b \<and> oIsTerminal a = oIsTerminal b
     \<and> oOriginMessageID a = oOriginMessageID b \<and> oRequestID a = oRequestID b
     \<and> oIdempotencyKey a = oIdempotencyKey b \<and> oStrategyType a = oStrategyType b
     \<and> oStrategyID a = oStrategyID b \<and> oBasketID a = oBasketID b
     \<and> oParentOrderID a = oParentOrderID b \<and> oT0OrderGroupID a = oT0OrderGroupID b"

lemma scan_stored:
  assumes "normalizeOrder ord = Inr n" and "TrimSpace (oTradeDate n) = oTradeDate n"
  obtains stored where "scanOrder (order_values P now n) = Inr stored" and "same_order stored n"
    and "oLimitPrice stored = pg_money P (oLimitPrice n)"
    and "oOffsetType stored = of_null [] (nullString (oOffsetType n))"
proof -
  obtain d where n: "n = settleOrder ((trimOrder ord)\<lparr>oTradeDate := d\<rparr>)"
    and ok: "orderInputError (trimOrder ord) = None"
    using assms(1) by (rule normalizeOrder_form)
  from ok have q: "oOrderQty ((trimOrder ord)\<lparr>oTradeDate := d\<rparr>) > 0"
    by (simp add: orderInputError_def split: if_splits)
  let ?r = "order_values P now n"
  have st: "NormalizeOrderExecutionState (wStatus ?r) (wGatewayStatus ?r) (wOrderQty ?r) (wCumFilledQty ?r)
      (wLeavesQty ?r) = (oStatus n, oGatewayStatus n, oIsTerminal n)"
    and filled: "oStatus n = OrderStatusFilled \<longrightarrow> oCumFilledQty n = oOrderQty n \<and> oLeavesQty n = 0"
    using settleOrder_stable [OF n q] by (simp_all add: order_values_def)
  have trims: "TrimSpace (oClientOrderID n) = oClientOrderID n" "TrimSpace (oOriginMessageID n) = oOriginMessageID n"
    "TrimSpace (oRequestID n) = oRequestID n" "TrimSpace (oIdempotencyKey n) = oIdempotencyKey n"
    "TrimSpace (oStrategyType n) = oStrategyType n" "TrimSpace (oStrategyID n) = oStrategyID n"
    "TrimSpace (oBasketID n) = oBasketID n" "TrimSpace (oParentOrderID n) = oParentOrderID n"
    "TrimSpace (oT0OrderGroupID n) = oT0OrderGroupID n"
    by (simp_all add: n trimOrder_def)
  have "\<exists>ctx. scan_context (wAdapterContext ?r) = Inr ctx"
    by (simp add: order_values_def scan_context_def jsonb_of_ctx_def split: option.split)
  then obtain ctx where ctx: "scan_context (wAdapterContext ?r) = Inr ctx" by blast
  let ?o = "(scan_row ?r ctx)\<lparr>oStatus := oStatus n, oGatewayStatus := oGatewayStatus n, oIsTerminal := oIsTerminal n\<rparr>"
  show thesis
  proof (rule that)
    show "scanOrder ?r = Inr (if oStatus n = OrderStatusFilled
        then ?o\<lparr>oCumFilledQty := oOrderQty ?o, oLeavesQty := 0\<rparr> else ?o)"
      by (simp only: scanOrder_def ctx sum.case st prod.case Let_def)
  qed (use filled trims assms(2) in \<open>auto simp: same_order_def scan_row_def order_values_def nullString_trimmed\<close>)
qed

text \<open>Creating an order in a working database.\<close>

lemma create_order_cases:
  assumes "dbFaults s = []" and "normalizeOrder ord = Inr n" and "order_marshals n"
    and "r = order_values P (dbServerNow s) n" and "orders_check r"
  shows "CreateOrder P ord s =
    (if list_ex (\<lambda>x. same_key r x \<or> same_alias r x) (dbOrders s)
     then (Inl (ErrOrderConflict (oAccountID n) (oTradeDate n) (oGatewayOrderID n)), s)
     else if dbAccounts s (oAccountID n) = None then (Inl (ErrDatabase ''23503''), s)
     else (Inr (), s\<lparr>dbOrders := dbOrders s @ [r]\<rparr>))"
proof -
  have acct: "wAccountID r = oAccountID n" by (simp add: assms(4) order_values_def)
  have "CreateOrder P ord s = (case insertOrderSQL r s of (Inr _, s') \<Rightarrow> (Inr (), s')
      | (Inl e, s') \<Rightarrow> (Inl (if isUniqueViolation e
            then ErrOrderConflict (oAccountID n) (oTradeDate n) (oGatewayOrderID n) else e), s'))"
    by (simp add: CreateOrder_def assms(1,2,3) writeOrder_def run_stmt_def assms(4) split: prod.split sum.split)
  with assms(5) acct show ?thesis
    by (auto simp: insertOrderSQL_def add_order_row_def isUniqueViolation_def list_ex_iff)
qed

section \<open>Properties\<close>

text \<open>A stored order of a demonstration account.\<close>

definition demo_pg :: pg where "demo_pg = \<lparr>pg_money = id, pg_time = id\<rparr>"

definition demo_order :: Order where
  "demo_order = Order0\<lparr>oAccountID := ''A1'', oGatewayOrderID := ''gw-1'', oClientOrderID := ''gw-1'',
     oTradeDate := ''2024-02-29'', oSymbol := ''600000'', oExchange := ExchangeSH,
     oTradeSide := TradeSideBuy, oBusinessType := BusinessTypeStock, oLimitPrice := Fin 10,
     oOrderQty := 100, oLeavesQty := 100, oStatus := OrderStatusCreated,
     oGatewayStatus := GatewayStatusAccepted, oIdempotencyKey := ''k1'',
     oCreatedAt := 1700000000 * second, oAdapterContext := Some Map.empty\<rparr>"

definition demo_report :: "OrderStatus \<Rightarrow> GatewayStatus \<Rightarrow> int \<Rightarrow> int \<Rightarrow> OrderEvent" where
  "demo_report st g cum leaves =
     \<lparr>eEventID = [], eEventType = EventTypeOrder, eAccountID = ''A1'', eGatewayOrderID = ''gw-1'',
      eStatus = st, eGatewayStatus = g, eIsTerminal = False,
      eOrder = demo_order\<lparr>oCumFilledQty := cum, oLeavesQty := leaves\<rparr>, eProducedAt = 1700000001 * second, eAdapterContext = None\<rparr>"

text \<open>C30: Orders are never lost and never change identity. Whatever calls are made on the ledger,
  in whatever order and with whatever failures of the database, every stored row is still there
  afterwards, under the same account, trade date and gateway order id, and with the origin
  message id, request id and idempotency key it had, if it had one.\<close>

theorem ledger_rows_persist:
  "rows_evolve row_evolves (dbOrders s) (dbOrders (ledger_run P calls s))"
  using identity.run_rel [of calls P s] by (simp add: db_rel_def identity.permitted_def split: ledger_call.split)

text \<open>An upsert without the mark of a reply, and reports that are not terminal.\<close>

fun plain_call :: "'b ledger_call \<Rightarrow> bool" where
  "plain_call (CallUpsertOrder ord) = (\<not> corrects (jsonb_of_ctx (oAdapterContext ord)))"
| "plain_call c = True"

fun late_call :: "'b ledger_call \<Rightarrow> bool" where
  "late_call (CallUpsertOrder ord) =
     (\<not> corrects (jsonb_of_ctx (oAdapterContext ord))
      \<and> (case normalizeOrder ord of Inl _ \<Rightarrow> True | Inr n \<Rightarrow> \<not> oIsTerminal n))"
| "late_call (CallUpdateOrderStatus ev) =
     (case normalizeOrderEvent ev of Inl _ \<Rightarrow> True | Inr n \<Rightarrow> \<not> eIsTerminal n)"
| "late_call c = True"

lemma normalizeOrder_context: "normalizeOrder ord = Inr n \<Longrightarrow> oAdapterContext n = oAdapterContext ord"
  by (erule normalizeOrder_form) (simp add: trimOrder_def)

text \<open>The filled quantity a terminal report carries, with the order it is about.\<close>

fun terminal_fill :: "'b ledger_call \<Rightarrow> (string \<times> string \<times> int) set" where
  "terminal_fill (CallUpsertOrder ord) =
     (case normalizeOrder ord of
        Inl _ \<Rightarrow> {}
      | Inr n \<Rightarrow> if oIsTerminal n then {(oAccountID n, oGatewayOrderID n, oCumFilledQty n)} else {})"
| "terminal_fill (CallUpdateOrderStatus ev) =
     (case normalizeOrderEvent ev of
        Inl _ \<Rightarrow> {}
      | Inr n \<Rightarrow> if eIsTerminal n then {(eAccountID n, eGatewayOrderID n, oCumFilledQty (eOrder n))} else {})"
| "terminal_fill c = {}"

lemma plain_permitted: "plain_call c \<Longrightarrow> terminal_fill c \<subseteq> finals \<Longrightarrow> progress.permitted finals P c"
  by (cases c) (auto simp: progress.permitted_def order_values_def normalizeOrder_context)

lemma late_permitted: "late_call c \<Longrightarrow> frozen.permitted P c"
  by (cases c) (auto simp: frozen.permitted_def order_values_def normalizeOrder_context)

text \<open>C11: Orders make progress. As long as no upsert carries the mark of a reply to an order query (only such a
  snapshot corrects an order), any sequence of creates, upserts, events and failures keeps a terminal order terminal and
  never lowers its submitted, cancelled and invalid quantities; and its filled quantity falls only when a terminal
  report of this order among the calls says so, and not below what such a report says.\<close>

theorem ledger_progress:
  assumes "list_all plain_call calls"
  shows "rows_evolve (row_progress (\<Union> (set (map terminal_fill calls)))) (dbOrders s) (dbOrders (ledger_run P calls s))"
proof -
  have "progress.permitted (\<Union> (set (map terminal_fill calls))) P c" if "c \<in> set calls" for c
    using assms that by (intro plain_permitted) (auto simp: list_all_iff)
  then show ?thesis using progress.run_rel [of calls "\<Union> (set (map terminal_fill calls))" P s] by (simp add: db_rel_def)
qed

definition demo_account :: Account where
  "demo_account = \<lparr>aAccountID = ''A1'', aBrokerID = ''B1'', aGatewayID = ''G1'', aStreamPrefix = ''prod'',
     aStatus = AccountStatusEnabled, aEnabled = True, aTradingEnabled = True, aSimulated = False,
     aTags = Map.empty, aUpdatedAt = 0\<rparr>"

definition demo_db :: "unit ledger_db" where
  "demo_db = \<lparr>dbAccounts = [''A1'' \<mapsto> demo_account], dbOrders = [order_values demo_pg 0 demo_order],
     dbOrderEvents = [], dbRaw = [], dbServerNow = 1700000002 * second,
     dbClientNow = 1700000002 * second, dbFaults = []\<rparr>"

definition demo_calls :: "'b ledger_call list" where
  "demo_calls =
     [CallUpdateOrderStatus (demo_report OrderStatusWorking GatewayStatusWorking 40 60), Faults [FaultAfter],
      CallUpsertOrder (demo_order\<lparr>oCumFilledQty := 20, oLeavesQty := 80\<rparr>)]"

theorem ledger_progress_witness:
  "rows_evolve (row_progress (\<Union> (set (map terminal_fill (demo_calls :: unit ledger_call list))))) (dbOrders demo_db)
     (dbOrders (ledger_run demo_pg demo_calls demo_db))"
  by (rule ledger_progress) (simp add: demo_calls_def corrects_def demo_order_def jsonb_of_ctx_def)

text \<open>C2: Late reports do not reopen an order. Any sequence of calls, in which every upsert is neither terminal nor
  marked as a reply to an order query and no event is terminal, leaves the status, the gateway status, the open quantity
  and the time of completion of every terminal order as they were, keeps the reason of a rejected one, and leaves its
  filled quantity or raises it. (A marked reply is a snapshot that corrects the order, and may reopen it.)\<close>

theorem late_reports_ignored:
  assumes "list_all late_call calls"
  shows "rows_evolve row_frozen (dbOrders s) (dbOrders (ledger_run P calls s))"
  using frozen.run_rel [of calls P s] assms late_permitted by (auto simp: db_rel_def list_all_iff)

text \<open>The state of a normalised event depends on what was reported only.\<close>

lemma normalizeOrderEvent_state:
  assumes "normalizeOrderEvent ev0 = Inr n"
  shows "(eStatus n, eGatewayStatus n, eIsTerminal n) = eventState ev0"
proof -
  obtain ev where n: "n = settleEvent ev" and same: "eventState ev = eventState ev0"
    using assms
    by (auto simp: normalizeOrderEvent_def identifyEvent_def eventState_def Let_def split: sum.splits if_splits)
  obtain st g t where e: "eventState ev = (st, g, t)" by (metis prod_cases3)
  have "(t \<or> OrderStatus_Terminal st \<or> GatewayStatus_Terminal g) = t"
    using normalize_terminal_flag [OF e [unfolded eventState_def Let_def]] by blast
  then show ?thesis by (simp add: n same [symmetric] e settleEvent_def Let_def)
qed

lemma demo_report_late: "late_call (CallUpdateOrderStatus (demo_report OrderStatusWorking GatewayStatusWorking 40 60))"
proof -
  have "eventState (demo_report OrderStatusWorking GatewayStatusWorking 40 60)
      = (OrderStatusPartiallyFilled, GatewayStatusWorking, False)"
    by (simp add: eventState_def demo_report_def demo_order_def Order0_def NormalizeOrderExecutionState_def status_defs)
  then show ?thesis by (auto dest: normalizeOrderEvent_state split: sum.split)
qed

theorem late_reports_ignored_witness:
  "rows_evolve row_frozen [(order_values demo_pg 0 demo_order)\<lparr>wStatus := OrderStatusCancelled, wIsTerminal := True\<rparr>]
     (dbOrders (ledger_run demo_pg
        [CallUpdateOrderStatus (demo_report OrderStatusWorking GatewayStatusWorking 40 60)]
        (demo_db\<lparr>dbOrders := [(order_values demo_pg 0 demo_order)\<lparr>wStatus := OrderStatusCancelled, wIsTerminal := True\<rparr>]\<rparr>)))"
  using late_reports_ignored [of "[CallUpdateOrderStatus (demo_report OrderStatusWorking GatewayStatusWorking 40 60)]"
      "demo_db\<lparr>dbOrders := [(order_values demo_pg 0 demo_order)\<lparr>wStatus := OrderStatusCancelled, wIsTerminal := True\<rparr>]\<rparr>" demo_pg]
    demo_report_late
  by simp

text \<open>C31: The terminal flag of every stored order agrees with its status, after any sequence of
  calls on a ledger in which it does.\<close>

theorem terminal_flag_sound:
  assumes "list_all flag_ok (dbOrders s)"
  shows "list_all flag_ok (dbOrders (ledger_run P calls s))"
  using flags.run_keeps [of s P calls] assms by (simp add: flags.all_rows_def list_all_iff)

theorem terminal_flag_sound_witness:
  "list_all flag_ok (dbOrders (ledger_run demo_pg
     [CallUpdateOrderStatus (demo_report OrderStatusFilled GatewayStatusFilled 100 0),
      CallUpdateOrderStatus (demo_report OrderStatusWorking GatewayStatusWorking 40 60)] demo_db))"
  by (rule terminal_flag_sound)
     (simp add: demo_db_def flag_ok_def order_values_def demo_order_def Order0_def status_defs)

text \<open>Creating an order, on every branch of a working database. A valid order is stored as one
  more row exactly when its account is known and no stored order has the same trade date and
  gateway order id, or the same client order id, or the same idempotency key in its account;
  otherwise nothing is stored, and a taken key is reported as a conflict.\<close>

theorem create_order_outcome:
  assumes "dbFaults s = []" and "normalizeOrder ord = Inr n" and "order_marshals n"
    and "r = order_values P (dbServerNow s) n" and "orders_check r"
  shows "CreateOrder P ord s =
    (if list_ex (\<lambda>x. same_key r x \<or> same_alias r x) (dbOrders s)
     then (Inl (ErrOrderConflict (oAccountID n) (oTradeDate n) (oGatewayOrderID n)), s)
     else if dbAccounts s (oAccountID n) = None then (Inl (ErrDatabase ''23503''), s)
     else (Inr (), s\<lparr>dbOrders := dbOrders s @ [r]\<rparr>))"
  using assms by (rule create_order_cases)

lemma demo_trim: "trimOrder demo_order = demo_order"
proof -
  have "TrimSpace ''A1'' = ''A1''" "TrimSpace ''gw-1'' = ''gw-1''" "TrimSpace ''600000'' = ''600000''"
    "TrimSpace ''2024-02-29'' = ''2024-02-29''" "TrimSpace ''k1'' = ''k1''"
    by (rule TrimSpace_ascii_word; simp)+
  then show ?thesis by (simp add: trimOrder_def demo_order_def Order0_def)
qed

lemma demo_date: "normalizeTradeDate ''2024-02-29'' = Inr ''2024-02-29''"
proof -
  have "formatDate (2024, 2, 29) = ''2024-02-29''" by code_simp
  moreover have "valid_civil (2024, 2, 29)" by code_simp
  ultimately show ?thesis by (metis normalizeTradeDate_formatDate)
qed

lemma demo_normal: "normalizeOrder demo_order = Inr demo_order"
proof -
  have "oTradeDate demo_order = ''2024-02-29''" by (simp add: demo_order_def)
  then have "normalizeOrderTradeDate demo_order = Inr ''2024-02-29''"
    by (simp add: normalizeOrderTradeDate_def demo_date)
  moreover have "orderInputError demo_order = None"
    by (simp add: orderInputError_def demo_order_def Order0_def TrimSpace_Cons ascii_edge_def
        Exchange_Valid_def TradeSide_Valid_def BusinessType_Valid_def OffsetType_Valid_def fle_def fzero_def)
  moreover have "settleOrder demo_order = demo_order"
    by (simp add: settleOrder_def orderState_def NormalizeOrderExecutionState_def demo_order_def Order0_def status_defs
        gatewayStatusForOrderStatus_def)
  moreover have "demo_order\<lparr>oTradeDate := ''2024-02-29''\<rparr> = demo_order" by (simp add: demo_order_def)
  ultimately show ?thesis
    by (simp only: normalizeOrder_def demo_trim Let_def option.case sum.case)
qed

lemma demo_row_check: "orders_check (order_values demo_pg now demo_order)"
  by (simp add: orders_check_def order_values_def demo_order_def Order0_def demo_pg_def
      Exchange_Valid_def TradeSide_Valid_def BusinessType_Valid_def status_defs nullString_def nullInt64_def fzero_def)

theorem create_order_outcome_witness:
  "CreateOrder demo_pg demo_order demo_db
     = (Inl (ErrOrderConflict ''A1'' ''2024-02-29'' ''gw-1''), demo_db)
   \<and> fst (CreateOrder demo_pg demo_order (demo_db\<lparr>dbOrders := []\<rparr>)) = Inr ()"
proof -
  have m: "order_marshals demo_order"
    by (simp add: order_marshals_def demo_order_def Order0_def finite_float_def fzero_def)
  have "same_key (order_values demo_pg now demo_order) (order_values demo_pg 0 demo_order)" for now
    by (simp add: same_key_def order_values_def)
  then show ?thesis
    using create_order_outcome [OF _ demo_normal m refl demo_row_check, of demo_db]
      create_order_outcome [OF _ demo_normal m refl demo_row_check, of "demo_db\<lparr>dbOrders := []\<rparr>"]
    by (simp add: demo_db_def demo_order_def)
qed

text \<open>What is created can be read. Right after an order was created, reading it by its gateway
  order id returns it: the same identity, quantities and state as the normalised order, provided
  no other order of the account has that gateway order id.\<close>

theorem create_then_get:
  assumes "dbFaults s = []" and "CreateOrder P ord s = (Inr (), t)" and "normalizeOrder ord = Inr n"
    and "TrimSpace (oTradeDate n) = oTradeDate n"
    and "list_all (\<lambda>r. wAccountID r \<noteq> oAccountID n \<or> wGatewayOrderID r \<noteq> oGatewayOrderID n) (dbOrders s)"
  shows "\<exists>stored. GetOrder (oAccountID ord) (oGatewayOrderID ord) t = (Inr stored, t) \<and> same_order stored n
    \<and> oLimitPrice stored = pg_money P (oLimitPrice n)"
proof -
  let ?r = "order_values P (dbServerNow s) n"
  from assms(2) obtain fs where t: "t = s\<lparr>dbFaults := fs, dbOrders := dbOrders s @ [?r]\<rparr>" and fs: "fs = []"
    using assms(1,3) by (auto elim!: CreateOrder_success)
  obtain d where n: "n = settleOrder ((trimOrder ord)\<lparr>oTradeDate := d\<rparr>)"
    and ok: "orderInputError (trimOrder ord) = None"
    using assms(3) by (rule normalizeOrder_form)
  have ids: "oAccountID n = TrimSpace (oAccountID ord)" "oGatewayOrderID n = TrimSpace (oGatewayOrderID ord)"
    by (simp_all add: n trimOrder_def)
  from ok have nonblank: "TrimSpace (oAccountID ord) \<noteq> []" "TrimSpace (oGatewayOrderID ord) \<noteq> []"
    by (auto simp: orderInputError_def trimOrder_def split: if_splits)
  have "filter (\<lambda>r. wAccountID r = oAccountID n \<and> wGatewayOrderID r = oGatewayOrderID n) (dbOrders t) = [?r]"
    using assms(5) by (auto simp: t list_all_iff filter_empty_conv order_values_def)
  then have q: "getOrderSQL (oAccountID n) (oGatewayOrderID n) (dbOrders t) = [?r]"
    by (simp add: getOrderSQL_def)
  obtain stored where "scanOrder ?r = Inr stored" "same_order stored n"
      "oLimitPrice stored = pg_money P (oLimitPrice n)"
    using scan_stored [OF assms(3,4)] by metis
  moreover have "dbFaults t = []" by (simp add: t fs)
  ultimately show ?thesis
    using q nonblank by (auto simp: GetOrder_def Let_def read_one_def seq_def run_stmt_def of_res_def ids)
qed

lemma demo_create:
  "CreateOrder demo_pg demo_order (demo_db\<lparr>dbOrders := []\<rparr>) =
     (Inr (), demo_db\<lparr>dbOrders := [order_values demo_pg (dbServerNow demo_db) demo_order]\<rparr>)"
proof -
  have "order_marshals demo_order"
    by (simp add: order_marshals_def demo_order_def Order0_def finite_float_def fzero_def)
  moreover have "oAccountID demo_order = ''A1''" by (simp add: demo_order_def)
  ultimately show ?thesis
    using demo_row_check [of "dbServerNow demo_db"]
    by (simp add: CreateOrder_def demo_normal writeOrder_def run_stmt_def insertOrderSQL_def add_order_row_def
        demo_db_def order_values_def [of demo_pg _ demo_order])
qed

theorem create_then_get_witness:
  "\<exists>stored. GetOrder (oAccountID demo_order) (oGatewayOrderID demo_order)
       (demo_db\<lparr>dbOrders := [order_values demo_pg (dbServerNow demo_db) demo_order]\<rparr>)
     = (Inr stored, demo_db\<lparr>dbOrders := [order_values demo_pg (dbServerNow demo_db) demo_order]\<rparr>)
     \<and> same_order stored demo_order \<and> oLimitPrice stored = pg_money demo_pg (oLimitPrice demo_order)"
proof (rule create_then_get [OF _ demo_create demo_normal])
  have "oTradeDate (trimOrder demo_order) = TrimSpace (oTradeDate demo_order)" by (simp add: trimOrder_def)
  then show "TrimSpace (oTradeDate demo_order) = oTradeDate demo_order" by (simp add: demo_trim)
qed (simp_all add: demo_db_def)

text \<open>An upsert that does not carry a creation time overwrites the stored one. The statement
  keeps \<^verbatim>\<open>orders.created_at\<close> when \<^verbatim>\<open>EXCLUDED.created_at\<close> is NULL, but the inserted value is already
  \<^verbatim>\<open>COALESCE($38, now())\<close> and never NULL, so the creation time of a stored order becomes the time
  of its latest such upsert.\<close>

theorem upsert_overwrites_created_at:
  assumes "dbFaults s = []" and "normalizeOrder ord = Inr n" and "IsZero (oCreatedAt n)"
    and "UpsertOrder P ord s = (Inr (), t)" and "i < length (dbOrders s)"
    and "same_key (order_values P (dbServerNow s) n) (dbOrders s ! i)"
  shows "wCreatedAt (dbOrders t ! i) = pg_time P (dbServerNow s)"
proof -
  let ?new = "order_values P (dbServerNow s) n"
  from assms(1,2,4) have "upsertOrderSQL P ?new s = (Inr (), t)"
    by (simp add: UpsertOrder_def writeOrder_def run_stmt_def split: if_splits)
  moreover have "find (same_key ?new) (dbOrders s) \<noteq> None"
    using assms(5,6) by (auto simp: find_None_iff in_set_conv_nth)
  ultimately have "dbOrders t = map (\<lambda>x. if same_key ?new x
      then upsert_merge P (dbServerNow s) (dbOrderEvents s) x ?new else x) (dbOrders s)"
    by (auto simp: upsertOrderSQL_def Let_def split: if_splits)
  with assms(3,5,6) show ?thesis
    by (simp add: upsert_merge_def Let_def order_values_def nullTime_def of_null_def)
qed

text \<open>The demonstration order without a creation time, and its upsert.\<close>

definition demo_plain :: Order where
  "demo_plain = demo_order\<lparr>oCreatedAt := zeroTime\<rparr>"

lemma demo_plain_normal: "normalizeOrder demo_plain = Inr demo_plain"
proof -
  have "trimOrder demo_plain = (trimOrder demo_order)\<lparr>oCreatedAt := zeroTime\<rparr>"
    by (simp add: trimOrder_def demo_plain_def)
  then have trim: "trimOrder demo_plain = demo_plain" by (simp only: demo_trim demo_plain_def)
  have "orderInputError demo_plain = orderInputError demo_order"
    by (simp add: orderInputError_def demo_plain_def)
  moreover have "orderInputError demo_order = None"
    using demo_normal by (auto simp: demo_trim elim: normalizeOrder_form)
  moreover have "normalizeOrderTradeDate demo_plain = Inr ''2024-02-29''"
    by (simp add: normalizeOrderTradeDate_def demo_plain_def demo_order_def demo_date)
  moreover have "settleOrder demo_plain = demo_plain"
    by (simp add: settleOrder_def orderState_def NormalizeOrderExecutionState_def demo_plain_def demo_order_def
        Order0_def status_defs gatewayStatusForOrderStatus_def)
  moreover have "demo_plain\<lparr>oTradeDate := ''2024-02-29''\<rparr> = demo_plain"
    by (simp add: demo_plain_def demo_order_def)
  ultimately show ?thesis by (simp only: normalizeOrder_def trim Let_def option.case sum.case)
qed

lemma demo_plain_upsert: "fst (UpsertOrder demo_pg demo_plain demo_db) = Inr ()"
proof -
  have "order_marshals demo_plain"
    by (simp add: order_marshals_def demo_plain_def demo_order_def Order0_def finite_float_def fzero_def)
  moreover have c: "orders_check (order_values demo_pg now demo_plain)" for now
    by (simp add: orders_check_def order_values_def demo_plain_def demo_order_def Order0_def demo_pg_def
        Exchange_Valid_def TradeSide_Valid_def BusinessType_Valid_def status_defs nullString_def nullInt64_def fzero_def)
  moreover have "orders_check (upsert_merge demo_pg now [] (order_values demo_pg 0 demo_order)
      (order_values demo_pg now demo_plain))" for now
    using c [of now]
    by (simp add: orders_check_def upsert_merge_def Let_def order_values_def demo_plain_def demo_order_def Order0_def
        jsonb_of_ctx_def coalesce_def nullString_def nullInt64_def)
  moreover have "same_key (order_values demo_pg now demo_plain) (order_values demo_pg 0 demo_order)" for now
    by (simp add: same_key_def order_values_def demo_plain_def)
  ultimately show ?thesis
    by (simp add: UpsertOrder_def demo_plain_normal writeOrder_def run_stmt_def upsertOrderSQL_def demo_db_def)
qed

theorem upsert_overwrites_created_at_witness:
  "wCreatedAt (dbOrders demo_db ! 0) = 1700000000 * second
   \<and> wCreatedAt (dbOrders (snd (UpsertOrder demo_pg demo_plain demo_db)) ! 0) = 1700000002 * second"
proof
  show "wCreatedAt (dbOrders demo_db ! 0) = 1700000000 * second"
    by (simp add: demo_db_def order_values_def demo_pg_def demo_order_def of_null_def nullTime_def
        IsZero_def zeroTime_def second_def)
  have "wCreatedAt (dbOrders (snd (UpsertOrder demo_pg demo_plain demo_db)) ! 0)
      = pg_time demo_pg (dbServerNow demo_db)"
  proof (rule upsert_overwrites_created_at [OF _ demo_plain_normal])
    show "UpsertOrder demo_pg demo_plain demo_db = (Inr (), snd (UpsertOrder demo_pg demo_plain demo_db))"
      using demo_plain_upsert by (simp add: prod_eq_iff)
    show "same_key (order_values demo_pg (dbServerNow demo_db) demo_plain) (dbOrders demo_db ! 0)"
      by (simp add: same_key_def order_values_def demo_plain_def demo_db_def)
  qed (simp_all add: demo_db_def demo_plain_def IsZero_def)
  then show "wCreatedAt (dbOrders (snd (UpsertOrder demo_pg demo_plain demo_db)) ! 0) = 1700000002 * second"
    by (simp add: demo_pg_def demo_db_def)
qed

end
