(* ===== verification/Relay.thy ===== *)
theory Relay
  imports Order_Safety Ledger_Laws
begin

text \<open>
  The running relay: the ledger of \<^verbatim>\<open>internal/ledger\<close>, the Redis command streams that
  \<^verbatim>\<open>RedisCommandPublisher\<close> of \<^verbatim>\<open>internal/redisstream/command.go\<close> appends to, the default id generator
  and the system clock, put together as the service of \<^verbatim>\<open>internal/orderflow\<close>. The clock moves on
  whenever it is read. Database and Redis fail as their schedules say, before or after the effect.
\<close>

section \<open>The world\<close>

record stream_entry =
  seStream :: string
  seID :: string
  seEnvelope :: CommandEnvelope
  seBody :: string

record relay = "json ledger_db" +
  rlLog :: "stream_entry list"
  rlFaults :: "fault list"
  rlCounter :: nat
  rlTicks :: "nat list"

definition readClock :: "relay \<Rightarrow> gotime \<times> relay" where
  "readClock s =
     (dbClientNow s,
      case rlTicks s of [] \<Rightarrow> s | d # ds \<Rightarrow> s\<lparr>rlTicks := ds, dbClientNow := dbClientNow s + int d\<rparr>)"

definition NewID :: "string \<Rightarrow> (relay, string) act" where
  "NewID kind s =
     (case readClock s of
        (now, s1) \<Rightarrow>
          let n = wrapu64 (rlCounter s1 + 1)
          in (Inr (kind @ ''-'' @ Itoa now @ ''-'' @ Utoa n), s1\<lparr>rlCounter := n\<rparr>))"

text \<open>\<^verbatim>\<open>XADD\<close>: \<open>xid\<close> is the entry id the server assigns.\<close>

definition PublishCommand ::
    "codec \<Rightarrow> (stream_entry list \<Rightarrow> string) \<Rightarrow> string \<Rightarrow> CommandEnvelope \<Rightarrow> (relay, CommandPublishResult) act" where
  "PublishCommand C xid streamKey envelope s =
     (case encode_envelope envelope of
        None \<Rightarrow> (Inl (ErrJSON ''marshal redis command''), s)
      | Some v \<Rightarrow>
          let body = js_print C v; streamID = xid (rlLog s);
              added = (\<lambda>s. s\<lparr>rlLog := rlLog s @ [\<lparr>seStream = streamKey, seID = streamID,
                              seEnvelope = envelope, seBody = body\<rparr>]\<rparr>);
              reply = Inr \<lparr>prStreamKey = streamKey, prStreamID = streamID, prBodyBytes = length body\<rparr>
          in case rlFaults s of
               [] \<Rightarrow> (reply, added s)
             | f # fs \<Rightarrow>
                 let s1 = s\<lparr>rlFaults := fs\<rparr>
                 in case f of
                      NoFault \<Rightarrow> (reply, added s1)
                    | FaultBefore \<Rightarrow> (Inl (ErrPublish ''XADD''), s1)
                    | FaultAfter \<Rightarrow> (Inl (ErrPublish ''XADD''), added s1))"

text \<open>The service wired to the repository. \<open>other\<close> supplies the reads of tables outside the order
  ledger.\<close>

definition relay_ledger :: "pg \<Rightarrow> relay LedgerWriter \<Rightarrow> relay LedgerWriter" where
  "relay_ledger P other = other\<lparr>
     lwUpsertAccount := UpsertAccount, lwCreateOrder := CreateOrder P, lwGetOrder := GetOrder,
     lwGetOrderByIdempotencyKey := GetOrderByIdempotencyKey, lwListOrders := ListOrders,
     lwArchiveRawStreamMessage := ArchiveRawStreamMessage P, lwGetArchivedCommand := GetArchivedCommand,
     lwGetArchivedCommandByMessageID := GetArchivedCommandByMessageID\<rparr>"

definition relay_service ::
    "Config \<Rightarrow> pg \<Rightarrow> codec \<Rightarrow> (stream_entry list \<Rightarrow> string) \<Rightarrow> relay LedgerWriter \<Rightarrow> relay Service" where
  "relay_service cfg P C xid other =
     \<lparr>svConfig = cfg, svLedger = relay_ledger P other, svPublisher = Some (PublishCommand C xid),
      svNewID = NewID, svNow = of_total readClock, svCodec = C\<rparr>"

definition row_keys :: "order_row \<Rightarrow> (string \<times> string) set" where
  "row_keys r = (case wIdempotencyKey r of None \<Rightarrow> {} | Some k \<Rightarrow> {(wAccountID r, k)})"

definition reserved_keys :: "relay \<Rightarrow> (string \<times> string) set" where
  "reserved_keys s = \<Union> (row_keys ` set (dbOrders s))"

definition sent :: "relay \<Rightarrow> CommandEnvelope list" where
  "sent s = map seEnvelope (rlLog s)"

section \<open>The repository does not publish\<close>

definition same_log :: "relay \<Rightarrow> relay \<Rightarrow> bool" where
  "same_log s t \<longleftrightarrow> rlLog t = rlLog s"

interpretation log: world_preorder same_log
  by unfold_locales (auto simp: same_log_def)

lemma run_stmt_log: "stays same_log m \<Longrightarrow> stays same_log (run_stmt m)"
proof (rule staysI)
  fix s :: relay assume m: "stays same_log m"
  have "rlLog (snd (m (s\<lparr>dbFaults := fs\<rparr>))) = rlLog s" for fs
    using stays_snd [OF m, of "s\<lparr>dbFaults := fs\<rparr>"] by (simp add: same_log_def)
  moreover have "rlLog (snd (m s)) = rlLog s" using stays_snd [OF m, of s] by (simp add: same_log_def)
  ultimately show "same_log s (snd (run_stmt m s))"
    by (simp add: run_stmt_def same_log_def Let_def split: list.split fault.split)
qed

lemma insert_log: "stays same_log (run_stmt (\<lambda>s. insertOrderSQL (order_values P (dbServerNow s) n) s))"
  by (rule run_stmt_log) (simp add: stays_def same_log_def insertOrderSQL_def add_order_row_def)

lemma account_log: "stays same_log (run_stmt (\<lambda>s. if b then (Inl e, s) else (Inr (), dbAccounts_update (f s) s)))"
  by (rule run_stmt_log) (simp add: stays_def same_log_def)

lemma archive_log: "stays same_log (run_stmt (archiveRawStreamMessageSQL m))"
  by (rule run_stmt_log) (simp add: stays_def same_log_def archiveRawStreamMessageSQL_def)

lemma query_log: "stays same_log (run_stmt (\<lambda>s. (Inr (f s), s)))"
  by (rule run_stmt_log) (simp add: stays_def same_log_def)

lemma CreateOrder_log: "stays same_log (CreateOrder P ord)"
  by (rule staysI)
    (simp add: CreateOrder_state writeOrder_def log.R_refl stays_snd [OF insert_log] split: sum.split)

lemma UpsertAccount_log: "stays same_log (UpsertAccount acc)"
  unfolding UpsertAccount_def Let_def
  by (rule staysI) (simp add: log.R_refl stays_snd [OF account_log] del: insert_iff)

lemma Archive_log: "stays same_log (ArchiveRawStreamMessage P raw)"
  by (rule staysI) (simp add: ArchiveRawStreamMessage_def log.R_refl stays_snd [OF archive_log])

lemma reads_log:
  "stays same_log (GetOrder a g)" "stays same_log (GetOrderByIdempotencyKey a k)"
  "stays same_log (GetArchivedCommand a c k)" "stays same_log (GetArchivedCommandByMessageID m)"
  unfolding GetOrder_def GetOrderByIdempotencyKey_def read_one_def GetArchivedCommand_def
    GetArchivedCommandByMessageID_def queryArchivedCommand_def
  by (intro log.rules query_log)+

lemma reserved_grows: "db_rel row_evolves s t \<Longrightarrow> reserved_keys s \<subseteq> reserved_keys t"
proof
  fix x assume e: "db_rel row_evolves s t" and "x \<in> reserved_keys s"
  then obtain r where x: "x \<in> row_keys r" "r \<in> set (dbOrders s)"
    by (auto simp: reserved_keys_def)
  obtain r' where r': "r' \<in> set (dbOrders t)" "row_evolves r r'"
    using e [unfolded db_rel_def] x(2) by (rule rows_evolve_mem)
  from x(1) r'(2) have "x \<in> row_keys r'"
    by (auto simp: row_keys_def row_evolves_def set_once_def split: option.splits)
  with r'(1) show "x \<in> reserved_keys t" by (auto simp: reserved_keys_def)
qed

lemma quietI: "stays (db_rel row_evolves) m \<Longrightarrow> stays same_log m \<Longrightarrow> stays (quiet reserved_keys sent) m"
  using reserved_grows by (auto simp: stays_def quiet_def sent_def same_log_def)

lemma quiet_same: "(\<And>s. dbOrders (snd (m s)) = dbOrders s) \<Longrightarrow> (\<And>s. rlLog (snd (m s)) = rlLog s) \<Longrightarrow>
    stays (quiet reserved_keys sent) m"
  by (simp add: stays_def quiet_def reserved_keys_def sent_def)

lemma readClock_same [simp]:
  "dbOrders (snd (readClock s)) = dbOrders s" "rlLog (snd (readClock s)) = rlLog s"
  by (simp_all add: readClock_def split: list.split)

lemma create_reserves_key:
  assumes "CreateOrder P ord s = (Inr (), t)" and "snd (order_identity ord) \<noteq> []"
  shows "order_identity ord \<notin> reserved_keys s \<and> order_identity ord \<in> reserved_keys t"
proof -
  from assms(1) obtain n fs where n: "normalizeOrder ord = Inr n"
    and free: "\<not> list_ex (same_alias (order_values P (dbServerNow s) n)) (dbOrders s)"
    and t: "t = s\<lparr>dbFaults := fs, dbOrders := dbOrders s @ [order_values P (dbServerNow s) n]\<rparr>"
    by (rule CreateOrder_success)
  obtain d where "n = settleOrder ((trimOrder ord)\<lparr>oTradeDate := d\<rparr>)" using n by (rule normalizeOrder_form)
  then have k: "(wAccountID (order_values P (dbServerNow s) n), wIdempotencyKey (order_values P (dbServerNow s) n))
      = (fst (order_identity ord), Some (snd (order_identity ord)))"
    using assms(2) by (simp add: order_values_def trimOrder_def order_identity_def nullString_def)
  have "order_identity ord \<notin> row_keys r" if "r \<in> set (dbOrders s)" for r
    using that free k by (auto simp: row_keys_def list_ex_iff same_alias_def split: option.splits)
  then have "order_identity ord \<notin> reserved_keys s" by (auto simp: reserved_keys_def)
  moreover have "order_identity ord \<in> row_keys (order_values P (dbServerNow s) n)"
    using k by (simp add: row_keys_def)
  then have "order_identity ord \<in> reserved_keys t" by (auto simp: reserved_keys_def t)
  ultimately show ?thesis ..
qed

lemma PublishCommand_effect:
  "PublishCommand C xid key e s = (r, t) \<Longrightarrow>
    dbOrders t = dbOrders s \<and> (rlLog t = rlLog s \<or> sent t = sent s @ [e])"
  by (auto simp: PublishCommand_def sent_def Let_def split: option.splits list.splits fault.splits)

interpretation relay: order_service "relay_service cfg P C xid other" reserved_keys sent
proof unfold_locales
  fix publish key e s r t
  assume "svPublisher (relay_service cfg P C xid other) = Some publish" and "publish key e s = (r, t)"
  then show "reserved_keys t = reserved_keys s \<and> (sent t = sent s \<or> sent t = sent s @ [e])"
    using PublishCommand_effect [of C xid key e s r t]
    by (auto simp: relay_service_def reserved_keys_def sent_def [of s] sent_def [of t])
next
  fix acc ord a g k c m raw p and s t :: relay
  let ?L = "svLedger (relay_service cfg P C xid other)"
  show "stays (quiet reserved_keys sent) (lwUpsertAccount ?L acc)"
    "stays (quiet reserved_keys sent) (lwCreateOrder ?L ord)"
    "stays (quiet reserved_keys sent) (lwGetOrder ?L a g)"
    "stays (quiet reserved_keys sent) (lwGetOrderByIdempotencyKey ?L a k)"
    "stays (quiet reserved_keys sent) (lwGetArchivedCommand ?L a c k)"
    "stays (quiet reserved_keys sent) (lwGetArchivedCommandByMessageID ?L m)"
    "stays (quiet reserved_keys sent) (lwArchiveRawStreamMessage ?L raw)"
    by (simp_all add: relay_service_def relay_ledger_def quietI UpsertAccount_log CreateOrder_log reads_log
        Archive_log identity.UpsertAccount_rel identity.CreateOrder_rel identity.reads_rel identity.Archive_rel)
  show "stays (quiet reserved_keys sent) (svNewID (relay_service cfg P C xid other) p)"
    by (rule quiet_same)
      (simp_all add: relay_service_def NewID_def Let_def split: prod.split, (metis readClock_same snd_conv)+)
  show "stays (quiet reserved_keys sent) (svNow (relay_service cfg P C xid other))"
    by (rule quiet_same) (simp_all add: relay_service_def of_total_def split: prod.split, (metis readClock_same snd_conv)+)
  assume "lwCreateOrder ?L ord s = (Inr (), t)" and "snd (order_identity ord) \<noteq> []"
  then show "order_identity ord \<notin> reserved_keys s \<and> order_identity ord \<in> reserved_keys t"
    by (intro create_reserves_key) (simp_all add: relay_service_def relay_ledger_def)
qed

lemma upsert_log: "stays same_log (run_stmt (\<lambda>s. upsertOrderSQL P (order_values P (dbServerNow s) n) s))"
  by (rule run_stmt_log)
    (auto simp: stays_def same_log_def upsertOrderSQL_def add_order_row_def Let_def split: option.split)

lemma update_log: "stays same_log (run_stmt (updateOrderStatusSQL P ev))"
  by (rule run_stmt_log) (simp add: stays_def same_log_def updateOrderStatusSQL_def Let_def)

lemma append_log: "stays same_log (run_stmt (appendOrderEventSQL v))"
  by (rule run_stmt_log) (simp add: stays_def same_log_def appendOrderEventSQL_def)

lemma ledger_step_log: "same_log s (ledger_step P c s)"
proof (cases c)
  case (CallUpsertOrder ord)
  then show ?thesis
    by (simp add: UpsertOrder_def writeOrder_def log.R_refl stays_snd [OF upsert_log] split: sum.split)
next
  case (CallUpdateOrderStatus ev)
  then show ?thesis by (simp add: UpdateOrderStatus_state log.R_refl stays_snd [OF update_log] split: sum.split)
next
  case (CallAppendOrderEvent ev stream source)
  then show ?thesis by (simp add: AppendOrderEvent_def log.R_refl stays_snd [OF append_log] split: sum.split)
qed (simp_all add: stays_snd CreateOrder_log UpsertAccount_log Archive_log, simp_all add: same_log_def)

section \<open>Runs\<close>

text \<open>What happens to a relay: requests in any order, writes of the stream consumer to the ledger,
  failures of the database and of Redis, and time.\<close>

datatype relay_call =
    Submit SubmitOrderRequest string | BatchSubmit BatchSubmitOrderRequest string
  | Cancel CancelOrderRequest string | Query string string string string string
  | Ledger "json ledger_call" | RedisFaults "fault list" | Ticks "nat list"

fun relay_step :: "relay Service \<Rightarrow> pg \<Rightarrow> relay_call \<Rightarrow> relay \<Rightarrow> relay" where
  "relay_step service P (Submit req rid) s = snd (SubmitOrder service req rid s)"
| "relay_step service P (BatchSubmit req rid) s = snd (BatchSubmitOrders service req rid s)"
| "relay_step service P (Cancel req rid) s = snd (CancelOrder service req rid s)"
| "relay_step service P (Query acct action kind rid d) s = snd (publishAccountQuery service acct action kind rid d s)"
| "relay_step service P (Ledger c) s = ledger_step P c s"
| "relay_step service P (RedisFaults fs) s = s\<lparr>rlFaults := fs\<rparr>"
| "relay_step service P (Ticks ds) s = s\<lparr>rlTicks := ds\<rparr>"

definition relay_run :: "relay Service \<Rightarrow> pg \<Rightarrow> relay_call list \<Rightarrow> relay \<Rightarrow> relay" where
  "relay_run service P calls s = fold (relay_step service P) calls s"

definition relay_safe :: "relay \<Rightarrow> bool" where
  "relay_safe s \<longleftrightarrow> at_most_once (reserved_keys s) (sent s)"

lemma relay_step_safe: "relay_safe s \<Longrightarrow> relay_safe (relay_step (relay_service cfg P C xid other) P c s)"
proof (cases c)
  case (Ledger l)
  assume "relay_safe s"
  have "db_rel row_evolves s (ledger_step P l s)"
    by (rule identity.step_rel) (simp add: identity.permitted_def split: ledger_call.split)
  then have "reserved_keys s \<subseteq> reserved_keys (ledger_step P l s)" by (rule reserved_grows)
  moreover have "sent (ledger_step P l s) = sent s"
    using ledger_step_log [of s P l] by (simp add: sent_def same_log_def)
  ultimately show ?thesis using \<open>relay_safe s\<close> Ledger by (auto simp: relay_safe_def intro: at_most_once_grow)
qed (use relay.SubmitOrder_safe relay.BatchSubmitOrders_safe relay.CancelOrder_safe relay.publishAccountQuery_safe
      in \<open>auto simp: keeps_def relay_safe_def reserved_keys_def sent_def\<close>)

lemma relay_run_safe: "relay_safe s \<Longrightarrow> relay_safe (relay_run (relay_service cfg P C xid other) P calls s)"
  unfolding relay_run_def by (induction calls arbitrary: s) (simp_all add: relay_step_safe)

section \<open>Properties\<close>

text \<open>C1: No order is sent to the market twice. Start from any ledger and empty command streams and
  let anything happen: submissions, batches, cancels and queries in any order and with any
  retries, stream consumer writes to the ledger, failures of the database and of Redis before or
  after their effect, clocks that jump. Among all the orders of all the submit and batch commands
  that were ever appended to a stream, no account and idempotency key occurs twice; and each of
  them is the key of a stored order.\<close>

theorem order_published_at_most_once:
  assumes "rlLog s = []"
  shows "at_most_once (reserved_keys (relay_run (relay_service cfg P C xid other) P calls s))
    (sent (relay_run (relay_service cfg P C xid other) P calls s))"
proof -
  have "relay_safe s" using assms by (simp add: relay_safe_def sent_def at_most_once_def published_keys_def)
  then show ?thesis using relay_run_safe by (simp add: relay_safe_def)
qed

text \<open>A relay for one account, with a ledger that serves the order tables only.\<close>

definition demo_cfg :: Config where
  "demo_cfg = \<lparr>cfgAccounts = [\<lparr>rcAccountID = ''A1'', rcBrokerID = ''B1'', rcGatewayID = ''G1'',
       rcStreamPrefix = ''prod'', rcEnabled = True, rcTradingEnabled = True, rcSimulated = False\<rparr>],
     cfgRedis = \<lparr>rdEnv = [], rdBrokerID = [], rdGatewayID = []\<rparr>\<rparr>"

definition demo_other :: "relay LedgerWriter" where
  "demo_other = \<lparr>lwUpsertAccount = UpsertAccount, lwCreateOrder = CreateOrder demo_pg, lwGetOrder = GetOrder,
     lwGetOrderByIdempotencyKey = GetOrderByIdempotencyKey, lwListOrders = ListOrders,
     lwListFills = (\<lambda>_. raise ErrMissingLedger), lwListComponentTransfers = None,
     lwGetLatestAsset = (\<lambda>_. raise ErrMissingLedger), lwListPositions = (\<lambda>_. raise ErrMissingLedger),
     lwListPositionSnapshots = (\<lambda>_. raise ErrMissingLedger),
     lwArchiveRawStreamMessage = ArchiveRawStreamMessage demo_pg, lwGetArchivedCommand = GetArchivedCommand,
     lwGetArchivedCommandByMessageID = GetArchivedCommandByMessageID\<rparr>"

definition demo_relay :: relay where
  "demo_relay = \<lparr>dbAccounts = Map.empty, dbOrders = [], dbOrderEvents = [], dbRaw = [],
     dbServerNow = 1700000002 * second, dbClientNow = 1700000002 * second, dbFaults = [],
     rlLog = [], rlFaults = [], rlCounter = 0, rlTicks = []\<rparr>"

definition demo_codec :: codec where
  "demo_codec = \<lparr>js_print = (\<lambda>_. ''{}''), js_parse = (\<lambda>_. Some (JObj []))\<rparr>"

definition demo_service :: "relay Service" where
  "demo_service = relay_service demo_cfg demo_pg demo_codec (\<lambda>log. Utoa (length log)) demo_other"

theorem order_published_at_most_once_witness:
  "rlLog demo_relay = []
   \<and> at_most_once
       (reserved_keys (relay_run demo_service demo_pg
          [RedisFaults [FaultAfter], Submit demo_submit [], Submit demo_submit [],
           BatchSubmit \<lparr>bAccountID = ''A1'', bOrders = [demo_submit], bIdempotencyKey = []\<rparr> []] demo_relay))
       (sent (relay_run demo_service demo_pg
          [RedisFaults [FaultAfter], Submit demo_submit [], Submit demo_submit [],
           BatchSubmit \<lparr>bAccountID = ''A1'', bOrders = [demo_submit], bIdempotencyKey = []\<rparr> []] demo_relay))"
proof
  show log: "rlLog demo_relay = []" by (simp add: demo_relay_def)
  show "at_most_once
       (reserved_keys (relay_run demo_service demo_pg
          [RedisFaults [FaultAfter], Submit demo_submit [], Submit demo_submit [],
           BatchSubmit \<lparr>bAccountID = ''A1'', bOrders = [demo_submit], bIdempotencyKey = []\<rparr> []] demo_relay))
       (sent (relay_run demo_service demo_pg
          [RedisFaults [FaultAfter], Submit demo_submit [], Submit demo_submit [],
           BatchSubmit \<lparr>bAccountID = ''A1'', bOrders = [demo_submit], bIdempotencyKey = []\<rparr> []] demo_relay))"
    unfolding demo_service_def by (rule order_published_at_most_once [OF log])
qed

end
