(* ===== verification/Replay.thy ===== *)
theory Replay
  imports Relay
begin

text \<open>
  Idempotent submission. Repeating a submit request that was accepted answers with the stored
  order, marked as replayed, and publishes nothing. The theory follows one accepted submission
  through the running relay without failures and then evaluates the second one on the state it
  leaves.
\<close>

section \<open>Calm states\<close>

definition calm :: "relay \<Rightarrow> bool" where
  "calm s \<longleftrightarrow> dbFaults s = [] \<and> rlFaults s = []"

text \<open>Steps that touch neither the orders nor the archive nor the streams.\<close>

definition same_store :: "relay \<Rightarrow> relay \<Rightarrow> bool" where
  "same_store s t \<longleftrightarrow> dbOrders t = dbOrders s \<and> dbRaw t = dbRaw s \<and> rlLog t = rlLog s
     \<and> dbFaults t = dbFaults s \<and> rlFaults t = rlFaults s"

interpretation store: world_preorder same_store
  by unfold_locales (auto simp: same_store_def)

lemma same_store_calm: "same_store s t \<Longrightarrow> calm s \<Longrightarrow> calm t"
  by (simp add: same_store_def calm_def)

lemma run_stmt_calm: "calm s \<Longrightarrow> run_stmt m s = m s"
  by (simp add: run_stmt_def calm_def)

lemma readClock_store: "same_store s (snd (readClock s))"
  by (simp add: readClock_def same_store_def split: list.split)

lemma NewID_store: "NewID k s = (r, t) \<Longrightarrow> same_store s t"
  using readClock_store [of s] by (auto simp: NewID_def same_store_def Let_def simp del: readClock_same split: prod.splits)

lemma UpsertAccount_store:
  "calm s \<Longrightarrow> UpsertAccount acc s = (r, t) \<Longrightarrow> same_store s t \<and> dbServerNow t = dbServerNow s"
  by (auto simp: UpsertAccount_def Let_def run_stmt_calm same_store_def split: if_splits)

lemma GetOrder_calm:
  assumes "calm s" and "TrimSpace a \<noteq> []" and "TrimSpace g \<noteq> []"
  shows "GetOrder a g s = (case getOrderSQL (TrimSpace a) (TrimSpace g) (dbOrders s) of
    [] \<Rightarrow> Inl (ErrOrderNotFound (TrimSpace g)) | r # _ \<Rightarrow> scanOrder r, s)"
  using assms by (simp add: GetOrder_def Let_def read_one_def seq_def run_stmt_calm of_res_def split: list.split)

lemma queryArchivedCommand_calm:
  assumes "calm s"
  shows "queryArchivedCommand p s =
    (case order_by oldest_first (filter (\<lambda>m. is_command m \<and> p m) (dbRaw s)) of
       [] \<Rightarrow> Inl ErrArchivedCommandNotFound | m # _ \<Rightarrow> Inr m, s)"
  using assms by (simp add: queryArchivedCommand_def seq_def run_stmt_calm split: list.split)

section \<open>The first submission\<close>

lemma getOrderSQL_Nil: "getOrderSQL a g rows = [] \<longleftrightarrow>
    filter (\<lambda>r. wAccountID r = a \<and> wGatewayOrderID r = g) rows = []"
  by (simp add: getOrderSQL_def)

lemma scanOrder_error: "scanOrder r = Inl e \<Longrightarrow> e = ErrJSON ''adapter_context''"
  by (auto simp: scanOrder_def scan_context_def Let_def split: sum.splits prod.splits jsonb.splits if_splits)

text \<open>The preflight of a new order found no order with its gateway order id.\<close>

lemma preflight_None:
  assumes "calm s" and "TrimSpace (sAccountID req) \<noteq> []" and "TrimSpace (sGatewayOrderID req) \<noteq> []"
    and "preflightSubmitOrder (relay_service cfg P C xid other) req s = (Inr None, t)"
  shows "getOrderSQL (TrimSpace (sAccountID req)) (TrimSpace (sGatewayOrderID req)) (dbOrders s) = []"
proof (rule ccontr)
  assume "getOrderSQL (TrimSpace (sAccountID req)) (TrimSpace (sGatewayOrderID req)) (dbOrders s) \<noteq> []"
  then obtain r rs where "getOrderSQL (TrimSpace (sAccountID req)) (TrimSpace (sGatewayOrderID req)) (dbOrders s) = r # rs"
    by (meson neq_Nil_conv)
  then have g: "GetOrder (sAccountID req) (sGatewayOrderID req) s = (scanOrder r, s)"
    using GetOrder_calm [OF assms(1-3)] by simp
  with assms(4) show False
    by (cases "scanOrder r")
      (auto simp: preflightSubmitOrder_def relay_service_def relay_ledger_def attempt_def seq_def
        split: if_splits sum.splits prod.splits dest!: scanOrder_error)
qed

text \<open>The request as the service completes it when it carries a gateway order id and a trade date.\<close>

definition completed :: "SubmitOrderRequest \<Rightarrow> SubmitOrderRequest" where
  "completed req = req\<lparr>
     sIdempotencyKey := (if TrimSpace (sIdempotencyKey req) = []
       then ''order:'' @ sAccountID req @ '':'' @ sGatewayOrderID req else sIdempotencyKey req),
     sClientOrderID := (if TrimSpace (sClientOrderID req) = [] then sGatewayOrderID req else sClientOrderID req),
     sTradeDate := submitTradeDate (sTradeDate req) zeroTime\<rparr>"

lemma completed_fields [simp]:
  "sAccountID (completed req) = sAccountID req" "sGatewayOrderID (completed req) = sGatewayOrderID req"
  "sPrice (completed req) = sPrice req" "sQty (completed req) = sQty req"
  by (simp_all add: completed_def)

lemma submitTradeDate_given: "TrimSpace d \<noteq> [] \<Longrightarrow> submitTradeDate d now = submitTradeDate d zeroTime"
  by (simp add: submitTradeDate_def Let_def)

lemma completeSubmit_given:
  assumes "TrimSpace (sGatewayOrderID req) \<noteq> []"
  shows "completeSubmit service req s = (Inr (req\<lparr>
     sIdempotencyKey := (if TrimSpace (sIdempotencyKey req) = []
       then ''order:'' @ sAccountID req @ '':'' @ sGatewayOrderID req else sIdempotencyKey req),
     sClientOrderID := (if TrimSpace (sClientOrderID req) = [] then sGatewayOrderID req else sClientOrderID req)\<rparr>), s)"
proof -
  have g: "orNewID service (sGatewayOrderID req) ''gw'' s = (Inr (sGatewayOrderID req), s)"
    using assms by (simp add: orNewID_def)
  show ?thesis unfolding completeSubmit_def seq_Inr [where m = "orNewID service (sGatewayOrderID req) ''gw''", OF g]
    by (cases req) simp
qed

text \<open>What an accepted submission leaves behind.\<close>

lemma archived_in:
  assumes "calm s" and "ArchiveRawStreamMessage P raw s = (Inr (), t)"
  shows "dbOrders t = dbOrders s \<and> rlLog t = rlLog s \<and> dbFaults t = dbFaults s \<and> rlFaults t = rlFaults s
    \<and> stored_raw P (dbClientNow s) raw \<in> set (dbRaw t)
    \<and> set (dbRaw t) \<subseteq> insert (stored_raw P (dbClientNow s) raw) (set (dbRaw s))"
  using assms
  by (auto simp: ArchiveRawStreamMessage_def run_stmt_calm archiveRawStreamMessageSQL_def list_ex_iff split: if_splits)

lemma PublishCommand_calm:
  assumes "calm s" and "PublishCommand C xid key e s = (Inr p, t)"
  shows "\<exists>v. encode_envelope e = Some v \<and> t = s\<lparr>rlLog := rlLog s @
    [\<lparr>seStream = key, seID = xid (rlLog s), seEnvelope = e, seBody = js_print C v\<rparr>]\<rparr>"
  using assms by (auto simp: PublishCommand_def calm_def Let_def split: option.splits)

lemma replayedSubmitResult_flag: "replayedSubmitResult service ord k rid s = (Inr r, t) \<Longrightarrow> srReplayed r"
  by (auto simp: replayedSubmitResult_def Let_def elim!: seq_InrE)

text \<open>The archived copy of a command.\<close>

definition archived_copy :: "codec \<Rightarrow> CommandEnvelope \<Rightarrow> json \<Rightarrow> json RawStreamMessage \<Rightarrow> bool" where
  "archived_copy C e v raw \<longleftrightarrow>
     encode_envelope e = Some v \<and> rmOriginMessageID raw = TrimSpace (ceMessageID e)
     \<and> is_command raw \<and> rmAction raw = TrimSpace (ceAction e)
     \<and> rmBodyText raw = TrimSpace (js_print C v)"

lemma publishAndArchive_calm:
  assumes "calm s"
    and "publishAndArchive (relay_service cfg P C xid other) (PublishCommand C xid) route e SuffixCmdTrade a g s = (Inr p, t)"
    and "TrimSpace (ceMessageType e) = ''command''"
  obtains v raw where "archived_copy C e v raw" and "raw \<in> set (dbRaw t)"
    and "set (dbRaw t) \<subseteq> insert raw (set (dbRaw s))"
    and "dbOrders t = dbOrders s" and "sent t = sent s @ [e]" and "calm t"
proof -
  let ?S = "relay_service cfg P C xid other"
  from assms(2) obtain key u where pub: "PublishCommand C xid key e s = (Inr p, u)"
    and arch: "archiveCommand ?S p e SuffixCmdTrade a g u = (Inr (), t)"
    by (auto simp: publishAndArchive_def split: sum.splits elim!: seq_InrE)
  from PublishCommand_calm [OF assms(1) pub] obtain v where v: "encode_envelope e = Some v"
    and u: "u = s\<lparr>rlLog := rlLog s @ [\<lparr>seStream = key, seID = xid (rlLog s), seEnvelope = e, seBody = js_print C v\<rparr>]\<rparr>"
    by blast
  define w where "w = snd (readClock u)"
  have w: "same_store u w" unfolding w_def by (rule readClock_store)
  have "calm u" using assms(1) by (simp add: u calm_def)
  then have "calm w" by (rule same_store_calm [OF w])
  from arch v obtain raw0 where raw0: "ArchiveRawStreamMessage P raw0 w = (Inr (), t)"
    and f: "rmOriginMessageID raw0 = ceMessageID e" "rmDirection raw0 = ''in''" "rmRole raw0 = SuffixCmdTrade"
      "rmMessageType raw0 = ceMessageType e" "rmAction raw0 = ceAction e" "rmBodyText raw0 = js_print C v"
    by (fastforce simp: archiveCommand_def relay_service_def relay_ledger_def of_total_def w_def
        split: prod.splits elim!: seq_InrE)
  note a = archived_in [OF \<open>calm w\<close> raw0]
  show thesis
  proof (rule that)
    show "archived_copy C e v (stored_raw P (dbClientNow w) raw0)"
      using v f assms(3) by (simp add: archived_copy_def stored_raw_def is_command_def SuffixCmdTrade_def)
    show "stored_raw P (dbClientNow w) raw0 \<in> set (dbRaw t)" using a by blast
    show "set (dbRaw t) \<subseteq> insert (stored_raw P (dbClientNow w) raw0) (set (dbRaw s))"
      using a w by (auto simp: same_store_def u)
    show "dbOrders t = dbOrders s" "sent t = sent s @ [e]" "calm t"
      using a w \<open>calm w\<close> by (auto simp: same_store_def u sent_def calm_def)
  qed
qed

text \<open>From the reservation on.\<close>

lemma reserve_accepted:
  fixes n :: SubmitOrderRequest
  defines "draft \<equiv> \<lambda>now mid rid. (draftOrderFromRequest n now)\<lparr>oOriginMessageID := mid, oRequestID := rid\<rparr>"
    and "env \<equiv> \<lambda>now mid rid. NewCommandEnvelope now ActionOrderSubmit mid rid rid (sIdempotencyKey n) (SubmitPayload n) now"
  assumes "calm s"
    and run: "reserveAndPublish (relay_service cfg P C xid other) (PublishCommand C xid) route n now mid rid s = (Inr r, t)"
    and "\<not> srReplayed r"
  obtains m v raw where "normalizeOrder (draft now mid rid) = Inr m"
    and "dbOrders t = dbOrders s @ [order_values P (dbServerNow s) m]"
    and "archived_copy C (env now mid rid) v raw" and "raw \<in> set (dbRaw t)"
    and "set (dbRaw t) \<subseteq> insert raw (set (dbRaw s))"
    and "sent t = sent s @ [env now mid rid]" and "calm t" and "srMessageID r = mid"
proof -
  let ?S = "relay_service cfg P C xid other"
  from run obtain u x w where u: "UpsertAccount (accountFromRoute route now) s = (Inr (), u)"
    and w: "CreateOrder P (draft now mid rid) u = (x, w)"
    and rest: "(case x of
             Inl e \<Rightarrow>
               if is_ErrOrderConflict_err e
               then seq (preflightSubmitOrder ?S n) (\<lambda>found.
                      case found of
                        Some existing \<Rightarrow> replayedSubmitResult ?S existing (sIdempotencyKey n) rid
                      | None \<Rightarrow> raise e)
               else raise e
           | Inr _ \<Rightarrow>
               seq (publishAndArchive ?S (PublishCommand C xid) route (env now mid rid) SuffixCmdTrade
                      (sAccountID n) (sGatewayOrderID n)) (\<lambda>published.
                 ret \<lparr>srAccountID = sAccountID n, srAction = ActionOrderSubmit, srOrder = draft now mid rid,
                      srMessageID = mid, srStreamKey = prStreamKey published,
                      srStreamID = prStreamID published, srIdempotencyKey = sIdempotencyKey n,
                      srRequestID = rid, srPublished = published, srReplayed = False\<rparr>)) w = (Inr r, t)"
    unfolding reserveAndPublish_def Let_def draft_def env_def
    by (elim seq_InrE attemptE) (simp add: relay_service_def relay_ledger_def)
  have su: "same_store s u" "dbServerNow u = dbServerNow s" using UpsertAccount_store [OF assms(3) u] by auto
  then have cu: "calm u" using assms(3) by (blast intro: same_store_calm)
  have x: "x = Inr ()"
  proof (cases x)
    case (Inl e)
    with rest assms(5) show ?thesis
      by (auto split: if_splits option.splits elim!: seq_InrE dest: replayedSubmitResult_flag)
  qed simp
  with w obtain m fs where m: "normalizeOrder (draft now mid rid) = Inr m"
    and wf: "w = u\<lparr>dbFaults := fs, dbOrders := dbOrders u @ [order_values P (dbServerNow u) m]\<rparr>" "fs = []"
    using cu by (auto simp: calm_def elim!: CreateOrder_success)
  have cw: "calm w" using cu by (simp add: wf calm_def)
  from rest obtain p where p: "publishAndArchive ?S (PublishCommand C xid) route (env now mid rid) SuffixCmdTrade
      (sAccountID n) (sGatewayOrderID n) w = (Inr p, t)" and r: "srMessageID r = mid"
    by (auto simp: x elim!: seq_InrE)
  have "TrimSpace (ceMessageType (env now mid rid)) = ''command''"
    by (simp add: env_def TrimSpace_ascii_word)
  from publishAndArchive_calm [OF cw p this] obtain v raw
    where "archived_copy C (env now mid rid) v raw" "raw \<in> set (dbRaw t)"
      "set (dbRaw t) \<subseteq> insert raw (set (dbRaw w))" "dbOrders t = dbOrders w"
      "sent t = sent w @ [env now mid rid]" "calm t"
    by metis
  with m r su show thesis by (intro that) (simp_all add: wf same_store_def sent_def)
qed

lemma NewID_if_store:
  "(if b then NewID k else ret x) s = (Inr rid, t) \<Longrightarrow> same_store s t"
  by (auto simp: store.R_refl NewID_store split: if_splits)

lemma preflight_calm_store:
  assumes "calm s" and "preflightSubmitOrder (relay_service cfg P C xid other) req s = (r, t)"
  shows "t = s"
proof -
  have g: "snd (GetOrder a g s) = s" for a g
    by (simp add: GetOrder_def Let_def read_one_def seq_def run_stmt_calm [OF assms(1)] of_res_def split: list.split)
  have k: "snd (GetOrderByIdempotencyKey a g s) = s" for a g
    by (simp add: GetOrderByIdempotencyKey_def Let_def read_one_def seq_def run_stmt_calm [OF assms(1)] of_res_def
        split: list.split)
  have q: "snd (queryArchivedCommand p s) = s" for p
    by (simp add: queryArchivedCommand_calm [OF assms(1)])
  then have a: "snd (GetArchivedCommandByMessageID i s) = s" "snd (GetArchivedCommand x y z s) = s" for i x y z
    by (simp_all add: GetArchivedCommandByMessageID_def GetArchivedCommand_def Let_def)
  have o: "snd (sameOriginalSubmitOrder (relay_service cfg P C xid other) ord req s) = s" for ord
    using a by (auto simp: sameOriginalSubmitOrder_def attempt_def relay_service_def relay_ledger_def
        split: prod.splits sum.splits) (metis snd_conv)+
  have "snd (preflightSubmitOrder (relay_service cfg P C xid other) req s) = s"
    using g [of "sAccountID req" "sGatewayOrderID req"] k [of "sAccountID req" "sIdempotencyKey req"] o
    by (auto simp: preflightSubmitOrder_def attempt_def seq_def relay_service_def relay_ledger_def
        split: prod.splits sum.splits) (metis snd_conv)+
  with assms(2) show ?thesis by simp
qed

lemma completed_eq:
  assumes "TrimSpace (sTradeDate req) \<noteq> []"
  shows "(req\<lparr>sIdempotencyKey := (if TrimSpace (sIdempotencyKey req) = []
       then ''order:'' @ sAccountID req @ '':'' @ sGatewayOrderID req else sIdempotencyKey req),
     sClientOrderID := (if TrimSpace (sClientOrderID req) = [] then sGatewayOrderID req else sClientOrderID req)\<rparr>)
     \<lparr>sTradeDate := submitTradeDate (sTradeDate req) now\<rparr> = completed req"
  unfolding completed_def submitTradeDate_given [OF assms, of now] by (cases req) simp

lemma SubmitOrder_given:
  assumes "SubmitOrderRequest_Validate req = Inr ()" and "validateSupportedSubmitOrder req = Inr ()"
    and "routeForAccount (relay_service cfg P C xid other) (sAccountID req) = Inr route"
    and "TrimSpace (sGatewayOrderID req) \<noteq> []" and "TrimSpace (sTradeDate req) \<noteq> []"
  shows "SubmitOrder (relay_service cfg P C xid other) req rid0 s =
    seq (preflightSubmitOrder (relay_service cfg P C xid other) (completed req)) (\<lambda>found.
      case found of
        Some existing \<Rightarrow> replayedSubmitResult (relay_service cfg P C xid other) existing
          (sIdempotencyKey (completed req)) (TrimSpace rid0)
      | None \<Rightarrow> seq (NewID ''msg-order-submit'') (\<lambda>mid.
          seq (if TrimSpace rid0 = [] then NewID ''req-order-submit'' else ret (TrimSpace rid0))
            (reserveAndPublish (relay_service cfg P C xid other) (PublishCommand C xid) route (completed req)
               (dbClientNow s) mid))) (snd (readClock s))"
proof -
  have svc: "svPublisher (relay_service cfg P C xid other) = Some (PublishCommand C xid)"
    "svNow (relay_service cfg P C xid other) = of_total readClock" "svNewID (relay_service cfg P C xid other) = NewID"
    by (simp_all add: relay_service_def)
  have clock: "of_total readClock s = (Inr (dbClientNow s), snd (readClock s))"
    by (simp add: of_total_def readClock_def)
  show ?thesis
    unfolding SubmitOrder_def assms(1-3) sum.case svc option.case
      seq_Inr [where m = "completeSubmit (relay_service cfg P C xid other) req", OF completeSubmit_given [OF assms(4)]]
      seq_Inr [where m = "of_total readClock", OF clock] Let_def SubmitOrderRequest.select_convs SubmitOrderRequest.update_convs
    using completed_eq [OF assms(5), of "dbClientNow s"] by simp
qed

lemma submit_accepted:
  fixes req :: SubmitOrderRequest
  defines "draft \<equiv> \<lambda>now mid rid. (draftOrderFromRequest (completed req) now)\<lparr>oOriginMessageID := mid, oRequestID := rid\<rparr>"
    and "env \<equiv> \<lambda>now mid rid. NewCommandEnvelope now ActionOrderSubmit mid rid rid (sIdempotencyKey (completed req))
      (SubmitPayload (completed req)) now"
  assumes "calm s" and "TrimSpace (sGatewayOrderID req) \<noteq> []" and "TrimSpace (sTradeDate req) \<noteq> []"
    and run: "SubmitOrder (relay_service cfg P C xid other) req rid0 s = (Inr r, t)"
    and "\<not> srReplayed r"
  obtains now rid m v raw srv where "normalizeOrder (draft now (srMessageID r) rid) = Inr m"
    and "dbOrders t = dbOrders s @ [order_values P srv m]"
    and "archived_copy C (env now (srMessageID r) rid) v raw" and "raw \<in> set (dbRaw t)"
    and "set (dbRaw t) \<subseteq> insert raw (set (dbRaw s))"
    and "sent t = sent s @ [env now (srMessageID r) rid]" and "calm t"
    and "getOrderSQL (TrimSpace (sAccountID req)) (TrimSpace (sGatewayOrderID req)) (dbOrders s) = []"
    and "SubmitOrderRequest_Validate req = Inr ()" and "validateSupportedSubmitOrder req = Inr ()"
    and "\<exists>route. routeForAccount (relay_service cfg P C xid other) (sAccountID req) = Inr route"
    and "TrimSpace (srMessageID r) \<noteq> []"
proof -
  let ?S = "relay_service cfg P C xid other"
  have svc: "svPublisher ?S = Some (PublishCommand C xid)" "svNow ?S = of_total readClock" "svNewID ?S = NewID"
    by (simp_all add: relay_service_def)
  from run obtain route where ok: "SubmitOrderRequest_Validate req = Inr ()"
      "validateSupportedSubmitOrder req = Inr ()" "routeForAccount ?S (sAccountID req) = Inr route"
    by (auto simp: SubmitOrder_def split: sum.splits)
  define s1 where "s1 = snd (readClock s)"
  have s1: "same_store s s1" unfolding s1_def by (rule readClock_store)
  then have c1: "calm s1" using assms(3) by (rule same_store_calm)
  from run [unfolded SubmitOrder_given [OF ok assms(4,5)], folded s1_def]
  obtain found s2 where pre: "preflightSubmitOrder ?S (completed req) s1 = (Inr found, s2)"
    and rest: "(case found of
        Some existing \<Rightarrow> replayedSubmitResult ?S existing (sIdempotencyKey (completed req)) (TrimSpace rid0)
      | None \<Rightarrow> seq (NewID ''msg-order-submit'') (\<lambda>mid.
          seq (if TrimSpace rid0 = [] then NewID ''req-order-submit'' else ret (TrimSpace rid0))
            (reserveAndPublish ?S (PublishCommand C xid) route (completed req) (dbClientNow s) mid))) s2 = (Inr r, t)"
    by (elim seq_InrE)
  have s2: "s2 = s1" using pre by (rule preflight_calm_store [OF c1])
  from rest assms(7) have "found = None" by (cases found) (auto dest: replayedSubmitResult_flag)
  with rest obtain mid rid s3 s4 where id: "NewID ''msg-order-submit'' s1 = (Inr mid, s3)"
      "(if TrimSpace rid0 = [] then NewID ''req-order-submit'' else ret (TrimSpace rid0)) s3 = (Inr rid, s4)"
    and res: "reserveAndPublish ?S (PublishCommand C xid) route (completed req) (dbClientNow s) mid rid s4 = (Inr r, t)"
    by (auto simp: s2 elim!: seq_InrE)
  have s4: "same_store s s4"
    using s1 NewID_store [OF id(1)] NewID_if_store [OF id(2)] by (blast intro: store.R_trans)
  then have c4: "calm s4" using assms(3) by (rule same_store_calm)
  have acct: "TrimSpace (sAccountID req) \<noteq> []"
    using ok(1) by (auto simp: SubmitOrderRequest_Validate_def split: if_splits)
  have free: "getOrderSQL (TrimSpace (sAccountID req)) (TrimSpace (sGatewayOrderID req)) (dbOrders s) = []"
    using preflight_None [OF c1 _ _ pre [unfolded \<open>found = None\<close>]] acct assms(4) s1 by (simp add: same_store_def)
  from reserve_accepted [OF c4 res assms(7)] obtain m v raw
    where "normalizeOrder (draft (dbClientNow s) mid rid) = Inr m"
      "dbOrders t = dbOrders s4 @ [order_values P (dbServerNow s4) m]"
      "archived_copy C (env (dbClientNow s) mid rid) v raw" "raw \<in> set (dbRaw t)"
      "set (dbRaw t) \<subseteq> insert raw (set (dbRaw s4))" "sent t = sent s4 @ [env (dbClientNow s) mid rid]"
      "calm t" "srMessageID r = mid"
    unfolding draft_def env_def by metis
  moreover have "TrimSpace mid \<noteq> []"
    using id(1) by (auto simp: NewID_def Let_def TrimSpace_Cons ascii_edge_def split: prod.splits)
  ultimately show thesis
    using that s4 free ok by (simp add: same_store_def sent_def)
qed

section \<open>The second submission\<close>

lemma order_by_same:
  assumes "raw \<in> set xs" and "set xs \<subseteq> {raw}"
  obtains ys where "order_by lt xs = raw # ys"
proof -
  have "set (order_by lt xs) = {raw}" using assms by auto
  then show thesis using that by (cases "order_by lt xs") auto
qed

lemma sameSubmitOrderRequests_refl: "wire_request r \<Longrightarrow> sameSubmitOrderRequests r r"
  by (auto simp: sameSubmitOrderRequests_def same_trimmed_def sameOptionalTradeDate_def Let_def
      wire_request_def wire_price_def split: float64.splits)

lemma wire_completed: "wire_request (completed req) = wire_request req"
  by (simp add: wire_request_def)

lemma archived_request:
  assumes "archived_copy C e v raw" and "ceAction e = ActionOrderSubmit" and "cePayload e = SubmitPayload req"
    and "wire_request req"
    and "js_parse C (TrimSpace (js_print C v)) = Some v" and "TrimSpace (js_print C v) \<noteq> []"
  shows "archivedSubmitOrderRequest C raw g = Inr req"
proof -
  obtain p where p: "encode_submit req = Some p" "decode_submit p = Some req"
    by (rule decode_encode_submit [OF assms(4)])
  then have "encode_payload (cePayload e) = Some p" by (simp add: assms(3) encode_payload_def)
  then obtain ps where "encode_envelope e = Some (JObj ps)" "raw_member ''payload'' ps = Some p"
    by (rule encode_envelope_payload)
  then have "archivedCommandPayload C raw = Inr p"
    using assms(1,5,6) by (auto simp: archived_copy_def archivedCommandPayload_def jnot_object_def)
  moreover have "TrimSpace ActionOrderSubmit = ActionOrderSubmit"
    by (simp add: ActionOrderSubmit_def TrimSpace_ascii_word)
  ultimately show ?thesis
    using assms(1,2) p by (simp add: archivedSubmitOrderRequest_def archived_copy_def)
qed

lemma archived_by_id:
  assumes "calm t" and "raw \<in> set (dbRaw t)" and "set (dbRaw t) \<subseteq> insert raw (set old)"
    and "is_command raw" and "rmOriginMessageID raw = TrimSpace mid" and "TrimSpace mid \<noteq> []"
    and "list_all (\<lambda>m. rmOriginMessageID m \<noteq> TrimSpace mid) old" and "TrimSpace i = TrimSpace mid"
  shows "GetArchivedCommandByMessageID i t = (Inr raw, t)"
proof -
  let ?xs = "filter (\<lambda>m. is_command m \<and> rmOriginMessageID m = TrimSpace mid) (dbRaw t)"
  have "raw \<in> set ?xs" "set ?xs \<subseteq> {raw}" using assms by (auto simp: list_all_iff)
  then obtain ys where "order_by oldest_first ?xs = raw # ys" by (rule order_by_same)
  then show ?thesis
    using assms(6,8) by (simp add: GetArchivedCommandByMessageID_def Let_def queryArchivedCommand_calm [OF assms(1)])
qed

lemma replayed_answer:
  assumes "calm t" and "TrimSpace (oAccountID stored) \<noteq> []" and "TrimSpace key \<noteq> []"
  shows "\<exists>r. replayedSubmitResult (relay_service cfg P C xid other) stored key rid t = (Inr r, t)
    \<and> srReplayed r \<and> srOrder r = stored"
proof -
  have "TrimSpace ActionOrderSubmit \<noteq> []" by (simp add: ActionOrderSubmit_def TrimSpace_Cons ascii_edge_def)
  then have "\<exists>m. replayedCommandMetadata (relay_service cfg P C xid other) (oAccountID stored) ActionOrderSubmit
      key fb t = (Inr m, t)" for fb
    using assms
    by (simp add: replayedCommandMetadata_def attempt_def relay_service_def relay_ledger_def GetArchivedCommand_def
        queryArchivedCommand_calm Let_def split: list.split)
  then obtain m where "replayedCommandMetadata (relay_service cfg P C xid other) (oAccountID stored) ActionOrderSubmit
      key (if TrimSpace (oRequestID stored) = [] then rid else TrimSpace (oRequestID stored)) t = (Inr m, t)"
    by blast
  then show ?thesis by (simp add: replayedSubmitResult_def Let_def)
qed

text \<open>The preflight of the repeated request.\<close>

lemma preflight_replays:
  assumes S_def: "S = relay_service cfg P C xid other"
    and "calm t" and "TrimSpace (sAccountID req) \<noteq> []" and "TrimSpace (sGatewayOrderID req) \<noteq> []"
    and "getOrderSQL (TrimSpace (sAccountID req)) (TrimSpace (sGatewayOrderID req)) (dbOrders t) = [row]"
    and "scanOrder row = Inr stored" and "oIdempotencyKey stored = sIdempotencyKey req"
    and "TrimSpace (oOriginMessageID stored) \<noteq> []"
    and "GetArchivedCommandByMessageID (oOriginMessageID stored) t = (Inr raw, t)"
    and "archivedSubmitOrderRequest C raw (sGatewayOrderID req) = Inr req" and "wire_request req"
  shows "preflightSubmitOrder S req t = (Inr (Some stored), t)"
proof -
  have "lwGetOrder (svLedger S) (sAccountID req) (sGatewayOrderID req) t = (Inr stored, t)"
    using GetOrder_calm [OF assms(2-4)] assms(5,6) by (simp add: S_def relay_service_def relay_ledger_def)
  moreover have "sameOriginalSubmitOrder S stored req t = (Inr True, t)"
    using assms(8-11) sameSubmitOrderRequests_refl [OF assms(11)]
    by (simp add: sameOriginalSubmitOrder_def S_def relay_service_def relay_ledger_def attempt_def)
  ultimately show ?thesis by (simp add: preflightSubmitOrder_def attempt_def seq_def assms(7))
qed

lemma TrimSpace_dash: "TrimSpace (s @ CHR ''-'' # t) \<noteq> []"
  using TrimSpace_mem [of "CHR ''-''" "s @ CHR ''-'' # t"] by (force simp: ascii_edge_def)

lemma submitTradeDate_nonblank: "TrimSpace d \<noteq> [] \<Longrightarrow> TrimSpace (submitTradeDate d now) \<noteq> []"
  by (simp add: submitTradeDate_def Let_def TrimSpace_dash)

lemma draft_normal_date:
  assumes "normalizeOrder ((draftOrderFromRequest r now)\<lparr>oOriginMessageID := mid, oRequestID := rid\<rparr>) = Inr m"
    and "TrimSpace (sTradeDate r) \<noteq> []"
  shows "TrimSpace (oTradeDate m) = oTradeDate m"
proof -
  let ?d = "TrimSpace (submitTradeDate (sTradeDate r) now)"
  from assms obtain d where "normalizeTradeDate ?d = Inr d" and "oTradeDate m = d"
    by (auto simp: normalizeOrder_def Let_def trimOrder_def draftOrderFromRequest_def normalizeOrderTradeDate_def
        submitTradeDate_nonblank split: option.splits sum.splits)
  then show ?thesis by (simp add: normalizeTradeDate_trimmed)
qed

section \<open>Acceptance\<close>

text \<open>A request whose order the tables can hold: its date is a date and its price a positive amount
  of at most fourteen digits.\<close>

definition storable :: "pg \<Rightarrow> SubmitOrderRequest \<Rightarrow> bool" where
  "storable P req \<longleftrightarrow>
     flt fzero (pg_money P (sPrice req)) \<and> flt (pg_money P (sPrice req)) (Fin (10 ^ 14))
     \<and> (case normalizeTradeDate (TrimSpace (submitTradeDate (sTradeDate (completed req)) zeroTime)) of Inl _ \<Rightarrow> False | Inr _ \<Rightarrow> True)"

text \<open>No order of the account uses one of the request's ids.\<close>

definition unused :: "SubmitOrderRequest \<Rightarrow> order_row \<Rightarrow> bool" where
  "unused req r \<longleftrightarrow>
     wAccountID r \<noteq> TrimSpace (sAccountID req)
     \<or> wGatewayOrderID r \<noteq> TrimSpace (sGatewayOrderID req)
       \<and> wClientOrderID r \<noteq> Some (TrimSpace (sClientOrderID (completed req)))
       \<and> wIdempotencyKey r \<noteq> Some (TrimSpace (sIdempotencyKey (completed req)))"

lemma draft_state:
  assumes "oStatus ord = OrderStatusCreated" "oGatewayStatus ord = GatewayStatusAccepted"
    and "oCumFilledQty ord = 0" "oLeavesQty ord = oOrderQty ord" "oOrderQty ord > 0" "\<not> oIsTerminal ord"
  shows "settleOrder ord = ord"
proof -
  have "orderState ord = (OrderStatusCreated, GatewayStatusAccepted, False)"
    using assms by (simp add: orderState_def NormalizeOrderExecutionState_def status_defs gatewayStatusForOrderStatus_def)
  then show ?thesis using assms by (cases ord) (simp add: settleOrder_def status_defs)
qed

lemma draft_accepted:
  assumes "SubmitOrderRequest_Validate req = Inr ()" and "storable P req" and "wire_request req"
    and "TrimSpace (sGatewayOrderID req) \<noteq> []" and "TrimSpace (sTradeDate req) \<noteq> []"
  obtains m where "normalizeOrder ((draftOrderFromRequest (completed req) now)\<lparr>oOriginMessageID := mid, oRequestID := rid\<rparr>) = Inr m"
    and "orders_check (order_values P srv m)" and "order_marshals m"
    and "oAccountID m = TrimSpace (sAccountID req)" and "oGatewayOrderID m = TrimSpace (sGatewayOrderID req)"
    and "oClientOrderID m = TrimSpace (sClientOrderID (completed req))"
    and "oIdempotencyKey m = TrimSpace (sIdempotencyKey (completed req))"
proof -
  let ?r = "completed req"
  let ?draft = "(draftOrderFromRequest ?r now)\<lparr>oOriginMessageID := mid, oRequestID := rid\<rparr>"
  have same: "sSymbol ?r = sSymbol req" "sExchange ?r = sExchange req" "sTradeSide ?r = sTradeSide req"
    "sBusinessType ?r = sBusinessType req" "sOffsetType ?r = sOffsetType req"
    by (simp_all add: completed_def)
  have nonblank: "TrimSpace (sTradeDate ?r) \<noteq> []"
    using assms(5) by (simp add: completed_def submitTradeDate_nonblank)
  from assms(2) obtain d where d: "normalizeTradeDate (TrimSpace (submitTradeDate (sTradeDate ?r) now)) = Inr d"
    by (auto simp: storable_def submitTradeDate_given [OF nonblank, of now] split: sum.splits)
  define m where "m = (trimOrder ?draft)\<lparr>oTradeDate := d\<rparr>"
  from assms(1) have v: "TrimSpace (sAccountID req) \<noteq> []" "TrimSpace (sSymbol req) \<noteq> []" "Exchange_Valid (sExchange req)"
      "TradeSide_Valid (sTradeSide req)" "BusinessType_Valid (sBusinessType req)" "OffsetType_Valid (sOffsetType req)"
      "\<not> fle (sPrice req) fzero" "sQty req > 0"
    by (auto simp: SubmitOrderRequest_Validate_def split: if_splits)
  have "orderInputError (trimOrder ?draft) = None"
    using v assms(4) by (simp add: orderInputError_def trimOrder_def draftOrderFromRequest_def same)
  moreover have "normalizeOrderTradeDate (trimOrder ?draft) = Inr d"
    using d submitTradeDate_nonblank [OF nonblank, of now]
    by (simp add: normalizeOrderTradeDate_def trimOrder_def draftOrderFromRequest_def)
  moreover have "settleOrder m = m"
    using v(8) by (intro draft_state) (simp_all add: m_def trimOrder_def draftOrderFromRequest_def Order0_def)
  ultimately have n: "normalizeOrder ?draft = Inr m" by (simp add: normalizeOrder_def m_def)
  have off: "sOffsetType req = [] \<or> TrimSpace (sOffsetType req) \<in> {OffsetTypeOpen, OffsetTypeClose}"
    using v(6) by (auto simp: OffsetType_Valid_def OffsetTypeOpen_def OffsetTypeClose_def TrimSpace_ascii_word split: if_splits)
  show thesis
  proof (rule that [OF n])
    show "orders_check (order_values P srv m)"
      using v off assms(2)
      by (auto simp: orders_check_def order_values_def m_def trimOrder_def draftOrderFromRequest_def Order0_def same
          storable_def status_defs nullString_def nullInt64_def)
    show "order_marshals m"
      using assms(3) by (auto simp: order_marshals_def m_def trimOrder_def draftOrderFromRequest_def Order0_def
          wire_request_def wire_price_def finite_float_def fzero_def split: float64.splits)
  qed (simp_all add: m_def trimOrder_def draftOrderFromRequest_def)
qed

lemma preflight_new:
  assumes "calm s" and "list_all (unused req) (dbOrders s)"
    and "TrimSpace (sAccountID req) \<noteq> []" and "TrimSpace (sGatewayOrderID req) \<noteq> []"
    and "TrimSpace (sIdempotencyKey (completed req)) \<noteq> []"
  shows "preflightSubmitOrder (relay_service cfg P C xid other) (completed req) s = (Inr None, s)"
proof -
  have "getOrderSQL (TrimSpace (sAccountID req)) (TrimSpace (sGatewayOrderID req)) (dbOrders s) = []"
    using assms(2) by (auto simp: getOrderSQL_def filter_empty_conv list_all_iff unused_def)
  then have "GetOrder (sAccountID req) (sGatewayOrderID req) s
      = (Inl (ErrOrderNotFound (TrimSpace (sGatewayOrderID req))), s)"
    using GetOrder_calm [OF assms(1,3,4)] by simp
  moreover have "getOrderByIdempotencyKeySQL (TrimSpace (sAccountID req)) (TrimSpace (sIdempotencyKey (completed req)))
      (dbOrders s) = []"
    using assms(2) by (auto simp: getOrderByIdempotencyKeySQL_def filter_empty_conv list_all_iff unused_def)
  then have "GetOrderByIdempotencyKey (sAccountID req) (sIdempotencyKey (completed req)) s
      = (Inl (ErrOrderNotFound (TrimSpace (sIdempotencyKey (completed req)))), s)"
    using assms(1,3,5)
    by (simp add: GetOrderByIdempotencyKey_def Let_def read_one_def seq_def run_stmt_calm)
  ultimately show ?thesis
    by (simp add: preflightSubmitOrder_def relay_service_def relay_ledger_def)
qed

lemma completed_key: "TrimSpace (sIdempotencyKey (completed req)) \<noteq> []"
  by (simp add: completed_def TrimSpace_Cons ascii_edge_def)

lemma UpsertAccount_route:
  assumes "calm s" and "TrimSpace (rcAccountID route) \<noteq> []" and "TrimSpace (rcBrokerID route) \<noteq> []"
  shows "\<exists>u. UpsertAccount (accountFromRoute route now) s = (Inr (), u) \<and> dbAccounts u (rcAccountID route) \<noteq> None"
  using assms
  by (simp add: UpsertAccount_def Let_def run_stmt_calm accountFromRoute_def)

text \<open>The archive takes every command on a stream.\<close>

lemma archiveCommand_calm:
  assumes "calm s" and "encode_envelope e = Some v"
    and "TrimSpace (prStreamKey p) \<noteq> []" and "TrimSpace (prStreamID p) \<noteq> []"
  shows "\<exists>t. archiveCommand (relay_service cfg P C xid other) p e SuffixCmdTrade a g s = (Inr (), t) \<and> rlLog t = rlLog s"
proof -
  define u where "u = snd (readClock s)"
  have u: "same_store s u" unfolding u_def by (rule readClock_store)
  then have cu: "calm u" using assms(1) by (rule same_store_calm)
  have clock: "of_total readClock s = (Inr (dbClientNow s), u)" by (simp add: of_total_def readClock_def u_def)
  have "TrimSpace ''in'' \<noteq> []" "TrimSpace SuffixCmdTrade \<noteq> []"
    by (simp_all add: SuffixCmdTrade_def TrimSpace_Cons ascii_edge_def)
  moreover have "SuffixCmdTrade \<in> set stream_roles" by (simp add: SuffixCmdTrade_def stream_roles_def)
  moreover have "rlLog u = rlLog s" using u by (simp add: same_store_def)
  ultimately show ?thesis
    using assms cu clock
    by (simp add: archiveCommand_def relay_service_def relay_ledger_def ArchiveRawStreamMessage_def run_stmt_calm
        archiveRawStreamMessageSQL_def stored_raw_def)
qed

lemma created_row_unused:
  assumes "unused req x" and "oAccountID m = TrimSpace (sAccountID req)"
    and "oGatewayOrderID m = TrimSpace (sGatewayOrderID req)"
    and "oClientOrderID m = TrimSpace (sClientOrderID (completed req))"
    and "oIdempotencyKey m = TrimSpace (sIdempotencyKey (completed req))"
  shows "\<not> same_key (order_values P srv m) x \<and> \<not> same_alias (order_values P srv m) x"
  using assms by (auto simp: unused_def same_key_def same_alias_def order_values_def nullString_def Let_def split: if_splits)

lemma reserve_accepts:
  fixes req :: SubmitOrderRequest
  defines "env \<equiv> \<lambda>now mid rid. NewCommandEnvelope now ActionOrderSubmit mid rid rid (sIdempotencyKey (completed req))
      (SubmitPayload (completed req)) now"
  assumes "calm s" and "list_all (unused req) (dbOrders s)"
    and "SubmitOrderRequest_Validate req = Inr ()" and "storable P req" and "wire_request req"
    and "TrimSpace (sGatewayOrderID req) \<noteq> []" and "TrimSpace (sTradeDate req) \<noteq> []"
    and "rcAccountID route = sAccountID req" and "TrimSpace (sAccountID req) = sAccountID req"
    and "TrimSpace (rcBrokerID route) \<noteq> []" and "TrimSpace (xid (rlLog s)) \<noteq> []"
  obtains r t body where
    "reserveAndPublish (relay_service cfg P C xid other) (PublishCommand C xid) route (completed req) now mid rid s = (Inr r, t)"
    and "\<not> srReplayed r" and "srMessageID r = mid" and "rlLog t = rlLog s @ [\<lparr>seStream = stCmdTrade (NewStreams (rcStreamPrefix route)),
      seID = xid (rlLog s), seEnvelope = env now mid rid, seBody = body\<rparr>]"
proof -
  let ?S = "relay_service cfg P C xid other"
  let ?draft = "(draftOrderFromRequest (completed req) now)\<lparr>oOriginMessageID := mid, oRequestID := rid\<rparr>"
  have acct: "TrimSpace (sAccountID req) \<noteq> []"
    using assms(4) by (auto simp: SubmitOrderRequest_Validate_def split: if_splits)
  obtain u where u: "UpsertAccount (accountFromRoute route now) s = (Inr (), u)" "dbAccounts u (sAccountID req) \<noteq> None"
    using UpsertAccount_route [OF assms(2), of route now] acct assms(9,11) by auto
  then have su: "same_store s u" and cu: "calm u"
    using UpsertAccount_store [OF assms(2)] same_store_calm assms(2) by blast+
  obtain m where m: "normalizeOrder ?draft = Inr m" "orders_check (order_values P (dbServerNow u) m)" "order_marshals m"
    and ids: "oAccountID m = TrimSpace (sAccountID req)" "oGatewayOrderID m = TrimSpace (sGatewayOrderID req)"
      "oClientOrderID m = TrimSpace (sClientOrderID (completed req))"
      "oIdempotencyKey m = TrimSpace (sIdempotencyKey (completed req))"
    by (rule draft_accepted [OF assms(4-8)])
  have "\<not> list_ex (\<lambda>x. same_key (order_values P (dbServerNow u) m) x \<or> same_alias (order_values P (dbServerNow u) m) x) (dbOrders u)"
    using assms(3) su created_row_unused [OF _ ids] by (auto simp: list_ex_iff list_all_iff same_store_def)
  then obtain w where w: "CreateOrder P ?draft u = (Inr (), w)" "rlLog w = rlLog u" "calm w"
    using create_order_cases [OF _ m(1,3) refl m(2)] cu u(2) ids(1) assms(10)
    by (auto simp: calm_def)
  obtain pl where "encode_submit (completed req) = Some pl"
    using decode_encode_submit [of "completed req"] assms(6) wire_completed by metis
  then obtain v where v: "encode_envelope (env now mid rid) = Some v"
    by (simp add: encode_envelope_def env_def encode_payload_def)
  let ?key = "stCmdTrade (NewStreams (rcStreamPrefix route))"
  let ?w = "w\<lparr>rlLog := rlLog w @ [\<lparr>seStream = ?key, seID = xid (rlLog w), seEnvelope = env now mid rid, seBody = js_print C v\<rparr>]\<rparr>"
  let ?p = "\<lparr>prStreamKey = ?key, prStreamID = xid (rlLog w), prBodyBytes = length (js_print C v)\<rparr>"
  have pub: "PublishCommand C xid ?key (env now mid rid) w = (Inr ?p, ?w)"
    using w(3) v by (simp add: PublishCommand_def calm_def Let_def)
  have "TrimSpace (prStreamKey ?p) \<noteq> []" by (simp add: NewStreams_def Let_def)
  moreover have "TrimSpace (prStreamID ?p) \<noteq> []" using w(2) su assms(12) by (simp add: same_store_def)
  moreover have "calm ?w" using w(3) by (simp add: calm_def)
  ultimately obtain t where t: "archiveCommand ?S ?p (env now mid rid) SuffixCmdTrade (sAccountID req) (sGatewayOrderID req) ?w
      = (Inr (), t)" "rlLog t = rlLog ?w"
    using archiveCommand_calm [OF _ v] by blast
  have stream: "CommandStreamForAction (NewStreams (rcStreamPrefix route)) (ceAction (env now mid rid)) = Inr ?key"
    by (simp add: CommandStreamForAction_def env_def)
  have pa: "publishAndArchive ?S (PublishCommand C xid) route (env now mid rid) SuffixCmdTrade (sAccountID req) (sGatewayOrderID req) w
      = (Inr ?p, t)"
    unfolding publishAndArchive_def stream sum.case by (simp add: pub t(1))
  have "reserveAndPublish ?S (PublishCommand C xid) route (completed req) now mid rid s =
      (Inr \<lparr>srAccountID = sAccountID req, srAction = ActionOrderSubmit, srOrder = ?draft, srMessageID = mid,
         srStreamKey = prStreamKey ?p, srStreamID = prStreamID ?p, srIdempotencyKey = sIdempotencyKey (completed req),
         srRequestID = rid, srPublished = ?p, srReplayed = False\<rparr>, t)"
    using u(1) w(1) pa [unfolded env_def]
    by (simp add: reserveAndPublish_def Let_def relay_service_def relay_ledger_def)
  then show thesis
    by (rule that) (use t(2) w(2) su in \<open>simp_all add: same_store_def\<close>)
qed

text \<open>The envelope of the next submission that carries a request id.\<close>

definition next_envelope :: "relay \<Rightarrow> SubmitOrderRequest \<Rightarrow> string \<Rightarrow> CommandEnvelope" where
  "next_envelope s req rid =
     (let mid = (case NewID ''msg-order-submit'' (snd (readClock s)) of (Inr i, _) \<Rightarrow> i | (Inl _, _) \<Rightarrow> [])
      in NewCommandEnvelope (dbClientNow s) ActionOrderSubmit mid (TrimSpace rid) (TrimSpace rid)
           (sIdempotencyKey (completed req)) (SubmitPayload (completed req)) (dbClientNow s))"

lemma NewID_total: "\<exists>i t. NewID k s = (Inr i, t)"
  by (simp add: NewID_def Let_def split: prod.split)

lemma submit_published:
  assumes "calm s" and "SubmitOrderRequest_Validate req = Inr ()" and "validateSupportedSubmitOrder req = Inr ()"
    and "AccountRoute cfg (sAccountID req) = Some route" and "rcEnabled route" and "rcTradingEnabled route"
    and "TrimSpace (rcBrokerID route) \<noteq> []" and "TrimSpace (sAccountID req) = sAccountID req"
    and "TrimSpace (sGatewayOrderID req) \<noteq> []" and "TrimSpace (sTradeDate req) \<noteq> []"
    and "storable P req" and "wire_request req" and "list_all (unused req) (dbOrders s)"
    and "TrimSpace (xid (rlLog s)) \<noteq> []" and "TrimSpace rid \<noteq> []"
  obtains r t body where "SubmitOrder (relay_service cfg P C xid other) req rid s = (Inr r, t)" and "\<not> srReplayed r"
    and "srMessageID r = ceMessageID (next_envelope s req rid)"
    and "rlLog t = rlLog s @ [\<lparr>seStream = stCmdTrade (NewStreams (rcStreamPrefix route)),
      seID = xid (rlLog s), seEnvelope = next_envelope s req rid, seBody = body\<rparr>]"
proof -
  let ?S = "relay_service cfg P C xid other"
  have route: "routeForAccount ?S (sAccountID req) = Inr route"
    using assms(4-6) by (simp add: routeForAccount_def relay_service_def)
  have id: "rcAccountID route = sAccountID req"
    using assms(4) by (auto simp: AccountRoute_def find_Some_iff)
  have acct: "TrimSpace (sAccountID req) \<noteq> []"
    using assms(2) by (auto simp: SubmitOrderRequest_Validate_def split: if_splits)
  define s1 where "s1 = snd (readClock s)"
  have s1: "same_store s s1" unfolding s1_def by (rule readClock_store)
  then have c1: "calm s1" using assms(1) by (rule same_store_calm)
  have pre: "preflightSubmitOrder ?S (completed req) s1 = (Inr None, s1)"
    using s1 assms(13) by (intro preflight_new c1 acct assms(9) completed_key) (simp add: same_store_def)
  obtain mid s2 where mid: "NewID ''msg-order-submit'' s1 = (Inr mid, s2)" using NewID_total by blast
  have s2: "same_store s s2" using s1 NewID_store [OF mid] by (blast intro: store.R_trans)
  then have c2: "calm s2" using assms(1) by (rule same_store_calm)
  have unused2: "list_all (unused req) (dbOrders s2)" and xid2: "TrimSpace (xid (rlLog s2)) \<noteq> []"
    using s2 assms(13,14) by (simp_all add: same_store_def)
  obtain r t body where res: "reserveAndPublish ?S (PublishCommand C xid) route (completed req) (dbClientNow s) mid
      (TrimSpace rid) s2 = (Inr r, t)" and r: "\<not> srReplayed r" "srMessageID r = mid"
    and log: "rlLog t = rlLog s2 @ [\<lparr>seStream = stCmdTrade (NewStreams (rcStreamPrefix route)), seID = xid (rlLog s2),
      seEnvelope = NewCommandEnvelope (dbClientNow s) ActionOrderSubmit mid (TrimSpace rid) (TrimSpace rid)
        (sIdempotencyKey (completed req)) (SubmitPayload (completed req)) (dbClientNow s), seBody = body\<rparr>]"
    by (rule reserve_accepts [where xid = xid, OF c2 unused2 assms(2,11,12,9,10) id assms(8,7) xid2])
  have e: "next_envelope s req rid = NewCommandEnvelope (dbClientNow s) ActionOrderSubmit mid (TrimSpace rid) (TrimSpace rid)
        (sIdempotencyKey (completed req)) (SubmitPayload (completed req)) (dbClientNow s)"
    by (simp add: next_envelope_def mid [unfolded s1_def])
  have "SubmitOrder ?S req rid s = (Inr r, t)"
    unfolding SubmitOrder_given [OF assms(2,3) route assms(9,10)] s1_def [symmetric]
    using assms(15) by (simp add: pre mid res)
  then show thesis
    by (rule that) (use r log s2 in \<open>simp_all add: e same_store_def\<close>)
qed

section \<open>Properties\<close>

text \<open>C26: Submitting is idempotent. A submit request that names its gateway order id, trade date and
  idempotency key was accepted and published, and no failure happened. Then submitting it again is
  answered with success and the stored order, marked as replayed, with the message id of the first
  submission as its origin; no order is stored and no command is appended to any stream. The
  hypotheses on the codec say that the published envelope can be parsed back, and those on the
  archive that the message id of the first submission was new.\<close>

theorem submit_replayed:
  assumes "calm s" and "TrimSpace (sGatewayOrderID req) \<noteq> []" and "TrimSpace (sTradeDate req) \<noteq> []"
    and "TrimSpace (sIdempotencyKey req) \<noteq> []" and "TrimSpace (sIdempotencyKey req) = sIdempotencyKey req"
    and "wire_request req"
    and "SubmitOrder (relay_service cfg P C xid other) req rid s = (Inr r, t)" and "\<not> srReplayed r"
    and "list_all (\<lambda>m. rmOriginMessageID m \<noteq> TrimSpace (srMessageID r)) (dbRaw s)"
    and "encode_envelope (last (sent t)) = Some v"
    and "js_parse C (TrimSpace (js_print C v)) = Some v" and "TrimSpace (js_print C v) \<noteq> []"
  shows "\<exists>r' u. SubmitOrder (relay_service cfg P C xid other) req rid' t = (Inr r', u)
    \<and> srReplayed r' \<and> oIdempotencyKey (srOrder r') = sIdempotencyKey req
    \<and> oOriginMessageID (srOrder r') = TrimSpace (srMessageID r)
    \<and> sent u = sent t \<and> dbOrders u = dbOrders t"
proof -
  let ?S = "relay_service cfg P C xid other" and ?req = "completed req"
  obtain now rid1 m v' raw srv
    where m: "normalizeOrder ((draftOrderFromRequest ?req now)\<lparr>oOriginMessageID := srMessageID r, oRequestID := rid1\<rparr>) = Inr m"
      and rows: "dbOrders t = dbOrders s @ [order_values P srv m]"
      and copy: "archived_copy C (NewCommandEnvelope now ActionOrderSubmit (srMessageID r) rid1 rid1 (sIdempotencyKey ?req)
          (SubmitPayload ?req) now) v' raw"
      and raw: "raw \<in> set (dbRaw t)" "set (dbRaw t) \<subseteq> insert raw (set (dbRaw s))"
      and last: "sent t = sent s @ [NewCommandEnvelope now ActionOrderSubmit (srMessageID r) rid1 rid1 (sIdempotencyKey ?req)
          (SubmitPayload ?req) now]"
      and calm: "calm t"
      and free: "getOrderSQL (TrimSpace (sAccountID req)) (TrimSpace (sGatewayOrderID req)) (dbOrders s) = []"
      and ok: "SubmitOrderRequest_Validate req = Inr ()" "validateSupportedSubmitOrder req = Inr ()"
      and route: "\<exists>route. routeForAccount ?S (sAccountID req) = Inr route"
      and mid: "TrimSpace (srMessageID r) \<noteq> []"
    using assms(1-3,7,8) by (rule submit_accepted)
  from copy last assms(10) have v: "v' = v" by (simp add: archived_copy_def)
  have wire: "wire_request ?req" using assms(6) by (simp add: wire_completed)
  have key: "sIdempotencyKey ?req = sIdempotencyKey req" using assms(4) by (simp add: completed_def)
  have acct: "TrimSpace (sAccountID req) \<noteq> []"
    using ok(1) by (auto simp: SubmitOrderRequest_Validate_def split: if_splits)
  have date: "TrimSpace (oTradeDate m) = oTradeDate m"
    by (rule draft_normal_date [OF m]) (simp add: completed_def submitTradeDate_nonblank assms(3))
  obtain d where mf: "m = settleOrder ((trimOrder ((draftOrderFromRequest ?req now)
      \<lparr>oOriginMessageID := srMessageID r, oRequestID := rid1\<rparr>))\<lparr>oTradeDate := d\<rparr>)"
    using m by (rule normalizeOrder_form)
  have ids: "oAccountID m = TrimSpace (sAccountID req)" "oGatewayOrderID m = TrimSpace (sGatewayOrderID req)"
    "oIdempotencyKey m = sIdempotencyKey req" "oOriginMessageID m = TrimSpace (srMessageID r)"
    by (simp_all add: mf trimOrder_def draftOrderFromRequest_def key assms(5))
  have one: "getOrderSQL (TrimSpace (sAccountID ?req)) (TrimSpace (sGatewayOrderID ?req)) (dbOrders t)
      = [order_values P srv m]"
    using free by (simp add: getOrderSQL_Nil) (simp add: getOrderSQL_def rows order_values_def ids)
  obtain stored where stored: "scanOrder (order_values P srv m) = Inr stored" "same_order stored m"
    using scan_stored [OF m date] by metis
  then have f: "oIdempotencyKey stored = sIdempotencyKey ?req" "oOriginMessageID stored = TrimSpace (srMessageID r)"
      "oAccountID stored = TrimSpace (sAccountID req)"
    by (simp_all add: same_order_def ids key)
  define u where "u = snd (readClock t)"
  have u: "same_store t u" unfolding u_def by (rule readClock_store)
  then have cu: "calm u" using calm by (rule same_store_calm)
  have "GetArchivedCommandByMessageID (oOriginMessageID stored) u = (Inr raw, u)"
    using copy mid assms(9) raw u by (intro archived_by_id [OF cu, where mid = "srMessageID r"])
      (auto simp: archived_copy_def f same_store_def)
  moreover have "archivedSubmitOrderRequest C raw (sGatewayOrderID ?req) = Inr ?req"
    using archived_request [OF copy _ _ wire] assms(11,12) by (simp add: v)
  ultimately have pre: "preflightSubmitOrder ?S ?req u = (Inr (Some stored), u)"
    using u acct assms(2) stored(1) one f mid wire
    by (intro preflight_replays [OF refl cu, where row = "order_values P srv m" and raw = raw])
      (simp_all add: same_store_def)
  obtain r' where r': "replayedSubmitResult ?S stored (sIdempotencyKey ?req) (TrimSpace rid') u = (Inr r', u)"
      "srReplayed r'" "srOrder r' = stored"
    using replayed_answer [OF cu, where stored = stored and key = "sIdempotencyKey ?req" and cfg = cfg and P = P
        and C = C and xid = xid and other = other and rid = "TrimSpace rid'"] acct assms(4)
    by (auto simp: f(3) key)
  from route obtain route where "routeForAccount ?S (sAccountID req) = Inr route" by blast
  from SubmitOrder_given [OF ok this assms(2,3), of rid' t]
  have "SubmitOrder ?S req rid' t = (Inr r', u)" by (simp add: u_def [symmetric] pre r'(1))
  moreover have "sent u = sent t" "dbOrders u = dbOrders t" using u by (simp_all add: same_store_def sent_def)
  ultimately show ?thesis using r'(2,3) f key by auto
qed

text \<open>A dated request and the codec that reads back its first envelope.\<close>

definition demo_dated :: SubmitOrderRequest where
  "demo_dated = demo_submit\<lparr>sTradeDate := ''2024-02-29''\<rparr>"

definition echo_codec :: "json \<Rightarrow> codec" where
  "echo_codec v = \<lparr>js_print = (\<lambda>_. ''{}''), js_parse = (\<lambda>_. Some v)\<rparr>"

definition demo_envelope_json :: json where
  "demo_envelope_json = the (encode_envelope (next_envelope demo_relay demo_dated ''r1''))"

definition replay_service :: "relay Service" where
  "replay_service = relay_service demo_cfg demo_pg (echo_codec demo_envelope_json) (\<lambda>log. Utoa (length log)) demo_other"

lemma demo_dated_fields [simp]:
  "sAccountID demo_dated = ''A1''" "sGatewayOrderID demo_dated = ''gw-1''" "sTradeDate demo_dated = ''2024-02-29''"
  "sIdempotencyKey demo_dated = ''k1''" "sPrice demo_dated = Fin 10"
  by (simp_all add: demo_dated_def demo_submit_def)

lemma demo_words [simp]:
  "TrimSpace ''A1'' = ''A1''" "TrimSpace ''gw-1'' = ''gw-1''" "TrimSpace ''2024-02-29'' = ''2024-02-29''"
  "TrimSpace ''k1'' = ''k1''" "TrimSpace ''r1'' = ''r1''" "TrimSpace ''B1'' = ''B1''" "TrimSpace ''{}'' = ''{}''"
  by (rule TrimSpace_ascii_word; simp)+

lemma demo_dated_valid: "SubmitOrderRequest_Validate demo_dated = Inr ()"
  by (simp add: SubmitOrderRequest_Validate_def demo_dated_def demo_submit_def TrimSpace_Cons ascii_edge_def
      Exchange_Valid_def TradeSide_Valid_def BusinessType_Valid_def OffsetType_Valid_def fle_def fzero_def)

lemma demo_dated_storable: "storable demo_pg demo_dated"
  by (simp add: storable_def demo_pg_def fzero_def completed_def submitTradeDate_def demo_date)

lemma demo_dated_wire: "wire_request demo_dated"
  using demo_submit_wire by (simp add: wire_request_def demo_dated_def)

lemma demo_route: "AccountRoute demo_cfg ''A1'' = Some \<lparr>rcAccountID = ''A1'', rcBrokerID = ''B1'', rcGatewayID = ''G1'',
    rcStreamPrefix = ''prod'', rcEnabled = True, rcTradingEnabled = True, rcSimulated = False\<rparr>"
  by (simp add: AccountRoute_def demo_cfg_def)

lemma demo_relay_calm: "calm demo_relay"
  by (simp add: calm_def demo_relay_def)

lemma Utoa_nonblank: "TrimSpace (Utoa n) \<noteq> []"
  by (simp add: TrimSpace_ascii_word)

lemma demo_supported: "validateSupportedSubmitOrder demo_dated = Inr ()"
  by (simp add: validateSupportedSubmitOrder_def demo_dated_def demo_submit_def)

text \<open>C17: A valid order is accepted and sent. Without failures, a valid request for an account that
  is configured, enabled and enabled for trading, whose ids no stored order of the account uses
  and whose order the tables can hold, is answered with success and is not a replay; exactly one
  entry is appended to the streams, on the trade command stream of the account's route, and its
  command is a submit command with the completed request as its payload.\<close>

theorem submit_accepted_and_sent:
  assumes "calm s" and "SubmitOrderRequest_Validate req = Inr ()" and "validateSupportedSubmitOrder req = Inr ()"
    and "AccountRoute cfg (sAccountID req) = Some route" and "rcEnabled route" and "rcTradingEnabled route"
    and "TrimSpace (rcBrokerID route) \<noteq> []" and "TrimSpace (sAccountID req) = sAccountID req"
    and "TrimSpace (sGatewayOrderID req) \<noteq> []" and "TrimSpace (sTradeDate req) \<noteq> []"
    and "storable P req" and "wire_request req" and "list_all (unused req) (dbOrders s)"
    and "TrimSpace (xid (rlLog s)) \<noteq> []" and "TrimSpace rid \<noteq> []"
  shows "\<exists>r t e. SubmitOrder (relay_service cfg P C xid other) req rid s = (Inr r, t) \<and> \<not> srReplayed r
    \<and> rlLog t = rlLog s @ [e] \<and> seStream e = stCmdTrade (NewStreams (rcStreamPrefix route))
    \<and> ceAction (seEnvelope e) = ActionOrderSubmit \<and> ceMessageID (seEnvelope e) = srMessageID r
    \<and> cePayload (seEnvelope e) = SubmitPayload (completed req)"
proof -
  obtain r t body where "SubmitOrder (relay_service cfg P C xid other) req rid s = (Inr r, t)" "\<not> srReplayed r"
      "srMessageID r = ceMessageID (next_envelope s req rid)"
      "rlLog t = rlLog s @ [\<lparr>seStream = stCmdTrade (NewStreams (rcStreamPrefix route)),
        seID = xid (rlLog s), seEnvelope = next_envelope s req rid, seBody = body\<rparr>]"
    using assms by (rule submit_published [where xid = xid and s = s])
  then show ?thesis by (simp add: next_envelope_def Let_def)
qed

theorem submit_accepted_and_sent_witness:
  "\<exists>r t e. SubmitOrder replay_service demo_dated ''r1'' demo_relay = (Inr r, t) \<and> \<not> srReplayed r
    \<and> rlLog t = [e] \<and> seStream e = ''prod:cmd.trade''"
proof -
  have "cleanPrefix ''prod'' = ''prod''" by code_simp
  then have k: "stCmdTrade (NewStreams ''prod'') = ''prod:cmd.trade''"
    by (simp add: NewStreams_def SuffixCmdTrade_def)
  have "rlLog demo_relay = []" by (simp add: demo_relay_def)
  then show ?thesis
    using submit_accepted_and_sent [OF demo_relay_calm demo_dated_valid demo_supported, where cfg = demo_cfg
        and P = demo_pg and C = "echo_codec demo_envelope_json" and xid = "\<lambda>log. Utoa (length log)"
        and other = demo_other and rid = "''r1''"]
      demo_route demo_dated_storable demo_dated_wire Utoa_nonblank
    by (fastforce simp: replay_service_def demo_relay_def k)
qed

lemma demo_envelope_encoded:
  "encode_envelope (next_envelope demo_relay demo_dated ''r1'') = Some demo_envelope_json"
proof -
  obtain p where "encode_submit (completed demo_dated) = Some p"
    using decode_encode_submit [of "completed demo_dated"] demo_dated_wire wire_completed by metis
  then show ?thesis
    by (simp add: demo_envelope_json_def encode_envelope_def next_envelope_def Let_def encode_payload_def)
qed

theorem submit_replayed_witness:
  "\<exists>r t r' u. SubmitOrder replay_service demo_dated ''r1'' demo_relay = (Inr r, t) \<and> \<not> srReplayed r
    \<and> SubmitOrder replay_service demo_dated ''r2'' t = (Inr r', u) \<and> srReplayed r' \<and> sent u = sent t"
proof -
  have blank: "TrimSpace (Utoa (length (rlLog demo_relay))) \<noteq> []" by (rule Utoa_nonblank)
  have rt: "AccountRoute demo_cfg (sAccountID demo_dated) = Some \<lparr>rcAccountID = ''A1'', rcBrokerID = ''B1'',
      rcGatewayID = ''G1'', rcStreamPrefix = ''prod'', rcEnabled = True, rcTradingEnabled = True, rcSimulated = False\<rparr>"
    by (simp add: demo_route)
  have un: "list_all (unused demo_dated) (dbOrders demo_relay)" by (simp add: demo_relay_def)
  have "\<exists>r t body. SubmitOrder replay_service demo_dated ''r1'' demo_relay = (Inr r, t) \<and> \<not> srReplayed r
    \<and> rlLog t = rlLog demo_relay @ [\<lparr>seStream = stCmdTrade (NewStreams ''prod''),
        seID = Utoa (length (rlLog demo_relay)), seEnvelope = next_envelope demo_relay demo_dated ''r1'', seBody = body\<rparr>]"
    (is "\<exists>r t body. ?Q r t body")
  proof -
    obtain r t body where "?Q r t body"
      unfolding replay_service_def
      by (rule submit_published [where C = "echo_codec demo_envelope_json" and other = demo_other and rid = "''r1''"
            and xid = "\<lambda>log. Utoa (length log)",
            OF demo_relay_calm demo_dated_valid demo_supported rt _ _ _ _ _ _ demo_dated_storable demo_dated_wire un blank])
        simp_all
    then show ?thesis by blast
  qed
  then obtain r t body where run: "SubmitOrder replay_service demo_dated ''r1'' demo_relay = (Inr r, t)" "\<not> srReplayed r"
    and log: "rlLog t = rlLog demo_relay @ [\<lparr>seStream = stCmdTrade (NewStreams ''prod''),
        seID = Utoa (length (rlLog demo_relay)), seEnvelope = next_envelope demo_relay demo_dated ''r1'', seBody = body\<rparr>]"
    by blast
  have enc: "encode_envelope (last (sent t)) = Some demo_envelope_json"
    using log demo_envelope_encoded by (simp add: sent_def)
  have fresh: "list_all (\<lambda>m. rmOriginMessageID m \<noteq> TrimSpace (srMessageID r)) (dbRaw demo_relay)"
    by (simp add: demo_relay_def)
  have "\<exists>r' u. SubmitOrder replay_service demo_dated ''r2'' t = (Inr r', u)
    \<and> srReplayed r' \<and> oIdempotencyKey (srOrder r') = sIdempotencyKey demo_dated
    \<and> oOriginMessageID (srOrder r') = TrimSpace (srMessageID r)
    \<and> sent u = sent t \<and> dbOrders u = dbOrders t"
    unfolding replay_service_def
    by (rule submit_replayed [OF demo_relay_calm _ _ _ _ demo_dated_wire run(1) [unfolded replay_service_def] run(2) fresh enc])
      (simp_all add: echo_codec_def)
  with run show ?thesis by blast
qed

end
