(* ===== verification/Auto_Refresh.thy ===== *)
theory Auto_Refresh
  imports Order_Flow
begin

text \<open>
  The refresh scheduler (\<^verbatim>\<open>internal/orderflow/auto_refresh.go\<close>): requests for an account are
  debounced by a timer, and refreshes of an account are to be a cooldown apart. The scheduler's
  mutex makes \<^verbatim>\<open>Request\<close>, \<^verbatim>\<open>Stop\<close> and the critical section of \<^verbatim>\<open>run\<close> single steps. A timer of
  \<^verbatim>\<open>time.AfterFunc\<close> is armed, then due (its goroutine was started and waits for the mutex), then
  gone; \<^verbatim>\<open>Timer.Stop\<close> disarms an armed timer and has no effect on a due one.
\<close>

section \<open>State\<close>

record AutoRefreshScheduler =
  asDebounce :: int
  asCooldown :: int
  asTimeout :: int
  asTimers :: "string \<rightharpoonup> nat"
  asNextAllowed :: "string \<rightharpoonup> gotime"
  asStopped :: bool

record timer =
  tmID :: nat
  tmAccount :: string
  tmReason :: string
  tmDeadline :: gotime

text \<open>The scheduler, its timers and the refreshes that were started, with their times.\<close>

record refresh_world =
  rwNow :: gotime
  rwSched :: AutoRefreshScheduler
  rwArmed :: "timer list"
  rwDue :: "timer list"
  rwNextID :: nat
  rwStarted :: "(string \<times> gotime) list"

section \<open>Operations\<close>

definition NewAutoRefreshScheduler :: "int \<Rightarrow> int \<Rightarrow> int \<Rightarrow> AutoRefreshScheduler" where
  "NewAutoRefreshScheduler debounce cooldown timeout =
     \<lparr>asDebounce = (if debounce < 0 then 0 else debounce), asCooldown = (if cooldown < 0 then 0 else cooldown),
      asTimeout = (if timeout \<le> 0 then 10 * second else timeout), asTimers = Map.empty,
      asNextAllowed = Map.empty, asStopped = False\<rparr>"

definition requestDelay :: "AutoRefreshScheduler \<Rightarrow> gotime \<Rightarrow> string \<Rightarrow> int" where
  "requestDelay sch now acct =
     (let delay = asDebounce sch;
          delay1 = (case asNextAllowed sch acct of
             None \<Rightarrow> delay
           | Some next \<Rightarrow> if IsZero next then delay else if next - now > delay then next - now else delay)
      in if delay1 < 0 then 0 else delay1)"

text \<open>\<^verbatim>\<open>Timer.Stop\<close> on the timer with an id, and \<^verbatim>\<open>time.AfterFunc\<close>.\<close>

definition stopTimer :: "nat \<Rightarrow> timer list \<Rightarrow> timer list" where
  "stopTimer i ts = filter (\<lambda>t. tmID t \<noteq> i) ts"

definition Request :: "string \<Rightarrow> string \<Rightarrow> refresh_world \<Rightarrow> refresh_world" where
  "Request accountID0 reason0 w =
     (let accountID = TrimSpace accountID0;
          reason = (if TrimSpace reason0 = [] then ''trade-change'' else TrimSpace reason0);
          sch = rwSched w
      in if accountID = [] \<or> asStopped sch then w
         else let armed = (case asTimers sch accountID of None \<Rightarrow> rwArmed w | Some i \<Rightarrow> stopTimer i (rwArmed w));
                  t = \<lparr>tmID = rwNextID w, tmAccount = accountID, tmReason = reason,
                       tmDeadline = rwNow w + requestDelay sch (rwNow w) accountID\<rparr>
              in w\<lparr>rwSched := sch\<lparr>asTimers := (asTimers sch)(accountID \<mapsto> rwNextID w)\<rparr>,
                   rwArmed := armed @ [t], rwNextID := Suc (rwNextID w)\<rparr>)"

fun RequestAccounts :: "string list \<Rightarrow> string \<Rightarrow> refresh_world \<Rightarrow> refresh_world" where
  "RequestAccounts [] reason w = w"
| "RequestAccounts (a # as) reason w = RequestAccounts as reason (Request a reason w)"

definition Stop :: "refresh_world \<Rightarrow> refresh_world" where
  "Stop w = w\<lparr>rwSched := (rwSched w)\<lparr>asStopped := True, asTimers := Map.empty\<rparr>,
     rwArmed := filter (\<lambda>t. tmID t \<notin> ran (asTimers (rwSched w))) (rwArmed w)\<rparr>"

text \<open>The critical section of \<^verbatim>\<open>run\<close>; when it does not return early, the refresh starts.\<close>

definition run :: "string \<Rightarrow> refresh_world \<Rightarrow> refresh_world" where
  "run accountID w =
     (let sch = rwSched w
      in if asStopped sch then w
         else w\<lparr>rwSched := sch\<lparr>asTimers := (asTimers sch)(accountID := None),
                  asNextAllowed := (asNextAllowed sch)(accountID \<mapsto> rwNow w + asCooldown sch)\<rparr>,
                rwStarted := rwStarted w @ [(accountID, rwNow w)]\<rparr>)"

text \<open>The rest of \<^verbatim>\<open>run\<close>: both queries, whether or not the first one fails.\<close>

record 's AccountRefresher =
  arRefreshAsset :: "string \<Rightarrow> string \<Rightarrow> string \<Rightarrow> ('s, RefreshQueryResult) act"
  arRefreshPositions :: "string \<Rightarrow> string \<Rightarrow> string \<Rightarrow> ('s, RefreshQueryResult) act"

definition refreshAccount ::
    "'s AccountRefresher option \<Rightarrow> gotime \<Rightarrow> string \<Rightarrow> 's
     \<Rightarrow> ((error + RefreshQueryResult) \<times> (error + RefreshQueryResult)) option \<times> 's" where
  "refreshAccount refresher now accountID s =
     (case refresher of
        None \<Rightarrow> (None, s)
      | Some r \<Rightarrow>
          let requestBase = ''auto-refresh-'' @ Itoa now
          in case arRefreshAsset r accountID (requestBase @ ''-asset'') [] s of
               (asset, s1) \<Rightarrow>
                 (case arRefreshPositions r accountID (requestBase @ ''-positions'') [] s1 of
                    (positions, s2) \<Rightarrow> (Some (asset, positions), s2)))"

section \<open>Steps\<close>

text \<open>A timer whose deadline has come starts its goroutine; later the goroutine gets the mutex.\<close>

inductive refresh_step :: "refresh_world \<Rightarrow> refresh_world \<Rightarrow> bool" where
  Ask: "refresh_step w (Request acct reason w)"
| Halt: "refresh_step w (Stop w)"
| Pass: "rwNow w \<le> now \<Longrightarrow> refresh_step w (w\<lparr>rwNow := now\<rparr>)"
| Fire: "rwArmed w = xs @ t # ys \<Longrightarrow> tmDeadline t \<le> rwNow w \<Longrightarrow>
    refresh_step w (w\<lparr>rwArmed := xs @ ys, rwDue := rwDue w @ [t]\<rparr>)"
| Run: "rwDue w = xs @ t # ys \<Longrightarrow> refresh_step w (run (tmAccount t) (w\<lparr>rwDue := xs @ ys\<rparr>))"

inductive_cases refresh_stepE: "refresh_step w w'"

definition start_refresh :: "int \<Rightarrow> int \<Rightarrow> int \<Rightarrow> gotime \<Rightarrow> refresh_world" where
  "start_refresh debounce cooldown timeout now =
     \<lparr>rwNow = now, rwSched = NewAutoRefreshScheduler debounce cooldown timeout, rwArmed = [], rwDue = [],
      rwNextID = 0, rwStarted = []\<rparr>"

inductive refresh_reach :: "refresh_world \<Rightarrow> bool" where
  Init: "refresh_reach (start_refresh debounce cooldown timeout now)"
| Step: "refresh_reach w \<Longrightarrow> refresh_step w w' \<Longrightarrow> refresh_reach w'"

section \<open>Stopping\<close>

lemma stopped_step:
  assumes "refresh_step w w'" and "asStopped (rwSched w)"
  shows "asStopped (rwSched w') \<and> rwStarted w' = rwStarted w"
  using assms by (cases rule: refresh_step.cases) (auto simp: Request_def Stop_def run_def Let_def)

lemma stopped_steps:
  assumes "refresh_step\<^sup>*\<^sup>* w w'" and "asStopped (rwSched w)"
  shows "asStopped (rwSched w') \<and> rwStarted w' = rwStarted w"
  using assms by (induction rule: rtranclp_induct) (auto dest: stopped_step)

section \<open>No request is lost\<close>

definition timers_of :: "refresh_world \<Rightarrow> timer list" where
  "timers_of w = rwArmed w @ rwDue w"

definition pending :: "string \<Rightarrow> refresh_world \<Rightarrow> bool" where
  "pending acct w \<longleftrightarrow> (\<exists>t \<in> set (timers_of w). tmAccount t = acct)"

definition timers_inv :: "refresh_world \<Rightarrow> bool" where
  "timers_inv w \<longleftrightarrow>
     (\<forall>t \<in> set (timers_of w). tmID t < rwNextID w)
     \<and> (\<forall>acct i. asTimers (rwSched w) acct = Some i \<longrightarrow>
          i < rwNextID w \<and> (\<forall>t \<in> set (timers_of w). tmID t = i \<longrightarrow> tmAccount t = acct))"

lemma timers_inv_start: "timers_inv (start_refresh d c t now)"
  by (simp add: timers_inv_def timers_of_def start_refresh_def NewAutoRefreshScheduler_def)

lemma timers_inv_step: "refresh_step w w' \<Longrightarrow> timers_inv w \<Longrightarrow> timers_inv w'"
proof (induction rule: refresh_step.induct)
  case (Ask w acct reason)
  then have "\<And>t. t \<in> set (timers_of w) \<Longrightarrow> tmID t < rwNextID w"
    by (simp add: timers_inv_def)
  then have "\<And>t. t \<in> set (rwArmed w) \<union> set (rwDue w) \<Longrightarrow> tmID t \<noteq> rwNextID w"
    unfolding timers_of_def by (metis less_irrefl set_append)
  with Ask show ?case
    by (auto simp: timers_inv_def timers_of_def Request_def Let_def stopTimer_def less_Suc_eq split: option.splits)
qed (auto simp: timers_inv_def timers_of_def Stop_def run_def Let_def split: if_splits)

lemma timers_inv_reach: "refresh_reach w \<Longrightarrow> timers_inv w"
  by (induction rule: refresh_reach.induct) (auto intro: timers_inv_start timers_inv_step)

lemma pending_request:
  assumes "timers_inv w" and "pending acct w"
  shows "pending acct (Request a reason w)"
proof -
  from assms(2) obtain t where t: "t \<in> set (timers_of w)" "tmAccount t = acct" by (auto simp: pending_def)
  show ?thesis
  proof (cases "TrimSpace a = [] \<or> asStopped (rwSched w)")
    case True
    with assms(2) show ?thesis by (auto simp: Request_def)
  next
    case False
    show ?thesis
    proof (cases "asTimers (rwSched w) (TrimSpace a) = Some (tmID t)")
      case True
      with assms(1) t have "acct = TrimSpace a" by (auto simp: timers_inv_def)
      with False show ?thesis by (auto simp: pending_def timers_of_def Request_def Let_def)
    next
      case kept: False
      with t(1) have "t \<in> set (timers_of (Request a reason w))"
        by (auto simp: timers_of_def Request_def Let_def stopTimer_def split: option.splits)
      with t(2) show ?thesis by (auto simp: pending_def)
    qed
  qed
qed

lemma pending_step:
  assumes "refresh_step w w'" and "timers_inv w" and "pending acct w" and "\<not> asStopped (rwSched w')"
  shows "pending acct w' \<or> rwStarted w' = rwStarted w @ [(acct, rwNow w)]"
  using assms
proof (cases rule: refresh_step.cases)
  case (Ask a reason)
  then show ?thesis using assms(2,3) pending_request by simp
next
  case (Run xs t ys)
  with assms(3,4) show ?thesis
    by (auto simp: pending_def timers_of_def run_def Let_def split: if_splits)
qed (use assms in \<open>auto simp: pending_def timers_of_def Stop_def\<close>)

section \<open>Cooldown\<close>

text \<open>When a goroutine gets the mutex before anything else happens.\<close>

inductive prompt_step :: "refresh_world \<Rightarrow> refresh_world \<Rightarrow> bool" where
  Ask: "prompt_step w (Request acct reason w)"
| Halt: "prompt_step w (Stop w)"
| Pass: "rwNow w \<le> now \<Longrightarrow> prompt_step w (w\<lparr>rwNow := now\<rparr>)"
| FireRun: "rwArmed w = xs @ t # ys \<Longrightarrow> tmDeadline t \<le> rwNow w \<Longrightarrow>
    prompt_step w (run (tmAccount t) (w\<lparr>rwArmed := xs @ ys\<rparr>))"

inductive prompt_reach :: "int \<Rightarrow> int \<Rightarrow> int \<Rightarrow> refresh_world \<Rightarrow> bool" for debounce cooldown timeout where
  Init: "zeroTime < now \<Longrightarrow> prompt_reach debounce cooldown timeout (start_refresh debounce cooldown timeout now)"
| Step: "prompt_reach debounce cooldown timeout w \<Longrightarrow> prompt_step w w' \<Longrightarrow> prompt_reach debounce cooldown timeout w'"

definition spaced :: "int \<Rightarrow> (string \<times> gotime) list \<Rightarrow> bool" where
  "spaced gap xs \<longleftrightarrow>
     (\<forall>i j. i < j \<longrightarrow> j < length xs \<longrightarrow> fst (xs ! i) = fst (xs ! j) \<longrightarrow> snd (xs ! i) + gap \<le> snd (xs ! j))"

lemma spaced_snoc:
  assumes "spaced gap xs" and "\<And>a. (acct, a) \<in> set xs \<Longrightarrow> a + gap \<le> now"
  shows "spaced gap (xs @ [(acct, now)])"
  unfolding spaced_def
proof (intro allI impI)
  fix i j assume ij: "i < j" "j < length (xs @ [(acct, now)])"
    and eq: "fst ((xs @ [(acct, now)]) ! i) = fst ((xs @ [(acct, now)]) ! j)"
  show "snd ((xs @ [(acct, now)]) ! i) + gap \<le> snd ((xs @ [(acct, now)]) ! j)"
  proof (cases "j < length xs")
    case True
    with ij eq assms(1) show ?thesis by (simp add: spaced_def nth_append)
  next
    case False
    with ij have i: "i < length xs" "j = length xs" by auto
    then have "(acct, snd (xs ! i)) \<in> set xs"
      using eq by (metis nth_append nth_append_length fst_conv nth_mem prod.collapse)
    with i show ?thesis by (simp add: nth_append assms(2))
  qed
qed

definition cooldown_inv :: "refresh_world \<Rightarrow> bool" where
  "cooldown_inv w \<longleftrightarrow>
     zeroTime < rwNow w \<and> 0 \<le> asCooldown (rwSched w) \<and> distinct (map tmID (rwArmed w))
     \<and> (\<forall>t \<in> set (rwArmed w). tmID t < rwNextID w \<and> asTimers (rwSched w) (tmAccount t) = Some (tmID t)
          \<and> (\<forall>n. asNextAllowed (rwSched w) (tmAccount t) = Some n \<longrightarrow> n \<le> tmDeadline t))
     \<and> (\<forall>acct n. asNextAllowed (rwSched w) acct = Some n \<longrightarrow> zeroTime < n)
     \<and> (\<forall>(acct, a) \<in> set (rwStarted w). \<exists>n. asNextAllowed (rwSched w) acct = Some n \<and> a + asCooldown (rwSched w) \<le> n)
     \<and> spaced (asCooldown (rwSched w)) (rwStarted w)"

lemma cooldown_inv_start: "zeroTime < now \<Longrightarrow> cooldown_inv (start_refresh d c t now)"
  by (simp add: cooldown_inv_def start_refresh_def NewAutoRefreshScheduler_def spaced_def)

lemma cooldown_inv_request:
  assumes "cooldown_inv w"
  shows "cooldown_inv (Request acct reason w)"
proof (cases "TrimSpace acct = [] \<or> asStopped (rwSched w)")
  case True
  with assms show ?thesis by (auto simp: Request_def)
next
  case False
  let ?a = "TrimSpace acct"
  have fresh: "\<And>t. t \<in> set (rwArmed w) \<Longrightarrow> tmID t \<noteq> rwNextID w \<and> tmID t < Suc (rwNextID w)"
    using assms unfolding cooldown_inv_def by (metis less_SucI less_irrefl)
  have other: "tmAccount t \<noteq> ?a"
    if "t \<in> set (case asTimers (rwSched w) ?a of None \<Rightarrow> rwArmed w | Some i \<Rightarrow> stopTimer i (rwArmed w))" for t
    using that assms by (auto simp: cooldown_inv_def stopTimer_def split: option.splits)
  have deadline: "n \<le> rwNow w + requestDelay (rwSched w) (rwNow w) ?a" if "asNextAllowed (rwSched w) ?a = Some n" for n
    using that assms by (auto simp: cooldown_inv_def requestDelay_def Let_def IsZero_def)
  have sub: "set (case asTimers (rwSched w) ?a of None \<Rightarrow> rwArmed w | Some i \<Rightarrow> stopTimer i (rwArmed w)) \<subseteq> set (rwArmed w)"
    "distinct (map tmID (rwArmed w)) \<Longrightarrow>
      distinct (map tmID (case asTimers (rwSched w) ?a of None \<Rightarrow> rwArmed w | Some i \<Rightarrow> stopTimer i (rwArmed w)))"
    by (auto simp: stopTimer_def distinct_map_filter split: option.splits)
  show ?thesis
    using False assms fresh other deadline sub
    unfolding cooldown_inv_def Request_def Let_def
    by fastforce
qed

lemma cooldown_inv_run:
  assumes "cooldown_inv w" and "rwArmed w = xs @ t # ys" and "tmDeadline t \<le> rwNow w"
  shows "cooldown_inv (run (tmAccount t) (w\<lparr>rwArmed := xs @ ys\<rparr>))"
proof -
  let ?c = "asCooldown (rwSched w)" and ?a = "tmAccount t"
  have t: "t \<in> set (rwArmed w)" using assms(2) by simp
  have other: "tmAccount u \<noteq> ?a" if "u \<in> set (xs @ ys)" for u
  proof
    assume "tmAccount u = ?a"
    moreover have "u \<in> set (rwArmed w)" using that assms(2) by auto
    ultimately have "tmID u = tmID t"
      using t assms(1) unfolding cooldown_inv_def by (metis option.inject)
    with that assms(1,2) show False by (auto simp: cooldown_inv_def image_iff)
  qed
  have late: "a + ?c \<le> rwNow w" if "(?a, a) \<in> set (rwStarted w)" for a
  proof -
    from that assms(1) obtain n where "asNextAllowed (rwSched w) ?a = Some n" "a + ?c \<le> n"
      by (fastforce simp: cooldown_inv_def)
    with assms(1,3) t show ?thesis by (fastforce simp: cooldown_inv_def)
  qed
  have "spaced ?c (rwStarted w @ [(?a, rwNow w)])"
    using assms(1) late by (intro spaced_snoc) (auto simp: cooldown_inv_def)
  moreover have "\<exists>n. (if acct = ?a then Some (rwNow w + ?c) else asNextAllowed (rwSched w) acct) = Some n \<and> a + ?c \<le> n"
    if "(acct, a) \<in> set (rwStarted w @ [(?a, rwNow w)])" for acct a
    using that assms(1) late by (force simp: cooldown_inv_def)
  ultimately show ?thesis
    using assms other by (fastforce simp: cooldown_inv_def run_def Let_def)
qed

lemma cooldown_inv_step: "prompt_step w w' \<Longrightarrow> cooldown_inv w \<Longrightarrow> cooldown_inv w'"
proof (induction rule: prompt_step.induct)
  case (Halt w)
  have "rwArmed (Stop w) = []"
  proof -
    have "tmID t \<in> ran (asTimers (rwSched w))" if "t \<in> set (rwArmed w)" for t
      using that Halt by (auto simp: cooldown_inv_def intro: ranI)
    then show ?thesis by (simp add: Stop_def filter_empty_conv)
  qed
  with Halt show ?case by (simp add: cooldown_inv_def) (simp add: Stop_def)
next
  case (Pass w now)
  then show ?case by (auto simp: cooldown_inv_def)
qed (simp_all add: cooldown_inv_request cooldown_inv_run)

lemma cooldown_inv_reach: "prompt_reach d c t w \<Longrightarrow> cooldown_inv w \<and> asCooldown (rwSched w) = (if c < 0 then 0 else c)"
proof (induction rule: prompt_reach.induct)
  case (Init now)
  then show ?case by (simp add: cooldown_inv_start) (simp add: start_refresh_def NewAutoRefreshScheduler_def)
next
  case (Step w w')
  have "asCooldown (rwSched w') = asCooldown (rwSched w)"
    using Step.hyps(2) by (cases rule: prompt_step.cases) (auto simp: Request_def Stop_def run_def Let_def)
  with Step show ?case by (auto intro: cooldown_inv_step)
qed

section \<open>Properties\<close>

text \<open>After the scheduler was stopped, no refresh starts any more: neither armed timers nor
  goroutines that were waiting for the mutex when it stopped, nor later requests, start one.\<close>

theorem no_refresh_after_stop:
  assumes "refresh_step\<^sup>*\<^sup>* (Stop w) w'"
  shows "rwStarted w' = rwStarted w \<and> asStopped (rwSched w')"
proof -
  have "asStopped (rwSched (Stop w))" "rwStarted (Stop w) = rwStarted w" by (simp_all add: Stop_def)
  with stopped_steps [OF assms] show ?thesis by simp
qed

theorem no_refresh_after_stop_witness:
  "rwStarted (Request ''A'' [] (Stop (start_refresh 5 60 10 0))) = []"
proof -
  have "refresh_step\<^sup>*\<^sup>* (Stop (start_refresh 5 60 10 0)) (Request ''A'' [] (Stop (start_refresh 5 60 10 0)))"
    by (intro r_into_rtranclp refresh_step.Ask)
  from no_refresh_after_stop [OF this] show ?thesis by (simp add: start_refresh_def)
qed

text \<open>Time that passes lets a pending refresh start.\<close>

lemma pending_starts:
  assumes "pending acct w" and "\<not> asStopped (rwSched w)"
  shows "\<exists>w'' at0. refresh_step\<^sup>*\<^sup>* w w'' \<and> rwStarted w'' = rwStarted w @ [(acct, at0)]"
proof -
  obtain t where t: "t \<in> set (rwArmed w) \<union> set (rwDue w)" "tmAccount t = acct"
    using assms(1) by (auto simp: pending_def timers_of_def)
  show ?thesis
  proof (cases "t \<in> set (rwDue w)")
    case True
    then obtain xs ys where "rwDue w = xs @ t # ys" by (auto dest: split_list)
    then have "refresh_step w (run (tmAccount t) (w\<lparr>rwDue := xs @ ys\<rparr>))" by (rule refresh_step.Run)
    moreover have "rwStarted (run (tmAccount t) (w\<lparr>rwDue := xs @ ys\<rparr>)) = rwStarted w @ [(acct, rwNow w)]"
      using assms(2) t(2) by (simp add: run_def Let_def)
    ultimately show ?thesis by blast
  next
    case False
    then obtain xs ys where split: "rwArmed w = xs @ t # ys" using t(1) by (auto dest: split_list)
    define w1 where "w1 = w\<lparr>rwNow := max (rwNow w) (tmDeadline t)\<rparr>"
    define w2 where "w2 = w1\<lparr>rwArmed := xs @ ys, rwDue := rwDue w1 @ [t]\<rparr>"
    define w3 where "w3 = run (tmAccount t) (w2\<lparr>rwDue := rwDue w1 @ []\<rparr>)"
    have "refresh_step w w1" unfolding w1_def by (rule refresh_step.Pass) simp
    moreover have "refresh_step w1 w2" unfolding w2_def by (rule refresh_step.Fire) (simp_all add: w1_def split)
    moreover have "refresh_step w2 w3" unfolding w3_def by (rule refresh_step.Run) (simp add: w2_def)
    ultimately have "refresh_step\<^sup>*\<^sup>* w w3" by (meson r_into_rtranclp rtranclp_trans)
    moreover have "rwStarted w3 = rwStarted w @ [(acct, rwNow w1)]"
      using assms(2) t(2) by (simp add: w3_def w2_def w1_def run_def Let_def)
    ultimately show ?thesis by blast
  qed
qed

lemma steps_reach: "refresh_step\<^sup>*\<^sup>* w w' \<Longrightarrow> refresh_reach w \<Longrightarrow> refresh_reach w'"
  by (induction rule: rtranclp_induct) (auto intro: refresh_reach.Step)

lemma pending_steps:
  assumes "refresh_step\<^sup>*\<^sup>* w w'" and "refresh_reach w" and "pending acct w" and "\<not> asStopped (rwSched w')"
  shows "\<exists>new. rwStarted w' = rwStarted w @ new \<and> (pending acct w' \<or> acct \<in> fst ` set new)"
  using assms
proof (induction rule: rtranclp_induct)
  case base
  then show ?case by simp
next
  case (step v v')
  have running: "\<not> asStopped (rwSched v)" using stopped_step [OF step.hyps(2)] step.prems(3) by blast
  then obtain new where new: "rwStarted v = rwStarted w @ new" "pending acct v \<or> acct \<in> fst ` set new"
    using step.IH step.prems(1,2) by blast
  have "\<exists>more. rwStarted v' = rwStarted v @ more"
    using step.hyps(2) by (cases rule: refresh_step.cases) (auto simp: Request_def Stop_def run_def Let_def)
  then obtain more where more: "rwStarted v' = rwStarted v @ more" by blast
  show ?case
  proof (cases "acct \<in> fst ` set new")
    case True
    then show ?thesis using new(1) more by auto
  next
    case False
    then have "pending acct v" using new(2) by blast
    from pending_step [OF step.hyps(2) timers_inv_reach [OF steps_reach [OF step.hyps(1) step.prems(1)]] this step.prems(3)]
    show ?thesis using new(1) more by force
  qed
qed

text \<open>No account waits longer than the cooldown.\<close>

lemma next_allowed_bounded:
  "refresh_reach w \<Longrightarrow> 0 \<le> asDebounce (rwSched w) \<and> 0 \<le> asCooldown (rwSched w)
     \<and> (\<forall>acct n. asNextAllowed (rwSched w) acct = Some n \<longrightarrow> n \<le> rwNow w + asCooldown (rwSched w))"
proof (induction rule: refresh_reach.induct)
  case (Init debounce cooldown timeout now)
  then show ?case by (simp add: start_refresh_def NewAutoRefreshScheduler_def)
next
  case (Step w w')
  from Step.hyps(2) Step.IH show ?case
    by (cases rule: refresh_step.cases)
      (auto simp: Request_def Stop_def run_def Let_def, fastforce+)
qed

text \<open>C34: No request is lost. In every reachable state of a running scheduler a request for an account arms a timer of
  that account that is due after the debounce time or the cooldown, whichever is longer, at the latest; and whatever
  steps follow, as long as the scheduler is not stopped, a refresh of the account has started since the request, or a
  timer of the account is still armed or due, and then the passage of time alone leads to a start.\<close>

theorem refresh_request_served:
  assumes "refresh_reach w" and "TrimSpace acct \<noteq> []" and "refresh_step\<^sup>*\<^sup>* (Request acct reason w) w'"
    and "\<not> asStopped (rwSched w')"
  shows "(\<exists>t \<in> set (rwArmed (Request acct reason w)). tmAccount t = TrimSpace acct
      \<and> tmDeadline t \<le> rwNow w + max (asDebounce (rwSched w)) (asCooldown (rwSched w)))
    \<and> (\<exists>new. rwStarted w' = rwStarted w @ new
      \<and> (TrimSpace acct \<in> fst ` set new
         \<or> pending (TrimSpace acct) w'
           \<and> (\<exists>w'' at0. refresh_step\<^sup>*\<^sup>* w' w'' \<and> rwStarted w'' = rwStarted w' @ [(TrimSpace acct, at0)])))"
proof -
  let ?w = "Request acct reason w"
  have running: "\<not> asStopped (rwSched w)"
    using assms(3,4) stopped_steps [OF converse_rtranclp_into_rtranclp [OF refresh_step.Ask assms(3)]] by blast
  have started: "rwStarted ?w = rwStarted w" by (simp add: Request_def Let_def)
  define t where "t = \<lparr>tmID = rwNextID w, tmAccount = TrimSpace acct,
     tmReason = (if TrimSpace reason = [] then ''trade-change'' else TrimSpace reason),
     tmDeadline = rwNow w + requestDelay (rwSched w) (rwNow w) (TrimSpace acct)\<rparr>"
  have t: "t \<in> set (rwArmed ?w)" using running assms(2) by (simp add: Request_def Let_def t_def)
  have delay: "requestDelay (rwSched w) (rwNow w) (TrimSpace acct) \<le> max (asDebounce (rwSched w)) (asCooldown (rwSched w))"
    using next_allowed_bounded [OF assms(1)] by (fastforce simp: requestDelay_def Let_def split: option.split)
  have "pending (TrimSpace acct) ?w" unfolding pending_def timers_of_def using t by (intro bexI [of _ t]) (simp_all add: t_def)
  from pending_steps [OF assms(3) refresh_reach.Step [OF assms(1) refresh_step.Ask] this assms(4)]
  obtain new where new: "rwStarted w' = rwStarted w @ new" "pending (TrimSpace acct) w' \<or> TrimSpace acct \<in> fst ` set new"
    unfolding started by blast
  have "\<exists>t \<in> set (rwArmed ?w). tmAccount t = TrimSpace acct
      \<and> tmDeadline t \<le> rwNow w + max (asDebounce (rwSched w)) (asCooldown (rwSched w))"
    using t delay by (intro bexI [of _ t]) (simp_all add: t_def)
  then show ?thesis using new pending_starts [OF _ assms(4)] by blast
qed

definition demo_asked :: refresh_world where
  "demo_asked = Request ''A'' [] (start_refresh 5 60 10 0)"

theorem refresh_request_served_witness:
  "pending ''A'' (Request ''B'' [] demo_asked)"
proof -
  have a: "TrimSpace ''A'' = ''A''" by (simp add: TrimSpace_ascii_word)
  have "rwStarted (Request ''B'' [] demo_asked) = []" "\<not> asStopped (rwSched (Request ''B'' [] demo_asked))"
    by (simp_all add: demo_asked_def Request_def Let_def start_refresh_def NewAutoRefreshScheduler_def)
  moreover have "refresh_step\<^sup>*\<^sup>* (Request ''A'' [] (start_refresh 5 60 10 0)) (Request ''B'' [] demo_asked)"
    unfolding demo_asked_def by (intro r_into_rtranclp refresh_step.Ask)
  ultimately show ?thesis
    using refresh_request_served [OF refresh_reach.Init, of "''A''" "[]" 5 60 10 0] by (fastforce simp: a)
qed

text \<open>C16: Refreshes of an account are at least the cooldown apart, if a timer's goroutine enters the
  critical section before the next request.\<close>

theorem refresh_cooldown:
  assumes "prompt_reach debounce cooldown timeout w" and "0 \<le> cooldown"
  shows "spaced cooldown (rwStarted w)"
  using cooldown_inv_reach [OF assms(1)] assms(2) by (auto simp: cooldown_inv_def)

theorem refresh_cooldown_witness:
  "spaced 60 (rwStarted (Request ''A'' [] (start_refresh 5 60 10 0)))"
  by (rule refresh_cooldown [where debounce = 5 and timeout = 10])
    (rule prompt_reach.Step [OF prompt_reach.Init prompt_step.Ask], simp_all add: zeroTime_def second_def)

text \<open>The cooldown is not kept when a request comes between the start of a timer's goroutine and
  its critical section. \<^verbatim>\<open>Timer.Stop\<close> does not stop that goroutine, and the new timer, whose delay
  was computed before the goroutine sets the next allowed time, fires as well: with a cooldown of
  a minute two refreshes of an account start at the same instant.\<close>

theorem cooldown_race:
  "\<exists>w. refresh_reach w \<and> asCooldown (rwSched w) = 60 * second \<and> rwStarted w = [(''A'', 0), (''A'', 0)]"
proof -
  define w0 where "w0 = start_refresh 0 (60 * second) second 0"
  define w1 where "w1 = Request ''A'' [] w0"
  define t0 where "t0 = \<lparr>tmID = 0, tmAccount = ''A'', tmReason = ''trade-change'', tmDeadline = 0\<rparr>"
  define t1 where "t1 = \<lparr>tmID = 1, tmAccount = ''A'', tmReason = ''trade-change'', tmDeadline = 0\<rparr>"
  define w2 where "w2 = w1\<lparr>rwArmed := [] @ [], rwDue := rwDue w1 @ [t0]\<rparr>"
  define w3 where "w3 = Request ''A'' [] w2"
  define w4 where "w4 = w3\<lparr>rwArmed := [] @ [], rwDue := rwDue w3 @ [t1]\<rparr>"
  define w5 where "w5 = run (tmAccount t0) (w4\<lparr>rwDue := [] @ [t1]\<rparr>)"
  define w6 where "w6 = run (tmAccount t1) (w5\<lparr>rwDue := [] @ []\<rparr>)"
  have a: "TrimSpace ''A'' = ''A''" by (simp add: TrimSpace_ascii_word)
  note defs = w0_def start_refresh_def NewAutoRefreshScheduler_def Request_def Let_def a requestDelay_def
    stopTimer_def second_def
  have w1: "w1 = \<lparr>rwNow = 0, rwSched = (NewAutoRefreshScheduler 0 (60 * second) second)\<lparr>asTimers := [''A'' \<mapsto> 0]\<rparr>,
      rwArmed = [t0], rwDue = [], rwNextID = 1, rwStarted = []\<rparr>"
    by (simp add: w1_def defs t0_def)
  have w3: "w3 = \<lparr>rwNow = 0, rwSched = (NewAutoRefreshScheduler 0 (60 * second) second)\<lparr>asTimers := [''A'' \<mapsto> 1]\<rparr>,
      rwArmed = [t1], rwDue = [t0], rwNextID = 2, rwStarted = []\<rparr>"
    by (simp add: w3_def w2_def w1 defs t1_def)
  have "refresh_reach w1" unfolding w1_def w0_def by (rule refresh_reach.Step [OF refresh_reach.Init refresh_step.Ask])
  then have "refresh_reach w2"
    unfolding w2_def by (rule refresh_reach.Step) (rule refresh_step.Fire, simp_all add: w1 t0_def)
  then have "refresh_reach w3" unfolding w3_def by (rule refresh_reach.Step) (rule refresh_step.Ask)
  then have "refresh_reach w4"
    unfolding w4_def by (rule refresh_reach.Step) (rule refresh_step.Fire, simp_all add: w3 t1_def)
  then have "refresh_reach w5"
    unfolding w5_def by (rule refresh_reach.Step) (rule refresh_step.Run, simp add: w4_def w3)
  then have "refresh_reach w6"
    unfolding w6_def by (rule refresh_reach.Step) (rule refresh_step.Run, simp add: w5_def w4_def w3 run_def
        NewAutoRefreshScheduler_def)
  moreover have "asCooldown (rwSched w6) = 60 * second \<and> rwStarted w6 = [(''A'', 0), (''A'', 0)]"
    by (simp add: w6_def w5_def w4_def w3 run_def NewAutoRefreshScheduler_def t0_def t1_def second_def)
  ultimately show ?thesis by blast
qed

end
