(* ===== verification/Messages.thy ===== *)
theory Messages
  imports Go_Json
begin

text \<open>
  The messages of the gateway (\<^verbatim>\<open>internal/redisstream/message.go\<close>): decoding of a stream entry into an
  envelope and its summary for observability. The values of \<^verbatim>\<open>map[string]any\<close> that JSON decoding
  creates are of type \<^typ>\<open>any\<close>.
\<close>

section \<open>Generic decoding\<close>

text \<open>\<^verbatim>\<open>encoding/json\<close> into \<^verbatim>\<open>any\<close>: every number becomes a \<^verbatim>\<open>float64\<close>; one out of range is stored as
  \<^verbatim>\<open>nil\<close> and makes the call return an error. The last of several members of a name counts.\<close>

definition any_of_rat :: "rat \<Rightarrow> any" where
  "any_of_rat q = (case round64 q of Fin v \<Rightarrow> AnyFloat v | _ \<Rightarrow> AnyNil)"

fun any_of_json :: "json \<Rightarrow> any" where
  "any_of_json JNull = AnyNil"
| "any_of_json (JBool b) = AnyBool b"
| "any_of_json (JInt n) = any_of_rat (of_int n)"
| "any_of_json (JDec q) = any_of_rat q"
| "any_of_json (JStr s) = AnyStr s"
| "any_of_json (JArr vs) = AnyList (map any_of_json vs)"
| "any_of_json (JObj ps) =
     AnyObj (fold (\<lambda>(k, v). \<lambda>acc. filter (\<lambda>p. fst p \<noteq> k) acc @ [(k, v)]) (map (\<lambda>(k, v). (k, any_of_json v)) ps) [])"

fun any_errs :: "json \<Rightarrow> bool" where
  "any_errs (JInt n) = (dec_rat (of_int n) = None)"
| "any_errs (JDec q) = (dec_rat q = None)"
| "any_errs (JArr vs) = list_ex any_errs vs"
| "any_errs (JObj ps) = list_ex (\<lambda>(k, v). any_errs v) ps"
| "any_errs _ = False"

text \<open>A member of type \<^verbatim>\<open>map[string]any\<close>: \<^verbatim>\<open>null\<close> makes it nil, a second object is decoded into the map
  the first one left.\<close>

definition map_of_members :: "(string \<rightharpoonup> any) \<Rightarrow> (string \<times> json) list \<Rightarrow> (string \<rightharpoonup> any)" where
  "map_of_members m0 qs = foldl (\<lambda>m (k, v). m(k \<mapsto> any_of_json v)) m0 qs"

definition ctx_value :: "ctxmap \<Rightarrow> json \<Rightarrow> ctxmap" where
  "ctx_value c v =
     (case v of
        JNull \<Rightarrow> None
      | JObj qs \<Rightarrow> Some (map_of_members (case c of None \<Rightarrow> Map.empty | Some m \<Rightarrow> m) qs)
      | _ \<Rightarrow> c)"

definition jctx :: "string \<Rightarrow> (string \<times> json) list \<Rightarrow> ctxmap" where
  "jctx k ps = foldl (\<lambda>c (key, v). if EqualFold key k then ctx_value c v else c) None ps"

definition ctx_errs :: "string \<Rightarrow> (string \<times> json) list \<Rightarrow> bool" where
  "ctx_errs k ps \<longleftrightarrow>
     list_ex (\<lambda>(key, v). EqualFold key k \<and>
       (case v of JNull \<Rightarrow> False | JObj qs \<Rightarrow> list_ex (\<lambda>(a, b). any_errs b) qs | _ \<Rightarrow> True)) ps"

text \<open>A member that is a struct: all objects of its name are decoded into the one struct.\<close>

definition jstruct :: "string \<Rightarrow> (string \<times> json) list \<Rightarrow> (string \<times> json) list" where
  "jstruct k ps = concat (map (\<lambda>(key, v). if EqualFold key k then jmembers v else []) ps)"

definition struct_errs :: "string \<Rightarrow> (string \<times> json) list \<Rightarrow> bool" where
  "struct_errs k ps \<longleftrightarrow> list_ex (\<lambda>(key, v). EqualFold key k \<and> jnot_object v) ps"

section \<open>Envelopes\<close>

record Routing =
  rtEnv :: string
  rtBrokerID :: string
  rtGatewayID :: string
  rtAccountID :: string

definition Routing0 :: Routing where
  "Routing0 = \<lparr>rtEnv = [], rtBrokerID = [], rtGatewayID = [], rtAccountID = []\<rparr>"

text \<open>\<^verbatim>\<open>json.RawMessage\<close> is the JSON value, \<open>None\<close> when the member is missing.\<close>

record EntryEnvelope =
  enStream :: string
  enStreamID :: string
  enBodyText :: string
  enProtocol :: string
  enMessageType :: string
  enMessageID :: string
  enEventType :: string
  enEventName :: string
  enAction :: string
  enStatus :: string
  enCode :: string
  enMessage :: string
  enResultType :: string
  enOriginMessageID :: string
  enRequestID :: string
  enCorrelationID :: string
  enRequestCorrelationID :: string
  enIdempotencyKey :: string
  enGatewayOrderID :: string
  enProducedAt :: gotime
  enRouting :: Routing
  enPayload :: "json option"
  enAdapterContext :: ctxmap

text \<open>The field values of a stream entry as the Redis client hands them over.\<close>

datatype stream_value = SvString string | SvBytes string | SvOther

definition bodyString :: "stream_value option \<Rightarrow> string option" where
  "bodyString v = (case v of Some (SvString s) \<Rightarrow> Some s | Some (SvBytes s) \<Rightarrow> Some s | _ \<Rightarrow> None)"

definition routingFromStream :: "string \<Rightarrow> Routing" where
  "routingFromStream stream =
     (let parts = SplitByte (CHR '':'') stream
      in if length parts < 6 \<or> parts ! 0 \<noteq> ''relay'' \<or> parts ! 2 \<noteq> ''v1'' then Routing0
         else \<lparr>rtEnv = parts ! 1, rtBrokerID = parts ! 3, rtGatewayID = parts ! 4, rtAccountID = []\<rparr>)"

definition millisecond :: int where "millisecond = 1000000"

definition UnixMilli :: "int \<Rightarrow> gotime" where
  "UnixMilli n = n * millisecond"

definition producedAtFromStreamID :: "string \<Rightarrow> gotime" where
  "producedAtFromStreamID streamID =
     (case CutByte (CHR ''-'') (TrimSpace streamID) of
        None \<Rightarrow> zeroTime
      | Some (milliseconds, rest) \<Rightarrow>
          if milliseconds = [] then zeroTime
          else case ParseInt64 milliseconds of
                 None \<Rightarrow> zeroTime
               | Some value \<Rightarrow> if value \<le> 0 then zeroTime else UnixMilli value)"

text \<open>The envelope before the body is decoded.\<close>

definition bareEnvelope :: "string \<Rightarrow> string \<Rightarrow> string \<Rightarrow> EntryEnvelope" where
  "bareEnvelope stream streamID body =
     \<lparr>enStream = stream, enStreamID = streamID, enBodyText = body, enProtocol = [], enMessageType = [],
      enMessageID = [], enEventType = [], enEventName = [], enAction = [], enStatus = [], enCode = [],
      enMessage = [], enResultType = [], enOriginMessageID = [], enRequestID = [], enCorrelationID = [],
      enRequestCorrelationID = [], enIdempotencyKey = [], enGatewayOrderID = [], enProducedAt = zeroTime,
      enRouting = routingFromStream stream, enPayload = None, enAdapterContext = None\<rparr>"

definition message_errs :: "json \<Rightarrow> bool" where
  "message_errs v \<longleftrightarrow>
     (let ps = jmembers v in jnot_object v
      \<or> str_errs [''protocol'', ''message_type'', ''message_id'', ''event_type'', ''event_name'', ''action'',
          ''status'', ''code'', ''message'', ''result_type'', ''origin_message_id'', ''request_id'',
          ''correlation_id'', ''request_correlation_id'', ''idempotency_key'', ''gateway_order_id'',
          ''produced_at''] ps
      \<or> struct_errs ''routing'' ps
      \<or> str_errs [''env'', ''broker_id'', ''gateway_id'', ''account_id''] (jstruct ''routing'' ps)
      \<or> ctx_errs ''adapter_context'' ps)"

definition orElse :: "string \<Rightarrow> string \<Rightarrow> string" where
  "orElse a b = (if a \<noteq> [] then a else b)"

definition mergeRouting :: "(string \<times> json) list \<Rightarrow> Routing \<Rightarrow> Routing" where
  "mergeRouting rs r =
     \<lparr>rtEnv = orElse (jstr ''env'' rs) (rtEnv r), rtBrokerID = orElse (jstr ''broker_id'' rs) (rtBrokerID r),
      rtGatewayID = orElse (jstr ''gateway_id'' rs) (rtGatewayID r),
      rtAccountID = orElse (jstr ''account_id'' rs) (rtAccountID r)\<rparr>"

definition fillEnvelope :: "EntryEnvelope \<Rightarrow> (string \<times> json) list \<Rightarrow> EntryEnvelope" where
  "fillEnvelope e ps = e
     \<lparr>enProtocol := jstr ''protocol'' ps, enMessageType := jstr ''message_type'' ps,
      enMessageID := jstr ''message_id'' ps,
      enEventType := orElse (jstr ''event_type'' ps) (jstr ''event_name'' ps),
      enEventName := jstr ''event_name'' ps, enAction := jstr ''action'' ps, enStatus := jstr ''status'' ps,
      enCode := jstr ''code'' ps, enMessage := jstr ''message'' ps, enResultType := jstr ''result_type'' ps,
      enOriginMessageID := jstr ''origin_message_id'' ps, enRequestID := jstr ''request_id'' ps,
      enCorrelationID := jstr ''correlation_id'' ps,
      enRequestCorrelationID := jstr ''request_correlation_id'' ps,
      enIdempotencyKey := jstr ''idempotency_key'' ps, enGatewayOrderID := jstr ''gateway_order_id'' ps,
      enProducedAt := (let t = parseTime (jstr ''produced_at'' ps)
                       in if IsZero t then producedAtFromStreamID (enStreamID e) else t),
      enRouting := mergeRouting (jstruct ''routing'' ps) (enRouting e),
      enPayload := raw_member ''payload'' ps, enAdapterContext := jctx ''adapter_context'' ps\<rparr>"

text \<open>\<^verbatim>\<open>DecodeEntry\<close> returns the envelope as far as it got beside its error.\<close>

definition DecodeEntry ::
    "codec \<Rightarrow> string \<Rightarrow> string \<Rightarrow> (string \<rightharpoonup> stream_value) \<Rightarrow> EntryEnvelope \<times> error option" where
  "DecodeEntry C stream streamID values =
     (case values ''body'' of
        None \<Rightarrow> (bareEnvelope stream streamID [], Some (ErrPayload ''missing body field''))
      | Some bodyValue \<Rightarrow>
          case bodyString (Some bodyValue) of
            None \<Rightarrow> (bareEnvelope stream streamID [], Some (ErrPayload ''body field has another type''))
          | Some body \<Rightarrow>
              let e = bareEnvelope stream streamID body
              in case js_parse C body of
                   None \<Rightarrow> (e, Some (ErrJSON ''syntax''))
                 | Some v \<Rightarrow>
                     if message_errs v then (e, Some (ErrJSON ''type'')) else (fillEnvelope e (jmembers v), None))"

section \<open>Summaries\<close>

text \<open>The insertion sort by swaps: the element at \<open>j\<close> moves to the front while it is smaller than
  its left neighbour.\<close>

fun siftLeft :: "nat \<Rightarrow> 'a :: linorder list \<Rightarrow> 'a list" where
  "siftLeft 0 xs = xs"
| "siftLeft (Suc j) xs =
     (if xs ! Suc j < xs ! j then siftLeft j (xs[Suc j := xs ! j, j := xs ! Suc j]) else xs)"

definition sortStrings :: "string list \<Rightarrow> string list" where
  "sortStrings values = fold siftLeft [1..<length values] values"

definition payloadKeys :: "json option \<Rightarrow> string list" where
  "payloadKeys raw =
     (case raw of
        Some (JObj ps) \<Rightarrow> sortStrings (remdups (map fst ps))
      | _ \<Rightarrow> [])"

record MessageSummary =
  msStream :: string
  msStreamID :: string
  msMessageType :: string
  msMessageID :: string
  msEventType :: string
  msAction :: string
  msStatus :: string
  msCode :: string
  msOriginMessageID :: string
  msRequestID :: string
  msCorrelationID :: string
  msGatewayOrderID :: string
  msAccountID :: string
  msProducedAt :: string
  msBodyBytes :: nat
  msPayloadKeys :: "string list"
  msParseError :: "error option"
  msRawFields :: "string set"

definition SummarizeEntry ::
    "codec \<Rightarrow> string \<Rightarrow> string \<Rightarrow> (string \<rightharpoonup> stream_value) \<Rightarrow> MessageSummary" where
  "SummarizeEntry C stream streamID values =
     (case DecodeEntry C stream streamID values of
        (e, Some err) \<Rightarrow>
          \<lparr>msStream = stream, msStreamID = streamID, msMessageType = [], msMessageID = [], msEventType = [],
           msAction = [], msStatus = [], msCode = [], msOriginMessageID = [], msRequestID = [],
           msCorrelationID = [], msGatewayOrderID = [], msAccountID = [], msProducedAt = [],
           msBodyBytes = length (enBodyText e), msPayloadKeys = [], msParseError = Some err,
           msRawFields = dom values\<rparr>
      | (e, None) \<Rightarrow>
          \<lparr>msStream = stream, msStreamID = streamID, msMessageType = enMessageType e,
           msMessageID = enMessageID e, msEventType = enEventType e, msAction = enAction e,
           msStatus = enStatus e, msCode = enCode e, msOriginMessageID = enOriginMessageID e,
           msRequestID = enRequestID e, msCorrelationID = enCorrelationID e,
           msGatewayOrderID = enGatewayOrderID e, msAccountID = rtAccountID (enRouting e),
           msProducedAt = (if IsZero (enProducedAt e) then [] else FormatRFC3339Nano (enProducedAt e)),
           msBodyBytes = length (enBodyText e), msPayloadKeys = payloadKeys (enPayload e),
           msParseError = None, msRawFields = dom values\<rparr>)"

section \<open>Sorting\<close>

lemma length_siftLeft [simp]: "length (siftLeft j xs) = length xs"
  by (induction j xs rule: siftLeft.induct) auto

text \<open>Moving the element after a sorted prefix into place is insertion into the prefix.\<close>

lemma siftLeft_insort:
  "sorted ys \<Longrightarrow> siftLeft (length ys) (ys @ x # zs) = insort x ys @ zs"
proof (induction ys arbitrary: zs rule: rev_induct)
  case Nil
  then show ?case by simp
next
  case (snoc y ys)
  have s: "sorted ys" "\<forall>z \<in> set ys. z \<le> y" using snoc.prems by (auto simp: sorted_append)
  have at: "(ys @ y # x # zs) ! Suc (length ys) = x" "(ys @ y # x # zs) ! length ys = y"
    by (simp_all add: nth_append)
  have swap: "(ys @ y # x # zs)[Suc (length ys) := y, length ys := x] = ys @ x # y # zs"
    by (simp add: list_update_append)
  show ?case
  proof (cases "x < y")
    case True
    then have "siftLeft (length (ys @ [y])) ((ys @ [y]) @ x # zs) = insort x ys @ y # zs"
      using snoc.IH [OF s(1), of "y # zs"] by (simp add: at swap)
    also have "insort x ys @ y # zs = insort x (ys @ [y]) @ zs"
      using True s by (induction ys) auto
    finally show ?thesis .
  next
    case False
    then have "insort x (ys @ [y]) = ys @ [y, x]"
      using sorted_insort_is_snoc [OF snoc.prems, of x] s(2) by force
    with False show ?thesis by (simp add: at)
  qed
qed

lemma fold_siftLeft:
  "n \<le> length xs \<Longrightarrow> fold siftLeft [0..<n] xs = sort (take n xs) @ drop n xs"
proof (induction n)
  case 0
  then show ?case by simp
next
  case (Suc n)
  then have n: "n < length xs" by simp
  have "fold siftLeft [0..<Suc n] xs = siftLeft n (sort (take n xs) @ drop n xs)"
    using Suc by simp
  also have "drop n xs = xs ! n # drop (Suc n) xs" using n by (rule Cons_nth_drop_Suc [symmetric])
  also have "siftLeft n (sort (take n xs) @ xs ! n # drop (Suc n) xs)
      = insort (xs ! n) (sort (take n xs)) @ drop (Suc n) xs"
    using siftLeft_insort [of "sort (take n xs)" "xs ! n" "drop (Suc n) xs"] n by simp
  also have "insort (xs ! n) (sort (take n xs)) = sort (take (Suc n) xs)"
    using n by (simp add: take_Suc_conv_app_nth sort_conv_fold)
  finally show ?case .
qed

lemma sortStrings_sort: "sortStrings xs = sort xs"
proof (cases xs)
  case Nil
  then show ?thesis by (simp add: sortStrings_def)
next
  case (Cons x ys)
  then have "[0..<length xs] = 0 # [1..<length xs]" by (simp add: upt_rec)
  then have "sortStrings xs = fold siftLeft [0..<length xs] xs" by (simp add: sortStrings_def)
  then show ?thesis using fold_siftLeft [of "length xs" xs] by simp
qed

section \<open>Member names\<close>

lemma fold_key_message_names [simp]:
  "fold_key ''event_type'' = ''event_type''" "fold_key ''event_name'' = ''event_name''"
  "fold_key ''status'' = ''status''" "fold_key ''code'' = ''code''" "fold_key ''message'' = ''message''"
  "fold_key ''result_type'' = ''result_type''" "fold_key ''origin_message_id'' = ''origin_message_id''"
  "fold_key ''request_correlation_id'' = ''request_correlation_id''"
  "fold_key ''produced_at'' = ''produced_at''" "fold_key ''routing'' = ''routing''"
  "fold_key ''env'' = ''env''" "fold_key ''broker_id'' = ''broker_id''"
  "fold_key ''gateway_id'' = ''gateway_id''" "fold_key ''adapter_context'' = ''adapter_context''"
  by (rule fold_key_plain; simp add: name_chars_def)+

lemma jstruct_Cons [simp]:
  "jstruct k ((key, v) # ps) = (if EqualFold key k then jmembers v else []) @ jstruct k ps"
  "jstruct k [] = []"
  by (simp_all add: jstruct_def)

lemma struct_errs_Cons [simp]:
  "struct_errs k ((key, v) # ps) \<longleftrightarrow> EqualFold key k \<and> jnot_object v \<or> struct_errs k ps"
  "\<not> struct_errs k []"
  by (simp_all add: struct_errs_def)

lemma other_members_append:
  "jstruct k (ps @ qs) = jstruct k ps @ jstruct k qs"
  "struct_errs k (ps @ qs) \<longleftrightarrow> struct_errs k ps \<or> struct_errs k qs"
  "ctx_errs k (ps @ qs) \<longleftrightarrow> ctx_errs k ps \<or> ctx_errs k qs"
  "jctx k (ps @ qs) = foldl (\<lambda>c (key, v). if EqualFold key k then ctx_value c v else c) (jctx k ps) qs"
  by (simp_all add: jstruct_def struct_errs_def ctx_errs_def jctx_def)

lemma ctx_none:
  assumes "list_all (\<lambda>(key, v). \<not> EqualFold key k) ps"
  shows "jctx k ps = None" "\<not> ctx_errs k ps" "jstruct k ps = []" "\<not> struct_errs k ps"
proof -
  have "foldl (\<lambda>c (key, v). if EqualFold key k then ctx_value c v else c) c ps = c" for c
    using assms by (induction ps arbitrary: c) auto
  then show "jctx k ps = None" by (simp add: jctx_def)
  show "\<not> ctx_errs k ps" "jstruct k ps = []" "\<not> struct_errs k ps"
    using assms by (induction ps) (auto simp: ctx_errs_def)
qed

section \<open>Commands read back\<close>

text \<open>The members a published command has.\<close>

definition command_members :: "CommandEnvelope \<Rightarrow> json \<Rightarrow> (string \<times> json) list" where
  "command_members e p =
     omitempty ''protocol'' (ceProtocol e)
     @ [(''message_type'', JStr (ceMessageType e)), (''message_id'', JStr (ceMessageID e))]
     @ omitempty ''request_id'' (ceRequestID e) @ omitempty ''correlation_id'' (ceCorrelationID e)
     @ omitempty ''idempotency_key'' (ceIdempotencyKey e)
     @ [(''action'', JStr (ceAction e)), (''payload'', p)] @ omitempty ''sent_at'' (ceSentAt e)"

lemma encode_envelope_members:
  "encode_payload (cePayload e) = Some p \<Longrightarrow> encode_envelope e = Some (JObj (command_members e p))"
  by (simp add: encode_envelope_def command_members_def)

lemma command_members_others:
  "list_all (\<lambda>(key, v). \<not> EqualFold key ''routing'') (command_members e p)"
  "list_all (\<lambda>(key, v). \<not> EqualFold key ''adapter_context'') (command_members e p)"
  by (simp_all add: command_members_def omitempty_def EqualFold_def)

lemma command_members_fields:
  assumes "k \<in> {''event_type'', ''event_name'', ''status'', ''code'', ''message'', ''result_type'',
    ''origin_message_id'', ''request_correlation_id'', ''gateway_order_id'', ''produced_at''}"
  shows "jfield dec_string k [] (command_members e p) = ([], False)"
  using assms by (auto simp: command_members_def EqualFold_def)

lemma command_members_given:
  "jfield dec_string ''protocol'' [] (command_members e p) = (ceProtocol e, False)"
  "jfield dec_string ''message_type'' [] (command_members e p) = (ceMessageType e, False)"
  "jfield dec_string ''message_id'' [] (command_members e p) = (ceMessageID e, False)"
  "jfield dec_string ''request_id'' [] (command_members e p) = (ceRequestID e, False)"
  "jfield dec_string ''correlation_id'' [] (command_members e p) = (ceCorrelationID e, False)"
  "jfield dec_string ''idempotency_key'' [] (command_members e p) = (ceIdempotencyKey e, False)"
  "jfield dec_string ''action'' [] (command_members e p) = (ceAction e, False)"
  by (simp_all add: command_members_def EqualFold_def)

lemma command_members_payload: "raw_member ''payload'' (command_members e p) = Some p"
  by (simp add: command_members_def raw_member_append raw_member_Cons raw_member_omitempty EqualFold_def)

lemma command_message_ok: "\<not> message_errs (JObj (command_members e p))"
  by (simp add: message_errs_def jnot_object_def str_errs_def command_members_fields command_members_given
      ctx_none [OF command_members_others(1)] ctx_none [OF command_members_others(2)])

lemma mergeRouting_Nil [simp]: "mergeRouting [] r = r"
  by (simp add: mergeRouting_def orElse_def)

text \<open>The routing read from a stream name is the prefix it was made of.\<close>

lemma SplitByte_plain: "c \<notin> set s \<Longrightarrow> SplitByte c s = [s]"
  by (induction s) auto

lemma SplitByte_append: "c \<notin> set s \<Longrightarrow> SplitByte c (s @ c # t) = s # SplitByte c t"
  by (induction s) auto

lemma routingFromStream_prefix:
  assumes "CHR '':'' \<notin> set env" "CHR '':'' \<notin> set broker" "CHR '':'' \<notin> set gateway" "CHR '':'' \<notin> set role"
  shows "routingFromStream (relayPrefix env broker gateway @ '':'' @ role)
    = \<lparr>rtEnv = env, rtBrokerID = broker, rtGatewayID = gateway, rtAccountID = []\<rparr>"
proof -
  have "SplitByte (CHR '':'') (''relay'' @ CHR '':'' # env @ CHR '':'' # ''v1'' @ CHR '':'' # broker @ CHR '':'' # gateway
      @ CHR '':'' # role) = [''relay'', env, ''v1'', broker, gateway, role]"
    by (simp add: SplitByte_append SplitByte_plain assms)
  then show ?thesis by (simp add: routingFromStream_def relayPrefix_def Let_def)
qed

section \<open>Properties\<close>

text \<open>C33: A published command is read back from its stream as it was sent. If the body is the
  command's JSON text and parsing that text gives the printed value, decoding the entry succeeds
  and the envelope has the command's protocol, type, ids, key and action, its payload unchanged,
  the time of the stream id, and the environment, broker and gateway of the stream's name.\<close>

theorem command_entry_roundtrip:
  assumes "encode_payload (cePayload e) = Some p" and "encode_envelope e = Some v"
    and "js_parse C (js_print C v) = Some v"
    and "list_all (\<lambda>s. CHR '':'' \<notin> set s) [env, broker, gateway]"
    and "role \<in> {SuffixCmdTrade, SuffixCmdQuery}"
  shows "DecodeEntry C (relayPrefix env broker gateway @ '':'' @ role) streamID [''body'' \<mapsto> SvString (js_print C v)]
    = ((bareEnvelope (relayPrefix env broker gateway @ '':'' @ role) streamID (js_print C v))
        \<lparr>enProtocol := ceProtocol e, enMessageType := ceMessageType e, enMessageID := ceMessageID e,
         enAction := ceAction e, enRequestID := ceRequestID e, enCorrelationID := ceCorrelationID e,
         enIdempotencyKey := ceIdempotencyKey e, enProducedAt := producedAtFromStreamID streamID,
         enRouting := \<lparr>rtEnv = env, rtBrokerID = broker, rtGatewayID = gateway, rtAccountID = []\<rparr>,
         enPayload := Some p\<rparr>, None)"
proof -
  have v: "v = JObj (command_members e p)" using assms(2) encode_envelope_members [OF assms(1)] by simp
  have routing: "routingFromStream (relayPrefix env broker gateway @ '':'' @ role)
      = \<lparr>rtEnv = env, rtBrokerID = broker, rtGatewayID = gateway, rtAccountID = []\<rparr>"
    using assms(4,5) by (intro routingFromStream_prefix) (auto simp: suffix_defs)
  have "IsZero (parseTime [])" by (simp add: parseTime_def IsZero_def)
  then show ?thesis
    using assms(3) unfolding v
    by (simp add: DecodeEntry_def bodyString_def Let_def command_message_ok fillEnvelope_def bareEnvelope_def
        command_members_fields command_members_given command_members_payload routing [simplified] orElse_def
        ctx_none [OF command_members_others(1)] ctx_none [OF command_members_others(2)])
qed

definition demo_command :: CommandEnvelope where
  "demo_command = NewCommandEnvelope 0 ActionOrderCancel ''m1'' ''r1'' ''c1'' ''k1''
     (CancelPayload \<lparr>cAccountID = ''A1'', cGatewayOrderID = ''g1'', cCancelID = ''x1'', cIdempotencyKey = ''k1''\<rparr>) 0"

theorem command_entry_roundtrip_witness:
  "\<exists>v p. encode_envelope demo_command = Some v \<and> encode_payload (cePayload demo_command) = Some p
     \<and> enPayload (fst (DecodeEntry \<lparr>js_print = (\<lambda>_. ''{}''), js_parse = (\<lambda>_. Some v)\<rparr>
         (relayPrefix ''prod'' ''b1'' ''g1'' @ '':'' @ SuffixCmdTrade) ''5-0'' [''body'' \<mapsto> SvString ''{}''])) = Some p
     \<and> enMessageID (fst (DecodeEntry \<lparr>js_print = (\<lambda>_. ''{}''), js_parse = (\<lambda>_. Some v)\<rparr>
         (relayPrefix ''prod'' ''b1'' ''g1'' @ '':'' @ SuffixCmdTrade) ''5-0'' [''body'' \<mapsto> SvString ''{}''])) = ''m1''"
proof -
  obtain p where p: "encode_payload (cePayload demo_command) = Some p"
    by (simp add: demo_command_def encode_payload_def)
  define v where "v = JObj (command_members demo_command p)"
  define C where "C = \<lparr>js_print = (\<lambda>_. ''{}''), js_parse = (\<lambda>_. Some v)\<rparr>"
  have v: "encode_envelope demo_command = Some v" using encode_envelope_members [OF p] by (simp add: v_def)
  have body: "js_print C v = ''{}''" by (simp add: C_def)
  have "js_parse C (js_print C v) = Some v" by (simp add: C_def)
  note decoded = command_entry_roundtrip [OF p v this, of "''prod''" "''b1''" "''g1''" SuffixCmdTrade "''5-0''"]
  show ?thesis
    using p v decoded unfolding body C_def by (auto simp: demo_command_def)
qed

text \<open>The insertion sort the summaries use returns the sorted list, for every list of strings.\<close>

lemma sort_strings_correct: "sortStrings values = sort values"
  by (rule sortStrings_sort)

end
