(* ===== verification/Payloads.thy ===== *)
theory Payloads
  imports Messages Ledger_Orders
begin

text \<open>
  The payloads of gateway messages (\<^verbatim>\<open>internal/redisstream/ledger_sync.go\<close>): one record per payload
  struct, and what \<^verbatim>\<open>json.Unmarshal\<close> stores in it. \<open>X_of\<close> is the struct after decoding the members of
  an object, \<open>X_errs\<close> tells that decoding returns an error. An array member that occurs twice is
  taken from its last occurrence.
\<close>

section \<open>Decoding\<close>

text \<open>A pointer member: \<^verbatim>\<open>null\<close> is the nil pointer.\<close>

definition jopt :: "(json \<Rightarrow> 'a option) \<Rightarrow> string \<Rightarrow> (string \<times> json) list \<Rightarrow> 'a option" where
  "jopt dec k ps =
     foldl (\<lambda>x (key, v). if EqualFold key k
        then (if v = JNull then None else case dec v of Some y \<Rightarrow> Some y | None \<Rightarrow> x) else x) None ps"

definition opt_errs :: "(json \<Rightarrow> 'a option) \<Rightarrow> string \<Rightarrow> (string \<times> json) list \<Rightarrow> bool" where
  "opt_errs dec k ps \<longleftrightarrow> list_ex (\<lambda>(key, v). EqualFold key k \<and> v \<noteq> JNull \<and> dec v = None) ps"

text \<open>A slice of structs.\<close>

definition dec_list :: "(json \<Rightarrow> bool) \<Rightarrow> ((string \<times> json) list \<Rightarrow> 'a) \<Rightarrow> json \<Rightarrow> 'a list option" where
  "dec_list errs mk v =
     (case v of
        JArr vs \<Rightarrow> if list_ex errs vs then None else Some (map (\<lambda>v. mk (jmembers v)) vs)
      | _ \<Rightarrow> None)"

text \<open>\<^verbatim>\<open>json.Unmarshal\<close> of a raw payload into a struct; a missing payload is no JSON text.\<close>

definition unmarshal :: "(json \<Rightarrow> bool) \<Rightarrow> ((string \<times> json) list \<Rightarrow> 'a) \<Rightarrow> json option \<Rightarrow> 'a option" where
  "unmarshal errs mk raw =
     (case raw of None \<Rightarrow> None | Some v \<Rightarrow> if errs v then None else Some (mk (jmembers v)))"

section \<open>Payload structs\<close>

record cancelAttemptPayload =
  caAccountID :: string
  caGatewayOrderID :: string
  caOrderID :: int
  caOrderStreamID :: string
  caCounterSessionID :: string
  caCancelStatus :: string
  caCode :: string
  caMessage :: string
  caRetrySafe :: "bool option"
  caOrderStateChanged :: "bool option"
  caReconciliationRequired :: bool
  caOccurredAt :: string

definition cancelAttemptPayload_of :: "(string \<times> json) list \<Rightarrow> cancelAttemptPayload" where
  "cancelAttemptPayload_of ps =
     \<lparr>caAccountID = jstr ''account_id'' ps, caGatewayOrderID = jstr ''gateway_order_id'' ps,
      caOrderID = jint ''order_id'' ps, caOrderStreamID = jstr ''order_stream_id'' ps,
      caCounterSessionID = jstr ''counter_session_id'' ps, caCancelStatus = jstr ''cancel_status'' ps,
      caCode = jstr ''code'' ps, caMessage = jstr ''message'' ps,
      caRetrySafe = jopt dec_bool ''retry_safe'' ps,
      caOrderStateChanged = jopt dec_bool ''order_state_changed'' ps,
      caReconciliationRequired = jbool ''reconciliation_required'' ps,
      caOccurredAt = jstr ''occurred_at'' ps\<rparr>"

definition cancelAttemptPayload_errs :: "json \<Rightarrow> bool" where
  "cancelAttemptPayload_errs v \<longleftrightarrow>
     (let ps = jmembers v in jnot_object v
      \<or> str_errs [''account_id'', ''gateway_order_id'', ''order_stream_id'', ''counter_session_id'',
          ''cancel_status'', ''code'', ''message'', ''occurred_at''] ps
      \<or> int_errs [''order_id''] ps
      \<or> bool_errs [''reconciliation_required''] ps
      \<or> opt_errs dec_bool ''retry_safe'' ps
      \<or> opt_errs dec_bool ''order_state_changed'' ps)"

record orderPayload =
  opAccountID :: string
  opClientOrderID :: string
  opGatewayOrderID :: string
  opOrderID :: int
  opOrderStreamID :: string
  opCounterSessionID :: string
  opSymbol :: string
  opName :: string
  opExchange :: string
  opTradeSide :: string
  opBusinessType :: string
  opOffsetType :: string
  opLimitPrice :: float64
  opPrice :: float64
  opOrderQty :: int
  opQty :: int
  opSubmittedQty :: int
  opCumFilledQty :: int
  opLeavesQty :: int
  opCancelledQty :: int
  opInvalidQty :: int
  opAvgFillPrice :: float64
  opFee :: float64
  opFeeComplete :: bool
  opFeeSource :: string
  opFeeAsOf :: string
  opStatus :: string
  opGatewayStatus :: string
  opAdapterStatusCode :: int
  opAdapterStatusName :: string
  opAdapterStatus :: string
  opIsTerminal :: bool
  opRejectCode :: string
  opRejectMessage :: string
  opStatusMessage :: string
  opCancelReason :: string
  opShareholderID :: string
  opTradeDate :: string
  opStrategyType :: string
  opStrategyID :: string
  opBasketID :: string
  opParentOrderID :: string
  opT0OrderGroupID :: string
  opCreatedAt :: string
  opAcceptedAt :: string
  opInsertedAt :: string
  opLastUpdatedAt :: string
  opUpdateTime :: string
  opTerminalAt :: string
  opAdapterContext :: ctxmap

definition orderPayload_of :: "(string \<times> json) list \<Rightarrow> orderPayload" where
  "orderPayload_of ps =
     \<lparr>opAccountID = jstr ''account_id'' ps, opClientOrderID = jstr ''client_order_id'' ps,
      opGatewayOrderID = jstr ''gateway_order_id'' ps, opOrderID = jint ''order_id'' ps,
      opOrderStreamID = jstr ''order_stream_id'' ps,
      opCounterSessionID = jstr ''counter_session_id'' ps, opSymbol = jstr ''symbol'' ps,
      opName = jstr ''name'' ps, opExchange = jstr ''exchange'' ps,
      opTradeSide = jstr ''trade_side'' ps, opBusinessType = jstr ''business_type'' ps,
      opOffsetType = jstr ''offset_type'' ps, opLimitPrice = jfloat ''limit_price'' ps,
      opPrice = jfloat ''price'' ps, opOrderQty = jint ''order_qty'' ps, opQty = jint ''qty'' ps,
      opSubmittedQty = jint ''submitted_qty'' ps, opCumFilledQty = jint ''cum_filled_qty'' ps,
      opLeavesQty = jint ''leaves_qty'' ps, opCancelledQty = jint ''cancelled_qty'' ps,
      opInvalidQty = jint ''invalid_qty'' ps, opAvgFillPrice = jfloat ''avg_fill_price'' ps,
      opFee = jfloat ''fee'' ps, opFeeComplete = jbool ''fee_complete'' ps,
      opFeeSource = jstr ''fee_source'' ps, opFeeAsOf = jstr ''fee_as_of'' ps,
      opStatus = jstr ''status'' ps, opGatewayStatus = jstr ''gateway_status'' ps,
      opAdapterStatusCode = jint ''adapter_status_code'' ps,
      opAdapterStatusName = jstr ''adapter_status_name'' ps,
      opAdapterStatus = jstr ''adapter_status'' ps, opIsTerminal = jbool ''is_terminal'' ps,
      opRejectCode = jstr ''reject_code'' ps, opRejectMessage = jstr ''reject_message'' ps,
      opStatusMessage = jstr ''status_message'' ps, opCancelReason = jstr ''cancel_reason'' ps,
      opShareholderID = jstr ''shareholder_id'' ps, opTradeDate = jstr ''trade_date'' ps,
      opStrategyType = jstr ''strategy_type'' ps, opStrategyID = jstr ''strategy_id'' ps,
      opBasketID = jstr ''basket_id'' ps, opParentOrderID = jstr ''parent_order_id'' ps,
      opT0OrderGroupID = jstr ''t0_order_group_id'' ps, opCreatedAt = jstr ''created_at'' ps,
      opAcceptedAt = jstr ''accepted_at'' ps, opInsertedAt = jstr ''inserted_at'' ps,
      opLastUpdatedAt = jstr ''last_updated_at'' ps, opUpdateTime = jstr ''update_time'' ps,
      opTerminalAt = jstr ''terminal_at'' ps, opAdapterContext = jctx ''adapter_context'' ps\<rparr>"

definition orderPayload_errs :: "json \<Rightarrow> bool" where
  "orderPayload_errs v \<longleftrightarrow>
     (let ps = jmembers v in jnot_object v
      \<or> str_errs [''account_id'', ''client_order_id'', ''gateway_order_id'', ''order_stream_id'',
          ''counter_session_id'', ''symbol'', ''name'', ''exchange'', ''trade_side'', ''business_type'',
          ''offset_type'', ''fee_source'', ''fee_as_of'', ''status'', ''gateway_status'',
          ''adapter_status_name'', ''adapter_status'', ''reject_code'', ''reject_message'',
          ''status_message'', ''cancel_reason'', ''shareholder_id'', ''trade_date'', ''strategy_type'',
          ''strategy_id'', ''basket_id'', ''parent_order_id'', ''t0_order_group_id'', ''created_at'',
          ''accepted_at'', ''inserted_at'', ''last_updated_at'', ''update_time'', ''terminal_at''] ps
      \<or> int_errs [''order_id'', ''order_qty'', ''qty'', ''submitted_qty'', ''cum_filled_qty'', ''leaves_qty'',
          ''cancelled_qty'', ''invalid_qty'', ''adapter_status_code''] ps
      \<or> float_errs [''limit_price'', ''price'', ''avg_fill_price'', ''fee''] ps
      \<or> bool_errs [''fee_complete'', ''is_terminal''] ps
      \<or> ctx_errs ''adapter_context'' ps)"

record fillPayload =
  fpFillID :: string
  fpAccountID :: string
  fpGatewayOrderID :: string
  fpOrderID :: int
  fpOrderStreamID :: string
  fpSymbol :: string
  fpName :: string
  fpExchange :: string
  fpTradeSide :: string
  fpBusinessType :: string
  fpRecordType :: string
  fpIsTransfer :: "bool option"
  fpStrategyType :: string
  fpStrategyID :: string
  fpBasketID :: string
  fpParentOrderID :: string
  fpT0OrderGroupID :: string
  fpPrice :: float64
  fpQty :: int
  fpFee :: float64
  fpFeeComplete :: bool
  fpFeeSource :: string
  fpFeeAsOf :: string
  fpTradeDate :: string
  fpMatchTimestamp :: int
  fpMatchedAt :: string
  fpShareholderID :: string

definition fillPayload_of :: "(string \<times> json) list \<Rightarrow> fillPayload" where
  "fillPayload_of ps =
     \<lparr>fpFillID = jstr ''fill_id'' ps, fpAccountID = jstr ''account_id'' ps,
      fpGatewayOrderID = jstr ''gateway_order_id'' ps, fpOrderID = jint ''order_id'' ps,
      fpOrderStreamID = jstr ''order_stream_id'' ps, fpSymbol = jstr ''symbol'' ps,
      fpName = jstr ''name'' ps, fpExchange = jstr ''exchange'' ps,
      fpTradeSide = jstr ''trade_side'' ps, fpBusinessType = jstr ''business_type'' ps,
      fpRecordType = jstr ''record_type'' ps, fpIsTransfer = jopt dec_bool ''is_transfer'' ps,
      fpStrategyType = jstr ''strategy_type'' ps, fpStrategyID = jstr ''strategy_id'' ps,
      fpBasketID = jstr ''basket_id'' ps, fpParentOrderID = jstr ''parent_order_id'' ps,
      fpT0OrderGroupID = jstr ''t0_order_group_id'' ps, fpPrice = jfloat ''price'' ps,
      fpQty = jint ''qty'' ps, fpFee = jfloat ''fee'' ps, fpFeeComplete = jbool ''fee_complete'' ps,
      fpFeeSource = jstr ''fee_source'' ps, fpFeeAsOf = jstr ''fee_as_of'' ps,
      fpTradeDate = jstr ''trade_date'' ps, fpMatchTimestamp = jint ''match_timestamp'' ps,
      fpMatchedAt = jstr ''matched_at'' ps, fpShareholderID = jstr ''shareholder_id'' ps\<rparr>"

definition fillPayload_errs :: "json \<Rightarrow> bool" where
  "fillPayload_errs v \<longleftrightarrow>
     (let ps = jmembers v in jnot_object v
      \<or> str_errs [''fill_id'', ''account_id'', ''gateway_order_id'', ''order_stream_id'', ''symbol'', ''name'',
          ''exchange'', ''trade_side'', ''business_type'', ''record_type'', ''strategy_type'',
          ''strategy_id'', ''basket_id'', ''parent_order_id'', ''t0_order_group_id'', ''fee_source'',
          ''fee_as_of'', ''trade_date'', ''matched_at'', ''shareholder_id''] ps
      \<or> int_errs [''order_id'', ''qty'', ''match_timestamp''] ps
      \<or> float_errs [''price'', ''fee''] ps
      \<or> bool_errs [''fee_complete''] ps
      \<or> opt_errs dec_bool ''is_transfer'' ps)"

record componentTransferPayload =
  tpFill :: fillPayload
  tpTransferType :: string
  tpComponentSymbol :: string
  tpComponentName :: string
  tpComponentExchange :: string
  tpComponentQty :: int
  tpComponentValue :: "float64 option"
  tpCashSubstitution :: bool
  tpBrokerTradeSide :: string
  tpBrokerBusinessType :: string

definition componentTransferPayload_of :: "(string \<times> json) list \<Rightarrow> componentTransferPayload" where
  "componentTransferPayload_of ps =
     \<lparr>tpFill = fillPayload_of ps, tpTransferType = jstr ''transfer_type'' ps,
      tpComponentSymbol = jstr ''component_symbol'' ps, tpComponentName = jstr ''component_name'' ps,
      tpComponentExchange = jstr ''component_exchange'' ps, tpComponentQty = jint ''component_qty'' ps,
      tpComponentValue = jopt dec_float64 ''component_value'' ps,
      tpCashSubstitution = jbool ''cash_substitution'' ps,
      tpBrokerTradeSide = jstr ''broker_trade_side'' ps,
      tpBrokerBusinessType = jstr ''broker_business_type'' ps\<rparr>"

definition componentTransferPayload_errs :: "json \<Rightarrow> bool" where
  "componentTransferPayload_errs v \<longleftrightarrow>
     (let ps = jmembers v in fillPayload_errs v
      \<or> str_errs [''transfer_type'', ''component_symbol'', ''component_name'', ''component_exchange'',
          ''broker_trade_side'', ''broker_business_type''] ps
      \<or> int_errs [''component_qty''] ps
      \<or> bool_errs [''cash_substitution''] ps
      \<or> opt_errs dec_float64 ''component_value'' ps)"

record assetPayload =
  apAccountID :: string
  apCashAvailable :: float64
  apCashTotal :: float64
  apNetAsset :: float64
  apMarketValue :: float64
  apStockValue :: float64
  apFundValue :: float64
  apCommission :: float64
  apDayProfit :: float64
  apPositionProfit :: float64
  apCloseProfit :: float64
  apCredit :: float64

definition assetPayload_of :: "(string \<times> json) list \<Rightarrow> assetPayload" where
  "assetPayload_of ps =
     \<lparr>apAccountID = jstr ''account_id'' ps, apCashAvailable = jfloat ''cash_available'' ps,
      apCashTotal = jfloat ''cash_total'' ps, apNetAsset = jfloat ''net_asset'' ps,
      apMarketValue = jfloat ''market_value'' ps, apStockValue = jfloat ''stock_value'' ps,
      apFundValue = jfloat ''fund_value'' ps, apCommission = jfloat ''commission'' ps,
      apDayProfit = jfloat ''day_profit'' ps, apPositionProfit = jfloat ''position_profit'' ps,
      apCloseProfit = jfloat ''close_profit'' ps, apCredit = jfloat ''credit'' ps\<rparr>"

definition assetPayload_errs :: "json \<Rightarrow> bool" where
  "assetPayload_errs v \<longleftrightarrow>
     (let ps = jmembers v in jnot_object v
      \<or> str_errs [''account_id''] ps
      \<or> float_errs [''cash_available'', ''cash_total'', ''net_asset'', ''market_value'', ''stock_value'',
          ''fund_value'', ''commission'', ''day_profit'', ''position_profit'', ''close_profit'',
          ''credit''] ps)"

record positionPayload =
  ppAccountID :: string
  ppSymbol :: string
  ppName :: string
  ppExchange :: string
  ppQuantity :: int
  ppSellableQty :: int
  ppInitialQty :: int
  ppTodayQty :: int
  ppAvgCost :: float64
  ppTotalCost :: float64
  ppAvgCostSource :: string
  ppCostComplete :: bool
  ppLastPrice :: float64
  ppMarketValue :: float64
  ppUnrealizedPnL :: float64
  ppDayUnrealizedPnL :: float64
  ppSettledProfit :: float64
  ppShareholderID :: string

definition positionPayload_of :: "(string \<times> json) list \<Rightarrow> positionPayload" where
  "positionPayload_of ps =
     \<lparr>ppAccountID = jstr ''account_id'' ps, ppSymbol = jstr ''symbol'' ps, ppName = jstr ''name'' ps,
      ppExchange = jstr ''exchange'' ps, ppQuantity = jint ''quantity'' ps,
      ppSellableQty = jint ''sellable_qty'' ps, ppInitialQty = jint ''initial_qty'' ps,
      ppTodayQty = jint ''today_qty'' ps, ppAvgCost = jfloat ''avg_cost'' ps,
      ppTotalCost = jfloat ''total_cost'' ps, ppAvgCostSource = jstr ''avg_cost_source'' ps,
      ppCostComplete = jbool ''cost_complete'' ps, ppLastPrice = jfloat ''last_price'' ps,
      ppMarketValue = jfloat ''market_value'' ps, ppUnrealizedPnL = jfloat ''unrealized_pnl'' ps,
      ppDayUnrealizedPnL = jfloat ''day_unrealized_pnl'' ps,
      ppSettledProfit = jfloat ''settled_profit'' ps, ppShareholderID = jstr ''shareholder_id'' ps\<rparr>"

definition positionPayload_errs :: "json \<Rightarrow> bool" where
  "positionPayload_errs v \<longleftrightarrow>
     (let ps = jmembers v in jnot_object v
      \<or> str_errs [''account_id'', ''symbol'', ''name'', ''exchange'', ''avg_cost_source'', ''shareholder_id''] ps
      \<or> int_errs [''quantity'', ''sellable_qty'', ''initial_qty'', ''today_qty''] ps
      \<or> float_errs [''avg_cost'', ''total_cost'', ''last_price'', ''market_value'', ''unrealized_pnl'',
          ''day_unrealized_pnl'', ''settled_profit''] ps
      \<or> bool_errs [''cost_complete''] ps)"

record orderFeePayload =
  xpFeeRecordID :: string
  xpRecordScope :: string
  xpAccountID :: string
  xpTradeDate :: string
  xpGatewayOrderID :: string
  xpOrderID :: int
  xpOrderStreamID :: string
  xpFillID :: string
  xpSymbol :: string
  xpExchange :: string
  xpTradeSide :: string
  xpBusinessType :: string
  xpOrderAmount :: float64
  xpTurnover :: float64
  xpCommission :: float64
  xpStampTax :: float64
  xpTransferFee :: float64
  xpHandlingFee :: float64
  xpRegulatoryFee :: float64
  xpSettlementFee :: float64
  xpOtherFee :: float64
  xpTotalFee :: float64
  xpCurrency :: string
  xpFeeComplete :: bool
  xpFeeSource :: string
  xpFeeAsOf :: string
  xpSettledAt :: string
  xpAssociationComplete :: bool
  xpAdapterContext :: ctxmap

definition orderFeePayload_of :: "(string \<times> json) list \<Rightarrow> orderFeePayload" where
  "orderFeePayload_of ps =
     \<lparr>xpFeeRecordID = jstr ''fee_record_id'' ps, xpRecordScope = jstr ''record_scope'' ps,
      xpAccountID = jstr ''account_id'' ps, xpTradeDate = jstr ''trade_date'' ps,
      xpGatewayOrderID = jstr ''gateway_order_id'' ps, xpOrderID = jint ''order_id'' ps,
      xpOrderStreamID = jstr ''order_stream_id'' ps, xpFillID = jstr ''fill_id'' ps,
      xpSymbol = jstr ''symbol'' ps, xpExchange = jstr ''exchange'' ps,
      xpTradeSide = jstr ''trade_side'' ps, xpBusinessType = jstr ''business_type'' ps,
      xpOrderAmount = jfloat ''order_amount'' ps, xpTurnover = jfloat ''turnover'' ps,
      xpCommission = jfloat ''commission'' ps, xpStampTax = jfloat ''stamp_tax'' ps,
      xpTransferFee = jfloat ''transfer_fee'' ps, xpHandlingFee = jfloat ''handling_fee'' ps,
      xpRegulatoryFee = jfloat ''regulatory_fee'' ps, xpSettlementFee = jfloat ''settlement_fee'' ps,
      xpOtherFee = jfloat ''other_fee'' ps, xpTotalFee = jfloat ''total_fee'' ps,
      xpCurrency = jstr ''currency'' ps, xpFeeComplete = jbool ''fee_complete'' ps,
      xpFeeSource = jstr ''fee_source'' ps, xpFeeAsOf = jstr ''fee_as_of'' ps,
      xpSettledAt = jstr ''settled_at'' ps, xpAssociationComplete = jbool ''association_complete'' ps,
      xpAdapterContext = jctx ''adapter_context'' ps\<rparr>"

definition orderFeePayload_errs :: "json \<Rightarrow> bool" where
  "orderFeePayload_errs v \<longleftrightarrow>
     (let ps = jmembers v in jnot_object v
      \<or> str_errs [''fee_record_id'', ''record_scope'', ''account_id'', ''trade_date'', ''gateway_order_id'',
          ''order_stream_id'', ''fill_id'', ''symbol'', ''exchange'', ''trade_side'', ''business_type'',
          ''currency'', ''fee_source'', ''fee_as_of'', ''settled_at''] ps
      \<or> int_errs [''order_id''] ps
      \<or> float_errs [''order_amount'', ''turnover'', ''commission'', ''stamp_tax'', ''transfer_fee'',
          ''handling_fee'', ''regulatory_fee'', ''settlement_fee'', ''other_fee'', ''total_fee''] ps
      \<or> bool_errs [''fee_complete'', ''association_complete''] ps
      \<or> ctx_errs ''adapter_context'' ps)"

section \<open>Pages\<close>

record failedOrder =
  foIndex :: int
  foGatewayOrderID :: string
  foCode :: string
  foMessage :: string

definition failedOrder_of :: "(string \<times> json) list \<Rightarrow> failedOrder" where
  "failedOrder_of ps =
     \<lparr>foIndex = jint ''index'' ps, foGatewayOrderID = jstr ''gateway_order_id'' ps, foCode = jstr ''code'' ps,
      foMessage = jstr ''message'' ps\<rparr>"

definition failedOrder_errs :: "json \<Rightarrow> bool" where
  "failedOrder_errs v \<longleftrightarrow>
     (let ps = jmembers v in jnot_object v \<or> int_errs [''index''] ps
      \<or> str_errs [''gateway_order_id'', ''code'', ''message''] ps)"

record batchFailure =
  bfOrders :: "orderPayload list"
  bfFailedOrders :: "failedOrder list"

definition batchFailure_of :: "(string \<times> json) list \<Rightarrow> batchFailure" where
  "batchFailure_of ps =
     \<lparr>bfOrders = fst (jfield (dec_list orderPayload_errs orderPayload_of) ''orders'' [] ps),
      bfFailedOrders = fst (jfield (dec_list failedOrder_errs failedOrder_of) ''failed_orders'' [] ps)\<rparr>"

definition batchFailure_errs :: "json \<Rightarrow> bool" where
  "batchFailure_errs v \<longleftrightarrow>
     (let ps = jmembers v in jnot_object v
      \<or> snd (jfield (dec_list orderPayload_errs orderPayload_of) ''orders'' [] ps)
      \<or> snd (jfield (dec_list failedOrder_errs failedOrder_of) ''failed_orders'' [] ps))"

definition assetPagePayload_of :: "(string \<times> json) list \<Rightarrow> assetPayload" where
  "assetPagePayload_of ps = assetPayload_of (jstruct ''account'' ps)"

definition assetPagePayload_errs :: "json \<Rightarrow> bool" where
  "assetPagePayload_errs v \<longleftrightarrow>
     (let ps = jmembers v in jnot_object v \<or> struct_errs ''account'' ps
      \<or> assetPayload_errs (JObj (jstruct ''account'' ps)))"

definition positionPagePayload_of :: "(string \<times> json) list \<Rightarrow> positionPayload list" where
  "positionPagePayload_of ps = fst (jfield (dec_list positionPayload_errs positionPayload_of) ''items'' [] ps)"

definition positionPagePayload_errs :: "json \<Rightarrow> bool" where
  "positionPagePayload_errs v \<longleftrightarrow>
     jnot_object v \<or> snd (jfield (dec_list positionPayload_errs positionPayload_of) ''items'' [] (jmembers v))"

definition orderPagePayload_of :: "(string \<times> json) list \<Rightarrow> orderPayload list" where
  "orderPagePayload_of ps = fst (jfield (dec_list orderPayload_errs orderPayload_of) ''items'' [] ps)"

definition orderPagePayload_errs :: "json \<Rightarrow> bool" where
  "orderPagePayload_errs v \<longleftrightarrow>
     jnot_object v \<or> snd (jfield (dec_list orderPayload_errs orderPayload_of) ''items'' [] (jmembers v))"

record fillPagePayload =
  fgItems :: "fillPayload list"
  fgComponentTransfers :: "componentTransferPayload list"

definition fillPagePayload_of :: "(string \<times> json) list \<Rightarrow> fillPagePayload" where
  "fillPagePayload_of ps =
     \<lparr>fgItems = fst (jfield (dec_list fillPayload_errs fillPayload_of) ''items'' [] ps),
      fgComponentTransfers = fst (jfield (dec_list componentTransferPayload_errs componentTransferPayload_of)
        ''component_transfers'' [] ps)\<rparr>"

definition fillPagePayload_errs :: "json \<Rightarrow> bool" where
  "fillPagePayload_errs v \<longleftrightarrow>
     (let ps = jmembers v in jnot_object v
      \<or> snd (jfield (dec_list fillPayload_errs fillPayload_of) ''items'' [] ps)
      \<or> snd (jfield (dec_list componentTransferPayload_errs componentTransferPayload_of)
               ''component_transfers'' [] ps))"

record feePagePayload =
  xgAccountID :: string
  xgTradeDate :: string
  xgItemCount :: int
  xgAccountTotalFee :: float64
  xgItems :: "orderFeePayload list"

definition feePagePayload_of :: "(string \<times> json) list \<Rightarrow> feePagePayload" where
  "feePagePayload_of ps =
     \<lparr>xgAccountID = jstr ''account_id'' ps, xgTradeDate = jstr ''trade_date'' ps, xgItemCount = jint ''item_count'' ps,
      xgAccountTotalFee = jfloat ''account_total_fee'' ps,
      xgItems = fst (jfield (dec_list orderFeePayload_errs orderFeePayload_of) ''items'' [] ps)\<rparr>"

text \<open>The members of the page that no code reads are decoded too and may fail.\<close>

definition feePagePayload_errs :: "json \<Rightarrow> bool" where
  "feePagePayload_errs v \<longleftrightarrow>
     (let ps = jmembers v in jnot_object v
      \<or> str_errs [''account_id'', ''trade_date'', ''currency'', ''fee_source'', ''fee_as_of'', ''record_scope''] ps
      \<or> int_errs [''item_count''] ps \<or> float_errs [''account_total_fee''] ps
      \<or> bool_errs [''fee_complete'', ''association_complete''] ps
      \<or> snd (jfield (dec_list orderFeePayload_errs orderFeePayload_of) ''items'' [] ps))"

end
