(* ===== verification/Ledger_Records.thy ===== *)
theory Ledger_Records
  imports Payloads
begin

text \<open>
  From payloads to ledger records (\<^verbatim>\<open>internal/redisstream/ledger_sync.go\<close>): completion of a payload
  from its envelope, validation, and the orders, fills, transfers, assets, positions and fees the
  ledger stores. Texts that print a \<^verbatim>\<open>float64\<close> or a wrapped error leave that part out.
\<close>

section \<open>Helpers\<close>

fun firstNonEmpty :: "string list \<Rightarrow> string" where
  "firstNonEmpty [] = []"
| "firstNonEmpty (v # vs) = (if TrimSpace v \<noteq> [] then TrimSpace v else firstNonEmpty vs)"

fun firstPositive :: "float64 list \<Rightarrow> float64" where
  "firstPositive [] = fzero"
| "firstPositive (v # vs) = (if flt fzero v then v else firstPositive vs)"

fun firstPositiveInt :: "int list \<Rightarrow> int" where
  "firstPositiveInt [] = 0"
| "firstPositiveInt (v # vs) = (if v > 0 then v else firstPositiveInt vs)"

fun firstNonZeroTime :: "gotime list \<Rightarrow> gotime" where
  "firstNonZeroTime [] = zeroTime"
| "firstNonZeroTime (v # vs) = (if \<not> IsZero v then v else firstNonZeroTime vs)"

text \<open>\<^verbatim>\<open>int64(value)\<close> truncates; out of range Go leaves the result to the machine, here the one amd64
  gives.\<close>

definition int64_of_rat :: "rat \<Rightarrow> int" where
  "int64_of_rat q = (let n = (if q < 0 then ceiling q else floor q) in if is_int64 n then n else - (2 ^ 63))"

definition stringFromMap :: "ctxmap \<Rightarrow> string \<Rightarrow> string" where
  "stringFromMap values key = (case ctx_lookup values key of Some (AnyStr s) \<Rightarrow> s | _ \<Rightarrow> [])"

definition floatFromMap :: "ctxmap \<Rightarrow> string \<Rightarrow> float64" where
  "floatFromMap values key =
     (case ctx_lookup values key of Some (AnyFloat q) \<Rightarrow> Fin q | Some (AnyInt n) \<Rightarrow> float_of_int n | _ \<Rightarrow> fzero)"

definition int64FromMap :: "ctxmap \<Rightarrow> string \<Rightarrow> int" where
  "int64FromMap values key =
     (case ctx_lookup values key of Some (AnyFloat q) \<Rightarrow> int64_of_rat q | Some (AnyInt n) \<Rightarrow> n | _ \<Rightarrow> 0)"

definition ctx_map :: "ctxmap \<Rightarrow> (string \<rightharpoonup> any)" where
  "ctx_map c = (case c of None \<Rightarrow> Map.empty | Some m \<Rightarrow> m)"

definition mergeContextMaps :: "ctxmap \<Rightarrow> ctxmap \<Rightarrow> ctxmap" where
  "mergeContextMaps base extra =
     (if ctx_map base = Map.empty \<and> ctx_map extra = Map.empty then None
      else Some (ctx_map base ++ ctx_map extra))"

definition stringContext :: "string \<Rightarrow> string \<Rightarrow> ctxmap" where
  "stringContext key value = (if TrimSpace value = [] then None else Some [key \<mapsto> AnyStr (TrimSpace value)])"

definition withRawAccountID :: "ctxmap \<Rightarrow> string \<Rightarrow> ctxmap" where
  "withRawAccountID ctx raw =
     (if raw = [] then ctx else Some ((ctx_map ctx)(''relay_raw_account_id'' \<mapsto> AnyStr raw)))"

definition withRawGatewayOrderID :: "ctxmap \<Rightarrow> string \<Rightarrow> ctxmap" where
  "withRawGatewayOrderID ctx raw =
     (if raw = [] then ctx else Some ((ctx_map ctx)(''relay_raw_gateway_order_id'' \<mapsto> AnyStr raw)))"

text \<open>The nonblank values of a list of candidates, trimmed.\<close>

definition trimmedContext :: "(string \<times> string) list \<Rightarrow> (string \<times> any) list" where
  "trimmedContext ps = map (\<lambda>(k, s). (k, AnyStr (TrimSpace s))) (filter (\<lambda>(k, s). TrimSpace s \<noteq> []) ps)"

definition withFillPayloadContext :: "ctxmap \<Rightarrow> fillPayload \<Rightarrow> ctxmap" where
  "withFillPayloadContext ctx payload =
     (let extra = trimmedContext [(''business_type'', fpBusinessType payload), (''record_type'', fpRecordType payload)]
            @ (case fpIsTransfer payload of None \<Rightarrow> [] | Some b \<Rightarrow> [(''is_transfer'', AnyBool b)])
            @ trimmedContext [(''strategy_type'', fpStrategyType payload), (''strategy_id'', fpStrategyID payload),
                (''basket_id'', fpBasketID payload), (''parent_order_id'', fpParentOrderID payload),
                (''t0_order_group_id'', fpT0OrderGroupID payload)]
            @ [(''fee_complete'', AnyBool (fpFeeComplete payload))]
            @ trimmedContext [(''fee_source'', fpFeeSource payload), (''fee_as_of'', fpFeeAsOf payload)]
      in Some (map_of extra ++ ctx_map ctx))"

definition withOrderPayloadContext :: "ctxmap \<Rightarrow> orderPayload \<Rightarrow> ctxmap" where
  "withOrderPayloadContext ctx payload =
     mergeContextMaps (mergeContextMaps ctx (opAdapterContext payload))
       (Some (map_of ([(''reported_fee_complete'', AnyBool (opFeeComplete payload))]
          @ trimmedContext [(''status_message'', opStatusMessage payload), (''cancel_reason'', opCancelReason payload),
              (''reported_fee_source'', opFeeSource payload), (''reported_fee_as_of'', opFeeAsOf payload)])))"

definition normalizeAccountIDFromRouting :: "string \<Rightarrow> EntryEnvelope \<Rightarrow> string \<times> string" where
  "normalizeAccountIDFromRouting accountID envelope =
     (let payloadAccountID = TrimSpace accountID; routingAccountID = TrimSpace (rtAccountID (enRouting envelope))
      in if payloadAccountID = [] then (routingAccountID, [])
         else if routingAccountID = [] \<or> payloadAccountID = routingAccountID then (payloadAccountID, [])
         else if prefix routingAccountID payloadAccountID \<or> prefix payloadAccountID routingAccountID
           then (routingAccountID, payloadAccountID)
         else (payloadAccountID, []))"

definition normalizeLegacyBasketGatewayOrderID :: "string \<Rightarrow> string \<Rightarrow> string \<times> string" where
  "normalizeLegacyBasketGatewayOrderID gatewayOrderID orderStreamID0 =
     (let raw = TrimSpace gatewayOrderID; orderStreamID = TrimSpace orderStreamID0
      in if raw = [] \<or> orderStreamID = [] then (gatewayOrderID, [])
         else if \<not> prefix ''etfarb#'' raw \<or> Contains raw orderStreamID then (gatewayOrderID, [])
         else (raw @ ''#'' @ orderStreamID, raw))"

definition tradeDateFromTime :: "gotime \<Rightarrow> string" where
  "tradeDateFromTime value = (if IsZero value then [] else formatBusinessDate value)"

text \<open>\<^verbatim>\<open>Time.UnixMilli\<close>: the milliseconds since the epoch, rounded down.\<close>

definition unixMilliOrZero :: "gotime \<Rightarrow> int" where
  "unixMilliOrZero value = (if IsZero value then 0 else wrap64 (value div millisecond))"

definition gatewayOrderIDFromPayload :: "json option \<Rightarrow> string" where
  "gatewayOrderIDFromPayload raw =
     (case raw of None \<Rightarrow> [] | Some v \<Rightarrow> jstr ''gateway_order_id'' (jmembers v))"

definition payloadMap :: "json option \<Rightarrow> ctxmap" where
  "payloadMap raw = (case raw of Some (JObj ps) \<Rightarrow> Some (map_of_members Map.empty ps) | _ \<Rightarrow> None)"

definition orderErrorInfo :: "EntryEnvelope \<Rightarrow> string \<times> string" where
  "orderErrorInfo envelope =
     (let payload = payloadMap (enPayload envelope); ctx = enAdapterContext envelope
      in (firstNonEmpty (map (stringFromMap payload) [''reject_code'', ''error_code'', ''err_code'', ''code'']
            @ [enCode envelope]),
          firstNonEmpty (map (stringFromMap payload)
              [''reject_message'', ''error_message'', ''error_msg'', ''err_msg'', ''error_text'', ''status_msg'',
               ''status_message'', ''message'']
            @ map (stringFromMap ctx)
              [''error_message'', ''error_msg'', ''err_msg'', ''error_text'', ''status_msg'', ''status_message'',
               ''broker_status_text'']
            @ [enMessage envelope])))"

definition orderDebugContext :: "EntryEnvelope \<Rightarrow> string \<Rightarrow> string \<Rightarrow> ctxmap" where
  "orderDebugContext envelope rejectCode rejectMessage =
     (let add = (\<lambda>k s m. if s \<noteq> [] then m(k \<mapsto> AnyStr s) else m);
          m = add ''relay_error_message'' rejectMessage (add ''relay_error_code'' rejectCode
              (add ''relay_reply_status'' (enStatus envelope) (add ''relay_reply_message'' (enMessage envelope)
              (add ''relay_reply_code'' (enCode envelope) (ctx_map (enAdapterContext envelope))))))
      in if m = Map.empty then None else Some m)"

definition orderIdempotencyKey :: "EntryEnvelope \<Rightarrow> string" where
  "orderIdempotencyKey envelope =
     (if suffix ''.query'' (ToLower (TrimSpace (enAction envelope))) then []
      else TrimSpace (enIdempotencyKey envelope))"

definition streamRef :: "EntryEnvelope \<Rightarrow> StreamRef" where
  "streamRef envelope = \<lparr>srKey = enStream envelope, srID = enStreamID envelope\<rparr>"

definition sourceRef :: "EntryEnvelope \<Rightarrow> SourceRef" where
  "sourceRef envelope =
     \<lparr>soOriginMessageID = enOriginMessageID envelope, soRequestID = enRequestID envelope,
      soCorrelationID = firstNonEmpty [enCorrelationID envelope, enRequestCorrelationID envelope],
      soIdempotencyKey = enIdempotencyKey envelope\<rparr>"

text \<open>\<open>now\<close> is the wall clock.\<close>

definition accountFromEnvelope :: "gotime \<Rightarrow> EntryEnvelope \<Rightarrow> string \<Rightarrow> Account" where
  "accountFromEnvelope now envelope accountID =
     \<lparr>aAccountID = accountID, aBrokerID = firstNonEmpty [rtBrokerID (enRouting envelope), ''unknown''],
      aGatewayID = [], aStreamPrefix = [], aStatus = AccountStatusEnabled, aEnabled = True,
      aTradingEnabled = False, aSimulated = False,
      aTags = [''source'' \<mapsto> ''redis-stream'', ''env'' \<mapsto> rtEnv (enRouting envelope),
               ''gateway_id'' \<mapsto> rtGatewayID (enRouting envelope)],
      aUpdatedAt = now\<rparr>"

definition rawMessageFromEnvelope :: "gotime \<Rightarrow> json option \<Rightarrow> EntryEnvelope \<Rightarrow> json RawStreamMessage" where
  "rawMessageFromEnvelope now body envelope =
     \<lparr>rmStreamKey = enStream envelope, rmStreamID = enStreamID envelope,
      rmOriginMessageID = firstNonEmpty [enOriginMessageID envelope, enMessageID envelope],
      rmRequestID = enRequestID envelope,
      rmCorrelationID = firstNonEmpty [enCorrelationID envelope, enRequestCorrelationID envelope],
      rmIdempotencyKey = enIdempotencyKey envelope,
      rmDirection = directionFromRole (roleFromStream (enStream envelope)),
      rmRole = roleFromStream (enStream envelope), rmMessageType = enMessageType envelope,
      rmAction = enAction envelope, rmEventType = enEventType envelope, rmStatus = enStatus envelope,
      rmCode = enCode envelope, rmAccountID = rtAccountID (enRouting envelope),
      rmGatewayOrderID = firstNonEmpty [enGatewayOrderID envelope, gatewayOrderIDFromPayload (enPayload envelope)],
      rmBody = body, rmBodyText = enBodyText envelope, rmParseError = [], rmReceivedAt = now\<rparr>"

section \<open>Validation\<close>

definition incomplete :: "string \<Rightarrow> string list \<Rightarrow> error" where
  "incomplete source missing =
     ErrPayload (source @ '' payload incomplete for ledger write: missing '' @ JoinWith '', '' missing)"

text \<open>The names whose condition holds, in order.\<close>

definition failing :: "(bool \<times> string) list \<Rightarrow> string list" where
  "failing cs = map snd (filter fst cs)"

definition blank :: "string \<Rightarrow> bool" where
  "blank s \<longleftrightarrow> TrimSpace s = []"

definition orderEventMissing :: "orderPayload \<Rightarrow> string list" where
  "orderEventMissing payload =
     failing [(blank (opAccountID payload), ''account_id''), (blank (opGatewayOrderID payload), ''gateway_order_id'')]"

definition validateOrderEventFields :: "orderPayload \<Rightarrow> error option" where
  "validateOrderEventFields payload =
     (if orderEventMissing payload \<noteq> [] then Some (incomplete ''order.event'' (orderEventMissing payload)) else None)"

definition orderPageMissing :: "orderPayload \<Rightarrow> string list" where
  "orderPageMissing payload =
     failing [(blank (opSymbol payload), ''symbol''), (blank (opExchange payload), ''exchange''),
       (blank (opTradeSide payload), ''trade_side''), (blank (opBusinessType payload), ''business_type''),
       (fle (firstPositive [opLimitPrice payload, opPrice payload]) fzero, ''limit_price''),
       (firstPositiveInt [opOrderQty payload, opQty payload] \<le> 0, ''order_qty'')]"

definition validateOrderPageFields :: "orderPayload \<Rightarrow> error option" where
  "validateOrderPageFields payload =
     (if orderEventMissing payload \<noteq> [] then Some (incomplete ''order_page'' (orderEventMissing payload))
      else if orderPageMissing payload \<noteq> [] then Some (incomplete ''order_page'' (orderPageMissing payload))
      else None)"

definition completeOrderLedgerFields :: "orderPayload \<Rightarrow> bool" where
  "completeOrderLedgerFields payload \<longleftrightarrow>
     (if blank (opSymbol payload) then False
      else if blank (opExchange payload) then False
      else if blank (opTradeSide payload) then False
      else if blank (opBusinessType payload) then False
      else if fle (firstPositive [opLimitPrice payload, opPrice payload]) fzero then False
      else if firstPositiveInt [opOrderQty payload, opQty payload] \<le> 0 then False
      else True)"

definition etfTransferSide :: "fillPayload \<Rightarrow> bool" where
  "etfTransferSide payload \<longleftrightarrow>
     TrimSpace (fpBusinessType payload) = BusinessTypeETF
     \<and> (TrimSpace (fpTradeSide payload) = TradeSidePurchase \<or> TrimSpace (fpTradeSide payload) = TradeSideRedemption)"

definition fillPayload_validate :: "string \<Rightarrow> fillPayload \<Rightarrow> error option" where
  "fillPayload_validate source payload =
     (let missing = failing [(blank (fpAccountID payload), ''account_id''),
            (blank (fpGatewayOrderID payload), ''gateway_order_id''), (blank (fpSymbol payload), ''symbol''),
            (blank (fpExchange payload), ''exchange''), (blank (fpTradeSide payload), ''trade_side''),
            (TrimSpace (fpRecordType payload) \<noteq> [] \<and> TrimSpace (fpRecordType payload) \<noteq> ''trade_fill'',
             ''record_type=trade_fill''),
            (fpIsTransfer payload = Some True, ''is_transfer=false''),
            (etfTransferSide payload, ''ordinary trade_side''),
            (fle (fpPrice payload) fzero, ''price''), (fpQty payload \<le> 0, ''qty'')]
      in if missing \<noteq> [] then Some (incomplete source missing) else None)"

definition componentTransferPayload_validate :: "string \<Rightarrow> componentTransferPayload \<Rightarrow> error option" where
  "componentTransferPayload_validate source tp =
     (let payload = tpFill tp;
          missing = failing [(blank (fpAccountID payload), ''account_id''),
            (blank (fpGatewayOrderID payload), ''gateway_order_id''), (blank (fpSymbol payload), ''symbol''),
            (blank (fpExchange payload), ''exchange''), (blank (fpTradeSide payload), ''trade_side''),
            (fpQty payload \<le> 0, ''qty''),
            (TrimSpace (fpBusinessType payload) \<noteq> BusinessTypeETF, ''business_type=E''),
            (TrimSpace (fpRecordType payload) \<noteq> ''etf_component_transfer'', ''record_type=etf_component_transfer''),
            (fpIsTransfer payload \<noteq> Some True, ''is_transfer=true''),
            (flt fzero (fpPrice payload) \<and> \<not> etfTransferSide payload, ''transfer classification'')]
      in if missing \<noteq> [] then Some (incomplete source missing) else None)"

end
