(* ===== verification/Ledger_Convert.thy ===== *)
theory Ledger_Convert
  imports Ledger_Records
begin

text \<open>
  The ledger records of gateway messages (\<^verbatim>\<open>internal/redisstream/ledger_sync.go\<close>): orders, order
  events, fills, component transfers, assets, positions, fees and the fill that stands for the
  difference between an order's filled quantity and its known fills.
\<close>

section \<open>Orders\<close>

definition orderPayloadRejectInfo ::
    "EntryEnvelope \<Rightarrow> orderPayload \<Rightarrow> OrderStatus \<Rightarrow> GatewayStatus \<Rightarrow> string \<times> string" where
  "orderPayloadRejectInfo envelope payload status gatewayStatus =
     (case orderErrorInfo envelope of (code0, message0) \<Rightarrow>
        let code = firstNonEmpty [opRejectCode payload, code0];
            isRejected = (status = OrderStatusRejected \<or> gatewayStatus = GatewayStatusRejected
              \<or> enStatus envelope = ReplyStatusRejected \<or> enStatus envelope = ReplyStatusFailed
              \<or> opRejectMessage payload \<noteq> [] \<or> opRejectCode payload \<noteq> []
              \<or> stringFromMap (enAdapterContext envelope) ''error_text'' \<noteq> []);
            message = (if isRejected then firstNonEmpty [opRejectMessage payload, opStatusMessage payload,
                opCancelReason payload, stringFromMap (opAdapterContext payload) ''error_text'',
                stringFromMap (opAdapterContext payload) ''broker_status_text'', message0] else message0)
        in if message = [] then (if isRejected then (code, []) else ([], []))
           else if isRejected then (code, message) else ([], []))"

definition mergeEnvelopeFields :: "orderPayload \<Rightarrow> EntryEnvelope \<Rightarrow> orderPayload" where
  "mergeEnvelopeFields payload envelope =
     (let ctx = enAdapterContext envelope
      in payload
        \<lparr>opAccountID := orElse (opAccountID payload) (rtAccountID (enRouting envelope)),
         opGatewayOrderID := orElse (opGatewayOrderID payload) (enGatewayOrderID envelope),
         opOrderID := (if opOrderID payload = 0 then int64FromMap ctx ''order_id'' else opOrderID payload),
         opOrderStreamID := orElse (opOrderStreamID payload) (stringFromMap ctx ''order_stream_id''),
         opFee := (if feq (opFee payload) fzero then floatFromMap ctx ''fee'' else opFee payload),
         opAdapterStatusCode := (if opAdapterStatusCode payload = 0 then int64FromMap ctx ''order_status_code''
           else opAdapterStatusCode payload),
         opAdapterStatusName := orElse (opAdapterStatusName payload) (stringFromMap ctx ''order_status_name'')\<rparr>)"

text \<open>The four quantities are added in 64 bits.\<close>

definition quantitiesClose :: "orderPayload \<Rightarrow> int \<Rightarrow> bool" where
  "quantitiesClose payload orderQty \<longleftrightarrow>
     wrap64 (wrap64 (wrap64 (opCumFilledQty payload + opLeavesQty payload) + opCancelledQty payload)
       + opInvalidQty payload) = orderQty"

definition normalizePartialFillGatewayStatus :: "orderPayload \<Rightarrow> int \<Rightarrow> GatewayStatus \<times> ctxmap" where
  "normalizePartialFillGatewayStatus payload orderQty =
     (let reported = ToLower (TrimSpace (opGatewayStatus payload));
          reportedStatus = ToLower (TrimSpace (opStatus payload))
      in if reported \<noteq> OrderStatusPartiallyFilled
            \<or> (reportedStatus \<noteq> [] \<and> reportedStatus \<noteq> OrderStatusPartiallyFilled \<and> reportedStatus \<noteq> OrderStatusWorking)
            \<or> opIsTerminal payload \<or> orderQty \<le> 0 \<or> opCumFilledQty payload \<le> 0
            \<or> opCumFilledQty payload \<ge> orderQty \<or> opLeavesQty payload \<le> 0 \<or> opCancelledQty payload < 0
            \<or> opInvalidQty payload < 0 \<or> \<not> quantitiesClose payload orderQty
         then (TrimSpace (opGatewayStatus payload), None)
         else (GatewayStatusWorking,
               Some [''relay_gateway_status_normalized_from'' \<mapsto> AnyStr reported,
                     ''relay_gateway_status_normalization'' \<mapsto> AnyStr ''partial_fill_to_working'']))"

definition hasGatewayStatusNormalization :: "ctxmap \<Rightarrow> bool" where
  "hasGatewayStatusNormalization ctx \<longleftrightarrow>
     stringFromMap ctx ''relay_gateway_status_normalization'' = ''partial_fill_to_working''"

definition parseCompactTradeDate :: "string \<Rightarrow> civil option" where
  "parseCompactTradeDate value =
     (case parseDate10 (TrimSpace value) of
        Some c \<Rightarrow> Some c
      | None \<Rightarrow> parseDate8 (TrimSpace value))"

text \<open>The midnight of a date text of the code's own, the zero time when it does not parse.\<close>

definition midnightOf :: "string \<Rightarrow> gotime" where
  "midnightOf s = (case parseDate10 s of Some c \<Rightarrow> dateInstant c | None \<Rightarrow> zeroTime)"

text \<open>\<^verbatim>\<open>Sub\<close> of two midnights is a whole number of days, so the comparison of the hours, a \<^verbatim>\<open>float64\<close>,
  with seven days is exact; beyond the range of a duration it saturates, above seven days.\<close>

definition guardedOrderTradeDate :: "orderPayload \<Rightarrow> EntryEnvelope \<Rightarrow> string \<times> ctxmap" where
  "guardedOrderTradeDate payload envelope =
     (let reported = TrimSpace (opTradeDate payload)
      in if reported = [] then (reported, None)
         else case parseCompactTradeDate reported of
                None \<Rightarrow> (reported, None)
              | Some day \<Rightarrow>
                  let reference = firstNonZeroTime [parseTime (opCreatedAt payload), parseTime (opInsertedAt payload),
                        parseTime (opAcceptedAt payload),
                        parseTime (firstNonEmpty [opLastUpdatedAt payload, opUpdateTime payload]),
                        parseTime (opTerminalAt payload), enProducedAt envelope]
                  in if IsZero reference then (reported, None)
                     else let referenceDay = midnightOf (formatBusinessDate reference)
                          in if \<bar>dateInstant day - referenceDay\<bar> \<le> 7 * day_length then (reported, None)
                             else (formatBusinessDate referenceDay,
                                   Some [''relay_reported_trade_date'' \<mapsto> AnyStr reported,
                                         ''relay_trade_date_normalized'' \<mapsto> AnyBool True,
                                         ''relay_trade_date_source'' \<mapsto> AnyStr ''order_timestamp_guard'',
                                         ''relay_trade_date_reference_at'' \<mapsto> AnyStr (FormatRFC3339Nano reference)]))"

definition toOrder :: "orderPayload \<Rightarrow> EntryEnvelope \<Rightarrow> Order" where
  "toOrder payload envelope =
     (let limitPrice = firstPositive [opLimitPrice payload, opPrice payload];
          orderQty = firstPositiveInt [opOrderQty payload, opQty payload];
          (gatewayStatus0, gatewayStatusContext) = normalizePartialFillGatewayStatus payload orderQty;
          (status, gatewayStatus, inferredTerminal) = NormalizeOrderExecutionState
            (TrimSpace (opStatus payload)) gatewayStatus0 orderQty (opCumFilledQty payload) (opLeavesQty payload);
          cumFilledQty = (if status = OrderStatusFilled then orderQty else opCumFilledQty payload);
          leavesQty = (if status = OrderStatusFilled then 0 else opLeavesQty payload);
          isTerminal = (inferredTerminal \<or> OrderStatus_Terminal status \<or> GatewayStatus_Terminal gatewayStatus);
          adapterStatusName = firstNonEmpty [opAdapterStatusName payload, opAdapterStatus payload];
          (rejectCode, rejectMessage) = orderPayloadRejectInfo envelope payload status gatewayStatus;
          context1 = withOrderPayloadContext (orderDebugContext envelope rejectCode rejectMessage) payload;
          context2 = mergeContextMaps context1 gatewayStatusContext;
          counterSessionID = firstNonEmpty [opCounterSessionID payload,
            stringFromMap (opAdapterContext payload) ''counter_session_id'',
            stringFromMap (enAdapterContext envelope) ''counter_session_id''];
          context3 = mergeContextMaps context2 (stringContext ''counter_session_id'' counterSessionID);
          (tradeDate, tradeDateContext) = guardedOrderTradeDate payload envelope
      in \<lparr>oAccountID = opAccountID payload, oClientOrderID = opClientOrderID payload,
          oGatewayOrderID = opGatewayOrderID payload, oOrderID = opOrderID payload,
          oOrderStreamID = opOrderStreamID payload, oCounterSessionID = counterSessionID, oTradeDate = tradeDate,
          oSymbol = opSymbol payload, oName = opName payload, oExchange = opExchange payload,
          oTradeSide = opTradeSide payload, oBusinessType = opBusinessType payload,
          oOffsetType = opOffsetType payload, oLimitPrice = limitPrice, oOrderQty = orderQty,
          oSubmittedQty = opSubmittedQty payload, oCumFilledQty = cumFilledQty, oLeavesQty = leavesQty,
          oCancelledQty = opCancelledQty payload, oInvalidQty = opInvalidQty payload,
          oAvgFillPrice = opAvgFillPrice payload, oFee = opFee payload, oStatus = status,
          oGatewayStatus = gatewayStatus, oAdapterStatusCode = opAdapterStatusCode payload,
          oAdapterStatusName = adapterStatusName, oIsTerminal = isTerminal, oRejectCode = rejectCode,
          oRejectMessage = rejectMessage, oOriginMessageID = enOriginMessageID envelope,
          oRequestID = enRequestID envelope, oIdempotencyKey = orderIdempotencyKey envelope,
          oShareholderID = opShareholderID payload, oStrategyType = opStrategyType payload,
          oStrategyID = opStrategyID payload, oBasketID = opBasketID payload,
          oParentOrderID = opParentOrderID payload, oT0OrderGroupID = opT0OrderGroupID payload,
          oCreatedAt = parseTime (opCreatedAt payload), oAcceptedAt = parseTime (opAcceptedAt payload),
          oInsertedAt = parseTime (opInsertedAt payload),
          oLastUpdatedAt = parseTime (firstNonEmpty [opLastUpdatedAt payload, opUpdateTime payload]),
          oTerminalAt = parseTime (opTerminalAt payload),
          oAdapterContext = mergeContextMaps context3 tradeDateContext\<rparr>)"

text \<open>\<^verbatim>\<open>LastUpdatedAt\<close> from the envelope when the payload has none.\<close>

definition stampOrder :: "EntryEnvelope \<Rightarrow> Order \<Rightarrow> Order" where
  "stampOrder envelope order =
     (if IsZero (oLastUpdatedAt order) \<and> \<not> IsZero (enProducedAt envelope)
      then order\<lparr>oLastUpdatedAt := enProducedAt envelope\<rparr> else order)"

definition orderEventFromEnvelope :: "EntryEnvelope \<Rightarrow> error + (OrderEvent \<times> bool)" where
  "orderEventFromEnvelope envelope =
     (case unmarshal orderPayload_errs orderPayload_of (enPayload envelope) of
        None \<Rightarrow> Inl (ErrPayload ''decode order.event payload'')
      | Some payload0 \<Rightarrow>
          let payload1 = mergeEnvelopeFields payload0 envelope;
              (accountID, rawAccountID) = normalizeAccountIDFromRouting (opAccountID payload1) envelope;
              payload = payload1\<lparr>opAccountID := accountID\<rparr>
          in case validateOrderEventFields payload of
               Some err \<Rightarrow> Inl err
             | None \<Rightarrow>
                 let order0 = toOrder payload envelope;
                     order1 = stampOrder envelope
                       (order0\<lparr>oAdapterContext := withRawAccountID (oAdapterContext order0) rawAccountID\<rparr>);
                     order = (if oIsTerminal order1 \<and> IsZero (oTerminalAt order1)
                        then order1\<lparr>oTerminalAt := firstNonZeroTime [oLastUpdatedAt order1, enProducedAt envelope]\<rparr>
                        else order1)
                 in Inr (\<lparr>eEventID = enMessageID envelope, eEventType = EventTypeOrder,
                          eAccountID = oAccountID order, eGatewayOrderID = oGatewayOrderID order,
                          eStatus = oStatus order, eGatewayStatus = oGatewayStatus order,
                          eIsTerminal = oIsTerminal order, eOrder = order, eProducedAt = enProducedAt envelope,
                          eAdapterContext = oAdapterContext order\<rparr>, completeOrderLedgerFields payload))"

definition orderFromPageItem :: "EntryEnvelope \<Rightarrow> orderPayload \<Rightarrow> error + Order" where
  "orderFromPageItem envelope item0 =
     (let item1 = mergeEnvelopeFields (item0\<lparr>opAccountID := orElse (opAccountID item0) (rtAccountID (enRouting envelope))\<rparr>) envelope;
          (accountID, rawAccountID) = normalizeAccountIDFromRouting (opAccountID item1) envelope;
          (gatewayOrderID, rawGatewayOrderID) =
            normalizeLegacyBasketGatewayOrderID (opGatewayOrderID item1) (opOrderStreamID item1);
          item = item1\<lparr>opAccountID := accountID, opGatewayOrderID := gatewayOrderID\<rparr>
      in case validateOrderPageFields item of
           Some err \<Rightarrow> Inl err
         | None \<Rightarrow>
             let order = toOrder item envelope
             in Inr (stampOrder envelope (order\<lparr>oAdapterContext :=
                  withRawGatewayOrderID (withRawAccountID (oAdapterContext order) rawAccountID) rawGatewayOrderID\<rparr>)))"

text \<open>The first error ends the loop over a page.\<close>

fun convertAll :: "('a \<Rightarrow> error + 'b) \<Rightarrow> 'a list \<Rightarrow> error + 'b list" where
  "convertAll f [] = Inr []"
| "convertAll f (x # xs) =
     (case f x of
        Inl e \<Rightarrow> Inl e
      | Inr y \<Rightarrow> (case convertAll f xs of Inl e \<Rightarrow> Inl e | Inr ys \<Rightarrow> Inr (y # ys)))"

definition ordersFromReplyEnvelope :: "EntryEnvelope \<Rightarrow> error + Order list" where
  "ordersFromReplyEnvelope envelope =
     (case unmarshal orderPagePayload_errs orderPagePayload_of (enPayload envelope) of
        None \<Rightarrow> Inl (ErrPayload ''decode order_page payload'')
      | Some items \<Rightarrow> convertAll (orderFromPageItem envelope) items)"

definition rejectedOrderEvent :: "EntryEnvelope \<Rightarrow> string \<Rightarrow> string \<Rightarrow> string \<Rightarrow> string \<Rightarrow> OrderEvent" where
  "rejectedOrderEvent envelope gatewayOrderID rejectCode rejectMessage eventID =
     \<lparr>eEventID = eventID, eEventType = EventTypeOrder, eAccountID = rtAccountID (enRouting envelope),
      eGatewayOrderID = gatewayOrderID, eStatus = OrderStatusRejected, eGatewayStatus = GatewayStatusRejected,
      eIsTerminal = True,
      eOrder = Order0\<lparr>oAccountID := rtAccountID (enRouting envelope), oGatewayOrderID := gatewayOrderID,
        oStatus := OrderStatusRejected, oGatewayStatus := GatewayStatusRejected, oIsTerminal := True,
        oRejectCode := rejectCode, oRejectMessage := rejectMessage, oOriginMessageID := enOriginMessageID envelope,
        oRequestID := enRequestID envelope, oIdempotencyKey := enIdempotencyKey envelope,
        oLastUpdatedAt := enProducedAt envelope, oTerminalAt := enProducedAt envelope,
        oAdapterContext := orderDebugContext envelope rejectCode rejectMessage\<rparr>,
      eProducedAt = enProducedAt envelope, eAdapterContext = orderDebugContext envelope rejectCode rejectMessage\<rparr>"

section \<open>Fills and transfers\<close>

definition matchedTime :: "fillPayload \<Rightarrow> EntryEnvelope \<Rightarrow> gotime" where
  "matchedTime payload envelope =
     (let t0 = parseTime (fpMatchedAt payload);
          t1 = (if IsZero t0 \<and> fpMatchTimestamp payload > 0 then UnixMilli (fpMatchTimestamp payload) else t0)
      in if IsZero t1 then enProducedAt envelope else t1)"

definition matchedDate :: "fillPayload \<Rightarrow> gotime \<Rightarrow> string" where
  "matchedDate payload matchedAt =
     (let tradeDate = TrimSpace (fpTradeDate payload)
      in if tradeDate = [] \<and> \<not> IsZero matchedAt then formatBusinessDate matchedAt else tradeDate)"

text \<open>The account, gateway order id and fill id from the envelope; the raw ids that were replaced.\<close>

definition completeFillIDs :: "fillPayload \<Rightarrow> EntryEnvelope \<Rightarrow> fillPayload \<times> string \<times> string" where
  "completeFillIDs payload envelope =
     (let (accountID, rawAccountID) =
            normalizeAccountIDFromRouting (orElse (fpAccountID payload) (rtAccountID (enRouting envelope))) envelope;
          (gatewayOrderID, rawGatewayOrderID) = normalizeLegacyBasketGatewayOrderID
            (orElse (fpGatewayOrderID payload) (enGatewayOrderID envelope)) (fpOrderStreamID payload)
      in (payload\<lparr>fpAccountID := accountID, fpGatewayOrderID := gatewayOrderID,
            fpFillID := orElse (fpFillID payload) (stringFromMap (enAdapterContext envelope) ''match_stream_id'')\<rparr>,
          rawAccountID, rawGatewayOrderID))"

definition fillFromPayload :: "fillPayload \<Rightarrow> EntryEnvelope \<Rightarrow> string \<Rightarrow> error + Fill" where
  "fillFromPayload payload0 envelope source =
     (let (payload1, rawAccountID, rawGatewayOrderID) = completeFillIDs payload0 envelope;
          payload = payload1\<lparr>fpFee := (if feq (fpFee payload1) fzero
             then floatFromMap (enAdapterContext envelope) ''fee'' else fpFee payload1)\<rparr>
      in case fillPayload_validate source payload of
           Some err \<Rightarrow> Inl err
         | None \<Rightarrow>
             let matchedAt = matchedTime payload envelope
             in Inr \<lparr>fFillID = fpFillID payload, fAccountID = fpAccountID payload,
                  fGatewayOrderID = fpGatewayOrderID payload, fOrderID = fpOrderID payload,
                  fOrderStreamID = fpOrderStreamID payload, fSymbol = fpSymbol payload, fName = fpName payload,
                  fExchange = fpExchange payload, fTradeSide = fpTradeSide payload,
                  fBusinessType = fpBusinessType payload, fPrice = fpPrice payload, fQty = fpQty payload,
                  fFee = fpFee payload, fTradeDate = matchedDate payload matchedAt,
                  fMatchTimestamp = fpMatchTimestamp payload, fMatchedAt = matchedAt,
                  fShareholderID = fpShareholderID payload, fStrategyType = fpStrategyType payload,
                  fStrategyID = fpStrategyID payload, fBasketID = fpBasketID payload,
                  fParentOrderID = fpParentOrderID payload, fT0OrderGroupID = fpT0OrderGroupID payload,
                  fAdapterContext = withFillPayloadContext (withRawGatewayOrderID
                    (withRawAccountID (enAdapterContext envelope) rawAccountID) rawGatewayOrderID) payload\<rparr>)"

definition fillFromEnvelope :: "EntryEnvelope \<Rightarrow> error + Fill" where
  "fillFromEnvelope envelope =
     (case unmarshal fillPayload_errs fillPayload_of (enPayload envelope) of
        None \<Rightarrow> Inl (ErrPayload ''decode fill.event payload'')
      | Some payload \<Rightarrow> fillFromPayload payload envelope ''fill.event'')"

definition componentTransferFromPayload ::
    "componentTransferPayload \<Rightarrow> EntryEnvelope \<Rightarrow> string \<Rightarrow> error + ComponentTransfer" where
  "componentTransferFromPayload tp0 envelope source =
     (let (payload, rawAccountID, rawGatewayOrderID) = completeFillIDs (tpFill tp0) envelope;
          tp = tp0\<lparr>tpFill := payload\<rparr>
      in case componentTransferPayload_validate source tp of
           Some err \<Rightarrow> Inl err
         | None \<Rightarrow>
             let matchedAt = matchedTime payload envelope
             in Inr \<lparr>tFillID = fpFillID payload, tAccountID = fpAccountID payload,
                  tGatewayOrderID = fpGatewayOrderID payload, tOrderID = fpOrderID payload,
                  tOrderStreamID = fpOrderStreamID payload, tSymbol = fpSymbol payload, tName = fpName payload,
                  tExchange = fpExchange payload, tPrice = fpPrice payload, tQty = fpQty payload,
                  tTradeSide = fpTradeSide payload, tBusinessType = fpBusinessType payload,
                  tRecordType = fpRecordType payload, tTransferType = tpTransferType tp, tIsTransfer = True,
                  tComponentSymbol = firstNonEmpty [tpComponentSymbol tp, fpSymbol payload],
                  tComponentName = tpComponentName tp,
                  tComponentExchange = firstNonEmpty [tpComponentExchange tp, fpExchange payload],
                  tComponentQty = (if tpComponentQty tp \<le> 0 then fpQty payload else tpComponentQty tp),
                  tComponentValue = tpComponentValue tp, tCashSubstitution = tpCashSubstitution tp,
                  tBrokerTradeSide = tpBrokerTradeSide tp, tBrokerBusinessType = tpBrokerBusinessType tp,
                  tTradeDate = matchedDate payload matchedAt, tMatchTimestamp = fpMatchTimestamp payload,
                  tMatchedAt = matchedAt, tShareholderID = fpShareholderID payload,
                  tStrategyType = fpStrategyType payload, tStrategyID = fpStrategyID payload,
                  tBasketID = fpBasketID payload, tParentOrderID = fpParentOrderID payload,
                  tT0OrderGroupID = fpT0OrderGroupID payload,
                  tAdapterContext = withFillPayloadContext (withRawGatewayOrderID
                    (withRawAccountID (enAdapterContext envelope) rawAccountID) rawGatewayOrderID) payload\<rparr>)"

definition componentTransferFromEnvelope :: "EntryEnvelope \<Rightarrow> error + ComponentTransfer" where
  "componentTransferFromEnvelope envelope =
     (case unmarshal componentTransferPayload_errs componentTransferPayload_of (enPayload envelope) of
        None \<Rightarrow> Inl (ErrPayload ''decode transfer.event payload'')
      | Some payload \<Rightarrow> componentTransferFromPayload payload envelope ''transfer.event'')"

definition fillRecordsFromReplyEnvelope :: "EntryEnvelope \<Rightarrow> error + (Fill list \<times> ComponentTransfer list)" where
  "fillRecordsFromReplyEnvelope envelope =
     (case unmarshal fillPagePayload_errs fillPagePayload_of (enPayload envelope) of
        None \<Rightarrow> Inl (ErrPayload ''decode fill_page payload'')
      | Some page \<Rightarrow>
          (case convertAll (\<lambda>item. fillFromPayload item envelope ''fill_page'') (fgItems page) of
             Inl e \<Rightarrow> Inl e
           | Inr fills \<Rightarrow>
               (case convertAll (\<lambda>item. componentTransferFromPayload item envelope ''fill_page component_transfers'')
                       (fgComponentTransfers page) of
                  Inl e \<Rightarrow> Inl e
                | Inr transfers \<Rightarrow> Inr (fills, transfers))))"

section \<open>Assets and positions\<close>

text \<open>The raw payload stored beside an asset or a position: the payload, and the account id it had
  when it was replaced.\<close>

definition assetFromReplyEnvelope :: "EntryEnvelope \<Rightarrow> error + (Asset \<times> (assetPayload \<times> string))" where
  "assetFromReplyEnvelope envelope =
     (case unmarshal assetPagePayload_errs assetPagePayload_of (enPayload envelope) of
        None \<Rightarrow> Inl (ErrPayload ''decode asset_page payload'')
      | Some payload0 \<Rightarrow>
          let (accountID, rawAccountID) = normalizeAccountIDFromRouting
                (orElse (apAccountID payload0) (rtAccountID (enRouting envelope))) envelope;
              payload = payload0\<lparr>apAccountID := accountID\<rparr>
          in if blank (apAccountID payload) then Inl (incomplete ''asset_page'' [''account_id''])
             else Inr (\<lparr>asAccountID = apAccountID payload, asCashAvailable = apCashAvailable payload,
                        asCashTotal = apCashTotal payload, asNetAsset = apNetAsset payload,
                        asMarketValue = apMarketValue payload, asStockValue = apStockValue payload,
                        asFundValue = apFundValue payload, asReverseRepoReceivable = fzero,
                        asCommission = apCommission payload, asDayProfit = apDayProfit payload,
                        asPositionProfit = apPositionProfit payload, asCloseProfit = apCloseProfit payload,
                        asCredit = apCredit payload, asUpdatedAt = enProducedAt envelope\<rparr>,
                       (payload, rawAccountID)))"

definition reliablePositionMarketValue :: "positionPayload \<Rightarrow> float64" where
  "reliablePositionMarketValue item =
     (if ppQuantity item \<le> 0 \<or> fle (ppLastPrice item) fzero then fzero
      else fmul (float_of_int (ppQuantity item)) (ppLastPrice item))"

definition positionFromPageItem :: "EntryEnvelope \<Rightarrow> positionPayload \<Rightarrow> error + (Position \<times> (positionPayload \<times> string))" where
  "positionFromPageItem envelope item0 =
     (let (accountID, rawAccountID) = normalizeAccountIDFromRouting
            (orElse (ppAccountID item0) (rtAccountID (enRouting envelope))) envelope;
          item = item0\<lparr>ppAccountID := accountID\<rparr>
      in if blank (ppAccountID item) then Inl (incomplete ''position_page'' [''account_id''])
         else if blank (ppSymbol item) then Inl (incomplete ''position_page'' [''symbol''])
         else if blank (ppExchange item) then Inl (incomplete ''position_page'' [''exchange''])
         else Inr (\<lparr>pAccountID = ppAccountID item, pTradeDate = [], pSnapshotType = [], pSymbol = ppSymbol item,
                    pName = ppName item, pExchange = ppExchange item, pQuantity = ppQuantity item,
                    pSellableQty = ppSellableQty item, pInitialQty = ppInitialQty item, pTodayQty = ppTodayQty item,
                    pAvgCost = ppAvgCost item, pTotalCost = ppTotalCost item, pAvgCostSource = ppAvgCostSource item,
                    pCostComplete = ppCostComplete item, pLastPrice = ppLastPrice item,
                    pMarketValue = reliablePositionMarketValue item, pUnrealizedPnL = ppUnrealizedPnL item,
                    pDayUnrealizedPnL = ppDayUnrealizedPnL item, pSettledProfit = ppSettledProfit item,
                    pShareholderID = ppShareholderID item, pUpdatedAt = enProducedAt envelope\<rparr>,
                   (item, rawAccountID)))"

definition positionsFromReplyEnvelope :: "EntryEnvelope \<Rightarrow> error + (Position \<times> (positionPayload \<times> string)) list" where
  "positionsFromReplyEnvelope envelope =
     (case unmarshal positionPagePayload_errs positionPagePayload_of (enPayload envelope) of
        None \<Rightarrow> Inl (ErrPayload ''decode position_page payload'')
      | Some items \<Rightarrow> convertAll (positionFromPageItem envelope) items)"

definition isCompletedPositionPage :: "EntryEnvelope \<Rightarrow> bool" where
  "isCompletedPositionPage envelope \<longleftrightarrow>
     (enAction envelope = ActionAccountPositions \<or> enResultType envelope = ''position_page'')
     \<and> enStatus envelope = ReplyStatusCompleted"

text \<open>Milliseconds, microseconds and nanoseconds are told apart by the number of digits.\<close>

definition timestampFromDigits :: "string \<Rightarrow> gotime" where
  "timestampFromDigits digits =
     (if length digits < 13 then zeroTime
      else case ParseInt64 digits of
             None \<Rightarrow> zeroTime
           | Some value \<Rightarrow>
               if length digits \<ge> 18 then value
               else if length digits \<ge> 16 then value * 1000
               else UnixMilli value)"

fun timestampScan :: "string \<Rightarrow> string \<Rightarrow> gotime" where
  "timestampScan digits [] = timestampFromDigits digits"
| "timestampScan digits (c # s) =
     (if is_digit c then timestampScan (digits @ [c]) s
      else if \<not> IsZero (timestampFromDigits digits) then timestampFromDigits digits
      else timestampScan [] s)"

definition timestampFromIdentifier :: "string \<Rightarrow> gotime" where
  "timestampFromIdentifier value = timestampScan [] value"

definition positionQueryStaleCutoff :: "EntryEnvelope \<Rightarrow> gotime" where
  "positionQueryStaleCutoff envelope =
     (let t = firstNonZeroTime (map timestampFromIdentifier [enOriginMessageID envelope, enCorrelationID envelope,
            enRequestCorrelationID envelope, enMessageID envelope, enRequestID envelope])
      in if \<not> IsZero t then t
         else if \<not> IsZero (enProducedAt envelope) then enProducedAt envelope - 30 * 60 * second
         else zeroTime)"

definition positionQueryUpdatedAt :: "EntryEnvelope \<Rightarrow> gotime" where
  "positionQueryUpdatedAt envelope =
     (let updatedAt = enProducedAt envelope; cutoff = positionQueryStaleCutoff envelope
      in if IsZero cutoff then updatedAt
         else if IsZero updatedAt \<or> updatedAt < cutoff then cutoff + 1
         else updatedAt)"

section \<open>Fees\<close>

record OrderFeeRecord =
  frOrderFeeRecordPK :: int
  frAccountID :: string
  frFeeRecordID :: string
  frTradeDate :: string
  frRecordScope :: string
  frGatewayOrderID :: string
  frOrderID :: int
  frOrderStreamID :: string
  frFillID :: string
  frSymbol :: string
  frExchange :: string
  frTradeSide :: string
  frBusinessType :: string
  frOrderAmount :: float64
  frTurnover :: float64
  frCommission :: float64
  frStampTax :: float64
  frTransferFee :: float64
  frHandlingFee :: float64
  frRegulatoryFee :: float64
  frSettlementFee :: float64
  frOtherFee :: float64
  frTotalFee :: float64
  frCurrency :: string
  frFeeComplete :: bool
  frFeeSource :: string
  frFeeAsOf :: gotime
  frSettledAt :: gotime
  frAssociationComplete :: bool
  frAdapterContext :: ctxmap
  frOriginMessageID :: string
  frRequestID :: string
  frCorrelationID :: string
  frIdempotencyKey :: string
  frStreamKey :: string
  frStreamID :: string
  frRawPayload :: orderFeePayload
  frCreatedAt :: gotime
  frUpdatedAt :: gotime

text \<open>The first pass over a fee page: every record has an id of its own, and their fees add up to the
  account's total within a cent.\<close>

fun checkFeeItems :: "orderFeePayload list \<Rightarrow> string list \<Rightarrow> float64 \<Rightarrow> error + float64" where
  "checkFeeItems [] seen acc = Inr acc"
| "checkFeeItems (item # items) seen acc =
     (let feeRecordID = TrimSpace (xpFeeRecordID item)
      in if feeRecordID = [] then Inl (ErrPayload ''fee_page item missing fee_record_id'')
         else if feeRecordID \<in> set seen then Inl (ErrPayload (''fee_page duplicate fee_record_id '' @ feeRecordID))
         else checkFeeItems items (feeRecordID # seen) (fadd acc (xpTotalFee item)))"

definition feeFromPageItem ::
    "EntryEnvelope \<Rightarrow> string \<Rightarrow> string \<Rightarrow> string \<Rightarrow> orderFeePayload \<Rightarrow> error + OrderFeeRecord" where
  "feeFromPageItem envelope accountID rawAccountID tradeDate item0 =
     (let (itemAccountID, itemRawAccountID) =
            normalizeAccountIDFromRouting (orElse (xpAccountID item0) accountID) envelope;
          item = item0\<lparr>xpAccountID := itemAccountID, xpTradeDate := orElse (xpTradeDate item0) tradeDate\<rparr>;
          feeAsOf = parseTime (xpFeeAsOf item)
      in if IsZero feeAsOf then Inl (ErrPayload (''fee_page item missing valid fee_as_of '' @ xpFeeRecordID item))
         else Inr \<lparr>frOrderFeeRecordPK = 0, frAccountID = xpAccountID item, frFeeRecordID = xpFeeRecordID item,
                  frTradeDate = xpTradeDate item, frRecordScope = xpRecordScope item,
                  frGatewayOrderID = xpGatewayOrderID item, frOrderID = xpOrderID item,
                  frOrderStreamID = xpOrderStreamID item, frFillID = xpFillID item, frSymbol = xpSymbol item,
                  frExchange = xpExchange item, frTradeSide = xpTradeSide item, frBusinessType = xpBusinessType item,
                  frOrderAmount = xpOrderAmount item, frTurnover = xpTurnover item, frCommission = xpCommission item,
                  frStampTax = xpStampTax item, frTransferFee = xpTransferFee item, frHandlingFee = xpHandlingFee item,
                  frRegulatoryFee = xpRegulatoryFee item, frSettlementFee = xpSettlementFee item,
                  frOtherFee = xpOtherFee item, frTotalFee = xpTotalFee item, frCurrency = xpCurrency item,
                  frFeeComplete = xpFeeComplete item, frFeeSource = xpFeeSource item, frFeeAsOf = feeAsOf,
                  frSettledAt = parseTime (xpSettledAt item), frAssociationComplete = xpAssociationComplete item,
                  frAdapterContext = withRawAccountID
                    (mergeContextMaps (enAdapterContext envelope) (xpAdapterContext item))
                    (firstNonEmpty [itemRawAccountID, rawAccountID]),
                  frOriginMessageID = firstNonEmpty [enOriginMessageID envelope, enMessageID envelope],
                  frRequestID = enRequestID envelope,
                  frCorrelationID = firstNonEmpty [enCorrelationID envelope, enRequestCorrelationID envelope],
                  frIdempotencyKey = enIdempotencyKey envelope, frStreamKey = enStream envelope,
                  frStreamID = enStreamID envelope, frRawPayload = item, frCreatedAt = zeroTime,
                  frUpdatedAt = zeroTime\<rparr>)"

definition feeRecordsFromReplyEnvelope :: "EntryEnvelope \<Rightarrow> error + (OrderFeeRecord list \<times> string)" where
  "feeRecordsFromReplyEnvelope envelope =
     (case unmarshal feePagePayload_errs feePagePayload_of (enPayload envelope) of
        None \<Rightarrow> Inl (ErrPayload ''decode fee_page payload'')
      | Some payload \<Rightarrow>
          if xgItemCount payload \<noteq> int (length (xgItems payload))
          then Inl (ErrPayload ''fee_page item_count does not match items'')
          else case checkFeeItems (xgItems payload) [] fzero of
            Inl e \<Rightarrow> Inl e
          | Inr itemTotal \<Rightarrow>
              if flt (round64 (1 / 100)) (fabs (fsub itemTotal (xgAccountTotalFee payload)))
              then Inl (ErrPayload ''fee_page account_total_fee does not match item total'')
              else let (accountID, rawAccountID) = normalizeAccountIDFromRouting
                         (firstNonEmpty [xgAccountID payload, rtAccountID (enRouting envelope)]) envelope
                   in case convertAll (feeFromPageItem envelope accountID rawAccountID (TrimSpace (xgTradeDate payload)))
                             (xgItems payload) of
                        Inl e \<Rightarrow> Inl e
                      | Inr items \<Rightarrow>
                          Inr (items, if accountID = [] \<and> items \<noteq> [] then frAccountID (hd items) else accountID))"

section \<open>Cancel attempts\<close>

record OrderCancelAttempt =
  atAttemptID :: string
  atAccountID :: string
  atTradeDate :: string
  atGatewayOrderID :: string
  atOrderID :: int
  atOrderStreamID :: string
  atCounterSessionID :: string
  atOriginMessageID :: string
  atRequestID :: string
  atCorrelationID :: string
  atStatus :: string
  atCode :: string
  atMessage :: string
  atRetrySafe :: "bool option"
  atOrderStateChanged :: "bool option"
  atReconciliationRequired :: bool
  atOccurredAt :: gotime
  atStreamKey :: string
  atStreamID :: string
  atRawPayload :: cancelAttemptPayload
  atAdapterContext :: ctxmap

section \<open>The fill of an order summary\<close>

definition orderSummaryFilledQty :: "Order \<Rightarrow> int" where
  "orderSummaryFilledQty order =
     (if \<not> (oStatus order = OrderStatusFilled \<or> oGatewayStatus order = GatewayStatusFilled) then 0
      else let t0 = firstPositiveInt [oCumFilledQty order, int64FromMap (oAdapterContext order) ''dealt_vol'',
                 int64FromMap (oAdapterContext order) ''nDealtVol''];
               t1 = (if t0 \<le> 0 \<and> oOrderQty order > 0 then oOrderQty order else t0)
           in if oOrderQty order > 0 \<and> t1 > oOrderQty order then oOrderQty order else t1)"

definition orderSummaryFillPrice :: "Order \<Rightarrow> float64 \<times> string" where
  "orderSummaryFillPrice order =
     (let ctx = oAdapterContext order
      in if flt fzero (oAvgFillPrice order) then (oAvgFillPrice order, ''avg_fill_price'')
         else if flt fzero (floatFromMap ctx ''avg_fill_price'')
         then (floatFromMap ctx ''avg_fill_price'', ''adapter_context.avg_fill_price'')
         else if flt fzero (floatFromMap ctx ''avg_price'')
         then (floatFromMap ctx ''avg_price'', ''adapter_context.avg_price'')
         else if flt fzero (oLimitPrice order) then (oLimitPrice order, ''limit_price'')
         else (fzero, []))"

fun firstNamedTime :: "(string \<times> gotime) list \<Rightarrow> gotime \<times> string" where
  "firstNamedTime [] = (zeroTime, [])"
| "firstNamedTime ((n, t) # cs) = (if \<not> IsZero t then (t, n) else firstNamedTime cs)"

definition summaryFillMatchedAt :: "Order \<Rightarrow> string \<Rightarrow> EntryEnvelope \<Rightarrow> gotime \<times> string" where
  "summaryFillMatchedAt order source envelope =
     (let terminal = (''terminal_at'', oTerminalAt order); updated = (''last_updated_at'', oLastUpdatedAt order);
          created = (''created_at'', oCreatedAt order); inserted = (''inserted_at'', oInsertedAt order);
          accepted = (''accepted_at'', oAcceptedAt order); produced = (''produced_at'', enProducedAt envelope)
      in firstNamedTime (if source = ''order_page'' then [created, inserted, accepted, terminal, updated, produced]
           else [terminal, updated, created, inserted, accepted, produced]))"

definition summaryFillStreamRef :: "EntryEnvelope \<Rightarrow> string \<Rightarrow> StreamRef" where
  "summaryFillStreamRef envelope gatewayOrderID =
     (let stream = streamRef envelope
      in if srID stream \<noteq> [] \<and> gatewayOrderID \<noteq> [] then stream\<lparr>srID := srID stream @ '':summary:'' @ gatewayOrderID\<rparr>
         else stream)"

definition pageStreamRef :: "string \<Rightarrow> EntryEnvelope \<Rightarrow> string list \<Rightarrow> StreamRef" where
  "pageStreamRef kind envelope candidates =
     (let stream = streamRef envelope; suf = firstNonEmpty candidates
      in if srID stream = [] \<or> suf = [] then stream else stream\<lparr>srID := srID stream @ kind @ suf\<rparr>)"

definition fillPageStreamRef :: "EntryEnvelope \<Rightarrow> Fill \<Rightarrow> StreamRef" where
  "fillPageStreamRef envelope fill =
     pageStreamRef '':fill:'' envelope [fFillID fill, fOrderStreamID fill, fGatewayOrderID fill]"

definition componentTransferPageStreamRef :: "EntryEnvelope \<Rightarrow> ComponentTransfer \<Rightarrow> StreamRef" where
  "componentTransferPageStreamRef envelope transfer =
     pageStreamRef '':transfer:'' envelope
       [tFillID transfer, tOrderStreamID transfer, tComponentSymbol transfer, tGatewayOrderID transfer]"

definition summaryFill :: "EntryEnvelope \<Rightarrow> Order \<Rightarrow> string \<Rightarrow> int \<Rightarrow> int \<Rightarrow> int \<Rightarrow> Fill" where
  "summaryFill envelope order source targetQty existingQty missingQty =
     (let (price, priceSource) = orderSummaryFillPrice order;
          (matchedAt, matchedAtSource) = summaryFillMatchedAt order source envelope
      in \<lparr>fFillID = ''relay-summary:'' @ oGatewayOrderID order, fAccountID = oAccountID order,
          fGatewayOrderID = oGatewayOrderID order, fOrderID = oOrderID order,
          fOrderStreamID = oOrderStreamID order, fSymbol = oSymbol order, fName = oName order,
          fExchange = oExchange order, fTradeSide = oTradeSide order, fBusinessType = oBusinessType order,
          fPrice = price, fQty = missingQty, fFee = fzero, fTradeDate = tradeDateFromTime matchedAt,
          fMatchTimestamp = unixMilliOrZero matchedAt, fMatchedAt = matchedAt,
          fShareholderID = oShareholderID order, fStrategyType = oStrategyType order,
          fStrategyID = oStrategyID order, fBasketID = oBasketID order, fParentOrderID = oParentOrderID order,
          fT0OrderGroupID = oT0OrderGroupID order,
          fAdapterContext = Some (ctx_map (oAdapterContext order) ++
            [''relay_synthesized'' \<mapsto> AnyBool True, ''relay_synthesis_source'' \<mapsto> AnyStr source,
             ''relay_synthesis_reason'' \<mapsto> AnyStr ''order_filled_without_complete_fill_ledger'',
             ''relay_synthesis_target_qty'' \<mapsto> AnyInt targetQty,
             ''relay_synthesis_existing_qty'' \<mapsto> AnyInt existingQty,
             ''relay_synthesis_missing_qty'' \<mapsto> AnyInt missingQty,
             ''relay_synthesis_price_source'' \<mapsto> AnyStr priceSource,
             ''relay_synthesis_gateway_order'' \<mapsto> AnyStr (oGatewayOrderID order),
             ''relay_synthesis_time_source'' \<mapsto> AnyStr matchedAtSource])\<rparr>)"

end
