(* ===== verification/Ledger_Tables.thy ===== *)
theory Ledger_Tables
  imports Ledger_Repo Ledger_Convert
begin

text \<open>
  The other tables of the ledger (\<^verbatim>\<open>internal/ledger/repository.go\<close>, \<^verbatim>\<open>sql.go\<close>, \<^verbatim>\<open>fees.go\<close>): positions,
  asset snapshots, fills, component transfers, cancel attempts, fee records and stream checkpoints,
  as an extension of the state of the order tables. A row holds the columns as the record of the
  Go type; NULL is the zero value, which \<^verbatim>\<open>nullString\<close>, \<^verbatim>\<open>nullInt64\<close>, \<^verbatim>\<open>nullFloat64\<close> and \<^verbatim>\<open>nullTime\<close> turn
  into NULL and the scan functions read NULL as.
\<close>

section \<open>Columns and rows\<close>

text \<open>What the driver and the session do to times: the date of a time in the zone it carries, and a
  timestamp inside a \<^verbatim>\<open>jsonb\<close> value.\<close>

record zone =
  zoneDate :: "gotime \<Rightarrow> string"
  zoneJson :: "gotime \<Rightarrow> string"

text \<open>A value fits NUMERIC(20,6): no infinity and fourteen digits before the point.\<close>

definition money_fits :: "float64 \<Rightarrow> bool" where
  "money_fits x \<longleftrightarrow> (case x of Fin q \<Rightarrow> \<bar>q\<bar> < 10 ^ 14 | NaN \<Rightarrow> True | _ \<Rightarrow> False)"

text \<open>\<^verbatim>\<open>CHECK (x > 0)\<close> on NUMERIC, where NaN is the largest value.\<close>

definition num_positive :: "float64 \<Rightarrow> bool" where
  "num_positive x \<longleftrightarrow> x = NaN \<or> flt fzero x"

definition num_nonnegative :: "float64 \<Rightarrow> bool" where
  "num_nonnegative x \<longleftrightarrow> x = NaN \<or> fle fzero x"

record position_row =
  pwPosition :: Position
  pwSource :: string
  pwRawPayload :: "positionPayload \<times> string"

record asset_row =
  awTradeDate :: string
  awSnapshotType :: string
  awAsset :: Asset
  awSource :: string
  awRawPayload :: "assetPayload \<times> string"

record fill_row =
  fwFill :: Fill
  fwStream :: StreamRef
  fwOriginMessageID :: string
  fwRequestID :: string
  fwRawPayload :: Fill
  fwCreatedAt :: gotime

record transfer_row =
  twTransfer :: ComponentTransfer
  twStream :: StreamRef
  twOriginMessageID :: string
  twRequestID :: string
  twRawPayload :: ComponentTransfer
  twCreatedAt :: gotime

record attempt_row =
  cwAttempt :: OrderCancelAttempt
  cwAdapterContext :: jsonb
  cwUpdatedAt :: gotime

record StreamCheckpoint =
  ckStreamKey :: string
  ckRole :: string
  ckLastStreamID :: string
  ckLastSeenAt :: gotime
  ckLastProcessedAt :: gotime
  ckLastError :: string
  ckProcessedCount :: int
  ckErrorCount :: int
  ckMetadata :: ctxmap
  ckUpdatedAt :: gotime

record checkpoint_row =
  kwCheckpoint :: StreamCheckpoint
  kwMetadata :: jsonb

record 'b ledger_tables = "'b ledger_db" +
  tbPositions :: "position_row list"
  tbAssets :: "asset_row list"
  tbFills :: "fill_row list"
  tbTransfers :: "transfer_row list"
  tbAttempts :: "attempt_row list"
  tbFees :: "OrderFeeRecord list"
  tbCheckpoints :: "checkpoint_row list"

type_synonym ('b, 'z, 'r) table_act = "(('b, 'z) ledger_tables_scheme, 'r) act"

section \<open>Positions\<close>

definition normalizePosition :: "Position \<Rightarrow> error + Position" where
  "normalizePosition position =
     (let pos = position\<lparr>pAccountID := TrimSpace (pAccountID position), pSymbol := TrimSpace (pSymbol position)\<rparr>
      in if pAccountID pos = [] then Inl (ErrInvalidLedgerInput ''account_id is required'')
         else if pSymbol pos = [] then Inl (ErrInvalidLedgerInput ''symbol is required'')
         else if \<not> Exchange_Valid (pExchange pos)
         then Inl (ErrInvalidLedgerInput ''exchange must be SH, SZ, or BJ'')
         else
           let pos1 = (if feq (pMarketValue pos) fzero \<and> pQuantity pos > 0 \<and> flt fzero (pLastPrice pos)
                       then pos\<lparr>pMarketValue := fmul (float_of_int (pQuantity pos)) (pLastPrice pos)\<rparr> else pos);
               pos2 = (if feq (pUnrealizedPnL pos1) fzero \<and> flt fzero (pMarketValue pos1)
                          \<and> flt fzero (pAvgCost pos1) \<and> pQuantity pos1 > 0
                       then pos1\<lparr>pUnrealizedPnL :=
                              fsub (pMarketValue pos1) (fmul (pAvgCost pos1) (float_of_int (pQuantity pos1)))\<rparr>
                       else pos1)
           in Inr pos2)"

definition position_values ::
    "pg \<Rightarrow> Position \<Rightarrow> string \<Rightarrow> positionPayload \<times> string \<Rightarrow> gotime \<Rightarrow> position_row" where
  "position_values P pos source raw updatedAt =
     \<lparr>pwPosition = pos\<lparr>pTradeDate := [], pSnapshotType := [],
         pAvgCost := pg_money P (pAvgCost pos), pTotalCost := pg_money P (pTotalCost pos),
         pLastPrice := of_null fzero (map_option (pg_money P) (nullFloat64 (pLastPrice pos))),
         pMarketValue := pg_money P (pMarketValue pos), pUnrealizedPnL := pg_money P (pUnrealizedPnL pos),
         pDayUnrealizedPnL := pg_money P (pDayUnrealizedPnL pos),
         pSettledProfit := pg_money P (pSettledProfit pos), pShareholderID := TrimSpace (pShareholderID pos),
         pUpdatedAt := pg_time P updatedAt\<rparr>,
      pwSource = source, pwRawPayload = raw\<rparr>"

definition position_fits :: "Position \<Rightarrow> bool" where
  "position_fits p \<longleftrightarrow> list_all money_fits [pAvgCost p, pTotalCost p, pLastPrice p, pMarketValue p,
     pUnrealizedPnL p, pDayUnrealizedPnL p, pSettledProfit p]"

definition positions_check :: "Position \<Rightarrow> bool" where
  "positions_check p \<longleftrightarrow> Exchange_Valid (pExchange p) \<and> 0 \<le> pQuantity p \<and> 0 \<le> pSellableQty p
     \<and> 0 \<le> pInitialQty p \<and> 0 \<le> pTodayQty p"

definition position_key :: "position_row \<Rightarrow> string \<times> string \<times> string" where
  "position_key r = (pAccountID (pwPosition r), pSymbol (pwPosition r), pExchange (pwPosition r))"

definition upsertPositionSQL :: "position_row \<Rightarrow> ('b, 'z, unit) table_act" where
  "upsertPositionSQL new s =
     (if \<not> position_fits (pwPosition new) then (Inl (ErrDatabase ''22003''), s)
      else if \<not> positions_check (pwPosition new) then (Inl (ErrDatabase ''23514''), s)
      else case find (\<lambda>r. position_key r = position_key new) (tbPositions s) of
             None \<Rightarrow>
               if dbAccounts s (pAccountID (pwPosition new)) = None then (Inl (ErrDatabase ''23503''), s)
               else (Inr (), s\<lparr>tbPositions := tbPositions s @ [new]\<rparr>)
           | Some _ \<Rightarrow>
               (Inr (), s\<lparr>tbPositions := map (\<lambda>r. if position_key r = position_key new
                    \<and> pUpdatedAt (pwPosition r) \<le> pUpdatedAt (pwPosition new) then new else r) (tbPositions s)\<rparr>))"

definition UpsertPosition ::
    "pg \<Rightarrow> Position \<Rightarrow> string \<Rightarrow> positionPayload \<times> string \<Rightarrow> gotime \<Rightarrow> ('b, 'z, unit) table_act" where
  "UpsertPosition P position source raw updatedAt s =
     (case normalizePosition position of
        Inl e \<Rightarrow> (Inl e, s)
      | Inr normalized \<Rightarrow>
          let source1 = (let t = TrimSpace source in if t = [] then ''query'' else t);
              updatedAt1 = (if IsZero updatedAt then dbClientNow s else updatedAt)
          in run_stmt (upsertPositionSQL (position_values P normalized source1 raw updatedAt1)) s)"

definition stale :: "string \<Rightarrow> gotime \<Rightarrow> position_row \<Rightarrow> bool" where
  "stale accountID cutoff r \<longleftrightarrow> pAccountID (pwPosition r) = accountID \<and> pUpdatedAt (pwPosition r) < cutoff"

text \<open>The cutoff is stored with the precision of a timestamp as well.\<close>

definition deleteStalePositionsSQL :: "pg \<Rightarrow> string \<Rightarrow> gotime \<Rightarrow> ('b, 'z, int) table_act" where
  "deleteStalePositionsSQL P accountID cutoff s =
     (Inr (int (length (filter (stale accountID (pg_time P cutoff)) (tbPositions s)))),
      s\<lparr>tbPositions := filter (\<lambda>r. \<not> stale accountID (pg_time P cutoff) r) (tbPositions s)\<rparr>)"

definition DeleteStalePositions :: "pg \<Rightarrow> string \<Rightarrow> gotime \<Rightarrow> ('b, 'z, int) table_act" where
  "DeleteStalePositions P accountID cutoff s =
     (let accountID1 = TrimSpace accountID
      in if accountID1 = [] then (Inl (ErrInvalidLedgerInput ''account_id is required''), s)
         else if IsZero cutoff then (Inl (ErrInvalidLedgerInput ''cutoff is required''), s)
         else run_stmt (deleteStalePositionsSQL P accountID1 cutoff) s)"

definition normalizePositionQuery :: "PositionQuery \<Rightarrow> error + PositionQuery" where
  "normalizePositionQuery q0 =
     (let q = q0\<lparr>pqAccountID := TrimSpace (pqAccountID q0), pqSymbol := TrimSpace (pqSymbol q0),
            pqCursor := TrimSpace (pqCursor q0), pqSnapshotType := TrimSpace (pqSnapshotType q0)\<rparr>
      in case normalizeQueryDates (pqTradeDate q) (pqDateFrom q) (pqDateTo q) of
           Inl e \<Rightarrow> Inl e
         | Inr (d, from, to) \<Rightarrow>
             let q1 = q\<lparr>pqTradeDate := d, pqDateFrom := from, pqDateTo := to\<rparr>
             in if pqAccountID q1 = [] then Inl (ErrInvalidLedgerInput ''account_id is required'')
                else if pqExchange q1 \<noteq> [] \<and> \<not> Exchange_Valid (pqExchange q1)
                then Inl (ErrInvalidLedgerInput ''exchange must be SH, SZ, or BJ'')
                else
                  let q2 = (if (pqHistory q1 \<or> d \<noteq> [] \<or> from \<noteq> [] \<or> to \<noteq> []) \<and> pqSnapshotType q1 = []
                            then q1\<lparr>pqSnapshotType := ''close''\<rparr> else q1)
                  in if pqSnapshotType q2 \<notin> {[], ''intraday'', ''open'', ''broker_close'', ''close'', ''reconcile''}
                     then Inl (ErrInvalidLedgerInput ''snapshot_type must be intraday, open, broker_close, close, or reconcile'')
                     else case queryCursorOffset (pqCursor q2) of
                            Inl e \<Rightarrow> Inl e
                          | Inr _ \<Rightarrow>
                              let n = (if pqLimit q2 \<le> 0 then 500 else pqLimit q2)
                              in Inr (q2\<lparr>pqLimit := min n 2000\<rparr>))"

text \<open>\<^verbatim>\<open>ORDER BY market_value DESC, symbol ASC, exchange ASC\<close> on NUMERIC values.\<close>

definition num_greater :: "float64 \<Rightarrow> float64 \<Rightarrow> bool" where
  "num_greater a b \<longleftrightarrow> a = NaN \<and> b \<noteq> NaN \<or> a \<noteq> NaN \<and> flt b a"

definition position_first :: "position_row \<Rightarrow> position_row \<Rightarrow> bool" where
  "position_first a b \<longleftrightarrow>
     (let p = pwPosition a; q = pwPosition b
      in num_greater (pMarketValue p) (pMarketValue q)
         \<or> pMarketValue p = pMarketValue q
           \<and> (string_less (pSymbol p) (pSymbol q) \<or> pSymbol p = pSymbol q \<and> string_less (pExchange p) (pExchange q)))"

definition listPositionsSQL :: "PositionQuery \<Rightarrow> position_row list \<Rightarrow> position_row list" where
  "listPositionsSQL q rows =
     take (nat (pqLimit q)) (drop (nat (cursor_value (pqCursor q)))
       (order_by position_first (filter (\<lambda>r. pAccountID (pwPosition r) = pqAccountID q
          \<and> filter_text (pqSymbol q) (pSymbol (pwPosition r)) \<and> filter_text (pqExchange q) (pExchange (pwPosition r))
          \<and> pQuantity (pwPosition r) > 0) rows)))"

definition ListPositions :: "PositionQuery \<Rightarrow> ('b, 'z, Position list) table_act" where
  "ListPositions query =
     (case normalizePositionQuery query of
        Inl e \<Rightarrow> raise e
      | Inr q \<Rightarrow> run_stmt (\<lambda>s. (Inr (map pwPosition (listPositionsSQL q (tbPositions s))), s)))"

section \<open>Assets\<close>

definition normalizeAsset :: "Asset \<Rightarrow> error + Asset" where
  "normalizeAsset asset =
     (let a = asset\<lparr>asAccountID := TrimSpace (asAccountID asset)\<rparr>
      in if asAccountID a = [] then Inl (ErrInvalidLedgerInput ''account_id is required'') else Inr a)"

definition asset_values ::
    "pg \<Rightarrow> string \<Rightarrow> Asset \<Rightarrow> string \<Rightarrow> string \<Rightarrow> assetPayload \<times> string \<Rightarrow> gotime \<Rightarrow> asset_row" where
  "asset_values P tradeDate a snapshotType source raw capturedAt =
     \<lparr>awTradeDate = tradeDate, awSnapshotType = snapshotType,
      awAsset = a\<lparr>asCashAvailable := pg_money P (asCashAvailable a), asCashTotal := pg_money P (asCashTotal a),
         asNetAsset := pg_money P (asNetAsset a), asMarketValue := pg_money P (asMarketValue a),
         asStockValue := pg_money P (asStockValue a), asFundValue := pg_money P (asFundValue a),
         asReverseRepoReceivable := pg_money P (asReverseRepoReceivable a),
         asCommission := pg_money P (asCommission a), asDayProfit := pg_money P (asDayProfit a),
         asPositionProfit := pg_money P (asPositionProfit a), asCloseProfit := pg_money P (asCloseProfit a),
         asCredit := pg_money P (asCredit a), asUpdatedAt := pg_time P capturedAt\<rparr>,
      awSource = source, awRawPayload = raw\<rparr>"

definition asset_fits :: "Asset \<Rightarrow> bool" where
  "asset_fits a \<longleftrightarrow> list_all money_fits [asCashAvailable a, asCashTotal a, asNetAsset a, asMarketValue a,
     asStockValue a, asFundValue a, asReverseRepoReceivable a, asCommission a, asDayProfit a,
     asPositionProfit a, asCloseProfit a, asCredit a]"

definition asset_key :: "asset_row \<Rightarrow> string \<times> string \<times> string" where
  "asset_key r = (awTradeDate r, asAccountID (awAsset r), awSnapshotType r)"

definition upsertAssetSnapshotSQL :: "asset_row \<Rightarrow> ('b, 'z, unit) table_act" where
  "upsertAssetSnapshotSQL new s =
     (if \<not> asset_fits (awAsset new) then (Inl (ErrDatabase ''22003''), s)
      else if awSnapshotType new \<notin> {''intraday'', ''open'', ''broker_close'', ''close'', ''reconcile''}
      then (Inl (ErrDatabase ''23514''), s)
      else if list_ex (\<lambda>r. asset_key r = asset_key new) (tbAssets s)
      then (Inr (), s\<lparr>tbAssets := map (\<lambda>r. if asset_key r = asset_key new then new else r) (tbAssets s)\<rparr>)
      else if dbAccounts s (asAccountID (awAsset new)) = None then (Inl (ErrDatabase ''23503''), s)
      else (Inr (), s\<lparr>tbAssets := tbAssets s @ [new]\<rparr>))"

definition UpsertAssetSnapshotForDate ::
    "zone \<Rightarrow> pg \<Rightarrow> Asset \<Rightarrow> string \<Rightarrow> string \<Rightarrow> string \<Rightarrow> assetPayload \<times> string \<Rightarrow> gotime \<Rightarrow> ('b, 'z, unit) table_act" where
  "UpsertAssetSnapshotForDate Z P asset tradeDate snapshotType source raw capturedAt s =
     (case normalizeAsset asset of
        Inl e \<Rightarrow> (Inl e, s)
      | Inr normalized \<Rightarrow>
          let snapshotType1 = (let t = TrimSpace snapshotType in if t = [] then ''intraday'' else t);
              source1 = (let t = TrimSpace source in if t = [] then ''query'' else t);
              capturedAt1 = (if IsZero capturedAt then dbClientNow s else capturedAt)
          in case normalizeTradeDate (firstNonEmptyRaw [tradeDate, zoneDate Z capturedAt1]) of
               Inl e \<Rightarrow> (Inl e, s)
             | Inr tradeDate1 \<Rightarrow>
                 run_stmt (upsertAssetSnapshotSQL
                   (asset_values P tradeDate1 normalized snapshotType1 source1 raw capturedAt1)) s)"

definition UpsertAssetSnapshot ::
    "zone \<Rightarrow> pg \<Rightarrow> Asset \<Rightarrow> string \<Rightarrow> string \<Rightarrow> assetPayload \<times> string \<Rightarrow> gotime \<Rightarrow> ('b, 'z, unit) table_act" where
  "UpsertAssetSnapshot Z P asset snapshotType source raw capturedAt =
     UpsertAssetSnapshotForDate Z P asset (if IsZero capturedAt then [] else zoneDate Z capturedAt)
       snapshotType source raw capturedAt"

text \<open>\<^verbatim>\<open>latestAssetSQL\<close>; a later row has the larger primary key.\<close>

definition asset_first :: "asset_row \<Rightarrow> asset_row \<Rightarrow> bool" where
  "asset_first a b \<longleftrightarrow> dateNum (awTradeDate b) < dateNum (awTradeDate a)
     \<or> dateNum (awTradeDate a) = dateNum (awTradeDate b) \<and> asUpdatedAt (awAsset b) < asUpdatedAt (awAsset a)"

definition GetLatestAsset :: "string \<Rightarrow> ('b, 'z, Asset) table_act" where
  "GetLatestAsset accountID =
     (let a = TrimSpace accountID
      in if a = [] then raise (ErrInvalidLedgerInput ''account_id is required'')
         else seq (run_stmt (\<lambda>s. (Inr (order_by asset_first
                (rev (filter (\<lambda>r. asAccountID (awAsset r) = a) (tbAssets s)))), s)))
              (\<lambda>rows. case rows of [] \<Rightarrow> raise (ErrAssetNotFound a) | r # _ \<Rightarrow> ret (awAsset r)))"

end
