(* ===== verification/Ledger_Fills.thy ===== *)
theory Ledger_Fills
  imports Ledger_Tables
begin

text \<open>
  Fills, component transfers, cancel attempts, fee records and stream checkpoints of the ledger
  (\<^verbatim>\<open>internal/ledger/repository.go\<close>, \<^verbatim>\<open>sql.go\<close>, \<^verbatim>\<open>fees.go\<close>): normalisation, the statements with the unique
  indexes and constraints of the migrations, and the operations.
\<close>

section \<open>Fills\<close>

text \<open>The trade date a fill or a transfer has when it carries none.\<close>

definition matchDate :: "string \<Rightarrow> gotime \<Rightarrow> int \<Rightarrow> error + string" where
  "matchDate tradeDate matchedAt matchTimestamp =
     (case (if tradeDate \<noteq> [] then Inr tradeDate
            else if \<not> IsZero matchedAt then Inr (formatBusinessDate matchedAt)
            else if matchTimestamp > 0 then Inr (formatBusinessDate (matchTimestamp * 1000000))
            else Inl (ErrInvalidLedgerInput ''trade_date or matched_at is required'')) of
        Inl e \<Rightarrow> Inl e
      | Inr d \<Rightarrow> normalizeTradeDate d)"

definition trimFill :: "Fill \<Rightarrow> Fill" where
  "trimFill f = f\<lparr>fAccountID := TrimSpace (fAccountID f), fFillID := TrimSpace (fFillID f),
     fGatewayOrderID := TrimSpace (fGatewayOrderID f), fOrderStreamID := TrimSpace (fOrderStreamID f),
     fTradeDate := TrimSpace (fTradeDate f), fSymbol := TrimSpace (fSymbol f), fName := TrimSpace (fName f),
     fShareholderID := TrimSpace (fShareholderID f), fStrategyType := TrimSpace (fStrategyType f),
     fStrategyID := TrimSpace (fStrategyID f), fBasketID := TrimSpace (fBasketID f),
     fParentOrderID := TrimSpace (fParentOrderID f), fT0OrderGroupID := TrimSpace (fT0OrderGroupID f)\<rparr>"

definition fillInputError :: "Fill \<Rightarrow> error option" where
  "fillInputError f =
     (if fAccountID f = [] then Some (ErrInvalidLedgerInput ''account_id is required'')
      else if fGatewayOrderID f = [] then Some (ErrInvalidLedgerInput ''gateway_order_id is required'')
      else if fSymbol f = [] then Some (ErrInvalidLedgerInput ''symbol is required'')
      else if \<not> Exchange_Valid (fExchange f) then Some (ErrInvalidLedgerInput ''exchange must be SH, SZ, or BJ'')
      else if \<not> TradeSide_Valid (fTradeSide f) then Some (ErrInvalidLedgerInput ''trade_side must be B, S, P, or R'')
      else if fle (fPrice f) fzero then Some (ErrInvalidLedgerInput ''price must be positive'')
      else if fQty f \<le> 0 then Some (ErrInvalidLedgerInput ''qty must be positive'')
      else None)"

definition normalizeFill :: "Fill \<Rightarrow> error + Fill" where
  "normalizeFill fill =
     (let f = trimFill fill
      in case fillInputError f of
           Some e \<Rightarrow> Inl e
         | None \<Rightarrow>
             (case matchDate (fTradeDate f) (fMatchedAt f) (fMatchTimestamp f) of
                Inl e \<Rightarrow> Inl e
              | Inr d \<Rightarrow> Inr (f\<lparr>fTradeDate := d\<rparr>)))"

text \<open>The parameters and the VALUES of \<^verbatim>\<open>insertFillSQL\<close>; a fill takes from its order what it does not say.\<close>

definition fill_order :: "Fill \<Rightarrow> order_row list \<Rightarrow> order_row option" where
  "fill_order f = find (\<lambda>r. wAccountID r = fAccountID f \<and> wTradeDate r = fTradeDate f
     \<and> wGatewayOrderID r = fGatewayOrderID f)"

definition inherit :: "string \<Rightarrow> (order_row \<Rightarrow> string option) \<Rightarrow> order_row option \<Rightarrow> string" where
  "inherit v column ord = (if TrimSpace v \<noteq> [] then TrimSpace v
     else of_null [] (case ord of None \<Rightarrow> None | Some r \<Rightarrow> column r))"

definition fill_values :: "pg \<Rightarrow> gotime \<Rightarrow> order_row option \<Rightarrow> Fill \<Rightarrow> StreamRef \<Rightarrow> SourceRef \<Rightarrow> fill_row" where
  "fill_values P now ord f stream source =
     \<lparr>fwFill = f\<lparr>fBusinessType := inherit (fBusinessType f) (Some \<circ> wBusinessType) ord,
         fPrice := pg_money P (fPrice f), fFee := pg_money P (fFee f),
         fMatchedAt := of_null zeroTime (map_option (pg_time P) (nullTime (fMatchedAt f))),
         fStrategyType := inherit (fStrategyType f) wStrategyType ord,
         fStrategyID := inherit (fStrategyID f) wStrategyID ord,
         fBasketID := inherit (fBasketID f) wBasketID ord,
         fParentOrderID := inherit (fParentOrderID f) wParentOrderID ord,
         fT0OrderGroupID := inherit (fT0OrderGroupID f) wT0OrderGroupID ord\<rparr>,
      fwStream = \<lparr>srKey = TrimSpace (srKey stream), srID = TrimSpace (srID stream)\<rparr>,
      fwOriginMessageID = TrimSpace (soOriginMessageID source), fwRequestID = TrimSpace (soRequestID source),
      fwRawPayload = f, fwCreatedAt = pg_time P now\<rparr>"

definition same_stream :: "StreamRef \<Rightarrow> StreamRef \<Rightarrow> bool" where
  "same_stream a b \<longleftrightarrow> srKey a \<noteq> [] \<and> srID a \<noteq> [] \<and> srKey a = srKey b \<and> srID a = srID b"

text \<open>The unique indexes of \<^verbatim>\<open>fills\<close>; NULL is never equal to NULL.\<close>

definition fill_conflict :: "fill_row \<Rightarrow> fill_row \<Rightarrow> bool" where
  "fill_conflict a b \<longleftrightarrow>
     (let f = fwFill a; g = fwFill b
      in fAccountID f = fAccountID g \<and> fTradeDate f = fTradeDate g
           \<and> (fFillID f \<noteq> [] \<and> fGatewayOrderID f = fGatewayOrderID g \<and> fFillID f = fFillID g
              \<or> fFillID f = [] \<and> fFillID g = [] \<and> fOrderStreamID f \<noteq> [] \<and> fMatchTimestamp f \<noteq> 0
                \<and> fOrderStreamID f = fOrderStreamID g \<and> fOrderID f = fOrderID g \<and> fSymbol f = fSymbol g
                \<and> fExchange f = fExchange g \<and> fMatchTimestamp f = fMatchTimestamp g \<and> fQty f = fQty g
                \<and> fPrice f = fPrice g)
         \<or> same_stream (fwStream a) (fwStream b))"

definition insertFillSQL :: "pg \<Rightarrow> Fill \<Rightarrow> StreamRef \<Rightarrow> SourceRef \<Rightarrow> ('b, 'z, unit) table_act" where
  "insertFillSQL P f stream source s =
     (let ord = fill_order f (dbOrders s);
          new = fill_values P (dbServerNow s) ord f stream source
      in if \<not> money_fits (fPrice (fwFill new)) \<or> \<not> money_fits (fFee (fwFill new)) then (Inl (ErrDatabase ''22003''), s)
         else if \<not> num_positive (fPrice (fwFill new)) then (Inl (ErrDatabase ''23514''), s)
         else if list_ex (fill_conflict new) (tbFills s) then (Inr (), s)
         else if ord = None then (Inl (ErrDatabase ''23503''), s)
         else (Inr (), s\<lparr>tbFills := tbFills s @ [new]\<rparr>))"

definition summaryPrefix :: string where "summaryPrefix = ''relay-summary:''"

definition isSummary :: "Fill \<Rightarrow> bool" where
  "isSummary f \<longleftrightarrow> take (length summaryPrefix) (fFillID f) = summaryPrefix"

definition summary_of_order :: "Fill \<Rightarrow> fill_row \<Rightarrow> bool" where
  "summary_of_order f r \<longleftrightarrow>
     (let g = fwFill r
      in fAccountID g = fAccountID f \<and> fTradeDate g = fTradeDate f \<and> isSummary g
         \<and> (fGatewayOrderID g = fGatewayOrderID f
            \<or> TrimSpace (fOrderStreamID f) \<noteq> [] \<and> fOrderStreamID g = TrimSpace (fOrderStreamID f)))"

definition deleteSummaryFillsForOrderSQL :: "Fill \<Rightarrow> ('b, 'z, unit) table_act" where
  "deleteSummaryFillsForOrderSQL f s =
     (Inr (), s\<lparr>tbFills := filter (\<lambda>r. \<not> summary_of_order f r) (tbFills s)\<rparr>)"

definition InsertFill :: "pg \<Rightarrow> Fill \<Rightarrow> StreamRef \<Rightarrow> SourceRef \<Rightarrow> ('b, 'z, unit) table_act" where
  "InsertFill P fill stream source =
     (case normalizeFill fill of
        Inl e \<Rightarrow> raise e
      | Inr f \<Rightarrow>
          if \<not> finite_float (fPrice f) \<or> \<not> finite_float (fFee f)
          then raise (ErrInvalidLedgerInput ''marshal json'')
          else seq (run_stmt (insertFillSQL P f stream source)) (\<lambda>_.
                 if isSummary f then ret () else run_stmt (deleteSummaryFillsForOrderSQL f)))"

definition normalizeFillQuery :: "FillQuery \<Rightarrow> error + FillQuery" where
  "normalizeFillQuery q0 =
     (let q = q0\<lparr>fqAccountID := TrimSpace (fqAccountID q0), fqGatewayOrderID := TrimSpace (fqGatewayOrderID q0),
            fqSymbol := TrimSpace (fqSymbol q0), fqCursor := TrimSpace (fqCursor q0),
            fqStrategyType := TrimSpace (fqStrategyType q0), fqStrategyID := TrimSpace (fqStrategyID q0),
            fqBasketID := TrimSpace (fqBasketID q0), fqParentOrderID := TrimSpace (fqParentOrderID q0),
            fqT0OrderGroupID := TrimSpace (fqT0OrderGroupID q0)\<rparr>
      in case normalizeQueryDates (fqTradeDate q) (fqDateFrom q) (fqDateTo q) of
           Inl e \<Rightarrow> Inl e
         | Inr (d, from, to) \<Rightarrow>
             if fqExchange q \<noteq> [] \<and> \<not> Exchange_Valid (fqExchange q)
             then Inl (ErrInvalidLedgerInput ''exchange must be SH, SZ, or BJ'')
             else case queryCursorOffset (fqCursor q) of
                    Inl e \<Rightarrow> Inl e
                  | Inr _ \<Rightarrow>
                      let n = (if fqLimit q \<le> 0 then 100 else fqLimit q)
                      in Inr (q\<lparr>fqTradeDate := d, fqDateFrom := from, fqDateTo := to, fqLimit := min n 500\<rparr>))"

text \<open>\<^verbatim>\<open>COALESCE(matched_at, created_at)\<close> and the date range of fills and transfers.\<close>

definition happenedAt :: "gotime \<Rightarrow> gotime \<Rightarrow> gotime" where
  "happenedAt matchedAt createdAt = (if IsZero matchedAt then createdAt else matchedAt)"

definition bound :: "error + gotime \<Rightarrow> gotime" where
  "bound r = (case r of Inr t \<Rightarrow> t | Inl _ \<Rightarrow> zeroTime)"

definition appendFillDateRange :: "string \<Rightarrow> string \<Rightarrow> string \<Rightarrow> gotime \<Rightarrow> bool" where
  "appendFillDateRange from to tradeDate happened \<longleftrightarrow>
     (from = [] \<or> (if tradeDate \<noteq> [] then dateNum from \<le> dateNum tradeDate else bound (dateStart from) \<le> happened))
     \<and> (to = [] \<or> (if tradeDate \<noteq> [] then dateNum tradeDate < dateNum to + 1 else happened < bound (dateEndExclusive to)))"

definition fillAt :: "fill_row \<Rightarrow> gotime" where
  "fillAt r = happenedAt (fMatchedAt (fwFill r)) (fwCreatedAt r)"

definition fill_matches :: "FillQuery \<Rightarrow> fill_row \<Rightarrow> bool" where
  "fill_matches q r \<longleftrightarrow>
     (let f = fwFill r
      in filter_text (fqAccountID q) (fAccountID f) \<and> filter_text (fqGatewayOrderID q) (fGatewayOrderID f)
         \<and> filter_text (fqSymbol q) (fSymbol f) \<and> filter_text (fqExchange q) (fExchange f)
         \<and> filter_text (fqStrategyType q) (fStrategyType f) \<and> filter_text (fqStrategyID q) (fStrategyID f)
         \<and> filter_text (fqBasketID q) (fBasketID f) \<and> filter_text (fqParentOrderID q) (fParentOrderID f)
         \<and> filter_text (fqT0OrderGroupID q) (fT0OrderGroupID f)
         \<and> appendFillDateRange (fqDateFrom q) (fqDateTo q) (fTradeDate f) (fillAt r))"

text \<open>\<^verbatim>\<open>ORDER BY COALESCE(matched_at, created_at) DESC, fill_pk DESC\<close>: a later row has the larger key.\<close>

definition listFillsSQL :: "FillQuery \<Rightarrow> fill_row list \<Rightarrow> fill_row list" where
  "listFillsSQL q rows =
     take (nat (fqLimit q)) (drop (nat (cursor_value (fqCursor q)))
       (order_by (\<lambda>a b. fillAt b < fillAt a) (rev (filter (fill_matches q) rows))))"

definition reload_ctx :: "ctxmap \<Rightarrow> ctxmap" where
  "reload_ctx c = map_option (\<lambda>m k. map_option any_reload (m k)) c"

definition scanFill :: "fill_row \<Rightarrow> Fill" where
  "scanFill r = (fwFill r)\<lparr>fAdapterContext := reload_ctx (fAdapterContext (fwFill r))\<rparr>"

definition ListFills :: "FillQuery \<Rightarrow> ('b, 'z, Fill list) table_act" where
  "ListFills query =
     (case normalizeFillQuery query of
        Inl e \<Rightarrow> raise e
      | Inr q \<Rightarrow> run_stmt (\<lambda>s. (Inr (map scanFill (listFillsSQL q (tbFills s))), s)))"

section \<open>Component transfers\<close>

definition trimTransfer :: "ComponentTransfer \<Rightarrow> ComponentTransfer" where
  "trimTransfer t = t\<lparr>tAccountID := TrimSpace (tAccountID t), tFillID := TrimSpace (tFillID t),
     tGatewayOrderID := TrimSpace (tGatewayOrderID t), tOrderStreamID := TrimSpace (tOrderStreamID t),
     tSymbol := TrimSpace (tSymbol t), tName := TrimSpace (tName t), tRecordType := TrimSpace (tRecordType t),
     tTransferType := TrimSpace (tTransferType t), tComponentSymbol := TrimSpace (tComponentSymbol t),
     tComponentName := TrimSpace (tComponentName t), tBrokerTradeSide := TrimSpace (tBrokerTradeSide t),
     tBrokerBusinessType := TrimSpace (tBrokerBusinessType t), tTradeDate := TrimSpace (tTradeDate t),
     tShareholderID := TrimSpace (tShareholderID t), tStrategyType := TrimSpace (tStrategyType t),
     tStrategyID := TrimSpace (tStrategyID t), tBasketID := TrimSpace (tBasketID t),
     tParentOrderID := TrimSpace (tParentOrderID t), tT0OrderGroupID := TrimSpace (tT0OrderGroupID t)\<rparr>"

definition transferInputError :: "ComponentTransfer \<Rightarrow> error option" where
  "transferInputError t =
     (if tAccountID t = [] then Some (ErrInvalidLedgerInput ''account_id is required'')
      else if tGatewayOrderID t = [] then Some (ErrInvalidLedgerInput ''gateway_order_id is required'')
      else if tSymbol t = [] then Some (ErrInvalidLedgerInput ''symbol is required'')
      else if \<not> Exchange_Valid (tExchange t) then Some (ErrInvalidLedgerInput ''exchange must be SH, SZ, or BJ'')
      else if \<not> TradeSide_Valid (tTradeSide t) then Some (ErrInvalidLedgerInput ''trade_side must be B, S, P, or R'')
      else if tBusinessType t \<noteq> BusinessTypeETF
      then Some (ErrInvalidLedgerInput ''component transfer business_type must be E'')
      else if tQty t \<le> 0 then Some (ErrInvalidLedgerInput ''qty must be positive'')
      else if tRecordType t \<notin> {[], ''etf_component_transfer''}
      then Some (ErrInvalidLedgerInput ''record_type must be etf_component_transfer'')
      else None)"

definition normalizeComponentTransfer :: "ComponentTransfer \<Rightarrow> error + ComponentTransfer" where
  "normalizeComponentTransfer transfer =
     (let t0 = trimTransfer transfer
      in case transferInputError t0 of
           Some e \<Rightarrow> Inl e
         | None \<Rightarrow>
             let t = t0\<lparr>tRecordType := ''etf_component_transfer'', tIsTransfer := True,
                    tComponentSymbol := orElse (tComponentSymbol t0) (tSymbol t0),
                    tComponentExchange := orElse (tComponentExchange t0) (tExchange t0)\<rparr>
             in if \<not> Exchange_Valid (tComponentExchange t)
                then Inl (ErrInvalidLedgerInput ''component_exchange must be SH, SZ, or BJ'')
                else case matchDate (tTradeDate t) (tMatchedAt t) (tMatchTimestamp t) of
                       Inl e \<Rightarrow> Inl e
                     | Inr d \<Rightarrow> Inr (t\<lparr>tTradeDate := d,
                          tComponentQty := (if tComponentQty t \<le> 0 then tQty t else tComponentQty t)\<rparr>))"

definition transfer_values :: "pg \<Rightarrow> gotime \<Rightarrow> ComponentTransfer \<Rightarrow> StreamRef \<Rightarrow> SourceRef \<Rightarrow> transfer_row" where
  "transfer_values P now t stream source =
     \<lparr>twTransfer = t\<lparr>tPrice := pg_money P (tPrice t), tComponentValue := map_option (pg_money P) (tComponentValue t),
         tMatchedAt := of_null zeroTime (map_option (pg_time P) (nullTime (tMatchedAt t)))\<rparr>,
      twStream = \<lparr>srKey = TrimSpace (srKey stream), srID = TrimSpace (srID stream)\<rparr>,
      twOriginMessageID = TrimSpace (soOriginMessageID source), twRequestID = TrimSpace (soRequestID source),
      twRawPayload = t, twCreatedAt = pg_time P now\<rparr>"

definition transfer_conflict :: "transfer_row \<Rightarrow> transfer_row \<Rightarrow> bool" where
  "transfer_conflict a b \<longleftrightarrow>
     (let t = twTransfer a; u = twTransfer b
      in tAccountID t = tAccountID u \<and> tTradeDate t = tTradeDate u \<and> tGatewayOrderID t = tGatewayOrderID u
           \<and> (tFillID t \<noteq> [] \<and> tFillID t = tFillID u
              \<or> tFillID t = [] \<and> tFillID u = [] \<and> tOrderStreamID t \<noteq> [] \<and> tOrderID t \<noteq> 0
                \<and> tOrderStreamID t = tOrderStreamID u \<and> tOrderID t = tOrderID u
                \<and> tComponentSymbol t = tComponentSymbol u \<and> tComponentExchange t = tComponentExchange u
                \<and> tComponentQty t = tComponentQty u \<and> tMatchTimestamp t = tMatchTimestamp u)
         \<or> same_stream (twStream a) (twStream b))"

text \<open>The CHECK constraints hold of a normalised transfer; what is left are the ranges of NUMERIC, the
  unique indexes and the account.\<close>

definition insertComponentTransferSQL :: "transfer_row \<Rightarrow> ('b, 'z, unit) table_act" where
  "insertComponentTransferSQL new s =
     (let t = twTransfer new
      in if \<not> money_fits (tPrice t) \<or> (case tComponentValue t of None \<Rightarrow> False | Some v \<Rightarrow> \<not> money_fits v)
         then (Inl (ErrDatabase ''22003''), s)
         else if list_ex (transfer_conflict new) (tbTransfers s) then (Inr (), s)
         else if dbAccounts s (tAccountID t) = None then (Inl (ErrDatabase ''23503''), s)
         else (Inr (), s\<lparr>tbTransfers := tbTransfers s @ [new]\<rparr>))"

definition InsertComponentTransfer ::
    "pg \<Rightarrow> ComponentTransfer \<Rightarrow> StreamRef \<Rightarrow> SourceRef \<Rightarrow> ('b, 'z, unit) table_act" where
  "InsertComponentTransfer P transfer stream source =
     (case normalizeComponentTransfer transfer of
        Inl e \<Rightarrow> raise e
      | Inr t \<Rightarrow>
          if \<not> finite_float (tPrice t) \<or> (case tComponentValue t of None \<Rightarrow> False | Some v \<Rightarrow> \<not> finite_float v)
          then raise (ErrInvalidLedgerInput ''marshal json'')
          else run_stmt (\<lambda>s. insertComponentTransferSQL (transfer_values P (dbServerNow s) t stream source) s))"

section \<open>Cancel attempts\<close>

definition cancelAttemptStatuses :: "string set" where
  "cancelAttemptStatuses = {''accepted'', ''rejected'', ''timeout'', ''outcome_unknown'', ''not_ready'', ''failed''}"

definition trimAttempt :: "OrderCancelAttempt \<Rightarrow> OrderCancelAttempt" where
  "trimAttempt a = a\<lparr>atAttemptID := TrimSpace (atAttemptID a), atAccountID := TrimSpace (atAccountID a),
     atTradeDate := TrimSpace (atTradeDate a), atGatewayOrderID := TrimSpace (atGatewayOrderID a),
     atStatus := ToLower (TrimSpace (atStatus a))\<rparr>"

definition attempt_values :: "pg \<Rightarrow> gotime \<Rightarrow> OrderCancelAttempt \<Rightarrow> attempt_row" where
  "attempt_values P now a =
     \<lparr>cwAttempt = a\<lparr>atOrderStreamID := TrimSpace (atOrderStreamID a), atCounterSessionID := [],
         atOriginMessageID := TrimSpace (atOriginMessageID a), atRequestID := TrimSpace (atRequestID a),
         atCorrelationID := TrimSpace (atCorrelationID a), atCode := TrimSpace (atCode a),
         atMessage := TrimSpace (atMessage a), atOccurredAt := pg_time P (atOccurredAt a),
         atStreamKey := TrimSpace (atStreamKey a), atStreamID := TrimSpace (atStreamID a)\<rparr>,
      cwAdapterContext = jsonb_of_ctx (atAdapterContext a), cwUpdatedAt = pg_time P now\<rparr>"

definition attempt_key :: "attempt_row \<Rightarrow> string \<times> string" where
  "attempt_key r = (atAccountID (cwAttempt r), atAttemptID (cwAttempt r))"

text \<open>\<^verbatim>\<open>DO UPDATE SET\<close> of \<^verbatim>\<open>upsertOrderCancelAttemptSQL\<close>.\<close>

definition attempt_merge :: "attempt_row \<Rightarrow> attempt_row \<Rightarrow> attempt_row" where
  "attempt_merge old new =
     (let o1 = cwAttempt old; n = cwAttempt new
      in new\<lparr>cwAttempt := n\<lparr>
             atOrderID := (if atOrderID n \<noteq> 0 then atOrderID n else atOrderID o1),
             atOrderStreamID := orElse (atOrderStreamID n) (atOrderStreamID o1),
             atOriginMessageID := orElse (atOriginMessageID n) (atOriginMessageID o1),
             atRequestID := orElse (atRequestID n) (atRequestID o1),
             atCorrelationID := orElse (atCorrelationID n) (atCorrelationID o1),
             atCode := orElse (atCode n) (atCode o1), atMessage := orElse (atMessage n) (atMessage o1),
             atRetrySafe := coalesce (atRetrySafe n) (atRetrySafe o1),
             atOrderStateChanged := coalesce (atOrderStateChanged n) (atOrderStateChanged o1),
             atStreamKey := orElse (atStreamKey n) (atStreamKey o1),
             atStreamID := orElse (atStreamID n) (atStreamID o1)\<rparr>,
           cwAdapterContext := jb_concat (cwAdapterContext old) (cwAdapterContext new)\<rparr>)"

definition upsertOrderCancelAttemptSQL :: "attempt_row \<Rightarrow> ('b, 'z, unit) table_act" where
  "upsertOrderCancelAttemptSQL new s =
     (if atStatus (cwAttempt new) \<notin> cancelAttemptStatuses then (Inl (ErrDatabase ''23514''), s)
      else if list_ex (\<lambda>r. attempt_key r = attempt_key new) (tbAttempts s)
      then (Inr (), s\<lparr>tbAttempts :=
              map (\<lambda>r. if attempt_key r = attempt_key new then attempt_merge r new else r) (tbAttempts s)\<rparr>)
      else if dbAccounts s (atAccountID (cwAttempt new)) = None then (Inl (ErrDatabase ''23503''), s)
      else (Inr (), s\<lparr>tbAttempts := tbAttempts s @ [new]\<rparr>))"

definition UpsertOrderCancelAttempt :: "pg \<Rightarrow> OrderCancelAttempt \<Rightarrow> ('b, 'z, unit) table_act" where
  "UpsertOrderCancelAttempt P attempt0 s =
     (let a = trimAttempt attempt0
      in if atAttemptID a = [] \<or> atAccountID a = [] \<or> atTradeDate a = [] \<or> atGatewayOrderID a = [] \<or> atStatus a = []
         then (Inl (ErrInvalidLedgerInput
                ''cancel attempt identity, trade_date, gateway_order_id and status are required''), s)
         else if parseDate10 (atTradeDate a) = None
         then (Inl (ErrInvalidLedgerInput ''cancel attempt trade_date must be YYYY-MM-DD''), s)
         else
           let a1 = (if IsZero (atOccurredAt a) then a\<lparr>atOccurredAt := dbClientNow s\<rparr> else a)
           in run_stmt (\<lambda>s. upsertOrderCancelAttemptSQL (attempt_values P (dbServerNow s) a1) s) s)"

section \<open>Fee records\<close>

text \<open>\<^verbatim>\<open>strings.ToUpper\<close>: the ASCII letters and the two runes whose upper case is one; the codes it is
  applied to are ASCII, and other runes are left as they are.\<close>

definition upper_byte :: "char \<Rightarrow> char" where
  "upper_byte c = (let n = (of_char c :: nat) in if 97 \<le> n \<and> n \<le> 122 then char_of (n - 32) else c)"

fun ToUpper :: "string \<Rightarrow> string" where
  "ToUpper [] = []"
| "ToUpper (a # s) =
     (if take 2 (a # s) = map char_of [0xC4 :: nat, 0xB1] then CHR ''I'' # ToUpper (drop 1 s)
      else if take 2 (a # s) = map char_of [0xC5 :: nat, 0xBF] then CHR ''S'' # ToUpper (drop 1 s)
      else upper_byte a # ToUpper s)"

definition firstLedgerValue :: "string \<Rightarrow> string \<Rightarrow> string" where
  "firstLedgerValue v fallback = (if TrimSpace v \<noteq> [] then TrimSpace v else fallback)"

definition feeAmountOk :: "float64 \<Rightarrow> bool" where
  "feeAmountOk x \<longleftrightarrow> finite_float x \<and> \<not> flt x fzero"

definition feeRound :: "float64 \<Rightarrow> float64" where
  "feeRound x = fdiv (fround (fmul x (Fin 1000000))) (Fin 1000000)"

definition feeAmounts :: "OrderFeeRecord \<Rightarrow> float64 list" where
  "feeAmounts r = [frOrderAmount r, frTurnover r, frCommission r, frStampTax r, frTransferFee r, frHandlingFee r,
     frRegulatoryFee r, frSettlementFee r, frOtherFee r, frTotalFee r]"

definition mapFeeAmounts :: "(float64 \<Rightarrow> float64) \<Rightarrow> OrderFeeRecord \<Rightarrow> OrderFeeRecord" where
  "mapFeeAmounts g r = r\<lparr>frOrderAmount := g (frOrderAmount r), frTurnover := g (frTurnover r),
     frCommission := g (frCommission r), frStampTax := g (frStampTax r), frTransferFee := g (frTransferFee r),
     frHandlingFee := g (frHandlingFee r), frRegulatoryFee := g (frRegulatoryFee r),
     frSettlementFee := g (frSettlementFee r), frOtherFee := g (frOtherFee r), frTotalFee := g (frTotalFee r)\<rparr>"

definition trimFee :: "OrderFeeRecord \<Rightarrow> OrderFeeRecord" where
  "trimFee r = r\<lparr>frAccountID := TrimSpace (frAccountID r), frFeeRecordID := TrimSpace (frFeeRecordID r),
     frRecordScope := firstLedgerValue (frRecordScope r) ''order'',
     frGatewayOrderID := TrimSpace (frGatewayOrderID r), frOrderStreamID := TrimSpace (frOrderStreamID r),
     frFillID := TrimSpace (frFillID r), frSymbol := TrimSpace (frSymbol r),
     frExchange := ToUpper (TrimSpace (frExchange r)), frTradeSide := TrimSpace (frTradeSide r),
     frBusinessType := TrimSpace (frBusinessType r), frCurrency := firstLedgerValue (frCurrency r) ''CNY'',
     frFeeSource := firstLedgerValue (frFeeSource r) ''unavailable''\<rparr>"

definition normalizeOrderFeeRecord :: "OrderFeeRecord \<Rightarrow> error + OrderFeeRecord" where
  "normalizeOrderFeeRecord fee =
     (let r = trimFee fee
      in if frAccountID r = [] \<or> frFeeRecordID r = []
         then Inl (ErrInvalidLedgerInput ''account_id and fee_record_id are required'')
         else case normalizeTradeDate (frTradeDate r) of
                Inl e \<Rightarrow> Inl e
              | Inr d \<Rightarrow>
                  if d = [] then Inl (ErrInvalidLedgerInput ''trade_date is required'')
                  else if frRecordScope r \<noteq> ''order'' then Inl (ErrInvalidLedgerInput ''record_scope must be order'')
                  else if IsZero (frFeeAsOf r) then Inl (ErrInvalidLedgerInput ''fee_as_of is required'')
                  else if frAssociationComplete r \<and> frGatewayOrderID r = []
                  then Inl (ErrInvalidLedgerInput ''gateway_order_id is required for an associated fee'')
                  else if \<not> list_all feeAmountOk (feeAmounts r)
                  then Inl (ErrInvalidLedgerInput ''fee amounts must be finite and non-negative'')
                  else Inr (mapFeeAmounts feeRound (r\<lparr>frTradeDate := d\<rparr>)))"

definition authoritative :: "OrderFeeRecord \<Rightarrow> bool" where
  "authoritative r \<longleftrightarrow> frFeeComplete r \<and> frAssociationComplete r \<and> frFeeSource r \<noteq> ''unavailable''"

text \<open>The WHERE clause of the conflict action: \<open>new\<close> is EXCLUDED.\<close>

definition fee_replaces :: "OrderFeeRecord \<Rightarrow> OrderFeeRecord \<Rightarrow> bool" where
  "fee_replaces new old \<longleftrightarrow>
     frFeeAsOf new > frFeeAsOf old \<and> (\<not> authoritative old \<or> authoritative new)
     \<or> frFeeAsOf new = frFeeAsOf old \<and> authoritative new \<and> \<not> authoritative old"

definition same_fee :: "OrderFeeRecord \<Rightarrow> OrderFeeRecord \<Rightarrow> bool" where
  "same_fee a b \<longleftrightarrow> frAccountID a = frAccountID b \<and> frFeeRecordID a = frFeeRecordID b"

definition fee_values :: "pg \<Rightarrow> gotime \<Rightarrow> OrderFeeRecord \<Rightarrow> OrderFeeRecord" where
  "fee_values P now r =
     (mapFeeAmounts (pg_money P) r)\<lparr>frFeeAsOf := pg_time P (frFeeAsOf r),
        frSettledAt := of_null zeroTime (map_option (pg_time P) (nullTime (frSettledAt r))),
        frCreatedAt := pg_time P now, frUpdatedAt := pg_time P now\<rparr>"

definition jb_money :: "float64 \<Rightarrow> any" where
  "jb_money x = (case x of Fin q \<Rightarrow> AnyFloat q | _ \<Rightarrow> AnyStr ''NaN'')"

definition fee_context :: "zone \<Rightarrow> OrderFeeRecord \<Rightarrow> string \<rightharpoonup> any" where
  "fee_context Z r = [''fee'' \<mapsto> jb_money (frTotalFee r), ''fee_complete'' \<mapsto> AnyBool (frFeeComplete r),
     ''fee_source'' \<mapsto> AnyStr (frFeeSource r), ''fee_as_of'' \<mapsto> AnyStr (zoneJson Z (frFeeAsOf r)),
     ''fee_record_id'' \<mapsto> AnyStr (frFeeRecordID r), ''fee_record_scope'' \<mapsto> AnyStr (frRecordScope r)]"

definition fee_order :: "OrderFeeRecord \<Rightarrow> order_row \<Rightarrow> bool" where
  "fee_order r w \<longleftrightarrow> wAccountID w = frAccountID r \<and> wTradeDate w = frTradeDate r
     \<and> wGatewayOrderID w = frGatewayOrderID r \<and> authoritative r"

definition set_fee :: "zone \<Rightarrow> pg \<Rightarrow> gotime \<Rightarrow> OrderFeeRecord \<Rightarrow> order_row \<Rightarrow> order_row" where
  "set_fee Z P now r w = w\<lparr>wFee := frTotalFee r,
     wAdapterContext := jb_concat (wAdapterContext w) (JbObj (fee_context Z r)), wUpdatedAt := pg_time P now\<rparr>"

text \<open>The stored record after the conflict action: it keeps its key and its creation time.\<close>

definition fee_merge :: "OrderFeeRecord \<Rightarrow> OrderFeeRecord \<Rightarrow> OrderFeeRecord" where
  "fee_merge old new = (if fee_replaces new old then new\<lparr>frCreatedAt := frCreatedAt old\<rparr> else old)"

definition upsertOrderFeeRecordSQL :: "zone \<Rightarrow> pg \<Rightarrow> OrderFeeRecord \<Rightarrow> ('b, 'z, unit) table_act" where
  "upsertOrderFeeRecordSQL Z P new s =
     (if \<not> list_all money_fits (feeAmounts new) then (Inl (ErrDatabase ''22003''), s)
      else
        let old = find (same_fee new) (tbFees s);
            effective = (case old of None \<Rightarrow> new | Some r \<Rightarrow> fee_merge r new);
            fees = (case old of None \<Rightarrow> tbFees s @ [new]
                      | Some _ \<Rightarrow> map (\<lambda>r. if same_fee new r then fee_merge r new else r) (tbFees s))
        in if old = None \<and> dbAccounts s (frAccountID new) = None then (Inl (ErrDatabase ''23503''), s)
           else (Inr (), s\<lparr>tbFees := fees,
                  dbOrders := map (\<lambda>w. if fee_order effective w then set_fee Z P (dbServerNow s) effective w else w)
                                (dbOrders s)\<rparr>))"

definition UpsertOrderFeeRecord :: "zone \<Rightarrow> pg \<Rightarrow> OrderFeeRecord \<Rightarrow> ('b, 'z, unit) table_act" where
  "UpsertOrderFeeRecord Z P fee =
     (case normalizeOrderFeeRecord fee of
        Inl e \<Rightarrow> raise e
      | Inr r \<Rightarrow> run_stmt (\<lambda>s. upsertOrderFeeRecordSQL Z P (fee_values P (dbServerNow s) r) s))"

section \<open>Stream checkpoints\<close>

definition checkpoint_values :: "pg \<Rightarrow> gotime \<Rightarrow> StreamCheckpoint \<Rightarrow> checkpoint_row" where
  "checkpoint_values P now c =
     \<lparr>kwCheckpoint = c\<lparr>
         ckLastSeenAt := of_null zeroTime (map_option (pg_time P) (nullTime (ckLastSeenAt c))),
         ckLastProcessedAt := of_null zeroTime (map_option (pg_time P) (nullTime (ckLastProcessedAt c))),
         ckUpdatedAt := pg_time P now\<rparr>,
      kwMetadata = jsonb_of_ctx (ckMetadata c)\<rparr>"

definition checkpoint_merge :: "checkpoint_row \<Rightarrow> checkpoint_row \<Rightarrow> checkpoint_row" where
  "checkpoint_merge old new =
     (let o1 = kwCheckpoint old; n = kwCheckpoint new
      in new\<lparr>kwCheckpoint := n\<lparr>
             ckLastSeenAt := (if IsZero (ckLastSeenAt n) then ckLastSeenAt o1 else ckLastSeenAt n),
             ckLastProcessedAt := (if IsZero (ckLastProcessedAt n) then ckLastProcessedAt o1 else ckLastProcessedAt n),
             ckProcessedCount := ckProcessedCount o1 + ckProcessedCount n,
             ckErrorCount := ckErrorCount o1 + ckErrorCount n\<rparr>,
           kwMetadata := jb_concat (kwMetadata old) (kwMetadata new)\<rparr>)"

definition same_checkpoint :: "checkpoint_row \<Rightarrow> checkpoint_row \<Rightarrow> bool" where
  "same_checkpoint a b \<longleftrightarrow> ckStreamKey (kwCheckpoint a) = ckStreamKey (kwCheckpoint b)"

definition counts_fit :: "checkpoint_row \<Rightarrow> bool" where
  "counts_fit r \<longleftrightarrow> ckProcessedCount (kwCheckpoint r) < 2 ^ 63 \<and> ckErrorCount (kwCheckpoint r) < 2 ^ 63"

definition upsertStreamCheckpointSQL :: "checkpoint_row \<Rightarrow> ('b, 'z, unit) table_act" where
  "upsertStreamCheckpointSQL new s =
     (if ckRole (kwCheckpoint new) \<notin> {SuffixReply, SuffixEvent, SuffixHB, SuffixDLQ} then (Inl (ErrDatabase ''23514''), s)
      else case find (same_checkpoint new) (tbCheckpoints s) of
             None \<Rightarrow> (Inr (), s\<lparr>tbCheckpoints := tbCheckpoints s @ [new]\<rparr>)
           | Some old \<Rightarrow>
               if \<not> counts_fit (checkpoint_merge old new) then (Inl (ErrDatabase ''22003''), s)
               else (Inr (), s\<lparr>tbCheckpoints :=
                      map (\<lambda>r. if same_checkpoint new r then checkpoint_merge r new else r) (tbCheckpoints s)\<rparr>))"

definition UpsertStreamCheckpoint :: "pg \<Rightarrow> StreamCheckpoint \<Rightarrow> ('b, 'z, unit) table_act" where
  "UpsertStreamCheckpoint P checkpoint =
     (let c = checkpoint\<lparr>ckStreamKey := TrimSpace (ckStreamKey checkpoint), ckRole := TrimSpace (ckRole checkpoint),
            ckLastStreamID := orElse (TrimSpace (ckLastStreamID checkpoint)) ''0''\<rparr>
      in if ckStreamKey c = [] then raise (ErrInvalidLedgerInput ''stream_key is required'')
         else if ckRole c = [] then raise (ErrInvalidLedgerInput ''stream_role is required'')
         else if ckProcessedCount c < 0 then raise (ErrInvalidLedgerInput ''processed_count must be non-negative'')
         else if ckErrorCount c < 0 then raise (ErrInvalidLedgerInput ''error_count must be non-negative'')
         else run_stmt (\<lambda>s. upsertStreamCheckpointSQL (checkpoint_values P (dbServerNow s) c) s))"

definition scanStreamCheckpoint :: "checkpoint_row \<Rightarrow> error + StreamCheckpoint" where
  "scanStreamCheckpoint r =
     (case scan_context (kwMetadata r) of Inl e \<Rightarrow> Inl e | Inr m \<Rightarrow> Inr ((kwCheckpoint r)\<lparr>ckMetadata := m\<rparr>))"

definition GetStreamCheckpoint :: "string \<Rightarrow> ('b, 'z, StreamCheckpoint) table_act" where
  "GetStreamCheckpoint streamKey =
     (let key = TrimSpace streamKey
      in if key = [] then raise (ErrInvalidLedgerInput ''stream_key is required'')
         else seq (run_stmt (\<lambda>s. (Inr (find (\<lambda>r. ckStreamKey (kwCheckpoint r) = key) (tbCheckpoints s)), s)))
              (\<lambda>row. case row of None \<Rightarrow> raise ErrStreamCheckpointNotFound | Some r \<Rightarrow> of_res (scanStreamCheckpoint r)))"

end
