(* ===== verification/Ledger_Books.thy ===== *)
theory Ledger_Books
  imports Ledger_Fills Ledger_Laws "HOL-Library.Multiset" "HOL-Library.Sublist"
begin

text \<open>
  What the tables of positions, fee records and fills guarantee. Positions refine a book that keeps the
  newest report of every key; fee records are never downgraded; a fill is stored once however often
  it is delivered, and replaces the summary fills of its order.
\<close>

section \<open>Books: the newest report of every key\<close>

definition observe :: "('r \<Rightarrow> 'k) \<Rightarrow> ('r \<Rightarrow> 't::linorder) \<Rightarrow> 'r \<Rightarrow> ('k \<rightharpoonup> 'r) \<Rightarrow> ('k \<rightharpoonup> 'r)" where
  "observe key time r m =
     (case m (key r) of Some old \<Rightarrow> if time old \<le> time r then m(key r \<mapsto> r) else m | None \<Rightarrow> m(key r \<mapsto> r))"

definition book :: "('r \<Rightarrow> 'k) \<Rightarrow> 'r list \<Rightarrow> ('k \<rightharpoonup> 'r)" where
  "book key rows = map_of (map (\<lambda>r. (key r, r)) rows)"

lemma book_Some: "book key rows k = Some r \<Longrightarrow> r \<in> set rows \<and> key r = k"
  by (auto simp: book_def dest: map_of_SomeD)

lemma book_None: "book key rows k = None \<longleftrightarrow> (\<forall>r \<in> set rows. key r \<noteq> k)"
  by (auto simp: book_def map_of_eq_None_iff image_image)

lemma book_member:
  assumes "distinct (map key rows)"
  shows "book key rows k = Some r \<longleftrightarrow> r \<in> set rows \<and> key r = k"
proof
  assume r: "r \<in> set rows \<and> key r = k"
  have "distinct (map fst (map (\<lambda>r. (key r, r)) rows))" using assms by (simp add: comp_def)
  with r show "book key rows k = Some r" by (force simp: book_def)
qed (rule book_Some)

lemma book_eqI:
  assumes "distinct (map key rows)" and "\<And>r. r \<in> set rows \<longleftrightarrow> m (key r) = Some r" and "\<And>k r. m k = Some r \<Longrightarrow> key r = k"
  shows "book key rows = m"
proof
  fix k
  show "book key rows k = m k"
  proof (cases "m k")
    case None
    then have "r \<notin> set rows" if "key r = k" for r using assms(2) [of r] that by simp
    then show ?thesis using None by (auto simp: book_None)
  next
    case (Some r)
    with assms(3) have "key r = k" by simp
    with Some assms(2) have "r \<in> set rows" by simp
    with \<open>key r = k\<close> Some show ?thesis by (simp add: book_member [OF assms(1)])
  qed
qed

text \<open>The two branches of an upsert that keeps the newest report, and a conditional delete.\<close>

lemma book_insert:
  assumes "distinct (map key rows)" and "\<forall>r \<in> set rows. key r \<noteq> key new"
  shows "book key (rows @ [new]) = observe key time new (book key rows)"
proof -
  have "book key rows (key new) = None" using assms(2) by (simp add: book_None)
  moreover have "book key (rows @ [new]) k = (case book key rows k of None \<Rightarrow> [key new \<mapsto> new] k | Some r \<Rightarrow> Some r)" for k
    by (simp add: book_def map_of_append map_add_Some_iff map_add_def split: option.splits)
  ultimately show ?thesis by (auto simp: observe_def fun_eq_iff split: option.splits)
qed

lemma keys_update: "(\<And>r. key (f r) = key r) \<Longrightarrow> map key (map f rows) = map key rows"
  by simp

lemma book_update:
  fixes time :: "'r \<Rightarrow> 't::linorder"
  assumes d: "distinct (map key rows)" and old: "old \<in> set rows" "key old = key new"
  defines "f \<equiv> \<lambda>r. if key r = key new \<and> time r \<le> time new then new else r"
  shows "book key (map f rows) = observe key time new (book key rows)"
proof -
  have keys: "map key (map f rows) = map key rows" by (simp add: f_def)
  have old_book: "book key rows (key new) = Some old" using book_member [OF d] old by simp
  have only: "r = old" if "r \<in> set rows" "key r = key new" for r
    using that old_book book_member [OF d, of "key new" r] by simp
  show ?thesis
  proof (rule book_eqI)
    show "distinct (map key (map f rows))" using d keys by metis
    fix r
    have others: "f x = x" if "x \<in> set rows" "key x \<noteq> key new" for x using that by (simp add: f_def)
    have keyf: "key (f x) = key x" for x by (simp add: f_def)
    show "r \<in> set (map f rows) \<longleftrightarrow> observe key time new (book key rows) (key r) = Some r"
    proof (cases "key r = key new")
      case True
      have "r = f old" if "r \<in> set (map f rows)"
      proof -
        from that obtain x where x: "x \<in> set rows" "r = f x" by auto
        then have "key x = key new" using True keyf [of x] by simp
        then show ?thesis using only [OF x(1)] x(2) by simp
      qed
      moreover have "f old \<in> set (map f rows)" using old(1) by simp
      ultimately have "r \<in> set (map f rows) \<longleftrightarrow> r = f old" by metis
      moreover have "observe key time new (book key rows) (key r) = Some (f old)"
        by (simp add: True observe_def old_book f_def old(2))
      ultimately show ?thesis by auto
    next
      case False
      have "r \<in> set rows" if "r \<in> set (map f rows)"
      proof -
        from that obtain x where x: "x \<in> set rows" "r = f x" by auto
        then show ?thesis using False keyf [of x] others [OF x(1)] by simp
      qed
      moreover have "r \<in> set (map f rows)" if "r \<in> set rows"
        using imageI [OF that, of f] others [OF that False] by simp
      ultimately have "r \<in> set (map f rows) \<longleftrightarrow> r \<in> set rows" by blast
      moreover have "observe key time new (book key rows) (key r) = book key rows (key r)"
        using False by (simp add: observe_def old_book)
      ultimately show ?thesis by (simp add: book_member [OF d])
    qed
  next
    fix k r
    assume "observe key time new (book key rows) k = Some r"
    then show "key r = k"
      by (auto simp: observe_def old_book split: if_splits dest: book_Some)
  qed
qed

lemma book_filter:
  assumes "distinct (map key rows)"
  shows "book key (filter P rows) = (\<lambda>k. case book key rows k of None \<Rightarrow> None | Some r \<Rightarrow> if P r then Some r else None)"
proof (rule book_eqI)
  show "distinct (map key (filter P rows))" using assms by (simp add: distinct_map_filter)
  fix r
  show "r \<in> set (filter P rows) \<longleftrightarrow>
      (case book key rows (key r) of None \<Rightarrow> None | Some r \<Rightarrow> if P r then Some r else None) = Some r"
    using book_member [OF assms, of "key r" r] by (auto split: option.splits)
next
  fix k r
  assume "(case book key rows k of None \<Rightarrow> None | Some r \<Rightarrow> if P r then Some r else None) = Some r"
  then show "key r = k" by (auto split: option.splits if_splits dest: book_Some)
qed

text \<open>What is in a book after a sequence of reports.\<close>

lemma fold_observe_Some:
  "fold (observe key time) rows m k = Some r \<Longrightarrow>
     (r \<in> set rows \<and> key r = k \<or> m k = Some r)
     \<and> (\<forall>x \<in> set rows. key x = k \<longrightarrow> time x \<le> time r) \<and> (\<forall>x. m k = Some x \<longrightarrow> time x \<le> time r)"
proof (induction rows arbitrary: m)
  case (Cons y rows)
  from Cons.IH [of "observe key time y m"] Cons.prems
  have IH: "r \<in> set rows \<and> key r = k \<or> observe key time y m k = Some r"
    "\<forall>x \<in> set rows. key x = k \<longrightarrow> time x \<le> time r"
    "\<forall>x. observe key time y m k = Some x \<longrightarrow> time x \<le> time r" by auto
  show ?case
  proof (cases "key y = k")
    case True
    then have "m k = None \<or> (\<exists>old. m k = Some old)" "observe key time y m k =
        (case m k of None \<Rightarrow> Some y | Some old \<Rightarrow> if time old \<le> time y then Some y else Some old)"
      by (auto simp: observe_def split: option.splits)
    with IH True show ?thesis by (auto split: option.splits if_splits)
  next
    case False
    then have "observe key time y m k = m k" by (auto simp: observe_def split: option.splits)
    with IH False show ?thesis by auto
  qed
qed simp

lemma fold_observe_defined:
  "fold (observe key time) rows m k = None \<longleftrightarrow> m k = None \<and> (\<forall>x \<in> set rows. key x \<noteq> k)"
  by (induction rows arbitrary: m) (auto simp: observe_def split: option.splits)

text \<open>When reports of a key never carry the same time, their order does not matter.\<close>

lemma fold_observe_perm:
  assumes "mset xs = mset ys"
    and apart: "\<And>x y. x \<in> set xs \<Longrightarrow> y \<in> set xs \<Longrightarrow> key x = key y \<Longrightarrow> time x = time y \<Longrightarrow> x = y"
  shows "fold (observe key time) xs Map.empty = fold (observe key time) ys Map.empty"
proof
  fix k
  have sets: "set xs = set ys" using assms(1) by (metis set_mset_mset)
  show "fold (observe key time) xs Map.empty k = fold (observe key time) ys Map.empty k"
  proof (cases "fold (observe key time) xs Map.empty k")
    case None
    then show ?thesis
      using fold_observe_defined [of key time xs Map.empty k] fold_observe_defined [of key time ys Map.empty k] sets
      by auto
  next
    case (Some r)
    then obtain q where q: "fold (observe key time) ys Map.empty k = Some q"
      using fold_observe_defined [of key time xs Map.empty k] fold_observe_defined [of key time ys Map.empty k] sets
      by (cases "fold (observe key time) ys Map.empty k") auto
    from fold_observe_Some [OF Some] fold_observe_Some [OF q] sets have "r = q"
      by (intro apart) (auto intro: antisym)
    with Some q show ?thesis by simp
  qed
qed

section \<open>Positions\<close>

datatype position_call = Report Position string "positionPayload \<times> string" gotime | Sweep string gotime

fun position_exec :: "pg \<Rightarrow> position_call \<Rightarrow> ('b, 'z) ledger_tables_scheme \<Rightarrow> ('b, 'z) ledger_tables_scheme" where
  "position_exec P (Report pos source raw updatedAt) s = snd (UpsertPosition P pos source raw updatedAt s)"
| "position_exec P (Sweep accountID cutoff) s = snd (DeleteStalePositions P accountID cutoff s)"

definition positions_run ::
    "pg \<Rightarrow> position_call list \<Rightarrow> ('b, 'z) ledger_tables_scheme \<Rightarrow> ('b, 'z) ledger_tables_scheme" where
  "positions_run P calls s = fold (position_exec P) calls s"

definition position_time :: "position_row \<Rightarrow> gotime" where
  "position_time r = pUpdatedAt (pwPosition r)"

definition position_book :: "('b, 'z) ledger_tables_scheme \<Rightarrow> (string \<times> string \<times> string) \<rightharpoonup> position_row" where
  "position_book s = book position_key (tbPositions s)"

text \<open>The specification: a valid report for a known account is observed, a sweep forgets what is older
  than its cutoff.\<close>

definition report_row :: "pg \<Rightarrow> gotime \<Rightarrow> Position \<Rightarrow> string \<Rightarrow> positionPayload \<times> string \<Rightarrow> gotime \<Rightarrow> position_row" where
  "report_row P now n source raw updatedAt =
     position_values P n (let t = TrimSpace source in if t = [] then ''query'' else t) raw
       (if IsZero updatedAt then now else updatedAt)"

definition admissible :: "(string \<rightharpoonup> Account) \<Rightarrow> position_row \<Rightarrow> bool" where
  "admissible accounts r \<longleftrightarrow> position_fits (pwPosition r) \<and> positions_check (pwPosition r)
     \<and> accounts (pAccountID (pwPosition r)) \<noteq> None"

fun accepted_row :: "pg \<Rightarrow> gotime \<Rightarrow> (string \<rightharpoonup> Account) \<Rightarrow> position_call \<Rightarrow> position_row option" where
  "accepted_row P now accounts (Report pos source raw updatedAt) =
     (case normalizePosition pos of
        Inl _ \<Rightarrow> None
      | Inr n \<Rightarrow> let r = report_row P now n source raw updatedAt in if admissible accounts r then Some r else None)"
| "accepted_row P now accounts (Sweep _ _) = None"

definition forget :: "pg \<Rightarrow> string \<Rightarrow> gotime \<Rightarrow> ('k \<rightharpoonup> position_row) \<Rightarrow> ('k \<rightharpoonup> position_row)" where
  "forget P accountID cutoff m =
     (\<lambda>k. case m k of None \<Rightarrow> None | Some r \<Rightarrow> if \<not> stale accountID (pg_time P cutoff) r then Some r else None)"

fun book_call ::
    "pg \<Rightarrow> gotime \<Rightarrow> (string \<rightharpoonup> Account) \<Rightarrow> position_call
     \<Rightarrow> ((string \<times> string \<times> string) \<rightharpoonup> position_row) \<Rightarrow> ((string \<times> string \<times> string) \<rightharpoonup> position_row)" where
  "book_call P now accounts (Report pos source raw updatedAt) m =
     (case accepted_row P now accounts (Report pos source raw updatedAt) of
        None \<Rightarrow> m | Some r \<Rightarrow> observe position_key position_time r m)"
| "book_call P now accounts (Sweep accountID cutoff) m =
     (if TrimSpace accountID = [] \<or> IsZero cutoff then m else forget P (TrimSpace accountID) cutoff m)"

text \<open>Keys are unique and every position belongs to a known account.\<close>

definition position_wf :: "('b, 'z) ledger_tables_scheme \<Rightarrow> bool" where
  "position_wf s \<longleftrightarrow> distinct (map position_key (tbPositions s))
     \<and> (\<forall>r \<in> set (tbPositions s). dbAccounts s (pAccountID (pwPosition r)) \<noteq> None)"

lemma position_wf_faults [simp]: "position_wf (s\<lparr>dbFaults := fs\<rparr>) = position_wf s"
  by (simp add: position_wf_def)

lemma position_book_faults [simp]: "position_book (s\<lparr>dbFaults := fs\<rparr>) = position_book s"
  by (simp add: position_book_def)

text \<open>What a statement does to the table, given that it runs.\<close>

definition refines ::
    "(('b, 'z) ledger_tables_scheme \<Rightarrow> ('b, 'z) ledger_tables_scheme)
     \<Rightarrow> ((string \<times> string \<times> string) \<rightharpoonup> position_row) \<Rightarrow> ('b, 'z) ledger_tables_scheme \<Rightarrow> bool" where
  "refines f m s \<longleftrightarrow> position_wf (f s) \<and> position_book (f s) = m \<and> dbAccounts (f s) = dbAccounts s
     \<and> dbClientNow (f s) = dbClientNow s \<and> dbFaults (f s) = dbFaults s"

lemma refines_id: "position_wf s \<Longrightarrow> f s = s \<Longrightarrow> refines f (position_book s) s"
  by (simp add: refines_def)

lemma upsertPositionSQL_refines:
  assumes "position_wf s"
  shows "refines (\<lambda>s. snd (upsertPositionSQL new s))
    (if admissible (dbAccounts s) new then observe position_key position_time new (position_book s)
     else position_book s) s"
proof -
  let ?rows = "tbPositions s"
  have d: "distinct (map position_key ?rows)" using assms by (simp add: position_wf_def)
  consider "\<not> position_fits (pwPosition new) \<or> \<not> positions_check (pwPosition new)"
    | "position_fits (pwPosition new)" "positions_check (pwPosition new)" "\<forall>r \<in> set ?rows. position_key r \<noteq> position_key new"
    | old where "position_fits (pwPosition new)" "positions_check (pwPosition new)" "old \<in> set ?rows"
        "position_key old = position_key new" by blast
  then show ?thesis
  proof cases
    case 1
    then have "snd (upsertPositionSQL new s) = s" "\<not> admissible (dbAccounts s) new"
      by (auto simp: upsertPositionSQL_def admissible_def)
    then show ?thesis using assms by (simp add: refines_id)
  next
    case 2
    then have none: "find (\<lambda>r. position_key r = position_key new) ?rows = None" by (simp add: find_None_iff)
    show ?thesis
    proof (cases "dbAccounts s (pAccountID (pwPosition new)) = None")
      case True
      then have "snd (upsertPositionSQL new s) = s" "\<not> admissible (dbAccounts s) new"
        using 2 by (auto simp: upsertPositionSQL_def admissible_def none)
      then show ?thesis using assms by (simp add: refines_id)
    next
      case False
      then have "snd (upsertPositionSQL new s) = s\<lparr>tbPositions := ?rows @ [new]\<rparr>" "admissible (dbAccounts s) new"
        using 2 by (auto simp: upsertPositionSQL_def admissible_def none)
      then show ?thesis
        using assms 2(3) False book_insert [OF d 2(3), of position_time]
        by (auto simp: refines_def position_wf_def position_book_def)
    qed
  next
    case 3
    then obtain x where some: "find (\<lambda>r. position_key r = position_key new) ?rows = Some x"
      by (cases "find (\<lambda>r. position_key r = position_key new) ?rows") (auto simp: find_None_iff)
    have acct: "pAccountID (pwPosition new) = pAccountID (pwPosition old)" using 3(4) by (simp add: position_key_def)
    then have known: "dbAccounts s (pAccountID (pwPosition new)) \<noteq> None" using assms 3(3) by (simp add: position_wf_def)
    let ?f = "\<lambda>r. if position_key r = position_key new \<and> position_time r \<le> position_time new then new else r"
    have s': "snd (upsertPositionSQL new s) = s\<lparr>tbPositions := map ?f ?rows\<rparr>"
      using 3 by (simp add: upsertPositionSQL_def some position_time_def)
    have keys: "map position_key (map ?f ?rows) = map position_key ?rows" by simp
    then have "distinct (map position_key (map ?f ?rows))" using d by metis
    with known 3 assms book_update [OF d 3(3,4), of position_time] show ?thesis
      by (auto simp: refines_def s' position_wf_def position_book_def admissible_def)
  qed
qed

lemma deleteStale_refines:
  assumes "position_wf s"
  shows "refines (\<lambda>s. snd (deleteStalePositionsSQL P a c s)) (forget P a c (position_book s)) s"
  using assms book_filter [of position_key "tbPositions s" "\<lambda>r. \<not> stale a (pg_time P c) r"]
  by (auto simp: refines_def deleteStalePositionsSQL_def position_wf_def position_book_def forget_def
      distinct_map_filter)

text \<open>A statement that may fail runs or has no effect.\<close>

definition position_step ::
    "((string \<times> string \<times> string) \<rightharpoonup> position_row) \<Rightarrow> ('b, 'z) ledger_tables_scheme \<Rightarrow> ('b, 'z) ledger_tables_scheme \<Rightarrow> bool" where
  "position_step m s t \<longleftrightarrow> position_wf t \<and> dbAccounts t = dbAccounts s \<and> dbClientNow t = dbClientNow s
     \<and> (dbFaults s = [] \<longrightarrow> dbFaults t = [])
     \<and> (position_book t = m \<or> position_book t = position_book s \<and> dbFaults s \<noteq> [])"

lemma run_stmt_step:
  assumes wf: "position_wf s" and m: "\<And>fs. refines (\<lambda>s. snd (m s)) b (s\<lparr>dbFaults := fs\<rparr>)"
  shows "position_step b s (snd (run_stmt m s))"
proof (cases "dbFaults s")
  case Nil
  then have "s\<lparr>dbFaults := []\<rparr> = s" by simp
  with m [of "[]"] Nil show ?thesis by (simp add: run_stmt_def refines_def position_step_def)
next
  case (Cons f fs)
  with m [of fs] wf show ?thesis
    by (cases f) (simp_all add: run_stmt_def refines_def position_step_def Let_def split: prod.splits)
qed

lemma normalizePosition_account:
  "normalizePosition p = Inr n \<Longrightarrow> pAccountID n = TrimSpace (pAccountID p)"
  by (auto simp: normalizePosition_def Let_def split: if_splits)

lemma position_exec_step:
  assumes "position_wf s"
  shows "position_step (book_call P (dbClientNow s) (dbAccounts s) call (position_book s)) s (position_exec P call s)"
proof (cases call)
  case (Report pos source raw updatedAt)
  show ?thesis
  proof (cases "normalizePosition pos")
    case (Inl e)
    then show ?thesis using assms by (simp add: Report UpsertPosition_def position_step_def)
  next
    case (Inr n)
    let ?r = "report_row P (dbClientNow s) n source raw updatedAt"
    have e: "position_exec P call s = snd (run_stmt (upsertPositionSQL ?r) s)"
      by (simp add: Report UpsertPosition_def Inr report_row_def Let_def)
    have b: "book_call P (dbClientNow s) (dbAccounts s) call (position_book s) =
        (if admissible (dbAccounts s) ?r then observe position_key position_time ?r (position_book s) else position_book s)"
      by (simp add: Report Inr Let_def)
    have m: "refines (\<lambda>s. snd (upsertPositionSQL ?r s))
        (if admissible (dbAccounts s) ?r then observe position_key position_time ?r (position_book s) else position_book s)
        (s\<lparr>dbFaults := fs\<rparr>)" for fs
      using upsertPositionSQL_refines [of "s\<lparr>dbFaults := fs\<rparr>" ?r] assms by (simp cong: if_cong)
    show ?thesis unfolding e b by (rule run_stmt_step [OF assms m])
  qed
next
  case (Sweep a c)
  have "position_exec P call s = (if TrimSpace a = [] \<or> IsZero c then s
      else snd (run_stmt (deleteStalePositionsSQL P (TrimSpace a) c) s))"
    by (simp add: Sweep DeleteStalePositions_def Let_def)
  moreover have "refines (\<lambda>s. snd (deleteStalePositionsSQL P (TrimSpace a) c s)) (forget P (TrimSpace a) c (position_book s))
      (s\<lparr>dbFaults := fs\<rparr>)" for fs
    using deleteStale_refines [of "s\<lparr>dbFaults := fs\<rparr>" P "TrimSpace a" c] assms by simp
  ultimately show ?thesis
    using run_stmt_step [OF assms] assms by (auto simp: Sweep position_step_def)
qed

lemma positions_run_simps [simp]:
  "positions_run P [] s = s" "positions_run P (c # cs) s = positions_run P cs (position_exec P c s)"
  by (simp_all add: positions_run_def)

lemma positions_run_refines:
  assumes "position_wf s"
  shows "\<exists>eff. subseq eff calls \<and> (dbFaults s = [] \<longrightarrow> eff = calls)
    \<and> position_book (positions_run P calls s)
        = fold (book_call P (dbClientNow s) (dbAccounts s)) eff (position_book s)
    \<and> position_wf (positions_run P calls s)"
  using assms
proof (induction calls arbitrary: s)
  case Nil
  then show ?case by (intro exI [of _ "[]"]) simp
next
  case (Cons c calls)
  let ?t = "position_exec P c s"
  have step: "position_step (book_call P (dbClientNow s) (dbAccounts s) c (position_book s)) s ?t"
    by (rule position_exec_step [OF Cons.prems])
  then have "position_wf ?t" by (simp add: position_step_def)
  from Cons.IH [OF this] obtain eff where eff: "subseq eff calls" "dbFaults ?t = [] \<longrightarrow> eff = calls"
    "position_book (positions_run P calls ?t) = fold (book_call P (dbClientNow ?t) (dbAccounts ?t)) eff (position_book ?t)"
    "position_wf (positions_run P calls ?t)" by blast
  from step eff show ?case
    by (cases "position_book ?t = book_call P (dbClientNow s) (dbAccounts s) c (position_book s)")
      (auto simp: position_step_def intro: exI [of _ "c # eff"] exI [of _ eff])
qed

fun is_report :: "position_call \<Rightarrow> bool" where
  "is_report (Report _ _ _ _) = True"
| "is_report (Sweep _ _) = False"

lemma book_reports:
  assumes "list_all is_report calls"
  shows "fold (book_call P now accounts) calls m
    = fold (observe position_key position_time) (List.map_filter (accepted_row P now accounts) calls) m"
  using assms
proof (induction calls arbitrary: m)
  case (Cons c calls)
  then show ?case
    by (cases c; cases "accepted_row P now accounts c")
      (auto simp: map_filter_simps simp del: accepted_row.simps)
qed (simp add: map_filter_simps)

lemma mset_map_filter: "mset xs = mset ys \<Longrightarrow> mset (List.map_filter f xs) = mset (List.map_filter f ys)"
  by (simp add: map_filter_def mset_map [symmetric] mset_filter [symmetric] del: mset_map mset_filter)
    (simp add: mset_filter)

definition demo_tables :: "unit ledger_tables" where
  "demo_tables = ledger_db.extend demo_db \<lparr>tbPositions = [], tbAssets = [], tbFills = [], tbTransfers = [],
     tbAttempts = [], tbFees = [], tbCheckpoints = []\<rparr>"

definition demo_raw :: "positionPayload \<times> string" where
  "demo_raw = (positionPayload_of [], [])"

definition demo_position :: Position where
  "demo_position = \<lparr>pAccountID = ''A1'', pTradeDate = [], pSnapshotType = [], pSymbol = ''600000'', pName = [],
     pExchange = ExchangeSH, pQuantity = 100, pSellableQty = 100, pInitialQty = 100, pTodayQty = 0, pAvgCost = Fin 10,
     pTotalCost = Fin 1000, pAvgCostSource = [], pCostComplete = True, pLastPrice = Fin 11, pMarketValue = Fin 1100,
     pUnrealizedPnL = Fin 100, pDayUnrealizedPnL = Fin 0, pSettledProfit = Fin 0, pShareholderID = [], pUpdatedAt = zeroTime\<rparr>"

lemma demo_tables_fields [simp]:
  "dbFaults demo_tables = []" "tbPositions demo_tables = []" "tbFees demo_tables = []" "tbFills demo_tables = []"
  "dbAccounts demo_tables = [''A1'' \<mapsto> demo_account]" "dbOrders demo_tables = [order_values demo_pg 0 demo_order]"
  by (simp_all add: demo_tables_def demo_db_def ledger_db.defs)

text \<open>C6: The table of positions refines a book of the newest reports. From any table whose keys are
  unique and whose accounts are known, and for any sequence of reports and sweeps, the table ends as
  the book does after the calls that took effect: all of them when the database does not fail, and
  else some of them in their order, since a statement that fails has run or has not. Keys stay
  unique.\<close>

theorem position_table_refines:
  assumes "position_wf s"
  shows "\<exists>eff. subseq eff calls \<and> (dbFaults s = [] \<longrightarrow> eff = calls)
    \<and> position_book (positions_run P calls s)
        = fold (book_call P (dbClientNow s) (dbAccounts s)) eff (position_book s)
    \<and> position_wf (positions_run P calls s)"
  using assms by (rule positions_run_refines)

theorem position_table_refines_witness:
  "\<exists>eff. subseq eff [Report demo_position [] demo_raw 5, Sweep ''A1'' 7]
    \<and> (dbFaults demo_tables = [] \<longrightarrow> eff = [Report demo_position [] demo_raw 5, Sweep ''A1'' 7])
    \<and> position_book (positions_run demo_pg [Report demo_position [] demo_raw 5, Sweep ''A1'' 7] demo_tables)
        = fold (book_call demo_pg (dbClientNow demo_tables) (dbAccounts demo_tables)) eff (position_book demo_tables)
    \<and> position_wf (positions_run demo_pg [Report demo_position [] demo_raw 5, Sweep ''A1'' 7] demo_tables)"
  by (rule position_table_refines) (simp add: position_wf_def)

text \<open>The order in which position reports are delivered does not matter. If no two different
  accepted reports of a position carry the same time, any two deliveries of the same reports into an
  empty table leave the same positions.\<close>

theorem position_order_irrelevant:
  assumes "dbFaults s = []" and "tbPositions s = []" and "mset calls = mset calls'"
    and "list_all is_report calls"
    and "\<And>r q. r \<in> set (List.map_filter (accepted_row P (dbClientNow s) (dbAccounts s)) calls) \<Longrightarrow>
           q \<in> set (List.map_filter (accepted_row P (dbClientNow s) (dbAccounts s)) calls) \<Longrightarrow>
           position_key r = position_key q \<Longrightarrow> position_time r = position_time q \<Longrightarrow> r = q"
  shows "position_book (positions_run P calls s) = position_book (positions_run P calls' s)"
proof -
  have wf: "position_wf s" and empty: "position_book s = Map.empty"
    using assms(2) by (simp_all add: position_wf_def position_book_def book_def)
  have reports: "list_all is_report calls'"
    using assms(4) by (simp add: list_all_iff mset_eq_setD [OF assms(3)])
  have "position_book (positions_run P cs s) = fold (observe position_key position_time)
      (List.map_filter (accepted_row P (dbClientNow s) (dbAccounts s)) cs) Map.empty"
    if "list_all is_report cs" for cs
  proof -
    from positions_run_refines [OF wf, of cs P] assms(1)
    have "position_book (positions_run P cs s) = fold (book_call P (dbClientNow s) (dbAccounts s)) cs (position_book s)"
      by blast
    then show ?thesis by (simp only: book_reports [OF that] empty)
  qed
  moreover have "fold (observe position_key position_time)
        (List.map_filter (accepted_row P (dbClientNow s) (dbAccounts s)) calls) Map.empty
      = fold (observe position_key position_time)
        (List.map_filter (accepted_row P (dbClientNow s) (dbAccounts s)) calls') Map.empty"
    by (rule fold_observe_perm [OF mset_map_filter [OF assms(3)] assms(5)])
  ultimately show ?thesis using assms(4) reports by presburger
qed

lemma demo_position_normal: "normalizePosition demo_position = Inr demo_position"
  by (simp add: normalizePosition_def demo_position_def Exchange_Valid_def Let_def TrimSpace_ascii_word fzero_def
      ExchangeSH_def)

lemma demo_position_rows:
  "set (List.map_filter (accepted_row demo_pg (dbClientNow demo_tables) (dbAccounts demo_tables))
     [Report demo_position [] demo_raw 5, Report demo_position [] demo_raw 6])
   \<subseteq> {report_row demo_pg (dbClientNow demo_tables) demo_position [] demo_raw 5,
       report_row demo_pg (dbClientNow demo_tables) demo_position [] demo_raw 6}"
  by (simp add: map_filter_simps demo_position_normal Let_def)

theorem position_order_irrelevant_witness:
  "position_book (positions_run demo_pg [Report demo_position [] demo_raw 5, Report demo_position [] demo_raw 6] demo_tables)
   = position_book (positions_run demo_pg [Report demo_position [] demo_raw 6, Report demo_position [] demo_raw 5] demo_tables)"
proof (rule position_order_irrelevant)
  have "position_time (report_row demo_pg now n source demo_raw 5) = 5"
    "position_time (report_row demo_pg now n source demo_raw 6) = 6" for now n source
    by (simp_all add: position_time_def report_row_def position_values_def demo_pg_def Let_def IsZero_def zeroTime_def second_def)
  then show "r = q" if "r \<in> set (List.map_filter (accepted_row demo_pg (dbClientNow demo_tables) (dbAccounts demo_tables))
       [Report demo_position [] demo_raw 5, Report demo_position [] demo_raw 6])"
     "q \<in> set (List.map_filter (accepted_row demo_pg (dbClientNow demo_tables) (dbAccounts demo_tables))
       [Report demo_position [] demo_raw 5, Report demo_position [] demo_raw 6])"
     "position_time r = position_time q" for r q
    using subsetD [OF demo_position_rows that(1)] subsetD [OF demo_position_rows that(2)] that(3) by auto
qed simp_all

end
