(* ===== verification/Fill_Laws.thy ===== *)
theory Fill_Laws
  imports Ledger_Books
begin

text \<open>
  What the tables of fills and fee records guarantee: a fill is stored once however often and under
  whatever stream reference it is delivered; a fill that is not a summary removes the summary fills of
  its order; fee records are never downgraded, and a settled fee reaches its order.
\<close>

section \<open>Fills\<close>

lemma run_stmt_working: "dbFaults s = [] \<Longrightarrow> run_stmt m s = m s"
  by (simp add: run_stmt_def)

text \<open>The columns that identify a fill do not depend on what is inherited from the order.\<close>

lemma fill_values_fields [simp]:
  "fAccountID (fwFill (fill_values P now ord f st so)) = fAccountID f"
  "fTradeDate (fwFill (fill_values P now ord f st so)) = fTradeDate f"
  "fGatewayOrderID (fwFill (fill_values P now ord f st so)) = fGatewayOrderID f"
  "fFillID (fwFill (fill_values P now ord f st so)) = fFillID f"
  "fOrderStreamID (fwFill (fill_values P now ord f st so)) = fOrderStreamID f"
  "fPrice (fwFill (fill_values P now ord f st so)) = pg_money P (fPrice f)"
  "fFee (fwFill (fill_values P now ord f st so)) = pg_money P (fFee f)"
  "fQty (fwFill (fill_values P now ord f st so)) = fQty f"
  by (simp_all add: fill_values_def)

definition new_fill :: "pg \<Rightarrow> Fill \<Rightarrow> StreamRef \<Rightarrow> SourceRef \<Rightarrow> ('b, 'z) ledger_tables_scheme \<Rightarrow> fill_row" where
  "new_fill P f stream source s = fill_values P (dbServerNow s) (fill_order f (dbOrders s)) f stream source"

lemma new_fill_same:
  "dbServerNow t = dbServerNow s \<Longrightarrow> dbOrders t = dbOrders s \<Longrightarrow> new_fill P f st so t = new_fill P f st so s"
  by (simp add: new_fill_def)

lemma insertFillSQL_ok:
  assumes "insertFillSQL P f st so s = (Inr x, t)"
  shows "money_fits (pg_money P (fPrice f))" "money_fits (pg_money P (fFee f))" "num_positive (pg_money P (fPrice f))"
    "t = (if list_ex (fill_conflict (new_fill P f st so s)) (tbFills s) then s
          else s\<lparr>tbFills := tbFills s @ [new_fill P f st so s]\<rparr>)"
  using assms by (auto simp: insertFillSQL_def new_fill_def Let_def split: if_splits)

lemma insertFillSQL_dup:
  assumes "money_fits (pg_money P (fPrice f))" "money_fits (pg_money P (fFee f))" "num_positive (pg_money P (fPrice f))"
    and "list_ex (fill_conflict (new_fill P f st so s)) (tbFills s)"
  shows "insertFillSQL P f st so s = (Inr (), s)"
  using assms by (simp add: insertFillSQL_def new_fill_def Let_def)

text \<open>A successful insertion, on both of its paths.\<close>

lemma InsertFill_effect:
  assumes "dbFaults s = []" and "normalizeFill fill = Inr f" and "InsertFill P fill st so s = (Inr (), t)"
  shows "finite_float (fPrice f)" "finite_float (fFee f)"
    "money_fits (pg_money P (fPrice f))" "money_fits (pg_money P (fFee f))" "num_positive (pg_money P (fPrice f))"
    "t = s\<lparr>tbFills := filter (\<lambda>r. isSummary f \<or> \<not> summary_of_order f r) (tbFills s @
        (if list_ex (fill_conflict (new_fill P f st so s)) (tbFills s) then [] else [new_fill P f st so s]))\<rparr>"
proof -
  from assms(2,3) have fin: "finite_float (fPrice f) \<and> finite_float (fFee f)"
    by (auto simp: InsertFill_def split: if_splits)
  then show "finite_float (fPrice f)" "finite_float (fFee f)" by simp_all
  from assms fin obtain s1 where ins: "insertFillSQL P f st so s = (Inr (), s1)"
    and t: "(if isSummary f then ret () else run_stmt (deleteSummaryFillsForOrderSQL f)) s1 = (Inr (), t)"
    by (auto simp: InsertFill_def run_stmt_working seq_def split: prod.splits sum.splits)
  note ok = insertFillSQL_ok [OF ins]
  from ok(1,2,3) show "money_fits (pg_money P (fPrice f))" "money_fits (pg_money P (fFee f))"
    "num_positive (pg_money P (fPrice f))" .
  have "dbFaults s1 = []" using assms(1) by (simp add: ok(4))
  with t have "t = (if isSummary f then s1 else s1\<lparr>tbFills := filter (\<lambda>r. \<not> summary_of_order f r) (tbFills s1)\<rparr>)"
    by (simp add: run_stmt_working deleteSummaryFillsForOrderSQL_def split: if_splits)
  then show "t = s\<lparr>tbFills := filter (\<lambda>r. isSummary f \<or> \<not> summary_of_order f r) (tbFills s @
        (if list_ex (fill_conflict (new_fill P f st so s)) (tbFills s) then [] else [new_fill P f st so s]))\<rparr>"
    by (simp add: ok(4))
qed

lemma new_fill_kept: "isSummary f \<or> \<not> summary_of_order f (new_fill P f st so s)"
  by (simp add: summary_of_order_def new_fill_def isSummary_def Let_def)

lemma fill_conflict_id:
  "fFillID f \<noteq> [] \<Longrightarrow> fill_conflict (fill_values P n ord f st so) (fill_values P' n' ord' f st' so')"
  by (simp add: fill_conflict_def Let_def)

definition demo_fill :: Fill where
  "demo_fill = \<lparr>fFillID = ''F1'', fAccountID = ''A1'', fGatewayOrderID = ''gw-1'', fOrderID = 0, fOrderStreamID = [],
     fSymbol = ''600000'', fName = [], fExchange = ExchangeSH, fTradeSide = TradeSideBuy, fBusinessType = [],
     fPrice = Fin 10, fQty = 100, fFee = Fin 0, fTradeDate = ''2024-02-29'', fMatchTimestamp = 0, fMatchedAt = zeroTime,
     fShareholderID = [], fStrategyType = [], fStrategyID = [], fBasketID = [], fParentOrderID = [], fT0OrderGroupID = [],
     fAdapterContext = None\<rparr>"

definition demo_ref :: "string \<Rightarrow> StreamRef" where "demo_ref i = \<lparr>srKey = ''prod.event'', srID = i\<rparr>"

definition demo_source :: SourceRef where
  "demo_source = \<lparr>soOriginMessageID = [], soRequestID = [], soCorrelationID = [], soIdempotencyKey = []\<rparr>"

text \<open>C19: A fill is stored once. A new fill with a fill id that was inserted is in the table, and
  inserting it again, under whatever stream reference and source it is delivered, succeeds and
  changes nothing: the reply pages and the events may both deliver it.\<close>

theorem fill_stored_once:
  assumes "dbFaults s = []" and "normalizeFill fill = Inr f" and "fFillID f \<noteq> []"
    and "\<not> list_ex (fill_conflict (new_fill P f st so s)) (tbFills s)"
    and "InsertFill P fill st so s = (Inr (), t)"
  shows "new_fill P f st so s \<in> set (tbFills t) \<and> InsertFill P fill st' so' t = (Inr (), t)"
proof -
  note eff = InsertFill_effect [OF assms(1,2,5)]
  let ?new = "new_fill P f st so s"
  have rows: "tbFills t = filter (\<lambda>r. isSummary f \<or> \<not> summary_of_order f r) (tbFills s @ [?new])"
    and calm: "dbFaults t = []" and same: "dbServerNow t = dbServerNow s" "dbOrders t = dbOrders s"
    using assms(1,4) by (simp_all add: eff(6))
  have mem: "?new \<in> set (tbFills t)" using new_fill_kept [of f P st so s] by (simp add: rows)
  have "list_ex (fill_conflict (new_fill P f st' so' t)) (tbFills t)"
    using mem assms(3) by (auto simp: list_ex_iff new_fill_def intro!: bexI [of _ ?new] fill_conflict_id)
  then have "insertFillSQL P f st' so' t = (Inr (), t)" by (rule insertFillSQL_dup [OF eff(3,4,5)])
  moreover have "deleteSummaryFillsForOrderSQL f t = (Inr (), t)" if "\<not> isSummary f"
    using that by (simp add: deleteSummaryFillsForOrderSQL_def rows)
  ultimately have "InsertFill P fill st' so' t = (Inr (), t)"
    using calm eff(1,2) by (simp add: InsertFill_def assms(2) run_stmt_working seq_def)
  with mem show ?thesis ..
qed

lemma demo_fill_fields [simp]:
  "fPrice demo_fill = Fin 10" "fFee demo_fill = Fin 0" "fFillID demo_fill = ''F1''" "\<not> isSummary demo_fill"
  by (simp_all add: demo_fill_def isSummary_def summaryPrefix_def)

lemma demo_fill_normal: "normalizeFill demo_fill = Inr demo_fill"
proof -
  have "trimFill demo_fill = demo_fill"
    by (simp add: trimFill_def demo_fill_def TrimSpace_ascii_word)
  moreover have "fillInputError demo_fill = None"
    by (simp add: fillInputError_def demo_fill_def Exchange_Valid_def TradeSide_Valid_def fle_def fzero_def)
  moreover have "matchDate ''2024-02-29'' zeroTime 0 = Inr ''2024-02-29''" by code_simp
  ultimately show ?thesis by (simp add: normalizeFill_def demo_fill_def)
qed

lemma demo_fill_insert:
  "\<exists>t. InsertFill demo_pg demo_fill (demo_ref ''1-0'') demo_source demo_tables = (Inr (), t)"
proof -
  have "fill_order demo_fill [order_values demo_pg 0 demo_order] \<noteq> None"
    by (simp add: fill_order_def order_values_def demo_order_def demo_fill_def TrimSpace_ascii_word Order0_def)
  then obtain x where x: "insertFillSQL demo_pg demo_fill (demo_ref ''1-0'') demo_source demo_tables = (Inr (), x)"
    by (auto simp: insertFillSQL_def Let_def demo_pg_def money_fits_def num_positive_def fzero_def)
  moreover have "dbFaults x = []" by (simp add: insertFillSQL_ok(4) [OF x])
  ultimately show ?thesis
    by (simp add: InsertFill_def demo_fill_normal run_stmt_working seq_def finite_float_def deleteSummaryFillsForOrderSQL_def)
qed

theorem fill_stored_once_witness:
  "\<exists>t :: unit ledger_tables. new_fill demo_pg demo_fill (demo_ref ''1-0'') demo_source demo_tables \<in> set (tbFills t)
     \<and> InsertFill demo_pg demo_fill (demo_ref ''2-0'') demo_source t = (Inr (), t)"
proof -
  obtain t where "InsertFill demo_pg demo_fill (demo_ref ''1-0'') demo_source demo_tables = (Inr (), t)"
    using demo_fill_insert by blast
  from fill_stored_once [OF _ demo_fill_normal _ _ this, of "demo_ref ''2-0''" demo_source] show ?thesis
    by auto
qed

text \<open>C36: Real fills end the summary of their order. A successful insertion of a fill that is not a
  summary leaves exactly the fills stored before, less the summary fills of the order, and the new
  fill unless it was stored before. The summaries go in that case too: the second delivery of a fill
  removes a summary that stood for the quantity still missing.\<close>

theorem real_fill_ends_summary:
  assumes "dbFaults s = []" and "normalizeFill fill = Inr f" and "\<not> isSummary f"
    and "InsertFill P fill st so s = (Inr (), t)"
  shows "tbFills t = filter (\<lambda>r. \<not> summary_of_order f r) (tbFills s) @
           (if list_ex (fill_conflict (new_fill P f st so s)) (tbFills s) then [] else [new_fill P f st so s])
    \<and> dbOrders t = dbOrders s"
proof -
  have "\<not> summary_of_order f (new_fill P f st so s)" using new_fill_kept assms(3) by blast
  then show ?thesis using InsertFill_effect(6) [OF assms(1,2,4)] assms(3) by simp
qed

theorem real_fill_ends_summary_witness:
  "\<exists>t :: unit ledger_tables. InsertFill demo_pg demo_fill (demo_ref ''1-0'') demo_source demo_tables = (Inr (), t)
     \<and> tbFills t = [new_fill demo_pg demo_fill (demo_ref ''1-0'') demo_source demo_tables]"
proof -
  obtain t where t: "InsertFill demo_pg demo_fill (demo_ref ''1-0'') demo_source demo_tables = (Inr (), t)"
    using demo_fill_insert by blast
  from real_fill_ends_summary [OF _ demo_fill_normal _ t] t show ?thesis by auto
qed

section \<open>Fee records\<close>

definition fee_evolves :: "OrderFeeRecord \<Rightarrow> OrderFeeRecord \<Rightarrow> bool" where
  "fee_evolves old new \<longleftrightarrow> same_fee old new \<and> frFeeAsOf old \<le> frFeeAsOf new \<and> frCreatedAt new = frCreatedAt old
     \<and> (authoritative old \<longrightarrow> authoritative new)
     \<and> (new = old \<or> frFeeAsOf old < frFeeAsOf new \<or> authoritative new \<and> \<not> authoritative old)"

lemma fee_evolves_refl: "fee_evolves r r"
  by (simp add: fee_evolves_def same_fee_def)

lemma fee_evolves_trans: "fee_evolves a b \<Longrightarrow> fee_evolves b c \<Longrightarrow> fee_evolves a c"
  by (auto simp: fee_evolves_def same_fee_def)

lemma authoritative_created [simp]: "authoritative (r\<lparr>frCreatedAt := c\<rparr>) = authoritative r"
  by (simp add: authoritative_def)

lemma fee_merge_evolves: "same_fee new old \<Longrightarrow> fee_evolves old (fee_merge old new)"
  by (auto simp: fee_merge_def fee_replaces_def fee_evolves_def same_fee_def)

lemma same_fee_sym: "same_fee a b \<longleftrightarrow> same_fee b a"
  by (auto simp: same_fee_def)

lemma fee_merge_key: "same_fee new old \<Longrightarrow> same_fee new (fee_merge old new)"
  by (auto simp: fee_merge_def same_fee_def)

lemma find_member: "find P xs = Some x \<Longrightarrow> x \<in> set xs \<and> P x"
  by (metis find_Some_iff nth_mem)

text \<open>The outcome of the statement, split into its parts.\<close>

definition fee_row_after :: "OrderFeeRecord \<Rightarrow> OrderFeeRecord list \<Rightarrow> OrderFeeRecord" where
  "fee_row_after new rows = (case find (same_fee new) rows of None \<Rightarrow> new | Some r \<Rightarrow> fee_merge r new)"

lemma upsertOrderFeeRecordSQL_ok:
  assumes "upsertOrderFeeRecordSQL Z P new s = (Inr x, t)"
  shows "fee_row_after new (tbFees s) \<in> set (tbFees t)" "rows_evolve fee_evolves (tbFees s) (tbFees t)"
    "dbOrders t = map (\<lambda>w. if fee_order (fee_row_after new (tbFees s)) w
        then set_fee Z P (dbServerNow s) (fee_row_after new (tbFees s)) w else w) (dbOrders s)"
proof -
  let ?fees = "case find (same_fee new) (tbFees s) of None \<Rightarrow> tbFees s @ [new]
      | Some _ \<Rightarrow> map (\<lambda>r. if same_fee new r then fee_merge r new else r) (tbFees s)"
  have t: "t = s\<lparr>tbFees := ?fees, dbOrders := map (\<lambda>w. if fee_order (fee_row_after new (tbFees s)) w
        then set_fee Z P (dbServerNow s) (fee_row_after new (tbFees s)) w else w) (dbOrders s)\<rparr>"
    using assms by (auto simp: upsertOrderFeeRecordSQL_def Let_def fee_row_after_def split: if_splits)
  show "dbOrders t = map (\<lambda>w. if fee_order (fee_row_after new (tbFees s)) w
        then set_fee Z P (dbServerNow s) (fee_row_after new (tbFees s)) w else w) (dbOrders s)" by (simp add: t)
  show "rows_evolve fee_evolves (tbFees s) (tbFees t)"
    by (auto simp: t fee_evolves_refl fee_merge_evolves split: option.split intro!: rows_evolve_map rows_evolve_append)
  show "fee_row_after new (tbFees s) \<in> set (tbFees t)"
  proof (cases "find (same_fee new) (tbFees s)")
    case None
    then show ?thesis by (simp add: t fee_row_after_def)
  next
    case (Some r)
    with find_member [OF Some] show ?thesis by (force simp: t fee_row_after_def)
  qed
qed

lemma upsertOrderFeeRecordSQL_error: "upsertOrderFeeRecordSQL Z P new s = (Inl e, t) \<Longrightarrow> t = s"
  by (auto simp: upsertOrderFeeRecordSQL_def Let_def split: if_splits)

text \<open>C37: A settled fee reaches its order, and a record is never replaced by a lesser one. After a fee
  record was written without failures, the record kept under its key is known exactly: the delivered one
  when none was stored; when one was stored, the delivered one (which inherits its creation time) if it is
  of a later time and not less authoritative, or of the same time and authoritative where the stored one
  is not; in every other case the stored one, unchanged. An authoritative record is complete, associated
  with its order and from a known source. If the kept record is authoritative, every order it belongs to carries
  exactly its total fee, and every other order is left as it was.\<close>

theorem settled_fee_reaches_order:
  assumes "dbFaults s = []" and "normalizeOrderFeeRecord fee = Inr n" and "UpsertOrderFeeRecord Z P fee s = (Inr (), t)"
    and "new = fee_values P (dbServerNow s) n"
  shows "\<exists>r \<in> set (tbFees t). same_fee n r
    \<and> (case find (same_fee n) (tbFees s) of
         None \<Rightarrow> r = new
       | Some old \<Rightarrow>
           if frFeeAsOf old < frFeeAsOf new \<and> (authoritative old \<longrightarrow> authoritative new)
              \<or> frFeeAsOf old = frFeeAsOf new \<and> \<not> authoritative old \<and> authoritative new
           then r = new\<lparr>frCreatedAt := frCreatedAt old\<rparr> else r = old)
    \<and> list_all2 (\<lambda>w w'. if fee_order r w then wFee w' = frTotalFee r else w' = w) (dbOrders s) (dbOrders t)"
proof -
  let ?r = "fee_row_after new (tbFees s)"
  have sql: "upsertOrderFeeRecordSQL Z P new s = (Inr (), t)"
    using assms by (simp add: UpsertOrderFeeRecord_def run_stmt_working)
  note ok = upsertOrderFeeRecordSQL_ok [OF sql]
  have key: "same_fee n new" by (simp add: assms(4) fee_values_def same_fee_def mapFeeAmounts_def)
  then have keys: "same_fee new = same_fee n" by (auto simp: same_fee_def fun_eq_iff)
  have "same_fee new ?r"
    by (auto simp: fee_row_after_def dest!: find_member intro: fee_merge_key split: option.split) (simp add: same_fee_def)
  then have "same_fee n ?r" using key by (auto simp: same_fee_def)
  moreover have "case find (same_fee n) (tbFees s) of
      None \<Rightarrow> ?r = new
    | Some old \<Rightarrow>
        if frFeeAsOf old < frFeeAsOf new \<and> (authoritative old \<longrightarrow> authoritative new)
           \<or> frFeeAsOf old = frFeeAsOf new \<and> \<not> authoritative old \<and> authoritative new
        then ?r = new\<lparr>frCreatedAt := frCreatedAt old\<rparr> else ?r = old"
    by (auto simp: fee_row_after_def fee_merge_def fee_replaces_def keys split: option.split)
  moreover have "list_all2 (\<lambda>w w'. if fee_order ?r w then wFee w' = frTotalFee ?r else w' = w) (dbOrders s) (dbOrders t)"
    by (auto simp: ok(3) set_fee_def list_all2_map2 list.rel_refl)
  ultimately show ?thesis using ok(1) by blast
qed

definition demo_fee :: OrderFeeRecord where
  "demo_fee = \<lparr>frOrderFeeRecordPK = 0, frAccountID = ''A1'', frFeeRecordID = ''fee-1'', frTradeDate = ''2024-02-29'',
     frRecordScope = ''order'', frGatewayOrderID = ''gw-1'', frOrderID = 0, frOrderStreamID = [], frFillID = [],
     frSymbol = [], frExchange = [], frTradeSide = [], frBusinessType = [], frOrderAmount = Fin 0, frTurnover = Fin 0,
     frCommission = Fin 0, frStampTax = Fin 0, frTransferFee = Fin 0, frHandlingFee = Fin 0, frRegulatoryFee = Fin 0,
     frSettlementFee = Fin 0, frOtherFee = Fin 0, frTotalFee = Fin 5, frCurrency = ''CNY'', frFeeComplete = True,
     frFeeSource = ''broker'', frFeeAsOf = 5, frSettledAt = zeroTime, frAssociationComplete = True,
     frAdapterContext = None, frOriginMessageID = [], frRequestID = [], frCorrelationID = [], frIdempotencyKey = [],
     frStreamKey = [], frStreamID = [], frRawPayload = orderFeePayload_of [], frCreatedAt = zeroTime,
     frUpdatedAt = zeroTime\<rparr>"

lemma feeRound_values: "feeRound (Fin 5) = Fin 5" "feeRound (Fin 0) = Fin 0"
proof -
  have "round64 5000000 = Fin 5000000" "round64 5 = Fin 5"
    using round64_of_int_pos [of 5000000] round64_of_int_pos [of 5] by simp_all
  moreover have "\<lfloor>10000001 / 2 :: rat\<rfloor> = 5000000" by linarith
  ultimately show "feeRound (Fin 5) = Fin 5" by (simp add: feeRound_def)
  have "\<lfloor>1 / 2 :: rat\<rfloor> = 0" by linarith
  then show "feeRound (Fin 0) = Fin 0" by (simp add: feeRound_def round64_def)
qed

lemma demo_fee_normal: "normalizeOrderFeeRecord demo_fee = Inr demo_fee"
proof -
  have trim: "trimFee demo_fee = demo_fee"
    by (simp add: trimFee_def demo_fee_def firstLedgerValue_def TrimSpace_ascii_word)
  have amounts: "mapFeeAmounts feeRound (demo_fee\<lparr>frTradeDate := ''2024-02-29''\<rparr>) = demo_fee"
    by (simp add: mapFeeAmounts_def demo_fee_def feeRound_values)
  have ok: "list_all feeAmountOk (feeAmounts demo_fee)"
    by (simp add: feeAmounts_def demo_fee_def feeAmountOk_def finite_float_def fzero_def)
  show ?thesis
    using amounts ok by (simp add: normalizeOrderFeeRecord_def trim) 
      (simp add: demo_fee_def demo_date IsZero_def zeroTime_def second_def)
qed

lemma demo_fee_facts:
  "frFeeAsOf demo_fee = 5" "frTotalFee demo_fee = Fin 5" "authoritative demo_fee" "same_fee demo_fee demo_fee"
  by (simp_all add: demo_fee_def authoritative_def same_fee_def)

theorem settled_fee_reaches_order_witness:
  "\<exists>t :: unit ledger_tables. demo_fee \<in> set (tbFees t)
     \<and> list_all2 (\<lambda>w w'. if fee_order demo_fee w then wFee w' = Fin 5 else w' = w) (dbOrders demo_tables) (dbOrders t)"
proof -
  let ?s = "demo_tables\<lparr>tbFees := [demo_fee]\<rparr>"
  let ?new = "fee_values demo_pg (dbServerNow ?s) demo_fee"
  have fits: "list_all money_fits (feeAmounts ?new)" and new: "frFeeAsOf ?new = 5" "same_fee ?new demo_fee"
    by (simp_all add: feeAmounts_def fee_values_def mapFeeAmounts_def demo_pg_def demo_fee_def money_fits_def same_fee_def)
  then obtain t where t: "UpsertOrderFeeRecord \<lparr>zoneDate = (\<lambda>_. []), zoneJson = (\<lambda>_. [])\<rparr> demo_pg demo_fee ?s = (Inr (), t)"
    by (auto simp: UpsertOrderFeeRecord_def demo_fee_normal run_stmt_working upsertOrderFeeRecordSQL_def Let_def)
  from settled_fee_reaches_order [OF _ demo_fee_normal t refl]
  have "demo_fee \<in> set (tbFees t)
     \<and> list_all2 (\<lambda>w w'. if fee_order demo_fee w then wFee w' = Fin 5 else w' = w) (dbOrders demo_tables) (dbOrders t)"
    using new by (auto simp: demo_fee_facts cong: if_cong)
  then show ?thesis by blast
qed

end
