(* ===== verification/Ledger_Sync.thy ===== *)
theory Ledger_Sync
  imports Ledger_Convert
begin

text \<open>
  The synchronisation of gateway messages into the ledger
  (\<^verbatim>\<open>internal/redisstream/ledger_sync.go\<close>). The ledger the code writes through is a record of
  operations on a world \<open>'s\<close>, each of which may fail; the wall clock is one of them. A processing
  step takes the result counted so far and ends with \<open>Inl\<close> when the Go code returns and with \<open>Inr\<close>
  when it goes on. The reasons of a skipped message are kept as error values instead of their
  texts, a reason the code writes itself as \<^const>\<open>ErrPayload\<close>.
\<close>

section \<open>The ledger\<close>

record 's SyncWriter =
  swUpsertAccount :: "Account \<Rightarrow> ('s, unit) act"
  swUpsertOrder :: "Order \<Rightarrow> ('s, unit) act"
  swUpsertOrderCancelAttempt :: "OrderCancelAttempt \<Rightarrow> ('s, unit) act"
  swUpdateOrderStatus :: "OrderEvent \<Rightarrow> ('s, unit) act"
  swAppendOrderEvent :: "OrderEvent \<Rightarrow> StreamRef \<Rightarrow> SourceRef \<Rightarrow> ('s, unit) act"
  swInsertFill :: "Fill \<Rightarrow> StreamRef \<Rightarrow> SourceRef \<Rightarrow> ('s, unit) act"
  swInsertComponentTransfer :: "ComponentTransfer \<Rightarrow> StreamRef \<Rightarrow> SourceRef \<Rightarrow> ('s, unit) act"
  swUpsertOrderFeeRecord :: "OrderFeeRecord \<Rightarrow> ('s, unit) act"
  swListFills :: "FillQuery \<Rightarrow> ('s, Fill list) act"
  swUpsertAssetSnapshot :: "Asset \<Rightarrow> string \<Rightarrow> string \<Rightarrow> assetPayload \<times> string \<Rightarrow> gotime \<Rightarrow> ('s, unit) act"
  swUpsertPosition :: "Position \<Rightarrow> string \<Rightarrow> positionPayload \<times> string \<Rightarrow> gotime \<Rightarrow> ('s, unit) act"
  swDeleteStalePositions :: "string \<Rightarrow> gotime \<Rightarrow> ('s, int) act"
  swArchiveRawStreamMessage :: "json RawStreamMessage \<Rightarrow> ('s, unit) act"
  swAllowSummaryFillSynthesis :: "bool option"
  swClock :: "'s \<Rightarrow> gotime \<times> 's"

section \<open>Results\<close>

record LedgerProcessResult =
  lpSeen :: nat
  lpArchived :: nat
  lpAccounts :: nat
  lpOrders :: nat
  lpOrderEvents :: nat
  lpCancelAttempts :: nat
  lpCancelFailures :: nat
  lpFills :: nat
  lpTransfers :: nat
  lpFees :: nat
  lpAssets :: nat
  lpPositions :: nat
  lpStalePositions :: int
  lpReplies :: nat
  lpSkipped :: nat
  lpSkipReasons :: "error list"
  lpParseErrors :: nat
  lpLedgerErrors :: nat
  lpUnsupported :: nat
  lpDeadLetters :: nat
  lpDataQualityDLQ :: nat
  lpGatewayStatusNormalized :: nat
  lpLastStreamID :: string
  lpLastMessageID :: string
  lpLastEventType :: string
  lpLastAction :: string
  lpLastAccountID :: string
  lpAccountIDs :: "string list"
  lpLastGatewayOID :: string
  lpLastCancelAttempt :: "OrderCancelAttempt option"
  lpCancelFailureItems :: "OrderCancelAttempt list"

definition Result0 :: LedgerProcessResult where
  "Result0 = \<lparr>lpSeen = 0, lpArchived = 0, lpAccounts = 0, lpOrders = 0, lpOrderEvents = 0, lpCancelAttempts = 0,
     lpCancelFailures = 0, lpFills = 0, lpTransfers = 0, lpFees = 0, lpAssets = 0, lpPositions = 0,
     lpStalePositions = 0, lpReplies = 0, lpSkipped = 0, lpSkipReasons = [], lpParseErrors = 0,
     lpLedgerErrors = 0, lpUnsupported = 0, lpDeadLetters = 0, lpDataQualityDLQ = 0,
     lpGatewayStatusNormalized = 0, lpLastStreamID = [], lpLastMessageID = [], lpLastEventType = [],
     lpLastAction = [], lpLastAccountID = [], lpAccountIDs = [], lpLastGatewayOID = [],
     lpLastCancelAttempt = None, lpCancelFailureItems = []\<rparr>"

definition noteAccount :: "string \<Rightarrow> LedgerProcessResult \<Rightarrow> LedgerProcessResult" where
  "noteAccount accountID0 result =
     (let accountID = TrimSpace accountID0
      in if accountID = [] then result
         else if accountID \<in> set (lpAccountIDs result) then result
         else result\<lparr>lpAccountIDs := lpAccountIDs result @ [accountID]\<rparr>)"

text \<open>The two ways a step gives up: the message is skipped, or the ledger failed.\<close>

definition skipWith :: "error \<Rightarrow> LedgerProcessResult \<Rightarrow> LedgerProcessResult" where
  "skipWith e r = r\<lparr>lpSkipped := lpSkipped r + 1, lpSkipReasons := lpSkipReasons r @ [e]\<rparr>"

definition failWith :: "error \<Rightarrow> LedgerProcessResult \<Rightarrow> LedgerProcessResult" where
  "failWith e r = r\<lparr>lpLedgerErrors := lpLedgerErrors r + 1, lpSkipReasons := lpSkipReasons r @ [e]\<rparr>"

definition maxLedgerSkipReasons :: nat where "maxLedgerSkipReasons = 200"

definition addResult :: "LedgerProcessResult \<Rightarrow> LedgerProcessResult \<Rightarrow> LedgerProcessResult" where
  "addResult result other =
     (let r = result
        \<lparr>lpSeen := lpSeen result + lpSeen other, lpArchived := lpArchived result + lpArchived other,
         lpAccounts := lpAccounts result + lpAccounts other, lpOrders := lpOrders result + lpOrders other,
         lpOrderEvents := lpOrderEvents result + lpOrderEvents other,
         lpCancelAttempts := lpCancelAttempts result + lpCancelAttempts other,
         lpCancelFailures := lpCancelFailures result + lpCancelFailures other,
         lpFills := lpFills result + lpFills other, lpTransfers := lpTransfers result + lpTransfers other,
         lpFees := lpFees result + lpFees other, lpAssets := lpAssets result + lpAssets other,
         lpPositions := lpPositions result + lpPositions other, lpReplies := lpReplies result + lpReplies other,
         lpSkipped := lpSkipped result + lpSkipped other,
         lpParseErrors := lpParseErrors result + lpParseErrors other,
         lpLedgerErrors := lpLedgerErrors result + lpLedgerErrors other,
         lpUnsupported := lpUnsupported result + lpUnsupported other,
         lpDeadLetters := lpDeadLetters result + lpDeadLetters other,
         lpDataQualityDLQ := lpDataQualityDLQ result + lpDataQualityDLQ other,
         lpGatewayStatusNormalized := lpGatewayStatusNormalized result + lpGatewayStatusNormalized other,
         lpSkipReasons := lpSkipReasons result @ take (maxLedgerSkipReasons - length (lpSkipReasons result)) (lpSkipReasons other),
         lpLastStreamID := orElse (lpLastStreamID other) (lpLastStreamID result),
         lpLastMessageID := orElse (lpLastMessageID other) (lpLastMessageID result),
         lpLastEventType := orElse (lpLastEventType other) (lpLastEventType result),
         lpLastAction := orElse (lpLastAction other) (lpLastAction result),
         lpLastAccountID := orElse (lpLastAccountID other) (lpLastAccountID result)\<rparr>;
          r1 = fold noteAccount (lpAccountIDs other) r
      in r1\<lparr>lpLastGatewayOID := orElse (lpLastGatewayOID other) (lpLastGatewayOID r1),
            lpLastCancelAttempt := (case lpLastCancelAttempt other of None \<Rightarrow> lpLastCancelAttempt r1 | Some a \<Rightarrow> Some a),
            lpCancelFailureItems := lpCancelFailureItems r1 @ lpCancelFailureItems other\<rparr>)"

section \<open>Steps\<close>

type_synonym 's proc = "LedgerProcessResult \<Rightarrow> 's \<Rightarrow> (LedgerProcessResult + LedgerProcessResult) \<times> 's"

definition stop :: "(LedgerProcessResult \<Rightarrow> LedgerProcessResult) \<Rightarrow> 's proc" where
  "stop f r s = (Inl (f r), s)"

definition count :: "(LedgerProcessResult \<Rightarrow> LedgerProcessResult) \<Rightarrow> 's proc" where
  "count f r s = (Inr (f r), s)"

definition writing :: "('s, 'a) act \<Rightarrow> ('a \<Rightarrow> LedgerProcessResult \<Rightarrow> LedgerProcessResult) \<Rightarrow> 's proc" where
  "writing m f r s = (case m s of (Inl e, s') \<Rightarrow> (Inl (failWith e r), s') | (Inr x, s') \<Rightarrow> (Inr (f x r), s'))"

definition andThen :: "'s proc \<Rightarrow> 's proc \<Rightarrow> 's proc" where
  "andThen p q r s = (case p r s of (Inl r', s') \<Rightarrow> (Inl r', s') | (Inr r', s') \<Rightarrow> q r' s')"

fun eachItem :: "('a \<Rightarrow> 's proc) \<Rightarrow> 'a list \<Rightarrow> 's proc" where
  "eachItem p [] = count id"
| "eachItem p (x # xs) = andThen (p x) (eachItem p xs)"

definition finish :: "'s proc \<Rightarrow> LedgerProcessResult \<Rightarrow> 's \<Rightarrow> LedgerProcessResult \<times> 's" where
  "finish p r s = (case p r s of (Inl r', s') \<Rightarrow> (r', s') | (Inr r', s') \<Rightarrow> (r', s'))"

definition writeAccount :: "'s SyncWriter \<Rightarrow> EntryEnvelope \<Rightarrow> string \<Rightarrow> 's proc" where
  "writeAccount w envelope accountID r s =
     (case swClock w s of (now, s1) \<Rightarrow>
        writing (swUpsertAccount w (accountFromEnvelope now envelope accountID))
          (\<lambda>_ r. r\<lparr>lpAccounts := lpAccounts r + 1\<rparr>) r s1)"

definition writeKnownAccount :: "'s SyncWriter \<Rightarrow> EntryEnvelope \<Rightarrow> string \<Rightarrow> 's proc" where
  "writeKnownAccount w envelope accountID =
     (if accountID \<noteq> [] then writeAccount w envelope accountID else count id)"

section \<open>Summary fills\<close>

definition fillPageQuery :: "string \<Rightarrow> string \<Rightarrow> string \<Rightarrow> nat \<Rightarrow> FillQuery" where
  "fillPageQuery accountID tradeDate gatewayOrderID page =
     \<lparr>fqAccountID = accountID, fqGatewayOrderID = gatewayOrderID, fqSymbol = [], fqExchange = [],
      fqTradeDate = tradeDate, fqDateFrom = [], fqDateTo = [], fqHistory = False, fqStrategyType = [],
      fqStrategyID = [], fqBasketID = [], fqParentOrderID = [], fqT0OrderGroupID = [], fqLimit = 500,
      fqCursor = (if page > 0 then Utoa (page * 500) else [])\<rparr>"

fun fillPages :: "'s SyncWriter \<Rightarrow> (nat \<Rightarrow> FillQuery) \<Rightarrow> nat \<Rightarrow> nat \<Rightarrow> int \<Rightarrow> ('s, int) act" where
  "fillPages w query 0 page acc = ret acc"
| "fillPages w query (Suc n) page acc =
     seq (swListFills w (query page)) (\<lambda>fills.
       let acc' = fold (\<lambda>fill t. wrap64 (t + fQty fill)) fills acc
       in if length fills < 500 then ret acc' else fillPages w query n (Suc page) acc')"

definition existingOrderFillQty :: "'s SyncWriter \<Rightarrow> string \<Rightarrow> string \<Rightarrow> string \<Rightarrow> ('s, int) act" where
  "existingOrderFillQty w accountID tradeDate gatewayOrderID =
     fillPages w (fillPageQuery accountID tradeDate gatewayOrderID) 20 0 0"

text \<open>The number of fills it inserted.\<close>

definition synthesizeOrderSummaryFill ::
    "'s SyncWriter \<Rightarrow> EntryEnvelope \<Rightarrow> Order \<Rightarrow> string \<Rightarrow> ('s, nat) act" where
  "synthesizeOrderSummaryFill w envelope order source =
     (if swAllowSummaryFillSynthesis w = Some False then ret 0
      else if oBusinessType order = BusinessTypeETF
         \<and> (oTradeSide order = TradeSidePurchase \<or> oTradeSide order = TradeSideRedemption) then ret 0
      else let targetQty = orderSummaryFilledQty order
           in if targetQty \<le> 0 then ret 0
              else seq (existingOrderFillQty w (oAccountID order) (oTradeDate order) (oGatewayOrderID order)) (\<lambda>existingQty.
                let missingQty = wrap64 (targetQty - existingQty)
                in if missingQty \<le> 0 then ret 0
                   else if fle (fst (orderSummaryFillPrice order)) fzero
                   then raise (ErrPayload (''synthesize fill '' @ oAccountID order @ ''/'' @ oGatewayOrderID order
                          @ '': missing executable price''))
                   else seq (swInsertFill w (summaryFill envelope order source targetQty existingQty missingQty)
                          (summaryFillStreamRef envelope (oGatewayOrderID order)) (sourceRef envelope)) (\<lambda>_. ret 1)))"

section \<open>Cancel outcomes\<close>

definition cancelStatus :: "EntryEnvelope \<Rightarrow> cancelAttemptPayload \<Rightarrow> string \<Rightarrow> string" where
  "cancelStatus envelope payload defaultStatus =
     (let status = ToLower (TrimSpace (firstNonEmpty [caCancelStatus payload, defaultStatus]))
      in if status = ''failed'' \<and> firstNonEmpty [caCode payload, enCode envelope] = ErrorCancelResponseTimeout
         then ''timeout'' else status)"

definition cancelAttempt :: "EntryEnvelope \<Rightarrow> cancelAttemptPayload \<Rightarrow> string \<Rightarrow> gotime \<Rightarrow> OrderCancelAttempt" where
  "cancelAttempt envelope payload status occurredAt =
     (let counterSessionID = firstNonEmpty [caCounterSessionID payload,
            stringFromMap (enAdapterContext envelope) ''counter_session_id'']
      in \<lparr>atAttemptID = firstNonEmpty [enOriginMessageID envelope, enRequestID envelope, enMessageID envelope,
            enStream envelope @ '':'' @ enStreamID envelope],
          atAccountID = firstNonEmpty [rtAccountID (enRouting envelope), caAccountID payload],
          atTradeDate = tradeDateFromTime occurredAt,
          atGatewayOrderID = firstNonEmpty [caGatewayOrderID payload, enGatewayOrderID envelope],
          atOrderID = caOrderID payload, atOrderStreamID = caOrderStreamID payload,
          atCounterSessionID = counterSessionID, atOriginMessageID = enOriginMessageID envelope,
          atRequestID = enRequestID envelope,
          atCorrelationID = firstNonEmpty [enCorrelationID envelope, enRequestCorrelationID envelope],
          atStatus = status, atCode = firstNonEmpty [caCode payload, enCode envelope],
          atMessage = firstNonEmpty [caMessage payload, enMessage envelope], atRetrySafe = caRetrySafe payload,
          atOrderStateChanged = caOrderStateChanged payload,
          atReconciliationRequired = (caReconciliationRequired payload \<or> status \<noteq> ReplyStatusAccepted),
          atOccurredAt = occurredAt, atStreamKey = enStream envelope, atStreamID = enStreamID envelope,
          atRawPayload = payload,
          atAdapterContext = mergeContextMaps (enAdapterContext envelope)
            (stringContext ''counter_session_id'' counterSessionID)\<rparr>)"

definition noteCancelAttempt :: "OrderCancelAttempt \<Rightarrow> LedgerProcessResult \<Rightarrow> LedgerProcessResult" where
  "noteCancelAttempt ca r =
     (let r1 = r\<lparr>lpCancelAttempts := lpCancelAttempts r + 1\<rparr>;
          r2 = (if atStatus ca \<noteq> ReplyStatusAccepted
                then r1\<lparr>lpCancelFailures := lpCancelFailures r1 + 1,
                        lpCancelFailureItems := lpCancelFailureItems r1 @ [ca]\<rparr> else r1)
      in r2\<lparr>lpLastCancelAttempt := Some ca\<rparr>)"

definition processCancelAttemptEnvelope :: "'s SyncWriter \<Rightarrow> EntryEnvelope \<Rightarrow> string \<Rightarrow> 's proc" where
  "processCancelAttemptEnvelope w envelope defaultStatus r s =
     (case unmarshal cancelAttemptPayload_errs cancelAttemptPayload_of (enPayload envelope) of
        None \<Rightarrow> stop (skipWith (ErrPayload ''decode order cancel outcome'')) r s
      | Some payload \<Rightarrow>
          let accountID = firstNonEmpty [rtAccountID (enRouting envelope), caAccountID payload];
              gatewayOrderID = firstNonEmpty [caGatewayOrderID payload, enGatewayOrderID envelope];
              status = cancelStatus envelope payload defaultStatus;
              occurredAt0 = firstNonZeroTime [parseTime (caOccurredAt payload), enProducedAt envelope];
              (occurredAt, s1) = (if IsZero occurredAt0 then swClock w s else (occurredAt0, s));
              ca = cancelAttempt envelope payload status occurredAt
          in if accountID = [] \<or> gatewayOrderID = []
             then stop (skipWith (ErrPayload ''order cancel outcome missing account_id or gateway_order_id'')) r s1
             else andThen (writeAccount w envelope accountID)
               (writing (swUpsertOrderCancelAttempt w ca) (\<lambda>_. noteCancelAttempt ca))
               (noteAccount accountID r) s1)"

section \<open>Rejections\<close>

definition writeOrderEvent :: "'s SyncWriter \<Rightarrow> EntryEnvelope \<Rightarrow> OrderEvent \<Rightarrow> StreamRef \<Rightarrow> 's proc" where
  "writeOrderEvent w envelope event stream =
     writing (swAppendOrderEvent w event stream (sourceRef envelope))
       (\<lambda>_ r. r\<lparr>lpOrderEvents := lpOrderEvents r + 1\<rparr>)"

definition countOrder :: "LedgerProcessResult \<Rightarrow> LedgerProcessResult" where
  "countOrder r = r\<lparr>lpOrders := lpOrders r + 1\<rparr>"

definition failedGatewayOrderID :: "batchFailure \<Rightarrow> failedOrder \<Rightarrow> string" where
  "failedGatewayOrderID payload failed =
     (let g = TrimSpace (foGatewayOrderID failed)
      in if g = [] \<and> foIndex failed \<ge> 0 \<and> foIndex failed < int (length (bfOrders payload))
         then TrimSpace (opGatewayOrderID (bfOrders payload ! nat (foIndex failed))) else g)"

definition processFailedOrder :: "'s SyncWriter \<Rightarrow> EntryEnvelope \<Rightarrow> batchFailure \<Rightarrow> failedOrder \<Rightarrow> 's proc" where
  "processFailedOrder w envelope payload failed =
     (let gatewayOrderID = failedGatewayOrderID payload failed
      in if gatewayOrderID = [] \<or> blank (rtAccountID (enRouting envelope))
         then count (skipWith (ErrPayload (''batch failed order index '' @ Itoa (foIndex failed)
                @ '' missing account_id or gateway_order_id'')))
         else let event = rejectedOrderEvent envelope gatewayOrderID
                    (firstNonEmpty [foCode failed, enCode envelope])
                    (firstNonEmpty [foMessage failed, enMessage envelope])
                    (enMessageID envelope @ '':batch:'' @ Itoa (foIndex failed));
                  stream = streamRef envelope
              in andThen (writing (swUpdateOrderStatus w event) (\<lambda>_. countOrder))
                   (writeOrderEvent w envelope event (stream\<lparr>srID := srID stream @ ''#failed-'' @ Itoa (foIndex failed)\<rparr>)))"

definition processBatchFailedOrders ::
    "'s SyncWriter \<Rightarrow> EntryEnvelope \<Rightarrow> LedgerProcessResult \<Rightarrow> 's \<Rightarrow> (LedgerProcessResult \<times> nat) \<times> 's" where
  "processBatchFailedOrders w envelope r s =
     (case unmarshal batchFailure_errs batchFailure_of (enPayload envelope) of
        None \<Rightarrow> ((r, 0), s)
      | Some payload \<Rightarrow>
          if bfFailedOrders payload = [] then ((r, 0), s)
          else case finish (eachItem (processFailedOrder w envelope payload) (bfFailedOrders payload)) r s of
                 (r', s') \<Rightarrow> ((r', length (bfFailedOrders payload)), s'))"

definition processRejectedOrderReply :: "'s SyncWriter \<Rightarrow> EntryEnvelope \<Rightarrow> 's proc" where
  "processRejectedOrderReply w envelope =
     (if enAction envelope \<noteq> ActionOrderSubmit \<and> enAction envelope \<noteq> ActionOrderBatchSubmit then stop id
      else let accountID = rtAccountID (enRouting envelope);
               gatewayOrderID = firstNonEmpty [enGatewayOrderID envelope, gatewayOrderIDFromPayload (enPayload envelope)]
           in if accountID = [] \<or> gatewayOrderID = []
              then stop (skipWith (ErrPayload ''rejected order reply missing account_id or gateway_order_id''))
              else case orderErrorInfo envelope of (rejectCode, rejectMessage) \<Rightarrow>
                     let event = rejectedOrderEvent envelope gatewayOrderID rejectCode rejectMessage (enMessageID envelope)
                     in andThen (writing (swUpdateOrderStatus w event) (\<lambda>_. countOrder))
                          (writeOrderEvent w envelope event (streamRef envelope)))"

definition isIndeterminateCommandError :: "EntryEnvelope \<Rightarrow> bool" where
  "isIndeterminateCommandError envelope \<longleftrightarrow>
     (let code = TrimSpace (fst (orderErrorInfo envelope))
      in code = ErrorBrokerNotReady \<or> code = ErrorCommandOutcomeUnknown)"

definition indeterminateCommandSkipReason :: "EntryEnvelope \<Rightarrow> error" where
  "indeterminateCommandSkipReason envelope =
     (case orderErrorInfo envelope of (code, message0) \<Rightarrow>
        let message = (if blank message0 then ''command outcome is not safe to infer'' else message0)
        in ErrPayload (''indeterminate command failure '' @ TrimSpace code @ '': '' @ TrimSpace message))"

section \<open>Replies\<close>

definition cancelReplyStatus :: "EntryEnvelope \<Rightarrow> string" where
  "cancelReplyStatus envelope =
     (let code = TrimSpace (enCode envelope);
          status = (if code = ErrorBrokerNotReady then ''not_ready''
             else if code = ErrorCancelResponseTimeout then ''timeout''
             else if code = ErrorCommandOutcomeUnknown then ''outcome_unknown''
             else ToLower (TrimSpace (enStatus envelope)))
      in if status = ReplyStatusCompleted \<or> status = ReplyStatusPartial then ReplyStatusAccepted else status)"

definition processAssetReply :: "'s SyncWriter \<Rightarrow> EntryEnvelope \<Rightarrow> 's proc" where
  "processAssetReply w envelope =
     (case assetFromReplyEnvelope envelope of
        Inl e \<Rightarrow> stop (skipWith e)
      | Inr (asset, raw) \<Rightarrow>
          andThen (count (noteAccount (asAccountID asset)))
          (andThen (writeAccount w envelope (asAccountID asset))
            (writing (swUpsertAssetSnapshot w asset ''intraday'' ''query'' raw (enProducedAt envelope))
              (\<lambda>_ r. r\<lparr>lpAssets := lpAssets r + 1\<rparr>))))"

definition writePosition :: "'s SyncWriter \<Rightarrow> gotime \<Rightarrow> Position \<times> (positionPayload \<times> string) \<Rightarrow> 's proc" where
  "writePosition w updatedAt pr =
     andThen (count (noteAccount (pAccountID (fst pr))))
       (writing (swUpsertPosition w (fst pr) ''query'' (snd pr) updatedAt)
         (\<lambda>_ r. r\<lparr>lpPositions := lpPositions r + 1\<rparr>))"

definition deleteStale :: "'s SyncWriter \<Rightarrow> EntryEnvelope \<Rightarrow> string \<Rightarrow> 's proc" where
  "deleteStale w envelope accountID =
     (if isCompletedPositionPage envelope \<and> accountID \<noteq> [] \<and> \<not> IsZero (positionQueryStaleCutoff envelope)
      then writing (swDeleteStalePositions w accountID (positionQueryStaleCutoff envelope))
             (\<lambda>deleted r. r\<lparr>lpStalePositions := lpStalePositions r + deleted\<rparr>)
      else count id)"

text \<open>The account of a page is that of its first item.\<close>

definition pageAccount :: "EntryEnvelope \<Rightarrow> string list \<Rightarrow> string" where
  "pageAccount envelope accounts = (case accounts of [] \<Rightarrow> rtAccountID (enRouting envelope) | a # _ \<Rightarrow> a)"

definition processPositionReply :: "'s SyncWriter \<Rightarrow> EntryEnvelope \<Rightarrow> 's proc" where
  "processPositionReply w envelope =
     (case positionsFromReplyEnvelope envelope of
        Inl e \<Rightarrow> stop (skipWith e)
      | Inr positions \<Rightarrow>
          let accountID = pageAccount envelope (map (pAccountID \<circ> fst) positions)
          in andThen (writeKnownAccount w envelope accountID)
             (andThen (eachItem (writePosition w (positionQueryUpdatedAt envelope)) positions)
               (deleteStale w envelope accountID)))"

definition countNormalized :: "ctxmap \<Rightarrow> LedgerProcessResult \<Rightarrow> LedgerProcessResult" where
  "countNormalized ctx r =
     (if hasGatewayStatusNormalization ctx
      then r\<lparr>lpGatewayStatusNormalized := lpGatewayStatusNormalized r + 1\<rparr> else r)"

definition writeSummaryFill :: "'s SyncWriter \<Rightarrow> EntryEnvelope \<Rightarrow> Order \<Rightarrow> string \<Rightarrow> 's proc" where
  "writeSummaryFill w envelope order source =
     writing (synthesizeOrderSummaryFill w envelope order source) (\<lambda>n r. r\<lparr>lpFills := lpFills r + n\<rparr>)"

definition writePageOrder :: "'s SyncWriter \<Rightarrow> EntryEnvelope \<Rightarrow> Order \<Rightarrow> 's proc" where
  "writePageOrder w envelope order =
     andThen (count (noteAccount (oAccountID order) \<circ> countNormalized (oAdapterContext order)))
     (andThen (writing (swUpsertOrder w order) (\<lambda>_. countOrder))
       (writeSummaryFill w envelope order ''order_page''))"

definition processOrderReply :: "'s SyncWriter \<Rightarrow> EntryEnvelope \<Rightarrow> 's proc" where
  "processOrderReply w envelope =
     (case ordersFromReplyEnvelope envelope of
        Inl e \<Rightarrow> stop (skipWith e)
      | Inr orders \<Rightarrow>
          andThen (writeKnownAccount w envelope (pageAccount envelope (map oAccountID orders)))
            (eachItem (writePageOrder w envelope) orders))"

definition writeFill :: "'s SyncWriter \<Rightarrow> EntryEnvelope \<Rightarrow> StreamRef \<Rightarrow> Fill \<Rightarrow> 's proc" where
  "writeFill w envelope stream fill =
     writing (swInsertFill w fill stream (sourceRef envelope)) (\<lambda>_ r. r\<lparr>lpFills := lpFills r + 1\<rparr>)"

definition writeTransfer :: "'s SyncWriter \<Rightarrow> EntryEnvelope \<Rightarrow> StreamRef \<Rightarrow> ComponentTransfer \<Rightarrow> 's proc" where
  "writeTransfer w envelope stream transfer =
     writing (swInsertComponentTransfer w transfer stream (sourceRef envelope))
       (\<lambda>_ r. r\<lparr>lpTransfers := lpTransfers r + 1\<rparr>)"

definition processFillReply :: "'s SyncWriter \<Rightarrow> EntryEnvelope \<Rightarrow> 's proc" where
  "processFillReply w envelope =
     (case fillRecordsFromReplyEnvelope envelope of
        Inl e \<Rightarrow> stop (skipWith e)
      | Inr (fills, transfers) \<Rightarrow>
          andThen (writeKnownAccount w envelope
            (pageAccount envelope (map fAccountID fills @ map tAccountID transfers)))
          (andThen (eachItem (\<lambda>fill. andThen (count (noteAccount (fAccountID fill)))
                (writeFill w envelope (fillPageStreamRef envelope fill) fill)) fills)
            (eachItem (\<lambda>transfer. andThen (count (noteAccount (tAccountID transfer)))
                (writeTransfer w envelope (componentTransferPageStreamRef envelope transfer) transfer)) transfers)))"

definition processFeeReply :: "'s SyncWriter \<Rightarrow> EntryEnvelope \<Rightarrow> 's proc" where
  "processFeeReply w envelope =
     (case feeRecordsFromReplyEnvelope envelope of
        Inl e \<Rightarrow> stop (skipWith e)
      | Inr (fees, accountID) \<Rightarrow>
          andThen (writeKnownAccount w envelope accountID)
            (eachItem (\<lambda>fee. andThen (count (noteAccount (frAccountID fee)))
               (writing (swUpsertOrderFeeRecord w fee) (\<lambda>_ r. r\<lparr>lpFees := lpFees r + 1\<rparr>))) fees))"

definition processPage :: "'s SyncWriter \<Rightarrow> EntryEnvelope \<Rightarrow> 's proc" where
  "processPage w envelope =
     (let action = enAction envelope; resultType = enResultType envelope
      in if action = ActionAccountAsset \<or> resultType = ''asset_page'' then processAssetReply w envelope
         else if action = ActionAccountPositions \<or> resultType = ''position_page'' then processPositionReply w envelope
         else if action = ActionOrderList \<or> resultType = ''order_page'' then processOrderReply w envelope
         else if action = ActionFillList \<or> resultType = ''fill_page'' then processFillReply w envelope
         else if action = ActionFeeList \<or> resultType = ''fee_page'' then processFeeReply w envelope
         else stop id)"

definition replyFailed :: "EntryEnvelope \<Rightarrow> bool" where
  "replyFailed envelope \<longleftrightarrow> enStatus envelope = ReplyStatusRejected \<or> enStatus envelope = ReplyStatusFailed"

text \<open>The part of \<^verbatim>\<open>processReplyEnvelope\<close> after the batch failures.\<close>

definition processOutcome :: "'s SyncWriter \<Rightarrow> EntryEnvelope \<Rightarrow> 's proc" where
  "processOutcome w envelope =
     (if replyFailed envelope
      then (if isIndeterminateCommandError envelope then stop (skipWith (indeterminateCommandSkipReason envelope))
            else processRejectedOrderReply w envelope)
      else processPage w envelope)"

definition processReplyEnvelope :: "'s SyncWriter \<Rightarrow> EntryEnvelope \<Rightarrow> 's proc" where
  "processReplyEnvelope w envelope r s =
     (if enAction envelope = ActionOrderCancel
      then processCancelAttemptEnvelope w envelope (cancelReplyStatus envelope) r s
      else if enAction envelope = ActionOrderBatchSubmit
      then (case processBatchFailedOrders w envelope r s of ((r1, processed), s1) \<Rightarrow>
              if lpLedgerErrors r1 > 0 then stop id r1 s1
              else if processed > 0 \<and> replyFailed envelope then stop id r1 s1
              else processOutcome w envelope r1 s1)
      else processOutcome w envelope r s)"

section \<open>Events\<close>

definition processOrderEvent :: "'s SyncWriter \<Rightarrow> EntryEnvelope \<Rightarrow> 's proc" where
  "processOrderEvent w envelope =
     (case orderEventFromEnvelope envelope of
        Inl e \<Rightarrow> stop (skipWith e)
      | Inr (event, full) \<Rightarrow>
          andThen (count (noteAccount (eAccountID event) \<circ> countNormalized (oAdapterContext (eOrder event))))
          (andThen
            (if full
             then andThen (writeAccount w envelope (eAccountID event))
                  (andThen (writing (swUpsertOrder w (eOrder event)) (\<lambda>_. countOrder))
                    (writeSummaryFill w envelope (eOrder event) ''order.event''))
             else (\<lambda>r s. case swUpdateOrderStatus w event s of
                     (Inl e, s') \<Rightarrow> stop (if is_ErrOrderNotFound_err e then skipWith e else failWith e) r s'
                   | (Inr _, s') \<Rightarrow> count countOrder r s'))
            (writeOrderEvent w envelope event (streamRef envelope))))"

definition processEventEnvelope :: "'s SyncWriter \<Rightarrow> EntryEnvelope \<Rightarrow> 's proc" where
  "processEventEnvelope w envelope =
     (let unsupported = (\<lambda>e r. skipWith e (r\<lparr>lpUnsupported := lpUnsupported r + 1\<rparr>))
      in if enEventType envelope = ''order.event'' then processOrderEvent w envelope
         else if enEventType envelope = ''fill.event''
         then (case fillFromEnvelope envelope of
                 Inl e \<Rightarrow> stop (skipWith e)
               | Inr fill \<Rightarrow> andThen (count (noteAccount (fAccountID fill)))
                   (andThen (writeAccount w envelope (fAccountID fill)) (writeFill w envelope (streamRef envelope) fill)))
         else if enEventType envelope = ''transfer.event'' \<or> enEventType envelope = ''etf_component_transfer.event''
         then (case componentTransferFromEnvelope envelope of
                 Inl e \<Rightarrow> stop (skipWith e)
               | Inr transfer \<Rightarrow> andThen (count (noteAccount (tAccountID transfer)))
                   (andThen (writeAccount w envelope (tAccountID transfer))
                     (writeTransfer w envelope (streamRef envelope) transfer)))
         else if enEventType envelope = ''order.cancel.event''
         then (if enEventName envelope = ''order.cancel.accepted''
               then processCancelAttemptEnvelope w envelope ReplyStatusAccepted
               else if enEventName envelope = ''order.cancel.rejected''
               then processCancelAttemptEnvelope w envelope ReplyStatusRejected
               else stop (unsupported (ErrPayload (''unsupported order.cancel.event event_name '' @ enEventName envelope))))
         else stop (unsupported (ErrPayload (''unsupported event_type '' @ enEventType envelope))))"

section \<open>Entries\<close>

fun parseErrorText :: "error \<Rightarrow> string" where
  "parseErrorText (ErrPayload t) = t"
| "parseErrorText (ErrJSON t) = t"
| "parseErrorText _ = []"

definition archiveParseError ::
    "'s SyncWriter \<Rightarrow> string \<Rightarrow> string \<Rightarrow> (string \<rightharpoonup> stream_value) \<Rightarrow> error \<Rightarrow> ('s, unit) act" where
  "archiveParseError w stream streamID values parseErr s =
     (case swClock w s of (now, s1) \<Rightarrow>
        swArchiveRawStreamMessage w
          \<lparr>rmStreamKey = stream, rmStreamID = streamID, rmOriginMessageID = [], rmRequestID = [],
           rmCorrelationID = [], rmIdempotencyKey = [], rmDirection = directionFromRole (roleFromStream stream),
           rmRole = roleFromStream stream, rmMessageType = [], rmAction = [], rmEventType = [], rmStatus = [],
           rmCode = [], rmAccountID = [], rmGatewayOrderID = [], rmBody = None,
           rmBodyText = (case bodyString (values ''body'') of Some b \<Rightarrow> b | None \<Rightarrow> []),
           rmParseError = parseErrorText parseErr, rmReceivedAt = now\<rparr> s1)"

definition countArchived :: "LedgerProcessResult \<Rightarrow> LedgerProcessResult" where
  "countArchived r = r\<lparr>lpArchived := lpArchived r + 1\<rparr>"

definition archiveEnvelope :: "codec \<Rightarrow> 's SyncWriter \<Rightarrow> EntryEnvelope \<Rightarrow> 's proc" where
  "archiveEnvelope C w envelope r s =
     (case swClock w s of (now, s1) \<Rightarrow>
        writing (swArchiveRawStreamMessage w (rawMessageFromEnvelope now (js_parse C (enBodyText envelope)) envelope))
          (\<lambda>_. countArchived) r s1)"

definition processDeadLetter :: "'s SyncWriter \<Rightarrow> EntryEnvelope \<Rightarrow> 's proc" where
  "processDeadLetter w envelope =
     andThen (count (\<lambda>r. r\<lparr>lpDeadLetters := lpDeadLetters r + 1,
         lpDataQualityDLQ := (if enAction envelope = ''adapter.data_quality'' then lpDataQualityDLQ r + 1
           else lpDataQualityDLQ r)\<rparr>))
       (if TrimSpace (fst (orderErrorInfo envelope)) = ErrorCancelResponseTimeout
        then processCancelAttemptEnvelope w envelope ''timeout'' else stop id)"

definition isEventType :: "string \<Rightarrow> bool" where
  "isEventType t \<longleftrightarrow> t = ''order.event'' \<or> t = ''fill.event'' \<or> t = ''transfer.event''
     \<or> t = ''etf_component_transfer.event''"

definition dispatchEnvelope :: "'s SyncWriter \<Rightarrow> EntryEnvelope \<Rightarrow> 's proc" where
  "dispatchEnvelope w envelope =
     (if roleFromStream (enStream envelope) = SuffixDLQ \<or> enMessageType envelope = ''deadletter''
      then processDeadLetter w envelope
      else if enMessageType envelope = ''reply''
      then andThen (count (\<lambda>r. r\<lparr>lpReplies := lpReplies r + 1\<rparr>)) (processReplyEnvelope w envelope)
      else if enMessageType envelope = ''event'' then processEventEnvelope w envelope
      else if enMessageType envelope = ''heartbeat'' then stop id
      else if isEventType (enEventType envelope) then processEventEnvelope w envelope
      else stop (\<lambda>r. skipWith (ErrPayload (''unsupported message_type '' @ enMessageType envelope))
             (r\<lparr>lpUnsupported := lpUnsupported r + 1\<rparr>)))"

definition entryResult :: "string \<Rightarrow> EntryEnvelope \<Rightarrow> LedgerProcessResult" where
  "entryResult streamID envelope =
     noteAccount (rtAccountID (enRouting envelope))
       (Result0\<lparr>lpSeen := 1, lpLastStreamID := streamID, lpLastMessageID := enMessageID envelope,
          lpLastEventType := enEventType envelope, lpLastAction := enAction envelope,
          lpLastAccountID := rtAccountID (enRouting envelope),
          lpLastGatewayOID := firstNonEmpty [enGatewayOrderID envelope, gatewayOrderIDFromPayload (enPayload envelope)]\<rparr>)"

definition ProcessLedgerEntry ::
    "codec \<Rightarrow> 's SyncWriter \<Rightarrow> string \<Rightarrow> string \<Rightarrow> (string \<rightharpoonup> stream_value) \<Rightarrow> 's \<Rightarrow> LedgerProcessResult \<times> 's" where
  "ProcessLedgerEntry C w stream streamID values s =
     (case DecodeEntry C stream streamID values of
        (envelope, Some err) \<Rightarrow>
          let r = skipWith err (Result0\<lparr>lpSeen := 1, lpLastStreamID := streamID, lpParseErrors := 1\<rparr>)
          in (case archiveParseError w stream streamID values err s of
                (Inl e, s') \<Rightarrow> (failWith e r, s')
              | (Inr _, s') \<Rightarrow> (countArchived r, s'))
      | (envelope, None) \<Rightarrow>
          finish (andThen (archiveEnvelope C w envelope) (dispatchEnvelope w envelope)) (entryResult streamID envelope) s)"

record LedgerStreamReport =
  lsName :: string
  lsRole :: string
  lsStartID :: string
  lsCount :: nat
  lsTotals :: LedgerProcessResult
  lsErrors :: "(string \<times> error list) list"

definition StreamReport0 :: "string \<Rightarrow> string \<Rightarrow> string \<Rightarrow> LedgerStreamReport" where
  "StreamReport0 name role startID =
     \<lparr>lsName = name, lsRole = role, lsStartID = startID, lsCount = 0, lsTotals = Result0, lsErrors = []\<rparr>"

type_synonym xmessage = "string \<times> (string \<rightharpoonup> stream_value)"

definition reportEntry :: "string \<Rightarrow> LedgerProcessResult \<Rightarrow> LedgerStreamReport \<Rightarrow> LedgerStreamReport" where
  "reportEntry streamID entryRes report =
     report\<lparr>lsCount := lsCount report + 1, lsTotals := addResult (lsTotals report) entryRes,
            lsErrors := (if lpSkipReasons entryRes = [] then lsErrors report
               else lsErrors report @ [(streamID, lpSkipReasons entryRes)])\<rparr>"

fun processMessages ::
    "codec \<Rightarrow> 's SyncWriter \<Rightarrow> string \<Rightarrow> xmessage list \<Rightarrow> LedgerStreamReport \<Rightarrow> 's \<Rightarrow> LedgerStreamReport \<times> 's" where
  "processMessages C w streamName [] report s = (report, s)"
| "processMessages C w streamName (m # ms) report s =
     (case ProcessLedgerEntry C w streamName (fst m) (snd m) s of
        (entryRes, s') \<Rightarrow> processMessages C w streamName ms (reportEntry (fst m) entryRes report) s')"

definition processLedgerStreamMessages ::
    "codec \<Rightarrow> 's SyncWriter \<Rightarrow> string \<Rightarrow> string \<Rightarrow> string \<Rightarrow> xmessage list \<Rightarrow> 's \<Rightarrow> LedgerStreamReport \<times> 's" where
  "processLedgerStreamMessages C w streamName role startID messages s =
     processMessages C w streamName messages (StreamReport0 streamName role startID) s"

end
