(* ===== verification/Sync_Laws.thy ===== *)
theory Sync_Laws
  imports Ledger_Sync
begin

text \<open>
  What the synchronisation of an entry guarantees for every ledger and every message. A calculus of
  triples over processing steps carries the proofs: \<open>triple P p Q R\<close> says that from a result in \<open>P\<close>
  the step returns in \<open>Q\<close> or goes on in \<open>R\<close>.
\<close>

section \<open>Triples\<close>

definition triple ::
    "(LedgerProcessResult \<Rightarrow> bool) \<Rightarrow> 's proc \<Rightarrow> (LedgerProcessResult \<Rightarrow> bool) \<Rightarrow> (LedgerProcessResult \<Rightarrow> bool) \<Rightarrow> bool"
  where
  "triple P p Q R \<longleftrightarrow>
     (\<forall>r s. P r \<longrightarrow> (case fst (p r s) of Inl r' \<Rightarrow> Q r' | Inr r' \<Rightarrow> R r'))"

named_theorems triple_intro \<open>composition rules of the step calculus\<close>

lemma triple_stop [triple_intro]: "(\<And>r. P r \<Longrightarrow> Q (f r)) \<Longrightarrow> triple P (stop f) Q R"
  by (simp add: triple_def stop_def)

lemma triple_count [triple_intro]: "(\<And>r. P r \<Longrightarrow> R (f r)) \<Longrightarrow> triple P (count f) Q R"
  by (simp add: triple_def count_def)

lemma triple_writing [triple_intro]:
  "(\<And>e r. P r \<Longrightarrow> Q (failWith e r)) \<Longrightarrow> (\<And>x r. P r \<Longrightarrow> R (f x r)) \<Longrightarrow> triple P (writing m f) Q R"
  by (auto simp: triple_def writing_def split: prod.splits sum.splits)

lemma triple_andThen [triple_intro]:
  assumes "triple P p Q M" and "triple M q Q R"
  shows "triple P (andThen p q) Q R"
  unfolding triple_def
proof (intro allI impI)
  fix r s
  assume "P r"
  with assms(1) have p: "case fst (p r s) of Inl r' \<Rightarrow> Q r' | Inr r' \<Rightarrow> M r'" by (simp add: triple_def)
  obtain v s' where v: "p r s = (v, s')" by (cases "p r s")
  show "case fst (andThen p q r s) of Inl r' \<Rightarrow> Q r' | Inr r' \<Rightarrow> R r'"
  proof (cases v)
    case (Inl r')
    with p v show ?thesis by (simp add: andThen_def)
  next
    case (Inr r')
    with p v assms(2) show ?thesis by (simp add: andThen_def triple_def)
  qed
qed

lemma triple_eachItem [triple_intro]: "(\<And>x. triple P (p x) Q P) \<Longrightarrow> triple P (eachItem p xs) Q P"
  by (induction xs) (auto intro: triple_andThen triple_count)

lemma triple_if [triple_intro]: "triple P p Q R \<Longrightarrow> triple P q Q R \<Longrightarrow> triple P (if b then p else q) Q R"
  by simp

lemma triple_sum [triple_intro]:
  "(\<And>e. triple P (f e) Q R) \<Longrightarrow> (\<And>x. triple P (g x) Q R) \<Longrightarrow> triple P (case v of Inl e \<Rightarrow> f e | Inr x \<Rightarrow> g x) Q R"
  by (cases v) simp_all

lemma triple_option [triple_intro]:
  "triple P f Q R \<Longrightarrow> (\<And>x. triple P (g x) Q R) \<Longrightarrow> triple P (case v of None \<Rightarrow> f | Some x \<Rightarrow> g x) Q R"
  by (cases v) simp_all

lemma triple_prod [triple_intro]:
  "(\<And>x y. triple P (f x y) Q R) \<Longrightarrow> triple P (case v of (x, y) \<Rightarrow> f x y) Q R"
  by (cases v) simp

lemma tripleD:
  assumes "triple P p Q R" and "P r" and "p r s = (v, s')"
  shows "case v of Inl r' \<Rightarrow> Q r' | Inr r' \<Rightarrow> R r'"
  using assms unfolding triple_def by (metis fst_conv)

lemma tripleI:
  assumes "\<And>r s v s'. P r \<Longrightarrow> p r s = (v, s') \<Longrightarrow> case v of Inl r' \<Rightarrow> Q r' | Inr r' \<Rightarrow> R r'"
  shows "triple P p Q R"
  using assms unfolding triple_def by (metis surjective_pairing)

lemma triple_weaken:
  assumes "triple P p Q R" and "\<And>r. R r \<Longrightarrow> R' r"
  shows "triple P p Q R'"
  by (rule tripleI, drule (1) tripleD [OF assms(1)]) (auto split: sum.splits intro: assms(2))

lemma triple_finish:
  assumes "triple P p Q Q" and "P r"
  shows "Q (fst (finish p r s))"
  using tripleD [OF assms, of s "fst (p r s)" "snd (p r s)"] by (auto simp: finish_def split: prod.splits sum.splits)

text \<open>A step that reads the clock first.\<close>

lemma triple_clock [triple_intro]:
  assumes "\<And>now. triple P (p now) Q R"
  shows "triple P (\<lambda>r s. case c s of (now, s1) \<Rightarrow> p now r s1) Q R"
  by (rule tripleI) (auto dest: tripleD [OF assms] split: prod.splits)

section \<open>What a result tells\<close>

text \<open>
  A contract that every step of the processing keeps: \<open>Going\<close> holds while an entry is processed,
  \<open>Done\<close> when its processing ends. The steps only skip, fail, note an account, record a cancel
  outcome, and change counters that no contract may depend on.
\<close>

definition uncounted :: "LedgerProcessResult \<Rightarrow> LedgerProcessResult" where
  "uncounted r = r\<lparr>lpAccounts := 0, lpOrders := 0, lpOrderEvents := 0, lpFills := 0, lpTransfers := 0, lpFees := 0,
     lpAssets := 0, lpPositions := 0, lpStalePositions := 0, lpReplies := 0, lpUnsupported := 0, lpDeadLetters := 0,
     lpDataQualityDLQ := 0, lpGatewayStatusNormalized := 0\<rparr>"

locale entry_contract =
  fixes Going :: "LedgerProcessResult \<Rightarrow> bool" and Done :: "LedgerProcessResult \<Rightarrow> bool"
  assumes going_counters: "Going r \<Longrightarrow> uncounted r' = uncounted r \<Longrightarrow> Going r'"
    and going_account: "Going r \<Longrightarrow> Going (noteAccount a r)"
    and going_cancel: "Going r \<Longrightarrow> Going (noteCancelAttempt ca r)"
    and going_skip: "Going r \<Longrightarrow> Going (skipWith e r)"
    and going_done: "Going r \<Longrightarrow> Done r"
    and fail_done: "Going r \<Longrightarrow> Done (failWith e r)"
    and done_going: "Done r \<Longrightarrow> lpLedgerErrors r = 0 \<Longrightarrow> Going r"
begin

lemma going_update:
  assumes "Going r"
  shows "Going (r\<lparr>lpAccounts := n\<rparr>)" "Going (r\<lparr>lpOrders := n\<rparr>)" "Going (r\<lparr>lpOrderEvents := n\<rparr>)"
    "Going (r\<lparr>lpFills := n\<rparr>)" "Going (r\<lparr>lpTransfers := n\<rparr>)" "Going (r\<lparr>lpFees := n\<rparr>)" "Going (r\<lparr>lpAssets := n\<rparr>)"
    "Going (r\<lparr>lpPositions := n\<rparr>)" "Going (r\<lparr>lpStalePositions := i\<rparr>)" "Going (r\<lparr>lpReplies := n\<rparr>)"
    "Going (r\<lparr>lpUnsupported := n\<rparr>)" "Going (r\<lparr>lpGatewayStatusNormalized := n\<rparr>)"
    "Going (r\<lparr>lpDeadLetters := n, lpDataQualityDLQ := m\<rparr>)"
  using assms by (auto intro!: going_counters [OF assms] simp: uncounted_def)

lemma going_order: "Going r \<Longrightarrow> Going (countOrder r)"
  by (simp add: countOrder_def going_update)

lemma going_normalized: "Going r \<Longrightarrow> Going (countNormalized ctx r)"
  by (simp add: countNormalized_def going_update)

lemma going_id: "Going r \<Longrightarrow> Going (id r)"
  by simp

lemma going_comp: "(\<And>r. Going r \<Longrightarrow> Going (f r)) \<Longrightarrow> (\<And>r. Going r \<Longrightarrow> Going (g r)) \<Longrightarrow> Going r \<Longrightarrow> Going ((f \<circ> g) r)"
  by simp

lemma skip_done: "Going r \<Longrightarrow> Done (skipWith e r)"
  by (intro going_done going_skip)

lemmas going = going_update going_account going_cancel going_skip going_order going_normalized going_id going_comp

text \<open>Every step keeps the contract.\<close>

abbreviation keeping :: "'s proc \<Rightarrow> bool" where
  "keeping p \<equiv> triple Going p Done Going"

lemma k_stop: "(\<And>r. Going r \<Longrightarrow> Going (f r)) \<Longrightarrow> keeping (stop f)"
  by (intro triple_stop going_done)

lemma k_count: "(\<And>r. Going r \<Longrightarrow> Going (f r)) \<Longrightarrow> keeping (count f)"
  by (intro triple_count)

lemma k_writing: "(\<And>x r. Going r \<Longrightarrow> Going (f x r)) \<Longrightarrow> keeping (writing m f)"
  by (intro triple_writing fail_done)

lemma k_andThen: "keeping p \<Longrightarrow> keeping q \<Longrightarrow> keeping (andThen p q)"
  by (rule triple_andThen)

lemmas rules = k_stop k_count k_writing k_andThen triple_eachItem triple_if triple_sum triple_option triple_prod

lemma k_account: "keeping (writeAccount w e a)"
  unfolding writeAccount_def [abs_def] by (intro triple_clock rules going)

lemma k_known: "keeping (writeKnownAccount w e a)"
  unfolding writeKnownAccount_def by (intro rules k_account going)

lemma k_summary: "keeping (writeSummaryFill w e ord src)"
  unfolding writeSummaryFill_def by (intro rules going)

lemma k_event: "keeping (writeOrderEvent w e ev st)"
  unfolding writeOrderEvent_def by (intro rules going)

lemma k_cancel: "keeping (processCancelAttemptEnvelope w e d)"
proof (rule tripleI)
  fix r s v s'
  assume r: "Going r" and v: "processCancelAttemptEnvelope w e d r s = (v, s')"
  have wr: "keeping (andThen (writeAccount w e a) (writing (swUpsertOrderCancelAttempt w ca) (\<lambda>_. noteCancelAttempt ca)))"
    for a ca by (intro rules k_account going)
  note written = tripleD [OF wr going_account [OF r]]
  show "case v of Inl r' \<Rightarrow> Done r' | Inr r' \<Rightarrow> Going r'"
    using v r
    by (auto simp: processCancelAttemptEnvelope_def Let_def stop_def
        simp del: firstNonEmpty.simps firstNonZeroTime.simps
        split: option.splits prod.splits if_splits intro: skip_done dest!: written)
qed

lemma k_failed: "keeping (processFailedOrder w e pl f)"
  unfolding processFailedOrder_def Let_def by (intro rules k_event going)

lemma batchFailures:
  assumes "Going r" and "processBatchFailedOrders w e r s = ((r', n), s')"
  shows "Done r'"
proof -
  have "triple Going (eachItem (processFailedOrder w e pl) fs) Done Done" for pl fs
    by (rule triple_weaken [OF triple_eachItem [OF k_failed] going_done])
  then have "Done (fst (finish (eachItem (processFailedOrder w e pl) fs) r s))" for pl fs
    using assms(1) by (rule triple_finish)
  then have "Done (fst (fst (processBatchFailedOrders w e r s)))"
    using going_done [OF assms(1)] by (simp add: processBatchFailedOrders_def split_beta split: option.split)
  then show ?thesis using assms(2) by simp
qed

lemma k_rejected: "keeping (processRejectedOrderReply w e)"
  unfolding processRejectedOrderReply_def Let_def by (intro rules k_event going)

lemma k_page: "keeping (processPage w e)"
  unfolding processPage_def processAssetReply_def processPositionReply_def processOrderReply_def processFillReply_def
    processFeeReply_def writePosition_def deleteStale_def writePageOrder_def writeFill_def writeTransfer_def Let_def
  by (intro rules k_account k_known k_summary going)

lemma k_outcome: "keeping (processOutcome w e)"
  unfolding processOutcome_def by (intro rules k_rejected k_page going)

lemma k_reply: "keeping (processReplyEnvelope w e)"
proof (rule tripleI)
  fix r s v s'
  assume r: "Going r" and v: "processReplyEnvelope w e r s = (v, s')"
  obtain r1 n s1 where b: "processBatchFailedOrders w e r s = ((r1, n), s1)"
    by (metis surjective_pairing)
  then have "Done r1" by (rule batchFailures [OF r])
  then have r1: "lpLedgerErrors r1 = 0 \<Longrightarrow> Going r1" by (rule done_going)
  show "case v of Inl r' \<Rightarrow> Done r' | Inr r' \<Rightarrow> Going r'"
    using v r r1 \<open>Done r1\<close> tripleD [OF k_outcome r] tripleD [OF k_outcome r1] tripleD [OF k_cancel r]
    by (auto simp: processReplyEnvelope_def b stop_def split: if_splits)
qed

lemma k_order_event: "keeping (processOrderEvent w e)"
proof -
  have "keeping (\<lambda>r s. case swUpdateOrderStatus w ev s of
       (Inl e, s') \<Rightarrow> stop (if is_ErrOrderNotFound_err e then skipWith e else failWith e) r s'
     | (Inr _, s') \<Rightarrow> count countOrder r s')" for ev
    by (rule tripleI) (auto simp: stop_def count_def split: prod.splits sum.splits if_splits
        intro: going_done going_skip fail_done going_order)
  then show ?thesis
    unfolding processOrderEvent_def by (intro rules k_account k_summary k_event going)
qed

lemma k_unsupported: "Going r \<Longrightarrow> Going (skipWith e (r\<lparr>lpUnsupported := n\<rparr>))"
  by (intro going)

lemma k_dispatch: "keeping (dispatchEnvelope w e)"
  unfolding dispatchEnvelope_def processDeadLetter_def processEventEnvelope_def writeFill_def writeTransfer_def Let_def
  by (intro rules k_reply k_cancel k_order_event k_account k_unsupported going)

end

section \<open>Tallies\<close>

text \<open>The tallies of a result while its entry is processed, with at most \<open>n\<close> failures of the ledger: every skip
  and every failure left one reason, the accounts are distinct and trimmed, and the failed
  cancel outcomes are listed.\<close>

definition clean_ids :: "string list \<Rightarrow> bool" where
  "clean_ids as \<longleftrightarrow> distinct as \<and> (\<forall>a \<in> set as. a \<noteq> [] \<and> TrimSpace a = a)"

definition tallied :: "nat \<Rightarrow> LedgerProcessResult \<Rightarrow> bool" where
  "tallied n r \<longleftrightarrow> lpSeen r = 1 \<and> lpArchived r = 1 \<and> lpParseErrors r = 0 \<and> lpLedgerErrors r \<le> n
     \<and> length (lpSkipReasons r) = lpSkipped r + lpLedgerErrors r
     \<and> clean_ids (lpAccountIDs r)
     \<and> lpCancelFailures r = length (lpCancelFailureItems r) \<and> lpCancelFailures r \<le> lpCancelAttempts r"

lemma noteAccount_fields [simp]:
  "lpSeen (noteAccount a r) = lpSeen r" "lpArchived (noteAccount a r) = lpArchived r"
  "lpParseErrors (noteAccount a r) = lpParseErrors r" "lpLedgerErrors (noteAccount a r) = lpLedgerErrors r"
  "lpSkipReasons (noteAccount a r) = lpSkipReasons r" "lpSkipped (noteAccount a r) = lpSkipped r"
  "lpCancelFailures (noteAccount a r) = lpCancelFailures r" "lpCancelAttempts (noteAccount a r) = lpCancelAttempts r"
  "lpCancelFailureItems (noteAccount a r) = lpCancelFailureItems r"
  "lpStalePositions (noteAccount a r) = lpStalePositions r" "lpLastStreamID (noteAccount a r) = lpLastStreamID r"
  by (simp_all add: noteAccount_def Let_def)

lemma noteAccount_ids: "clean_ids (lpAccountIDs r) \<Longrightarrow> clean_ids (lpAccountIDs (noteAccount a r))"
  by (auto simp: noteAccount_def Let_def clean_ids_def)

lemma uncounted_same:
  assumes "uncounted r' = uncounted r"
  shows "lpSeen r' = lpSeen r" "lpArchived r' = lpArchived r" "lpParseErrors r' = lpParseErrors r"
    "lpLedgerErrors r' = lpLedgerErrors r" "lpSkipReasons r' = lpSkipReasons r" "lpSkipped r' = lpSkipped r"
    "lpAccountIDs r' = lpAccountIDs r" "lpCancelFailures r' = lpCancelFailures r"
    "lpCancelAttempts r' = lpCancelAttempts r" "lpCancelFailureItems r' = lpCancelFailureItems r"
  using arg_cong [OF assms, of lpSeen] arg_cong [OF assms, of lpArchived] arg_cong [OF assms, of lpParseErrors]
    arg_cong [OF assms, of lpLedgerErrors] arg_cong [OF assms, of lpSkipReasons] arg_cong [OF assms, of lpSkipped]
    arg_cong [OF assms, of lpAccountIDs] arg_cong [OF assms, of lpCancelFailures]
    arg_cong [OF assms, of lpCancelAttempts] arg_cong [OF assms, of lpCancelFailureItems]
  by (simp_all add: uncounted_def)

lemma tallied_cancel: "tallied n r \<Longrightarrow> tallied n (noteCancelAttempt ca r)"
  by (auto simp: tallied_def noteCancelAttempt_def Let_def)

lemma tallied_account: "tallied n r \<Longrightarrow> tallied n (noteAccount a r)"
  by (simp add: tallied_def noteAccount_ids)

lemma tallied_counters:
  assumes "tallied n r" and "uncounted r' = uncounted r"
  shows "tallied n r'"
  using assms(1) by (simp add: tallied_def uncounted_same [OF assms(2)])

lemma tallied_skip: "tallied n r \<Longrightarrow> tallied n (skipWith e r)"
  by (simp add: tallied_def skipWith_def)

lemma tallied_fail: "tallied 0 r \<Longrightarrow> tallied 1 (failWith e r)"
  by (simp add: tallied_def failWith_def)

lemma tallied_more: "tallied 0 r \<Longrightarrow> tallied 1 r"
  by (simp add: tallied_def)

lemma tallied_clean: "tallied 1 r \<Longrightarrow> lpLedgerErrors r = 0 \<Longrightarrow> tallied 0 r"
  by (simp add: tallied_def)

interpretation tally: entry_contract "tallied 0" "tallied 1"
  by unfold_locales
    (fact tallied_counters tallied_account tallied_cancel tallied_skip tallied_more tallied_fail tallied_clean)+

text \<open>The result of any entry.\<close>

definition entry_tallied :: "LedgerProcessResult \<Rightarrow> bool" where
  "entry_tallied r \<longleftrightarrow> lpSeen r = 1 \<and> lpArchived r \<le> 1 \<and> lpLedgerErrors r \<le> 1
     \<and> (lpArchived r = 1 \<or> lpLedgerErrors r = 1) \<and> lpParseErrors r \<le> lpSkipped r
     \<and> length (lpSkipReasons r) = lpSkipped r + lpLedgerErrors r
     \<and> clean_ids (lpAccountIDs r)
     \<and> lpCancelFailures r = length (lpCancelFailureItems r) \<and> lpCancelFailures r \<le> lpCancelAttempts r"

lemma entryResult_fields:
  "lpSeen (entryResult i e) = 1" "lpArchived (entryResult i e) = 0" "lpParseErrors (entryResult i e) = 0"
  "lpLedgerErrors (entryResult i e) = 0" "lpSkipReasons (entryResult i e) = []" "lpSkipped (entryResult i e) = 0"
  "lpCancelFailures (entryResult i e) = 0" "lpCancelAttempts (entryResult i e) = 0"
  "lpCancelFailureItems (entryResult i e) = []" "lpLastStreamID (entryResult i e) = i"
  by (simp_all add: entryResult_def Result0_def)

lemma entryResult_ids [simp]: "clean_ids (lpAccountIDs (entryResult i e))"
  unfolding entryResult_def by (intro noteAccount_ids) (simp add: Result0_def clean_ids_def)

lemma archived_tallied: "tallied 0 (countArchived (entryResult i e))"
  by (simp add: tallied_def countArchived_def entryResult_fields)

lemma unarchived_tallied: "entry_tallied (failWith err (entryResult i e))"
  by (simp add: entry_tallied_def failWith_def entryResult_fields)

lemma entry_tally: "entry_tallied (fst (ProcessLedgerEntry C w stream i vals s))"
proof (cases "DecodeEntry C stream i vals")
  case (Pair e v)
  show ?thesis
  proof (cases v)
    case (Some err)
    then show ?thesis
      by (auto simp: ProcessLedgerEntry_def Pair entry_tallied_def skipWith_def failWith_def countArchived_def
          Result0_def clean_ids_def Let_def split: prod.splits sum.splits)
  next
    case None
    have "triple (\<lambda>r. r = entryResult i e) (archiveEnvelope C w e) entry_tallied (tallied 0)"
      unfolding archiveEnvelope_def [abs_def]
      by (intro triple_clock triple_writing) (simp_all add: unarchived_tallied archived_tallied)
    moreover have "triple (tallied 0) (dispatchEnvelope w e) entry_tallied entry_tallied"
      by (rule tripleI, drule (1) tripleD [OF tally.k_dispatch])
        (auto simp: tallied_def entry_tallied_def split: sum.splits)
    ultimately have "triple (\<lambda>r. r = entryResult i e) (andThen (archiveEnvelope C w e) (dispatchEnvelope w e))
        entry_tallied entry_tallied"
      by (rule triple_andThen)
    from triple_finish [OF this refl] show ?thesis by (simp add: ProcessLedgerEntry_def Pair None)
  qed
qed

section \<open>Batches\<close>

lemma addResult_fields [simp]:
  "lpSeen (addResult r q) = lpSeen r + lpSeen q" "lpArchived (addResult r q) = lpArchived r + lpArchived q"
  "lpSkipped (addResult r q) = lpSkipped r + lpSkipped q"
  "lpLedgerErrors (addResult r q) = lpLedgerErrors r + lpLedgerErrors q"
  "lpStalePositions (addResult r q) = lpStalePositions r"
  "lpSkipReasons (addResult r q) = lpSkipReasons r @ take (maxLedgerSkipReasons - length (lpSkipReasons r)) (lpSkipReasons q)"
  "lpLastStreamID (addResult r q) = orElse (lpLastStreamID q) (lpLastStreamID r)"
proof -
  have "lpSeen (fold noteAccount as x) = lpSeen x" "lpArchived (fold noteAccount as x) = lpArchived x"
    "lpSkipped (fold noteAccount as x) = lpSkipped x" "lpLedgerErrors (fold noteAccount as x) = lpLedgerErrors x"
    "lpStalePositions (fold noteAccount as x) = lpStalePositions x"
    "lpSkipReasons (fold noteAccount as x) = lpSkipReasons x"
    "lpLastStreamID (fold noteAccount as x) = lpLastStreamID x" for as x
    by (induction as arbitrary: x) auto
  then show "lpSeen (addResult r q) = lpSeen r + lpSeen q" "lpArchived (addResult r q) = lpArchived r + lpArchived q"
    "lpSkipped (addResult r q) = lpSkipped r + lpSkipped q"
    "lpLedgerErrors (addResult r q) = lpLedgerErrors r + lpLedgerErrors q"
    "lpStalePositions (addResult r q) = lpStalePositions r"
    "lpSkipReasons (addResult r q) = lpSkipReasons r @ take (maxLedgerSkipReasons - length (lpSkipReasons r)) (lpSkipReasons q)"
    "lpLastStreamID (addResult r q) = orElse (lpLastStreamID q) (lpLastStreamID r)"
    by (simp_all add: addResult_def Let_def)
qed

lemma fold_noteAccount_ids:
  "clean_ids (lpAccountIDs r) \<Longrightarrow> clean_ids (lpAccountIDs (fold noteAccount as r))"
  by (induction as arbitrary: r) (simp_all add: noteAccount_ids)

lemma addResult_ids: "clean_ids (lpAccountIDs r) \<Longrightarrow> clean_ids (lpAccountIDs (addResult r q))"
  by (simp add: addResult_def Let_def fold_noteAccount_ids)

text \<open>The report of a batch of messages.\<close>

definition report_exact :: "nat \<Rightarrow> LedgerStreamReport \<Rightarrow> bool" where
  "report_exact n rep \<longleftrightarrow> lsCount rep = n \<and> lpSeen (lsTotals rep) = n
     \<and> lpArchived (lsTotals rep) \<le> n \<and> n \<le> lpArchived (lsTotals rep) + lpLedgerErrors (lsTotals rep)
     \<and> lpSkipped (lsTotals rep) + lpLedgerErrors (lsTotals rep) = (\<Sum>(i, es) \<leftarrow> lsErrors rep. length es)
     \<and> length (lpSkipReasons (lsTotals rep)) \<le> maxLedgerSkipReasons \<and> clean_ids (lpAccountIDs (lsTotals rep))"

lemma report_exact_step:
  assumes "report_exact n rep" and "entry_tallied r"
  shows "report_exact (Suc n) (reportEntry i r rep)"
  using assms addResult_ids [of "lsTotals rep" r]
  by (auto simp: report_exact_def entry_tallied_def reportEntry_def)

lemma processMessages_exact:
  "report_exact n rep \<Longrightarrow> report_exact (n + length ms) (fst (processMessages C w st ms rep s))"
proof (induction ms arbitrary: n rep s)
  case (Cons m ms)
  obtain r s' where r: "ProcessLedgerEntry C w st (fst m) (snd m) s = (r, s')" by fastforce
  have "entry_tallied r" using entry_tally [of C w st "fst m" "snd m" s] by (simp add: r)
  from Cons.IH [OF report_exact_step [OF Cons.prems this]] show ?case by (simp add: r)
qed simp

section \<open>Properties\<close>

text \<open>C12: Nothing that happens to an entry is silent. For every ledger, whatever fails, and every
  entry: it is archived, or the one failure of the ledger is counted; processing ends at the first
  failure; every skip and every failure has its reason; the accounts noted for the refresh are
  distinct, trimmed and not empty; and every cancel that was not accepted is listed.\<close>

theorem entry_accounted:
  "case ProcessLedgerEntry C w stream streamID vals s of (r, s') \<Rightarrow>
     lpSeen r = 1 \<and> lpArchived r \<le> 1 \<and> lpLedgerErrors r \<le> 1 \<and> (lpArchived r = 1 \<or> lpLedgerErrors r = 1)
     \<and> length (lpSkipReasons r) = lpSkipped r + lpLedgerErrors r \<and> clean_ids (lpAccountIDs r)
     \<and> lpCancelFailures r = length (lpCancelFailureItems r) \<and> lpCancelFailures r \<le> lpCancelAttempts r"
  using entry_tally [of C w stream streamID vals s] by (simp add: entry_tallied_def split_beta)

text \<open>The report of a batch is exact: it counts every message; every message was archived or
  counted as a failure of the ledger; the errors of the report hold a reason for every skip and
  every failure; the totals keep at most 200 reasons; and the accounts are distinct.\<close>

theorem stream_report_exact:
  "case processLedgerStreamMessages C w name role startID messages s of (rep, s') \<Rightarrow>
     lsCount rep = length messages \<and> lpSeen (lsTotals rep) = length messages
     \<and> lpArchived (lsTotals rep) \<le> length messages
     \<and> length messages \<le> lpArchived (lsTotals rep) + lpLedgerErrors (lsTotals rep)
     \<and> lpSkipped (lsTotals rep) + lpLedgerErrors (lsTotals rep) = (\<Sum>(i, es) \<leftarrow> lsErrors rep. length es)
     \<and> length (lpSkipReasons (lsTotals rep)) \<le> 200 \<and> clean_ids (lpAccountIDs (lsTotals rep))"
proof -
  have "report_exact 0 (StreamReport0 name role startID)"
    by (simp add: report_exact_def StreamReport0_def Result0_def clean_ids_def)
  from processMessages_exact [OF this, of messages C w name s] show ?thesis
    by (simp add: processLedgerStreamMessages_def report_exact_def maxLedgerSkipReasons_def split_beta)
qed

text \<open>A message that could not be archived changes nothing else: when archiving fails, processing
  ends there, with the world archiving left and the failure as the only reason.\<close>

theorem archive_failure_stops:
  assumes "DecodeEntry C stream streamID vals = (e, None)" and "swClock w s = (now, s1)"
    and "swArchiveRawStreamMessage w (rawMessageFromEnvelope now (js_parse C (enBodyText e)) e) s1 = (Inl err, s2)"
  shows "ProcessLedgerEntry C w stream streamID vals s = (failWith err (entryResult streamID e), s2)"
  using assms by (simp add: ProcessLedgerEntry_def archiveEnvelope_def andThen_def writing_def finish_def)

text \<open>A batch reply that lists children which failed; these are rejected one by one, whatever their code.\<close>

definition lists_failed_children :: "EntryEnvelope \<Rightarrow> bool" where
  "lists_failed_children e \<longleftrightarrow> enAction e = ActionOrderBatchSubmit
     \<and> (case unmarshal batchFailure_errs batchFailure_of (enPayload e) of
          None \<Rightarrow> False | Some payload \<Rightarrow> bfFailedOrders payload \<noteq> [])"

lemma no_failed_children:
  "enAction e = ActionOrderBatchSubmit \<Longrightarrow> \<not> lists_failed_children e
   \<Longrightarrow> processBatchFailedOrders w e r s = ((r, 0), s)"
  by (auto simp: lists_failed_children_def processBatchFailedOrders_def split: option.splits)

lemma indeterminate_reply_skipped:
  assumes "enAction e \<noteq> ActionOrderCancel" and "\<not> lists_failed_children e" and "replyFailed e"
    and "isIndeterminateCommandError e" and "lpLedgerErrors r = 0"
  shows "processReplyEnvelope w e r s = (Inl (skipWith (indeterminateCommandSkipReason e) r), s)"
  using assms no_failed_children [OF _ assms(2), of w r s]
  by (simp add: processReplyEnvelope_def processOutcome_def stop_def)

text \<open>C28: A failed command whose outcome is unknown is not taken for a rejection. A rejected or failed
  reply that carries \<^verbatim>\<open>BROKER_NOT_READY\<close> or \<^verbatim>\<open>COMMAND_OUTCOME_UNKNOWN\<close> is archived and skipped, with one
  reason, and nothing else is written: no order and no order event. This covers every reply except those to
  \<^verbatim>\<open>order.cancel\<close>, which write a cancel attempt, and those to \<^verbatim>\<open>order.batch_submit\<close> that list failed children:
  the children are rejected one by one (\<^verbatim>\<open>batch_child_rejected_on_unknown_outcome\<close>).\<close>

theorem unknown_outcome_untouched:
  assumes "DecodeEntry C stream streamID vals = (e, None)" and "enMessageType e = ''reply''"
    and "roleFromStream stream \<noteq> SuffixDLQ" and "replyFailed e"
    and "TrimSpace (fst (orderErrorInfo e)) \<in> {ErrorBrokerNotReady, ErrorCommandOutcomeUnknown}"
    and "enAction e \<noteq> ActionOrderCancel" and "\<not> lists_failed_children e"
  shows "snd (ProcessLedgerEntry C w stream streamID vals s) = snd (archiveEnvelope C w e (entryResult streamID e) s)
    \<and> lpOrders (fst (ProcessLedgerEntry C w stream streamID vals s)) = 0
    \<and> lpOrderEvents (fst (ProcessLedgerEntry C w stream streamID vals s)) = 0
    \<and> lpSkipped (fst (ProcessLedgerEntry C w stream streamID vals s))
        + lpLedgerErrors (fst (ProcessLedgerEntry C w stream streamID vals s)) = 1"
proof -
  have st: "enStream e = stream"
    using assms(1) by (auto simp: DecodeEntry_def fillEnvelope_def bareEnvelope_def Let_def split: option.splits if_splits)
  have ind: "isIndeterminateCommandError e" using assms(5) by (auto simp: isIndeterminateCommandError_def Let_def)
  have dsp: "dispatchEnvelope w e r s'
      = (Inl (skipWith (indeterminateCommandSkipReason e) (r\<lparr>lpReplies := lpReplies r + 1\<rparr>)), s')"
    if "lpLedgerErrors r = 0" for r s'
    using assms(2,3) st that indeterminate_reply_skipped [OF assms(6,7,4) ind, of "r\<lparr>lpReplies := lpReplies r + 1\<rparr>" w s']
    by (simp add: dispatchEnvelope_def andThen_def count_def)
  have "lpOrders (entryResult i e) = 0" "lpOrderEvents (entryResult i e) = 0" "lpSkipped (entryResult i e) = 0"
    "lpLedgerErrors (entryResult i e) = 0" for i
    by (simp_all add: entryResult_def Result0_def noteAccount_def Let_def)
  then show ?thesis
    using assms(1)
    by (auto simp: ProcessLedgerEntry_def archiveEnvelope_def andThen_def writing_def finish_def failWith_def skipWith_def
        countArchived_def dsp split: prod.splits sum.splits)
qed

text \<open>The order made from a report is consistent: its terminal flag agrees with its status and its
  gateway status, and a filled order has its whole quantity filled and nothing left.\<close>

theorem reported_order_consistent:
  "let ord = toOrder payload e in
     oIsTerminal ord = OrderStatus_Terminal (oStatus ord) \<and> oIsTerminal ord = GatewayStatus_Terminal (oGatewayStatus ord)
     \<and> (oStatus ord = OrderStatusFilled) = (oGatewayStatus ord = GatewayStatusFilled)
     \<and> (oStatus ord \<noteq> OrderStatusFilled \<or> oOrderQty ord > 0 \<and> oCumFilledQty ord = oOrderQty ord \<and> oLeavesQty ord = 0)"
proof -
  define q where "q = firstPositiveInt [opOrderQty payload, opQty payload]"
  obtain g ctx where g: "normalizePartialFillGatewayStatus payload q = (g, ctx)" by fastforce
  obtain st' g' t where n: "NormalizeOrderExecutionState (TrimSpace (opStatus payload)) g q (opCumFilledQty payload)
      (opLeavesQty payload) = (st', g', t)" by (metis prod_cases3)
  note laws = normalize_terminal_flag [OF n] normalize_filled_complete [OF n] normalize_filled_iff [OF n]
  have ord: "oStatus (toOrder payload e) = st'" "oGatewayStatus (toOrder payload e) = g'" "oOrderQty (toOrder payload e) = q"
    "oIsTerminal (toOrder payload e) = (t \<or> OrderStatus_Terminal st' \<or> GatewayStatus_Terminal g')"
    "oCumFilledQty (toOrder payload e) = (if st' = OrderStatusFilled then q else opCumFilledQty payload)"
    "oLeavesQty (toOrder payload e) = (if st' = OrderStatusFilled then 0 else opLeavesQty payload)"
    unfolding toOrder_def Let_def q_def [symmetric] g prod.case n by (simp_all add: split_beta)
  show ?thesis using laws by (auto simp: Let_def ord)
qed

definition demo_filled :: orderPayload where
  "demo_filled = (orderPayload_of [])\<lparr>opStatus := ''filled'', opOrderQty := 100, opCumFilledQty := 100\<rparr>"

theorem reported_order_consistent_witness:
  "oStatus (toOrder demo_filled (bareEnvelope [] [] [])) = OrderStatusFilled
   \<and> oLeavesQty (toOrder demo_filled (bareEnvelope [] [] [])) = 0
   \<and> GatewayStatus_Terminal (oGatewayStatus (toOrder demo_filled (bareEnvelope [] [] [])))"
proof -
  have "TrimSpace ''filled'' = OrderStatusFilled" by (simp add: OrderStatusFilled_def TrimSpace_ascii_word)
  then have "oStatus (toOrder demo_filled (bareEnvelope [] [] [])) = OrderStatusFilled"
    by (simp add: toOrder_def Let_def split_beta demo_filled_def orderPayload_of_def NormalizeOrderExecutionState_def
        OrderStatus_Terminal_def)
  moreover from this have "OrderStatus_Terminal (oStatus (toOrder demo_filled (bareEnvelope [] [] [])))"
    by (simp add: OrderStatus_Terminal_def)
  ultimately show ?thesis
    using reported_order_consistent [of demo_filled "bareEnvelope [] [] []"] by (auto simp: Let_def)
qed

section \<open>Witnesses\<close>

text \<open>A ledger without a state, whose operations succeed; deletion of stale positions finds three.\<close>

definition quiet_writer :: "unit SyncWriter" where
  "quiet_writer = \<lparr>swUpsertAccount = (\<lambda>_. ret ()), swUpsertOrder = (\<lambda>_. ret ()),
     swUpsertOrderCancelAttempt = (\<lambda>_. ret ()), swUpdateOrderStatus = (\<lambda>_. ret ()),
     swAppendOrderEvent = (\<lambda>_ _ _. ret ()), swInsertFill = (\<lambda>_ _ _. ret ()),
     swInsertComponentTransfer = (\<lambda>_ _ _. ret ()), swUpsertOrderFeeRecord = (\<lambda>_. ret ()),
     swListFills = (\<lambda>_. ret []), swUpsertAssetSnapshot = (\<lambda>_ _ _ _ _. ret ()),
     swUpsertPosition = (\<lambda>_ _ _ _. ret ()), swDeleteStalePositions = (\<lambda>_ _. ret 3),
     swArchiveRawStreamMessage = (\<lambda>_. ret ()), swAllowSummaryFillSynthesis = None,
     swClock = (\<lambda>s. (0, s))\<rparr>"

definition demo_body :: "string \<rightharpoonup> stream_value" where
  "demo_body = [''body'' \<mapsto> SvString ''{}'']"

definition reads :: "(string \<times> json) list \<Rightarrow> codec" where
  "reads ps = \<lparr>js_print = (\<lambda>_. ''{}''), js_parse = (\<lambda>_. Some (JObj ps))\<rparr>"

definition demo_rejected :: "(string \<times> json) list" where
  "demo_rejected = [(''message_type'', JStr ''reply''), (''action'', JStr ''order.submit''), (''status'', JStr ''failed''),
     (''code'', JStr ''BROKER_NOT_READY'')]"

lemma fold_key_sync_names [simp]:
  "fold_key ''items'' = ''items''" "fold_key ''failed_orders'' = ''failed_orders''" "fold_key ''index'' = ''index''"
  by (rule fold_key_plain; simp add: name_chars_def)+

lemmas decode_simps = DecodeEntry_def bodyString_def reads_def demo_body_def message_errs_def jnot_object_def str_errs_def
  EqualFold_def ctx_errs_def Let_def raw_member_Cons jctx_def

lemma demo_rejected_decodes:
  "DecodeEntry (reads demo_rejected) ''p:reply'' ''1-0'' demo_body
   = (fillEnvelope (bareEnvelope ''p:reply'' ''1-0'' ''{}'') demo_rejected, None)"
  by (simp add: decode_simps demo_rejected_def)

lemma demo_rejected_fields:
  "enMessageType (fillEnvelope b demo_rejected) = ''reply''"
  "enAction (fillEnvelope b demo_rejected) = ActionOrderSubmit"
  "enStatus (fillEnvelope b demo_rejected) = ReplyStatusFailed"
  "enCode (fillEnvelope b demo_rejected) = ErrorBrokerNotReady"
  "enPayload (fillEnvelope b demo_rejected) = None"
  by (simp_all add: fillEnvelope_def demo_rejected_def EqualFold_def action_defs ReplyStatusFailed_def
      ErrorBrokerNotReady_def raw_member_Cons)

theorem archive_failure_stops_witness:
  "fst (ProcessLedgerEntry (reads demo_rejected) (quiet_writer\<lparr>swArchiveRawStreamMessage := (\<lambda>_. raise (ErrDatabase ''57P01''))\<rparr>)
      ''p:reply'' ''1-0'' demo_body ())
   = failWith (ErrDatabase ''57P01'') (entryResult ''1-0'' (fillEnvelope (bareEnvelope ''p:reply'' ''1-0'' ''{}'') demo_rejected))"
  using archive_failure_stops [OF demo_rejected_decodes, where
      w = "quiet_writer\<lparr>swArchiveRawStreamMessage := (\<lambda>_. raise (ErrDatabase ''57P01''))\<rparr>" and s = "()" and now = 0
      and ?s1.0 = "()" and err = "ErrDatabase ''57P01''" and ?s2.0 = "()"]
  by (simp add: quiet_writer_def)

theorem unknown_outcome_untouched_witness:
  "lpOrders (fst (ProcessLedgerEntry (reads demo_rejected) quiet_writer ''p:reply'' ''1-0'' demo_body ())) = 0"
proof -
  let ?e = "fillEnvelope (bareEnvelope ''p:reply'' ''1-0'' ''{}'') demo_rejected"
  have code: "fst (orderErrorInfo ?e) = ErrorBrokerNotReady"
    by (simp add: orderErrorInfo_def Let_def demo_rejected_fields payloadMap_def stringFromMap_def ctx_lookup_def
        ErrorBrokerNotReady_def TrimSpace_ascii_word)
  have "TrimSpace ErrorBrokerNotReady = ErrorBrokerNotReady"
    by (simp add: ErrorBrokerNotReady_def TrimSpace_ascii_word)
  moreover have "roleFromStream ''p:reply'' \<noteq> SuffixDLQ"
    using roleFromStream_suffix [of SuffixReply "''p''"] by (simp add: suffix_defs)
  ultimately show ?thesis
    using unknown_outcome_untouched [OF demo_rejected_decodes, of quiet_writer "()"]
    by (simp add: demo_rejected_fields replyFailed_def code lists_failed_children_def action_defs)
qed

text \<open>The children of a batch are treated otherwise. When a rejected or failed batch reply lists a
  child with \<^verbatim>\<open>COMMAND_OUTCOME_UNKNOWN\<close> among its \<^verbatim>\<open>failed_orders\<close>, the child is written as rejected and
  terminal, with that code as its reason.\<close>

theorem batch_child_rejected_on_unknown_outcome:
  assumes "enAction e = ActionOrderBatchSubmit" and "replyFailed e" and "lpLedgerErrors r = 0"
    and "unmarshal batchFailure_errs batchFailure_of (enPayload e) = Some pl" and "bfFailedOrders pl = [f]"
    and "failedGatewayOrderID pl f = g" and "g \<noteq> []" and "\<not> blank (rtAccountID (enRouting e))"
    and "foCode f = ErrorCommandOutcomeUnknown"
    and "ev = rejectedOrderEvent e g ErrorCommandOutcomeUnknown (firstNonEmpty [foMessage f, enMessage e])
        (enMessageID e @ '':batch:'' @ Itoa (foIndex f))"
    and "swUpdateOrderStatus w ev s = (Inr (), s1)"
    and "swAppendOrderEvent w ev ((streamRef e)\<lparr>srID := enStreamID e @ ''#failed-'' @ Itoa (foIndex f)\<rparr>) (sourceRef e) s1
        = (Inr (), s2)"
  shows "snd (processReplyEnvelope w e r s) = s2 \<and> eStatus ev = OrderStatusRejected \<and> eIsTerminal ev
    \<and> oRejectCode (eOrder ev) = ErrorCommandOutcomeUnknown"
proof -
  have "TrimSpace ErrorCommandOutcomeUnknown = ErrorCommandOutcomeUnknown" "ErrorCommandOutcomeUnknown \<noteq> []"
    by (simp_all add: ErrorCommandOutcomeUnknown_def TrimSpace_ascii_word)
  then have code: "firstNonEmpty [foCode f, enCode e] = ErrorCommandOutcomeUnknown" using assms(9) by simp
  have act: "enAction e \<noteq> ActionOrderCancel" using assms(1) by (simp add: action_defs)
  have "processFailedOrder w e pl f r s = (Inr ((countOrder r)\<lparr>lpOrderEvents := lpOrderEvents r + 1\<rparr>), s2)"
    using assms(6-8,10-12)
    by (simp add: processFailedOrder_def Let_def code andThen_def writing_def writeOrderEvent_def streamRef_def countOrder_def
        del: firstNonEmpty.simps)
  then have "processBatchFailedOrders w e r s = (((countOrder r)\<lparr>lpOrderEvents := lpOrderEvents r + 1\<rparr>, 1), s2)"
    using assms(4,5) by (simp add: processBatchFailedOrders_def finish_def andThen_def count_def)
  then show ?thesis
    using assms(1,2,3,10) act
    by (simp add: processReplyEnvelope_def stop_def countOrder_def rejectedOrderEvent_def)
qed

definition demo_batch_reply :: EntryEnvelope where
  "demo_batch_reply = (bareEnvelope ''p:reply'' ''1-0'' ''{}'')
     \<lparr>enMessageType := ''reply'', enAction := ActionOrderBatchSubmit, enStatus := ReplyStatusFailed,
      enRouting := Routing0\<lparr>rtAccountID := ''A1''\<rparr>,
      enPayload := Some (JObj [(''failed_orders'', JArr [JObj [(''gateway_order_id'', JStr ''g1''),
        (''code'', JStr ''COMMAND_OUTCOME_UNKNOWN'')]])])\<rparr>"

lemma demo_batch_payload:
  "unmarshal batchFailure_errs batchFailure_of (enPayload demo_batch_reply)
   = Some \<lparr>bfOrders = [], bfFailedOrders = [\<lparr>foIndex = 0, foGatewayOrderID = ''g1'', foCode = ErrorCommandOutcomeUnknown,
       foMessage = []\<rparr>]\<rparr>"
  by (simp add: demo_batch_reply_def unmarshal_def batchFailure_errs_def batchFailure_of_def jnot_object_def EqualFold_def
      dec_list_def failedOrder_errs_def failedOrder_of_def int_errs_def str_errs_def ErrorCommandOutcomeUnknown_def
      jfield_hit Let_def)

theorem batch_child_rejected_on_unknown_outcome_witness:
  "oRejectCode (eOrder (rejectedOrderEvent demo_batch_reply ''g1'' ErrorCommandOutcomeUnknown
      (firstNonEmpty [[], enMessage demo_batch_reply]) (enMessageID demo_batch_reply @ '':batch:'' @ Itoa 0)))
   = ErrorCommandOutcomeUnknown"
proof -
  let ?f = "\<lparr>foIndex = 0, foGatewayOrderID = ''g1'', foCode = ErrorCommandOutcomeUnknown, foMessage = []\<rparr>"
  let ?ev = "rejectedOrderEvent demo_batch_reply ''g1'' ErrorCommandOutcomeUnknown
      (firstNonEmpty [[], enMessage demo_batch_reply]) (enMessageID demo_batch_reply @ '':batch:'' @ Itoa 0)"
  have g: "failedGatewayOrderID \<lparr>bfOrders = [], bfFailedOrders = [?f]\<rparr> ?f = ''g1''"
    by (simp add: failedGatewayOrderID_def TrimSpace_ascii_word)
  have "\<not> blank (rtAccountID (enRouting demo_batch_reply))"
    by (simp add: demo_batch_reply_def blank_def Routing0_def TrimSpace_ascii_word)
  with batch_child_rejected_on_unknown_outcome [OF _ _ _ demo_batch_payload _ g, where ev = ?ev and w = quiet_writer
      and s = "()" and ?s1.0 = "()" and ?s2.0 = "()" and r = Result0]
  show ?thesis by (simp add: demo_batch_reply_def replyFailed_def Result0_def quiet_writer_def)
qed

section \<open>Deleted positions\<close>

definition demo_positions :: "(string \<times> json) list" where
  "demo_positions = [(''message_type'', JStr ''reply''), (''action'', JStr ''account.positions.query''),
     (''status'', JStr ''completed''), (''routing'', JObj [(''account_id'', JStr ''A1'')]),
     (''payload'', JObj [(''items'', JArr [])])]"

definition demo_position_reply :: EntryEnvelope where
  "demo_position_reply = fillEnvelope (bareEnvelope ''p:reply'' ''1-0'' ''{}'') demo_positions"

lemma demo_positions_decodes:
  "DecodeEntry (reads demo_positions) ''p:reply'' ''1-0'' demo_body = (demo_position_reply, None)"
  by (simp add: decode_simps demo_positions_def demo_position_reply_def)

lemma demo_position_fields:
  "enStream demo_position_reply = ''p:reply''" "enMessageType demo_position_reply = ''reply''"
  "enAction demo_position_reply = ActionAccountPositions" "enStatus demo_position_reply = ReplyStatusCompleted"
  "enResultType demo_position_reply = []" "enPayload demo_position_reply = Some (JObj [(''items'', JArr [])])"
  "rtAccountID (enRouting demo_position_reply) = ''A1''"
  "enOriginMessageID demo_position_reply = []" "enCorrelationID demo_position_reply = []"
  "enRequestCorrelationID demo_position_reply = []" "enMessageID demo_position_reply = []"
  "enRequestID demo_position_reply = []"
  by (simp_all add: demo_position_reply_def fillEnvelope_def bareEnvelope_def demo_positions_def EqualFold_def action_defs
      ReplyStatusCompleted_def raw_member_Cons mergeRouting_def orElse_def)

lemma demo_position_produced: "enProducedAt demo_position_reply = 1000000"
proof -
  have "CutByte (CHR ''-'') (TrimSpace ''1-0'') = Some (''1'', ''0'')" by (simp add: TrimSpace_ascii_word)
  moreover have "ParseInt64 ''1'' = Some 1" by code_simp
  ultimately have "producedAtFromStreamID ''1-0'' = 1000000"
    by (simp add: producedAtFromStreamID_def UnixMilli_def millisecond_def)
  moreover have "IsZero (parseTime [])" by (simp add: parseTime_def IsZero_def)
  ultimately show ?thesis
    by (simp add: demo_position_reply_def fillEnvelope_def bareEnvelope_def demo_positions_def EqualFold_def Let_def)
qed

lemma demo_position_cutoff: "\<not> IsZero (positionQueryStaleCutoff demo_position_reply)"
proof -
  have "timestampFromIdentifier [] = zeroTime" by (simp add: timestampFromIdentifier_def timestampFromDigits_def)
  then show ?thesis
    by (simp add: positionQueryStaleCutoff_def demo_position_fields demo_position_produced Let_def IsZero_def zeroTime_def
        second_def)
qed

lemma demo_position_page: "positionsFromReplyEnvelope demo_position_reply = Inr []"
  by (simp add: positionsFromReplyEnvelope_def demo_position_fields unmarshal_def positionPagePayload_errs_def
      positionPagePayload_of_def jnot_object_def EqualFold_def dec_list_def jfield_hit)

lemma demo_position_result:
  "lpStalePositions (fst (ProcessLedgerEntry (reads demo_positions) quiet_writer ''p:reply'' ''1-0'' demo_body ())) = 3"
proof -
  have "roleFromStream ''p:reply'' \<noteq> SuffixDLQ"
    using roleFromStream_suffix [of SuffixReply "''p''"] by (simp add: suffix_defs)
  moreover have "isCompletedPositionPage demo_position_reply"
    by (simp add: isCompletedPositionPage_def demo_position_fields)
  moreover have "\<not> replyFailed demo_position_reply"
    by (simp add: replyFailed_def demo_position_fields ReplyStatusCompleted_def ReplyStatusRejected_def ReplyStatusFailed_def)
  ultimately show ?thesis
    using demo_position_cutoff
    by (simp add: ProcessLedgerEntry_def demo_positions_decodes finish_def andThen_def archiveEnvelope_def writing_def
        quiet_writer_def dispatchEnvelope_def demo_position_fields processReplyEnvelope_def processOutcome_def processPage_def
        processPositionReply_def demo_position_page action_defs Let_def count_def pageAccount_def writeKnownAccount_def
        writeAccount_def deleteStale_def countArchived_def entryResult_def Result0_def)
qed

text \<open>The number of deleted stale positions never reaches the report of a batch: its total is zero
  for every batch, also when an entry of the batch deleted positions, because adding a result
  leaves that counter out.\<close>

theorem stale_positions_lost:
  "lpStalePositions (lsTotals (fst (processLedgerStreamMessages C w name role startID messages s))) = 0
   \<and> lpStalePositions (fst (ProcessLedgerEntry (reads demo_positions) quiet_writer ''p:reply'' ''1-0'' demo_body ())) = 3"
proof -
  have "lpStalePositions (lsTotals (fst (processMessages C w name ms rep s))) = lpStalePositions (lsTotals rep)"
    for ms rep s
  proof (induction ms arbitrary: rep s)
    case (Cons m ms)
    obtain r s' where "ProcessLedgerEntry C w name (fst m) (snd m) s = (r, s')" by fastforce
    then show ?case using Cons.IH by (simp add: reportEntry_def)
  qed simp
  then show ?thesis
    using demo_position_result by (simp add: processLedgerStreamMessages_def StreamReport0_def Result0_def)
qed

section \<open>Fee pages\<close>

lemma checkFeeItems_ok:
  assumes "checkFeeItems items seen acc = Inr t"
  shows "distinct (map (TrimSpace \<circ> xpFeeRecordID) items)
    \<and> (\<forall>i \<in> set items. \<not> blank (xpFeeRecordID i) \<and> TrimSpace (xpFeeRecordID i) \<notin> set seen)
    \<and> t = fold (\<lambda>i a. fadd a (xpTotalFee i)) items acc"
  using assms by (induction items seen acc rule: checkFeeItems.induct) (auto simp: Let_def blank_def split: if_splits)

lemma convertAll_Inr: "convertAll f xs = Inr ys \<Longrightarrow> list_all2 (\<lambda>x y. f x = Inr y) xs ys"
  by (induction xs arbitrary: ys) (auto split: sum.splits)

text \<open>C22: A fee page is taken as a whole or not at all. If it is taken, its declared item count is
  the number of its items, there is one fee record per item, in order, each with the item's id, the
  ids are not blank and differ pairwise, and the sum of the fees differs from the declared total
  of the account by no more than a cent.\<close>

theorem fee_page_checked:
  assumes "feeRecordsFromReplyEnvelope e = Inr (fees, acct)"
  shows "\<exists>pl. unmarshal feePagePayload_errs feePagePayload_of (enPayload e) = Some pl
    \<and> xgItemCount pl = int (length fees) \<and> map frFeeRecordID fees = map xpFeeRecordID (xgItems pl)
    \<and> distinct (map (TrimSpace \<circ> frFeeRecordID) fees) \<and> list_all (\<lambda>f. \<not> blank (frFeeRecordID f)) fees
    \<and> \<not> flt (round64 (1 / 100)) (fabs (fsub (fold (\<lambda>f a. fadd a (frTotalFee f)) fees fzero) (xgAccountTotalFee pl)))"
proof -
  obtain pl where pl: "unmarshal feePagePayload_errs feePagePayload_of (enPayload e) = Some pl"
    using assms by (auto simp: feeRecordsFromReplyEnvelope_def split: option.splits)
  obtain t where t: "checkFeeItems (xgItems pl) [] fzero = Inr t"
    using assms by (auto simp: feeRecordsFromReplyEnvelope_def pl split: sum.splits if_splits)
  obtain a raw d where conv: "convertAll (feeFromPageItem e a raw d) (xgItems pl) = Inr fees"
    using assms by (auto simp: feeRecordsFromReplyEnvelope_def pl t Let_def split: sum.splits if_splits prod.splits)
  have count: "xgItemCount pl = int (length (xgItems pl))"
    and near: "\<not> flt (round64 (1 / 100)) (fabs (fsub t (xgAccountTotalFee pl)))"
    using assms by (auto simp: feeRecordsFromReplyEnvelope_def pl t split: if_splits)
  have "list_all2 (\<lambda>x y. frFeeRecordID y = xpFeeRecordID x \<and> frTotalFee y = xpTotalFee x) (xgItems pl) fees"
    using convertAll_Inr [OF conv]
    by (rule list_all2_mono) (auto simp: feeFromPageItem_def Let_def split: prod.splits if_splits)
  then have ids: "map frFeeRecordID fees = map xpFeeRecordID (xgItems pl)"
    and fee: "map frTotalFee fees = map xpTotalFee (xgItems pl)" and len: "length fees = length (xgItems pl)"
    by (induction rule: list_all2_induct) auto
  have "fold (\<lambda>f a. fadd a (frTotalFee f)) fees fzero = fold (\<lambda>x a. fadd a x) (map frTotalFee fees) fzero"
    by (simp add: fold_map comp_def)
  also have "\<dots> = fold (\<lambda>f a. fadd a (xpTotalFee f)) (xgItems pl) fzero" by (simp add: fee fold_map comp_def)
  finally have tot: "fold (\<lambda>f a. fadd a (frTotalFee f)) fees fzero = t" using checkFeeItems_ok [OF t] by simp
  have "map (TrimSpace \<circ> frFeeRecordID) fees = map (TrimSpace \<circ> xpFeeRecordID) (xgItems pl)"
    using arg_cong [OF ids, of "map TrimSpace"] by simp
  moreover have "frFeeRecordID ` set fees = xpFeeRecordID ` set (xgItems pl)" using arg_cong [OF ids, of set] by simp
  then have "list_all (\<lambda>f. \<not> blank (frFeeRecordID f)) fees"
    using checkFeeItems_ok [OF t] by (auto simp: list_all_iff) (metis imageE imageI)
  ultimately show ?thesis using checkFeeItems_ok [OF t] pl count near ids tot len by auto
qed

definition demo_fee_reply :: EntryEnvelope where
  "demo_fee_reply = (bareEnvelope ''p:reply'' ''1-0'' ''{}'')
     \<lparr>enRouting := Routing0\<lparr>rtAccountID := ''A1''\<rparr>,
      enPayload := Some (JObj [(''item_count'', JInt 1),
        (''items'', JArr [JObj [(''fee_record_id'', JStr ''f1''), (''fee_as_of'', JStr ''2026-01-02T09:30:00Z'')]])])\<rparr>"

definition demo_fee_members :: "(string \<times> json) list" where
  "demo_fee_members = [(''fee_record_id'', JStr ''f1''), (''fee_as_of'', JStr ''2026-01-02T09:30:00Z'')]"

lemma demo_fee_item:
  "\<not> orderFeePayload_errs (JObj demo_fee_members)" "xpFeeRecordID (orderFeePayload_of demo_fee_members) = ''f1''"
  "xpFeeAsOf (orderFeePayload_of demo_fee_members) = ''2026-01-02T09:30:00Z''"
  "xpTotalFee (orderFeePayload_of demo_fee_members) = fzero"
  by (simp_all add: orderFeePayload_errs_def orderFeePayload_of_def demo_fee_members_def jnot_object_def str_errs_def int_errs_def
      float_errs_def bool_errs_def ctx_errs_def EqualFold_def fold_key_plain name_chars_def Let_def)

lemma demo_fee_page:
  "unmarshal feePagePayload_errs feePagePayload_of (enPayload demo_fee_reply)
   = Some \<lparr>xgAccountID = [], xgTradeDate = [], xgItemCount = 1, xgAccountTotalFee = fzero,
       xgItems = [orderFeePayload_of demo_fee_members]\<rparr>"
  using demo_fee_item(1)
  by (simp add: demo_fee_reply_def demo_fee_members_def unmarshal_def feePagePayload_errs_def feePagePayload_of_def jnot_object_def
      str_errs_def int_errs_def float_errs_def bool_errs_def EqualFold_def fold_key_plain name_chars_def Let_def jfield_hit
      dec_list_def is_int64_def)

lemma demo_fee_time: "\<not> IsZero (parseTime ''2026-01-02T09:30:00Z'')"
proof -
  have "parseRFC3339 ''2026-01-02T09:30:00Z'' = Some 1767346200000000000" by code_simp
  then show ?thesis by (simp add: parseTime_def TrimSpace_ascii_word IsZero_def zeroTime_def second_def)
qed

lemma round64_not_negative:
  assumes "0 < q"
  shows "\<not> flt (round64 q) (Fin 0)"
proof -
  have nonneg: "0 \<le> round_half_even x" if "0 \<le> x" for x :: rat
    using that by (simp add: round_half_even_def Let_def)
  have "0 \<le> of_int (round_half_even (\<bar>q\<bar> / pow2 k)) * pow2 k" for k
    by (intro mult_nonneg_nonneg) (simp_all add: nonneg less_imp_le)
  then show ?thesis using assms by (auto simp: round64_def Let_def not_less)
qed

lemma demo_fee_records: "\<exists>fee. feeRecordsFromReplyEnvelope demo_fee_reply = Inr ([fee], ''A1'')"
proof -
  have total: "\<not> flt (round64 (1 / 100)) (fabs (fsub (fadd fzero fzero) fzero))"
  proof -
    have "fabs (fsub (fadd fzero fzero) fzero) = Fin 0"
      by (simp add: fzero_def fsub_def round64_def)
    moreover have "\<not> flt (round64 (1 / 100)) (Fin 0)" by (rule round64_not_negative) simp
    ultimately show ?thesis by simp
  qed
  have acct: "rtAccountID (enRouting demo_fee_reply) = ''A1''" by (simp add: demo_fee_reply_def Routing0_def)
  show ?thesis
    using total demo_fee_time
    by (simp add: feeRecordsFromReplyEnvelope_def demo_fee_page demo_fee_item Let_def TrimSpace_ascii_word acct
        normalizeAccountIDFromRouting_def feeFromPageItem_def split_beta)
qed

theorem fee_page_checked_witness:
  "\<exists>fee. feeRecordsFromReplyEnvelope demo_fee_reply = Inr ([fee], ''A1'') \<and> \<not> blank (frFeeRecordID fee)"
proof -
  obtain fee where fee: "feeRecordsFromReplyEnvelope demo_fee_reply = Inr ([fee], ''A1'')" using demo_fee_records by blast
  from fee_page_checked [OF this] have "\<not> blank (frFeeRecordID fee)" by auto
  with fee show ?thesis by blast
qed

end
