(* ===== verification/Sync_Ledger.thy ===== *)
theory Sync_Ledger
  imports Fill_Laws Sync_Laws
begin

text \<open>
  The synchronisation on the ledger itself: the repository as the writer of \<^verbatim>\<open>ProcessLedgerEntry\<close>, and
  what processing gateway messages does to the tables. A relation that every write of a writer keeps is
  kept by the processing of an entry and of a batch.
\<close>

section \<open>Relations kept by every write\<close>

definition proc_stays :: "('s \<Rightarrow> 's \<Rightarrow> bool) \<Rightarrow> 's proc \<Rightarrow> bool" where
  "proc_stays R p \<longleftrightarrow> (\<forall>r s. R s (snd (p r s)))"

locale writer_relation = world_preorder R for R :: "'s \<Rightarrow> 's \<Rightarrow> bool" +
  fixes w :: "'s SyncWriter"
  assumes w_account: "stays R (swUpsertAccount w a)"
    and w_order: "stays R (swUpsertOrder w ord)"
    and w_cancel: "stays R (swUpsertOrderCancelAttempt w ca)"
    and w_status: "stays R (swUpdateOrderStatus w ev)"
    and w_event: "stays R (swAppendOrderEvent w ev st so)"
    and w_fill: "stays R (swInsertFill w f st so)"
    and w_transfer: "stays R (swInsertComponentTransfer w tr st so)"
    and w_fee: "stays R (swUpsertOrderFeeRecord w fee)"
    and w_fills: "stays R (swListFills w q)"
    and w_asset: "stays R (swUpsertAssetSnapshot w asset ty src raw t)"
    and w_position: "stays R (swUpsertPosition w pos src raw' t)"
    and w_stale: "stays R (swDeleteStalePositions w acct cutoff)"
    and w_archive: "stays R (swArchiveRawStreamMessage w m)"
    and w_clock: "R s (snd (swClock w s))"
begin

abbreviation stay :: "'s proc \<Rightarrow> bool" where "stay p \<equiv> proc_stays R p"

lemma p_stop: "stay (stop f)"
  by (simp add: proc_stays_def stop_def R_refl)

lemma p_count: "stay (count f)"
  by (simp add: proc_stays_def count_def R_refl)

lemma p_writing: "stays R m \<Longrightarrow> stay (writing m f)"
  by (auto simp: proc_stays_def writing_def split: prod.splits sum.splits dest: staysD)

lemma p_andThen: "stay p \<Longrightarrow> stay q \<Longrightarrow> stay (andThen p q)"
  unfolding proc_stays_def andThen_def by (auto split: prod.splits sum.splits) (metis R_trans snd_conv)+

lemma p_eachItem: "(\<And>x. stay (p x)) \<Longrightarrow> stay (eachItem p xs)"
  by (induction xs) (auto intro: p_andThen p_count)

lemma p_if: "stay p \<Longrightarrow> stay q \<Longrightarrow> stay (if b then p else q)"
  by simp

lemma p_sum: "(\<And>e. stay (f e)) \<Longrightarrow> (\<And>x. stay (g x)) \<Longrightarrow> stay (case v of Inl e \<Rightarrow> f e | Inr x \<Rightarrow> g x)"
  by (cases v) simp_all

lemma p_prod: "(\<And>x y. stay (f x y)) \<Longrightarrow> stay (case v of (x, y) \<Rightarrow> f x y)"
  by (cases v) simp

lemma p_let: "(\<And>x. stay (f x)) \<Longrightarrow> stay (Let v f)"
  by simp

lemma p_clock: "(\<And>now. stay (p now)) \<Longrightarrow> stay (\<lambda>r s. case swClock w s of (now, s1) \<Rightarrow> p now r s1)"
  using w_clock unfolding proc_stays_def by (auto split: prod.splits) (metis R_trans snd_conv)

lemma p_finish: "stay p \<Longrightarrow> R s (snd (finish p r s))"
  unfolding proc_stays_def finish_def by (auto split: prod.splits sum.splits) (metis snd_conv)+

lemmas p_rules = p_stop p_count p_writing p_andThen p_eachItem p_if p_sum p_prod p_let

lemma s_pages: "stays R (fillPages w q n p acc)"
  by (induction n arbitrary: p acc) (auto intro!: rules w_fills)

lemma s_summary: "stays R (synthesizeOrderSummaryFill w e ord src)"
  unfolding synthesizeOrderSummaryFill_def existingOrderFillQty_def Let_def by (intro rules s_pages w_fill)

lemma p_account: "stay (writeAccount w e a)"
  unfolding writeAccount_def [abs_def] by (intro p_clock p_rules w_account)

lemma p_known: "stay (writeKnownAccount w e a)"
  unfolding writeKnownAccount_def by (intro p_rules p_account)

lemma p_summary: "stay (writeSummaryFill w e ord src)"
  unfolding writeSummaryFill_def by (intro p_rules s_summary)

lemma p_event: "stay (writeOrderEvent w e ev str)"
  unfolding writeOrderEvent_def by (intro p_rules w_event)

lemma p_cancel: "stay (processCancelAttemptEnvelope w e d)"
  unfolding proc_stays_def
proof (intro allI)
  fix r s
  have wr: "stay (andThen (writeAccount w e a) (writing (swUpsertOrderCancelAttempt w ca) f))" for a ca f
    by (intro p_rules p_account w_cancel)
  have clock: "R s s1" if "swClock w s = (t, s1)" for t s1 using w_clock [of s] that by simp
  show "R s (snd (processCancelAttemptEnvelope w e d r s))"
    using wr [unfolded proc_stays_def] clock
    by (auto simp: processCancelAttemptEnvelope_def Let_def stop_def R_refl
        simp del: firstNonEmpty.simps firstNonZeroTime.simps
        split: option.splits prod.splits if_splits) (meson R_trans)+
qed

lemma p_failed: "stay (processFailedOrder w e pl f)"
  unfolding processFailedOrder_def Let_def by (intro p_rules p_event w_status)

lemma p_rejected: "stay (processRejectedOrderReply w e)"
  unfolding processRejectedOrderReply_def Let_def by (intro p_rules p_event w_status)

lemma p_page: "stay (processPage w e)"
  unfolding processPage_def processAssetReply_def processPositionReply_def processOrderReply_def processFillReply_def
    processFeeReply_def writePosition_def deleteStale_def writePageOrder_def writeFill_def writeTransfer_def Let_def
  by (intro p_rules p_account p_known p_summary w_asset w_position w_stale w_order w_fill w_transfer w_fee)

lemma p_outcome: "stay (processOutcome w e)"
  unfolding processOutcome_def by (intro p_rules p_rejected p_page)

lemma p_reply: "stay (processReplyEnvelope w e)"
  unfolding proc_stays_def
proof (intro allI)
  fix r s
  have "stay (eachItem (processFailedOrder w e pl) fs)" for pl fs by (intro p_eachItem p_failed)
  then have batch: "R s (snd (processBatchFailedOrders w e r s))"
    by (auto simp: processBatchFailedOrders_def R_refl split_beta split: option.split intro: p_finish)
  obtain r1 n s1 where b: "processBatchFailedOrders w e r s = ((r1, n), s1)" by (metis surjective_pairing)
  have outcome: "R s1 (snd (processOutcome w e r1 s1))" "R s (snd (processOutcome w e r s))"
    and cancel: "R s (snd (processCancelAttemptEnvelope w e (cancelReplyStatus e) r s))"
    using p_outcome [of e] p_cancel [of e "cancelReplyStatus e"] by (simp_all add: proc_stays_def)
  have s1: "R s s1" using batch b by simp
  show "R s (snd (processReplyEnvelope w e r s))"
    using s1 cancel outcome(2) R_trans [OF s1 outcome(1)]
    by (simp add: processReplyEnvelope_def b stop_def)
qed

lemma p_order_event: "stay (processOrderEvent w e)"
proof -
  have "stay (\<lambda>r s. case swUpdateOrderStatus w ev s of
       (Inl e, s') \<Rightarrow> stop (if is_ErrOrderNotFound_err e then skipWith e else failWith e) r s'
     | (Inr _, s') \<Rightarrow> count countOrder r s')" for ev
    unfolding proc_stays_def by (auto simp: stop_def count_def split: prod.splits sum.splits dest: staysD [OF w_status])
  then show ?thesis
    unfolding processOrderEvent_def by (intro p_rules p_account p_summary p_event w_order)
qed

lemma p_dispatch: "stay (dispatchEnvelope w e)"
  unfolding dispatchEnvelope_def processDeadLetter_def processEventEnvelope_def writeFill_def writeTransfer_def Let_def
  by (intro p_rules p_reply p_cancel p_order_event p_account w_fill w_transfer)

lemma p_archive: "stay (archiveEnvelope C w e)"
  unfolding archiveEnvelope_def [abs_def] by (intro p_clock p_rules w_archive)

lemma s_parse: "stays R (archiveParseError w str i vals err)"
proof (rule staysI)
  fix s
  obtain now s1 where c: "swClock w s = (now, s1)" by fastforce
  then have "R s s1" using w_clock [of s] by simp
  then show "R s (snd (archiveParseError w str i vals err s))"
    by (simp add: archiveParseError_def c R_trans [OF _ stays_snd [OF w_archive]])
qed

lemma entry_stays: "R s (snd (ProcessLedgerEntry C w str i vals s))"
proof (cases "DecodeEntry C str i vals")
  case (Pair e v)
  show ?thesis
  proof (cases v)
    case (Some err)
    then show ?thesis
      using s_parse [of str i vals err, unfolded stays_def, rule_format, of s]
      by (auto simp: ProcessLedgerEntry_def Pair Let_def split: prod.splits sum.splits)
  next
    case None
    then show ?thesis
      using p_finish [OF p_andThen [OF p_archive p_dispatch]] by (simp add: ProcessLedgerEntry_def Pair)
  qed
qed

lemma messages_stay: "R s (snd (processMessages C w str ms rep s))"
proof (induction ms arbitrary: rep s)
  case (Cons m ms)
  obtain r s' where r: "ProcessLedgerEntry C w str (fst m) (snd m) s = (r, s')" by fastforce
  then have "R s s'" using entry_stays [of s C str "fst m" "snd m"] by simp
  with Cons.IH [of s' "reportEntry (fst m) r rep"] show ?case by (auto simp: r intro: R_trans)
qed (simp add: R_refl)

lemma stream_stays: "R s (snd (processLedgerStreamMessages C w str role start ms s))"
  by (simp add: processLedgerStreamMessages_def messages_stay)

end

section \<open>The repository as a writer\<close>

definition repo_writer :: "zone \<Rightarrow> pg \<Rightarrow> bool option \<Rightarrow> (json, 'z) ledger_tables_scheme SyncWriter" where
  "repo_writer Z P synthesis =
     \<lparr>swUpsertAccount = UpsertAccount, swUpsertOrder = UpsertOrder P,
      swUpsertOrderCancelAttempt = UpsertOrderCancelAttempt P, swUpdateOrderStatus = UpdateOrderStatus P,
      swAppendOrderEvent = AppendOrderEvent P, swInsertFill = InsertFill P,
      swInsertComponentTransfer = InsertComponentTransfer P, swUpsertOrderFeeRecord = UpsertOrderFeeRecord Z P,
      swListFills = ListFills, swUpsertAssetSnapshot = UpsertAssetSnapshot Z P, swUpsertPosition = UpsertPosition P,
      swDeleteStalePositions = DeleteStalePositions P, swArchiveRawStreamMessage = ArchiveRawStreamMessage P,
      swAllowSummaryFillSynthesis = synthesis, swClock = (\<lambda>s. (dbClientNow s, s))\<rparr>"

text \<open>A relation on the tables that every statement of the repository keeps is kept by its operations; the archive of raw
  messages apart, which the replay of the archive does not write.\<close>

locale table_relation = world_preorder R
  for R :: "(json, 'z) ledger_tables_scheme \<Rightarrow> (json, 'z) ledger_tables_scheme \<Rightarrow> bool" +
  assumes R_faults: "R s (s\<lparr>dbFaults := fs\<rparr>)" and R_accounts: "R s (dbAccounts_update g s)"
    and q_order: "stays R (upsertOrderSQL P r)" and q_status: "stays R (updateOrderStatusSQL P ev)"
    and q_event: "stays R (appendOrderEventSQL v)"
    and q_position: "stays R (upsertPositionSQL p)" and q_stale: "stays R (deleteStalePositionsSQL P a c)"
    and q_asset: "stays R (upsertAssetSnapshotSQL x)" and q_transfer: "stays R (insertComponentTransferSQL y)"
    and q_attempt: "stays R (upsertOrderCancelAttemptSQL z)" and q_fee: "stays R (upsertOrderFeeRecordSQL Z P fee)"
    and q_fill: "stays R (insertFillSQL P f st so)" and q_summary: "stays R (deleteSummaryFillsForOrderSQL f)"
begin

lemma stmt: "stays R m \<Longrightarrow> stays R (run_stmt m)"
proof (rule staysI)
  fix s assume m: "stays R m"
  have "R s (snd (m (s\<lparr>dbFaults := fs\<rparr>)))" for fs using R_trans [OF R_faults stays_snd [OF m]] .
  then show "R s (snd (run_stmt m s))"
    using R_faults stays_snd [OF m]
    by (auto simp: run_stmt_def Let_def split: list.split fault.split prod.split)
qed

text \<open>Values that depend on the clock of the database.\<close>

lemma q_clocked:
  "stays R (\<lambda>s. upsertOrderSQL P (order_values P (dbServerNow s) n) s)"
  "stays R (\<lambda>s. upsertOrderCancelAttemptSQL (a s) s)"
  "stays R (\<lambda>s. upsertOrderFeeRecordSQL Z P (v s) s)" "stays R (\<lambda>s. insertComponentTransferSQL (y s) s)"
  by (rule staysI, rule stays_snd [OF q_order] stays_snd [OF q_attempt] stays_snd [OF q_fee] stays_snd [OF q_transfer])+

lemma q_read: "stays R (\<lambda>s. (Inr (g s), s))"
  by (simp add: stays_def R_refl)

lemma q_account: "stays R (\<lambda>s. if b then (Inl e, s) else (Inr (), dbAccounts_update (f s) s))"
  by (simp add: stays_def R_refl R_accounts)

lemmas run = stays_snd [OF stmt [OF q_account]] stays_snd [OF stmt [OF q_clocked(1)]]
  stays_snd [OF stmt [OF q_status]] stays_snd [OF stmt [OF q_event]]
  stays_snd [OF stmt [OF q_position]] stays_snd [OF stmt [OF q_stale]] stays_snd [OF stmt [OF q_asset]]
  stays_snd [OF stmt [OF q_clocked(2)]]

lemma order_ops:
  "stays R (UpsertAccount acc)" "stays R (UpsertOrder P ord)" "stays R (UpdateOrderStatus P ev)"
  "stays R (AppendOrderEvent P ev st so)"
  by (rule staysI, simp add: UpsertAccount_def UpsertOrder_def writeOrder_def UpdateOrderStatus_state
      AppendOrderEvent_def Let_def R_refl run del: insert_iff split: sum.split)+

lemma table_ops:
  "stays R (InsertFill P f st so)" "stays R (UpsertOrderFeeRecord Z P fee)" "stays R (ListFills q)"
  "stays R (InsertComponentTransfer P tr st so)"
  unfolding InsertFill_def UpsertOrderFeeRecord_def ListFills_def InsertComponentTransfer_def
  by (intro rules stmt q_clocked q_fill q_summary q_read)+

lemma snapshot_ops:
  "stays R (UpsertOrderCancelAttempt P ca)" "stays R (UpsertPosition P pos src raw t)"
  "stays R (UpsertAssetSnapshot Z P asset ty src raw' t)" "stays R (DeleteStalePositions P acct c)"
  by (rule staysI, simp add: UpsertOrderCancelAttempt_def UpsertPosition_def UpsertAssetSnapshot_def
      UpsertAssetSnapshotForDate_def DeleteStalePositions_def Let_def R_refl run split: sum.split)+

end

locale statement_relation = table_relation +
  assumes q_archive: "stays R (archiveRawStreamMessageSQL m)"
begin

lemma archive_op: "stays R (ArchiveRawStreamMessage P raw)"
  by (rule staysI, simp add: ArchiveRawStreamMessage_def R_refl stays_snd [OF stmt [OF q_archive]])

sublocale repo: writer_relation R "repo_writer Z P synthesis"
  by unfold_locales (simp_all add: repo_writer_def order_ops table_ops snapshot_ops archive_op R_refl)

end

section \<open>What every write keeps\<close>

text \<open>Orders persist, fee records are not downgraded, and fills that are not summaries stay.\<close>

definition ledger_evolves :: "('b, 'z) ledger_tables_scheme \<Rightarrow> ('b, 'z) ledger_tables_scheme \<Rightarrow> bool" where
  "ledger_evolves s t \<longleftrightarrow> rows_evolve row_evolves (dbOrders s) (dbOrders t)
     \<and> rows_evolve fee_evolves (tbFees s) (tbFees t)
     \<and> (\<forall>r \<in> set (tbFills s). \<not> isSummary (fwFill r) \<longrightarrow> r \<in> set (tbFills t))"

interpretation evolving: world_preorder ledger_evolves
proof unfold_locales
  show "ledger_evolves s s" for s
    by (simp add: ledger_evolves_def rows_evolve_refl fee_evolves_refl identity.row_refl)
  show "ledger_evolves s u" if "ledger_evolves s t" "ledger_evolves t u" for s t u
    using that rows_evolve_trans [of row_evolves "dbOrders s" "dbOrders t" "dbOrders u", OF row_evolves_trans]
      rows_evolve_trans [of fee_evolves "tbFees s" "tbFees t" "tbFees u", OF fee_evolves_trans]
    by (auto simp: ledger_evolves_def)
qed

lemma same_state_evolves:
  "dbOrders t = dbOrders s \<Longrightarrow> tbFees t = tbFees s \<Longrightarrow> tbFills t = tbFills s \<Longrightarrow> ledger_evolves s t"
  using evolving.R_refl [of s] by (simp add: ledger_evolves_def)

text \<open>The statements that write orders leave fees and fills alone, and most others leave all three.\<close>

lemma order_sql_evolves:
  assumes "stays (db_rel row_evolves) m"
    and "\<And>s. tbFees (snd (m s)) = tbFees s" "\<And>s. tbFills (snd (m s)) = tbFills s"
  shows "stays ledger_evolves m"
  using assms by (auto simp: stays_def db_rel_def ledger_evolves_def rows_evolve_refl fee_evolves_refl)

lemma table_sql_evolves:
  "stays ledger_evolves (upsertPositionSQL p)" "stays ledger_evolves (deleteStalePositionsSQL P a c)"
  "stays ledger_evolves (upsertAssetSnapshotSQL x)" "stays ledger_evolves (insertComponentTransferSQL y)"
  "stays ledger_evolves (upsertOrderCancelAttemptSQL z)" "stays ledger_evolves (appendOrderEventSQL v)"
  "stays ledger_evolves (archiveRawStreamMessageSQL m)"
  by (rule staysI, rule same_state_evolves,
      simp_all add: upsertPositionSQL_def deleteStalePositionsSQL_def upsertAssetSnapshotSQL_def
      insertComponentTransferSQL_def upsertOrderCancelAttemptSQL_def appendOrderEventSQL_def
      archiveRawStreamMessageSQL_def Let_def split: option.split)+

lemma upsert_order_evolves: "stays ledger_evolves (upsertOrderSQL P r)"
  by (rule order_sql_evolves [OF identity.upsert_rel [OF TrueI]])
    (simp_all add: upsertOrderSQL_def add_order_row_def Let_def split: option.split)

lemma update_order_evolves: "stays ledger_evolves (updateOrderStatusSQL P ev)"
  by (rule order_sql_evolves [OF identity.update_rel [OF TrueI]]) (simp_all add: updateOrderStatusSQL_def Let_def)

lemma set_fee_evolves: "row_evolves w (set_fee Z P now r w)"
  by (simp add: row_evolves_def set_fee_def set_once_def)

lemma fee_sql_evolves: "stays ledger_evolves (upsertOrderFeeRecordSQL Z P new)"
proof (rule staysI)
  fix s
  obtain v t where v: "upsertOrderFeeRecordSQL Z P new s = (v, t)" by fastforce
  show "ledger_evolves s (snd (upsertOrderFeeRecordSQL Z P new s))"
  proof (cases v)
    case (Inl e)
    with v upsertOrderFeeRecordSQL_error show ?thesis by (metis evolving.R_refl snd_conv)
  next
    case (Inr x)
    note ok = upsertOrderFeeRecordSQL_ok [OF v [unfolded Inr]]
    have "rows_evolve row_evolves (dbOrders s) (dbOrders t)"
      by (simp add: ok(3)) (intro rows_evolve_map, simp add: set_fee_evolves identity.row_refl)
    moreover have "tbFills t = tbFills s"
      using v Inr by (auto simp: upsertOrderFeeRecordSQL_def Let_def split: if_splits)
    ultimately show ?thesis using ok(2) by (simp add: v ledger_evolves_def)
  qed
qed

lemma fill_sql_evolves:
  "stays ledger_evolves (insertFillSQL P f st so)" "stays ledger_evolves (deleteSummaryFillsForOrderSQL f)"
proof -
  have "rows_evolve row_evolves xs xs" "rows_evolve fee_evolves ys ys" for xs ys
    by (simp_all add: rows_evolve_refl identity.row_refl fee_evolves_refl)
  then show "stays ledger_evolves (insertFillSQL P f st so)" "stays ledger_evolves (deleteSummaryFillsForOrderSQL f)"
    by (auto intro!: staysI simp: ledger_evolves_def insertFillSQL_def deleteSummaryFillsForOrderSQL_def
        summary_of_order_def Let_def)
qed

interpretation synced: statement_relation ledger_evolves
  by unfold_locales
    (simp_all add: same_state_evolves upsert_order_evolves update_order_evolves table_sql_evolves fee_sql_evolves
      fill_sql_evolves)

text \<open>C18: Processing gateway messages never loses ledger data. Whatever the messages are, whatever
  their order, and whatever fails: every order is still there under its identity, every fee record
  keeps its authority and is not replaced by an older one, and every fill that is not a summary of
  the relay stays.\<close>

theorem sync_keeps_ledger:
  "ledger_evolves s (snd (processLedgerStreamMessages C (repo_writer Z P synthesis) stream role start messages s))"
  by (rule synced.repo.stream_stays)

end
