(* ===== verification/Sync_Pages.thy ===== *)
theory Sync_Pages
  imports Sync_Ledger
begin

text \<open>
  Pages: the synchronisation reads the fills of an order page by page, and it writes pages of
  positions and sweeps what a completed page no longer reports.
\<close>

section \<open>Reading the fills of an order\<close>

lemma mset_insert_by [simp]: "mset (insert_by lt x ys) = add_mset x (mset ys)"
  by (induction ys) auto

lemma mset_order_by [simp]: "mset (order_by lt xs) = mset xs"
  by (induction xs) (simp_all add: order_by_def)

lemma length_order_by [simp]: "length (order_by lt xs) = length xs"
  by (metis mset_order_by size_mset)

definition fill_listing :: "FillQuery \<Rightarrow> fill_row list \<Rightarrow> fill_row list" where
  "fill_listing q rows = order_by (\<lambda>a b. fillAt b < fillAt a) (rev (filter (fill_matches q) rows))"

lemma fill_matches_cursor [simp]: "fill_matches (q\<lparr>fqCursor := c\<rparr>) = fill_matches q"
  by (simp add: fill_matches_def fun_eq_iff)

lemma cursor_Utoa: "n < 2 ^ 63 \<Longrightarrow> queryCursorOffset (Utoa n) = Inr (int n)"
  using ParseInt64_Itoa [of "int n"]
  by (simp add: queryCursorOffset_def TrimSpace_ascii_word Itoa_def is_int64_def Let_def)

lemma normalizeFillQuery_cursor:
  assumes "normalizeFillQuery q0 = Inr q" and "queryCursorOffset (TrimSpace c) = Inr n"
  shows "normalizeFillQuery (q0\<lparr>fqCursor := c\<rparr>) = Inr (q\<lparr>fqCursor := TrimSpace c\<rparr>)"
  using assms by (auto simp: normalizeFillQuery_def Let_def split: sum.splits if_splits)

lemma normalizeFillQuery_limit: "normalizeFillQuery q0 = Inr q \<Longrightarrow> 0 < fqLimit q0 \<Longrightarrow> fqLimit q = min (fqLimit q0) 500"
  by (auto simp: normalizeFillQuery_def Let_def split: sum.splits if_splits)

text \<open>The pages of one query differ in the cursor only.\<close>

definition pageCursor :: "nat \<Rightarrow> string" where
  "pageCursor p = (if p > 0 then Utoa (p * 500) else [])"

lemma fillPageQuery_cursor: "fillPageQuery a d g p = (fillPageQuery a d g 0)\<lparr>fqCursor := pageCursor p\<rparr>"
  by (simp add: fillPageQuery_def pageCursor_def)

lemma pageCursor_value:
  assumes "p * 500 < 2 ^ 63"
  shows "TrimSpace (pageCursor p) = pageCursor p" "queryCursorOffset (pageCursor p) = Inr (int (p * 500))"
proof -
  show "TrimSpace (pageCursor p) = pageCursor p" by (simp add: pageCursor_def TrimSpace_ascii_word)
  show "queryCursorOffset (pageCursor p) = Inr (int (p * 500))"
  proof (cases p)
    case 0
    then show ?thesis by (simp add: pageCursor_def queryCursorOffset_def)
  next
    case (Suc n)
    then show ?thesis using cursor_Utoa [OF assms] by (simp add: pageCursor_def)
  qed
qed

lemma fillPageQuery_normal:
  assumes "normalizeFillQuery (fillPageQuery a d g 0) = Inr q" and "p * 500 < 2 ^ 63"
  shows "normalizeFillQuery (fillPageQuery a d g p) = Inr (q\<lparr>fqCursor := pageCursor p\<rparr>)" "fqLimit q = 500"
proof -
  note c = pageCursor_value [OF assms(2)]
  show "normalizeFillQuery (fillPageQuery a d g p) = Inr (q\<lparr>fqCursor := pageCursor p\<rparr>)"
    using normalizeFillQuery_cursor [OF assms(1), of "pageCursor p"] c by (simp add: fillPageQuery_cursor [of a d g p])
  show "fqLimit q = 500"
    using normalizeFillQuery_limit [OF assms(1)] by (simp add: fillPageQuery_def)
qed

lemma list_fill_page:
  assumes "dbFaults s = []" and "normalizeFillQuery (fillPageQuery a d g 0) = Inr q" and "p * 500 < 2 ^ 63"
  shows "ListFills (fillPageQuery a d g p) s
    = (Inr (map scanFill (take 500 (drop (p * 500) (fill_listing q (tbFills s))))), s)"
proof -
  note n = fillPageQuery_normal [OF assms(2,3)]
  have "nat (cursor_value (pageCursor p)) = p * 500"
    using pageCursor_value(2) [OF assms(3)] by (simp only: cursor_value_def sum.case nat_int)
  then show ?thesis
    using assms(1) n by (simp add: ListFills_def run_stmt_working listFillsSQL_def fill_listing_def)
qed

definition add_qty :: "Fill \<Rightarrow> int \<Rightarrow> int" where
  "add_qty fill t = wrap64 (t + fQty fill)"

lemma fillPages_all:
  assumes calm: "dbFaults s = []" and q: "normalizeFillQuery (fillPageQuery a d g 0) = Inr q"
  shows "(p + n) * 500 < 2 ^ 63 \<Longrightarrow>
    fillPages (repo_writer Z P syn) (fillPageQuery a d g) n p acc s
    = (Inr (fold add_qty (map scanFill (take (n * 500) (drop (p * 500) (fill_listing q (tbFills s))))) acc), s)"
proof (induction n arbitrary: p acc)
  case (Suc n)
  let ?L = "drop (p * 500) (fill_listing q (tbFills s))"
  have page: "swListFills (repo_writer Z P syn) (fillPageQuery a d g p) s = (Inr (map scanFill (take 500 ?L)), s)"
    using list_fill_page [OF calm q, of p] Suc.prems by (simp add: repo_writer_def)
  have rest: "drop 500 ?L = drop (Suc p * 500) (fill_listing q (tbFills s))" by (simp add: add.commute)
  have split: "take (Suc n * 500) ?L = take 500 ?L @ take (n * 500) (drop 500 ?L)"
    using take_add [of 500 "n * 500" ?L] by simp
  show ?case
  proof (cases "length (take 500 ?L) < 500")
    case True
    then have "length (fill_listing q (tbFills s)) - p * 500 < 500" by simp
    moreover from this have "drop 500 ?L = []" by simp
    ultimately show ?thesis using page split by (simp add: add_qty_def [abs_def] Let_def)
  next
    case False
    with page Suc.IH [of "Suc p"] Suc.prems rest split show ?thesis
      by (simp add: add_qty_def [abs_def] Let_def del: take_append)
  qed
qed simp

text \<open>No wrap-around when the total fits.\<close>

lemma fold_add_qty:
  assumes "list_all (\<lambda>f. 0 \<le> fQty f) fs" and "0 \<le> acc" and "acc + (\<Sum>f\<leftarrow>fs. fQty f) < 2 ^ 63"
  shows "fold add_qty fs acc = acc + (\<Sum>f\<leftarrow>fs. fQty f)"
  using assms
proof (induction fs arbitrary: acc)
  case (Cons f fs)
  have "0 \<le> (\<Sum>f\<leftarrow>fs. fQty f)" using Cons.prems(1) by (auto simp: list_all_iff intro!: sum_list_nonneg)
  with Cons.prems have "acc + fQty f < 2 ^ 63" "0 \<le> acc + fQty f" by simp_all
  then have "add_qty f acc = acc + fQty f" by (simp add: add_qty_def wrap64_id is_int64_def)
  with Cons show ?case by (simp add: add.assoc)
qed simp

lemma sum_list_mset_eq: "mset xs = mset ys \<Longrightarrow> (\<Sum>x\<leftarrow>xs. f x :: int) = (\<Sum>x\<leftarrow>ys. f x)"
  by (metis mset_map sum_mset_sum_list)

text \<open>C38: Reading the fills of an order ends and is exact. The loop asks for at most twenty pages of
  500 fills; when the order has no more than that and its quantities fit 64 bits, the loop returns the
  sum over all of its fills and changes nothing.\<close>

theorem order_fill_total:
  assumes "dbFaults s = []" and "normalizeFillQuery (fillPageQuery a d g 0) = Inr q"
    and "length (filter (fill_matches q) (tbFills s)) \<le> 10000"
    and "list_all (\<lambda>r. 0 \<le> fQty (fwFill r)) (tbFills s)"
    and "(\<Sum>r\<leftarrow>filter (fill_matches q) (tbFills s). fQty (fwFill r)) < 2 ^ 63"
  shows "existingOrderFillQty (repo_writer Z P syn) a d g s
    = (Inr (\<Sum>r\<leftarrow>filter (fill_matches q) (tbFills s). fQty (fwFill r)), s)"
proof -
  let ?L = "fill_listing q (tbFills s)"
  have perm: "mset ?L = mset (filter (fill_matches q) (tbFills s))" by (simp add: fill_listing_def)
  then have len: "length ?L \<le> 10000" using assms(3) by (metis size_mset)
  have run: "existingOrderFillQty (repo_writer Z P syn) a d g s = (Inr (fold add_qty (map scanFill ?L) 0), s)"
    using fillPages_all [OF assms(1,2), of 0 20 Z P syn 0] len by (simp add: existingOrderFillQty_def)
  have qty: "(\<Sum>f\<leftarrow>map scanFill xs. fQty f) = (\<Sum>r\<leftarrow>xs. fQty (fwFill r))" for xs
    by (simp add: scanFill_def comp_def)
  have sum: "(\<Sum>f\<leftarrow>map scanFill ?L. fQty f) = (\<Sum>r\<leftarrow>filter (fill_matches q) (tbFills s). fQty (fwFill r))"
    unfolding qty by (rule sum_list_mset_eq [OF perm])
  have "set ?L \<subseteq> set (tbFills s)" using mset_eq_setD [OF perm] by auto
  then have "list_all (\<lambda>f. 0 \<le> fQty f) (map scanFill ?L)" using assms(4) by (auto simp: list_all_iff scanFill_def)
  from fold_add_qty [OF this, of 0] assms(5) sum run show ?thesis by simp
qed

definition demo_fills :: "json ledger_tables" where
  "demo_fills = \<lparr>dbAccounts = [''A1'' \<mapsto> demo_account], dbOrders = [], dbOrderEvents = [], dbRaw = [],
     dbServerNow = 7, dbClientNow = 7, dbFaults = [], tbPositions = [], tbAssets = [],
     tbFills = [fill_values demo_pg 7 None demo_fill (demo_ref ''1-0'') demo_source], tbTransfers = [], tbAttempts = [],
     tbFees = [], tbCheckpoints = []\<rparr>"

definition demo_zone :: zone where
  "demo_zone = \<lparr>zoneDate = (\<lambda>_. []), zoneJson = (\<lambda>_. [])\<rparr>"

theorem order_fill_total_witness:
  "existingOrderFillQty (repo_writer demo_zone demo_pg None) ''A1'' [] ''gw-1'' demo_fills = (Inr 100, demo_fills)"
proof -
  let ?q = "fillPageQuery ''A1'' [] ''gw-1'' 0"
  have n: "normalizeFillQuery ?q = Inr ?q"
    by (simp add: normalizeFillQuery_def fillPageQuery_def normalizeQueryDates_def queryCursorOffset_def
        TrimSpace_ascii_word Let_def)
  have m: "filter (fill_matches ?q) (tbFills demo_fills) = tbFills demo_fills"
    by (simp add: demo_fills_def fill_matches_def fillPageQuery_def filter_text_def appendFillDateRange_def)
      (simp add: demo_fill_def)
  have "fQty (fwFill r) = 100" if "r \<in> set (tbFills demo_fills)" for r
    using that by (simp add: demo_fills_def) (simp add: demo_fill_def)
  then show ?thesis
    using order_fill_total [of demo_fills "''A1''" "[]" "''gw-1''" ?q demo_zone demo_pg None, OF _ n]
    by (simp add: m list_all_iff) (simp add: demo_fills_def)
qed

section \<open>Pages of positions\<close>

text \<open>A timestamp read from an identifier is missing or not before the epoch.\<close>

lemma ParseInt64_digits: "list_all is_digit ds \<Longrightarrow> ParseInt64 ds = Some v \<Longrightarrow> 0 \<le> v"
  by (cases ds) (auto simp: ParseInt64_def Let_def is_digit_def split: if_splits)

lemma timestampFromDigits_range:
  "list_all is_digit ds \<Longrightarrow> 0 \<le> timestampFromDigits ds \<or> timestampFromDigits ds = zeroTime"
  by (auto simp: timestampFromDigits_def UnixMilli_def millisecond_def split: option.splits dest: ParseInt64_digits)

lemma timestampScan_range:
  "list_all is_digit ds \<Longrightarrow> 0 \<le> timestampScan ds t \<or> timestampScan ds t = zeroTime"
  by (induction ds t rule: timestampScan.induct) (auto simp: timestampFromDigits_range)

lemma firstNonZeroTime_mem: "firstNonZeroTime ts \<in> insert zeroTime (set ts)"
  by (induction ts) auto

text \<open>The time of a page is never before its cutoff.\<close>

lemma cutoff_le_updated:
  assumes "\<not> IsZero (positionQueryStaleCutoff e)"
  shows "positionQueryStaleCutoff e \<le> positionQueryUpdatedAt e" "\<not> IsZero (positionQueryUpdatedAt e)"
proof -
  let ?ids = "[enOriginMessageID e, enCorrelationID e, enRequestCorrelationID e, enMessageID e, enRequestID e]"
  define t where "t = firstNonZeroTime (map timestampFromIdentifier ?ids)"
  have "t \<in> insert zeroTime (timestampFromIdentifier ` set ?ids)"
    using firstNonZeroTime_mem [of "map timestampFromIdentifier ?ids"] by (simp only: t_def set_map)
  then have "0 \<le> t \<or> t = zeroTime"
    using timestampScan_range [of "[]"] by (auto simp: timestampFromIdentifier_def)
  moreover have "positionQueryStaleCutoff e = (if \<not> IsZero t then t
      else if \<not> IsZero (enProducedAt e) then enProducedAt e - 30 * 60 * second else zeroTime)"
    by (simp only: positionQueryStaleCutoff_def t_def Let_def)
  ultimately show "positionQueryStaleCutoff e \<le> positionQueryUpdatedAt e" "\<not> IsZero (positionQueryUpdatedAt e)"
    using assms by (auto simp: positionQueryUpdatedAt_def IsZero_def zeroTime_def second_def Let_def)
qed

text \<open>A position is stored with a report at least as new as a given time.\<close>

definition reported_since :: "gotime \<Rightarrow> string \<times> string \<times> string \<Rightarrow> ('b, 'z) ledger_tables_scheme \<Rightarrow> bool" where
  "reported_since t k s \<longleftrightarrow> (\<exists>r. position_book s k = Some r \<and> t \<le> position_time r)"

definition item_key :: "Position \<Rightarrow> string \<times> string \<times> string" where
  "item_key p = (TrimSpace (pAccountID p), TrimSpace (pSymbol p), pExchange p)"

lemma normalizePosition_key:
  "normalizePosition p = Inr n \<Longrightarrow> (pAccountID n, pSymbol n, pExchange n) = item_key p"
  by (auto simp: normalizePosition_def item_key_def Let_def split: if_splits)

lemma report_row_fields:
  assumes "normalizePosition p = Inr n"
  shows "position_key (report_row P now n src raw t) = item_key p"
    "position_time (report_row P now n src raw t) = pg_time P (if IsZero t then now else t)"
  using normalizePosition_key [OF assms]
  by (simp_all add: position_key_def position_time_def report_row_def position_values_def)

lemma observe_since:
  "\<exists>r. observe key time new m (key new) = Some r \<and> time new \<le> time r"
  "m k = Some r \<Longrightarrow> \<exists>r'. observe key time new m k = Some r' \<and> time r \<le> time r'"
  by (auto simp: observe_def split: option.splits)

lemma upsertPositionSQL_admissible:
  assumes "position_wf s" and "upsertPositionSQL row s = (Inr x, s')"
  shows "admissible (dbAccounts s) row"
proof (cases "find (\<lambda>r. position_key r = position_key row) (tbPositions s)")
  case None
  with assms(2) show ?thesis by (auto simp: upsertPositionSQL_def admissible_def split: if_splits)
next
  case (Some q)
  from find_member [OF Some] have q: "q \<in> set (tbPositions s)" "pAccountID (pwPosition q) = pAccountID (pwPosition row)"
    by (simp_all add: position_key_def)
  then have "dbAccounts s (pAccountID (pwPosition row)) \<noteq> None" using assms(1) by (metis position_wf_def)
  with Some assms(2) show ?thesis by (auto simp: upsertPositionSQL_def admissible_def split: if_splits)
qed

text \<open>A successful upsert in a calm database.\<close>

lemma UpsertPosition_calm:
  assumes "dbFaults s = []" and "position_wf s" and "UpsertPosition P pos src raw t s = (Inr x, s')"
  shows "position_wf s'" "dbFaults s' = []" "dbClientNow s' = dbClientNow s" "dbAccounts s' = dbAccounts s"
    "reported_since (pg_time P (if IsZero t then dbClientNow s else t)) (item_key pos) s'"
    "reported_since u k s \<Longrightarrow> reported_since u k s'"
proof -
  obtain n where n: "normalizePosition pos = Inr n" using assms(3) by (auto simp: UpsertPosition_def split: sum.splits)
  let ?r = "report_row P (dbClientNow s) n src raw t"
  have sql: "upsertPositionSQL ?r s = (Inr x, s')"
    using assms(1,3) by (simp add: UpsertPosition_def n run_stmt_working report_row_def Let_def)
  have adm: "admissible (dbAccounts s) ?r" by (rule upsertPositionSQL_admissible [OF assms(2) sql])
  have ref: "refines (\<lambda>s. snd (upsertPositionSQL ?r s)) (observe position_key position_time ?r (position_book s)) s"
    using upsertPositionSQL_refines [OF assms(2), of ?r] adm by simp
  then show "position_wf s'" "dbFaults s' = []" "dbClientNow s' = dbClientNow s" "dbAccounts s' = dbAccounts s"
    using assms(1) by (simp_all add: refines_def sql)
  have book: "position_book s' = observe position_key position_time ?r (position_book s)"
    using ref by (simp add: refines_def sql)
  show "reported_since (pg_time P (if IsZero t then dbClientNow s else t)) (item_key pos) s'"
    using observe_since(1) [of position_key position_time ?r "position_book s"]
    by (simp add: reported_since_def book report_row_fields [OF n])
  show "reported_since u k s'" if "reported_since u k s"
    using that observe_since(2) [of "position_book s" k _ position_key position_time ?r]
    by (auto simp: reported_since_def book intro: order_trans)
qed

lemma andThen_ok: "andThen p q r s = (Inr r', t) \<longleftrightarrow> (\<exists>r1 s1. p r s = (Inr r1, s1) \<and> q r1 s1 = (Inr r', t))"
  by (auto simp: andThen_def split: prod.splits sum.splits)

lemma writing_ok: "writing m f r s = (Inr r', t) \<longleftrightarrow> (\<exists>x. m s = (Inr x, t) \<and> r' = f x r)"
  by (auto simp: writing_def split: prod.splits sum.splits)

lemma count_ok: "count f r s = (Inr r', t) \<longleftrightarrow> r' = f r \<and> t = s"
  by (auto simp: count_def)

lemmas proc_ok = andThen_ok writing_ok count_ok

lemma repo_writer_fields [simp]:
  "swUpsertAccount (repo_writer Z P syn) = UpsertAccount" "swUpsertPosition (repo_writer Z P syn) = UpsertPosition P"
  "swDeleteStalePositions (repo_writer Z P syn) = DeleteStalePositions P"
  "swClock (repo_writer Z P syn) = (\<lambda>s. (dbClientNow s, s))"
  by (simp_all add: repo_writer_def)

lemma writePosition_ok:
  "writePosition w t pr r s = (Inr r', s') \<Longrightarrow> \<exists>x. swUpsertPosition w (fst pr) ''query'' (snd pr) t s = (Inr x, s')"
  by (auto simp: writePosition_def proc_ok)

definition calm_positions :: "gotime \<Rightarrow> ('b, 'z) ledger_tables_scheme \<Rightarrow> bool" where
  "calm_positions now s \<longleftrightarrow> dbFaults s = [] \<and> position_wf s \<and> dbClientNow s = now"

lemma items_stored:
  assumes "eachItem (writePosition (repo_writer Z P syn) t) ps r s = (Inr r', s')" and "calm_positions now s"
  shows "calm_positions now s'" "reported_since u k s \<Longrightarrow> reported_since u k s'"
    "pr \<in> set ps \<Longrightarrow> reported_since (pg_time P (if IsZero t then now else t)) (item_key (fst pr)) s'"
proof -
  have "calm_positions now s' \<and> (\<forall>u k. reported_since u k s \<longrightarrow> reported_since u k s')
    \<and> (\<forall>pr \<in> set ps. reported_since (pg_time P (if IsZero t then now else t)) (item_key (fst pr)) s')"
    using assms
  proof (induction ps arbitrary: r s)
    case (Cons pr ps)
    from Cons.prems(1) obtain r1 s1 x where up: "UpsertPosition P (fst pr) ''query'' (snd pr) t s = (Inr x, s1)"
      and rest: "eachItem (writePosition (repo_writer Z P syn) t) ps r1 s1 = (Inr r', s')"
      by (auto simp: andThen_ok dest!: writePosition_ok)
    from Cons.prems(2) have c: "dbFaults s = []" "position_wf s" "dbClientNow s = now" by (simp_all add: calm_positions_def)
    note one = UpsertPosition_calm [OF c(1,2) up]
    have "calm_positions now s1" using one c(3) by (simp add: calm_positions_def)
    note IH = Cons.IH [OF rest this]
    then have "reported_since (pg_time P (if IsZero t then now else t)) (item_key (fst pr)) s'"
      using one(5) c(3) by blast
    with IH one(6) show ?case by (simp del: split_paired_All)
  qed (simp add: proc_ok)
  then show "calm_positions now s'" "reported_since u k s \<Longrightarrow> reported_since u k s'"
    "pr \<in> set ps \<Longrightarrow> reported_since (pg_time P (if IsZero t then now else t)) (item_key (fst pr)) s'" by blast+
qed

lemma UpsertAccount_calm:
  assumes "UpsertAccount acc s = (Inr x, s')" and "calm_positions now s"
  shows "calm_positions now s'"
  using assms
  by (auto simp: UpsertAccount_def run_stmt_def calm_positions_def position_wf_def Let_def split: if_splits)

lemma known_account_calm:
  "writeKnownAccount (repo_writer Z P syn) e a r s = (Inr r', s') \<Longrightarrow> calm_positions now s \<Longrightarrow> calm_positions now s'"
  by (auto simp: writeKnownAccount_def writeAccount_def proc_ok split: if_splits dest: UpsertAccount_calm)

text \<open>Sweeping with a cutoff that is not newer than a report keeps the report.\<close>

lemma forget_since:
  assumes "reported_since u k s" and "pg_time P c \<le> u" and "position_book s' = forget P a c (position_book s)"
  shows "reported_since u k s'"
  using assms by (auto simp: reported_since_def forget_def stale_def position_time_def)

lemma DeleteStalePositions_calm:
  assumes "DeleteStalePositions P a c s = (Inr n, s')" and "calm_positions now s"
  shows "position_book s' = forget P (TrimSpace a) c (position_book s)" "position_wf s'"
proof -
  from assms have wf: "position_wf s" and "snd (deleteStalePositionsSQL P (TrimSpace a) c s) = s'"
    by (auto simp: DeleteStalePositions_def calm_positions_def run_stmt_working Let_def split: if_splits)
  with deleteStale_refines [OF wf, of P "TrimSpace a" c]
  show "position_book s' = forget P (TrimSpace a) c (position_book s)" "position_wf s'" by (simp_all add: refines_def)
qed

text \<open>C35: A page of positions is what the table shows afterwards. When a page was processed without a
  failure, every position it reports is stored with a report at least as new as the page, and the
  sweep of a completed page, whose cutoff is the time of the query, has removed none of them and has
  left no older position of the account.\<close>

theorem position_page_survives:
  assumes "calm_positions now s" and "mono (pg_time P)" and "positionsFromReplyEnvelope e = Inr ps"
    and "processPositionReply (repo_writer Z P syn) e r s = (Inr r', t)"
  shows "(\<forall>pr \<in> set ps. reported_since (pg_time P (if IsZero (positionQueryUpdatedAt e) then now
        else positionQueryUpdatedAt e)) (item_key (fst pr)) t)
    \<and> (isCompletedPositionPage e \<longrightarrow> \<not> IsZero (positionQueryStaleCutoff e) \<longrightarrow>
        (\<forall>row \<in> set (tbPositions t).
           pAccountID (pwPosition row) = TrimSpace (pageAccount e (map (pAccountID \<circ> fst) ps)) \<longrightarrow>
           pageAccount e (map (pAccountID \<circ> fst) ps) \<noteq> [] \<longrightarrow>
           pg_time P (positionQueryStaleCutoff e) \<le> position_time row))"
proof -
  let ?u = "positionQueryUpdatedAt e" and ?c = "positionQueryStaleCutoff e"
  let ?acct = "pageAccount e (map (pAccountID \<circ> fst) ps)"
  let ?w = "repo_writer Z P syn"
  from assms(4) obtain r1 s1 r2 s2 where known: "writeKnownAccount ?w e ?acct r s = (Inr r1, s1)"
    and items: "eachItem (writePosition ?w ?u) ps r1 s1 = (Inr r2, s2)" and sweep: "deleteStale ?w e ?acct r2 s2 = (Inr r', t)"
    by (auto simp: processPositionReply_def assms(3) Let_def andThen_ok)
  note s1 = known_account_calm [OF known assms(1)]
  note stored = items_stored [OF items s1]
  show ?thesis
  proof (cases "isCompletedPositionPage e \<and> ?acct \<noteq> [] \<and> \<not> IsZero ?c")
    case True
    then obtain n where del: "DeleteStalePositions P ?acct ?c s2 = (Inr n, t)"
      using sweep by (auto simp: deleteStale_def proc_ok)
    note book = DeleteStalePositions_calm [OF del stored(1)]
    have le: "pg_time P ?c \<le> pg_time P ?u" "\<not> IsZero ?u"
      using cutoff_le_updated [of e] True assms(2) by (auto simp: mono_def)
    have "reported_since (pg_time P ?u) (item_key (fst pr)) t" if "pr \<in> set ps" for pr
      using forget_since [OF _ le(1) book(1)] stored(3) [OF that] le(2) by simp
    moreover have "pg_time P ?c \<le> position_time row"
      if "row \<in> set (tbPositions t)" "pAccountID (pwPosition row) = TrimSpace ?acct" for row
    proof -
      have "position_book t (position_key row) = Some row"
        using book(2) that(1) by (simp add: position_book_def position_wf_def book_member)
      with that(2) show ?thesis
        by (auto simp: book(1) forget_def stale_def position_time_def split: option.splits if_splits)
    qed
    ultimately show ?thesis using le(2) by simp
  next
    case False
    then have "t = s2" using sweep by (auto simp: deleteStale_def proc_ok split: if_splits)
    then show ?thesis using stored(3) False by auto
  qed
qed

definition demo_position_page :: EntryEnvelope where
  "demo_position_page = (bareEnvelope ''p:reply'' ''1-0'' [])\<lparr>enAction := ActionAccountPositions,
     enStatus := ReplyStatusCompleted, enPayload := Some (JObj []), enProducedAt := 2000 * second,
     enRouting := Routing0\<lparr>rtAccountID := ''A1'', rtBrokerID := ''B1''\<rparr>\<rparr>"

definition demo_old :: "json ledger_tables" where
  "demo_old = demo_fills\<lparr>tbPositions := [\<lparr>pwPosition = demo_position\<lparr>pUpdatedAt := 5\<rparr>, pwSource = ''query'', pwRawPayload = demo_raw\<rparr>]\<rparr>"

lemma demo_page_times:
  "positionQueryStaleCutoff demo_position_page = 200 * second" "isCompletedPositionPage demo_position_page"
  by (simp_all add: positionQueryStaleCutoff_def demo_position_page_def bareEnvelope_def timestampFromIdentifier_def
      timestampFromDigits_def IsZero_def zeroTime_def second_def isCompletedPositionPage_def)

lemma demo_page_account: "pageAccount demo_position_page [] = ''A1''"
  by (simp add: pageAccount_def demo_position_page_def)

lemma demo_page_empty: "positionsFromReplyEnvelope demo_position_page = Inr []"
  by (simp add: positionsFromReplyEnvelope_def demo_position_page_def unmarshal_def positionPagePayload_errs_def
      positionPagePayload_of_def jfield_def jnot_object_def)

lemma demo_page_runs:
  "\<exists>r t. processPositionReply (repo_writer Z demo_pg syn) demo_position_page Result0 demo_old = (Inr r, t)"
proof -
  let ?w = "repo_writer Z demo_pg syn :: json ledger_tables SyncWriter"
  have "writeKnownAccount ?w demo_position_page ''A1'' Result0 demo_old
      = (Inr (Result0\<lparr>lpAccounts := 1\<rparr>), demo_old\<lparr>dbAccounts := (dbAccounts demo_old)(''A1'' \<mapsto>
          accountFromEnvelope 7 demo_position_page ''A1'')\<rparr>)"
    by (simp add: writeKnownAccount_def writeAccount_def writing_def UpsertAccount_def run_stmt_def demo_old_def
        demo_fills_def accountFromEnvelope_def demo_position_page_def Result0_def TrimSpace_ascii_word IsZero_def
        zeroTime_def second_def AccountStatusEnabled_def Let_def)
  moreover have "deleteStale ?w demo_position_page ''A1'' q u = (Inr (q\<lparr>lpStalePositions := lpStalePositions q
        + int (length (filter (stale ''A1'' (200 * second)) (tbPositions u)))\<rparr>),
      u\<lparr>tbPositions := filter (\<lambda>r. \<not> stale ''A1'' (200 * second) r) (tbPositions u)\<rparr>)" if "dbFaults u = []" for q u
    using that demo_page_times
    by (simp add: deleteStale_def writing_def DeleteStalePositions_def deleteStalePositionsSQL_def run_stmt_working
        TrimSpace_ascii_word demo_pg_def IsZero_def zeroTime_def second_def Let_def)
  moreover have "dbFaults demo_old = []" by (simp add: demo_old_def demo_fills_def)
  ultimately show ?thesis
    by (simp add: processPositionReply_def demo_page_empty demo_page_account andThen_def count_def Let_def)
qed

theorem position_page_survives_witness:
  "\<exists>r t. processPositionReply (repo_writer demo_zone demo_pg None) demo_position_page Result0 demo_old = (Inr r, t)
     \<and> (\<forall>row \<in> set (tbPositions t). pAccountID (pwPosition row) = ''A1'' \<longrightarrow> 200 * second \<le> position_time row)"
proof -
  obtain r t where t: "processPositionReply (repo_writer demo_zone demo_pg None) demo_position_page Result0 demo_old = (Inr r, t)"
    using demo_page_runs by blast
  have calm: "calm_positions 7 demo_old"
    by (simp add: calm_positions_def position_wf_def demo_old_def demo_fills_def demo_position_def)
  have "mono (pg_time demo_pg)" by (simp add: demo_pg_def mono_def)
  from position_page_survives [OF calm this demo_page_empty t]
  have "\<forall>row \<in> set (tbPositions t). pAccountID (pwPosition row) = ''A1'' \<longrightarrow> 200 * second \<le> position_time row"
    using demo_page_times by (simp add: demo_page_account TrimSpace_ascii_word demo_pg_def IsZero_def zeroTime_def second_def)
  with t show ?thesis by blast
qed

end
