(* ===== verification/Sync_Loop.thy ===== *)
theory Sync_Loop
  imports Sync_Ledger Event_Hub Auto_Refresh
begin

text \<open>
  The synchronisation loop (\<^verbatim>\<open>internal/redisstream/ledger_sync_loop.go\<close>): one cursor per stream,
  opened at the stored checkpoint, read with XREAD and moved by the reports of the batches; the
  checkpoint written after every batch; and the notifications, with the events made from them
  (\<^verbatim>\<open>internal/events/ledger.go\<close>). The answer of XREAD is a parameter of a round, and a round says how
  many of its reports are handled before the context ends.
\<close>

section \<open>Options and cursors\<close>

record 's LedgerCheckpointStore =
  csGetStreamCheckpoint :: "string \<Rightarrow> ('s, StreamCheckpoint) act"
  csUpsertStreamCheckpoint :: "StreamCheckpoint \<Rightarrow> ('s, unit) act"

record LedgerTradeChange =
  tcStream :: string
  tcRole :: string
  tcAccountIDs :: "string list"
  tcOrderEvents :: nat
  tcFills :: nat
  tcTransfers :: nat
  tcLastStreamID :: string

record LedgerChange =
  lcStream :: string
  lcRole :: string
  lcAccountIDs :: "string list"
  lcOrders :: nat
  lcOrderEvents :: nat
  lcCancelAttempts :: nat
  lcCancelFailures :: nat
  lcLastCancelAttempt :: "OrderCancelAttempt option"
  lcCancelFailureItems :: "OrderCancelAttempt list"
  lcFills :: nat
  lcTransfers :: nat
  lcAssets :: nat
  lcPositions :: nat
  lcLastStreamID :: string

record 's LedgerSyncLoopOptions =
  loPrefixes :: "string list"
  loStartID :: string
  loCount :: int
  loRoles :: "string list"
  loCheckpoints :: "'s LedgerCheckpointStore option"
  loOnTradeChange :: "(LedgerTradeChange \<Rightarrow> 's \<Rightarrow> 's) option"
  loOnLedgerChange :: "(LedgerChange \<Rightarrow> 's \<Rightarrow> 's) option"

record ledgerStreamCursor =
  cuName :: string
  cuRole :: string
  cuLastID :: string

definition cursorStartID ::
    "'s LedgerCheckpointStore option \<Rightarrow> string \<Rightarrow> string \<Rightarrow> 's \<Rightarrow> string \<times> 's" where
  "cursorStartID checkpoints startID name s =
     (case checkpoints of
        None \<Rightarrow> (startID, s)
      | Some store \<Rightarrow>
          (case csGetStreamCheckpoint store name s of
             (Inl e, s') \<Rightarrow> (startID, s')
           | (Inr c, s') \<Rightarrow> (if TrimSpace (ckLastStreamID c) \<noteq> [] then ckLastStreamID c else startID, s')))"

text \<open>The streams of the prefixes, by role; a role without a stream is left out.\<close>

definition loopStreams :: "string list \<Rightarrow> string list \<Rightarrow> (string \<times> string) list" where
  "loopStreams pfxs roles =
     filter (\<lambda>(name, role). name \<noteq> [])
       (concat (map (\<lambda>p. map (\<lambda>role. (streamNameForRole (NewStreams p) role, role)) (outputRoles roles)) pfxs))"

fun openCursors ::
    "'s LedgerCheckpointStore option \<Rightarrow> string \<Rightarrow> (string \<times> string) list \<Rightarrow> 's \<Rightarrow> ledgerStreamCursor list \<times> 's" where
  "openCursors checkpoints startID [] s = ([], s)"
| "openCursors checkpoints startID ((name, role) # rest) s =
     (case cursorStartID checkpoints startID name s of (i, s1) \<Rightarrow>
        (case openCursors checkpoints startID rest s1 of (cursors, s2) \<Rightarrow>
           (\<lparr>cuName = name, cuRole = role, cuLastID = i\<rparr> # cursors, s2)))"

definition loopStartID :: "'s LedgerSyncLoopOptions \<Rightarrow> string" where
  "loopStartID opts = orElse (TrimSpace (loStartID opts)) ''0''"

definition loopCount :: "'s LedgerSyncLoopOptions \<Rightarrow> int" where
  "loopCount opts = (if loCount opts \<le> 0 then 100 else loCount opts)"

text \<open>The start of the loop: the checks and the cursors. The outcome of connecting to Redis is given.\<close>

definition startLoop ::
    "Config \<Rightarrow> string \<Rightarrow> error option \<Rightarrow> 's LedgerSyncLoopOptions \<Rightarrow> ('s, ledgerStreamCursor list) act" where
  "startLoop cfg redisURL connect opts s =
     (if TrimSpace redisURL = [] then (Inl (ErrText ''redis.url is required for ledger sync loop''), s)
      else case connect of
        Some e \<Rightarrow> (Inl e, s)
      | None \<Rightarrow>
          let pfxs = (if loPrefixes opts = [] then PrefixesFromConfig cfg else loPrefixes opts)
          in if pfxs = [] then (Inl (ErrText ''no stream prefixes configured''), s)
             else case openCursors (loCheckpoints opts) (loopStartID opts) (loopStreams pfxs (loRoles opts)) s of
                    (cursors, s') \<Rightarrow>
                      if cursors = [] then (Inl (ErrText ''no stream roles configured''), s') else (Inr cursors, s'))"

section \<open>Reading and processing\<close>

datatype xread_answer = XNil | XError error | XStreams "(string \<times> xmessage list) list"

definition xReadStreams :: "ledgerStreamCursor list \<Rightarrow> string list" where
  "xReadStreams cursors = map cuName cursors @ map cuLastID cursors"

text \<open>A map from the names; a later cursor of the same name replaces an earlier one.\<close>

definition cursorByName :: "ledgerStreamCursor list \<Rightarrow> string \<rightharpoonup> ledgerStreamCursor" where
  "cursorByName cursors = map_of (rev (map (\<lambda>c. (cuName c, c)) cursors))"

fun processStreams ::
    "codec \<Rightarrow> 's SyncWriter \<Rightarrow> (string \<rightharpoonup> ledgerStreamCursor) \<Rightarrow> (string \<times> xmessage list) list \<Rightarrow> 's \<Rightarrow>
       LedgerStreamReport list \<times> 's" where
  "processStreams C w byName [] s = ([], s)"
| "processStreams C w byName ((name, messages) # rest) s =
     (case byName name of
        None \<Rightarrow> processStreams C w byName rest s
      | Some cursor \<Rightarrow>
          (case processLedgerStreamMessages C w name (cuRole cursor) (cuLastID cursor) messages s of (report, s1) \<Rightarrow>
             (case processStreams C w byName rest s1 of (reports, s2) \<Rightarrow> (report # reports, s2))))"

definition readAndProcessStreams ::
    "codec \<Rightarrow> 's SyncWriter \<Rightarrow> (string list \<Rightarrow> int \<Rightarrow> xread_answer) \<Rightarrow> ledgerStreamCursor list \<Rightarrow> int \<Rightarrow>
       ('s, LedgerStreamReport list) act" where
  "readAndProcessStreams C w xread cursors limit s =
     (if xReadStreams cursors = [] then (Inr [], s)
      else case xread (xReadStreams cursors) limit of
             XNil \<Rightarrow> (Inr [], s)
           | XError e \<Rightarrow> (Inl e, s)
           | XStreams result \<Rightarrow>
               (case processStreams C w (cursorByName cursors) result s of (reports, s') \<Rightarrow> (Inr reports, s')))"

section \<open>Checkpoints\<close>

text \<open>The text of an error is a parameter: it holds the texts of the database driver.\<close>

definition joinReasons :: "(error \<Rightarrow> string) \<Rightarrow> error list \<Rightarrow> string" where
  "joinReasons etext reasons = JoinWith ''; '' (map etext reasons)"

definition ledgerCheckpointError :: "(error \<Rightarrow> string) \<Rightarrow> (string \<times> error list) list \<Rightarrow> string" where
  "ledgerCheckpointError etext errors =
     (case errors of
        [] \<Rightarrow> []
      | (streamID, reasons) # _ \<Rightarrow>
          let errText = TrimSpace (joinReasons etext reasons);
              errText1 = (if streamID \<noteq> [] then streamID @ '': '' @ errText else errText)
          in take 500 errText1)"

definition batchMetadata :: "LedgerProcessResult \<Rightarrow> ctxmap" where
  "batchMetadata totals = Some (map_of
     [(''last_batch_archived'', AnyInt (int (lpArchived totals))),
      (''last_batch_orders'', AnyInt (int (lpOrders totals))),
      (''last_batch_order_events'', AnyInt (int (lpOrderEvents totals))),
      (''last_batch_fills'', AnyInt (int (lpFills totals))),
      (''last_batch_transfers'', AnyInt (int (lpTransfers totals))),
      (''last_batch_assets'', AnyInt (int (lpAssets totals))),
      (''last_batch_positions'', AnyInt (int (lpPositions totals))),
      (''last_batch_parse_errors'', AnyInt (int (lpParseErrors totals))),
      (''last_batch_ledger_errors'', AnyInt (int (lpLedgerErrors totals))),
      (''last_batch_dead_letters'', AnyInt (int (lpDeadLetters totals))),
      (''last_batch_data_quality'', AnyInt (int (lpDataQualityDLQ totals))),
      (''last_batch_gateway_status_normalized'', AnyInt (int (lpGatewayStatusNormalized totals)))])"

definition batchCheckpoint ::
    "(error \<Rightarrow> string) \<Rightarrow> gotime \<Rightarrow> ledgerStreamCursor \<Rightarrow> LedgerStreamReport \<Rightarrow> StreamCheckpoint" where
  "batchCheckpoint etext now cursor report =
     \<lparr>ckStreamKey = cuName cursor, ckRole = cuRole cursor, ckLastStreamID = orElse (cuLastID cursor) ''0'',
      ckLastSeenAt = (if lsCount report > 0 then now else zeroTime),
      ckLastProcessedAt = (if lsCount report > 0 then now else zeroTime),
      ckLastError = ledgerCheckpointError etext (lsErrors report), ckProcessedCount = int (lsCount report),
      ckErrorCount = int (length (lsErrors report)), ckMetadata = batchMetadata (lsTotals report),
      ckUpdatedAt = zeroTime\<rparr>"

definition saveLedgerCheckpoint ::
    "(error \<Rightarrow> string) \<Rightarrow> ('s \<Rightarrow> gotime \<times> 's) \<Rightarrow> 's LedgerCheckpointStore option \<Rightarrow> ledgerStreamCursor \<Rightarrow>
       LedgerStreamReport \<Rightarrow> 's \<Rightarrow> 's" where
  "saveLedgerCheckpoint etext clock checkpoints cursor report s =
     (case checkpoints of
        None \<Rightarrow> s
      | Some store \<Rightarrow>
          if lsCount report = 0 \<and> lsErrors report = [] then s
          else case clock s of (now, s1) \<Rightarrow> snd (csUpsertStreamCheckpoint store (batchCheckpoint etext now cursor report) s1))"

section \<open>Notifications\<close>

definition accountIDsFromLedgerResult :: "LedgerProcessResult \<Rightarrow> string list" where
  "accountIDsFromLedgerResult totals =
     (if lpAccountIDs totals = [] \<and> TrimSpace (lpLastAccountID totals) \<noteq> [] then [lpLastAccountID totals]
      else lpAccountIDs totals)"

definition ledgerTradeChange :: "LedgerStreamReport \<Rightarrow> LedgerTradeChange" where
  "ledgerTradeChange report =
     (let t = lsTotals report
      in \<lparr>tcStream = lsName report, tcRole = lsRole report, tcAccountIDs = accountIDsFromLedgerResult t,
          tcOrderEvents = lpOrderEvents t, tcFills = lpFills t, tcTransfers = lpTransfers t,
          tcLastStreamID = lpLastStreamID t\<rparr>)"

definition ledgerChange :: "LedgerStreamReport \<Rightarrow> LedgerChange" where
  "ledgerChange report =
     (let t = lsTotals report
      in \<lparr>lcStream = lsName report, lcRole = lsRole report, lcAccountIDs = accountIDsFromLedgerResult t,
          lcOrders = lpOrders t, lcOrderEvents = lpOrderEvents t, lcCancelAttempts = lpCancelAttempts t,
          lcCancelFailures = lpCancelFailures t, lcLastCancelAttempt = lpLastCancelAttempt t,
          lcCancelFailureItems = lpCancelFailureItems t, lcFills = lpFills t, lcTransfers = lpTransfers t,
          lcAssets = lpAssets t, lcPositions = lpPositions t, lcLastStreamID = lpLastStreamID t\<rparr>)"

definition trade_changed :: "LedgerProcessResult \<Rightarrow> bool" where
  "trade_changed t \<longleftrightarrow> lpOrderEvents t > 0 \<or> lpFills t > 0 \<or> lpTransfers t > 0"

definition ledger_changed :: "LedgerProcessResult \<Rightarrow> bool" where
  "ledger_changed t \<longleftrightarrow> lpOrders t > 0 \<or> lpOrderEvents t > 0 \<or> lpCancelAttempts t > 0 \<or> lpFills t > 0
     \<or> lpTransfers t > 0 \<or> lpAssets t > 0 \<or> lpPositions t > 0"

definition notifyChanges :: "'s LedgerSyncLoopOptions \<Rightarrow> LedgerStreamReport \<Rightarrow> 's \<Rightarrow> 's" where
  "notifyChanges opts report s =
     (let ids = accountIDsFromLedgerResult (lsTotals report);
          s1 = (case loOnTradeChange opts of
                  None \<Rightarrow> s
                | Some f \<Rightarrow> if trade_changed (lsTotals report) \<and> ids \<noteq> [] then f (ledgerTradeChange report) s else s)
      in case loOnLedgerChange opts of
           None \<Rightarrow> s1
         | Some f \<Rightarrow> if ledger_changed (lsTotals report) \<and> ids \<noteq> [] then f (ledgerChange report) s1 else s1)"

section \<open>The loop\<close>

text \<open>\<open>cursorIndexes\<close> maps a name to its last index, so a report moves the last cursor of its name.\<close>

fun cursorIndex :: "string \<Rightarrow> ledgerStreamCursor list \<Rightarrow> nat option" where
  "cursorIndex name [] = None"
| "cursorIndex name (c # cs) =
     (case cursorIndex name cs of Some i \<Rightarrow> Some (Suc i) | None \<Rightarrow> if cuName c = name then Some 0 else None)"

definition moveCursor :: "LedgerStreamReport \<Rightarrow> ledgerStreamCursor \<Rightarrow> ledgerStreamCursor" where
  "moveCursor report cursor =
     (if lpLastStreamID (lsTotals report) \<noteq> [] then cursor\<lparr>cuLastID := lpLastStreamID (lsTotals report)\<rparr> else cursor)"

definition applyReport ::
    "(error \<Rightarrow> string) \<Rightarrow> ('s \<Rightarrow> gotime \<times> 's) \<Rightarrow> 's LedgerSyncLoopOptions \<Rightarrow> LedgerStreamReport \<Rightarrow>
       ledgerStreamCursor list \<times> 's \<Rightarrow> ledgerStreamCursor list \<times> 's" where
  "applyReport etext clock opts report st =
     (case st of (cursors, s) \<Rightarrow>
        (case cursorIndex (lsName report) cursors of
           None \<Rightarrow> (cursors, s)
         | Some i \<Rightarrow>
             let cursor = moveCursor report (cursors ! i)
             in (cursors[i := cursor],
                 notifyChanges opts report (saveLedgerCheckpoint etext clock (loCheckpoints opts) cursor report s))))"

record sync_round =
  rdXRead :: "string list \<Rightarrow> int \<Rightarrow> xread_answer"
  rdHandled :: nat

definition syncRound ::
    "codec \<Rightarrow> 's SyncWriter \<Rightarrow> (error \<Rightarrow> string) \<Rightarrow> 's LedgerSyncLoopOptions \<Rightarrow> sync_round \<Rightarrow>
       ledgerStreamCursor list \<times> 's \<Rightarrow> ledgerStreamCursor list \<times> 's" where
  "syncRound C w etext opts rd st =
     (case st of (cursors, s) \<Rightarrow>
        (case readAndProcessStreams C w (rdXRead rd) cursors (loopCount opts) s of
           (Inl e, s') \<Rightarrow> (cursors, s')
         | (Inr reports, s') \<Rightarrow>
             fold (applyReport etext (swClock w) opts) (take (rdHandled rd) reports) (cursors, s')))"

section \<open>Events of a change\<close>

definition TypeOrderChanged :: string where "TypeOrderChanged = ''order.changed''"
definition TypeOrderCancelRejected :: string where "TypeOrderCancelRejected = ''order.cancel.rejected''"
definition TypeFillChanged :: string where "TypeFillChanged = ''fill.changed''"
definition TypeAssetChanged :: string where "TypeAssetChanged = ''asset.changed''"
definition TypePositionsChanged :: string where "TypePositionsChanged = ''positions.changed''"

lemmas event_type_defs = TypeOrderChanged_def TypeOrderCancelRejected_def TypeFillChanged_def
  TypeAssetChanged_def TypePositionsChanged_def

fun optionalBool :: "bool option \<Rightarrow> event_value" where
  "optionalBool None = EvNil"
| "optionalBool (Some b) = EvBool b"

definition cancelAttemptEventData :: "OrderCancelAttempt \<Rightarrow> event_value" where
  "cancelAttemptEventData att = EvMap
     [(''attempt_id'', EvStr (atAttemptID att)), (''account_id'', EvStr (atAccountID att)),
      (''trade_date'', EvStr (atTradeDate att)), (''gateway_order_id'', EvStr (atGatewayOrderID att)),
      (''order_id'', EvInt (atOrderID att)), (''order_stream_id'', EvStr (atOrderStreamID att)),
      (''origin_message_id'', EvStr (atOriginMessageID att)), (''request_id'', EvStr (atRequestID att)),
      (''correlation_id'', EvStr (atCorrelationID att)), (''status'', EvStr (atStatus att)),
      (''code'', EvStr (atCode att)), (''message'', EvStr (atMessage att)),
      (''retry_safe'', optionalBool (atRetrySafe att)),
      (''order_state_changed'', optionalBool (atOrderStateChanged att)),
      (''reconciliation_required'', EvBool (atReconciliationRequired att)),
      (''occurred_at'', EvTime (atOccurredAt att)), (''stream_key'', EvStr (atStreamKey att)),
      (''stream_id'', EvStr (atStreamID att))]"

definition changeEvent :: "LedgerChange \<Rightarrow> Event" where
  "changeEvent change =
     \<lparr>evID = [], evType = [], evAccountIDs = lcAccountIDs change, evTime = zeroTime,
      evSource = ''redis-ledger-sync'', evStream = lcStream change, evLastStreamID = lcLastStreamID change,
      evData = EvMap
        [(''role'', EvStr (lcRole change)), (''orders'', EvInt (int (lcOrders change))),
         (''order_events'', EvInt (int (lcOrderEvents change))),
         (''cancel_attempts'', EvInt (int (lcCancelAttempts change))),
         (''cancel_failures'', EvInt (int (lcCancelFailures change))),
         (''fills'', EvInt (int (lcFills change))), (''transfers'', EvInt (int (lcTransfers change))),
         (''assets'', EvInt (int (lcAssets change))), (''positions'', EvInt (int (lcPositions change))),
         (''last_stream_id'', EvStr (lcLastStreamID change))]\<rparr>"

definition cancelRejectedEvent :: "LedgerChange \<Rightarrow> OrderCancelAttempt \<Rightarrow> Event" where
  "cancelRejectedEvent change att =
     (changeEvent change)\<lparr>evType := TypeOrderCancelRejected,
        evData := EvMap
          [(''role'', EvStr (lcRole change)), (''cancel_attempts'', EvInt (int (lcCancelAttempts change))),
           (''cancel_failures'', EvInt (int (lcCancelFailures change))),
           (''cancel_attempt'', cancelAttemptEventData att),
           (''last_stream_id'', EvStr (lcLastStreamID change))]\<rparr>"

definition FromLedgerChange :: "LedgerChange \<Rightarrow> Event list" where
  "FromLedgerChange change =
     (let typed = (\<lambda>b ty. if b then [(changeEvent change)\<lparr>evType := ty\<rparr>] else [])
      in typed (lcOrders change > 0 \<or> lcOrderEvents change > 0) TypeOrderChanged
         @ map (cancelRejectedEvent change) (lcCancelFailureItems change)
         @ typed (lcFills change > 0 \<or> lcTransfers change > 0) TypeFillChanged
         @ typed (lcAssets change > 0) TypeAssetChanged
         @ typed (lcPositions change > 0) TypePositionsChanged)"

definition PublishLedgerChange :: "gotime \<Rightarrow> LedgerChange \<Rightarrow> Hub \<Rightarrow> Hub" where
  "PublishLedgerChange now change h = fold (\<lambda>event h. snd (Publish now event h)) (FromLedgerChange change) h"

section \<open>The loop of the service\<close>

text \<open>
  The service runs the loop on the repository, with the event hub and the refresh scheduler as its
  listeners (\<^verbatim>\<open>startLedgerSyncLoop\<close> in \<^verbatim>\<open>cmd/relay-docs/main.go\<close>). The world of the service keeps the
  calls of \<^verbatim>\<open>ArchiveRawStreamMessage\<close>, the first write of every entry, whatever they return.
\<close>

record 'b service_world = "'b ledger_tables" +
  svArchiveCalls :: "(string \<times> string) list"
  svHub :: Hub
  svRefresh :: "refresh_world option"

definition service_writer :: "zone \<Rightarrow> pg \<Rightarrow> bool option \<Rightarrow> json service_world SyncWriter" where
  "service_writer Z P synthesis = (repo_writer Z P synthesis)\<lparr>swArchiveRawStreamMessage :=
     (\<lambda>m s. ArchiveRawStreamMessage P m (s\<lparr>svArchiveCalls := svArchiveCalls s @ [(rmStreamKey m, rmStreamID m)]\<rparr>))\<rparr>"

definition repo_checkpoints :: "pg \<Rightarrow> ('b, 'z) ledger_tables_scheme LedgerCheckpointStore" where
  "repo_checkpoints P =
     \<lparr>csGetStreamCheckpoint = GetStreamCheckpoint, csUpsertStreamCheckpoint = UpsertStreamCheckpoint P\<rparr>"

definition tradeReason :: "LedgerTradeChange \<Rightarrow> string" where
  "tradeReason change = ''ledger:'' @ tcLastStreamID change @ '' order_events='' @ Utoa (tcOrderEvents change)
     @ '' fills='' @ Utoa (tcFills change) @ '' transfers='' @ Utoa (tcTransfers change)"

definition service_options :: "pg \<Rightarrow> json service_world LedgerSyncLoopOptions" where
  "service_options P =
     \<lparr>loPrefixes = [], loStartID = ''0'', loCount = 200, loRoles = [SuffixReply, SuffixEvent, SuffixDLQ],
      loCheckpoints = Some (repo_checkpoints P),
      loOnTradeChange = Some (\<lambda>change s. case svRefresh s of
          None \<Rightarrow> s
        | Some r \<Rightarrow> s\<lparr>svRefresh := Some (RequestAccounts (tcAccountIDs change) (tradeReason change) r)\<rparr>),
      loOnLedgerChange = Some (\<lambda>change s. s\<lparr>svHub := PublishLedgerChange (dbClientNow s) change (svHub s)\<rparr>)\<rparr>"

end
