(* ===== verification/Loop_Laws.thy ===== *)
theory Loop_Laws
  imports Sync_Loop "HOL-Library.Product_Lexorder"
begin

text \<open>
  What the synchronisation loop guarantees: across restarts, failing statements and cancelled rounds
  a stored checkpoint never runs ahead of the entries that were handed to the ledger, and a round
  always moves its cursors past the batch. The streams of Redis are a log per name with increasing
  ids; an answer of XREAD holds the first entries after the given id.
\<close>

section \<open>Streams of Redis\<close>

text \<open>The id of an entry is a time in milliseconds and a sequence number; a missing sequence number is 0.\<close>

definition xid :: "string \<Rightarrow> nat \<times> nat" where
  "xid i = (case LastIndexByte (CHR ''-'') i of
              None \<Rightarrow> (digits_val i, 0)
            | Some k \<Rightarrow> (digits_val (take k i), digits_val (drop (Suc k) i)))"

type_synonym xlog = "string \<Rightarrow> xmessage list"

definition wf_log :: "xlog \<Rightarrow> bool" where
  "wf_log lg \<longleftrightarrow> (\<forall>name. sorted_wrt (\<lambda>a b. xid (fst a) < xid (fst b)) (lg name)
     \<and> (\<forall>m \<in> set (lg name). (0, 0) < xid (fst m) \<and> fst m \<noteq> [] \<and> TrimSpace (fst m) = fst m))"

definition entries_after :: "string \<Rightarrow> xmessage list \<Rightarrow> xmessage list" where
  "entries_after i ms = filter (\<lambda>m. xid i < xid (fst m)) ms"

definition xread_ok :: "xlog \<Rightarrow> int \<Rightarrow> string list \<Rightarrow> xread_answer \<Rightarrow> bool" where
  "xread_ok lg limit args answer \<longleftrightarrow>
     (case answer of
        XStreams result \<Rightarrow>
          distinct (map fst result)
          \<and> (\<forall>(name, ms) \<in> set result. \<exists>i k. i < length args div 2 \<and> args ! i = name \<and> ms \<noteq> [] \<and> int k \<le> limit
               \<and> ms = take k (entries_after (args ! (length args div 2 + i)) (lg name)))
      | _ \<Rightarrow> True)"

lemma taken_entries: "m \<in> set (take k (entries_after i xs)) \<Longrightarrow> m \<in> set xs"
  by (auto simp: entries_after_def dest: in_set_takeD)

lemma take_entries_after:
  assumes "sorted_wrt (\<lambda>a b. xid (fst a) < xid (fst b)) xs" and ms: "ms = take k (entries_after i xs)" "ms \<noteq> []"
    and m: "m \<in> set xs" "xid (fst m) \<le> xid (fst (last ms))" "xid i < xid (fst m)"
  shows "m \<in> set ms"
proof (rule ccontr)
  assume "m \<notin> set ms"
  let ?ys = "entries_after i xs"
  have "m \<in> set ?ys" using m by (simp add: entries_after_def)
  then have "m \<in> set (take k ?ys) \<union> set (drop k ?ys)" by (simp flip: set_append)
  with \<open>m \<notin> set ms\<close> have "m \<in> set (drop k ?ys)" by (auto simp: ms(1))
  moreover have "sorted_wrt (\<lambda>a b. xid (fst a) < xid (fst b)) ?ys"
    using assms(1) by (simp add: entries_after_def sorted_wrt_filter)
  moreover have "last ms \<in> set (take k ?ys)" using ms by (metis last_in_set)
  ultimately have "xid (fst (last ms)) < xid (fst m)"
    using sorted_wrt_append [of "\<lambda>a b. xid (fst a) < xid (fst b)" "take k ?ys" "drop k ?ys"] by simp
  with m(2) show False by simp
qed

section \<open>Runs\<close>

text \<open>A run of the loop: entries arrive, the process starts with cursors from the checkpoints, rounds are
  read and handled in whole or in part, and other parts of the system act.\<close>

inductive sync_reach ::
    "codec \<Rightarrow> 's SyncWriter \<Rightarrow> (error \<Rightarrow> string) \<Rightarrow> 's LedgerSyncLoopOptions \<Rightarrow> (string \<times> string) list \<Rightarrow>
       ('s \<Rightarrow> 's \<Rightarrow> bool) \<Rightarrow> ('s \<Rightarrow> bool) \<Rightarrow> xlog \<Rightarrow> ledgerStreamCursor list \<Rightarrow> 's \<Rightarrow> bool"
  for C w etext opts streams other fresh
where
  Begin: "wf_log lg \<Longrightarrow> fresh s \<Longrightarrow> sync_reach C w etext opts streams other fresh lg [] s"
| Arrive: "sync_reach C w etext opts streams other fresh lg cs s \<Longrightarrow> wf_log lg' \<Longrightarrow> (\<forall>name. \<exists>ms. lg' name = lg name @ ms) \<Longrightarrow>
     sync_reach C w etext opts streams other fresh lg' cs s"
| Start: "sync_reach C w etext opts streams other fresh lg cs s \<Longrightarrow>
     openCursors (loCheckpoints opts) (loopStartID opts) streams s = (cs', s') \<Longrightarrow>
     sync_reach C w etext opts streams other fresh lg cs' s'"
| Round: "sync_reach C w etext opts streams other fresh lg cs s \<Longrightarrow>
     xread_ok lg (loopCount opts) (xReadStreams cs) (rdXRead rd (xReadStreams cs) (loopCount opts)) \<Longrightarrow>
     syncRound C w etext opts rd (cs, s) = (cs', s') \<Longrightarrow>
     sync_reach C w etext opts streams other fresh lg cs' s'"
| Other: "sync_reach C w etext opts streams other fresh lg cs s \<Longrightarrow> other s s' \<Longrightarrow>
     sync_reach C w etext opts streams other fresh lg cs s'"

section \<open>Batches\<close>

text \<open>The result of an entry names the entry, and so the report of a batch names its last entry.\<close>

interpretation named: entry_contract "\<lambda>r. lpLastStreamID r = i" "\<lambda>r. lpLastStreamID r = i" for i
proof unfold_locales
  show "lpLastStreamID r' = i" if "lpLastStreamID r = i" "uncounted r' = uncounted r" for r r'
    using that(1) arg_cong [OF that(2), of lpLastStreamID] by (simp add: uncounted_def)
qed (simp_all add: noteCancelAttempt_def skipWith_def failWith_def Let_def)

lemma entry_id: "lpLastStreamID (fst (ProcessLedgerEntry C w stream i vals s)) = i"
proof (cases "DecodeEntry C stream i vals")
  case (Pair e v)
  show ?thesis
  proof (cases v)
    case (Some err)
    then show ?thesis
      by (simp add: ProcessLedgerEntry_def Pair skipWith_def failWith_def countArchived_def Let_def
          split: prod.split sum.split)
  next
    case None
    have "triple (\<lambda>r. lpLastStreamID r = i) (archiveEnvelope C w e) (\<lambda>r. lpLastStreamID r = i) (\<lambda>r. lpLastStreamID r = i)"
      unfolding archiveEnvelope_def [abs_def]
      by (intro triple_clock named.k_writing) (simp add: countArchived_def)
    from triple_finish [OF triple_andThen [OF this named.k_dispatch] entryResult_fields(10)] None show ?thesis
      by (simp add: ProcessLedgerEntry_def Pair)
  qed
qed

lemma messages_report:
  "lsName (fst (processMessages C w st ms rep s)) = lsName rep
   \<and> ((\<forall>m \<in> set ms. fst m \<noteq> []) \<longrightarrow> ms \<noteq> [] \<longrightarrow>
        lpLastStreamID (lsTotals (fst (processMessages C w st ms rep s))) = fst (last ms))
   \<and> (ms = [] \<longrightarrow> lpLastStreamID (lsTotals (fst (processMessages C w st ms rep s))) = lpLastStreamID (lsTotals rep))"
proof (induction ms arbitrary: rep s)
  case (Cons m ms)
  obtain r s' where r: "ProcessLedgerEntry C w st (fst m) (snd m) s = (r, s')" by fastforce
  then have "lpLastStreamID r = fst m" using entry_id [of C w st "fst m" "snd m" s] by simp
  then have "lpLastStreamID (lsTotals (reportEntry (fst m) r rep)) = orElse (fst m) (lpLastStreamID (lsTotals rep))"
    by (simp add: reportEntry_def addResult_fields)
  with Cons.IH [of "reportEntry (fst m) r rep" s'] show ?case
    by (auto simp: r orElse_def reportEntry_def)
qed simp

lemma stream_report:
  assumes "processLedgerStreamMessages C w name role start ms s = (rep, s')"
  shows "lsName rep = name" "lsCount rep = length ms"
    "ms \<noteq> [] \<Longrightarrow> \<forall>m \<in> set ms. fst m \<noteq> [] \<Longrightarrow> lpLastStreamID (lsTotals rep) = fst (last ms)"
proof -
  have "report_exact 0 (StreamReport0 name role start)"
    by (simp add: report_exact_def StreamReport0_def Result0_def clean_ids_def)
  from processMessages_exact [OF this, of ms C w name s] show "lsCount rep = length ms"
    using assms by (simp add: processLedgerStreamMessages_def report_exact_def)
qed (use assms messages_report [of C w name ms "StreamReport0 name role start" s]
  in \<open>auto simp: processLedgerStreamMessages_def StreamReport0_def\<close>)

text \<open>A decoded entry keeps its place.\<close>

lemma decoded_stream: "DecodeEntry C st i vals = (e, v) \<Longrightarrow> enStream e = st \<and> enStreamID e = i"
  by (auto simp: DecodeEntry_def bareEnvelope_def fillEnvelope_def Let_def split: option.splits if_splits)

section \<open>Cursors\<close>

lemma cursorIndex_None: "cursorIndex name cs = None \<longleftrightarrow> name \<notin> cuName ` set cs"
  by (induction cs) (auto split: option.split)

lemma cursorIndex_Some: "cursorIndex name cs = Some i \<Longrightarrow> i < length cs \<and> cuName (cs ! i) = name"
  by (induction cs arbitrary: i) (auto split: option.splits if_splits)

lemma cursorByName_Some: "cursorByName cs name = Some c \<Longrightarrow> c \<in> set cs \<and> cuName c = name"
  unfolding cursorByName_def by (auto dest!: map_of_SomeD)

lemma cursorByName_None: "cursorByName cs name = None \<longleftrightarrow> name \<notin> cuName ` set cs"
  by (auto simp: cursorByName_def map_of_eq_None_iff image_image)

lemma moveCursor_name [simp]: "cuName (moveCursor rep c) = cuName c"
  by (simp add: moveCursor_def)

lemma applyReport_names: "map cuName (fst (applyReport etext clock opts rep st)) = map cuName (fst st)"
  by (cases st) (auto simp: applyReport_def Let_def map_update list_update_same_conv dest!: cursorIndex_Some
      split: option.split)

text \<open>Where the loop stands in a stream.\<close>

definition cursorPos :: "ledgerStreamCursor list \<Rightarrow> string \<rightharpoonup> string" where
  "cursorPos cs name = map_option (\<lambda>i. cuLastID (cs ! i)) (cursorIndex name cs)"

lemma cursorIndex_names: "map cuName ds = map cuName cs \<Longrightarrow> cursorIndex name ds = cursorIndex name cs"
proof (induction ds arbitrary: cs)
  case (Cons d ds)
  then obtain c cs' where "cs = c # cs'" "cuName c = cuName d" "map cuName ds = map cuName cs'" by (cases cs) auto
  with Cons.IH [of cs'] show ?case by simp
qed simp

lemma applyReport_pos:
  "cursorPos (fst (applyReport etext clock opts rep st)) name =
     (if name = lsName rep \<and> name \<in> cuName ` set (fst st) \<and> lpLastStreamID (lsTotals rep) \<noteq> []
      then Some (lpLastStreamID (lsTotals rep)) else cursorPos (fst st) name)"
proof (cases "cursorIndex (lsName rep) (fst st)")
  case None
  then have "fst (applyReport etext clock opts rep st) = fst st" by (cases st) (simp add: applyReport_def)
  with None show ?thesis by (auto simp: cursorIndex_None)
next
  case (Some i)
  note i = cursorIndex_Some [OF Some]
  let ?cs = "fst st" and ?d = "moveCursor rep (fst st ! i)"
  have "map cuName (?cs[i := ?d]) = map cuName ?cs" using i by (simp add: map_update list_update_same_conv)
  then have same: "cursorIndex n (?cs[i := ?d]) = cursorIndex n ?cs" for n by (rule cursorIndex_names)
  have run: "fst (applyReport etext clock opts rep st) = ?cs[i := ?d]"
    by (cases st) (use Some in \<open>simp add: applyReport_def Let_def\<close>)
  have other: "j \<noteq> i" if "cursorIndex name ?cs = Some j" "name \<noteq> lsName rep" for j
    using cursorIndex_Some [OF that(1)] i that(2) by auto
  have "lsName rep \<in> cuName ` set ?cs" using i by (metis imageI nth_mem)
  then show ?thesis
    unfolding run cursorPos_def same
    using i other Some by (cases "cursorIndex name ?cs") (auto simp: moveCursor_def nth_list_update)
qed

section \<open>Safe positions\<close>

text \<open>A position in a stream is safe when every entry up to it was handed to the archive.\<close>

definition safe :: "xlog \<Rightarrow> (string \<times> string) set \<Rightarrow> string \<Rightarrow> string \<Rightarrow> bool" where
  "safe lg tr name i \<longleftrightarrow> i \<noteq> [] \<and> TrimSpace i = i \<and> (xid i = (0, 0) \<or> i \<in> fst ` set (lg name))
     \<and> (\<forall>m \<in> set (lg name). xid (fst m) \<le> xid i \<longrightarrow> (name, fst m) \<in> tr)"

lemma safe_mono: "safe lg tr name i \<Longrightarrow> tr \<subseteq> tr' \<Longrightarrow> safe lg tr' name i"
  by (auto simp: safe_def)

lemma safe_start:
  "wf_log lg \<Longrightarrow> xid i = (0, 0) \<Longrightarrow> i \<noteq> [] \<Longrightarrow> TrimSpace i = i \<Longrightarrow> safe lg tr name i"
  by (fastforce simp: safe_def wf_log_def)

lemma safe_grow:
  assumes "wf_log lg'" and "lg' name = lg name @ ms" and "safe lg tr name i"
  shows "safe lg' tr name i"
proof -
  have "xid i < xid (fst m)" if "m \<in> set ms" for m
    using assms that by (fastforce simp: safe_def wf_log_def sorted_wrt_append dest: spec [of _ name])
  with assms show ?thesis by (fastforce simp: safe_def not_less)
qed

lemma safe_batch:
  assumes "wf_log lg" and "safe lg tr name i" and ms: "ms = take k (entries_after i (lg name))" "ms \<noteq> []"
    and "tr \<subseteq> tr'" and "(\<lambda>m. (name, fst m)) ` set ms \<subseteq> tr'"
  shows "safe lg tr' name (fst (last ms))"
proof -
  have "last ms \<in> set (lg name)"
    using taken_entries [of _ k i "lg name"] last_in_set [OF ms(2)] ms(1) by blast
  moreover from this have "fst (last ms) \<noteq> []" "TrimSpace (fst (last ms)) = fst (last ms)"
    using assms(1) by (auto simp: wf_log_def)
  moreover have "(name, fst m) \<in> tr'" if "m \<in> set (lg name)" "xid (fst m) \<le> xid (fst (last ms))" for m
  proof (cases "xid (fst m) \<le> xid i")
    case True
    with assms(2,5) that show ?thesis by (auto simp: safe_def)
  next
    case False
    with take_entries_after [OF _ ms that] assms(1,6) show ?thesis by (auto simp: wf_log_def not_le)
  qed
  ultimately show ?thesis by (auto simp: safe_def)
qed

section \<open>Checkpoints\<close>

text \<open>
  The interface of the loop to the ledger: a relation \<open>R\<close> that the writer and the listeners keep, the
  checkpoints \<open>saved\<close>, and the entries \<open>tried\<close> that were handed to the archive. Only the checkpoint store
  changes what is saved, and it saves what it is given or nothing.
\<close>

locale checkpointed = writer_relation R w for R :: "'s \<Rightarrow> 's \<Rightarrow> bool" and w :: "'s SyncWriter" +
  fixes opts :: "'s LedgerSyncLoopOptions" and store :: "'s LedgerCheckpointStore"
    and saved :: "'s \<Rightarrow> string \<rightharpoonup> string" and tried :: "'s \<Rightarrow> (string \<times> string) set"
  assumes R_saved: "R s t \<Longrightarrow> saved t = saved s" and R_tried: "R s t \<Longrightarrow> tried s \<subseteq> tried t"
    and archive_tried: "(rmStreamKey m, rmStreamID m) \<in> tried (snd (swArchiveRawStreamMessage w m s))"
    and get_stays: "R s (snd (csGetStreamCheckpoint store name s))"
    and get_saved: "TrimSpace name = name \<Longrightarrow> csGetStreamCheckpoint store name s = (Inr c, s') \<Longrightarrow>
      saved s name = Some (ckLastStreamID c)"
    and put_tried: "tried s \<subseteq> tried (snd (csUpsertStreamCheckpoint store c s))"
    and put_saved: "TrimSpace (ckStreamKey c) = ckStreamKey c \<Longrightarrow> TrimSpace (ckLastStreamID c) = ckLastStreamID c \<Longrightarrow>
      ckLastStreamID c \<noteq> [] \<Longrightarrow>
      saved (snd (csUpsertStreamCheckpoint store c s)) \<in> {saved s, (saved s)(ckStreamKey c \<mapsto> ckLastStreamID c)}"
    and opts_store: "loCheckpoints opts = Some store"
    and opts_start: "xid (loopStartID opts) = (0, 0)"
    and opts_trade: "loOnTradeChange opts = Some f \<Longrightarrow> R s (f tc s)"
    and opts_ledger: "loOnLedgerChange opts = Some g \<Longrightarrow> R s (g lc s)"
begin

text \<open>Every entry of a batch reaches the archive.\<close>

lemma archived_at: "swArchiveRawStreamMessage w m s = (v, t) \<Longrightarrow> (rmStreamKey m, rmStreamID m) \<in> tried t"
  using archive_tried [of m s] by simp

lemma parse_tried: "archiveParseError w st i vals err s = (v, t) \<Longrightarrow> (st, i) \<in> tried t"
  by (auto simp: archiveParseError_def split: prod.splits dest: archived_at)

lemma envelope_tried: "archiveEnvelope C w e r s = (v, t) \<Longrightarrow> (enStream e, enStreamID e) \<in> tried t"
  by (auto simp: archiveEnvelope_def writing_def rawMessageFromEnvelope_def split: prod.splits sum.splits dest!: archived_at)

lemma dispatch_tried: "dispatchEnvelope w e r s = (v, t) \<Longrightarrow> tried s \<subseteq> tried t"
  using p_dispatch [of e] R_tried by (metis proc_stays_def snd_conv)

lemma entry_tried: "(st, i) \<in> tried (snd (ProcessLedgerEntry C w st i vals s))"
proof (cases "DecodeEntry C st i vals")
  case (Pair e v)
  show ?thesis
  proof (cases v)
    case (Some err)
    obtain r t where a: "archiveParseError w st i vals err s = (r, t)" by fastforce
    from parse_tried [OF a] Some show ?thesis
      by (simp add: ProcessLedgerEntry_def Pair a Let_def split: sum.split)
  next
    case None
    then have e: "enStream e = st" "enStreamID e = i" using decoded_stream [OF Pair] by simp_all
    obtain v1 s1 where a: "archiveEnvelope C w e (entryResult i e) s = (v1, s1)" by fastforce
    have s1: "(st, i) \<in> tried s1" using envelope_tried [OF a] e by simp
    then have "(st, i) \<in> tried t" if "dispatchEnvelope w e r s1 = (v2, t)" for r v2 t
      using dispatch_tried [OF that] by blast
    with s1 None show ?thesis
      by (auto simp: ProcessLedgerEntry_def Pair finish_def andThen_def a split: sum.split prod.split)
  qed
qed

lemma messages_tried:
  "(\<lambda>m. (st, fst m)) ` set ms \<subseteq> tried (snd (processMessages C w st ms rep s))"
proof (induction ms arbitrary: rep s)
  case (Cons m ms)
  obtain r s' where r: "ProcessLedgerEntry C w st (fst m) (snd m) s = (r, s')" by fastforce
  then have "(st, fst m) \<in> tried s'" using entry_tried [of st "fst m" C "snd m" s] by simp
  then have "(st, fst m) \<in> tried (snd (processMessages C w st ms (reportEntry (fst m) r rep) s'))"
    using R_tried [OF messages_stay] by blast
  with Cons.IH [of "reportEntry (fst m) r rep" s'] show ?case by (simp add: r)
qed simp

text \<open>The invariant: every cursor and every checkpoint is at a safe position.\<close>

definition loop_inv :: "xlog \<Rightarrow> ledgerStreamCursor list \<Rightarrow> 's \<Rightarrow> bool" where
  "loop_inv lg cs s \<longleftrightarrow> wf_log lg
     \<and> (\<forall>c \<in> set cs. TrimSpace (cuName c) = cuName c \<and> safe lg (tried s) (cuName c) (cuLastID c))
     \<and> (\<forall>name i. saved s name = Some i \<longrightarrow> safe lg (tried s) name i)"

lemma inv_R: "loop_inv lg cs s \<Longrightarrow> R s t \<Longrightarrow> loop_inv lg cs t"
  using R_tried [of s t] R_saved [of s t] by (auto simp: loop_inv_def elim!: safe_mono)

lemma start_safe:
  assumes "loop_inv lg cs s" and "TrimSpace name = name" and "cursorStartID (Some store) (loopStartID opts) name s = (i, s')"
  shows "R s s' \<and> safe lg (tried s') name i"
proof -
  have "loopStartID opts \<noteq> []" "TrimSpace (loopStartID opts) = loopStartID opts"
    using opts_start by (auto simp: loopStartID_def orElse_def TrimSpace_ascii_word)
  then have start: "safe lg tr name (loopStartID opts)" for tr
    using assms(1) opts_start by (intro safe_start) (auto simp: loop_inv_def)
  obtain v t where g: "csGetStreamCheckpoint store name s = (v, t)" by fastforce
  then have "R s t" using get_stays [of s name] by simp
  moreover have "safe lg (tried t) name (ckLastStreamID c)" if "v = Inr c" for c
    using inv_R [OF assms(1) \<open>R s t\<close>] R_saved [OF \<open>R s t\<close>] get_saved [OF assms(2)] g that
    by (auto simp: loop_inv_def)
  ultimately show ?thesis
    using assms(3) start by (auto simp: cursorStartID_def g split: sum.splits if_splits)
qed

lemma open_inv:
  assumes "openCursors (Some store) (loopStartID opts) strs s = (cs', s')" and "loop_inv lg cs s"
    and "\<forall>(name, role) \<in> set strs. TrimSpace name = name"
  shows "R s s' \<and> loop_inv lg cs' s'"
  using assms
proof (induction strs arbitrary: s cs' s')
  case Nil
  then show ?case by (auto simp: loop_inv_def R_refl)
next
  case (Cons p strs)
  obtain name role where p: "p = (name, role)" by fastforce
  obtain i s1 where i: "cursorStartID (Some store) (loopStartID opts) name s = (i, s1)" by fastforce
  obtain cs1 s2 where o: "openCursors (Some store) (loopStartID opts) strs s1 = (cs1, s2)" by fastforce
  have s1: "R s s1" "safe lg (tried s1) name i" using start_safe [OF Cons.prems(2) _ i] Cons.prems(3) by (auto simp: p)
  from Cons.IH [OF o inv_R [OF Cons.prems(2) s1(1)]] Cons.prems(3)
  have s2: "R s1 s2" "loop_inv lg cs1 s2" by auto
  then have "safe lg (tried s2) name i" using s1 R_tried [OF s2(1)] by (auto intro: safe_mono)
  with s2 s1 Cons.prems show ?case by (auto simp: p i o loop_inv_def intro: R_trans)
qed

text \<open>The reports of a round name safe positions.\<close>

definition good_report :: "xlog \<Rightarrow> 's \<Rightarrow> LedgerStreamReport \<Rightarrow> bool" where
  "good_report lg s rep \<longleftrightarrow> safe lg (tried s) (lsName rep) (lpLastStreamID (lsTotals rep))"

lemma batch_good:
  assumes "loop_inv lg cs s" and "c \<in> set cs" "ms = take k (entries_after (cuLastID c) (lg (cuName c)))" "ms \<noteq> []"
    and run: "processLedgerStreamMessages C w (cuName c) role start ms s = (rep, t)"
  shows "R s t \<and> good_report lg t rep"
proof -
  have st: "R s t" using stream_stays [of s C "cuName c" role start ms] by (simp add: run)
  have "m \<in> set (lg (cuName c))" if "m \<in> set ms" for m
    using that unfolding assms(3) by (rule taken_entries)
  then have "\<forall>m \<in> set ms. fst m \<noteq> []" using assms(1) unfolding loop_inv_def wf_log_def by blast
  note rep = stream_report(1) [OF run] stream_report(3) [OF run assms(4) this]
  have "(\<lambda>m. (cuName c, fst m)) ` set ms \<subseteq> tried t"
    using messages_tried [of "cuName c" ms C "StreamReport0 (cuName c) role start" s] run
    by (simp add: processLedgerStreamMessages_def)
  moreover have "wf_log lg" "safe lg (tried s) (cuName c) (cuLastID c)"
    using assms(1,2) by (auto simp: loop_inv_def)
  ultimately have "safe lg (tried t) (cuName c) (fst (last ms))"
    using assms(3,4) R_tried [OF st] by (blast intro: safe_batch)
  with st rep show ?thesis by (simp add: good_report_def)
qed

lemma streams_good:
  assumes "processStreams C w byName result s = (reps, t)" and "loop_inv lg cs s"
    and "\<forall>(name, ms) \<in> set result. \<exists>c k. c \<in> set cs \<and> cuName c = name \<and> ms \<noteq> []
           \<and> ms = take k (entries_after (cuLastID c) (lg name))"
  shows "R s t \<and> (\<forall>rep \<in> set reps. good_report lg t rep)"
  using assms
proof (induction result arbitrary: s reps t)
  case Nil
  then show ?case by (simp add: R_refl)
next
  case (Cons p result)
  obtain name ms where p: "p = (name, ms)" by fastforce
  then obtain c k where c: "c \<in> set cs" "cuName c = name" "ms \<noteq> []" "ms = take k (entries_after (cuLastID c) (lg name))"
    using Cons.prems(3) by auto
  show ?case
  proof (cases "byName name")
    case None
    with Cons.IH [of s reps] Cons.prems p show ?thesis by simp
  next
    case (Some cur)
    obtain rep s1 where r: "processLedgerStreamMessages C w name (cuRole cur) (cuLastID cur) ms s = (rep, s1)" by fastforce
    obtain reps1 s2 where o: "processStreams C w byName result s1 = (reps1, s2)" by fastforce
    have s1: "R s s1" "good_report lg s1 rep"
      using batch_good [OF Cons.prems(2) c(1) _ c(3)] c r by blast+
    from Cons.IH [OF o inv_R [OF Cons.prems(2) s1(1)]] Cons.prems(3)
    have s2: "R s1 s2" "\<forall>rep \<in> set reps1. good_report lg s2 rep" by auto
    then have "good_report lg s2 rep"
      using s1 R_tried [OF s2(1)] by (auto simp: good_report_def intro: safe_mono)
    moreover have "t = s2" "reps = rep # reps1" using Cons.prems(1) by (auto simp: p Some r o)
    ultimately show ?thesis using s1 s2 by (auto intro: R_trans)
  qed
qed

lemma xread_cursors:
  assumes "xread_ok lg n (xReadStreams cs) (XStreams result)" and "(name, ms) \<in> set result"
  shows "\<exists>c k. c \<in> set cs \<and> cuName c = name \<and> ms \<noteq> [] \<and> ms = take k (entries_after (cuLastID c) (lg name))"
proof -
  obtain i k where i: "i < length cs" "(map cuName cs @ map cuLastID cs) ! i = name" "ms \<noteq> []"
      "ms = take k (entries_after ((map cuName cs @ map cuLastID cs) ! (length cs + i)) (lg name))"
    using assms by (fastforce simp: xread_ok_def xReadStreams_def)
  then have "cs ! i \<in> set cs" "cuName (cs ! i) = name" "ms = take k (entries_after (cuLastID (cs ! i)) (lg name))"
    by (simp_all add: nth_append)
  with i(3) show ?thesis by blast
qed

lemma save_inv:
  assumes "loop_inv lg cs s" and c: "TrimSpace (cuName c) = cuName c" "safe lg (tried s) (cuName c) (cuLastID c)"
  shows "tried s \<subseteq> tried (saveLedgerCheckpoint etext (swClock w) (Some store) c rep s)
    \<and> loop_inv lg cs (saveLedgerCheckpoint etext (swClock w) (Some store) c rep s)"
proof (cases "lsCount rep = 0 \<and> lsErrors rep = []")
  case True
  with assms(1) show ?thesis by (simp add: saveLedgerCheckpoint_def)
next
  case False
  obtain now s1 where n: "swClock w s = (now, s1)" by fastforce
  then have R1: "R s s1" using w_clock [of s] by simp
  let ?c = "batchCheckpoint etext now c rep" and ?t = "snd (csUpsertStreamCheckpoint store (batchCheckpoint etext now c rep) s1)"
  have ids: "ckStreamKey ?c = cuName c" "ckLastStreamID ?c = cuLastID c"
    using c(2) by (simp_all add: batchCheckpoint_def orElse_def safe_def)
  then have saved: "saved ?t \<in> {saved s1, (saved s1)(cuName c \<mapsto> cuLastID c)}"
    using put_saved [of ?c s1] c by (auto simp: safe_def)
  have grow: "tried s1 \<subseteq> tried ?t" "tried s \<subseteq> tried ?t" using R_tried [OF R1] put_tried [of s1 ?c] by blast+
  then have new: "safe lg (tried ?t) (cuName c) (cuLastID c)" using c(2) by (blast intro: safe_mono)
  note inv = inv_R [OF assms(1) R1, unfolded loop_inv_def]
  have "safe lg (tried ?t) name i" if "saved ?t name = Some i" for name i
  proof (cases "saved s1 name = Some i")
    case True
    with inv show ?thesis by (blast intro: safe_mono [OF _ grow(1)])
  next
    case False
    with saved that have "name = cuName c" "i = cuLastID c" by (auto split: if_splits)
    with new show ?thesis by simp
  qed
  moreover have "TrimSpace (cuName d) = cuName d" "safe lg (tried ?t) (cuName d) (cuLastID d)" if "d \<in> set cs" for d
    using inv that by (blast intro: safe_mono [OF _ grow(1)])+
  ultimately have "loop_inv lg cs ?t" using inv by (simp add: loop_inv_def)
  with grow(2) False show ?thesis by (auto simp: saveLedgerCheckpoint_def n)
qed

lemma notify_R: "R s (notifyChanges opts rep s)"
proof -
  have "R s (case loOnTradeChange opts of None \<Rightarrow> s | Some f \<Rightarrow> if b then f tc s else s)" for b tc
    by (auto simp: R_refl opts_trade split: option.split)
  moreover have "R u (case loOnLedgerChange opts of None \<Rightarrow> u | Some f \<Rightarrow> if b then f lc u else u)" for b lc u
    by (auto simp: R_refl opts_ledger split: option.split)
  ultimately show ?thesis unfolding notifyChanges_def Let_def by (blast intro: R_trans)
qed

lemma apply_inv:
  assumes "loop_inv lg cs s" and "good_report lg s rep" and "applyReport etext (swClock w) opts rep (cs, s) = (cs', t)"
  shows "tried s \<subseteq> tried t \<and> loop_inv lg cs' t"
proof (cases "cursorIndex (lsName rep) cs")
  case None
  with assms show ?thesis by (simp add: applyReport_def)
next
  case (Some i)
  note i = cursorIndex_Some [OF Some]
  let ?c = "moveCursor rep (cs ! i)"
  have c: "cuName ?c = lsName rep" "cuLastID ?c = lpLastStreamID (lsTotals rep)"
    using assms(2) i by (simp_all add: moveCursor_def good_report_def safe_def)
  have "TrimSpace (lsName rep) = lsName rep" using assms(1) i by (metis loop_inv_def nth_mem)
  then have "loop_inv lg (cs[i := ?c]) s"
    using assms(1,2) c by (auto simp: loop_inv_def good_report_def dest!: set_update_subset_insert [THEN subsetD])
  from save_inv [OF this, of ?c etext rep] assms(2) c \<open>TrimSpace (lsName rep) = lsName rep\<close>
  have save: "tried s \<subseteq> tried (saveLedgerCheckpoint etext (swClock w) (Some store) ?c rep s)"
    "loop_inv lg (cs[i := ?c]) (saveLedgerCheckpoint etext (swClock w) (Some store) ?c rep s)"
    by (auto simp: good_report_def)
  then show ?thesis
    using assms(3) inv_R [OF save(2) notify_R] R_tried [OF notify_R, of "saveLedgerCheckpoint etext (swClock w) (Some store) ?c rep s" rep]
    by (auto simp: applyReport_def Some opts_store Let_def)
qed

lemma reports_inv:
  assumes "loop_inv lg cs s" and "\<forall>rep \<in> set reps. good_report lg s rep"
    and "fold (applyReport etext (swClock w) opts) reps (cs, s) = (cs', t)"
  shows "loop_inv lg cs' t"
  using assms
proof (induction reps arbitrary: cs s)
  case (Cons rep reps)
  obtain cs1 s1 where a: "applyReport etext (swClock w) opts rep (cs, s) = (cs1, s1)" by fastforce
  have s1: "tried s \<subseteq> tried s1" "loop_inv lg cs1 s1" using apply_inv [OF Cons.prems(1) _ a] Cons.prems(2) by auto
  have "\<forall>rep \<in> set reps. good_report lg s1 rep"
    using Cons.prems(2) s1(1) by (auto simp: good_report_def intro: safe_mono)
  from Cons.IH [OF s1(2) this] Cons.prems(3) show ?case by (simp add: a)
qed simp

lemma round_inv:
  assumes "loop_inv lg cs s" and x: "xread_ok lg (loopCount opts) (xReadStreams cs) (rdXRead rd (xReadStreams cs) (loopCount opts))"
    and run: "syncRound C w etext opts rd (cs, s) = (cs', t)"
  shows "loop_inv lg cs' t"
proof (cases "xReadStreams cs = [] \<or> (\<forall>result. rdXRead rd (xReadStreams cs) (loopCount opts) \<noteq> XStreams result)")
  case True
  with run assms(1) show ?thesis
    by (cases "rdXRead rd (xReadStreams cs) (loopCount opts)")
      (auto simp: syncRound_def readAndProcessStreams_def split: if_splits)
next
  case False
  then obtain result where r: "xReadStreams cs \<noteq> []" "rdXRead rd (xReadStreams cs) (loopCount opts) = XStreams result" by auto
  obtain reps s1 where p: "processStreams C w (cursorByName cs) result s = (reps, s1)" by fastforce
  have "\<exists>c k. c \<in> set cs \<and> cuName c = name \<and> ms \<noteq> [] \<and> ms = take k (entries_after (cuLastID c) (lg name))"
    if "(name, ms) \<in> set result" for name ms
    using xread_cursors [OF _ that] x unfolding r(2) by blast
  then have s1: "R s s1" "\<forall>rep \<in> set reps. good_report lg s1 rep"
    using streams_good [OF p assms(1)] by blast+
  have "\<forall>rep \<in> set (take (rdHandled rd) reps). good_report lg s1 rep" using s1(2) by (auto dest: in_set_takeD)
  from reports_inv [OF inv_R [OF assms(1) s1(1)] this] run show ?thesis
    by (simp add: syncRound_def readAndProcessStreams_def r p)
qed

lemma reach_inv:
  assumes "sync_reach C w etext opts strs other fresh lg cs s"
    and "\<And>s t. other s t \<Longrightarrow> R s t" and "\<And>s. fresh s \<Longrightarrow> saved s = Map.empty"
    and "\<forall>(name, role) \<in> set strs. TrimSpace name = name"
  shows "loop_inv lg cs s"
  using assms(1)
proof induction
  case (Arrive lg cs s lg')
  then show ?case unfolding loop_inv_def by (metis safe_grow)
next
  case (Start lg cs s cs' s')
  with open_inv [of strs s cs' s' lg cs] opts_store assms(4) show ?case by simp
next
  case (Round lg cs s rd cs' s')
  then show ?case by (blast intro: round_inv)
next
  case (Other lg cs s s')
  then show ?case by (blast intro: inv_R assms(2))
qed (simp add: loop_inv_def assms(3))

lemma checkpoint_safe:
  assumes "sync_reach C w etext opts strs other fresh lg cs s"
    and "\<And>s t. other s t \<Longrightarrow> R s t" and "\<And>s. fresh s \<Longrightarrow> saved s = Map.empty"
    and "\<forall>(name, role) \<in> set strs. TrimSpace name = name"
    and "csGetStreamCheckpoint store name s = (Inr c, t)" and "TrimSpace name = name"
    and "m \<in> set (lg name)" and "xid (fst m) \<le> xid (ckLastStreamID c)"
  shows "(name, fst m) \<in> tried s"
  using reach_inv [OF assms(1-4)] get_saved [OF assms(6,5)] assms(7,8) by (auto simp: loop_inv_def safe_def)

end

section \<open>The repository\<close>

text \<open>What the service relies on: outside the checkpoint store nothing changes a checkpoint, and the record of
  the calls only grows.\<close>

definition same_marks :: "('b, 'z) ledger_tables_scheme \<Rightarrow> ('b, 'z) ledger_tables_scheme \<Rightarrow> bool" where
  "same_marks s t \<longleftrightarrow> tbCheckpoints t = tbCheckpoints s \<and> ledger_tables.more t = ledger_tables.more s"

interpretation marks: statement_relation same_marks
  by unfold_locales
    (auto simp: same_marks_def stays_def upsertOrderSQL_def add_order_row_def updateOrderStatusSQL_def appendOrderEventSQL_def
      archiveRawStreamMessageSQL_def upsertPositionSQL_def deleteStalePositionsSQL_def upsertAssetSnapshotSQL_def
      insertComponentTransferSQL_def upsertOrderCancelAttemptSQL_def upsertOrderFeeRecordSQL_def insertFillSQL_def
      deleteSummaryFillsForOrderSQL_def Let_def split: option.split)

definition keeps_marks :: "json service_world \<Rightarrow> json service_world \<Rightarrow> bool" where
  "keeps_marks s t \<longleftrightarrow> tbCheckpoints t = tbCheckpoints s \<and> set (svArchiveCalls s) \<subseteq> set (svArchiveCalls t)"

lemma marks_kept: "same_marks s t \<Longrightarrow> keeps_marks s t"
  by (cases s, cases t) (simp add: same_marks_def keeps_marks_def service_world.defs)

lemma stays_marks: "stays same_marks m \<Longrightarrow> stays keeps_marks m"
  by (auto simp: stays_def intro: marks_kept)

definition saved_id :: "('b, 'z) ledger_tables_scheme \<Rightarrow> string \<rightharpoonup> string" where
  "saved_id s name = map_option (\<lambda>r. ckLastStreamID (kwCheckpoint r))
     (find (\<lambda>r. ckStreamKey (kwCheckpoint r) = name) (tbCheckpoints s))"

lemma archive_call:
  fixes s :: "json service_world"
  assumes "ArchiveRawStreamMessage P m (s\<lparr>svArchiveCalls := calls\<rparr>) = (v, t)"
  shows "tbCheckpoints t = tbCheckpoints s" "svArchiveCalls t = calls"
proof -
  have "same_marks (s\<lparr>svArchiveCalls := calls\<rparr>) t" using stays_snd [OF marks.archive_op] assms by (metis snd_conv)
  then show "tbCheckpoints t = tbCheckpoints s" "svArchiveCalls t = calls"
    by (cases s; cases t; simp add: same_marks_def service_world.defs)+
qed

interpretation service: writer_relation keeps_marks "service_writer Z P synthesis"
proof unfold_locales
  show "keeps_marks s t \<Longrightarrow> keeps_marks t u \<Longrightarrow> keeps_marks s u" for s t u by (auto simp: keeps_marks_def)
  show "stays keeps_marks (swArchiveRawStreamMessage (service_writer Z P synthesis) m)" for m
  proof (rule staysI)
    fix s
    obtain v t where "swArchiveRawStreamMessage (service_writer Z P synthesis) m s = (v, t)" by fastforce
    then show "keeps_marks s (snd (swArchiveRawStreamMessage (service_writer Z P synthesis) m s))"
      using archive_call by (auto simp: service_writer_def keeps_marks_def)
  qed
qed (simp_all add: service_writer_def repo_writer_def stays_marks marks.order_ops marks.archive_op marks.table_ops marks.snapshot_ops keeps_marks_def)

text \<open>The store of the repository.\<close>

lemma get_marks: "stays same_marks (GetStreamCheckpoint name :: (json, 'z, StreamCheckpoint) table_act)"
  unfolding GetStreamCheckpoint_def Let_def by (intro marks.rules marks.stmt marks.q_read)

lemma get_saved_id:
  assumes "TrimSpace name = name" and "GetStreamCheckpoint name s = (Inr c, t)"
  shows "saved_id s name = Some (ckLastStreamID c)"
  using assms
  by (auto simp: GetStreamCheckpoint_def saved_id_def run_stmt_def scanStreamCheckpoint_def of_res_def Let_def
      split: if_splits list.splits fault.splits option.splits sum.splits elim!: seq_InrE)

lemma find_merged:
  "find (\<lambda>r. ckStreamKey (kwCheckpoint r) = name) (map (\<lambda>r. if same_checkpoint new r then checkpoint_merge r new else r) rs)
   = map_option (\<lambda>r. if same_checkpoint new r then checkpoint_merge r new else r)
       (find (\<lambda>r. ckStreamKey (kwCheckpoint r) = name) rs)"
  by (induction rs) (auto simp: same_checkpoint_def checkpoint_merge_def Let_def)

lemma same_checkpoint_key: "same_checkpoint new = (\<lambda>r. ckStreamKey (kwCheckpoint r) = ckStreamKey (kwCheckpoint new))"
  by (auto simp: same_checkpoint_def fun_eq_iff)

lemma find_key: "find (\<lambda>r. ckStreamKey (kwCheckpoint r) = name) rs = Some r \<Longrightarrow> ckStreamKey (kwCheckpoint r) = name"
  by (auto simp: find_Some_iff)

lemma find_snoc: "find p (xs @ [y]) = (case find p xs of None \<Rightarrow> if p y then Some y else None | Some x \<Rightarrow> Some x)"
  by (induction xs) auto

lemma put_sql_saved:
  "saved_id (snd (upsertStreamCheckpointSQL new s))
     \<in> {saved_id s, (saved_id s)(ckStreamKey (kwCheckpoint new) \<mapsto> ckLastStreamID (kwCheckpoint new))}"
proof (cases "find (same_checkpoint new) (tbCheckpoints s)")
  case None
  then have "saved_id (s\<lparr>tbCheckpoints := tbCheckpoints s @ [new]\<rparr>)
      = (saved_id s)(ckStreamKey (kwCheckpoint new) \<mapsto> ckLastStreamID (kwCheckpoint new))"
    by (auto simp: saved_id_def same_checkpoint_key find_snoc fun_eq_iff split: option.split)
  with None show ?thesis by (simp add: upsertStreamCheckpointSQL_def)
next
  case (Some old)
  let ?f = "\<lambda>r. if same_checkpoint new r then checkpoint_merge r new else r"
  have "saved_id (s\<lparr>tbCheckpoints := map ?f (tbCheckpoints s)\<rparr>) name
      = ((saved_id s)(ckStreamKey (kwCheckpoint new) \<mapsto> ckLastStreamID (kwCheckpoint new))) name" for name
  proof (cases "name = ckStreamKey (kwCheckpoint new)")
    case True
    with Some show ?thesis
      using find_key [OF Some [unfolded same_checkpoint_key]]
      by (simp add: saved_id_def find_merged [unfolded same_checkpoint_key] same_checkpoint_key checkpoint_merge_def Let_def)
  next
    case False
    show ?thesis
    proof (cases "find (\<lambda>r. ckStreamKey (kwCheckpoint r) = name) (tbCheckpoints s)")
      case (Some r)
      with False show ?thesis using find_key [OF Some] by (simp add: saved_id_def find_merged [unfolded same_checkpoint_key] same_checkpoint_key)
    qed (use False in \<open>simp add: saved_id_def find_merged\<close>)
  qed
  then have "saved_id (s\<lparr>tbCheckpoints := map ?f (tbCheckpoints s)\<rparr>)
      = (saved_id s)(ckStreamKey (kwCheckpoint new) \<mapsto> ckLastStreamID (kwCheckpoint new))" by blast
  with Some show ?thesis by (simp add: upsertStreamCheckpointSQL_def)
qed

lemma put_calls:
  "svArchiveCalls (snd (UpsertStreamCheckpoint P c s)) = svArchiveCalls s"
  by (simp add: UpsertStreamCheckpoint_def upsertStreamCheckpointSQL_def run_stmt_def Let_def
      split: list.split fault.split option.split)

lemma saved_stmt:
  assumes "\<And>u. saved_id (snd (m u)) \<in> {saved_id u, (saved_id u)(k \<mapsto> v)}"
  shows "saved_id (snd (run_stmt m s)) \<in> {saved_id s, (saved_id s)(k \<mapsto> v)}"
proof -
  have faults: "saved_id (s\<lparr>dbFaults := fs\<rparr>) = saved_id s" for fs by (simp add: saved_id_def fun_eq_iff)
  have "saved_id (snd (m (s\<lparr>dbFaults := fs\<rparr>))) \<in> {saved_id s, (saved_id s)(k \<mapsto> v)}" for fs
    using assms [of "s\<lparr>dbFaults := fs\<rparr>"] by (simp only: faults)
  with assms [of s] faults show ?thesis by (simp add: run_stmt_def Let_def split: list.split fault.split)
qed

lemma put_saved_id:
  assumes "TrimSpace (ckStreamKey c) = ckStreamKey c" "TrimSpace (ckLastStreamID c) = ckLastStreamID c" "ckLastStreamID c \<noteq> []"
  shows "saved_id (snd (UpsertStreamCheckpoint P c s)) \<in> {saved_id s, (saved_id s)(ckStreamKey c \<mapsto> ckLastStreamID c)}"
proof -
  let ?c = "c\<lparr>ckRole := TrimSpace (ckRole c)\<rparr>"
  have "saved_id (snd (run_stmt (\<lambda>s. upsertStreamCheckpointSQL (checkpoint_values P (dbServerNow s) ?c) s) s))
      \<in> {saved_id s, (saved_id s)(ckStreamKey c \<mapsto> ckLastStreamID c)}"
    by (rule saved_stmt) (use put_sql_saved [of "checkpoint_values P now ?c" for now] in \<open>simp add: checkpoint_values_def\<close>)
  with assms show ?thesis by (simp add: UpsertStreamCheckpoint_def orElse_def Let_def)
qed

text \<open>The service's loop.\<close>

lemma service_start: "loopStartID (service_options P) = ''0''" "xid ''0'' = (0, 0)"
  by (simp_all add: loopStartID_def service_options_def orElse_def TrimSpace_ascii_word xid_def digits_val_def digit_val_def)

interpretation loop: checkpointed keeps_marks "service_writer Z P synthesis" "service_options P" "repo_checkpoints P"
    saved_id "\<lambda>s. set (svArchiveCalls s)"
proof unfold_locales
  show "saved_id t = saved_id s" if "keeps_marks s t" for s t using that by (simp add: keeps_marks_def saved_id_def fun_eq_iff)
  show "set (svArchiveCalls s) \<subseteq> set (svArchiveCalls t)" if "keeps_marks s t" for s t using that by (simp add: keeps_marks_def)
  show "(rmStreamKey m, rmStreamID m) \<in> set (svArchiveCalls (snd (swArchiveRawStreamMessage (service_writer Z P synthesis) m s)))" for m s
    using archive_call(2) [OF surjective_pairing] by (simp add: service_writer_def)
  show "keeps_marks s (snd (csGetStreamCheckpoint (repo_checkpoints P) name s))" for name s
    using stays_snd [OF stays_marks [OF get_marks]] by (simp add: repo_checkpoints_def)
  show "xid (loopStartID (service_options P)) = (0, 0)" by (simp add: service_start)
  show "saved_id (snd (csUpsertStreamCheckpoint (repo_checkpoints P) c s))
      \<in> {saved_id s, (saved_id s)(ckStreamKey c \<mapsto> ckLastStreamID c)}"
    if "TrimSpace (ckStreamKey c) = ckStreamKey c" "TrimSpace (ckLastStreamID c) = ckLastStreamID c" "ckLastStreamID c \<noteq> []"
    for c and s :: "json service_world"
    using put_saved_id [OF that] by (simp add: repo_checkpoints_def)
qed (auto simp: repo_checkpoints_def service_options_def get_saved_id put_calls keeps_marks_def split: option.splits)

text \<open>The names of the streams are trimmed, whatever the configured prefixes are.\<close>

lemma edge_not_space: "ascii_edge ch \<Longrightarrow> x \<in> set space_encodings \<Longrightarrow> ch \<notin> set x"
  by (auto simp: space_encodings_def ascii_edge_def)

lemma TrimSpace_stream_name:
  assumes "t \<noteq> []" and "ascii_edge (last t)"
  shows "TrimSpace (cleanPrefix p @ CHR '':'' # t) = cleanPrefix p @ CHR '':'' # t"
proof -
  let ?u = "cleanPrefix p" and ?s = "cleanPrefix p @ CHR '':'' # t"
  have u: "prefix ?u (TrimSpace p)"
    unfolding cleanPrefix_def TrimRightByte_def by (metis rev_rev_ident suffix_dropWhile suffix_to_prefix)
  have "\<not> prefix x ?s" if x: "x \<in> set space_encodings" for x
  proof
    assume "prefix x ?s"
    moreover have "CHR '':'' \<notin> set x" using edge_not_space [OF _ x] by (simp add: ascii_edge_def)
    ultimately have "prefix x ?u" by (auto simp: prefix_append prefix_Cons)
    then have "prefix x (TrimSpace p)" using u by (rule prefix_order.trans)
    with TrimSpace_prefix_free [of p] x space_encoding_not_ascii [OF x] show False by (auto simp: find_None_iff)
  qed
  then have "TrimLeftSpace ?s = ?s" by (simp add: TrimLeftSpace_def strip_front_fixed find_None_iff)
  moreover have "\<not> prefix (rev x) (rev ?s)" if x: "x \<in> set space_encodings" for x
    using prefix_ascii_edge [of "rev x" "rev ?s"] space_encoding_not_ascii [OF x] assms
    by (auto simp: ascii_edge_def hd_rev)
  then have "TrimRightSpace ?s = ?s" by (simp add: TrimRightSpace_def strip_front_fixed find_None_iff)
  ultimately show ?thesis by (simp add: TrimSpace_def)
qed

lemma loop_names_trimmed: "\<forall>(name, role) \<in> set (loopStreams pfxs roles). TrimSpace name = name"
  by (auto simp: loopStreams_def streamNameForRole_def NewStreams_def suffix_defs ascii_edge_def Let_def
      intro!: TrimSpace_stream_name)

section \<open>Properties\<close>

text \<open>C5: A checkpoint never runs ahead of the processing. Take any run of the service's loop, with any
  restarts, any rounds cut short by the end of the context, any failing statements and any other
  activity in between; Redis answers XREAD as it documents. Whatever the checkpoint store then
  returns for a stream, every entry of the stream up to that id was handed to the archive, so
  that a restart from the checkpoint skips no entry.\<close>

theorem checkpoint_covers_processed:
  assumes "sync_reach C (service_writer Z P synthesis) etext (service_options P) (loopStreams pfxs roles)
      keeps_marks (\<lambda>s. tbCheckpoints s = []) lg cs s"
    and "GetStreamCheckpoint name s = (Inr c, t)" and "TrimSpace name = name"
    and "m \<in> set (lg name)" and "xid (fst m) \<le> xid (ckLastStreamID c)"
  shows "(name, fst m) \<in> set (svArchiveCalls s)"
  using loop.checkpoint_safe [OF assms(1) _ _ loop_names_trimmed _ assms(3-5)] assms(2)
  by (fastforce simp: repo_checkpoints_def saved_id_def)

text \<open>The reports of a round, by stream.\<close>

lemma streams_reports:
  assumes "processStreams C w byName result s = (reps, t)"
  shows "list_all2 (\<lambda>(name, ms) rep. lsName rep = name
      \<and> (ms \<noteq> [] \<longrightarrow> (\<forall>m \<in> set ms. fst m \<noteq> []) \<longrightarrow> lpLastStreamID (lsTotals rep) = fst (last ms)))
      (filter (\<lambda>p. byName (fst p) \<noteq> None) result) reps"
  using assms
proof (induction result arbitrary: s reps)
  case (Cons p result)
  obtain name ms where p: "p = (name, ms)" by fastforce
  show ?case
  proof (cases "byName name")
    case None
    with Cons.IH [of s reps] Cons.prems p show ?thesis by simp
  next
    case (Some cur)
    obtain rep s1 where r: "processLedgerStreamMessages C w name (cuRole cur) (cuLastID cur) ms s = (rep, s1)" by fastforce
    obtain reps1 s2 where o: "processStreams C w byName result s1 = (reps1, s2)" by fastforce
    have "reps = rep # reps1" "s2 = t" using Cons.prems by (auto simp: p Some r o)
    with Cons.IH [of s1 reps1] stream_report [OF r] o Some show ?thesis by (simp add: p)
  qed
qed simp

lemma reports_pos:
  assumes "rep \<in> set reps" and "distinct (map lsName reps)" and "lsName rep \<in> cuName ` set cs"
    and "lpLastStreamID (lsTotals rep) \<noteq> []"
  shows "cursorPos (fst (fold (applyReport etext clock opts) reps (cs, s))) (lsName rep) = Some (lpLastStreamID (lsTotals rep))"
proof -
  have names: "cuName ` set (fst (applyReport etext clock opts r st)) = cuName ` set (fst st)" for r st
    using applyReport_names [of etext clock opts r st] by (metis set_map)
  have keep: "cursorPos (fst (fold (applyReport etext clock opts) rs st)) name = cursorPos (fst st) name"
    if "name \<notin> lsName ` set rs" for rs st name
    using that by (induction rs arbitrary: st) (auto simp: applyReport_pos)
  obtain xs ys where reps: "reps = xs @ rep # ys" using assms(1) by (auto simp: in_set_conv_decomp)
  have "cuName ` set (fst (fold (applyReport etext clock opts) rs st)) = cuName ` set (fst st)" for rs st
    by (induction rs arbitrary: st) (auto simp: names)
  with assms show ?thesis by (auto simp: reps keep applyReport_pos)
qed

text \<open>C39: The loop always gets past a batch. Whatever the ledger does, also when not one entry of the
  batch could be written, after a round whose reports were all handled the cursor of every stream
  that delivered entries stands at the last of them, so the next XREAD does not ask for them again.\<close>

theorem round_passes_batch:
  assumes "cs \<noteq> []" and "rdXRead rd (xReadStreams cs) (loopCount opts) = XStreams result"
    and "distinct (map fst result)" and "length result \<le> rdHandled rd"
    and "(name, ms) \<in> set result" and "name \<in> cuName ` set cs" and "ms \<noteq> []" and "\<forall>m \<in> set ms. fst m \<noteq> []"
  shows "cursorPos (fst (syncRound C w etext opts rd (cs, s))) name = Some (fst (last ms))"
proof -
  obtain reps t where p: "processStreams C w (cursorByName cs) result s = (reps, t)" by fastforce
  let ?rs = "filter (\<lambda>p. cursorByName cs (fst p) \<noteq> None) result"
  note reps = streams_reports [OF p]
  have "length reps = length ?rs" using reps by (rule list_all2_lengthD [symmetric])
  also have "\<dots> \<le> rdHandled rd" using assms(4) by (rule order_trans [OF length_filter_le])
  finally have all: "take (rdHandled rd) reps = reps" by simp
  have "map lsName reps = map fst ?rs"
    using reps by (auto simp: list_all2_conv_all_nth intro!: nth_equalityI)
  then have d: "distinct (map lsName reps)" using assms(3) by (simp add: distinct_map_filter)
  have "(name, ms) \<in> set ?rs" using assms(5,6) by (auto simp: cursorByName_None)
  then obtain i where "i < length ?rs" "?rs ! i = (name, ms)" unfolding in_set_conv_nth by blast
  with list_all2_nthD [OF reps, of i] \<open>length reps = length ?rs\<close>
  have "reps ! i \<in> set reps" "lsName (reps ! i) = name" "lpLastStreamID (lsTotals (reps ! i)) = fst (last ms)"
    using assms(7,8) by simp_all
  then show ?thesis
    using reports_pos [of "reps ! i" reps cs etext "swClock w" opts t] d assms
    by (simp add: syncRound_def readAndProcessStreams_def xReadStreams_def p all)
qed

text \<open>Publishing a change.\<close>

lemma normalize_ids_mem: "set (normalize_ids_loop acc as) = set acc \<union> {TrimSpace a |a. a \<in> set as \<and> TrimSpace a \<noteq> []}"
  by (induction acc as rule: normalize_ids_loop.induct) (auto simp: Let_def)

definition informed :: "Event \<Rightarrow> subscriber \<Rightarrow> bool" where
  "informed e sub \<longleftrightarrow> (\<exists>x \<in> set (subCh sub). evType x = TypeGap \<or>
     evType x = evType e \<and> evData x = evData e \<and> evStream x = evStream e \<and> evLastStreamID x = evLastStreamID e)"

lemma deliver_informed: "informed e sub \<Longrightarrow> informed e (deliver x sub)"
  by (auto simp: informed_def deliver_def slowConsumerGap_def)

lemma deliver_account [simp]: "subAccountID (deliver x sub) = subAccountID sub"
  by (simp add: deliver_def)

lemma publish_subscribers:
  "subscribers (snd (Publish now e h)) i
   = map_option (deliver ((prepareEvent now e)\<lparr>evID := cursorLocked h (wrapu64 (nextEventID h + 1))\<rparr>)) (subscribers h i)"
  by (simp add: Publish_def appendHistoryLocked_def Let_def)

lemma publish_informs:
  assumes "subscribers h i = Some sub" and "evType e \<noteq> []"
    and "subAccountID sub = [] \<or> TrimSpace (subAccountID sub) = subAccountID sub \<and> subAccountID sub \<in> set (evAccountIDs e)"
  shows "\<exists>sub'. subscribers (snd (Publish now e h)) i = Some sub' \<and> subAccountID sub' = subAccountID sub \<and> informed e sub'"
proof -
  have "subAccountID sub \<in> set (normalizeAccountIDs (evAccountIDs e))" if "subAccountID sub \<noteq> []"
    using assms(3) that unfolding normalizeAccountIDs_def normalize_ids_mem by (auto intro!: exI [of _ "subAccountID sub"])
  then show ?thesis
    using assms by (auto simp: publish_subscribers informed_def deliver_def subscriberMatches_def prepareEvent_def slowConsumerGap_def)
qed

lemma publish_keeps_informed:
  assumes "\<exists>sub. subscribers h i = Some sub \<and> subAccountID sub = a \<and> informed e sub"
  shows "\<exists>sub. subscribers (snd (Publish now x h)) i = Some sub \<and> subAccountID sub = a \<and> informed e sub"
  using assms by (auto simp: publish_subscribers deliver_informed)

lemma publish_all_informs:
  assumes "e \<in> set es" and "subscribers h i = Some sub" and "evType e \<noteq> []"
    and "subAccountID sub = [] \<or> TrimSpace (subAccountID sub) = subAccountID sub \<and> subAccountID sub \<in> set (evAccountIDs e)"
  shows "\<exists>sub'. subscribers (fold (\<lambda>event h. snd (Publish now event h)) es h) i = Some sub' \<and> informed e sub'"
proof -
  let ?P = "\<lambda>h. \<exists>sub'. subscribers h i = Some sub' \<and> subAccountID sub' = subAccountID sub \<and> informed e sub'"
  let ?Q = "\<lambda>h. \<exists>sub'. subscribers h i = Some sub' \<and> subAccountID sub' = subAccountID sub"
  obtain xs ys where es: "es = xs @ e # ys" using assms(1) by (auto simp: in_set_conv_decomp)
  have "?Q (fold (\<lambda>event h. snd (Publish now event h)) xs h)"
    using assms(2) by (induction xs rule: rev_induct) (auto simp: publish_subscribers)
  then have "?P (snd (Publish now e (fold (\<lambda>event h. snd (Publish now event h)) xs h)))"
    using publish_informs assms(3,4) by metis
  then have "?P (fold (\<lambda>event h. snd (Publish now event h)) ys (snd (Publish now e (fold (\<lambda>event h. snd (Publish now event h)) xs h))))"
    by (induction ys rule: rev_induct) (auto intro: publish_keeps_informed)
  then show ?thesis by (auto simp: es)
qed

lemma change_events:
  assumes "e \<in> set (FromLedgerChange change)"
  shows "evType e \<noteq> []" "evAccountIDs e = lcAccountIDs change"
  using assms by (auto simp: FromLedgerChange_def cancelRejectedEvent_def changeEvent_def event_type_defs Let_def split: if_splits)

lemma save_hub: "svHub (saveLedgerCheckpoint etext (swClock (service_writer Z P synthesis)) (Some (repo_checkpoints P)) c rep s) = svHub s"
  by (simp add: saveLedgerCheckpoint_def service_writer_def repo_writer_def repo_checkpoints_def UpsertStreamCheckpoint_def
      upsertStreamCheckpointSQL_def run_stmt_def Let_def split: list.split fault.split option.split)

text \<open>C27: Subscribers learn of every change of the ledger. When a batch changed the ledger, then after its
  report was handled by the service's loop, whatever happened to the checkpoint, every subscriber
  of the hub without a filter, and every subscriber to an account that the batch noted, has each
  event of the change in its channel, or a gap marker that makes it read the ledger again.\<close>

theorem change_reaches_subscribers:
  assumes "ledger_changed (lsTotals rep)" and "cursorIndex (lsName rep) cs = Some k"
    and "subscribers (svHub s) i = Some sub"
    and "a \<in> set (accountIDsFromLedgerResult (lsTotals rep))" "TrimSpace a = a" "subAccountID sub \<in> {[], a}"
    and "e \<in> set (FromLedgerChange (ledgerChange rep))"
  shows "\<exists>sub'. subscribers (svHub (snd (applyReport etext (swClock (service_writer Z P synthesis)) (service_options P) rep (cs, s)))) i
      = Some sub' \<and> informed e sub'"
proof -
  note e = change_events [OF assms(7)]
  have ids: "accountIDsFromLedgerResult (lsTotals rep) \<noteq> []" using assms(4) by auto
  have acc: "subAccountID sub = [] \<or> TrimSpace (subAccountID sub) = subAccountID sub \<and> subAccountID sub \<in> set (evAccountIDs e)"
    using assms(4-6) e(2) by (auto simp: ledgerChange_def Let_def)
  have "svHub (case svRefresh u of None \<Rightarrow> u | Some r \<Rightarrow> u\<lparr>svRefresh := v r\<rparr>) = svHub u" for u v
    by (simp split: option.split)
  then show ?thesis
    using publish_all_informs [OF assms(7,3) e(1) acc] assms(1,2) ids
    by (simp add: applyReport_def notifyChanges_def service_options_def PublishLedgerChange_def save_hub Let_def split: option.split)
qed

section \<open>A run\<close>

text \<open>One stream with one entry, which has no body, and a subscriber.\<close>

definition demo_codec :: codec where "demo_codec = \<lparr>js_print = (\<lambda>_. []), js_parse = (\<lambda>_. None)\<rparr>"

definition demo_site :: zone where "demo_site = \<lparr>zoneDate = (\<lambda>_. []), zoneJson = (\<lambda>_. [])\<rparr>"

definition demo_hub :: Hub where
  "demo_hub = \<lparr>epoch = ''1'', nextSubID = 1, nextEventID = 0, replayCapacity = 4, history = [],
     subscribers = [0 \<mapsto> \<lparr>subAccountID = ''A1'', subCap = 1, subCh = []\<rparr>]\<rparr>"

definition demo_service :: "json service_world" where
  "demo_service = \<lparr>dbAccounts = Map.empty, dbOrders = [], dbOrderEvents = [], dbRaw = [], dbServerNow = 7, dbClientNow = 7,
     dbFaults = [], tbPositions = [], tbAssets = [], tbFills = [], tbTransfers = [], tbAttempts = [], tbFees = [],
     tbCheckpoints = [], svArchiveCalls = [], svHub = demo_hub, svRefresh = None\<rparr>"

definition demo_log :: xlog where "demo_log = (\<lambda>_. [])('':reply'' := [(''5-0'', Map.empty)])"

definition demo_cursors :: "string \<Rightarrow> ledgerStreamCursor list" where
  "demo_cursors i = [\<lparr>cuName = '':reply'', cuRole = ''reply'', cuLastID = i\<rparr>]"

definition demo_round :: sync_round where
  "demo_round = \<lparr>rdXRead = (\<lambda>_ _. XStreams [('':reply'', [(''5-0'', Map.empty)])]), rdHandled = 1\<rparr>"

abbreviation demo_writer :: "json service_world SyncWriter" where
  "demo_writer \<equiv> service_writer demo_site demo_pg None"

theorem round_passes_batch_witness:
  "cursorPos (fst (syncRound demo_codec demo_writer (\<lambda>_. []) (service_options demo_pg) demo_round
     (demo_cursors ''0'', demo_service\<lparr>dbFaults := [FaultBefore, FaultBefore]\<rparr>))) '':reply'' = Some ''5-0''"
  using round_passes_batch [of "demo_cursors ''0''" demo_round "service_options demo_pg" "[('':reply'', [(''5-0'', Map.empty)])]"
      "'':reply''" "[(''5-0'', Map.empty)]"]
  by (simp add: demo_cursors_def demo_round_def)

definition demo_batch :: LedgerStreamReport where
  "demo_batch = (StreamReport0 '':reply'' ''reply'' ''0'')\<lparr>lsCount := 1,
     lsTotals := Result0\<lparr>lpSeen := 1, lpFills := 1, lpAccountIDs := [''A1''], lpLastStreamID := ''5-0''\<rparr>\<rparr>"

theorem change_reaches_subscribers_witness:
  "\<exists>sub. subscribers (svHub (snd (applyReport (\<lambda>_. []) (swClock demo_writer) (service_options demo_pg) demo_batch
       (demo_cursors ''0'', demo_service)))) 0 = Some sub
     \<and> informed ((changeEvent (ledgerChange demo_batch))\<lparr>evType := TypeFillChanged\<rparr>) sub"
proof (rule change_reaches_subscribers)
  show "ledger_changed (lsTotals demo_batch)" by (simp add: demo_batch_def ledger_changed_def)
  show "cursorIndex (lsName demo_batch) (demo_cursors ''0'') = Some 0"
    by (simp add: demo_batch_def StreamReport0_def demo_cursors_def)
  show "subscribers (svHub demo_service) 0 = Some \<lparr>subAccountID = ''A1'', subCap = 1, subCh = []\<rparr>"
    by (simp add: demo_service_def demo_hub_def)
  show "''A1'' \<in> set (accountIDsFromLedgerResult (lsTotals demo_batch))"
    by (simp add: demo_batch_def accountIDsFromLedgerResult_def)
  show "TrimSpace ''A1'' = ''A1''" by (simp add: TrimSpace_ascii_word)
  show "(changeEvent (ledgerChange demo_batch))\<lparr>evType := TypeFillChanged\<rparr> \<in> set (FromLedgerChange (ledgerChange demo_batch))"
    by (simp add: FromLedgerChange_def demo_batch_def ledgerChange_def StreamReport0_def Result0_def Let_def)
qed simp

text \<open>The run: the loop starts, reads the entry and stores the checkpoint.\<close>

lemma demo_streams: "loopStreams [[]] [''reply''] = [('':reply'', ''reply'')]"
  by (simp add: loopStreams_def outputRoles_def streamNameForRole_def NewStreams_def cleanPrefix_def TrimRightByte_def
      suffix_defs TrimSpace_ascii_word Let_def)

lemma demo_id: "xid ''5-0'' = (5, 0)"
  by (simp add: xid_def digits_val_def digit_val_def)

lemma demo_log_wf: "wf_log demo_log"
  by (simp add: wf_log_def demo_log_def demo_id TrimSpace_ascii_word)

lemma demo_start:
  "openCursors (Some (repo_checkpoints demo_pg)) ''0'' [('':reply'', ''reply'')] demo_service = (demo_cursors ''0'', demo_service)"
  by (simp add: cursorStartID_def repo_checkpoints_def GetStreamCheckpoint_def run_stmt_def demo_cursors_def seq_def
      TrimSpace_ascii_word demo_service_def Let_def)

lemma demo_xread:
  "xread_ok demo_log 200 (xReadStreams (demo_cursors ''0'')) (rdXRead demo_round (xReadStreams (demo_cursors ''0'')) 200)"
  by (simp add: xread_ok_def demo_round_def xReadStreams_def demo_cursors_def demo_log_def entries_after_def demo_id service_start(2)
      exI [of _ "1 :: nat"])

lemma demo_entry:
  "\<exists>r m. ProcessLedgerEntry demo_codec demo_writer '':reply'' ''5-0'' Map.empty demo_service
     = (r, demo_service\<lparr>svArchiveCalls := [('':reply'', ''5-0'')], dbRaw := [m]\<rparr>)"
  by (simp add: ProcessLedgerEntry_def DecodeEntry_def archiveParseError_def service_writer_def repo_writer_def
      ArchiveRawStreamMessage_def archiveRawStreamMessageSQL_def run_stmt_def roleFromStream_def directionFromRole_def
      suffix_defs stream_roles_def stored_raw_def TrimSpace_ascii_word demo_service_def Let_def)

lemma demo_checkpoint:
  assumes "lsName rep = '':reply''" "lsCount rep = 1" "lpLastStreamID (lsTotals rep) = ''5-0''" "lpAccountIDs (lsTotals rep) = []"
     "lpLastAccountID (lsTotals rep) = []" and s: "dbFaults s = []" "tbCheckpoints s = []"
  shows "\<exists>row. applyReport (\<lambda>_. []) (swClock demo_writer) (service_options demo_pg) rep (demo_cursors ''0'', s)
     = (demo_cursors ''5-0'', s\<lparr>tbCheckpoints := [row]\<rparr>) \<and> ckStreamKey (kwCheckpoint row) = '':reply''
       \<and> ckLastStreamID (kwCheckpoint row) = ''5-0'' \<and> (\<exists>m. kwMetadata row = JbObj m)"
proof -
  let ?row = "checkpoint_values demo_pg (dbServerNow s)
    (batchCheckpoint (\<lambda>_. []) (dbClientNow s) \<lparr>cuName = '':reply'', cuRole = ''reply'', cuLastID = ''5-0''\<rparr> rep)"
  have "applyReport (\<lambda>_. []) (swClock demo_writer) (service_options demo_pg) rep (demo_cursors ''0'', s)
      = (demo_cursors ''5-0'', s\<lparr>tbCheckpoints := [?row]\<rparr>)"
    using assms
    by (simp add: applyReport_def demo_cursors_def moveCursor_def saveLedgerCheckpoint_def notifyChanges_def service_options_def
        repo_checkpoints_def service_writer_def repo_writer_def UpsertStreamCheckpoint_def upsertStreamCheckpointSQL_def run_stmt_def
        batchCheckpoint_def checkpoint_values_def accountIDsFromLedgerResult_def suffix_defs TrimSpace_ascii_word orElse_def Let_def)
  moreover have "ckStreamKey (kwCheckpoint ?row) = '':reply''" "ckLastStreamID (kwCheckpoint ?row) = ''5-0''"
    "\<exists>m. kwMetadata ?row = JbObj m"
    by (simp_all add: checkpoint_values_def batchCheckpoint_def orElse_def batchMetadata_def jsonb_of_ctx_def)
  ultimately show ?thesis by blast
qed

lemma demo_round_runs:
  "\<exists>s m row. syncRound demo_codec demo_writer (\<lambda>_. []) (service_options demo_pg) demo_round (demo_cursors ''0'', demo_service)
     = (demo_cursors ''5-0'', s) \<and> s = demo_service\<lparr>svArchiveCalls := [('':reply'', ''5-0'')], dbRaw := [m], tbCheckpoints := [row]\<rparr>
     \<and> ckStreamKey (kwCheckpoint row) = '':reply'' \<and> ckLastStreamID (kwCheckpoint row) = ''5-0'' \<and> (\<exists>j. kwMetadata row = JbObj j)"
proof -
  obtain r m where e: "ProcessLedgerEntry demo_codec demo_writer '':reply'' ''5-0'' Map.empty demo_service
     = (r, demo_service\<lparr>svArchiveCalls := [('':reply'', ''5-0'')], dbRaw := [m]\<rparr>)" using demo_entry by blast
  let ?s = "demo_service\<lparr>svArchiveCalls := [('':reply'', ''5-0'')], dbRaw := [m]\<rparr>"
  let ?rep = "reportEntry ''5-0'' r (StreamReport0 '':reply'' ''reply'' ''0'')"
  have r: "lpLastStreamID r = ''5-0''" "lpAccountIDs r = [] \<and> lpLastAccountID r = []"
    using entry_id [of demo_codec demo_writer "'':reply''" "''5-0''" Map.empty demo_service] e
    by (auto simp: ProcessLedgerEntry_def DecodeEntry_def skipWith_def failWith_def countArchived_def Result0_def Let_def
        split: prod.splits sum.splits)
  have "\<exists>row. applyReport (\<lambda>_. []) (swClock demo_writer) (service_options demo_pg) ?rep (demo_cursors ''0'', ?s)
     = (demo_cursors ''5-0'', ?s\<lparr>tbCheckpoints := [row]\<rparr>) \<and> ckStreamKey (kwCheckpoint row) = '':reply''
       \<and> ckLastStreamID (kwCheckpoint row) = ''5-0'' \<and> (\<exists>m. kwMetadata row = JbObj m)"
    using r by (intro demo_checkpoint)
      (simp_all add: reportEntry_def StreamReport0_def Result0_def addResult_def orElse_def demo_service_def Let_def)
  then show ?thesis
    by (auto simp: syncRound_def readAndProcessStreams_def demo_round_def xReadStreams_def demo_cursors_def cursorByName_def
        processLedgerStreamMessages_def e)
qed

theorem checkpoint_covers_processed_witness:
  "\<exists>s c t. sync_reach demo_codec demo_writer (\<lambda>_. []) (service_options demo_pg) (loopStreams [[]] [''reply''])
       keeps_marks (\<lambda>s. tbCheckpoints s = []) demo_log (demo_cursors ''5-0'') s
     \<and> GetStreamCheckpoint '':reply'' s = (Inr c, t) \<and> ckLastStreamID c = ''5-0'' \<and> ('':reply'', ''5-0'') \<in> set (svArchiveCalls s)"
proof -
  let ?reach = "sync_reach demo_codec demo_writer (\<lambda>_. []) (service_options demo_pg) (loopStreams [[]] [''reply''])
    keeps_marks (\<lambda>s. tbCheckpoints s = []) demo_log"
  obtain s m row where s: "syncRound demo_codec demo_writer (\<lambda>_. []) (service_options demo_pg) demo_round (demo_cursors ''0'', demo_service)
      = (demo_cursors ''5-0'', s)"
    "s = demo_service\<lparr>svArchiveCalls := [('':reply'', ''5-0'')], dbRaw := [m], tbCheckpoints := [row]\<rparr>"
    "ckStreamKey (kwCheckpoint row) = '':reply''" "ckLastStreamID (kwCheckpoint row) = ''5-0''" "\<exists>j. kwMetadata row = JbObj j"
    using demo_round_runs by (elim exE conjE) (rule that, assumption+, rule exI)
  have limit: "loopCount (service_options demo_pg) = 200" by (simp add: loopCount_def service_options_def)
  have "tbCheckpoints demo_service = []" by (simp add: demo_service_def)
  then have "?reach [] demo_service" by (intro sync_reach.Begin demo_log_wf)
  moreover have "openCursors (loCheckpoints (service_options demo_pg)) (loopStartID (service_options demo_pg))
      (loopStreams [[]] [''reply'']) demo_service = (demo_cursors ''0'', demo_service)"
    using demo_start by (simp only: demo_streams service_start(1)) (simp add: service_options_def)
  ultimately have "?reach (demo_cursors ''0'') demo_service" by (rule sync_reach.Start)
  then have reach: "?reach (demo_cursors ''5-0'') s"
    by (rule sync_reach.Round [where rd = demo_round]) (simp_all add: limit demo_xread s(1))
  have get: "\<exists>c. GetStreamCheckpoint '':reply'' s = (Inr c, s) \<and> ckLastStreamID c = ''5-0''"
    using s(3-5) by (auto simp: s(2) GetStreamCheckpoint_def run_stmt_def seq_def of_res_def scanStreamCheckpoint_def scan_context_def
        TrimSpace_ascii_word demo_service_def Let_def)
  then obtain c where c: "GetStreamCheckpoint '':reply'' s = (Inr c, s)" "ckLastStreamID c = ''5-0''" by blast
  have "('':reply'', fst (''5-0'', Map.empty :: string \<rightharpoonup> stream_value)) \<in> set (svArchiveCalls s)"
    by (rule checkpoint_covers_processed [OF reach c(1)]) (simp_all add: TrimSpace_ascii_word demo_log_def c(2))
  with reach c show ?thesis by auto
qed

end
