(* ===== verification/Perf_Fills.thy ===== *)
theory Perf_Fills
  imports Ledger_Fills "HOL-Library.Product_Lexorder" "HOL-Library.Multiset"
begin

text \<open>
  The fills that a daily performance calculation works on (\<^verbatim>\<open>internal/performance/contributions.go\<close> and
  \<^verbatim>\<open>service.go\<close>): identity, amount and time of a fill, removal of duplicates, redemption fills made
  from component transfers, and the fee of a fill. The text that \<^verbatim>\<open>fmt.Sprint\<close> makes of a number, a
  list or a map is a parameter.
\<close>

section \<open>Stable sorting\<close>

text \<open>A comparison that orders by a key: sorting with it is the stable sort of the library, and depends on
  the multiset alone when the keys differ.\<close>

locale keyed_order =
  fixes lt :: "'a \<Rightarrow> 'a \<Rightarrow> bool" and key :: "'a \<Rightarrow> 'k :: linorder"
  assumes compares: "lt a b \<longleftrightarrow> key a < key b"
begin

lemma insert_by_insort: "insert_by lt x ys = insort_key key x ys"
  by (induction ys) (auto simp: compares)

lemma order_by_sort: "order_by lt xs = sort_key key xs"
  unfolding order_by_def sort_key_def by (induction xs) (simp_all add: insert_by_insort)

lemma order_by_sorted: "sorted (map key (order_by lt xs))"
  by (simp add: order_by_sort)

lemma order_by_mset: "mset (order_by lt xs) = mset xs"
  by (simp add: order_by_sort)

lemma order_by_stable: "filter (\<lambda>x. key x = k) (order_by lt xs) = filter (\<lambda>x. key x = k) xs"
  by (simp add: order_by_sort sort_key_stable)

lemma order_by_permuted:
  assumes "mset xs = mset ys" "inj_on key (set xs)"
  shows "order_by lt xs = order_by lt ys"
  unfolding order_by_sort by (rule sort_key_inj_key_eq) (use assms in simp_all)

end

section \<open>Strings, amounts and flags\<close>

fun firstNonBlank :: "string list \<Rightarrow> string" where
  "firstNonBlank [] = []"
| "firstNonBlank (v # vs) = (if TrimSpace v \<noteq> [] then TrimSpace v else firstNonBlank vs)"

fun appendUnique :: "string list \<Rightarrow> string list \<Rightarrow> string list" where
  "appendUnique vals [] = vals"
| "appendUnique vals (x # xs) = (if x \<in> set vals then appendUnique vals xs else appendUnique (vals @ [x]) xs)"

definition roundMoney :: "float64 \<Rightarrow> float64" where
  "roundMoney v = fdiv (fround (fmul v (Fin 1000000))) (Fin 1000000)"

definition containsStringValue :: "string list \<Rightarrow> string \<Rightarrow> bool" where
  "containsStringValue vals target = list_ex (\<lambda>v. v = target) vals"

definition hasAnyQualityFlag :: "string list \<Rightarrow> string list \<Rightarrow> bool" where
  "hasAnyQualityFlag vals targets = list_ex (containsStringValue vals) targets"

type_synonym sprint = "any \<Rightarrow> string"

fun contributionString :: "sprint \<Rightarrow> any option \<Rightarrow> string" where
  "contributionString pr (Some (AnyStr s)) = TrimSpace s"
| "contributionString pr None = []"
| "contributionString pr (Some AnyNil) = []"
| "contributionString pr (Some v) = TrimSpace (pr v)"

definition ParseBool :: "string \<Rightarrow> bool" where
  "ParseBool s \<longleftrightarrow> s \<in> {''1'', ''t'', ''T'', ''true'', ''TRUE'', ''True''}"

fun contributionBool :: "any option \<Rightarrow> bool" where
  "contributionBool (Some (AnyBool b)) = b"
| "contributionBool (Some (AnyStr s)) = ParseBool (TrimSpace s)"
| "contributionBool v = False"

section \<open>Identity, amount and time\<close>

definition contributionSecurityID :: "string \<Rightarrow> Exchange \<Rightarrow> string" where
  "contributionSecurityID symbol0 exchange =
     (let symbol = TrimSpace symbol0; exchangeText = ToUpper (TrimSpace exchange)
      in if Contains symbol ''.'' then ToUpper symbol
         else if exchangeText = [] then symbol
         else ToUpper (symbol @ ''.'' @ exchangeText))"

definition nul :: string where "nul = [char_of (0 :: nat)]"

definition contributionFillKey :: "Fill \<Rightarrow> string" where
  "contributionFillKey fill = JoinWith nul [fAccountID fill, fGatewayOrderID fill, fFillID fill]"

definition contributionFillAmount :: "Fill \<Rightarrow> float64" where
  "contributionFillAmount fill = roundMoney (fmul (fPrice fill) (float_of_int (fQty fill)))"

definition isETFBusinessRedemption :: "TradeSide \<Rightarrow> BusinessType \<Rightarrow> bool" where
  "isETFBusinessRedemption side businessType \<longleftrightarrow> side = TradeSideRedemption \<and> businessType = BusinessTypeETF"

definition isRedemptionFill :: "sprint \<Rightarrow> Fill \<Rightarrow> bool" where
  "isRedemptionFill pr fill \<longleftrightarrow>
     fTradeSide fill = TradeSideRedemption \<or> isETFBusinessRedemption (fTradeSide fill) (fBusinessType fill)
     \<or> EqualFold (contributionString pr (ctx_lookup (fAdapterContext fill) ''trade_side'')) TradeSideRedemption"

definition isETFInstrument :: "string \<Rightarrow> bool" where
  "isETFInstrument v0 = (let v = ToLower (TrimSpace v0) in Contains v ''etf'' \<or> Contains v ''fund'')"

definition contributionOrderTime :: "Order \<Rightarrow> gotime" where
  "contributionOrderTime ord =
     (case filter (\<lambda>t. \<not> IsZero t) [oAcceptedAt ord, oCreatedAt ord, oInsertedAt ord, oLastUpdatedAt ord] of
        [] \<Rightarrow> zeroTime
      | t # _ \<Rightarrow> t)"

definition contributionFillTime :: "Fill \<Rightarrow> gotime" where
  "contributionFillTime fill =
     (if \<not> IsZero (fMatchedAt fill) then fMatchedAt fill
      else if fMatchTimestamp fill > 0
      then (if fMatchTimestamp fill > 10000000000 then fMatchTimestamp fill * 1000000
            else fMatchTimestamp fill * second)
      else zeroTime)"

definition splitContributionSecurityID :: "string \<Rightarrow> string \<times> string" where
  "splitContributionSecurityID securityID =
     (case CutByte (CHR ''.'') (TrimSpace securityID) of
        Some (a, b) \<Rightarrow> (a, ToUpper b)
      | None \<Rightarrow> (securityID, []))"

definition isSummaryFill :: "Fill \<Rightarrow> bool" where
  "isSummaryFill fill = prefix ''relay-summary:'' (fFillID fill)"

section \<open>Duplicates\<close>

fun dedupeLoop :: "string set \<Rightarrow> string set \<Rightarrow> Fill list \<Rightarrow> Fill list" where
  "dedupeLoop hasActual seen [] = []"
| "dedupeLoop hasActual seen (fill # fills) =
     (if isSummaryFill fill \<and> fGatewayOrderID fill \<in> hasActual then dedupeLoop hasActual seen fills
      else if contributionFillKey fill \<in> seen then dedupeLoop hasActual seen fills
      else fill # dedupeLoop hasActual (insert (contributionFillKey fill) seen) fills)"

definition dedupeContributionFills :: "Fill list \<Rightarrow> Fill list" where
  "dedupeContributionFills fills =
     dedupeLoop (set (map fGatewayOrderID (filter (\<lambda>f. \<not> isSummaryFill f) fills))) {} fills"

section \<open>Redemptions in the transfer ledger\<close>

text \<open>A map from the ids of the orders; a later order of the same id replaces an earlier one.\<close>

definition ordersByID :: "Order list \<Rightarrow> string \<rightharpoonup> Order" where
  "ordersByID orders = map_of (rev (map (\<lambda>ord. (oGatewayOrderID ord, ord)) orders))"

definition transferFill :: "Order \<Rightarrow> ComponentTransfer \<Rightarrow> Fill" where
  "transferFill ord tr =
     \<lparr>fFillID = ''transfer:'' @ firstNonBlank [tFillID tr, tOrderStreamID tr], fAccountID = tAccountID tr,
      fGatewayOrderID = tGatewayOrderID tr, fOrderID = tOrderID tr, fOrderStreamID = tOrderStreamID tr,
      fSymbol = tSymbol tr, fName = firstNonBlank [tName tr, oName ord], fExchange = tExchange tr,
      fTradeSide = tTradeSide tr, fBusinessType = tBusinessType tr, fPrice = Fin 0, fQty = tQty tr, fFee = Fin 0,
      fTradeDate = tTradeDate tr, fMatchTimestamp = tMatchTimestamp tr, fMatchedAt = tMatchedAt tr,
      fShareholderID = tShareholderID tr, fStrategyType = firstNonBlank [tStrategyType tr, oStrategyType ord],
      fStrategyID = firstNonBlank [tStrategyID tr, oStrategyID ord], fBasketID = firstNonBlank [tBasketID tr, oBasketID ord],
      fParentOrderID = firstNonBlank [tParentOrderID tr, oParentOrderID ord],
      fT0OrderGroupID = firstNonBlank [tT0OrderGroupID tr, oT0OrderGroupID ord],
      fAdapterContext = Some ((case tAdapterContext tr of None \<Rightarrow> Map.empty | Some c \<Rightarrow> c)
                              (''relay_component_transfer_source'' \<mapsto> AnyBool True))\<rparr>"

definition redemptionTransferKey :: "ComponentTransfer \<Rightarrow> string" where
  "redemptionTransferKey tr =
     JoinWith nul [tGatewayOrderID tr, tFillID tr, tOrderStreamID tr, Itoa (tMatchTimestamp tr), Itoa (tQty tr)]"

fun redemptionLoop ::
    "(string \<rightharpoonup> Order) \<Rightarrow> string set \<Rightarrow> string set \<Rightarrow> ComponentTransfer list \<Rightarrow> Fill list" where
  "redemptionLoop byID hasRedemption seen [] = []"
| "redemptionLoop byID hasRedemption seen (tr # trs) =
     (case byID (tGatewayOrderID tr) of
        None \<Rightarrow> redemptionLoop byID hasRedemption seen trs
      | Some ord \<Rightarrow>
          if tGatewayOrderID tr \<in> hasRedemption then redemptionLoop byID hasRedemption seen trs
          else if \<not> isETFBusinessRedemption (oTradeSide ord) (oBusinessType ord)
             \<or> contributionSecurityID (oSymbol ord) (oExchange ord) \<noteq> contributionSecurityID (tSymbol tr) (tExchange tr)
          then redemptionLoop byID hasRedemption seen trs
          else if redemptionTransferKey tr \<in> seen then redemptionLoop byID hasRedemption seen trs
          else transferFill ord tr # redemptionLoop byID hasRedemption (insert (redemptionTransferKey tr) seen) trs)"

definition redemptionFillsFromComponentTransfers ::
    "sprint \<Rightarrow> Order list \<Rightarrow> Fill list \<Rightarrow> ComponentTransfer list \<Rightarrow> Fill list" where
  "redemptionFillsFromComponentTransfers pr orders fills transfers =
     redemptionLoop (ordersByID orders) (set (map fGatewayOrderID (filter (isRedemptionFill pr) fills))) {} transfers"

section \<open>Fees\<close>

record FeeRule =
  ruRuleID :: string
  ruAccountID :: string
  ruVersion :: int
  ruStatus :: string
  ruName :: string
  ruMarket :: string
  ruInstrumentType :: string
  ruBusinessType :: string
  ruTradeSide :: string
  ruCommissionRate :: float64
  ruMinimumCommission :: float64
  ruStampDutyRate :: float64
  ruTransferFeeRate :: float64
  ruHandlingFeeRate :: float64
  ruOtherRate :: float64
  ruFixedFee :: float64
  ruRepoFeeRate :: float64
  ruEstimatedFrictionRate :: float64
  ruEffectiveFrom :: string
  ruEffectiveTo :: string
  ruCreatedBy :: string
  ruActivatedBy :: string
  ruActivatedAt :: gotime
  ruRawPayload :: ctxmap
  ruCreatedAt :: gotime
  ruUpdatedAt :: gotime

record contributionInstrument =
  ciSecurityID :: string
  ciSymbol :: string
  ciExchange :: string
  ciName :: string
  ciInstrumentType :: string
  ciPriceSource :: string
  ciPreClose :: float64
  ciClose :: float64
  ciHasPreClose :: bool
  ciHasClose :: bool

record contributionFee =
  cfActual :: float64
  cfEstimated :: float64
  cfEffective :: float64
  cfSource :: string
  cfFlags :: "string list"

definition Fee0 :: contributionFee where
  "Fee0 = \<lparr>cfActual = Fin 0, cfEstimated = Fin 0, cfEffective = Fin 0, cfSource = [], cfFlags = []\<rparr>"

text \<open>One criterion of a rule: it counts when it is given and equal, and excludes the rule when it is given and
  differs.\<close>

definition ruleMatch :: "string \<Rightarrow> string \<Rightarrow> nat option" where
  "ruleMatch rv0 v0 =
     (let rv = TrimSpace (ToLower rv0); v = TrimSpace (ToLower v0)
      in if rv = [] \<or> rv = ''*'' then Some 0 else if rv = v then Some 1 else None)"

definition ruleCriteria :: "Fill \<Rightarrow> contributionInstrument \<Rightarrow> FeeRule \<Rightarrow> (string \<times> string) list" where
  "ruleCriteria fill instrument rule =
     [(ruMarket rule, ciExchange instrument), (ruInstrumentType rule, ciInstrumentType instrument),
      (ruBusinessType rule, fBusinessType fill), (ruTradeSide rule, fTradeSide fill)]"

definition ruleScore :: "Fill \<Rightarrow> contributionInstrument \<Rightarrow> FeeRule \<Rightarrow> nat option" where
  "ruleScore fill instrument rule =
     foldl (\<lambda>acc (rv, v). case (acc, ruleMatch rv v) of (Some n, Some k) \<Rightarrow> Some (n + k) | _ \<Rightarrow> None)
       (Some 0) (ruleCriteria fill instrument rule)"

fun selectLoop :: "(FeeRule \<Rightarrow> nat option) \<Rightarrow> (FeeRule \<times> nat) option \<Rightarrow> FeeRule list \<Rightarrow> FeeRule option" where
  "selectLoop score best [] = map_option fst best"
| "selectLoop score best (rule # rules) =
     (case score rule of
        None \<Rightarrow> selectLoop score best rules
      | Some n \<Rightarrow>
          (case best of
             None \<Rightarrow> selectLoop score (Some (rule, n)) rules
           | Some (r, b) \<Rightarrow> selectLoop score (if n > b then Some (rule, n) else best) rules))"

definition selectContributionFeeRule :: "Fill \<Rightarrow> contributionInstrument \<Rightarrow> FeeRule list \<Rightarrow> FeeRule option" where
  "selectContributionFeeRule fill instrument rules = selectLoop (ruleScore fill instrument) None rules"

definition feeSourceOf :: "sprint \<Rightarrow> Fill \<Rightarrow> string" where
  "feeSourceOf pr fill = TrimSpace (contributionString pr (ctx_lookup (fAdapterContext fill) ''fee_source''))"

definition estimatedFee :: "Fill \<Rightarrow> FeeRule \<Rightarrow> float64" where
  "estimatedFee fill rule =
     (let amount = contributionFillAmount fill;
          commission0 = fmul amount (ruCommissionRate rule);
          commission = (if flt fzero (ruCommissionRate rule) \<and> flt commission0 (ruMinimumCommission rule)
                        then ruMinimumCommission rule else commission0);
          fee = fadd (fadd commission (fmul amount (fadd (fadd (ruTransferFeeRate rule) (ruHandlingFeeRate rule)) (ruOtherRate rule))))
                  (ruFixedFee rule)
      in if fTradeSide fill = TradeSideSell \<or> fTradeSide fill = TradeSideRedemption
         then fadd fee (fmul amount (ruStampDutyRate rule)) else fee)"

definition calculateContributionFillFee ::
    "sprint \<Rightarrow> Fill \<Rightarrow> contributionInstrument \<Rightarrow> FeeRule list \<Rightarrow> contributionFee" where
  "calculateContributionFillFee pr fill instrument rules =
     (let feeSource = feeSourceOf pr fill
      in if feeSource \<noteq> ''unavailable'' \<and> (flt fzero (fFee fill) \<or> contributionBool (ctx_lookup (fAdapterContext fill) ''fee_complete''))
         then Fee0\<lparr>cfActual := fFee fill, cfEffective := fFee fill,
                cfSource := (if feeSource \<noteq> [] then ''actual_fill:'' @ feeSource else ''actual'')\<rparr>
         else case selectContributionFeeRule fill instrument rules of
                None \<Rightarrow> Fee0\<lparr>cfSource := ''missing'', cfFlags := [''missing_fee_rule'']\<rparr>
              | Some rule \<Rightarrow> Fee0\<lparr>cfEstimated := estimatedFee fill rule, cfEffective := estimatedFee fill rule,
                  cfSource := ''estimated'', cfFlags := [''estimated_fee_from_account_rule'']\<rparr>)"

fun authoritativeLoop :: "(string \<rightharpoonup> OrderFeeRecord) \<Rightarrow> OrderFeeRecord list \<Rightarrow> string \<rightharpoonup> OrderFeeRecord" where
  "authoritativeLoop fees [] = fees"
| "authoritativeLoop fees (record0 # records) =
     (let i = TrimSpace (frGatewayOrderID record0)
      in if i = [] \<or> \<not> frFeeComplete record0 \<or> \<not> frAssociationComplete record0 \<or> TrimSpace (frFeeSource record0) = ''unavailable''
         then authoritativeLoop fees records
         else authoritativeLoop
                (case fees i of
                   None \<Rightarrow> fees(i \<mapsto> record0)
                 | Some current \<Rightarrow> if frFeeAsOf record0 > frFeeAsOf current then fees(i \<mapsto> record0) else fees) records)"

definition authoritativeOrderFees :: "OrderFeeRecord list \<Rightarrow> string \<rightharpoonup> OrderFeeRecord" where
  "authoritativeOrderFees records = authoritativeLoop Map.empty records"

text \<open>The fee of a fill, with the orders whose fee was consumed.\<close>

definition contributionFeeForFill ::
    "sprint \<Rightarrow> Fill \<Rightarrow> contributionInstrument \<Rightarrow> FeeRule list \<Rightarrow> (string \<rightharpoonup> OrderFeeRecord) \<Rightarrow> string set \<Rightarrow>
       contributionFee \<times> string set" where
  "contributionFeeForFill pr fill instrument rules authoritativeFees consumed =
     (let i = TrimSpace (fGatewayOrderID fill)
      in case authoritativeFees i of
           Some record0 \<Rightarrow>
             if i \<in> consumed then (Fee0, consumed)
             else (Fee0\<lparr>cfActual := frTotalFee record0, cfEffective := frTotalFee record0,
                     cfSource := ''actual_order_fee:'' @ frFeeSource record0\<rparr>, insert i consumed)
         | None \<Rightarrow> (calculateContributionFillFee pr fill instrument rules, consumed))"

definition mergeContributionFeeSource :: "string \<Rightarrow> string \<Rightarrow> string" where
  "mergeContributionFeeSource current next0 =
     (if current = [] then next0 else if next0 = [] \<or> current = next0 then current else ''mixed'')"

end
