(* ===== verification/Component_Links.thy ===== *)
theory Component_Links
  imports Perf_Fills
begin

text \<open>
  Component sales of ETF redemptions (\<^verbatim>\<open>internal/performance/etf_transfer_links.go\<close>): the transfers of a
  redemption order form a group with the quantities of components it delivered, and sales are
  linked to the groups until these quantities are used up. Go visits the keys of a map in an
  order of its own; the order of every such visit is a parameter here.
\<close>

section \<open>Types\<close>

record componentSaleLink =
  slRedemptionGatewayOrderID :: string
  slBasketRoot :: string
  slQuantity :: int

record componentTransferGroup =
  tgRedemptionGatewayOrderID :: string
  tgBasketRoot :: string
  tgMatchedAt :: gotime
  tgExpected :: "(string \<times> int) list"
  tgLinked :: "(string \<times> int) list"
  tgLinkedFills :: "Fill list"

record componentSaleLinks =
  csByFill :: "string \<rightharpoonup> componentSaleLink list"
  csGroups :: "(string \<times> componentTransferGroup) list"
  csFlags :: "string list"

record componentSaleBucketLink =
  blLinkedQuantity :: int
  blAllFillsLinked :: bool
  blRedemptionGatewayOrderID :: string
  blBasketRoot :: string
  blGroupComplete :: bool

text \<open>A map of quantities as an association list with distinct keys; a missing key reads 0.\<close>

definition qtyAt :: "(string \<times> int) list \<Rightarrow> string \<Rightarrow> int" where
  "qtyAt m k = (case map_of m k of None \<Rightarrow> 0 | Some q \<Rightarrow> q)"

fun addQty :: "string \<Rightarrow> int \<Rightarrow> (string \<times> int) list \<Rightarrow> (string \<times> int) list" where
  "addQty k q [] = [(k, wrap64 q)]"
| "addQty k q ((j, n) # m) = (if j = k then (j, wrap64 (n + q)) # m else (j, n) # addQty k q m)"

fun putKey :: "string \<Rightarrow> 'g \<Rightarrow> (string \<times> 'g) list \<Rightarrow> (string \<times> 'g) list" where
  "putKey k g [] = [(k, g)]"
| "putKey k g ((j, h) # m) = (if j = k then (j, g) # m else (j, h) # putKey k g m)"

section \<open>Transfers\<close>

definition IndexByte :: "char \<Rightarrow> string \<Rightarrow> nat option" where
  "IndexByte c s = map_option (\<lambda>(a, b). length a) (CutByte c s)"

definition componentBasketRoot :: "string \<Rightarrow> string" where
  "componentBasketRoot v0 =
     (let v = TrimSpace v0
      in if v = [] then []
         else let parts = SplitByte (CHR ''#'') v;
                  v1 = (if length parts \<ge> 2 then parts ! 1 else v);
                  v2 = (case IndexByte (CHR ''.'') v1 of Some i \<Rightarrow> take i v1 | None \<Rightarrow> v1)
              in ToUpper (TrimSpace v2))"

definition transferKey :: "ComponentTransfer \<Rightarrow> string" where
  "transferKey tr = JoinWith nul [tAccountID tr, tGatewayOrderID tr, tFillID tr, tOrderStreamID tr,
     contributionSecurityID (tSymbol tr) (tExchange tr)]"

definition newGroup :: "Order \<Rightarrow> ComponentTransfer \<Rightarrow> componentTransferGroup" where
  "newGroup ord tr =
     \<lparr>tgRedemptionGatewayOrderID = tGatewayOrderID tr,
      tgBasketRoot = firstNonBlank
        [firstNonBlank [componentBasketRoot (tBasketID tr), componentBasketRoot (oBasketID ord)], TrimSpace (oSymbol ord)],
      tgMatchedAt = zeroTime, tgExpected = [], tgLinked = [], tgLinkedFills = []\<rparr>"

definition componentOf :: "ComponentTransfer \<Rightarrow> string" where
  "componentOf tr = contributionSecurityID (firstNonBlank [tComponentSymbol tr, tSymbol tr])
     (if tComponentExchange tr = [] then tExchange tr else tComponentExchange tr)"

definition componentQty :: "ComponentTransfer \<Rightarrow> int" where
  "componentQty tr = (if tComponentQty tr \<le> 0 then tQty tr else tComponentQty tr)"

definition noteTransfer :: "Order \<Rightarrow> ComponentTransfer \<Rightarrow> componentTransferGroup \<Rightarrow> componentTransferGroup" where
  "noteTransfer ord tr grp =
     (let g = (if IsZero (tgMatchedAt grp) \<or> \<not> IsZero (tMatchedAt tr) \<and> tMatchedAt tr < tgMatchedAt grp
               then grp\<lparr>tgMatchedAt := tMatchedAt tr\<rparr> else grp)
      in if componentOf tr = contributionSecurityID (oSymbol ord) (oExchange ord) \<or> tCashSubstitution tr \<or> componentQty tr \<le> 0
         then g else g\<lparr>tgExpected := addQty (componentOf tr) (componentQty tr) (tgExpected g)\<rparr>)"

fun transferGroups ::
    "(string \<rightharpoonup> Order) \<Rightarrow> string set \<Rightarrow> (string \<times> componentTransferGroup) list \<Rightarrow> ComponentTransfer list \<Rightarrow>
       (string \<times> componentTransferGroup) list" where
  "transferGroups byID seen groups [] = groups"
| "transferGroups byID seen groups (tr # trs) =
     (case byID (tGatewayOrderID tr) of
        None \<Rightarrow> transferGroups byID seen groups trs
      | Some ord \<Rightarrow>
          if \<not> isETFBusinessRedemption (oTradeSide ord) (oBusinessType ord) then transferGroups byID seen groups trs
          else if transferKey tr \<in> seen then transferGroups byID seen groups trs
          else let grp = (case map_of groups (tGatewayOrderID tr) of None \<Rightarrow> newGroup ord tr | Some g \<Rightarrow> g)
               in transferGroups byID (insert (transferKey tr) seen)
                    (putKey (tGatewayOrderID tr) (noteTransfer ord tr grp) groups) trs)"

section \<open>Sales\<close>

definition availableQty :: "string \<Rightarrow> componentTransferGroup \<Rightarrow> int" where
  "availableQty sec grp = wrap64 (qtyAt (tgExpected grp) sec - qtyAt (tgLinked grp) sec)"

definition eligibleGroup :: "string \<Rightarrow> string \<Rightarrow> gotime \<Rightarrow> componentTransferGroup \<Rightarrow> bool" where
  "eligibleGroup basketRoot sec fillTime grp \<longleftrightarrow>
     (basketRoot \<noteq> [] \<and> tgBasketRoot grp = basketRoot \<or> basketRoot = []) \<and> availableQty sec grp > 0
     \<and> \<not> (\<not> IsZero fillTime \<and> \<not> IsZero (tgMatchedAt grp) \<and> fillTime < tgMatchedAt grp)"

definition group_first :: "componentTransferGroup \<Rightarrow> componentTransferGroup \<Rightarrow> bool" where
  "group_first a b \<longleftrightarrow>
     (if tgMatchedAt a = tgMatchedAt b then tgRedemptionGatewayOrderID a < tgRedemptionGatewayOrderID b
      else tgMatchedAt a > tgMatchedAt b)"

text \<open>The allocation of a quantity to groups, with what remains.\<close>

fun allocate :: "string \<Rightarrow> int \<Rightarrow> componentTransferGroup list \<Rightarrow> componentSaleLink list \<times> int" where
  "allocate sec remaining [] = ([], remaining)"
| "allocate sec remaining (grp # groups) =
     (let quantity = (if availableQty sec grp > remaining then remaining else availableQty sec grp)
      in if quantity \<le> 0 then allocate sec remaining groups
         else let link = \<lparr>slRedemptionGatewayOrderID = tgRedemptionGatewayOrderID grp, slBasketRoot = tgBasketRoot grp,
                         slQuantity = quantity\<rparr>
              in if remaining - quantity = 0 then ([link], 0)
                 else (case allocate sec (remaining - quantity) groups of (links, rest) \<Rightarrow> (link # links, rest)))"

definition linkGroup :: "string \<Rightarrow> Fill \<Rightarrow> componentSaleLink \<Rightarrow> componentTransferGroup \<Rightarrow> componentTransferGroup" where
  "linkGroup sec fill link grp =
     grp\<lparr>tgLinked := addQty sec (slQuantity link) (tgLinked grp),
           tgLinkedFills := tgLinkedFills grp @ [fill\<lparr>fQty := slQuantity link\<rparr>]\<rparr>"

fun linkGroups ::
    "string \<Rightarrow> Fill \<Rightarrow> componentSaleLink list \<Rightarrow> (string \<times> componentTransferGroup) list \<Rightarrow> (string \<times> componentTransferGroup) list" where
  "linkGroups sec fill [] groups = groups"
| "linkGroups sec fill (link # links) groups =
     linkGroups sec fill links
       (case map_of groups (slRedemptionGatewayOrderID link) of
          None \<Rightarrow> groups
        | Some g \<Rightarrow> putKey (slRedemptionGatewayOrderID link) (linkGroup sec fill link g) groups)"

definition saleBasketRoot :: "sprint \<Rightarrow> Fill \<Rightarrow> string" where
  "saleBasketRoot pr fill = componentBasketRoot
     (firstNonBlank [fBasketID fill, contributionString pr (ctx_lookup (fAdapterContext fill) ''basket_id'')])"

definition linkSale ::
    "sprint \<Rightarrow> (componentTransferGroup list \<Rightarrow> componentTransferGroup list) \<Rightarrow> Fill \<Rightarrow> componentSaleLinks \<Rightarrow> componentSaleLinks" where
  "linkSale pr visit fill links =
     (if fTradeSide fill \<noteq> TradeSideSell \<or> fQty fill \<le> 0 then links
      else let basketRoot = saleBasketRoot pr fill; sec = contributionSecurityID (fSymbol fill) (fExchange fill);
               eligible = order_by group_first
                 (filter (eligibleGroup basketRoot sec (contributionFillTime fill)) (visit (map snd (csGroups links))))
           in case allocate sec (fQty fill) eligible of (allocations, remaining) \<Rightarrow>
                if remaining \<noteq> 0 then links
                else links\<lparr>csFlags := (if basketRoot = [] then appendUnique (csFlags links) [''historical_component_sale_link_inferred'']
                                       else csFlags links),
                           csGroups := linkGroups sec fill allocations (csGroups links),
                           csByFill := (csByFill links)(contributionFillKey fill \<mapsto> allocations)\<rparr>)"

fun linkSales ::
    "sprint \<Rightarrow> (nat \<Rightarrow> componentTransferGroup list \<Rightarrow> componentTransferGroup list) \<Rightarrow> nat \<Rightarrow> Fill list \<Rightarrow>
       componentSaleLinks \<Rightarrow> componentSaleLinks" where
  "linkSales pr visit n [] links = links"
| "linkSales pr visit n (fill # fills) links = linkSales pr visit (Suc n) fills (linkSale pr (visit n) fill links)"

definition componentTransferGroupComplete :: "componentTransferGroup option \<Rightarrow> bool" where
  "componentTransferGroupComplete grp =
     (case grp of
        None \<Rightarrow> False
      | Some g \<Rightarrow> tgExpected g \<noteq> [] \<and> list_all (\<lambda>(sec, expected). expected > 0 \<and> qtyAt (tgLinked g) sec = expected) (tgExpected g))"

definition fill_time_first :: "Fill \<Rightarrow> Fill \<Rightarrow> bool" where
  "fill_time_first a b \<longleftrightarrow> contributionFillTime a < contributionFillTime b"

definition buildComponentSaleLinks ::
    "sprint \<Rightarrow> (nat \<Rightarrow> componentTransferGroup list \<Rightarrow> componentTransferGroup list) \<Rightarrow> Order list \<Rightarrow> Fill list \<Rightarrow>
       ComponentTransfer list \<Rightarrow> componentSaleLinks" where
  "buildComponentSaleLinks pr visit orders fills transfers =
     (let groups = transferGroups (ordersByID orders) {} [] transfers;
          sales = order_by fill_time_first fills;
          links = linkSales pr visit 0 sales \<lparr>csByFill = Map.empty, csGroups = groups, csFlags = []\<rparr>
      in foldl (\<lambda>l g. if componentTransferGroupComplete (Some g) then l
                      else l\<lparr>csFlags := appendUnique (csFlags l) [''component_transfer_sell_quantity_mismatch'']\<rparr>)
           links (visit (length sales) (map snd (csGroups links))))"

section \<open>Queries\<close>

definition linksOf :: "componentSaleLinks \<Rightarrow> Fill \<Rightarrow> componentSaleLink list" where
  "linksOf links fill = (case csByFill links (contributionFillKey fill) of None \<Rightarrow> [] | Some ls \<Rightarrow> ls)"

definition excludes :: "componentSaleLinks \<Rightarrow> Fill \<Rightarrow> bool" where
  "excludes links fill \<longleftrightarrow> linksOf links fill \<noteq> []"

definition linkedFills :: "componentSaleLinks \<Rightarrow> string \<Rightarrow> Fill list \<times> bool" where
  "linkedFills links redemptionGatewayOrderID =
     (case map_of (csGroups links) (TrimSpace redemptionGatewayOrderID) of
        None \<Rightarrow> ([], False)
      | Some g \<Rightarrow> (tgLinkedFills g, componentTransferGroupComplete (Some g)))"

fun bucketLinks :: "componentSaleLink list \<Rightarrow> componentSaleBucketLink \<Rightarrow> componentSaleBucketLink" where
  "bucketLinks [] r = r"
| "bucketLinks (link # links) r =
     bucketLinks links
       (if blRedemptionGatewayOrderID r = []
        then r\<lparr>blRedemptionGatewayOrderID := slRedemptionGatewayOrderID link, blBasketRoot := slBasketRoot link\<rparr>
        else r)"

fun bucketLoop ::
    "componentSaleLinks \<Rightarrow> Fill list \<Rightarrow> componentSaleBucketLink \<times> string list \<Rightarrow> componentSaleBucketLink \<times> string list" where
  "bucketLoop links [] acc = acc"
| "bucketLoop links (fill # fills) (r, seen) =
     (if linksOf links fill = []
      then bucketLoop links fills (r\<lparr>blAllFillsLinked := False, blGroupComplete := False\<rparr>, seen)
      else bucketLoop links fills
             (bucketLinks (linksOf links fill) (r\<lparr>blLinkedQuantity := wrap64 (blLinkedQuantity r + fQty fill)\<rparr>),
              appendUnique seen (map slRedemptionGatewayOrderID (linksOf links fill))))"

definition bucketLink :: "componentSaleLinks \<Rightarrow> Fill list \<Rightarrow> componentSaleBucketLink" where
  "bucketLink links fills =
     (case bucketLoop links fills
             (\<lparr>blLinkedQuantity = 0, blAllFillsLinked = (fills \<noteq> []), blRedemptionGatewayOrderID = [], blBasketRoot = [],
               blGroupComplete = (fills \<noteq> [])\<rparr>, []) of
        (r, seen) \<Rightarrow>
          let r1 = (if length seen > 1 then r\<lparr>blRedemptionGatewayOrderID := []\<rparr> else r)
          in if list_all (\<lambda>i. componentTransferGroupComplete (map_of (csGroups links) i)) seen then r1
             else r1\<lparr>blGroupComplete := False\<rparr>)"

end
