(* ===== verification/Link_Laws.thy ===== *)
theory Link_Laws
  imports Component_Links
begin

text \<open>
  The links between redemptions and the sales of their components: a sale is linked whole or not at
  all, no group is charged with more than its transfers delivered, and the order in which Go
  visits the groups does not matter.
\<close>

section \<open>Maps of quantities\<close>

lemma map_of_addQty: "map_of (addQty k q m) j = (if j = k then Some (wrap64 (qtyAt m k + q)) else map_of m j)"
  by (induction m) (auto simp: qtyAt_def)

lemma qtyAt_addQty: "qtyAt (addQty k q m) j = (if j = k then wrap64 (qtyAt m k + q) else qtyAt m j)"
  by (simp add: qtyAt_def map_of_addQty)

lemma qtyAt_Nil [simp]: "qtyAt [] k = 0"
  by (simp add: qtyAt_def)

definition in64_map :: "(string \<times> int) list \<Rightarrow> bool" where
  "in64_map m \<longleftrightarrow> (\<forall>k. is_int64 (qtyAt m k))"

lemma in64_addQty: "in64_map m \<Longrightarrow> in64_map (addQty k q m)"
  by (simp add: in64_map_def qtyAt_addQty)

lemma map_of_putKey [simp]: "map_of (putKey k g m) j = (if j = k then Some g else map_of m j)"
  by (induction m) auto

lemma keys_putKey: "map fst (putKey k g m) = (if k \<in> fst ` set m then map fst m else map fst m @ [k])"
  by (induction m) force+

lemma distinct_putKey: "distinct (map fst m) \<Longrightarrow> distinct (map fst (putKey k g m))"
  by (simp add: keys_putKey)

lemma not_image_neq: "y \<notin> f ` A \<Longrightarrow> x \<in> A \<Longrightarrow> f x \<noteq> y"
  by blast

section \<open>The groups\<close>

definition linkedSum :: "string \<Rightarrow> Fill list \<Rightarrow> int" where
  "linkedSum sec fills =
     sum_list (map fQty (filter (\<lambda>f. contributionSecurityID (fSymbol f) (fExchange f) = sec) fills))"

lemma linkedSum_simps [simp]:
  "linkedSum sec [] = 0"
  "linkedSum sec (fills @ [f]) =
     linkedSum sec fills + (if contributionSecurityID (fSymbol f) (fExchange f) = sec then fQty f else 0)"
  by (simp_all add: linkedSum_def)

text \<open>What was linked to a group is what its linked sales say, and at most what its transfers delivered.\<close>

definition group_ok :: "componentTransferGroup \<Rightarrow> bool" where
  "group_ok g \<longleftrightarrow> in64_map (tgExpected g)
     \<and> (\<forall>sec. 0 \<le> qtyAt (tgLinked g) sec \<and> qtyAt (tgLinked g) sec \<le> max 0 (qtyAt (tgExpected g) sec)
            \<and> qtyAt (tgLinked g) sec = linkedSum sec (tgLinkedFills g))"

definition groups_ok :: "(string \<times> componentTransferGroup) list \<Rightarrow> bool" where
  "groups_ok gs \<longleftrightarrow> distinct (map fst gs)
     \<and> (\<forall>k g. map_of gs k = Some g \<longrightarrow> tgRedemptionGatewayOrderID g = k \<and> group_ok g)"

lemma groups_okI:
  assumes "distinct (map fst gs)"
    and "\<And>k g. map_of gs k = Some g \<Longrightarrow> tgRedemptionGatewayOrderID g = k \<and> group_ok g"
  shows "groups_ok gs"
  using assms by (simp add: groups_ok_def)

lemma groups_okD:
  assumes "groups_ok gs" "map_of gs k = Some g"
  shows "tgRedemptionGatewayOrderID g = k" "group_ok g"
  using assms by (auto simp: groups_ok_def)

lemma groups_ok_put:
  assumes "groups_ok gs" "tgRedemptionGatewayOrderID g = k" "group_ok g"
  shows "groups_ok (putKey k g gs)"
  using assms by (auto simp: groups_ok_def distinct_putKey split: if_splits)

lemma groups_ok_mem: "groups_ok gs \<Longrightarrow> g \<in> snd ` set gs \<Longrightarrow> map_of gs (tgRedemptionGatewayOrderID g) = Some g"
  by (auto simp: groups_ok_def)

lemma group_ids_inj: "groups_ok gs \<Longrightarrow> inj_on tgRedemptionGatewayOrderID (snd ` set gs)"
  by (rule inj_onI) (metis groups_ok_mem option.inject)

lemma groups_distinct: "groups_ok gs \<Longrightarrow> distinct (map snd gs)"
proof -
  assume ok: "groups_ok gs"
  then have d: "distinct (map fst gs)" by (simp add: groups_ok_def)
  have "inj_on snd (set gs)"
  proof (rule inj_onI)
    fix x y assume a: "x \<in> set gs" "y \<in> set gs" "snd x = snd y"
    then have "map_of gs (fst x) = Some (snd x)" "map_of gs (fst y) = Some (snd y)"
      using d by (metis map_of_is_SomeI prod.collapse)+
    then show "x = y" using ok a(3) by (metis groups_okD(1) prod.expand)
  qed
  then show ?thesis using d by (simp add: distinct_map)
qed

subsection \<open>Transfers\<close>

lemma group_ok_new [simp]: "group_ok (newGroup ord tr)"
  by (simp add: group_ok_def newGroup_def in64_map_def is_int64_def)

lemma newGroup_id [simp]: "tgRedemptionGatewayOrderID (newGroup ord tr) = tGatewayOrderID tr"
  by (simp add: newGroup_def)

lemma noteTransfer_id [simp]: "tgRedemptionGatewayOrderID (noteTransfer ord tr g) = tgRedemptionGatewayOrderID g"
  by (simp add: noteTransfer_def Let_def)

text \<open>A group in the making: nothing is linked yet.\<close>

definition unlinked :: "componentTransferGroup \<Rightarrow> bool" where
  "unlinked g \<longleftrightarrow> tgLinked g = [] \<and> tgLinkedFills g = [] \<and> in64_map (tgExpected g)"

lemma unlinked_ok: "unlinked g \<Longrightarrow> group_ok g"
  by (simp add: unlinked_def group_ok_def)

lemma unlinked_new: "unlinked (newGroup ord tr)"
  by (simp add: unlinked_def newGroup_def in64_map_def is_int64_def)

lemma unlinked_note: "unlinked g \<Longrightarrow> unlinked (noteTransfer ord tr g)"
  by (simp add: unlinked_def noteTransfer_def Let_def in64_addQty)

definition fresh_groups :: "(string \<times> componentTransferGroup) list \<Rightarrow> bool" where
  "fresh_groups gs \<longleftrightarrow> groups_ok gs \<and> (\<forall>k g. map_of gs k = Some g \<longrightarrow> unlinked g)"

lemma fresh_put:
  assumes "fresh_groups gs" "tgRedemptionGatewayOrderID g = k" "unlinked g"
  shows "fresh_groups (putKey k g gs)"
  using assms by (auto simp: fresh_groups_def unlinked_ok intro: groups_ok_put split: if_splits)

lemma fresh_noted:
  assumes "fresh_groups gs"
  shows "fresh_groups (putKey (tGatewayOrderID tr)
           (noteTransfer ord tr (case map_of gs (tGatewayOrderID tr) of None \<Rightarrow> newGroup ord tr | Some g \<Rightarrow> g)) gs)"
proof (cases "map_of gs (tGatewayOrderID tr)")
  case None
  then show ?thesis using assms by (simp add: fresh_put unlinked_note unlinked_new)
next
  case (Some g)
  then have "tgRedemptionGatewayOrderID g = tGatewayOrderID tr" "unlinked g"
    using assms groups_okD(1) by (auto simp: fresh_groups_def)
  then show ?thesis using assms Some by (simp add: fresh_put unlinked_note)
qed

lemma fresh_transferGroups: "fresh_groups gs \<Longrightarrow> fresh_groups (transferGroups byID seen gs trs)"
proof (induction byID seen gs trs rule: transferGroups.induct)
  case (2 byID seen gs tr trs)
  then show ?case using fresh_noted[OF 2(5), of tr]
    by (auto simp: Let_def split: option.split)
qed simp

lemma fresh_Nil: "fresh_groups []"
  by (simp add: fresh_groups_def groups_ok_def)

section \<open>Allocation\<close>

lemma available_exact:
  assumes "group_ok g" "0 < availableQty sec g"
  shows "availableQty sec g = qtyAt (tgExpected g) sec - qtyAt (tgLinked g) sec"
proof -
  have e: "is_int64 (qtyAt (tgExpected g) sec)"
    and l: "0 \<le> qtyAt (tgLinked g) sec" "qtyAt (tgLinked g) sec \<le> max 0 (qtyAt (tgExpected g) sec)"
    using assms(1) unfolding group_ok_def in64_map_def by blast+
  show ?thesis
    unfolding availableQty_def by (rule wrap64_id) (use e l in \<open>auto simp: is_int64_def\<close>)
qed

text \<open>The three ways an allocation goes on at a group.\<close>

lemma allocate_Cons_cases:
  assumes "allocate sec r (g # gs) = (ls, rest)"
  obtains (passed) "allocate sec r gs = (ls, rest)"
  | (taken) q ls' where "0 < q" "q \<le> r" "q \<le> availableQty sec g"
      "ls = \<lparr>slRedemptionGatewayOrderID = tgRedemptionGatewayOrderID g, slBasketRoot = tgBasketRoot g, slQuantity = q\<rparr> # ls'"
      "ls' = [] \<and> r - q = 0 \<and> rest = 0 \<or> allocate sec (r - q) gs = (ls', rest)"
  using assms by (auto simp: Let_def split: if_splits prod.splits)

lemma allocate_sum: "allocate sec r gs = (ls, rest) \<Longrightarrow> sum_list (map slQuantity ls) + rest = r"
proof (induction gs arbitrary: r ls)
  case (Cons g gs)
  from Cons.prems show ?case
    by (cases rule: allocate_Cons_cases) (use Cons.IH in fastforce)+
qed simp

lemma allocate_within_group:
  assumes "allocate sec r gs = (ls, rest)" "l \<in> set ls"
  shows "0 < slQuantity l \<and> (\<exists>g\<in>set gs. tgRedemptionGatewayOrderID g = slRedemptionGatewayOrderID l
            \<and> slBasketRoot l = tgBasketRoot g \<and> slQuantity l \<le> availableQty sec g)"
  using assms
proof (induction gs arbitrary: r ls)
  case (Cons g gs)
  from Cons.prems(1) show ?case
    by (cases rule: allocate_Cons_cases) (use Cons.IH Cons.prems(2) in fastforce)+
qed simp

lemma allocate_ids:
  "allocate sec r gs = (ls, rest) \<Longrightarrow> distinct (map tgRedemptionGatewayOrderID gs) \<Longrightarrow>
     distinct (map slRedemptionGatewayOrderID ls)"
proof (induction gs arbitrary: r ls)
  case (Cons g gs)
  from Cons.prems(1) show ?case
  proof (cases rule: allocate_Cons_cases)
    case passed
    then show ?thesis using Cons by simp
  next
    case (taken q ls')
    have "tgRedemptionGatewayOrderID g \<notin> slRedemptionGatewayOrderID ` set ls'"
      using taken(5) allocate_within_group[of sec "r - q" gs ls' rest] Cons.prems(2) by force
    then show ?thesis using taken Cons by auto
  qed
qed simp

section \<open>One sale\<close>

lemma linkGroup_linked:
  assumes "group_ok g" "0 < slQuantity l" "slQuantity l \<le> availableQty sec g"
  shows "qtyAt (tgLinked (linkGroup sec fill l g)) s = qtyAt (tgLinked g) s + (if s = sec then slQuantity l else 0)"
    and "slQuantity l \<le> qtyAt (tgExpected g) sec - qtyAt (tgLinked g) sec"
proof -
  let ?e = "qtyAt (tgExpected g) sec" and ?l = "qtyAt (tgLinked g) sec"
  show q: "slQuantity l \<le> ?e - ?l" using assms available_exact[OF assms(1)] by simp
  have e: "is_int64 ?e" "0 \<le> ?l" using assms(1) unfolding group_ok_def in64_map_def by blast+
  have "wrap64 (?l + slQuantity l) = ?l + slQuantity l"
    by (rule wrap64_id) (use q e assms(2) in \<open>auto simp: is_int64_def\<close>)
  then show "qtyAt (tgLinked (linkGroup sec fill l g)) s = qtyAt (tgLinked g) s + (if s = sec then slQuantity l else 0)"
    by (simp add: linkGroup_def qtyAt_addQty)
qed

lemma group_ok_link:
  assumes "group_ok g" "sec = contributionSecurityID (fSymbol fill) (fExchange fill)"
    and "0 < slQuantity l" "slQuantity l \<le> availableQty sec g"
  shows "group_ok (linkGroup sec fill l g)"
proof -
  note linked = linkGroup_linked[OF assms(1,3,4)]
  have sums: "linkedSum s (tgLinkedFills (linkGroup sec fill l g)) = linkedSum s (tgLinkedFills g) + (if s = sec then slQuantity l else 0)" for s
    using assms(2) by (simp add: linkGroup_def)
  have same: "tgExpected (linkGroup sec fill l g) = tgExpected g" by (simp add: linkGroup_def)
  show ?thesis
    unfolding group_ok_def linked(1) sums same
  proof (intro conjI allI)
    show "in64_map (tgExpected g)" using assms(1) by (simp add: group_ok_def)
    fix s
    have g: "0 \<le> qtyAt (tgLinked g) s" "qtyAt (tgLinked g) s \<le> max 0 (qtyAt (tgExpected g) s)"
      "qtyAt (tgLinked g) s = linkedSum s (tgLinkedFills g)"
      using assms(1) unfolding group_ok_def by blast+
    show "0 \<le> qtyAt (tgLinked g) s + (if s = sec then slQuantity l else 0)"
      "qtyAt (tgLinked g) s + (if s = sec then slQuantity l else 0) \<le> max 0 (qtyAt (tgExpected g) s)"
      using g(1,2) linked(2) assms(3) by auto
    show "qtyAt (tgLinked g) s + (if s = sec then slQuantity l else 0) = linkedSum s (tgLinkedFills g) + (if s = sec then slQuantity l else 0)"
      using g(3) by simp
  qed
qed

lemma linkGroup_id [simp]: "tgRedemptionGatewayOrderID (linkGroup sec fill l g) = tgRedemptionGatewayOrderID g"
  by (simp add: linkGroup_def)

lemma linkGroup_available: "sec' \<noteq> sec \<Longrightarrow> availableQty sec' (linkGroup sec fill l g) = availableQty sec' g"
  by (simp add: linkGroup_def availableQty_def qtyAt_addQty)

text \<open>Links that the groups can take: each of a group of its own, within what the group has left.\<close>

definition takeable :: "string \<Rightarrow> componentSaleLink list \<Rightarrow> (string \<times> componentTransferGroup) list \<Rightarrow> bool" where
  "takeable sec ls gs \<longleftrightarrow> distinct (map slRedemptionGatewayOrderID ls)
     \<and> (\<forall>l\<in>set ls. 0 < slQuantity l
           \<and> (\<exists>g. map_of gs (slRedemptionGatewayOrderID l) = Some g \<and> slQuantity l \<le> availableQty sec g))"

lemma takeable_Cons:
  assumes "takeable sec (l # ls) gs"
  obtains g where "map_of gs (slRedemptionGatewayOrderID l) = Some g" "0 < slQuantity l" "slQuantity l \<le> availableQty sec g"
    "takeable sec ls (putKey (slRedemptionGatewayOrderID l) h gs)"
proof -
  obtain g where g: "map_of gs (slRedemptionGatewayOrderID l) = Some g" "0 < slQuantity l" "slQuantity l \<le> availableQty sec g"
    using assms by (auto simp: takeable_def)
  have "slRedemptionGatewayOrderID m \<noteq> slRedemptionGatewayOrderID l" if "m \<in> set ls" for m
    using assms that by (auto simp: takeable_def dest: not_image_neq)
  then show ?thesis using assms by (intro that[OF g]) (simp add: takeable_def)
qed

definition linkedAt :: "(string \<times> componentTransferGroup) list \<Rightarrow> string \<Rightarrow> string \<Rightarrow> int" where
  "linkedAt gs k s = (case map_of gs k of None \<Rightarrow> 0 | Some g \<Rightarrow> qtyAt (tgLinked g) s)"

definition linkedTo :: "string \<Rightarrow> componentSaleLink list \<Rightarrow> int" where
  "linkedTo k ls = sum_list (map slQuantity (filter (\<lambda>l. slRedemptionGatewayOrderID l = k) ls))"

lemma linkGroups_books:
  assumes "groups_ok gs" "sec = contributionSecurityID (fSymbol fill) (fExchange fill)" "takeable sec ls gs"
  shows "groups_ok (linkGroups sec fill ls gs)
     \<and> linkedAt (linkGroups sec fill ls gs) k s = linkedAt gs k s + (if s = sec then linkedTo k ls else 0)"
  using assms(1,3)
proof (induction ls arbitrary: gs)
  case Nil
  then show ?case by (simp add: linkedTo_def)
next
  case (Cons l ls)
  let ?i = slRedemptionGatewayOrderID
  obtain g where g: "map_of gs (?i l) = Some g" and q: "0 < slQuantity l" "slQuantity l \<le> availableQty sec g"
    using takeable_Cons[OF Cons.prems(2)] by metis
  let ?gs = "putKey (?i l) (linkGroup sec fill l g) gs"
  have t: "takeable sec ls ?gs" using takeable_Cons[OF Cons.prems(2)] by metis
  have ok: "groups_ok ?gs"
    using groups_okD[OF Cons.prems(1) g] q Cons.prems(1) assms(2) by (auto intro: groups_ok_put group_ok_link)
  have "linkedAt ?gs k s = linkedAt gs k s + (if s = sec then linkedTo k [l] else 0)"
    using g linkGroup_linked(1)[OF groups_okD(2)[OF Cons.prems(1) g] q, of fill s] by (auto simp: linkedAt_def linkedTo_def)
  moreover have "linkedTo k (l # ls) = linkedTo k [l] + linkedTo k ls" by (simp add: linkedTo_def)
  ultimately show ?case using Cons.IH[OF ok t] g by simp
qed

text \<open>Go's iteration over a map visits every entry once.\<close>

definition visits_once :: "('a list \<Rightarrow> 'a list) \<Rightarrow> bool" where
  "visits_once v \<longleftrightarrow> (\<forall>xs. mset (v xs) = mset xs)"

lemma visits_once_set: "visits_once v \<Longrightarrow> set (v xs) = set xs"
  by (metis visits_once_def mset_eq_setD)

interpretation by_match: keyed_order group_first "\<lambda>g. (- tgMatchedAt g, tgRedemptionGatewayOrderID g)"
  by unfold_locales (auto simp: group_first_def less_prod_def)

interpretation by_time: keyed_order fill_time_first contributionFillTime
  by unfold_locales (simp add: fill_time_first_def)

definition eligibleGroups where
  "eligibleGroups pr v fill gs = order_by group_first
     (filter (eligibleGroup (saleBasketRoot pr fill) (contributionSecurityID (fSymbol fill) (fExchange fill))
        (contributionFillTime fill)) (v (map snd gs)))"

lemma eligible_ids:
  assumes "groups_ok gs" "visits_once v"
  shows "distinct (map tgRedemptionGatewayOrderID (eligibleGroups pr v fill gs))"
    and "g \<in> set (eligibleGroups pr v fill gs) \<Longrightarrow> map_of gs (tgRedemptionGatewayOrderID g) = Some g"
proof -
  let ?es = "eligibleGroups pr v fill gs"
  have sub: "set ?es \<subseteq> snd ` set gs"
    using visits_once_set[OF assms(2), of "map snd gs"] by (auto simp: eligibleGroups_def)
  have "distinct (v (map snd gs))"
    using assms by (metis groups_distinct mset_eq_imp_distinct_iff visits_once_def)
  then have "distinct ?es"
    unfolding eligibleGroups_def by (metis by_match.order_by_mset distinct_filter mset_eq_imp_distinct_iff)
  then show "distinct (map tgRedemptionGatewayOrderID ?es)"
    using sub inj_on_subset[OF group_ids_inj[OF assms(1)]] by (auto simp: distinct_map)
  show "g \<in> set ?es \<Longrightarrow> map_of gs (tgRedemptionGatewayOrderID g) = Some g"
    using sub groups_ok_mem[OF assms(1)] by blast
qed

text \<open>What linking a sale does to the groups and what it records for the sale.\<close>

lemma linkSale_cases:
  obtains (skipped) "linkSale pr v fill L = L"
  | (linked) ls where "fTradeSide fill = TradeSideSell" "0 < fQty fill"
      "allocate (contributionSecurityID (fSymbol fill) (fExchange fill)) (fQty fill) (eligibleGroups pr v fill (csGroups L)) = (ls, 0)"
      "csGroups (linkSale pr v fill L) = linkGroups (contributionSecurityID (fSymbol fill) (fExchange fill)) fill ls (csGroups L)"
      "csByFill (linkSale pr v fill L) = (csByFill L)(contributionFillKey fill \<mapsto> ls)"
  by (force simp: linkSale_def eligibleGroups_def Let_def split: if_splits prod.splits)

lemma allocation_takeable:
  assumes "groups_ok gs" "visits_once v" "allocate sec q (eligibleGroups pr v fill gs) = (ls, rest)"
  shows "takeable sec ls gs"
  using allocate_within_group[OF assms(3)] allocate_ids[OF assms(3) eligible_ids(1)[OF assms(1,2)]] eligible_ids(2)[OF assms(1,2)]
  unfolding takeable_def by metis

lemma linkSale_ok:
  assumes "groups_ok (csGroups L)" "visits_once v"
  shows "groups_ok (csGroups (linkSale pr v fill L))"
proof (cases rule: linkSale_cases[of pr v fill L])
  case skipped
  then show ?thesis using assms by simp
next
  case (linked ls)
  then show ?thesis using linkGroups_books[OF assms(1) refl allocation_takeable[OF assms linked(3)]] by simp
qed

definition recorded :: "Fill \<Rightarrow> componentSaleLinks \<Rightarrow> bool" where
  "recorded fill L \<longleftrightarrow> linksOf L fill = []
     \<or> fTradeSide fill = TradeSideSell \<and> sum_list (map slQuantity (linksOf L fill)) = fQty fill
       \<and> (\<forall>l\<in>set (linksOf L fill). 0 < slQuantity l) \<and> distinct (map slRedemptionGatewayOrderID (linksOf L fill))"

lemma linkSale_records:
  assumes "groups_ok (csGroups L)" "visits_once v" "recorded fill L"
  shows "recorded fill (linkSale pr v fill L)"
proof (cases rule: linkSale_cases[of pr v fill L])
  case skipped
  then show ?thesis using assms by simp
next
  case (linked ls)
  then show ?thesis
    using allocate_sum[OF linked(3)] allocate_within_group[OF linked(3)] allocate_ids[OF linked(3) eligible_ids(1)[OF assms(1,2)]]
    by (simp add: recorded_def linksOf_def)
qed

lemma linkSale_others:
  assumes "contributionFillKey f \<noteq> contributionFillKey fill"
  shows "linksOf (linkSale pr v fill L) f = linksOf L f"
  by (cases rule: linkSale_cases[of pr v fill L]) (use assms in \<open>simp_all add: linksOf_def\<close>)

section \<open>All sales\<close>

text \<open>The books of the groups against the links of the sales: what the sales of a list charge a group with.\<close>

definition charged :: "componentSaleLinks \<Rightarrow> string \<Rightarrow> string \<Rightarrow> Fill \<Rightarrow> int" where
  "charged L k s f = (if contributionSecurityID (fSymbol f) (fExchange f) = s then linkedTo k (linksOf L f) else 0)"

definition balanced :: "componentSaleLinks \<Rightarrow> Fill list \<Rightarrow> bool" where
  "balanced L fills \<longleftrightarrow> (\<forall>k s. linkedAt (csGroups L) k s = sum_list (map (charged L k s) fills))"

lemma linkSale_balanced:
  assumes "groups_ok (csGroups L)" "visits_once v" "balanced L old" "linksOf L fill = []"
    and "contributionFillKey fill \<notin> contributionFillKey ` set old"
  shows "balanced (linkSale pr v fill L) (old @ [fill])"
proof (cases rule: linkSale_cases[of pr v fill L])
  case skipped
  then show ?thesis using assms(3,4) by (simp add: balanced_def charged_def linkedTo_def)
next
  case (linked ls)
  let ?L = "linkSale pr v fill L" and ?sec = "contributionSecurityID (fSymbol fill) (fExchange fill)"
  have old: "map (charged ?L k s) old = map (charged L k s) old" for k s
    using linkSale_others[of _ fill pr v L] not_image_neq[OF assms(5)] by (simp add: charged_def)
  have new: "charged ?L k s fill = (if s = ?sec then linkedTo k ls else 0)" for k s
    using linked(5) by (simp add: charged_def linksOf_def)
  have "linkedAt (csGroups ?L) k s = linkedAt (csGroups L) k s + (if s = ?sec then linkedTo k ls else 0)" for k s
    using linkGroups_books[OF assms(1) refl allocation_takeable[OF assms(1,2) linked(3)]] linked(4) by simp
  then show ?thesis using assms(3) by (simp add: balanced_def old new)
qed

lemma linkSales_ok:
  assumes "groups_ok (csGroups L)" "\<And>n. visits_once (visit n)"
  shows "groups_ok (csGroups (linkSales pr visit n fills L))"
  using assms(1)
proof (induction fills arbitrary: n L)
  case (Cons f fs)
  then show ?case using linkSale_ok assms(2) by simp
qed simp

lemma linkSales_others:
  "contributionFillKey f \<notin> contributionFillKey ` set fills \<Longrightarrow> linksOf (linkSales pr visit n fills L) f = linksOf L f"
  by (induction fills arbitrary: n L) (simp_all add: linkSale_others)

lemma linkSales_records:
  assumes "groups_ok (csGroups L)" "\<And>n. visits_once (visit n)" "distinct (map contributionFillKey fills)"
    and "\<And>f. f \<in> set fills \<Longrightarrow> recorded f L" "f \<in> set fills"
  shows "recorded f (linkSales pr visit n fills L)"
  using assms(1,3-)
proof (induction fills arbitrary: n L)
  case (Cons g fs)
  let ?L = "linkSale pr (visit n) g L"
  have ok: "groups_ok (csGroups ?L)" using linkSale_ok Cons.prems(1) assms(2) by blast
  show ?case
  proof (cases "f \<in> set fs")
    case True
    have "recorded h ?L" if "h \<in> set fs" for h
    proof -
      have "contributionFillKey h \<noteq> contributionFillKey g" using Cons.prems(2) that by (auto dest: not_image_neq)
      then show ?thesis using linkSale_others[of h g pr "visit n" L] Cons.prems(3)[of h] that by (simp add: recorded_def)
    qed
    then show ?thesis using Cons.IH[OF ok _ _ True] Cons.prems(2) by simp
  next
    case False
    then have f: "f = g" using Cons.prems(4) by simp
    have "contributionFillKey g \<notin> contributionFillKey ` set fs" using Cons.prems(2) by simp
    then show ?thesis
      using linkSales_others[of g fs pr visit "Suc n" ?L] linkSale_records[OF Cons.prems(1) assms(2), of g pr n] Cons.prems(3)[of g]
      by (simp add: f recorded_def)
  qed
qed simp

lemma linkSales_balanced:
  assumes "groups_ok (csGroups L)" "\<And>n. visits_once (visit n)" "distinct (map contributionFillKey (old @ fills))"
    and "balanced L old" "\<And>f. f \<in> set fills \<Longrightarrow> linksOf L f = []"
  shows "balanced (linkSales pr visit n fills L) (old @ fills)"
  using assms(1,3-)
proof (induction fills arbitrary: n L old)
  case (Cons f fs)
  let ?L = "linkSale pr (visit n) f L"
  have b: "balanced ?L (old @ [f])"
    by (rule linkSale_balanced) (use Cons.prems assms(2) in auto)
  have "linksOf ?L g = []" if "g \<in> set fs" for g
  proof -
    have "contributionFillKey g \<noteq> contributionFillKey f" using Cons.prems(2) that by (auto dest: not_image_neq)
    then show ?thesis using linkSale_others[of g f pr "visit n" L] Cons.prems(4)[of g] that by simp
  qed
  then show ?case
    using Cons.IH[of ?L "old @ [f]" "Suc n"] linkSale_ok[OF Cons.prems(1) assms(2)] b Cons.prems(2) by simp
qed simp

section \<open>The result\<close>

lemma appendUnique_twice: "appendUnique (appendUnique fs [x]) [x] = appendUnique fs [x]"
  by auto

lemma mismatch_flags:
  "foldl (\<lambda>l g. if complete0 g then l else l\<lparr>csFlags := appendUnique (csFlags l) [m]\<rparr>) L gs =
     (if list_all complete0 gs then L else L\<lparr>csFlags := appendUnique (csFlags L) [m]\<rparr>)"
  by (induction gs arbitrary: L) (auto simp: appendUnique_twice)

abbreviation startLinks :: "Order list \<Rightarrow> ComponentTransfer list \<Rightarrow> componentSaleLinks" where
  "startLinks orders transfers \<equiv>
     \<lparr>csByFill = Map.empty, csGroups = transferGroups (ordersByID orders) {} [] transfers, csFlags = []\<rparr>"

lemma start_ok: "groups_ok (csGroups (startLinks orders transfers))"
  and start_unlinked: "linkedAt (transferGroups (ordersByID orders) {} [] transfers) k s = 0"
  using fresh_transferGroups[OF fresh_Nil, of "ordersByID orders" "{}" transfers]
  by (auto simp: fresh_groups_def linkedAt_def unlinked_def split: option.split)

lemma build_fields:
  "csByFill (buildComponentSaleLinks pr visit orders fills transfers) =
     csByFill (linkSales pr visit 0 (order_by fill_time_first fills) (startLinks orders transfers))"
  "csGroups (buildComponentSaleLinks pr visit orders fills transfers) =
     csGroups (linkSales pr visit 0 (order_by fill_time_first fills) (startLinks orders transfers))"
  by (simp_all add: buildComponentSaleLinks_def Let_def mismatch_flags)

text \<open>C8: The sales of redemption components are linked to redemptions without loss: whatever the order in
  which Go visits the groups, a sale is linked either not at all or for exactly its quantity, in
  positive parts to different redemptions; and a redemption is charged, for each security, with
  exactly what the sales of that security were linked to it for, never with more than its transfers
  delivered.\<close>

theorem component_sales_conserved:
  assumes "\<And>n. visits_once (visit n)" "distinct (map contributionFillKey fills)"
  shows "let L = buildComponentSaleLinks pr visit orders fills transfers in
         (\<forall>f\<in>set fills. linksOf L f = [] \<or>
             fTradeSide f = TradeSideSell \<and> sum_list (map slQuantity (linksOf L f)) = fQty f
             \<and> (\<forall>l\<in>set (linksOf L f). 0 < slQuantity l) \<and> distinct (map slRedemptionGatewayOrderID (linksOf L f)))
       \<and> (\<forall>k g s. map_of (csGroups L) k = Some g \<longrightarrow>
             qtyAt (tgLinked g) s = sum_list (map (charged L k s) fills)
             \<and> 0 \<le> qtyAt (tgLinked g) s \<and> qtyAt (tgLinked g) s \<le> max 0 (qtyAt (tgExpected g) s))"
proof -
  let ?L = "buildComponentSaleLinks pr visit orders fills transfers" and ?sales = "order_by fill_time_first fills"
  let ?M = "linkSales pr visit 0 ?sales (startLinks orders transfers)"
  have perm: "mset (map h ?sales) = mset (map h fills)" for h :: "Fill \<Rightarrow> 'x"
    by (simp add: by_time.order_by_mset)
  have keys: "distinct (map contributionFillKey ?sales)"
    using assms(2) perm[of contributionFillKey] by (metis mset_eq_imp_distinct_iff)
  have same: "linksOf ?L = linksOf ?M" "csGroups ?L = csGroups ?M"
    by (simp_all add: fun_eq_iff linksOf_def build_fields)
  have ok: "groups_ok (csGroups ?M)" by (rule linkSales_ok[OF start_ok assms(1)])
  have rec: "recorded f ?M" if "f \<in> set fills" for f
    by (rule linkSales_records[OF start_ok assms(1) keys]) (use that in \<open>simp_all add: recorded_def linksOf_def\<close>)
  have "balanced ?M ([] @ ?sales)"
    by (rule linkSales_balanced[OF start_ok assms(1)]) (use keys in \<open>simp_all add: balanced_def start_unlinked linksOf_def\<close>)
  then have bal: "linkedAt (csGroups ?M) k s = sum_list (map (charged ?L k s) fills)" for k s
  proof -
    assume b: "balanced ?M ([] @ ?sales)"
    have c: "charged ?M k s = charged ?L k s" by (simp add: fun_eq_iff charged_def same(1))
    have "linkedAt (csGroups ?M) k s = sum_list (map (charged ?L k s) ?sales)"
      using b by (simp add: balanced_def c)
    also have "\<dots> = sum_list (map (charged ?L k s) fills)" by (metis perm sum_mset_sum_list)
    finally show ?thesis .
  qed
  show ?thesis
    unfolding Let_def
  proof (intro conjI ballI allI impI)
    show "linksOf ?L f = [] \<or> fTradeSide f = TradeSideSell \<and> sum_list (map slQuantity (linksOf ?L f)) = fQty f
             \<and> (\<forall>l\<in>set (linksOf ?L f). 0 < slQuantity l) \<and> distinct (map slRedemptionGatewayOrderID (linksOf ?L f))"
      if "f \<in> set fills" for f
      using rec[OF that] unfolding recorded_def same(1) .
    fix k g s assume g: "map_of (csGroups ?L) k = Some g"
    then have m: "map_of (csGroups ?M) k = Some g" by (simp only: same(2))
    show "qtyAt (tgLinked g) s = sum_list (map (charged ?L k s) fills)" using bal[of k s] m by (simp add: linkedAt_def)
    show "0 \<le> qtyAt (tgLinked g) s" "qtyAt (tgLinked g) s \<le> max 0 (qtyAt (tgExpected g) s)"
      using groups_okD(2)[OF ok m] unfolding group_ok_def by blast+
  qed
qed

definition demo_redemption :: Order where
  "demo_redemption = Order0\<lparr>oAccountID := ''A1'', oGatewayOrderID := ''R1'', oSymbol := ''510300'', oExchange := ''SH'',
     oTradeSide := TradeSideRedemption, oBusinessType := BusinessTypeETF\<rparr>"

definition demo_transfer :: ComponentTransfer where
  "demo_transfer =
     \<lparr>tFillID = ''T1'', tAccountID = ''A1'', tGatewayOrderID = ''R1'', tOrderID = 0, tOrderStreamID = [], tSymbol = ''600000'',
      tName = [], tExchange = ''SH'', tPrice = Fin 0, tQty = 300, tTradeSide = TradeSideRedemption, tBusinessType = BusinessTypeETF,
      tRecordType = [], tTransferType = [], tIsTransfer = True, tComponentSymbol = ''600000'', tComponentName = [],
      tComponentExchange = ''SH'', tComponentQty = 300, tComponentValue = None, tCashSubstitution = False, tBrokerTradeSide = [],
      tBrokerBusinessType = [], tTradeDate = ''2026-07-01'', tMatchTimestamp = 0, tMatchedAt = 50, tShareholderID = [],
      tStrategyType = [], tStrategyID = [], tBasketID = [], tParentOrderID = [], tT0OrderGroupID = [], tAdapterContext = None\<rparr>"

definition demo_sale :: Fill where
  "demo_sale =
     \<lparr>fFillID = ''S1'', fAccountID = ''A1'', fGatewayOrderID = ''gw-9'', fOrderID = 0, fOrderStreamID = [], fSymbol = ''600000'',
      fName = [], fExchange = ''SH'', fTradeSide = TradeSideSell, fBusinessType = [], fPrice = Fin 0, fQty = 200, fFee = Fin 0,
      fTradeDate = ''2026-07-01'', fMatchTimestamp = 0, fMatchedAt = 60, fShareholderID = [], fStrategyType = [], fStrategyID = [],
      fBasketID = [], fParentOrderID = [], fT0OrderGroupID = [], fAdapterContext = None\<rparr>"

definition demo_print :: sprint where "demo_print = (\<lambda>_. [])"

lemma visits_once_id [simp]: "visits_once (\<lambda>xs. xs)" and visits_once_rev [simp]: "visits_once rev"
  by (simp_all add: visits_once_def)

lemma link_demo_words: "TrimSpace ''600000'' = ''600000''" "TrimSpace ''510300'' = ''510300''" "TrimSpace ''SH'' = ''SH''"
  by (rule TrimSpace_ascii_word, simp add: ascii_word_def)+

lemma demo_upper: "ToUpper ''SH'' = ''SH''" "ToUpper ''600000.SH'' = ''600000.SH''" "ToUpper ''510300.SH'' = ''510300.SH''"
  "\<not> Contains ''600000'' ''.''" "\<not> Contains ''510300'' ''.''"
  by code_simp+

lemma demo_security: "contributionSecurityID ''600000'' ''SH'' = ''600000.SH''" "contributionSecurityID ''510300'' ''SH'' = ''510300.SH''"
  using demo_upper by (simp_all add: contributionSecurityID_def link_demo_words)

lemma demo_root [simp]: "componentBasketRoot [] = []"
  by (simp add: componentBasketRoot_def)

lemma demo_group:
  "transferGroups (ordersByID [demo_redemption]) {} [] [demo_transfer] =
     [(''R1'', \<lparr>tgRedemptionGatewayOrderID = ''R1'', tgBasketRoot = ''510300'', tgMatchedAt = 50,
               tgExpected = [(''600000.SH'', 300)], tgLinked = [], tgLinkedFills = []\<rparr>)]"
  by (simp add: ordersByID_def demo_redemption_def demo_transfer_def isETFBusinessRedemption_def newGroup_def noteTransfer_def
      componentOf_def componentQty_def Order0_def demo_security link_demo_words zeroTime_def IsZero_def
      wrap64_id is_int64_def)

lemma demo_sale_fields:
  "fTradeSide demo_sale = TradeSideSell" "fQty demo_sale = 200" "fBasketID demo_sale = []" "fAdapterContext demo_sale = None"
  "contributionSecurityID (fSymbol demo_sale) (fExchange demo_sale) = ''600000.SH''" "contributionFillTime demo_sale = 60"
  by (simp_all add: demo_sale_def demo_security contributionFillTime_def IsZero_def zeroTime_def)

lemma demo_eligible:
  "eligibleGroup [] ''600000.SH'' 60
     \<lparr>tgRedemptionGatewayOrderID = i, tgBasketRoot = b, tgMatchedAt = 50, tgExpected = [(''600000.SH'', 300)], tgLinked = [],
      tgLinkedFills = []\<rparr>"
  by (simp add: eligibleGroup_def availableQty_def qtyAt_def wrap64_id is_int64_def)

lemma demo_sale_root: "saleBasketRoot demo_print demo_sale = []"
  by (simp add: saleBasketRoot_def demo_sale_fields ctx_lookup_def)

lemma demo_available:
  "availableQty ''600000.SH''
     \<lparr>tgRedemptionGatewayOrderID = i, tgBasketRoot = b, tgMatchedAt = 50, tgExpected = [(''600000.SH'', 300)], tgLinked = [],
      tgLinkedFills = []\<rparr> = 300"
  by (simp add: availableQty_def qtyAt_def wrap64_id is_int64_def)

lemma demo_links:
  "linksOf (buildComponentSaleLinks demo_print (\<lambda>_ xs. xs) [demo_redemption] [demo_sale] [demo_transfer]) demo_sale
     = [\<lparr>slRedemptionGatewayOrderID = ''R1'', slBasketRoot = ''510300'', slQuantity = 200\<rparr>]"
  unfolding linksOf_def build_fields demo_group
  by (simp add: linkSale_def demo_sale_root demo_sale_fields demo_eligible demo_available Let_def)

text \<open>A sale of 200 against a redemption that delivered 300.\<close>

theorem component_sales_conserved_witness:
  "sum_list (map slQuantity
     (linksOf (buildComponentSaleLinks demo_print (\<lambda>_ xs. xs) [demo_redemption] [demo_sale] [demo_transfer]) demo_sale)) = 200"
  using component_sales_conserved[of "\<lambda>_ xs. xs" "[demo_sale]" demo_print "[demo_redemption]" "[demo_transfer]"]
  by (simp add: Let_def demo_links)

lemma eligible_same:
  assumes "groups_ok gs" "visits_once v" "visits_once w"
  shows "eligibleGroups pr v fill gs = eligibleGroups pr w fill gs"
proof -
  let ?p = "eligibleGroup (saleBasketRoot pr fill) (contributionSecurityID (fSymbol fill) (fExchange fill)) (contributionFillTime fill)"
  have m: "mset (filter ?p (v (map snd gs))) = mset (filter ?p (w (map snd gs)))"
    using assms(2,3) by (simp add: visits_once_def)
  have "set (filter ?p (v (map snd gs))) \<subseteq> snd ` set gs" using visits_once_set[OF assms(2), of "map snd gs"] by auto
  then have "inj_on (\<lambda>g. (- tgMatchedAt g, tgRedemptionGatewayOrderID g)) (set (filter ?p (v (map snd gs))))"
    using inj_on_subset[OF group_ids_inj[OF assms(1)]] by (auto simp: inj_on_def)
  then show ?thesis unfolding eligibleGroups_def by (rule by_match.order_by_permuted[OF m])
qed

lemma linkSale_same:
  assumes "groups_ok (csGroups L)" "visits_once v" "visits_once w"
  shows "linkSale pr v fill L = linkSale pr w fill L"
  using eligible_same[OF assms, of pr fill] unfolding linkSale_def eligibleGroups_def Let_def by (simp only:)

lemma linkSales_same:
  assumes "\<And>n. visits_once (visit n)" "\<And>n. visits_once (visit' n)"
  shows "groups_ok (csGroups L) \<Longrightarrow> linkSales pr visit n fills L = linkSales pr visit' n fills L"
proof (induction fills arbitrary: n L)
  case (Cons f fs)
  then show ?case using linkSale_same[OF Cons.prems assms(1) assms(2), of pr n f n] linkSale_ok[OF Cons.prems assms(2)] by simp
qed simp

text \<open>C40: The order in which Go visits the entries of its map of redemption groups, which the language leaves
  open, has no influence on the links of the sales, on the groups or on the flags.\<close>

theorem component_links_visit_order:
  assumes "\<And>n. visits_once (visit n)" "\<And>n. visits_once (visit' n)"
  shows "buildComponentSaleLinks pr visit orders fills transfers = buildComponentSaleLinks pr visit' orders fills transfers"
proof -
  have all: "list_all q (visit n xs) = list_all q (visit' n xs)" for q n xs
    using visits_once_set[OF assms(1)] visits_once_set[OF assms(2)] by (simp add: list_all_iff)
  show ?thesis
    unfolding buildComponentSaleLinks_def Let_def mismatch_flags
    by (simp only: linkSales_same[of visit visit', OF assms start_ok] all)
qed

theorem component_links_visit_order_witness:
  "buildComponentSaleLinks demo_print (\<lambda>_ xs. xs) [demo_redemption] [demo_sale] [demo_transfer] =
   buildComponentSaleLinks demo_print (\<lambda>_. rev) [demo_redemption] [demo_sale] [demo_transfer]"
  by (rule component_links_visit_order) simp_all

end
