(* ===== verification/Cost_State.thy ===== *)
theory Cost_State
  imports Component_Links
begin

text \<open>
  The position cost of one security on one day (\<^verbatim>\<open>internal/performance/cost_ledger.go\<close>,
  \<^verbatim>\<open>corporate_actions.go\<close>, \<^verbatim>\<open>t0_cost_buckets.go\<close> and \<^verbatim>\<open>buildT0Groups\<close> of \<^verbatim>\<open>contributions.go\<close>): opening,
  corporate actions, the fills of the day, redemption groups with a cost bucket of their own, closing
  against the broker's position, and the summary of a result.
\<close>

section \<open>Data\<close>

record PerformanceInception =
  piAccountID :: string
  piInceptionDate :: string
  piStatus :: string
  piCleanStart :: bool
  piOpeningCash :: float64
  piOpeningPositionSource :: string
  piCostSource :: string
  piStrategyScope :: "string list"
  piDescription :: string
  piConfirmedBy :: string
  piConfirmedAt :: gotime
  piRawPayload :: ctxmap
  piCreatedAt :: gotime
  piUpdatedAt :: gotime

record PositionCostState =
  pcAccountID :: string
  pcTradeDate :: string
  pcSymbol :: string
  pcExchange :: string
  pcCostBucket :: string
  pcStatus :: string
  pcFormulaVersion :: string
  pcPreviousCloseQuantity :: int
  pcBrokerOpenQuantity :: int
  pcOpenQuantity :: int
  pcOpenTotalCost :: float64
  pcBuyQuantity :: int
  pcBuyAmount :: float64
  pcBuyFee :: float64
  pcSellQuantity :: int
  pcSellAmount :: float64
  pcSellFee :: float64
  pcRealizedPnL :: float64
  pcCloseQuantity :: int
  pcCloseTotalCost :: float64
  pcAverageCost :: float64
  pcBrokerCloseQuantity :: int
  pcQuantityResidual :: int
  pcClosePrice :: float64
  pcCloseMarketValue :: float64
  pcUnrealizedPnL :: float64
  pcFeeSource :: string
  pcOpeningSource :: string
  pcCorporateActionType :: string
  pcCorporateActionFactor :: float64
  pcCorporateActionQuantityDelta :: int
  pcCorporateActionSource :: string
  pcCorporateActionContext :: ctxmap
  pcQualityFlags :: "string list"
  pcSource :: string
  pcCalculatedAt :: gotime
  pcCreatedAt :: gotime
  pcUpdatedAt :: gotime

record costWorkingState =
  cwItem :: PositionCostState
  cwQuantity :: int
  cwCost :: float64
  cwFlags :: "string list"

record corporateActionFactor =
  caSecurityID :: string
  caExDate :: string
  caExFactor :: float64
  caSource :: string
  caRaw :: ctxmap

record CostLedgerSummary =
  csSecurities :: int
  csCalculatedItems :: int
  csEstimatedItems :: int
  csBlockedItems :: int
  csQuantityBreaks :: int
  csCorporateActions :: int
  csQuantityAdjustments :: int
  csCorporateActionBreaks :: int
  csT0CostBuckets :: int
  csT0BlockedBuckets :: int
  csT0BuyQuantity :: int
  csT0RedemptionQuantity :: int
  csT0BuyAmount :: float64
  csMissingFeeItems :: int
  csOpenQuantity :: int
  csOpenTotalCost :: float64
  csBuyQuantity :: int
  csBuyAmount :: float64
  csBuyFee :: float64
  csSellQuantity :: int
  csSellAmount :: float64
  csSellFee :: float64
  csRealizedPnL :: float64
  csCloseQuantity :: int
  csCloseTotalCost :: float64
  csCloseMarketValue :: float64
  csUnrealizedPnL :: float64
  csAttributionResidual :: float64

record CostLedgerResult =
  crAccountID :: string
  crTradeDate :: string
  crStatus :: string
  crFormulaVersion :: string
  crPersisted :: bool
  crInception :: PerformanceInception
  crOpeningSource :: string
  crSummary :: CostLedgerSummary
  crPositions :: "PositionCostState list"
  crQualityFlags :: "string list"
  crCalculatedAt :: gotime

record t0RedemptionGroup =
  rgSecurityID :: string
  rgGroupID :: string
  rgExplicit :: bool
  rgInstrument :: contributionInstrument
  rgOrders :: "Order list"
  rgBuyFills :: "Fill list"
  rgRedemptions :: "Fill list"
  rgRedemptionUnit :: int
  rgFlags :: "string list"

definition positionCostFormulaVersion :: string where
  "positionCostFormulaVersion = ''performance_position_cost.v3.2''"

definition meridianPreCloseMarkToMarketCostSource :: string where
  "meridianPreCloseMarkToMarketCostSource = ''meridian_pre_close_mark_to_market''"

text \<open>The zero value a Go map gives for a missing security.\<close>

definition Instrument0 :: contributionInstrument where
  "Instrument0 = \<lparr>ciSecurityID = [], ciSymbol = [], ciExchange = [], ciName = [], ciInstrumentType = [], ciPriceSource = [],
     ciPreClose = fzero, ciClose = fzero, ciHasPreClose = False, ciHasClose = False\<rparr>"

definition instrumentOf :: "(string \<times> contributionInstrument) list \<Rightarrow> string \<Rightarrow> contributionInstrument" where
  "instrumentOf m k = (case map_of m k of None \<Rightarrow> Instrument0 | Some i \<Rightarrow> i)"

text \<open>\<^verbatim>\<open>math.Max\<close>.\<close>

definition fmax :: "float64 \<Rightarrow> float64 \<Rightarrow> float64" where
  "fmax a b = (if a = PosInf \<or> b = PosInf then PosInf else if a = NaN \<or> b = NaN then NaN else if flt a b then b else a)"

section \<open>Working states\<close>

definition newCostWorkingState :: "string \<Rightarrow> string \<Rightarrow> string \<Rightarrow> string \<Rightarrow> string \<Rightarrow> costWorkingState" where
  "newCostWorkingState accountID tradeDate symbol exchange openingSource =
     \<lparr>cwItem =
       \<lparr>pcAccountID = accountID, pcTradeDate = tradeDate, pcSymbol = TrimSpace symbol, pcExchange = ToUpper (TrimSpace exchange),
        pcCostBucket = ''CORE'', pcStatus = ''calculated'', pcFormulaVersion = positionCostFormulaVersion,
        pcPreviousCloseQuantity = 0, pcBrokerOpenQuantity = 0, pcOpenQuantity = 0, pcOpenTotalCost = fzero,
        pcBuyQuantity = 0, pcBuyAmount = fzero, pcBuyFee = fzero, pcSellQuantity = 0, pcSellAmount = fzero, pcSellFee = fzero,
        pcRealizedPnL = fzero, pcCloseQuantity = 0, pcCloseTotalCost = fzero, pcAverageCost = fzero,
        pcBrokerCloseQuantity = 0, pcQuantityResidual = 0, pcClosePrice = fzero, pcCloseMarketValue = fzero, pcUnrealizedPnL = fzero,
        pcFeeSource = ''none'', pcOpeningSource = openingSource, pcCorporateActionType = ''none'', pcCorporateActionFactor = fzero,
        pcCorporateActionQuantityDelta = 0, pcCorporateActionSource = [], pcCorporateActionContext = None, pcQualityFlags = [],
        pcSource = ''relay.performance.cost_ledger'', pcCalculatedAt = zeroTime, pcCreatedAt = zeroTime, pcUpdatedAt = zeroTime\<rparr>,
      cwQuantity = 0, cwCost = fzero, cwFlags = []\<rparr>"

definition addFlags :: "string list \<Rightarrow> costWorkingState \<Rightarrow> costWorkingState" where
  "addFlags flags state = state\<lparr>cwFlags := appendUnique (cwFlags state) flags\<rparr>"

definition setStatus :: "string \<Rightarrow> costWorkingState \<Rightarrow> costWorkingState" where
  "setStatus status state = state\<lparr>cwItem := (cwItem state)\<lparr>pcStatus := status\<rparr>\<rparr>"

definition trustedBrokerPositionCost :: "Position \<Rightarrow> float64" where
  "trustedBrokerPositionCost position =
     (if pCostComplete position \<and> flt fzero (pTotalCost position) then roundMoney (pTotalCost position)
      else if pAvgCostSource position \<noteq> [] then fzero
      else if flt fzero (pAvgCost position) \<and> pQuantity position > 0
      then roundMoney (fmul (pAvgCost position) (float_of_int (pQuantity position)))
      else fzero)"

definition flagMissingOpenCost :: "Position \<Rightarrow> costWorkingState \<Rightarrow> costWorkingState" where
  "flagMissingOpenCost position state =
     (if pQuantity position > 0 \<and> fle (cwCost state) fzero
      then setStatus ''blocked'' (addFlags [''missing_trusted_open_cost''] state) else state)"

text \<open>The state of a security at the start of the day: at the inception of the account, re-anchored at
  the broker's opening position, and carried over from the previous close.\<close>

definition inceptionState :: "string \<Rightarrow> string \<Rightarrow> string \<Rightarrow> bool \<Rightarrow> Position \<Rightarrow> costWorkingState" where
  "inceptionState accountID tradeDate openingSource markInceptionAtPreClose position =
     (let s0 = newCostWorkingState accountID tradeDate (pSymbol position) (pExchange position) openingSource;
          s1 = s0\<lparr>cwQuantity := pQuantity position,
                  cwItem := (cwItem s0)\<lparr>pcOpenQuantity := pQuantity position, pcBrokerOpenQuantity := pQuantity position\<rparr>\<rparr>
      in if markInceptionAtPreClose then s1
         else let cost = trustedBrokerPositionCost position
              in flagMissingOpenCost position (s1\<lparr>cwCost := cost, cwItem := (cwItem s1)\<lparr>pcOpenTotalCost := cost\<rparr>\<rparr>))"

definition reanchoredState :: "string \<Rightarrow> string \<Rightarrow> string \<Rightarrow> Position \<Rightarrow> costWorkingState" where
  "reanchoredState accountID tradeDate openingSource position =
     (let s0 = newCostWorkingState accountID tradeDate (pSymbol position) (pExchange position) openingSource;
          cost = trustedBrokerPositionCost position
      in flagMissingOpenCost position (addFlags [''broker_open_cost_reanchor'']
           (s0\<lparr>cwQuantity := pQuantity position, cwCost := cost,
               cwItem := (cwItem s0)\<lparr>pcPreviousCloseQuantity := pQuantity position, pcBrokerOpenQuantity := pQuantity position,
                 pcOpenQuantity := pQuantity position, pcOpenTotalCost := cost\<rparr>\<rparr>)))"

definition carriedState :: "string \<Rightarrow> string \<Rightarrow> string \<Rightarrow> PositionCostState \<Rightarrow> costWorkingState" where
  "carriedState accountID tradeDate openingSource previous =
     (let s0 = newCostWorkingState accountID tradeDate (pcSymbol previous) (pcExchange previous) openingSource;
          s1 = s0\<lparr>cwQuantity := pcCloseQuantity previous, cwCost := pcCloseTotalCost previous,
                  cwItem := (cwItem s0)\<lparr>pcOpenQuantity := pcCloseQuantity previous, pcOpenTotalCost := pcCloseTotalCost previous\<rparr>\<rparr>
      in if pcStatus previous = ''blocked'' then setStatus ''blocked'' (addFlags [''previous_cost_state_blocked''] s1) else s1)"

definition unexplainedState :: "string \<Rightarrow> string \<Rightarrow> string \<Rightarrow> Position \<Rightarrow> costWorkingState" where
  "unexplainedState accountID tradeDate openingSource position =
     (let s0 = newCostWorkingState accountID tradeDate (pSymbol position) (pExchange position) openingSource;
          cost = trustedBrokerPositionCost position
      in addFlags [''opening_position_without_previous_cost'']
           (setStatus ''blocked''
             (s0\<lparr>cwQuantity := pQuantity position, cwCost := cost,
                 cwItem := (cwItem s0)\<lparr>pcBrokerOpenQuantity := pQuantity position, pcOpenQuantity := pQuantity position,
                   pcOpenTotalCost := cost\<rparr>\<rparr>)))"

definition positionCostStatesAreFlat :: "PositionCostState list \<Rightarrow> bool" where
  "positionCostStatesAreFlat states \<longleftrightarrow> states \<noteq> [] \<and>
     list_all (\<lambda>st. \<not> (pcStatus st = ''blocked'' \<or> pcQuantityResidual st \<noteq> 0 \<or> pcCloseQuantity st \<noteq> 0
                    \<or> fle (round64 (1 / 1000000)) (fabs (pcCloseTotalCost st)))) states"

definition meridianState :: "contributionInstrument \<Rightarrow> Position \<Rightarrow> costWorkingState \<Rightarrow> costWorkingState" where
  "meridianState instrument position state =
     (if pQuantity position \<le> 0 then state
      else if \<not> ciHasPreClose instrument \<or> fle (ciPreClose instrument) fzero
      then addFlags [''missing_meridian_pre_close_inception_cost''] (setStatus ''blocked'' state)
      else let cost = roundMoney (fmul (float_of_int (pQuantity position)) (ciPreClose instrument))
           in addFlags [''meridian_pre_close_inception_cost'']
                (state\<lparr>cwCost := cost,
                   cwItem := (cwItem state)\<lparr>pcOpenTotalCost := cost, pcOpeningSource := meridianPreCloseMarkToMarketCostSource\<rparr>\<rparr>))"

text \<open>Every security is treated on its own, so the order of the visit does not matter.\<close>

definition applyMeridianPreCloseInceptionCosts ::
    "(string \<times> costWorkingState) list \<Rightarrow> (string \<times> Position) list \<Rightarrow> (string \<times> contributionInstrument) list
       \<Rightarrow> (string \<times> costWorkingState) list" where
  "applyMeridianPreCloseInceptionCosts working openPositions instruments =
     map (\<lambda>(k, state). (k, case map_of openPositions k of
                              None \<Rightarrow> state
                            | Some position \<Rightarrow> meridianState (instrumentOf instruments k) position state)) working"

section \<open>Corporate actions\<close>

definition markCorporateActionCheckUnavailable :: "costWorkingState \<Rightarrow> costWorkingState" where
  "markCorporateActionCheckUnavailable state =
     (let s1 = addFlags [''corporate_action_check_unavailable''] state
      in if pcStatus (cwItem s1) = ''calculated'' then setStatus ''estimated'' s1 else s1)"

definition setAction :: "string \<Rightarrow> costWorkingState \<Rightarrow> costWorkingState" where
  "setAction action state = state\<lparr>cwItem := (cwItem state)\<lparr>pcCorporateActionType := action\<rparr>\<rparr>"

definition mismatchAction :: "string \<Rightarrow> costWorkingState \<Rightarrow> costWorkingState" where
  "mismatchAction flag state = setStatus ''blocked'' (setAction ''mismatch'' (addFlags [flag] state))"

definition factorExplains :: "int \<Rightarrow> int \<Rightarrow> float64 \<Rightarrow> bool" where
  "factorExplains previousCloseQuantity brokerOpenQuantity exFactor =
     (let expectedQuantity = fmul (float_of_int previousCloseQuantity) exFactor;
          tolerance = fmax (Fin 1) (fmul (fabs expectedQuantity) (round64 (1 / 1000000)))
      in \<not> flt tolerance (fabs (fsub (float_of_int brokerOpenQuantity) expectedQuantity)))"

definition applyCorporateActionOpening ::
    "int \<Rightarrow> corporateActionFactor option \<Rightarrow> bool \<Rightarrow> costWorkingState \<Rightarrow> costWorkingState" where
  "applyCorporateActionOpening brokerOpenQuantity factor factorsAvailable state =
     (let previousCloseQuantity = cwQuantity state;
          item1 = (cwItem state)\<lparr>pcPreviousCloseQuantity := previousCloseQuantity, pcBrokerOpenQuantity := brokerOpenQuantity,
                    pcCorporateActionQuantityDelta := wrap64 (brokerOpenQuantity - previousCloseQuantity)\<rparr>;
          item2 = (case factor of
                     None \<Rightarrow> item1
                   | Some f \<Rightarrow> item1\<lparr>pcCorporateActionFactor := caExFactor f, pcCorporateActionSource := caSource f,
                                    pcCorporateActionContext := caRaw f\<rparr>);
          s2 = state\<lparr>cwItem := item2\<rparr>
      in if previousCloseQuantity = 0 \<and> brokerOpenQuantity = 0
         then s2\<lparr>cwItem := item2\<lparr>pcCorporateActionFactor := fzero, pcCorporateActionSource := [], pcCorporateActionContext := None\<rparr>\<rparr>
         else if brokerOpenQuantity = previousCloseQuantity
         then let s3 = (if factor \<noteq> None then addFlags [''corporate_action_price_adjustment''] (setAction ''price_adjustment'' s2) else s2)
              in if \<not> factorsAvailable then markCorporateActionCheckUnavailable s3 else s3
         else if \<not> factorsAvailable
         then mismatchAction ''unexplained_open_quantity_change'' (markCorporateActionCheckUnavailable s2)
         else case factor of
                None \<Rightarrow> mismatchAction ''unexplained_open_quantity_change'' s2
              | Some f \<Rightarrow>
                  if \<not> factorExplains previousCloseQuantity brokerOpenQuantity (caExFactor f)
                  then mismatchAction ''corporate_action_mismatch'' s2
                  else addFlags [''corporate_action_quantity_adjusted'']
                         (setAction ''quantity_adjustment''
                           (s2\<lparr>cwQuantity := brokerOpenQuantity, cwItem := item2\<lparr>pcOpenQuantity := brokerOpenQuantity\<rparr>\<rparr>)))"

section \<open>The fills of the day\<close>

definition noteFee :: "contributionFee \<Rightarrow> costWorkingState \<Rightarrow> costWorkingState" where
  "noteFee fee state = addFlags (cfFlags fee)
     (state\<lparr>cwItem := (cwItem state)\<lparr>pcFeeSource := mergeContributionFeeSource (pcFeeSource (cwItem state)) (cfSource fee)\<rparr>\<rparr>)"

definition buyFill :: "Fill \<Rightarrow> float64 \<Rightarrow> costWorkingState \<Rightarrow> costWorkingState" where
  "buyFill fill effective state =
     (let item = cwItem state; amount = contributionFillAmount fill
      in state\<lparr>cwItem := item\<lparr>pcBuyQuantity := wrap64 (pcBuyQuantity item + fQty fill), pcBuyAmount := fadd (pcBuyAmount item) amount,
                 pcBuyFee := fadd (pcBuyFee item) effective\<rparr>,
               cwQuantity := wrap64 (cwQuantity state + fQty fill),
               cwCost := fadd (cwCost state) (fadd amount effective)\<rparr>)"

definition settledCost :: "Fill \<Rightarrow> costWorkingState \<Rightarrow> float64" where
  "settledCost fill state =
     fmul (if cwQuantity state > 0 then fdiv (cwCost state) (float_of_int (cwQuantity state)) else fzero) (float_of_int (fQty fill))"

definition sellFill :: "Fill \<Rightarrow> float64 \<Rightarrow> costWorkingState \<Rightarrow> costWorkingState" where
  "sellFill fill effective state =
     (let item = cwItem state; amount = contributionFillAmount fill;
          s1 = state\<lparr>cwItem := item\<lparr>pcSellQuantity := wrap64 (pcSellQuantity item + fQty fill),
                 pcSellAmount := fadd (pcSellAmount item) amount, pcSellFee := fadd (pcSellFee item) effective\<rparr>\<rparr>
      in if fQty fill > cwQuantity state
         then setStatus ''blocked'' (addFlags [''sell_quantity_exceeds_cost_position''] s1)
         else let settled = settledCost fill state; quantity = wrap64 (cwQuantity state - fQty fill); cost = fsub (cwCost state) settled
              in s1\<lparr>cwItem := (cwItem s1)\<lparr>pcRealizedPnL := fadd (pcRealizedPnL item) (fsub (fsub amount effective) settled)\<rparr>,
                    cwQuantity := quantity,
                    cwCost := (if quantity = 0 \<or> flt (fabs cost) (round64 (1 / 1000000)) then fzero else cost)\<rparr>)"

definition costFill :: "Fill \<Rightarrow> contributionFee \<Rightarrow> costWorkingState \<Rightarrow> costWorkingState" where
  "costFill fill fee state =
     (let s1 = noteFee fee state
      in if fTradeSide fill = TradeSideBuy then buyFill fill (cfEffective fee) s1
         else if fTradeSide fill = TradeSideSell then sellFill fill (cfEffective fee) s1
         else if fTradeSide fill = TradeSidePurchase \<or> fTradeSide fill = TradeSideRedemption
         then setStatus ''blocked'' (addFlags [''etf_subscription_redemption_requires_separate_cost_bucket''] s1)
         else s1)"

text \<open>The loop over the fills: those of a redemption group are left out, every other goes to the state of
  its security with its fee. A security without a state, which the code never meets, is skipped.\<close>

fun costFills ::
    "sprint \<Rightarrow> string set \<Rightarrow> (string \<times> contributionInstrument) list \<Rightarrow> FeeRule list \<Rightarrow> (string \<rightharpoonup> OrderFeeRecord) \<Rightarrow> string set
       \<Rightarrow> Fill list \<Rightarrow> (string \<times> costWorkingState) list \<Rightarrow> (string \<times> costWorkingState) list" where
  "costFills pr bucketFills instruments rules authoritativeFees consumed [] working = working"
| "costFills pr bucketFills instruments rules authoritativeFees consumed (fill # fills) working =
     (if contributionFillKey fill \<in> bucketFills
      then costFills pr bucketFills instruments rules authoritativeFees consumed fills working
      else let key = contributionSecurityID (fSymbol fill) (fExchange fill)
           in case contributionFeeForFill pr fill (instrumentOf instruments key) rules authoritativeFees consumed of
                (fee, consumed') \<Rightarrow>
                  costFills pr bucketFills instruments rules authoritativeFees consumed' fills
                    (case map_of working key of
                       None \<Rightarrow> working
                     | Some state \<Rightarrow> putKey key (costFill fill fee state) working))"

section \<open>Redemption groups\<close>

definition positiveQty :: "int \<Rightarrow> Fill \<Rightarrow> int" where
  "positiveQty quantity fill = (if fQty fill > 0 then wrap64 (quantity + fQty fill) else quantity)"

definition contributionOrderFilledQuantity :: "Fill list \<Rightarrow> int" where
  "contributionOrderFilledQuantity fills = foldl positiveQty 0 fills"

definition fillsOfOrder :: "Fill list \<Rightarrow> string \<Rightarrow> Fill list" where
  "fillsOfOrder fills i = filter (\<lambda>f. fGatewayOrderID f = i) fills"

definition redemptionBatch :: "sprint \<Rightarrow> Fill list \<Rightarrow> string \<Rightarrow> Fill list" where
  "redemptionBatch pr fills i = fillsOfOrder (filter (isRedemptionFill pr) fills) i"

definition redemptionOrderIDs :: "sprint \<Rightarrow> Fill list \<Rightarrow> string list" where
  "redemptionOrderIDs pr fills =
     order_by (\<lambda>i j. contributionFillTime (hd (redemptionBatch pr fills i)) < contributionFillTime (hd (redemptionBatch pr fills j)))
       (appendUnique [] (map fGatewayOrderID (filter (isRedemptionFill pr) fills)))"

definition isCandidate :: "Fill list \<Rightarrow> string set \<Rightarrow> string \<Rightarrow> string \<Rightarrow> gotime \<Rightarrow> Order \<Rightarrow> bool" where
  "isCandidate fills consumedOrders securityID explicitGroupID redemptionTime ord \<longleftrightarrow>
     \<not> (oGatewayOrderID ord \<in> consumedOrders \<or> contributionSecurityID (oSymbol ord) (oExchange ord) \<noteq> securityID)
     \<and> \<not> (oTradeSide ord \<noteq> TradeSideBuy \<or> isETFBusinessRedemption (oTradeSide ord) (oBusinessType ord))
     \<and> \<not> (explicitGroupID \<noteq> [] \<and> oT0OrderGroupID ord \<noteq> explicitGroupID)
     \<and> \<not> (explicitGroupID = [] \<and> (IsZero (contributionOrderTime ord) \<or> IsZero redemptionTime))
     \<and> \<not> contributionOrderTime ord > redemptionTime
     \<and> \<not> contributionOrderFilledQuantity (fillsOfOrder fills (oGatewayOrderID ord)) \<le> 0"

fun selectOrders :: "(Order \<Rightarrow> int) \<Rightarrow> int \<Rightarrow> int \<Rightarrow> Order list \<Rightarrow> Order list \<times> int" where
  "selectOrders qty target selectedQty [] = ([], selectedQty)"
| "selectOrders qty target selectedQty (ord # orders) =
     (if selectedQty \<ge> target then ([], selectedQty)
      else if qty ord \<le> 0 \<or> wrap64 (selectedQty + qty ord) > target then selectOrders qty target selectedQty orders
      else case selectOrders qty target (wrap64 (selectedQty + qty ord)) orders of (os, q) \<Rightarrow> (ord # os, q))"

definition orderLater :: "Order \<Rightarrow> Order \<Rightarrow> bool" where
  "orderLater a b \<longleftrightarrow> contributionOrderTime a > contributionOrderTime b"

definition sumQty :: "Fill list \<Rightarrow> int" where
  "sumQty fills = foldl (\<lambda>q f. wrap64 (q + fQty f)) 0 fills"

definition unitFlags :: "int \<Rightarrow> int \<Rightarrow> string list" where
  "unitFlags unit0 target =
     (if unit0 \<le> 0 then [''missing_meridian_etf_redemption_unit'']
      else if target \<le> 0 \<or> target mod unit0 \<noteq> 0 then [''redemption_quantity_not_pcf_unit_multiple''] else [])"

definition selectionFlags :: "bool \<Rightarrow> string \<Rightarrow> int \<Rightarrow> int \<Rightarrow> string list" where
  "selectionFlags unmatched explicitGroupID candidateQuantity target =
     (if unmatched then [''incomplete_t0_order_group'']
      else if explicitGroupID = []
      then ''historical_t0_order_group_inferred'' # (if candidateQuantity > target then [''ambiguous_t0_order_group''] else [])
      else [])"

definition typeFlags :: "contributionInstrument \<Rightarrow> string list" where
  "typeFlags instrument = (if isETFInstrument (ciInstrumentType instrument) then [] else [''redemption_instrument_type_unconfirmed''])"

text \<open>One redemption order: its group, with the orders consumed so far.\<close>

definition buildT0Group ::
    "sprint \<Rightarrow> Order list \<Rightarrow> Fill list \<Rightarrow> (string \<times> contributionInstrument) list \<Rightarrow> (string \<rightharpoonup> int) \<Rightarrow> string set \<Rightarrow> string
       \<Rightarrow> t0RedemptionGroup \<times> string set" where
  "buildT0Group pr orders fills instruments redemptionUnits consumedOrders redemptionOrderID =
     (let redemptions = redemptionBatch pr fills redemptionOrderID;
          redemption = hd redemptions;
          securityID = contributionSecurityID (fSymbol redemption) (fExchange redemption);
          unit = (case redemptionUnits securityID of None \<Rightarrow> 0 | Some u \<Rightarrow> u);
          redemptionOrder = (case ordersByID orders (fGatewayOrderID redemption) of None \<Rightarrow> Order0 | Some ord \<Rightarrow> ord);
          explicitGroupID = firstNonBlank [fT0OrderGroupID redemption, oT0OrderGroupID redemptionOrder];
          filledOf = (\<lambda>ord. contributionOrderFilledQuantity (fillsOfOrder fills (oGatewayOrderID ord)));
          found = filter (isCandidate fills consumedOrders securityID explicitGroupID (contributionFillTime redemption)) orders;
          candidateQuantity = foldl (\<lambda>q ord. wrap64 (q + filledOf ord)) 0 found;
          target0 = sumQty redemptions;
          target = (if target0 \<le> 0 then oOrderQty redemptionOrder else target0);
          (selected, selectedQty) = selectOrders filledOf target 0 (order_by orderLater found);
          unmatched = (selectedQty \<noteq> target \<or> target \<le> 0);
          members = (if unmatched then [] else selected)
      in (\<lparr>rgSecurityID = securityID, rgGroupID = firstNonBlank [explicitGroupID, fGatewayOrderID redemption],
           rgExplicit = (explicitGroupID \<noteq> []), rgInstrument = instrumentOf instruments securityID, rgOrders = members,
           rgBuyFills = concat (map (\<lambda>ord. fillsOfOrder fills (oGatewayOrderID ord)) members), rgRedemptions = redemptions,
           rgRedemptionUnit = unit, rgFlags = appendUnique (appendUnique (appendUnique [] (unitFlags unit target))
             (selectionFlags unmatched explicitGroupID candidateQuantity target)) (typeFlags (instrumentOf instruments securityID))\<rparr>,
          insert (fGatewayOrderID redemption) (consumedOrders \<union> set (map oGatewayOrderID members))))"

fun buildT0Loop ::
    "sprint \<Rightarrow> Order list \<Rightarrow> Fill list \<Rightarrow> (string \<times> contributionInstrument) list \<Rightarrow> (string \<rightharpoonup> int) \<Rightarrow> string set \<Rightarrow> string list
       \<Rightarrow> t0RedemptionGroup list \<times> string set" where
  "buildT0Loop pr orders fills instruments redemptionUnits consumedOrders [] = ([], consumedOrders)"
| "buildT0Loop pr orders fills instruments redemptionUnits consumedOrders (i # ids) =
     (case buildT0Group pr orders fills instruments redemptionUnits consumedOrders i of
        (g, consumed1) \<Rightarrow>
          (case buildT0Loop pr orders fills instruments redemptionUnits consumed1 ids of (gs, consumed2) \<Rightarrow> (g # gs, consumed2)))"

text \<open>The groups, with the consumed orders and fills.\<close>

definition buildT0Groups ::
    "sprint \<Rightarrow> Order list \<Rightarrow> Fill list \<Rightarrow> (string \<times> contributionInstrument) list \<Rightarrow> (string \<rightharpoonup> int)
       \<Rightarrow> t0RedemptionGroup list \<times> string set \<times> string set" where
  "buildT0Groups pr orders fills instruments redemptionUnits =
     (case buildT0Loop pr orders fills instruments redemptionUnits {} (redemptionOrderIDs pr fills) of
        (groups, consumedOrders) \<Rightarrow>
          (groups, consumedOrders,
           \<Union> (set (map (\<lambda>g. set (map contributionFillKey (rgBuyFills g @ rgRedemptions g))) groups))))"

section \<open>Cost buckets of redemption groups\<close>

definition bucketGroupID :: "nat \<Rightarrow> t0RedemptionGroup \<Rightarrow> string" where
  "bucketGroupID index group0 =
     (if TrimSpace (rgGroupID group0) = []
      then ''unidentified-'' @ map (\<lambda>c. if c = CHR ''.'' then CHR ''-'' else c) (rgSecurityID group0) @ ''-'' @ Utoa (index + 1)
      else TrimSpace (rgGroupID group0))"

definition bucketComplete :: "t0RedemptionGroup \<Rightarrow> PositionCostState \<Rightarrow> string list \<Rightarrow> bool" where
  "bucketComplete group0 item flags \<longleftrightarrow>
     pcBuyQuantity item > 0 \<and> pcBuyQuantity item = pcSellQuantity item \<and> rgRedemptionUnit group0 > 0
     \<and> pcSellQuantity item mod rgRedemptionUnit group0 = 0
     \<and> \<not> hasAnyQualityFlag flags [''incomplete_t0_order_group'', ''redemption_quantity_not_pcf_unit_multiple'',
            ''missing_meridian_etf_redemption_unit'', ''redemption_instrument_type_unconfirmed'']"

definition costBucket :: "string \<Rightarrow> string \<Rightarrow> nat \<Rightarrow> t0RedemptionGroup \<Rightarrow> costWorkingState" where
  "costBucket accountID tradeDate index group0 =
     (case splitContributionSecurityID (rgSecurityID group0) of
        (symbol, exchange) \<Rightarrow>
          let s0 = newCostWorkingState accountID tradeDate symbol exchange
                     (if rgExplicit group0 then ''explicit_t0_order_group'' else ''historical_t0_order_group_inferred'');
              flags = appendUnique [] (rgFlags group0);
              item = (cwItem s0)\<lparr>pcCostBucket := ''ETF_T0:'' @ bucketGroupID index group0, pcFeeSource := ''included_in_etf_t0_friction'',
                       pcBuyQuantity := sumQty (rgBuyFills group0),
                       pcBuyAmount := roundMoney (foldl (\<lambda>a f. fadd a (contributionFillAmount f)) fzero (rgBuyFills group0)),
                       pcSellQuantity := sumQty (rgRedemptions group0)\<rparr>
          in if bucketComplete group0 item flags
             then let flags1 = appendUnique flags [''etf_t0_cost_separated'', ''etf_t0_redemption_cost_released'']
                  in s0\<lparr>cwFlags := flags1,
                        cwItem := item\<lparr>pcCloseQuantity := 0, pcCloseTotalCost := fzero, pcAverageCost := fzero,
                          pcStatus := (if containsStringValue flags1 ''ambiguous_t0_order_group'' then ''blocked''
                                       else if rgExplicit group0 then ''calculated'' else ''estimated''),
                          pcQualityFlags := flags1\<rparr>\<rparr>
             else let quantity = max 0 (wrap64 (pcBuyQuantity item - pcSellQuantity item)); cost = pcBuyAmount item;
                      flags1 = appendUnique flags [''etf_t0_cost_bucket_incomplete'']
                  in s0\<lparr>cwFlags := flags1, cwQuantity := quantity, cwCost := cost,
                        cwItem := item\<lparr>pcCloseQuantity := quantity, pcCloseTotalCost := cost,
                          pcAverageCost := (if quantity > 0 then roundMoney (fdiv cost (float_of_int quantity)) else pcAverageCost item),
                          pcStatus := ''blocked'', pcQualityFlags := flags1\<rparr>\<rparr>)"

fun costBuckets :: "string \<Rightarrow> string \<Rightarrow> nat \<Rightarrow> t0RedemptionGroup list \<Rightarrow> costWorkingState list" where
  "costBuckets accountID tradeDate index [] = []"
| "costBuckets accountID tradeDate index (g # gs) =
     costBucket accountID tradeDate index g # costBuckets accountID tradeDate (Suc index) gs"

definition buildT0CostBuckets :: "string \<Rightarrow> string \<Rightarrow> t0RedemptionGroup list \<Rightarrow> costWorkingState list \<times> string set" where
  "buildT0CostBuckets accountID tradeDate groups =
     (costBuckets accountID tradeDate 0 groups,
      \<Union> (set (map (\<lambda>g. set (map contributionFillKey (rgBuyFills g @ rgRedemptions g))) groups)))"

definition isT0CostBucket :: "string \<Rightarrow> bool" where
  "isT0CostBucket v = prefix ''ETF_T0:'' (TrimSpace v)"

section \<open>Closing\<close>

definition closeState :: "int \<Rightarrow> contributionInstrument \<Rightarrow> gotime \<Rightarrow> costWorkingState \<Rightarrow> PositionCostState" where
  "closeState brokerClose instrument calculatedAt state =
     (let cost = roundMoney (fmax fzero (cwCost state));
          item0 = cwItem state;
          s1 = state\<lparr>cwItem := item0\<lparr>pcCloseQuantity := cwQuantity state, pcCloseTotalCost := cost,
                 pcAverageCost := (if cwQuantity state > 0 then roundMoney (fdiv cost (float_of_int (cwQuantity state))) else pcAverageCost item0),
                 pcBrokerCloseQuantity := brokerClose, pcQuantityResidual := wrap64 (brokerClose - cwQuantity state)\<rparr>\<rparr>;
          s2 = (if wrap64 (brokerClose - cwQuantity state) \<noteq> 0
                then setStatus ''blocked'' (addFlags [''position_quantity_not_reconciled''] s1) else s1);
          marketValue = roundMoney (fmul (ciClose instrument) (float_of_int brokerClose));
          s3 = (if ciHasClose instrument
                then s2\<lparr>cwItem := (cwItem s2)\<lparr>pcClosePrice := ciClose instrument, pcCloseMarketValue := marketValue,
                       pcUnrealizedPnL := roundMoney (fsub marketValue cost)\<rparr>\<rparr>
                else if brokerClose > 0 then setStatus ''blocked'' (addFlags [''missing_meridian_close''] s2) else s2);
          s4 = (if containsStringValue (cwFlags s3) ''missing_fee_rule'' \<and> pcStatus (cwItem s3) = ''calculated''
                then setStatus ''estimated'' s3 else s3);
          item = cwItem s4
      in item\<lparr>pcBuyAmount := roundMoney (pcBuyAmount item), pcBuyFee := roundMoney (pcBuyFee item),
              pcSellAmount := roundMoney (pcSellAmount item), pcSellFee := roundMoney (pcSellFee item),
              pcRealizedPnL := roundMoney (pcRealizedPnL item), pcQualityFlags := cwFlags s4, pcCalculatedAt := calculatedAt\<rparr>)"

definition Summary0 :: CostLedgerSummary where
  "Summary0 =
     \<lparr>csSecurities = 0, csCalculatedItems = 0, csEstimatedItems = 0, csBlockedItems = 0, csQuantityBreaks = 0, csCorporateActions = 0,
      csQuantityAdjustments = 0, csCorporateActionBreaks = 0, csT0CostBuckets = 0, csT0BlockedBuckets = 0, csT0BuyQuantity = 0,
      csT0RedemptionQuantity = 0, csT0BuyAmount = fzero, csMissingFeeItems = 0, csOpenQuantity = 0, csOpenTotalCost = fzero,
      csBuyQuantity = 0, csBuyAmount = fzero, csBuyFee = fzero, csSellQuantity = 0, csSellAmount = fzero, csSellFee = fzero,
      csRealizedPnL = fzero, csCloseQuantity = 0, csCloseTotalCost = fzero, csCloseMarketValue = fzero, csUnrealizedPnL = fzero,
      csAttributionResidual = fzero\<rparr>"

text \<open>A counter of items: a slice cannot have so many that a 64 bit counter overflows.\<close>

definition count0 :: "bool \<Rightarrow> int \<Rightarrow> int" where
  "count0 b n = (if b then n + 1 else n)"

definition summaryItem :: "CostLedgerSummary \<Rightarrow> PositionCostState \<Rightarrow> CostLedgerSummary" where
  "summaryItem m item =
     m\<lparr>csOpenQuantity := wrap64 (csOpenQuantity m + pcOpenQuantity item),
       csOpenTotalCost := fadd (csOpenTotalCost m) (pcOpenTotalCost item),
       csBuyQuantity := wrap64 (csBuyQuantity m + pcBuyQuantity item),
       csBuyAmount := fadd (csBuyAmount m) (pcBuyAmount item), csBuyFee := fadd (csBuyFee m) (pcBuyFee item),
       csSellQuantity := wrap64 (csSellQuantity m + pcSellQuantity item),
       csSellAmount := fadd (csSellAmount m) (pcSellAmount item), csSellFee := fadd (csSellFee m) (pcSellFee item),
       csRealizedPnL := fadd (csRealizedPnL m) (pcRealizedPnL item),
       csCloseQuantity := wrap64 (csCloseQuantity m + pcCloseQuantity item),
       csCloseTotalCost := fadd (csCloseTotalCost m) (pcCloseTotalCost item),
       csCloseMarketValue := fadd (csCloseMarketValue m) (pcCloseMarketValue item),
       csUnrealizedPnL := fadd (csUnrealizedPnL m) (pcUnrealizedPnL item),
       csQuantityBreaks := count0 (pcQuantityResidual item \<noteq> 0) (csQuantityBreaks m),
       csT0CostBuckets := count0 (isT0CostBucket (pcCostBucket item)) (csT0CostBuckets m),
       csT0BuyQuantity := (if isT0CostBucket (pcCostBucket item) then wrap64 (csT0BuyQuantity m + pcBuyQuantity item) else csT0BuyQuantity m),
       csT0RedemptionQuantity := (if isT0CostBucket (pcCostBucket item) then wrap64 (csT0RedemptionQuantity m + pcSellQuantity item)
                                  else csT0RedemptionQuantity m),
       csT0BuyAmount := (if isT0CostBucket (pcCostBucket item) then fadd (csT0BuyAmount m) (pcBuyAmount item) else csT0BuyAmount m),
       csT0BlockedBuckets := count0 (isT0CostBucket (pcCostBucket item) \<and> pcStatus item = ''blocked'') (csT0BlockedBuckets m),
       csCorporateActions := count0 (pcCorporateActionType item \<in> {''price_adjustment'', ''quantity_adjustment''}) (csCorporateActions m),
       csQuantityAdjustments := count0 (pcCorporateActionType item = ''quantity_adjustment'') (csQuantityAdjustments m),
       csCorporateActionBreaks := count0 (pcCorporateActionType item = ''mismatch'') (csCorporateActionBreaks m),
       csMissingFeeItems := count0 (containsStringValue (pcQualityFlags item) ''missing_fee_rule'') (csMissingFeeItems m),
       csBlockedItems := count0 (pcStatus item = ''blocked'') (csBlockedItems m),
       csEstimatedItems := count0 (pcStatus item = ''estimated'') (csEstimatedItems m),
       csCalculatedItems := count0 (pcStatus item \<noteq> ''blocked'' \<and> pcStatus item \<noteq> ''estimated'') (csCalculatedItems m)\<rparr>"

definition roundSummary :: "CostLedgerSummary \<Rightarrow> CostLedgerSummary" where
  "roundSummary m =
     m\<lparr>csOpenTotalCost := roundMoney (csOpenTotalCost m), csBuyAmount := roundMoney (csBuyAmount m), csBuyFee := roundMoney (csBuyFee m),
       csSellAmount := roundMoney (csSellAmount m), csSellFee := roundMoney (csSellFee m), csRealizedPnL := roundMoney (csRealizedPnL m),
       csCloseTotalCost := roundMoney (csCloseTotalCost m), csCloseMarketValue := roundMoney (csCloseMarketValue m),
       csUnrealizedPnL := roundMoney (csUnrealizedPnL m), csT0BuyAmount := roundMoney (csT0BuyAmount m)\<rparr>"

definition finalizeCostLedgerResult :: "CostLedgerResult \<Rightarrow> CostLedgerResult" where
  "finalizeCostLedgerResult result =
     (let positions = crPositions result;
          m = roundSummary ((foldl summaryItem (crSummary result) positions)\<lparr>csSecurities := int (length positions)\<rparr>);
          flags = foldl (\<lambda>fs item. appendUnique fs (pcQualityFlags item)) (crQualityFlags result) positions
      in result\<lparr>crSummary := m, crQualityFlags := flags,
                crStatus := (if csBlockedItems m > 0 \<or> csQuantityBreaks m > 0 then ''blocked''
                             else if csEstimatedItems m > 0 \<or> csMissingFeeItems m > 0 then ''estimated''
                             else crStatus result)\<rparr>)"

end
