(* ===== verification/Cost_Ledger.thy ===== *)
theory Cost_Ledger
  imports Cost_State Go_Time
begin

text \<open>
  The cost ledger of a day (\<^verbatim>\<open>CalculateCostLedger\<close> of \<^verbatim>\<open>internal/performance/cost_ledger.go\<close>) with what it
  reads (\<^verbatim>\<open>contributions.go\<close>, \<^verbatim>\<open>corporate_actions.go\<close>, \<^verbatim>\<open>service.go\<close>): the paged lists of the store, the
  positions taken over from a neighbouring day, and the answers of the market service. The store,
  the trading calendar and the market service are interfaces of the source and parameters here;
  they act on a state of their own.
\<close>

section \<open>The service\<close>

record TradingDayStatus =
  tdDate :: string
  tdIsTradingDay :: bool
  tdIsTradingDayKnown :: bool
  tdPreviousOrCurrentTradingDate :: string

record MeridianResponse =
  mrStatusCode :: int
  mrPayload :: ctxmap

type_synonym url_values = "(string \<times> string) list"

record 's ContributionMarket =
  cmMetadataInstruments :: "url_values \<Rightarrow> ('s, MeridianResponse) act"
  cmMetadataAdjustFactors :: "url_values \<Rightarrow> ('s, MeridianResponse) act"
  cmMarketBars :: "url_values \<Rightarrow> ('s, MeridianResponse) act"
  cmMarketSnapshots :: "url_values \<Rightarrow> ('s, MeridianResponse) act"
  cmMarketETFCashComponents :: "url_values \<Rightarrow> ('s, MeridianResponse) act"

record OrderFeeRecordQuery =
  rqAccountID :: string
  rqTradeDate :: string
  rqLimit :: int
  rqCursor :: string

record 's PerformanceService =
  svListOrders :: "OrderQuery \<Rightarrow> ('s, Order list) act"
  svListFills :: "FillQuery \<Rightarrow> ('s, Fill list) act"
  svListOrderFeeRecords :: "OrderFeeRecordQuery \<Rightarrow> ('s, OrderFeeRecord list) act"
  svListPositionSnapshots :: "PositionQuery \<Rightarrow> ('s, Position list) act"
  svListComponentTransfers :: "(ComponentTransferQuery \<Rightarrow> ('s, ComponentTransfer list) act) option"
  svGetAssetPositionObservation :: "string \<Rightarrow> string \<Rightarrow> string \<Rightarrow> ('s, unit) act"
  svListFeeRules :: "string \<Rightarrow> string \<Rightarrow> string \<Rightarrow> int \<Rightarrow> ('s, FeeRule list) act"
  svGetPerformanceInception :: "string \<Rightarrow> ('s, PerformanceInception) act"
  svListPositionCostStates :: "string \<Rightarrow> string \<Rightarrow> string \<Rightarrow> ('s, PositionCostState list) act"
  svUpsertPositionCostState :: "PositionCostState \<Rightarrow> ('s, PositionCostState) act"
  svCalendar :: "(string \<Rightarrow> ('s, TradingDayStatus) act) option"
  svMarket :: "'s ContributionMarket option"
  svNow :: "'s \<Rightarrow> gotime \<times> 's"

text \<open>The environment of a calculation: what \<^verbatim>\<open>fmt.Sprint\<close> and \<^verbatim>\<open>strconv.ParseFloat\<close> make of a value,
  and the order in which Go visits the groups of component transfers and the keys of a map.\<close>

record perf_env =
  pePrint :: sprint
  peParseFloat :: "string \<Rightarrow> float64 option"
  peVisitGroups :: "nat \<Rightarrow> componentTransferGroup list \<Rightarrow> componentTransferGroup list"
  peVisitKeys :: "nat \<Rightarrow> string list \<Rightarrow> string list"

definition sqlErrNoRows :: error where "sqlErrNoRows = ErrText ''sql: no rows in result set''"

section \<open>Dates\<close>

definition parseTradeDate :: "string \<Rightarrow> error + (string \<times> gotime)" where
  "parseTradeDate value0 =
     (let value = TrimSpace value0
      in case (case parseDate10 value of Some c \<Rightarrow> Some c | None \<Rightarrow> parseDate8 value) of
           None \<Rightarrow> Inl (ErrText ''invalid trade_date'')
         | Some c \<Rightarrow> Inr (formatDate c, dateInstant c))"

text \<open>\<^verbatim>\<open>t.AddDate(0, 0, n).Format\<close> in the business zone, which has no daylight saving.\<close>

definition compactDate :: "gotime \<Rightarrow> string" where
  "compactDate t = filter (\<lambda>c. c \<noteq> CHR ''-'') (formatBusinessDate t)"

definition AddDays :: "gotime \<Rightarrow> int \<Rightarrow> gotime" where
  "AddDays t n = t + n * day_length"

fun nextTradingDayFrom :: "(string \<Rightarrow> ('s, TradingDayStatus) act) \<Rightarrow> gotime \<Rightarrow> int \<Rightarrow> nat \<Rightarrow> ('s, gotime) act" where
  "nextTradingDayFrom calendar after0 day 0 s = (Inl (ErrText (''no trading day found after '' @ formatBusinessDate after0)), s)"
| "nextTradingDayFrom calendar after0 day (Suc n) s =
     seq (calendar (compactDate (AddDays after0 day)))
       (\<lambda>status s'. if tdIsTradingDayKnown status \<and> tdIsTradingDay status then (Inr (AddDays after0 day), s')
                    else nextTradingDayFrom calendar after0 (day + 1) n s') s"

definition nextTradingDay :: "(string \<Rightarrow> ('s, TradingDayStatus) act) \<Rightarrow> gotime \<Rightarrow> ('s, gotime) act" where
  "nextTradingDay calendar after0 = nextTradingDayFrom calendar after0 1 20"

section \<open>Paged lists\<close>

text \<open>The loop the lists share: pages of \<open>limit\<close> rows until a page is short, an error when the last page
  allowed is full.\<close>

fun scanPages :: "(string \<Rightarrow> ('s, 'r list) act) \<Rightarrow> nat \<Rightarrow> error \<Rightarrow> nat \<Rightarrow> nat \<Rightarrow> 'r list \<Rightarrow> ('s, 'r list) act" where
  "scanPages list0 limit exceeded page 0 items s = (Inl exceeded, s)"
| "scanPages list0 limit exceeded page (Suc n) items s =
     seq (list0 (Utoa (page * limit)))
       (\<lambda>batch s'. if length batch < limit then (Inr (items @ batch), s')
                   else scanPages list0 limit exceeded (Suc page) n (items @ batch) s') s"

definition listContributionOrders :: "'s PerformanceService \<Rightarrow> string \<Rightarrow> string \<Rightarrow> ('s, Order list) act" where
  "listContributionOrders sv accountID tradeDate =
     scanPages (\<lambda>cursor. svListOrders sv
       \<lparr>qAccountID = accountID, qGatewayOrderID = [], qClientOrderID = [], qOriginMessageID = [], qSymbol = [], qExchange = [],
        qStatus = [], qTradeDate = tradeDate, qDateFrom = [], qDateTo = [], qHistory = True, qStrategyType = [], qStrategyID = [],
        qBasketID = [], qParentOrderID = [], qT0OrderGroupID = [], qLimit = 500, qCursor = cursor\<rparr>)
       500 (ErrText ''contribution orders exceed 20000 rows'') 0 40 []"

definition listContributionPositions :: "'s PerformanceService \<Rightarrow> string \<Rightarrow> string \<Rightarrow> string \<Rightarrow> ('s, Position list) act" where
  "listContributionPositions sv accountID tradeDate snapshotType =
     scanPages (\<lambda>cursor. svListPositionSnapshots sv
       \<lparr>pqAccountID = accountID, pqSymbol = [], pqExchange = [], pqTradeDate = tradeDate, pqDateFrom = [], pqDateTo = [],
        pqSnapshotType = snapshotType, pqHistory = True, pqLimit = 500, pqCursor = cursor\<rparr>)
       500 (ErrText (snapshotType @ '' contribution positions exceed 20000 rows'')) 0 40 []"

definition listTradeDateFills :: "'s PerformanceService \<Rightarrow> string \<Rightarrow> string \<Rightarrow> ('s, Fill list) act" where
  "listTradeDateFills sv accountID tradeDate =
     scanPages (\<lambda>cursor. svListFills sv
       \<lparr>fqAccountID = accountID, fqGatewayOrderID = [], fqSymbol = [], fqExchange = [], fqTradeDate = tradeDate, fqDateFrom = [],
        fqDateTo = [], fqHistory = True, fqStrategyType = [], fqStrategyID = [], fqBasketID = [], fqParentOrderID = [],
        fqT0OrderGroupID = [], fqLimit = 500, fqCursor = cursor\<rparr>)
       500 (ErrText ''reverse repo fill scan exceeded 20000 rows'') 0 40 []"

definition listOrderFeeRecords :: "'s PerformanceService \<Rightarrow> string \<Rightarrow> string \<Rightarrow> ('s, OrderFeeRecord list) act" where
  "listOrderFeeRecords sv accountID tradeDate =
     scanPages (\<lambda>cursor. svListOrderFeeRecords sv \<lparr>rqAccountID = accountID, rqTradeDate = tradeDate, rqLimit = 5000, rqCursor = cursor\<rparr>)
       5000 (ErrText ''order fee scan exceeded 20000 rows'') 0 4 []"

definition listContributionComponentTransfers :: "'s PerformanceService \<Rightarrow> string \<Rightarrow> string \<Rightarrow> ('s, ComponentTransfer list) act" where
  "listContributionComponentTransfers sv accountID tradeDate =
     (case svListComponentTransfers sv of
        None \<Rightarrow> ret []
      | Some list0 \<Rightarrow>
          scanPages (\<lambda>cursor. list0
            \<lparr>tqAccountID = accountID, tqGatewayOrderID = [], tqSymbol = [], tqExchange = [], tqTradeDate = tradeDate, tqDateFrom = [],
             tqDateTo = [], tqHistory = True, tqBasketID = [], tqLimit = 500, tqCursor = cursor\<rparr>)
            500 (ErrText ''contribution component transfers exceed 20000 rows'') 0 40 [])"

section \<open>Positions of neighbouring days\<close>

definition securityOf :: "Position \<Rightarrow> string" where
  "securityOf position = contributionSecurityID (pSymbol position) (pExchange position)"

fun supplementLoop :: "string \<Rightarrow> string set \<Rightarrow> Position list \<Rightarrow> Position list" where
  "supplementLoop tradeDate existing [] = []"
| "supplementLoop tradeDate existing (position # positions) =
     (if securityOf position \<in> existing \<or> pQuantity position \<le> 0 then supplementLoop tradeDate existing positions
      else position\<lparr>pTradeDate := tradeDate, pSnapshotType := ''next_open_close_fallback''\<rparr>
             # supplementLoop tradeDate (insert (securityOf position) existing) positions)"

definition supplementClosePositionsFromNextOpen ::
    "'s PerformanceService \<Rightarrow> string \<Rightarrow> string \<Rightarrow> Position list \<Rightarrow> ('s, Position list \<times> string list) act" where
  "supplementClosePositionsFromNextOpen sv accountID tradeDate closePositions =
     (case svCalendar sv of
        None \<Rightarrow> ret (closePositions, [])
      | Some calendar \<Rightarrow>
          (case parseTradeDate tradeDate of
             Inl _ \<Rightarrow> ret (closePositions, [])
           | Inr (_, parsedDate) \<Rightarrow>
               attempt (nextTradingDay calendar parsedDate) (\<lambda>r.
                 case r of
                   Inl _ \<Rightarrow> ret (closePositions, [])
                 | Inr nextDate \<Rightarrow>
                     attempt (listContributionPositions sv accountID (formatBusinessDate nextDate) ''open'') (\<lambda>r.
                       case r of
                         Inl _ \<Rightarrow> ret (closePositions, [])
                       | Inr nextOpen \<Rightarrow>
                           let added = supplementLoop tradeDate (set (map securityOf closePositions)) nextOpen
                           in if added = [] then ret (closePositions, [])
                              else ret (closePositions @ added, [''close_position_supplemented_from_next_open''])))))"

definition previousTradingDate :: "'s PerformanceService \<Rightarrow> string \<Rightarrow> ('s, string option) act" where
  "previousTradingDate sv tradeDate =
     (case svCalendar sv of
        None \<Rightarrow> ret None
      | Some calendar \<Rightarrow>
          (case parseTradeDate tradeDate of
             Inl _ \<Rightarrow> ret None
           | Inr (_, parsed) \<Rightarrow>
               attempt (calendar (compactDate (AddDays parsed (- 1)))) (\<lambda>r.
                 case r of
                   Inl _ \<Rightarrow> ret None
                 | Inr status \<Rightarrow>
                     if TrimSpace (tdPreviousOrCurrentTradingDate status) = [] then ret None
                     else case parseTradeDate (tdPreviousOrCurrentTradingDate status) of
                            Inl _ \<Rightarrow> ret None
                          | Inr (d, _) \<Rightarrow> ret (Some d))))"

definition previousClosePositionFallback ::
    "'s PerformanceService \<Rightarrow> string \<Rightarrow> string \<Rightarrow> ('s, Position list \<times> string list) act" where
  "previousClosePositionFallback sv accountID tradeDate =
     seq (previousTradingDate sv tradeDate) (\<lambda>previous.
       case previous of
         None \<Rightarrow> ret ([], [])
       | Some previousDate \<Rightarrow>
           if previousDate = tradeDate then ret ([], [])
           else attempt (listContributionPositions sv accountID previousDate ''close'') (\<lambda>r.
                  case r of
                    Inl _ \<Rightarrow> ret ([], [])
                  | Inr positions \<Rightarrow>
                      if positions = [] then ret ([], [])
                      else ret (map (\<lambda>p. p\<lparr>pSnapshotType := ''previous_close_fallback''\<rparr>) positions,
                                [''open_positions_from_previous_close''])))"

definition previousCostStateGap :: "'s PerformanceService \<Rightarrow> string \<Rightarrow> PositionCostState list \<Rightarrow> ('s, bool) act" where
  "previousCostStateGap sv tradeDate previous =
     (case previous of
        [] \<Rightarrow> ret False
      | first # _ \<Rightarrow>
          seq (previousTradingDate sv tradeDate) (\<lambda>expected.
            case expected of
              None \<Rightarrow> ret False
            | Some expectedDate \<Rightarrow>
                (case parseTradeDate (pcTradeDate first) of
                   Inl _ \<Rightarrow> ret True
                 | Inr (previousDate, _) \<Rightarrow> ret (previousDate \<noteq> expectedDate))))"

section \<open>Answers of the market service\<close>

type_synonym row = "(string \<times> any) list"

definition firstOf :: "string list \<Rightarrow> row \<Rightarrow> any option" where
  "firstOf keys m = (case filter (\<lambda>k. map_of m k \<noteq> None) keys of [] \<Rightarrow> None | k # _ \<Rightarrow> map_of m k)"

lemma firstOf_mem: "firstOf keys m = Some v \<Longrightarrow> v \<in> snd ` set m"
  by (force simp: firstOf_def split: list.splits dest: map_of_SomeD)

lemma size_row_member: "v \<in> snd ` set m \<Longrightarrow> size v < size_list (size_prod (\<lambda>_. 0) size) m"
  by (induction m) force+

fun objectRows :: "any list \<Rightarrow> row list" where
  "objectRows [] = []"
| "objectRows (AnyObj m # vs) = m # objectRows vs"
| "objectRows (_ # vs) = objectRows vs"

function rowsOf :: "any \<Rightarrow> row list" where
  "rowsOf (AnyList vs) = objectRows vs"
| "rowsOf (AnyObj m) = (case firstOf [''items'', ''rows'', ''data''] m of None \<Rightarrow> [m] | Some nested \<Rightarrow> rowsOf nested)"
| "rowsOf AnyNil = []"
| "rowsOf (AnyBool b) = []"
| "rowsOf (AnyInt n) = []"
| "rowsOf (AnyFloat q) = []"
| "rowsOf (AnyStr t) = []"
  by pat_completeness auto
termination
  by (relation "measure size") (auto dest!: firstOf_mem size_row_member)

definition contributionRows :: "ctxmap \<Rightarrow> row list" where
  "contributionRows payload = (case ctx_lookup payload ''data'' of None \<Rightarrow> [] | Some raw \<Rightarrow> rowsOf raw)"

fun contributionFloat :: "perf_env \<Rightarrow> any option \<Rightarrow> float64 option" where
  "contributionFloat env (Some (AnyFloat q)) = Some (Fin q)"
| "contributionFloat env (Some (AnyInt n)) = Some (float_of_int n)"
| "contributionFloat env (Some (AnyStr t)) = peParseFloat env (TrimSpace t)"
| "contributionFloat env _ = None"

fun firstContributionString :: "perf_env \<Rightarrow> row \<Rightarrow> string list \<Rightarrow> string" where
  "firstContributionString env r [] = []"
| "firstContributionString env r (k # ks) =
     (if contributionString (pePrint env) (map_of r k) \<noteq> [] then contributionString (pePrint env) (map_of r k)
      else firstContributionString env r ks)"

text \<open>\<^verbatim>\<open>int64(f)\<close>: outside the range of the type the result is the one of the amd64 instruction.\<close>

fun int64_of_float :: "float64 \<Rightarrow> int" where
  "int64_of_float (Fin a) =
     (let n = (if 0 \<le> a then floor a else - floor (- a)) in if is_int64 n then n else - (2 ^ 63))"
| "int64_of_float _ = - (2 ^ 63)"

definition pad8 :: "int \<Rightarrow> string" where
  "pad8 n = (if n < 0 then ''-'' @ replicate (7 - length (Utoa (nat (- n)))) (CHR ''0'') @ Utoa (nat (- n))
             else replicate (8 - length (Utoa (nat n))) (CHR ''0'') @ Utoa (nat n))"

definition dateOrEmpty :: "string \<Rightarrow> string option" where
  "dateOrEmpty v = (case parseTradeDate v of Inl _ \<Rightarrow> None | Inr (d, _) \<Rightarrow> Some d)"

definition corporateActionDate :: "perf_env \<Rightarrow> any option \<Rightarrow> string" where
  "corporateActionDate env v =
     (case (case contributionFloat env v of
              None \<Rightarrow> None
            | Some number \<Rightarrow> if flt fzero number then dateOrEmpty (pad8 (int64_of_float (fround number))) else None) of
        Some d \<Rightarrow> d
      | None \<Rightarrow> (case dateOrEmpty (contributionString (pePrint env) v) of None \<Rightarrow> [] | Some d \<Rightarrow> d))"

definition positiveFloat :: "perf_env \<Rightarrow> any option \<Rightarrow> float64 option" where
  "positiveFloat env v = (case contributionFloat env v of Some x \<Rightarrow> if flt fzero x then Some x else None | None \<Rightarrow> None)"

definition undashed :: "string \<Rightarrow> string" where
  "undashed d = filter (\<lambda>c. c \<noteq> CHR ''-'') d"

fun batches :: "nat \<Rightarrow> 'a list \<Rightarrow> 'a list list" where
  "batches n [] = []"
| "batches n (x # xs) = take (Suc n) (x # xs) # batches n (drop n xs)"

text \<open>An answer that counts: no error of the call, a status below 400.\<close>

definition answered :: "error + MeridianResponse \<Rightarrow> ctxmap option" where
  "answered r = (case r of Inl _ \<Rightarrow> None | Inr m \<Rightarrow> if mrStatusCode m \<ge> 400 then None else Some (mrPayload m))"

definition answeredWithoutError :: "error + MeridianResponse \<Rightarrow> ctxmap option" where
  "answeredWithoutError r =
     (case answered r of
        None \<Rightarrow> None
      | Some payload \<Rightarrow> (case ctx_lookup payload ''error'' of None \<Rightarrow> Some payload | Some AnyNil \<Rightarrow> Some payload | Some _ \<Rightarrow> None))"

definition rowSecurity :: "perf_env \<Rightarrow> row \<Rightarrow> string" where
  "rowSecurity env r = ToUpper (contributionString (pePrint env) (map_of r ''security_id''))"

subsection \<open>Instruments\<close>

type_synonym instruments = "(string \<times> contributionInstrument) list"

definition noteMetadata :: "perf_env \<Rightarrow> instruments \<Rightarrow> row \<Rightarrow> instruments" where
  "noteMetadata env items r =
     (case map_of items (rowSecurity env r) of
        None \<Rightarrow> items
      | Some i \<Rightarrow> putKey (rowSecurity env r)
          (i\<lparr>ciName := firstContributionString env r [''name'', ''security_name'', ''short_name''],
             ciInstrumentType := ToLower (firstContributionString env r [''instrument_type'', ''security_type''])\<rparr>) items)"

definition noteBar :: "perf_env \<Rightarrow> instruments \<Rightarrow> row \<Rightarrow> instruments" where
  "noteBar env items r =
     (case map_of items (rowSecurity env r) of
        None \<Rightarrow> items
      | Some i \<Rightarrow>
          let i1 = (case positiveFloat env (map_of r ''pre_close'') of None \<Rightarrow> i | Some v \<Rightarrow> i\<lparr>ciPreClose := v, ciHasPreClose := True\<rparr>);
              i2 = (case positiveFloat env (map_of r ''close'') of None \<Rightarrow> i1 | Some v \<Rightarrow> i1\<lparr>ciClose := v, ciHasClose := True\<rparr>);
              i3 = (if ciHasPreClose i2 \<or> ciHasClose i2 then i2\<lparr>ciPriceSource := ''meridian_1d_unadjusted''\<rparr> else i2);
              i4 = (if ciInstrumentType i3 = []
                    then i3\<lparr>ciInstrumentType := ToLower (contributionString (pePrint env) (map_of r ''instrument_type''))\<rparr> else i3)
          in putKey (rowSecurity env r) i4 items)"

definition noteSnapshot :: "perf_env \<Rightarrow> string \<Rightarrow> instruments \<times> bool \<Rightarrow> row \<Rightarrow> instruments \<times> bool" where
  "noteSnapshot env tradeDate acc r =
     (case acc of (items, used) \<Rightarrow>
        if corporateActionDate env (map_of r ''trade_date'') \<noteq> tradeDate then acc
        else case map_of items (rowSecurity env r) of
               None \<Rightarrow> acc
             | Some i \<Rightarrow>
                 let p = (if ciHasPreClose i then None else positiveFloat env (map_of r ''pre_close''));
                     c = (if ciHasClose i then None else positiveFloat env (map_of r ''last''));
                     i1 = (case p of None \<Rightarrow> i | Some v \<Rightarrow> i\<lparr>ciPreClose := v, ciHasPreClose := True\<rparr>);
                     i2 = (case c of None \<Rightarrow> i1 | Some v \<Rightarrow> i1\<lparr>ciClose := v, ciHasClose := True\<rparr>);
                     i3 = i2\<lparr>ciPriceSource :=
                            (if ciPriceSource i2 = [] then ''meridian_level1_snapshot''
                             else if ciPriceSource i2 \<noteq> ''meridian_level1_snapshot'' then ciPriceSource i2 @ ''+meridian_level1_snapshot''
                             else ciPriceSource i2)\<rparr>
                 in if p = None \<and> c = None then acc else (putKey (rowSecurity env r) i3 items, True))"

definition fillCurrentContributionPricesFromLevel1 ::
    "perf_env \<Rightarrow> 's ContributionMarket \<Rightarrow> string \<Rightarrow> string list \<Rightarrow> instruments \<Rightarrow> ('s, instruments \<times> bool) act" where
  "fillCurrentContributionPricesFromLevel1 env market tradeDate securityIDs items =
     (let missing = filter (\<lambda>k. \<not> ciHasPreClose (instrumentOf items k) \<or> \<not> ciHasClose (instrumentOf items k)) securityIDs
      in if missing = [] then ret (items, False)
         else attempt (cmMarketSnapshots market
                [(''security_ids'', JoinWith '','' missing), (''trade_date'', undashed tradeDate), (''data_scope'', ''realtime''),
                 (''market_level'', ''level1''), (''limit'', Utoa (length missing))]) (\<lambda>r.
                case answered r of
                  None \<Rightarrow> ret (items, False)
                | Some payload \<Rightarrow> ret (foldl (noteSnapshot env tradeDate) (items, False) (contributionRows payload))))"

fun loadBatches ::
    "perf_env \<Rightarrow> 's PerformanceService \<Rightarrow> 's ContributionMarket \<Rightarrow> string \<Rightarrow> string list list \<Rightarrow> instruments \<times> string list
       \<Rightarrow> ('s, instruments \<times> string list) act" where
  "loadBatches env sv market tradeDate [] acc = ret acc"
| "loadBatches env sv market tradeDate (batch # bs) (items, flags) =
     attempt (cmMetadataInstruments market [(''security_ids'', JoinWith '','' batch), (''limit'', Utoa (length batch))]) (\<lambda>r1.
       let (items1, flags1) = (case answered r1 of
              None \<Rightarrow> (items, appendUnique flags [''meridian_instrument_metadata_unavailable''])
            | Some payload \<Rightarrow> (foldl (noteMetadata env) items (contributionRows payload), flags))
       in attempt (cmMarketBars market
              [(''security_ids'', JoinWith '','' batch), (''start_date'', undashed tradeDate), (''end_date'', undashed tradeDate),
               (''frequency'', ''1d''), (''adjustment'', ''none''), (''limit'', Utoa (length batch * 2))]) (\<lambda>r2.
            let (items2, flags2) = (case answered r2 of
                   None \<Rightarrow> (items1, appendUnique flags1 [''meridian_daily_bars_unavailable''])
                 | Some payload \<Rightarrow> (foldl (noteBar env) items1 (contributionRows payload), flags1))
            in seq (of_total (svNow sv)) (\<lambda>now.
                 if tradeDate = formatBusinessDate now
                 then seq (fillCurrentContributionPricesFromLevel1 env market tradeDate batch items2) (\<lambda>(items3, used).
                        loadBatches env sv market tradeDate bs
                          (items3, if used then appendUnique flags2 [''meridian_level1_close_fallback''] else flags2))
                 else loadBatches env sv market tradeDate bs (items2, flags2))))"

definition newInstrument :: "string \<Rightarrow> contributionInstrument" where
  "newInstrument securityID =
     (case splitContributionSecurityID securityID of (symbol, exchange) \<Rightarrow>
        Instrument0\<lparr>ciSecurityID := securityID, ciSymbol := symbol, ciExchange := exchange\<rparr>)"

definition loadContributionInstruments ::
    "perf_env \<Rightarrow> 's PerformanceService \<Rightarrow> string \<Rightarrow> string list \<Rightarrow> ('s, instruments \<times> string list) act" where
  "loadContributionInstruments env sv tradeDate securityIDs =
     (let items = foldl (\<lambda>m k. putKey k (newInstrument k) m) [] securityIDs
      in case svMarket sv of
           None \<Rightarrow> ret (items, [''meridian_contribution_market_unavailable''])
         | Some market \<Rightarrow>
             if securityIDs = [] then ret (items, [''meridian_contribution_market_unavailable''])
             else loadBatches env sv market tradeDate (batches 99 securityIDs) (items, []))"

subsection \<open>Redemption units\<close>

definition noteUnit :: "perf_env \<Rightarrow> (string \<times> int) list \<Rightarrow> row \<Rightarrow> (string \<times> int) list" where
  "noteUnit env units r =
     (case contributionFloat env (map_of r ''unit_subscribe_redeem'') of
        None \<Rightarrow> units
      | Some v \<Rightarrow>
          if fle v fzero \<or> flt (round64 (1 / 1000000)) (fabs (fsub v (fround v))) then units
          else putKey (rowSecurity env r) (int64_of_float (fround v)) units)"

fun loadUnits ::
    "perf_env \<Rightarrow> 's ContributionMarket \<Rightarrow> string \<Rightarrow> string list list \<Rightarrow> (string \<times> int) list \<times> string list
       \<Rightarrow> ('s, (string \<times> int) list \<times> string list) act" where
  "loadUnits env market tradeDate [] acc = ret acc"
| "loadUnits env market tradeDate (batch # bs) (units, flags) =
     attempt (cmMarketETFCashComponents market
         [(''security_ids'', JoinWith '','' batch), (''trade_date'', undashed tradeDate), (''limit'', Utoa (length batch))]) (\<lambda>r.
       case answeredWithoutError r of
         None \<Rightarrow> loadUnits env market tradeDate bs (units, appendUnique flags [''meridian_etf_pcf_unavailable''])
       | Some payload \<Rightarrow> loadUnits env market tradeDate bs (foldl (noteUnit env) units (contributionRows payload), flags))"

definition sort_Strings :: "string list \<Rightarrow> string list" where
  "sort_Strings xs = order_by (\<lambda>a b. a < b) xs"

definition loadPCFRedemptionUnits ::
    "perf_env \<Rightarrow> 's PerformanceService \<Rightarrow> string \<Rightarrow> Fill list \<Rightarrow> ('s, (string \<times> int) list \<times> string list) act" where
  "loadPCFRedemptionUnits env sv tradeDate fills =
     (let securityIDs = sort_Strings (appendUnique []
            (map (\<lambda>f. contributionSecurityID (fSymbol f) (fExchange f)) (filter (isRedemptionFill (pePrint env)) fills)))
      in if securityIDs = [] then ret ([], [])
         else case svMarket sv of
                None \<Rightarrow> ret ([], [''meridian_etf_pcf_unavailable''])
              | Some market \<Rightarrow>
                  seq (loadUnits env market tradeDate (batches 99 securityIDs) ([], [])) (\<lambda>(units, flags).
                    ret (units, if length units < length securityIDs then flags @ [''missing_meridian_etf_redemption_unit''] else flags)))"

subsection \<open>Corporate actions\<close>

definition noteFactor ::
    "perf_env \<Rightarrow> string \<Rightarrow> string set \<Rightarrow> (string \<times> corporateActionFactor) list \<times> bool \<Rightarrow> row
       \<Rightarrow> (string \<times> corporateActionFactor) list \<times> bool" where
  "noteFactor env normalizedDate expected acc r =
     (case acc of (factors, available) \<Rightarrow>
        let securityID = rowSecurity env r; exDate = corporateActionDate env (map_of r ''ex_date'')
        in if securityID \<notin> expected \<or> exDate \<noteq> normalizedDate then acc
           else case contributionFloat env (map_of r ''ex_factor'') of
                  None \<Rightarrow> (factors, False)
                | Some exFactor \<Rightarrow>
                    if fle exFactor fzero \<or> exFactor = NaN \<or> exFactor = PosInf \<or> exFactor = NegInf then (factors, False)
                    else if map_of factors securityID \<noteq> None then (factors, False)
                    else (putKey securityID
                            \<lparr>caSecurityID = securityID, caExDate = exDate, caExFactor = exFactor,
                             caSource = firstContributionString env r [''source'', ''source_dataset''], caRaw = Some (map_of r)\<rparr> factors,
                          available))"

fun loadFactors ::
    "perf_env \<Rightarrow> 's ContributionMarket \<Rightarrow> string \<Rightarrow> string \<Rightarrow> string set \<Rightarrow> string list list
       \<Rightarrow> (string \<times> corporateActionFactor) list \<times> bool \<Rightarrow> ('s, (string \<times> corporateActionFactor) list \<times> bool) act" where
  "loadFactors env market normalizedDate dayText expected [] acc = ret acc"
| "loadFactors env market normalizedDate dayText expected (batch # bs) (factors, available) =
     attempt (cmMetadataAdjustFactors market
         [(''security_ids'', JoinWith '','' batch), (''start_date'', dayText), (''end_date'', dayText),
          (''limit'', Utoa (max 10 (length batch * 2)))]) (\<lambda>r.
       case answeredWithoutError r of
         None \<Rightarrow> loadFactors env market normalizedDate dayText expected bs (factors, False)
       | Some payload \<Rightarrow>
           loadFactors env market normalizedDate dayText expected bs
             (foldl (noteFactor env normalizedDate expected) (factors, available) (contributionRows payload)))"

definition loadCorporateActionFactors ::
    "perf_env \<Rightarrow> 's PerformanceService \<Rightarrow> string \<Rightarrow> string list
       \<Rightarrow> ('s, (string \<times> corporateActionFactor) list \<times> bool \<times> string list) act" where
  "loadCorporateActionFactors env sv tradeDate securityIDs0 =
     (if securityIDs0 = [] then ret ([], True, [])
      else case svMarket sv of
             None \<Rightarrow> ret ([], False, [''meridian_adjust_factors_unavailable''])
           | Some market \<Rightarrow>
               let securityIDs = sort_Strings (appendUnique [] (filter (\<lambda>k. k \<noteq> []) (map (\<lambda>k. ToUpper (TrimSpace k)) securityIDs0)))
               in case parseTradeDate tradeDate of
                    Inl _ \<Rightarrow> ret ([], False, [''invalid_corporate_action_trade_date''])
                  | Inr (normalizedDate, parsedDate) \<Rightarrow>
                      seq (loadFactors env market normalizedDate (compactDate parsedDate) (set securityIDs) (batches 99 securityIDs) ([], True))
                        (\<lambda>(factors, available).
                           ret (factors, available, if available then [] else [''meridian_adjust_factors_unavailable''])))"

section \<open>The calculation\<close>

definition keyed :: "Position list \<Rightarrow> (string \<times> Position) list" where
  "keyed positions = foldl (\<lambda>m p. putKey (securityOf p) p m) [] positions"

definition Position0 :: Position where
  "Position0 = \<lparr>pAccountID = [], pTradeDate = [], pSnapshotType = [], pSymbol = [], pName = [], pExchange = [], pQuantity = 0,
     pSellableQty = 0, pInitialQty = 0, pTodayQty = 0, pAvgCost = fzero, pTotalCost = fzero, pAvgCostSource = [],
     pCostComplete = False, pLastPrice = fzero, pMarketValue = fzero, pUnrealizedPnL = fzero, pDayUnrealizedPnL = fzero,
     pSettledProfit = fzero, pShareholderID = [], pUpdatedAt = zeroTime\<rparr>"

definition positionAt :: "(string \<times> Position) list \<Rightarrow> string \<Rightarrow> Position" where
  "positionAt m k = (case map_of m k of None \<Rightarrow> Position0 | Some p \<Rightarrow> p)"

type_synonym working = "(string \<times> costWorkingState) list"

definition openWorking :: "(Position \<Rightarrow> costWorkingState) \<Rightarrow> Position list \<Rightarrow> working" where
  "openWorking stateOf positions = foldl (\<lambda>m p. putKey (securityOf p) (stateOf p) m) [] positions"

definition carriedWorking :: "string \<Rightarrow> string \<Rightarrow> string \<Rightarrow> PositionCostState list \<Rightarrow> working" where
  "carriedWorking accountID tradeDate openingSource previous =
     foldl (\<lambda>m st. putKey (TrimSpace (pcSymbol st) @ ''.'' @ TrimSpace (pcExchange st))
                     (carriedState accountID tradeDate openingSource st) m)
       [] (filter (\<lambda>st. \<not> (pcCostBucket st \<noteq> ''CORE'' \<or> pcCloseQuantity st = 0)) previous)"

text \<open>The opening of the day: either the working states with their source, flags and whether they were
  re-anchored, or a result that is blocked at once.\<close>

datatype day_opening = Blocked string string | Opened working string "string list" bool

definition isReanchor :: "PerformanceInception \<Rightarrow> bool" where
  "isReanchor inception = EqualFold (TrimSpace (piCostSource inception)) ''broker_open_snapshot''"

definition previousOpening ::
    "'s PerformanceService \<Rightarrow> string \<Rightarrow> string \<Rightarrow> PerformanceInception \<Rightarrow> Position list \<Rightarrow> ('s, day_opening) act" where
  "previousOpening sv accountID normalizedDate inception openPositions =
     seq (svListPositionCostStates sv accountID [] normalizedDate) (\<lambda>previous.
     seq (previousCostStateGap sv normalizedDate previous) (\<lambda>gap0.
       let source = ''relay_previous_close_cost'';
           continued = (gap0 \<and> piCleanStart inception \<and> openPositions = [] \<and> positionCostStatesAreFlat previous);
           gap = (gap0 \<and> \<not> continued);
           flags = (if continued then [''empty_clean_start_continuation''] else []);
           needsTrustedReanchor = (gap \<or> previous = [] \<and> openPositions \<noteq> [])
       in if needsTrustedReanchor \<and> isReanchor inception
          then ret (Opened (openWorking (reanchoredState accountID normalizedDate ''broker_open_snapshot_cost_reanchor'') openPositions)
                      ''broker_open_snapshot_cost_reanchor''
                      (appendUnique flags [if gap then ''previous_cost_state_gap_reanchored'' else ''missing_previous_cost_state_reanchored''])
                      True)
          else if gap then ret (Blocked source ''previous_cost_state_gap'')
          else if previous = []
          then seq (listContributionPositions sv accountID normalizedDate ''open'') (\<lambda>again.
                 if \<not> piCleanStart inception \<or> again \<noteq> [] then ret (Blocked source ''missing_previous_cost_state'')
                 else ret (Opened [] source (appendUnique flags [''empty_clean_start_continuation'']) False))
          else ret (Opened (carriedWorking accountID normalizedDate source previous) source flags False)))"

definition marksAtPreClose :: "string \<Rightarrow> PerformanceInception \<Rightarrow> bool" where
  "marksAtPreClose normalizedDate inception \<longleftrightarrow> normalizedDate = piInceptionDate inception
     \<and> EqualFold (TrimSpace (piCostSource inception)) meridianPreCloseMarkToMarketCostSource"

definition dayOpening ::
    "'s PerformanceService \<Rightarrow> string \<Rightarrow> string \<Rightarrow> PerformanceInception \<Rightarrow> Position list \<Rightarrow> ('s, day_opening) act" where
  "dayOpening sv accountID normalizedDate inception openPositions =
     (if normalizedDate = piInceptionDate inception
      then let mark = marksAtPreClose normalizedDate inception;
               source = (if mark then meridianPreCloseMarkToMarketCostSource else piOpeningPositionSource inception)
           in ret (Opened (openWorking (inceptionState accountID normalizedDate source mark) openPositions) source
                     (if mark then [''inception_cost_marked_to_meridian_pre_close''] else []) False)
      else previousOpening sv accountID normalizedDate inception openPositions)"

definition isReverseRepo :: "Fill \<Rightarrow> bool" where
  "isReverseRepo fill \<longleftrightarrow> TrimSpace (fSymbol fill) = ''204001'' \<and> fExchange fill = ExchangeSH"

fun ordinaryLoop :: "componentSaleLinks \<Rightarrow> Fill list \<Rightarrow> string list \<Rightarrow> Fill list \<times> string list" where
  "ordinaryLoop links [] flags = ([], flags)"
| "ordinaryLoop links (fill # fills) flags =
     (if isReverseRepo fill then ordinaryLoop links fills (appendUnique flags [''reverse_repo_excluded_from_position_cost''])
      else if excludes links fill
      then ordinaryLoop links fills
             (appendUnique flags [''component_sales_excluded_from_position_cost'', ''component_sales_linked_to_transfer''])
      else case ordinaryLoop links fills flags of (fs, flags') \<Rightarrow> (fill # fs, flags'))"

definition matchedFirst :: "Fill \<Rightarrow> Fill \<Rightarrow> bool" where
  "matchedFirst a b \<longleftrightarrow> fMatchedAt a < fMatchedAt b"

text \<open>The fills that count for the cost of positions, with the flags of the selection.\<close>

definition ordinaryFills ::
    "perf_env \<Rightarrow> Order list \<Rightarrow> Fill list \<Rightarrow> error + ComponentTransfer list \<Rightarrow> string list \<Rightarrow> Fill list \<times> string list" where
  "ordinaryFills env orders fills0 transferResult flags =
     (let fills1 = dedupeContributionFills fills0;
          transfers = (case transferResult of Inl _ \<Rightarrow> [] | Inr ts \<Rightarrow> ts);
          redemptionTransferFills = redemptionFillsFromComponentTransfers (pePrint env) orders fills1 transfers;
          links = buildComponentSaleLinks (pePrint env) (peVisitGroups env) orders fills1 transfers;
          (fills2, flags1) =
            (case transferResult of
               Inl _ \<Rightarrow> (fills1, appendUnique flags [''etf_redemption_transfer_ledger_unavailable''])
             | Inr _ \<Rightarrow>
                 if redemptionTransferFills \<noteq> []
                 then (dedupeContributionFills (fills1 @ redemptionTransferFills), appendUnique flags [''etf_redemption_from_transfer_ledger''])
                 else (fills1, flags));
          (kept, flags2) = ordinaryLoop links fills2 (appendUnique flags1 (csFlags links))
      in (order_by matchedFirst kept, flags2))"

definition ensureState :: "string \<Rightarrow> string \<Rightarrow> string \<Rightarrow> string \<Rightarrow> string \<Rightarrow> string \<Rightarrow> working \<Rightarrow> working" where
  "ensureState accountID tradeDate openingSource key symbol exchange working0 =
     (case map_of working0 key of
        Some _ \<Rightarrow> working0
      | None \<Rightarrow> putKey key (newCostWorkingState accountID tradeDate symbol exchange openingSource) working0)"

definition ensureFills :: "string \<Rightarrow> string \<Rightarrow> string \<Rightarrow> Fill list \<Rightarrow> working \<Rightarrow> working" where
  "ensureFills accountID tradeDate openingSource fills working0 =
     foldl (\<lambda>m f. ensureState accountID tradeDate openingSource (contributionSecurityID (fSymbol f) (fExchange f)) (fSymbol f) (fExchange f) m)
       working0 fills"

definition ensurePositions :: "string \<Rightarrow> string \<Rightarrow> string \<Rightarrow> Position list \<Rightarrow> working \<Rightarrow> working" where
  "ensurePositions accountID tradeDate openingSource positions working0 =
     foldl (\<lambda>m p. ensureState accountID tradeDate openingSource (securityOf p) (pSymbol p) (pExchange p) m) working0 positions"

text \<open>The securities asked for, in the order the code collects them.\<close>

definition securityList :: "perf_env \<Rightarrow> working \<Rightarrow> (string \<times> Position) list \<Rightarrow> Fill list \<Rightarrow> Position list \<Rightarrow> string list" where
  "securityList env working0 openBySecurity fills closePositions =
     appendUnique (appendUnique (appendUnique (peVisitKeys env 0 (map fst working0)) (peVisitKeys env 1 (map fst openBySecurity)))
       (map (\<lambda>f. contributionSecurityID (fSymbol f) (fExchange f)) fills)) (map securityOf closePositions)"

definition openUnexplained :: "string \<Rightarrow> string \<Rightarrow> string \<Rightarrow> (string \<times> Position) list \<Rightarrow> working \<Rightarrow> working" where
  "openUnexplained accountID tradeDate openingSource openBySecurity working0 =
     foldl (\<lambda>m (k, p). if map_of m k \<noteq> None \<or> pQuantity p = 0 then m
                       else putKey k (unexplainedState accountID tradeDate openingSource p) m)
       working0 openBySecurity"

definition applyFactors ::
    "(string \<times> Position) list \<Rightarrow> (string \<times> corporateActionFactor) list \<Rightarrow> bool \<Rightarrow> working \<Rightarrow> working" where
  "applyFactors openBySecurity factors available working0 =
     map (\<lambda>(k, st). (k, applyCorporateActionOpening (pQuantity (positionAt openBySecurity k)) (map_of factors k) available st)) working0"

definition correctOpening ::
    "perf_env \<Rightarrow> 's PerformanceService \<Rightarrow> string \<Rightarrow> string \<Rightarrow> string \<Rightarrow> string list \<Rightarrow> (string \<times> Position) list \<Rightarrow> working
       \<Rightarrow> ('s, working \<times> string list) act" where
  "correctOpening env sv accountID normalizedDate source securityIDs openBySecurity working0 =
     seq (loadCorporateActionFactors env sv normalizedDate securityIDs) (\<lambda>(factors, available, flags).
       ret (openUnexplained accountID normalizedDate source openBySecurity (applyFactors openBySecurity factors available working0), flags))"

definition closeWorking :: "(string \<times> Position) list \<Rightarrow> instruments \<Rightarrow> gotime \<Rightarrow> working \<Rightarrow> PositionCostState list" where
  "closeWorking closeBySecurity items calculatedAt working0 =
     map (\<lambda>k. closeState (pQuantity (positionAt closeBySecurity k)) (instrumentOf items k) calculatedAt (the (map_of working0 k)))
       (sort_Strings (map fst working0))"

fun persistPositions :: "'s PerformanceService \<Rightarrow> PositionCostState list \<Rightarrow> ('s, PositionCostState list) act" where
  "persistPositions sv [] = ret []"
| "persistPositions sv (p # ps) =
     seq (svUpsertPositionCostState sv p) (\<lambda>saved. seq (persistPositions sv ps) (\<lambda>rest. ret (saved # rest)))"

text \<open>When the inception is not confirmed, Go returns the calculated result beside the error. The model has the
  error alone; the API handler drops that result, \<^verbatim>\<open>relayctl\<close> prints it beside the error.\<close>

definition savePositions ::
    "'s PerformanceService \<Rightarrow> bool \<Rightarrow> PerformanceInception \<Rightarrow> CostLedgerResult \<Rightarrow> ('s, CostLedgerResult) act" where
  "savePositions sv persist inception result =
     (if \<not> persist then ret result
      else if piStatus inception \<noteq> ''confirmed''
      then raise (ErrText ''performance inception must be confirmed before cost ledger persistence'')
      else seq (persistPositions sv (crPositions result)) (\<lambda>saved. ret (result\<lparr>crPositions := saved, crPersisted := True\<rparr>)))"

text \<open>The day after its opening: fills, prices, corrections of the opening, the positions of the result.\<close>

definition dayPositions ::
    "perf_env \<Rightarrow> 's PerformanceService \<Rightarrow> PerformanceInception \<Rightarrow> Position list \<Rightarrow> working \<Rightarrow> string \<Rightarrow> bool \<Rightarrow> CostLedgerResult
       \<Rightarrow> ('s, CostLedgerResult) act" where
  "dayPositions env sv inception openPositions working0 source reanchored result =
     (let accountID = crAccountID result; normalizedDate = crTradeDate result; openBySecurity = keyed openPositions in
     seq (listContributionOrders sv accountID normalizedDate) (\<lambda>orders.
     seq (listTradeDateFills sv accountID normalizedDate) (\<lambda>fills0.
     attempt (listContributionComponentTransfers sv accountID normalizedDate) (\<lambda>transferResult.
     let (fills, flags1) = ordinaryFills env orders fills0 transferResult (crQualityFlags result);
         working1 = ensureFills accountID normalizedDate source fills working0 in
     seq (listContributionPositions sv accountID normalizedDate ''close'') (\<lambda>close0.
     seq (supplementClosePositionsFromNextOpen sv accountID normalizedDate close0) (\<lambda>(closePositions, closeFlags).
     let flags2 = appendUnique flags1 closeFlags; closeBySecurity = keyed closePositions;
         working2 = ensurePositions accountID normalizedDate source closePositions working1;
         securityIDs = securityList env working0 openBySecurity fills closePositions in
     attempt (svGetAssetPositionObservation sv accountID normalizedDate ''close'') (\<lambda>observed.
     let status3 = (case observed of Inl _ \<Rightarrow> ''blocked'' | Inr _ \<Rightarrow> crStatus result);
         flags3 = (case observed of Inl _ \<Rightarrow> appendUnique flags2 [''missing_close_position_snapshot''] | Inr _ \<Rightarrow> flags2) in
     seq (loadContributionInstruments env sv normalizedDate securityIDs) (\<lambda>(items, marketFlags).
     let flags4 = appendUnique flags3 marketFlags;
         working3 = (if marksAtPreClose normalizedDate inception then applyMeridianPreCloseInceptionCosts working2 openBySecurity items
                     else working2) in
     seq (loadPCFRedemptionUnits env sv normalizedDate fills) (\<lambda>(units, pcfFlags).
     let flags5 = appendUnique flags4 pcfFlags;
         (groups, _, _) = buildT0Groups (pePrint env) orders fills items (map_of units);
         (buckets, bucketFills) = buildT0CostBuckets accountID normalizedDate groups in
     seq (if normalizedDate \<noteq> piInceptionDate inception \<and> \<not> reanchored
          then correctOpening env sv accountID normalizedDate source securityIDs openBySecurity working3
          else ret (working3, [])) (\<lambda>(working4, factorFlags).
     attempt (svListFeeRules sv accountID ''active'' normalizedDate 500) (\<lambda>ruleResult.
     let rules = (case ruleResult of Inl _ \<Rightarrow> [] | Inr rs \<Rightarrow> rs);
         flags6 = appendUnique flags5 factorFlags;
         flags7 = (case ruleResult of Inl _ \<Rightarrow> appendUnique flags6 [''fee_rules_unavailable''] | Inr _ \<Rightarrow> flags6) in
     seq (listOrderFeeRecords sv accountID normalizedDate) (\<lambda>feeRecords.
     let working5 = costFills (pePrint env) bucketFills items rules (authoritativeOrderFees feeRecords) {} fills working4;
         bucketItems = map (\<lambda>st. (cwItem st)\<lparr>pcCalculatedAt := crCalculatedAt result\<rparr>) buckets;
         positions = bucketItems @ closeWorking closeBySecurity items (crCalculatedAt result) working5 in
     ret (finalizeCostLedgerResult (result\<lparr>crOpeningSource := source, crStatus := status3, crQualityFlags := flags7,
            crPositions := positions\<rparr>))))))))))))))"

definition Inception0 :: PerformanceInception where
  "Inception0 = \<lparr>piAccountID = [], piInceptionDate = [], piStatus = [], piCleanStart = False, piOpeningCash = fzero,
     piOpeningPositionSource = [], piCostSource = [], piStrategyScope = [], piDescription = [], piConfirmedBy = [], piConfirmedAt = zeroTime,
     piRawPayload = None, piCreatedAt = zeroTime, piUpdatedAt = zeroTime\<rparr>"

definition newResult :: "string \<Rightarrow> string \<Rightarrow> gotime \<Rightarrow> CostLedgerResult" where
  "newResult accountID normalizedDate now =
     \<lparr>crAccountID = accountID, crTradeDate = normalizedDate, crStatus = ''calculated'', crFormulaVersion = positionCostFormulaVersion,
      crPersisted = False, crInception = Inception0, crOpeningSource = [], crSummary = Summary0, crPositions = [], crQualityFlags = [],
      crCalculatedAt = now\<rparr>"

definition CalculateCostLedger :: "perf_env \<Rightarrow> 's PerformanceService \<Rightarrow> string \<Rightarrow> string \<Rightarrow> bool \<Rightarrow> ('s, CostLedgerResult) act" where
  "CalculateCostLedger env sv accountID0 tradeDate persist =
     (let accountID = TrimSpace accountID0
      in if accountID = [] then raise (ErrText ''account_id is required'')
         else case parseTradeDate tradeDate of
                Inl e \<Rightarrow> raise e
              | Inr (normalizedDate, _) \<Rightarrow>
                  seq (of_total (svNow sv)) (\<lambda>now.
                  attempt (svGetPerformanceInception sv accountID) (\<lambda>found.
                  let result0 = newResult accountID normalizedDate now
                  in case found of
                       Inl e \<Rightarrow>
                         if e = sqlErrNoRows
                         then ret (result0\<lparr>crStatus := ''blocked'', crQualityFlags := [''missing_performance_inception'']\<rparr>)
                         else raise e
                     | Inr inception \<Rightarrow>
                         let result1 = (if piStatus inception \<noteq> ''confirmed''
                                        then result0\<lparr>crInception := inception, crStatus := ''blocked'',
                                               crQualityFlags := [''performance_inception_not_confirmed'']\<rparr>
                                        else result0\<lparr>crInception := inception\<rparr>)
                         in if normalizedDate < piInceptionDate inception then raise (ErrText ''trade_date is before performance inception'')
                            else seq (listContributionPositions sv accountID normalizedDate ''open'') (\<lambda>open0.
                                 seq (if normalizedDate \<noteq> piInceptionDate inception \<and> open0 = []
                                      then previousClosePositionFallback sv accountID normalizedDate else ret (open0, [])) (\<lambda>(openPositions, openFlags).
                                 let result2 = result1\<lparr>crQualityFlags := appendUnique (crQualityFlags result1) openFlags\<rparr> in
                                 seq (dayOpening sv accountID normalizedDate inception openPositions) (\<lambda>opened.
                                   case opened of
                                     Blocked source flag \<Rightarrow>
                                       ret (result2\<lparr>crOpeningSource := source, crStatus := ''blocked'',
                                              crQualityFlags := appendUnique (crQualityFlags result2) [flag]\<rparr>)
                                   | Opened working0 source flags reanchored \<Rightarrow>
                                       seq (dayPositions env sv inception openPositions working0 source reanchored
                                              (result2\<lparr>crQualityFlags := appendUnique (crQualityFlags result2) flags\<rparr>))
                                         (savePositions sv persist inception)))))))"

end
