(* ===== verification/Cost_Laws.thy ===== *)
theory Cost_Laws
  imports Cost_Ledger
begin

text \<open>
  What the cost ledger of a day guarantees: quantities that roll from the opening over the fills to
  the broker's closing position, statuses, the fee of an order, and the redemption groups.
\<close>

section \<open>Results of a computation\<close>

text \<open>Every result a computation returns satisfies a predicate.\<close>

definition yields :: "('a \<Rightarrow> bool) \<Rightarrow> ('s, 'a) act \<Rightarrow> bool" where
  "yields Q m \<longleftrightarrow> (\<forall>s x t. m s = (Inr x, t) \<longrightarrow> Q x)"

named_theorems yields_intro \<open>composition rules for the results of a computation\<close>

lemma yieldsD: "yields Q m \<Longrightarrow> m s = (Inr x, t) \<Longrightarrow> Q x"
  by (auto simp: yields_def)

lemma yields_ret [yields_intro]: "Q x \<Longrightarrow> yields Q (ret x)"
  by (simp add: yields_def)

lemma yields_raise [yields_intro]: "yields Q (raise e)"
  by (simp add: yields_def)

lemma yields_seq: "yields R m \<Longrightarrow> (\<And>x. R x \<Longrightarrow> yields Q (f x)) \<Longrightarrow> yields Q (seq m f)"
  unfolding yields_def by (metis seq_InrE)

lemma yields_seq_any [yields_intro]: "(\<And>x. yields Q (f x)) \<Longrightarrow> yields Q (seq m f)"
  unfolding yields_def by (metis seq_InrE)

lemma yields_attempt [yields_intro]: "(\<And>r. yields Q (f r)) \<Longrightarrow> yields Q (attempt m f)"
  unfolding yields_def by (metis attemptE)

lemma yields_if [yields_intro]: "(b \<Longrightarrow> yields Q m) \<Longrightarrow> (\<not> b \<Longrightarrow> yields Q n) \<Longrightarrow> yields Q (if b then m else n)"
  by simp

lemma yields_let [yields_intro]: "(\<And>x. x = a \<Longrightarrow> yields Q (f x)) \<Longrightarrow> yields Q (Let a f)"
  by simp

lemma yields_prod [yields_intro]: "(\<And>a b. p = (a, b) \<Longrightarrow> yields Q (f a b)) \<Longrightarrow> yields Q (case p of (a, b) \<Rightarrow> f a b)"
  by (cases p) simp

lemma yields_sum [yields_intro]:
  "(\<And>e. r = Inl e \<Longrightarrow> yields Q (f e)) \<Longrightarrow> (\<And>x. r = Inr x \<Longrightarrow> yields Q (g x)) \<Longrightarrow> yields Q (case r of Inl e \<Rightarrow> f e | Inr x \<Rightarrow> g x)"
  by (cases r) simp_all

lemma yields_opening:
  "(\<And>src f. r = Blocked src f \<Longrightarrow> yields Q (g src f)) \<Longrightarrow> (\<And>m src fs re. r = Opened m src fs re \<Longrightarrow> yields Q (h m src fs re)) \<Longrightarrow>
     yields Q (case r of Blocked src f \<Rightarrow> g src f | Opened m src fs re \<Rightarrow> h m src fs re)"
  by (cases r) simp_all

section \<open>Integers modulo their width\<close>

lemma wrap64_eq_iff: "wrap64 a = wrap64 b \<longleftrightarrow> (a - b) mod 2 ^ 64 = 0"
proof -
  have "wrap64 a = wrap64 b \<longleftrightarrow> (a + 2 ^ 63) mod 2 ^ 64 = (b + 2 ^ 63) mod 2 ^ 64" by (simp add: wrap64_def)
  also have "\<dots> \<longleftrightarrow> 2 ^ 64 dvd (a + 2 ^ 63) - (b + 2 ^ 63)" by (rule mod_eq_dvd_iff)
  finally show ?thesis by (simp add: dvd_eq_mod_eq_0)
qed

lemma wrap64_idem [simp]: "wrap64 (wrap64 a) = wrap64 a"
  by (rule wrap64_id) simp

lemma wrap64_add: "wrap64 a = wrap64 b \<Longrightarrow> wrap64 (a + c) = wrap64 (b + c)"
  by (simp add: wrap64_eq_iff)

lemma wrap64_cong_add: "wrap64 a = wrap64 a' \<Longrightarrow> wrap64 b = wrap64 b' \<Longrightarrow> wrap64 (a + b) = wrap64 (a' + b')"
  by (metis wrap64_add add.commute)

lemma wrap64_cong_diff: "wrap64 a = wrap64 a' \<Longrightarrow> wrap64 b = wrap64 b' \<Longrightarrow> wrap64 (a - b) = wrap64 (a' - b')"
proof -
  assume a: "wrap64 a = wrap64 a'" and b: "wrap64 b = wrap64 b'"
  have "2 ^ 64 dvd a - a'" "2 ^ 64 dvd b - b'" using a b by (simp_all add: wrap64_eq_iff dvd_eq_mod_eq_0)
  then have "2 ^ 64 dvd (a - a') - (b - b')" by (rule dvd_diff)
  then show ?thesis by (simp add: wrap64_eq_iff dvd_eq_mod_eq_0 algebra_simps)
qed

lemma wrap64_zero: "wrap64 n = 0 \<Longrightarrow> wrap64 (a + n) = wrap64 a"
  using wrap64_cong_add[of a a n 0] by (simp add: wrap64_id is_int64_def)

section \<open>Invariants of the working states\<close>

lemma set_putKey: "set (putKey k g m) \<subseteq> insert (k, g) (set m)"
  by (induction m) (auto split: if_splits)

definition everywhere :: "('a \<Rightarrow> bool) \<Rightarrow> (string \<times> 'a) list \<Rightarrow> bool" where
  "everywhere I m \<longleftrightarrow> (\<forall>(k, st)\<in>set m. I st)"

lemma everywhere_Nil [simp]: "everywhere I []"
  by (simp add: everywhere_def)

lemma everywhere_putKey: "everywhere I m \<Longrightarrow> I st \<Longrightarrow> everywhere I (putKey k st m)"
  using set_putKey[of k st m] unfolding everywhere_def by blast

lemma everywhere_mono: "everywhere I m \<Longrightarrow> (\<And>st. I st \<Longrightarrow> J st) \<Longrightarrow> everywhere J m"
  unfolding everywhere_def by blast

lemma everywhere_map_of: "everywhere I m \<Longrightarrow> map_of m k = Some st \<Longrightarrow> I st"
  unfolding everywhere_def by (auto dest: map_of_SomeD)

lemma everywhere_foldl: "everywhere I m \<Longrightarrow> (\<And>m x. everywhere I m \<Longrightarrow> everywhere I (f m x)) \<Longrightarrow> everywhere I (foldl f m xs)"
  by (induction xs arbitrary: m) simp_all

lemma everywhere_map:
  "everywhere I m \<Longrightarrow> (\<And>k st. I st \<Longrightarrow> I (f k st)) \<Longrightarrow> everywhere I (map (\<lambda>(k, st). (k, f k st)) m)"
  unfolding everywhere_def by auto

text \<open>The steps of a day: an invariant of the working state of a security that the opening establishes and
  keeps, and one that follows from it and that the fills keep. The fee is one that
  \<^const>\<open>contributionFeeForFill\<close> gives.\<close>

definition realFee :: "contributionFee \<Rightarrow> bool" where
  "realFee fee \<longleftrightarrow> cfSource fee \<noteq> ''none''"

locale day_invariant =
  fixes I0 :: "costWorkingState \<Rightarrow> bool" and I :: "costWorkingState \<Rightarrow> bool"
  assumes new0: "I0 (newCostWorkingState a d sy ex src)"
    and inception0: "I0 (inceptionState a d src mark p)"
    and reanchored0: "I0 (reanchoredState a d src p)"
    and carried0: "I0 (carriedState a d src prev)"
    and unexplained0: "I0 (unexplainedState a d src p)"
    and meridian0: "I0 st \<Longrightarrow> I0 (meridianState i p st)"
    and corporate0: "I0 st \<Longrightarrow> I0 (applyCorporateActionOpening q f av st)"
    and start0: "I0 st \<Longrightarrow> I st"
    and fill0: "I st \<Longrightarrow> realFee fee \<Longrightarrow> I (costFill fill fee st)"
begin

lemma openWorking0: "(\<And>p. I0 (f p)) \<Longrightarrow> everywhere I0 (openWorking f ps)"
  unfolding openWorking_def by (rule everywhere_foldl) (simp_all add: everywhere_putKey)

lemma carriedWorking0: "everywhere I0 (carriedWorking a d src previous)"
  unfolding carriedWorking_def by (rule everywhere_foldl) (simp_all add: everywhere_putKey carried0)

lemma ensureState0: "everywhere I0 m \<Longrightarrow> everywhere I0 (ensureState a d src k sy ex m)"
  by (simp add: ensureState_def everywhere_putKey new0 split: option.split)

lemma ensureFills0: "everywhere I0 m \<Longrightarrow> everywhere I0 (ensureFills a d src fills m)"
  unfolding ensureFills_def by (rule everywhere_foldl) (simp_all add: ensureState0)

lemma ensurePositions0: "everywhere I0 m \<Longrightarrow> everywhere I0 (ensurePositions a d src ps m)"
  unfolding ensurePositions_def by (rule everywhere_foldl) (simp_all add: ensureState0)

lemma meridian_all: "everywhere I0 m \<Longrightarrow> everywhere I0 (applyMeridianPreCloseInceptionCosts m ops items)"
  unfolding applyMeridianPreCloseInceptionCosts_def
  by (rule everywhere_map) (simp_all add: meridian0 split: option.split)

lemma factors_all: "everywhere I0 m \<Longrightarrow> everywhere I0 (applyFactors ops factors av m)"
  unfolding applyFactors_def by (rule everywhere_map) (simp_all add: corporate0)

lemma unexplained_all: "everywhere I0 m \<Longrightarrow> everywhere I0 (openUnexplained a d src ops m)"
  unfolding openUnexplained_def by (rule everywhere_foldl) (auto simp: everywhere_putKey unexplained0)

lemma fills_all: "everywhere I m \<Longrightarrow> everywhere I (costFills pr bs items rules fees consumed fills m)"
proof (induction fills arbitrary: consumed m)
  case (Cons f fs)
  obtain fee c where fee: "contributionFeeForFill pr f (instrumentOf items (contributionSecurityID (fSymbol f) (fExchange f))) rules fees consumed = (fee, c)"
    by fastforce
  have "realFee fee"
    using fee by (auto simp: realFee_def contributionFeeForFill_def calculateContributionFillFee_def Let_def Fee0_def split: if_splits option.splits)
  then show ?case
    using Cons by (auto simp: fee everywhere_putKey fill0 everywhere_map_of Let_def split: option.split)
qed simp

text \<open>The opening of a day.\<close>

lemma opening0:
  "yields (\<lambda>r. case r of Blocked _ _ \<Rightarrow> True | Opened m _ _ _ \<Rightarrow> everywhere I0 m) (dayOpening sv a d inc ops)"
  unfolding dayOpening_def previousOpening_def
  by (intro yields_intro) (simp_all add: openWorking0 inception0 reanchored0 carriedWorking0)

lemma correct0: "everywhere I0 m \<Longrightarrow> yields (\<lambda>(m, _). everywhere I0 m) (correctOpening env sv a d src ids ops m)"
  unfolding correctOpening_def by (intro yields_intro) (simp_all add: factors_all unexplained_all)

text \<open>The positions of a day: buckets of redemption groups, and closed working states that satisfy the
  invariant.\<close>

definition closed :: "gotime \<Rightarrow> PositionCostState \<Rightarrow> bool" where
  "closed now item \<longleftrightarrow>
     (\<exists>a d n g. item = (cwItem (costBucket a d n g))\<lparr>pcCalculatedAt := now\<rparr>)
     \<or> (\<exists>q i st. I st \<and> item = closeState q i now st)"

lemma bucket_closed:
  "st \<in> set (costBuckets a d n gs) \<Longrightarrow> closed now ((cwItem st)\<lparr>pcCalculatedAt := now\<rparr>)"
  by (induction gs arbitrary: n) (auto simp: closed_def)

lemma working_closed:
  assumes "everywhere I m" "item \<in> set (closeWorking cs items now m)"
  shows "closed now item"
proof -
  obtain k where k: "k \<in> set (sort_Strings (map fst m))"
      and i: "item = closeState (pQuantity (positionAt cs k)) (instrumentOf items k) now (the (map_of m k))"
    using assms(2) by (auto simp: closeWorking_def)
  then obtain st where "map_of m k = Some st" by (auto simp: sort_Strings_def image_iff) (metis map_of_eq_None_iff image_eqI fst_conv not_None_eq)
  then show ?thesis using assms(1) i everywhere_map_of unfolding closed_def by fastforce
qed

lemma corrected0:
  assumes "everywhere I0 m" "\<And>m' fs. everywhere I0 m' \<Longrightarrow> yields Q (f m' fs)"
  shows "yields Q (seq (if b then correctOpening env sv a d src ids ops m else ret (m, [])) (\<lambda>(m', fs). f m' fs))"
proof (rule yields_seq)
  show "yields (\<lambda>(m, _). everywhere I0 m) (if b then correctOpening env sv a d src ids ops m else ret (m, []))"
    using assms(1) by (intro yields_intro correct0) simp_all
qed (use assms(2) in auto)

lemma working3:
  "everywhere I0 m \<Longrightarrow> everywhere I0 (if mark then applyMeridianPreCloseInceptionCosts (ensurePositions a d s ps (ensureFills a' d' s' fs m)) ops items
             else ensurePositions a d s ps (ensureFills a' d' s' fs m))"
  by (simp add: meridian_all ensurePositions0 ensureFills0)

lemma day_closed:
  assumes "everywhere I0 m" "buildT0CostBuckets a d gs = (bs, fs)"
    and "item \<in> set (map (\<lambda>st. (cwItem st)\<lparr>pcCalculatedAt := now\<rparr>) bs
                       @ closeWorking cs items now (costFills pr fs items rules fees {} fills m))"
  shows "closed now item"
proof -
  consider "item \<in> set (map (\<lambda>st. (cwItem st)\<lparr>pcCalculatedAt := now\<rparr>) bs)"
    | "item \<in> set (closeWorking cs items now (costFills pr fs items rules fees {} fills m))"
    using assms(3) by auto
  then show ?thesis
  proof cases
    case 1
    then show ?thesis using assms(2) bucket_closed by (auto simp: buildT0CostBuckets_def)
  next
    case 2
    have "everywhere I m" using assms(1) start0 by (rule everywhere_mono)
    then show ?thesis using working_closed[OF fills_all 2] by blast
  qed
qed

text \<open>The result of a day before it is saved.\<close>

definition dayResult :: "CostLedgerResult \<Rightarrow> bool" where
  "dayResult r \<longleftrightarrow> (\<exists>r0. r = finalizeCostLedgerResult r0 \<and> crSummary r0 = Summary0
     \<and> (\<forall>item\<in>set (crPositions r0). closed (crCalculatedAt r0) item))"

lemma dayResultI:
  assumes "crSummary r0 = Summary0" "\<And>item. item \<in> set (crPositions r0) \<Longrightarrow> closed (crCalculatedAt r0) item"
  shows "dayResult (finalizeCostLedgerResult r0)"
  unfolding dayResult_def using assms by blast

lemma finish0:
  assumes "everywhere I0 m" "buildT0CostBuckets a d gs = (bs, fs)" "crSummary r = Summary0"
  shows "dayResult (finalizeCostLedgerResult (r\<lparr>crOpeningSource := src, crStatus := st, crQualityFlags := fl,
           crPositions := map (\<lambda>st. (cwItem st)\<lparr>pcCalculatedAt := crCalculatedAt r\<rparr>) bs
             @ closeWorking cs items (crCalculatedAt r) (costFills pr fs items rules fees {} fills m)\<rparr>))"
  by (rule dayResultI) (use assms(3) day_closed[OF assms(1,2)] in simp_all)

lemma positions0:
  assumes "everywhere I0 m" "crSummary result = Summary0"
  shows "yields dayResult (dayPositions env sv inc ops m src re result)"
  unfolding dayPositions_def Let_def
  apply (rule corrected0 yields_seq_any yields_attempt yields_prod yields_ret)+
  subgoal using assms(1) by (rule working3)
  apply (rule yields_seq_any yields_attempt yields_prod yields_ret)+
  apply (erule (1) finish0)
  subgoal using assms(2) .
  done

text \<open>A result of the whole calculation: blocked with no positions, or a day's result, whose positions went
  through the store when it was asked to keep them.\<close>

definition saved :: "'s PerformanceService \<Rightarrow> PositionCostState \<Rightarrow> PositionCostState \<Rightarrow> bool" where
  "saved sv p q \<longleftrightarrow> (\<exists>s t. svUpsertPositionCostState sv p s = (Inr q, t))"

lemma persist0: "yields (list_all2 (saved sv) ps) (persistPositions sv ps)"
proof (induction ps)
  case Nil
  show ?case unfolding persistPositions.simps by (rule yields_ret) simp
next
  case (Cons p ps)
  have "yields (saved sv p) (svUpsertPositionCostState sv p)" by (auto simp: yields_def saved_def)
  then show ?case
    by (auto intro!: yields_ret yields_seq[OF _ yields_seq[OF Cons]])
qed

definition ledgerResult :: "'s PerformanceService \<Rightarrow> CostLedgerResult \<Rightarrow> bool" where
  "ledgerResult sv r \<longleftrightarrow> crStatus r = ''blocked'' \<and> crPositions r = [] \<or> dayResult r
     \<or> (\<exists>r0 qs. dayResult r0 \<and> list_all2 (saved sv) (crPositions r0) qs \<and> r = r0\<lparr>crPositions := qs, crPersisted := True\<rparr>)"

lemma save0: "dayResult r \<Longrightarrow> yields (ledgerResult sv) (savePositions sv persist inc r)"
  unfolding savePositions_def
  by (intro yields_if yields_raise yields_ret yields_seq[OF persist0]) (auto simp: ledgerResult_def)

lemma day_step:
  assumes "everywhere I0 m" "crSummary r = Summary0"
  shows "yields (ledgerResult sv) (seq (dayPositions env sv inc ops m src re r) (savePositions sv persist inc))"
  by (rule yields_seq[OF positions0[OF assms] save0])

lemma blocked0: "crStatus r = ''blocked'' \<Longrightarrow> crPositions r = [] \<Longrightarrow> ledgerResult sv r"
  by (simp add: ledgerResult_def)

lemma newResult_fields: "crSummary (newResult a d n) = Summary0" "crPositions (newResult a d n) = []"
  by (simp_all add: newResult_def)

lemma unsaved0: "yields (\<lambda>r. crPositions r = [] \<or> dayResult r) (CalculateCostLedger env sv acc date False)"
proof -
  have step: "yields (\<lambda>r. crPositions r = [] \<or> dayResult r) (seq (dayPositions env sv inc ops m src re r) (savePositions sv False inc))"
    if "everywhere I0 m" "crSummary r = Summary0" for inc ops m src re r
    by (rule yields_seq[OF positions0[OF that]]) (auto simp: savePositions_def intro: yields_ret)
  show ?thesis
    unfolding CalculateCostLedger_def Let_def
    by (rule yields_seq[OF opening0] step yields_intro yields_opening disjI1 | simp add: newResult_fields)+
qed

lemma ledger0: "yields (ledgerResult sv) (CalculateCostLedger env sv acc date persist)"
  unfolding CalculateCostLedger_def Let_def
  by (rule yields_seq[OF opening0] day_step yields_intro yields_opening blocked0 | simp add: newResult_fields)+

end

section \<open>Quantities\<close>

text \<open>The quantity of a security that is not blocked is what was there at the opening, plus what was bought,
  less what was sold, as 64 bit integers.\<close>

definition rolls :: "costWorkingState \<Rightarrow> bool" where
  "rolls st \<longleftrightarrow> (pcStatus (cwItem st) \<noteq> ''blocked'' \<longrightarrow>
     wrap64 (cwQuantity st) = wrap64 (pcOpenQuantity (cwItem st) + pcBuyQuantity (cwItem st) - pcSellQuantity (cwItem st)))"

lemmas state_steps = addFlags_def setStatus_def setAction_def mismatchAction_def flagMissingOpenCost_def Let_def

lemma rolls_blocked [simp]: "rolls (setStatus ''blocked'' st)"
  by (simp add: rolls_def setStatus_def)

lemma rolls_addFlags [simp]: "rolls (addFlags fs st) \<longleftrightarrow> rolls st"
  by (simp add: rolls_def addFlags_def)

text \<open>Before the fills of the day nothing is bought or sold.\<close>

definition opened :: "costWorkingState \<Rightarrow> bool" where
  "opened st \<longleftrightarrow> pcBuyQuantity (cwItem st) = 0 \<and> pcSellQuantity (cwItem st) = 0 \<and> cwQuantity st = pcOpenQuantity (cwItem st)"

lemma opened_rolls: "opened st \<Longrightarrow> rolls st"
  by (simp add: opened_def rolls_def)

lemma opened_marks [simp]:
  "opened (setStatus x st) \<longleftrightarrow> opened st" "opened (addFlags fs st) \<longleftrightarrow> opened st" "opened (setAction a st) \<longleftrightarrow> opened st"
  "opened (mismatchAction f st) \<longleftrightarrow> opened st" "opened (markCorporateActionCheckUnavailable st) \<longleftrightarrow> opened st"
  "opened (flagMissingOpenCost p st) \<longleftrightarrow> opened st"
  by (simp_all add: opened_def state_steps markCorporateActionCheckUnavailable_def)

lemma opened_corporate: "opened st \<Longrightarrow> opened (applyCorporateActionOpening q f av st)"
  unfolding applyCorporateActionOpening_def Let_def
  by (auto split: option.split) (simp_all add: opened_def)

lemma opened_meridian: "opened st \<Longrightarrow> opened (meridianState i p st)"
  by (simp add: meridianState_def Let_def) (simp add: opened_def)

lemma opened_start:
  "opened (newCostWorkingState a d sy ex src)" "opened (inceptionState a d src mark p)" "opened (reanchoredState a d src p)"
  "opened (carriedState a d src prev)" "opened (unexplainedState a d src p)"
  by (simp_all add: inceptionState_def reanchoredState_def carriedState_def unexplainedState_def Let_def)
    (simp_all add: opened_def newCostWorkingState_def)

lemma rolls_buy: "rolls st \<Longrightarrow> rolls (buyFill fill e st)"
proof -
  assume r: "rolls st"
  let ?i = "cwItem st"
  have "wrap64 (cwQuantity st + fQty fill) = wrap64 (pcOpenQuantity ?i + wrap64 (pcBuyQuantity ?i + fQty fill) - pcSellQuantity ?i)"
    if "pcStatus ?i \<noteq> ''blocked''"
  proof -
    have "wrap64 (cwQuantity st + fQty fill) = wrap64 ((pcOpenQuantity ?i + pcBuyQuantity ?i - pcSellQuantity ?i) + fQty fill)"
      using r that by (intro wrap64_add) (simp add: rolls_def)
    also have "\<dots> = wrap64 (pcOpenQuantity ?i - pcSellQuantity ?i + (pcBuyQuantity ?i + fQty fill))" by (simp add: algebra_simps)
    also have "\<dots> = wrap64 (pcOpenQuantity ?i - pcSellQuantity ?i + wrap64 (pcBuyQuantity ?i + fQty fill))" by (rule wrap64_cong_add) simp_all
    finally show ?thesis by (simp add: algebra_simps)
  qed
  then show ?thesis by (simp add: rolls_def buyFill_def Let_def)
qed

lemma rolls_sell: "rolls st \<Longrightarrow> rolls (sellFill fill e st)"
proof -
  assume r: "rolls st"
  let ?i = "cwItem st"
  have "wrap64 (cwQuantity st - fQty fill) = wrap64 (pcOpenQuantity ?i + pcBuyQuantity ?i - wrap64 (pcSellQuantity ?i + fQty fill))"
    if "pcStatus ?i \<noteq> ''blocked''"
  proof -
    have "wrap64 (cwQuantity st - fQty fill) = wrap64 ((pcOpenQuantity ?i + pcBuyQuantity ?i - pcSellQuantity ?i) - fQty fill)"
      using r that by (intro wrap64_cong_diff) (simp_all add: rolls_def)
    also have "\<dots> = wrap64 (pcOpenQuantity ?i + pcBuyQuantity ?i - (pcSellQuantity ?i + fQty fill))" by (simp add: algebra_simps)
    also have "\<dots> = wrap64 (pcOpenQuantity ?i + pcBuyQuantity ?i - wrap64 (pcSellQuantity ?i + fQty fill))" by (rule wrap64_cong_diff) simp_all
    finally show ?thesis .
  qed
  then show ?thesis by (simp add: rolls_def sellFill_def addFlags_def setStatus_def Let_def)
qed

lemma rolls_fee: "rolls st \<Longrightarrow> rolls (noteFee fee st)"
  by (simp add: noteFee_def) (simp add: rolls_def)

lemma rolls_fill: "rolls st \<Longrightarrow> rolls (costFill fill fee st)"
  by (simp add: costFill_def Let_def rolls_buy rolls_sell rolls_fee)

text \<open>The status of a working state is always one of the three the schema allows.\<close>

definition known_status :: "string \<Rightarrow> bool" where
  "known_status x \<longleftrightarrow> x \<in> {''calculated'', ''estimated'', ''blocked''}"

definition known :: "costWorkingState \<Rightarrow> bool" where
  "known st \<longleftrightarrow> known_status (pcStatus (cwItem st))"

lemma known_status_names [simp]: "known_status ''calculated''" "known_status ''estimated''" "known_status ''blocked''"
  by (simp_all add: known_status_def)

lemma known_marks [simp]:
  "known (addFlags fs st) \<longleftrightarrow> known st" "known (setStatus x st) \<longleftrightarrow> known_status x" "known (setAction a st) \<longleftrightarrow> known st"
  by (simp_all add: known_def state_steps)

lemma known_steps [simp]:
  "known st \<Longrightarrow> known (flagMissingOpenCost p st)" "known st \<Longrightarrow> known (mismatchAction f st)"
  "known st \<Longrightarrow> known (markCorporateActionCheckUnavailable st)"
  by (auto simp: known_def state_steps markCorporateActionCheckUnavailable_def)

lemma known_corporate: "known st \<Longrightarrow> known (applyCorporateActionOpening q f av st)"
  unfolding applyCorporateActionOpening_def Let_def
  by (auto split: option.split) (auto simp: known_def state_steps markCorporateActionCheckUnavailable_def)

lemma known_meridian: "known st \<Longrightarrow> known (meridianState i p st)"
  by (simp add: meridianState_def Let_def) (simp add: known_def)

lemma known_start:
  "known (newCostWorkingState a d sy ex src)" "known (inceptionState a d src mark p)" "known (reanchoredState a d src p)"
  "known (carriedState a d src prev)" "known (unexplainedState a d src p)"
  by (simp_all add: inceptionState_def reanchoredState_def carriedState_def unexplainedState_def Let_def)
    (auto simp: known_def newCostWorkingState_def state_steps)

lemma known_fill: "known st \<Longrightarrow> known (costFill fill fee st)"
  by (simp add: costFill_def buyFill_def sellFill_def noteFee_def addFlags_def setStatus_def Let_def) (simp add: known_def)

interpretation rolled: day_invariant "\<lambda>st. opened st \<and> known st" "\<lambda>st. rolls st \<and> known st"
  by unfold_locales
    (simp_all add: opened_start opened_meridian opened_corporate opened_rolls rolls_fill known_start known_meridian
      known_corporate known_fill)

section \<open>Items of a result\<close>

text \<open>The figures of an item agree with the broker's closing position.\<close>

definition reconciled :: "PositionCostState \<Rightarrow> bool" where
  "reconciled item \<longleftrightarrow> pcQuantityResidual item = 0
     \<and> wrap64 (pcCloseQuantity item) = wrap64 (pcOpenQuantity item + pcBuyQuantity item - pcSellQuantity item)
     \<and> wrap64 (pcBrokerCloseQuantity item) = wrap64 (pcCloseQuantity item)"

lemma newState_item:
  "pcOpenQuantity (cwItem (newCostWorkingState a d sy ex src)) = 0" "pcQuantityResidual (cwItem (newCostWorkingState a d sy ex src)) = 0"
  "pcBrokerCloseQuantity (cwItem (newCostWorkingState a d sy ex src)) = 0"
  by (simp_all add: newCostWorkingState_def)

lemma bucket_item:
  "pcOpenQuantity (cwItem (costBucket a d n g)) = 0 \<and> pcQuantityResidual (cwItem (costBucket a d n g)) = 0
   \<and> pcBrokerCloseQuantity (cwItem (costBucket a d n g)) = 0
   \<and> (pcStatus (cwItem (costBucket a d n g)) \<noteq> ''blocked'' \<longrightarrow>
        pcBuyQuantity (cwItem (costBucket a d n g)) = pcSellQuantity (cwItem (costBucket a d n g))
        \<and> pcCloseQuantity (cwItem (costBucket a d n g)) = 0)"
proof (cases "splitContributionSecurityID (rgSecurityID g)")
  case (Pair sy ex)
  show ?thesis unfolding costBucket_def Let_def Pair prod.case if_distrib[of cwItem]
    by (simp add: newState_item bucketComplete_def)
qed

lemma bucket_reconciled: "pcStatus (cwItem (costBucket a d n g)) \<noteq> ''blocked'' \<Longrightarrow> reconciled (cwItem (costBucket a d n g))"
  using bucket_item[of a d n g] by (simp add: reconciled_def)

text \<open>Closing changes the status to blocked or to estimated only, and sets the residual.\<close>

lemma marks_fields [simp]:
  "cwQuantity (setStatus x st) = cwQuantity st" "cwQuantity (addFlags fs st) = cwQuantity st"
  "cwCost (setStatus x st) = cwCost st" "cwCost (addFlags fs st) = cwCost st"
  "cwItem (addFlags fs st) = cwItem st" "cwItem (setStatus x st) = (cwItem st)\<lparr>pcStatus := x\<rparr>"
  by (simp_all add: setStatus_def addFlags_def)

lemma closeState_fields:
  "pcOpenQuantity (closeState q i now st) = pcOpenQuantity (cwItem st)" "pcBuyQuantity (closeState q i now st) = pcBuyQuantity (cwItem st)"
  "pcSellQuantity (closeState q i now st) = pcSellQuantity (cwItem st)" "pcCloseQuantity (closeState q i now st) = cwQuantity st"
  "pcBrokerCloseQuantity (closeState q i now st) = q" "pcQuantityResidual (closeState q i now st) = wrap64 (q - cwQuantity st)"
  "pcFeeSource (closeState q i now st) = pcFeeSource (cwItem st)" "pcCostBucket (closeState q i now st) = pcCostBucket (cwItem st)"
  unfolding closeState_def Let_def by simp_all

lemma closeState_status:
  assumes "pcStatus (closeState q i now st) \<noteq> ''blocked''"
  shows "pcStatus (cwItem st) \<noteq> ''blocked'' \<and> wrap64 (q - cwQuantity st) = 0"
proof (rule ccontr)
  assume "\<not> ?thesis"
  then have "pcStatus (closeState q i now st) = ''blocked''"
    unfolding closeState_def Let_def by auto
  then show False using assms by simp
qed

lemma close_reconciled:
  assumes "rolls st" "pcStatus (closeState q i now st) \<noteq> ''blocked''"
  shows "reconciled (closeState q i now st)"
proof -
  have s: "pcStatus (cwItem st) \<noteq> ''blocked''" "wrap64 (q - cwQuantity st) = 0" using closeState_status[OF assms(2)] by simp_all
  have "wrap64 q = wrap64 (cwQuantity st)" using wrap64_zero[OF s(2), of "cwQuantity st"] by simp
  then show ?thesis using assms(1) s by (simp add: reconciled_def closeState_fields rolls_def)
qed

lemma closed_reconciled: "rolled.closed now item \<Longrightarrow> pcStatus item \<noteq> ''blocked'' \<Longrightarrow> reconciled item"
  using bucket_reconciled close_reconciled by (auto simp: rolled.closed_def) (auto simp: reconciled_def)

lemma bucket_known: "known_status (pcStatus (cwItem (costBucket a d n g)))"
proof (cases "splitContributionSecurityID (rgSecurityID g)")
  case (Pair sy ex)
  show ?thesis unfolding costBucket_def Let_def Pair prod.case if_distrib[of cwItem]
    by (simp add: newCostWorkingState_def bucketComplete_def)
qed

lemma close_known: "known st \<Longrightarrow> known_status (pcStatus (closeState q i now st))"
  unfolding closeState_def Let_def by (auto simp: known_def)

lemma closed_known: "rolled.closed now item \<Longrightarrow> known_status (pcStatus item)"
  using bucket_known close_known by (auto simp: rolled.closed_def)

subsection \<open>The summary\<close>

lemma summaryItem_counts:
  "csBlockedItems (summaryItem m item) = count0 (pcStatus item = ''blocked'') (csBlockedItems m)"
  "csEstimatedItems (summaryItem m item) = count0 (pcStatus item = ''estimated'') (csEstimatedItems m)"
  "csCalculatedItems (summaryItem m item) = count0 (pcStatus item \<noteq> ''blocked'' \<and> pcStatus item \<noteq> ''estimated'') (csCalculatedItems m)"
  "csQuantityBreaks (summaryItem m item) = count0 (pcQuantityResidual item \<noteq> 0) (csQuantityBreaks m)"
  "csMissingFeeItems (summaryItem m item) = count0 (containsStringValue (pcQualityFlags item) ''missing_fee_rule'') (csMissingFeeItems m)"
  by (simp_all add: summaryItem_def)

lemma foldl_count:
  assumes "\<And>m x. f (g m x) = count0 (P x) (f m)"
  shows "f (foldl g m xs) = f m + int (length (filter P xs))"
  by (induction xs arbitrary: m) (simp_all add: assms count0_def)

lemmas summary_counts =
  foldl_count[of csBlockedItems summaryItem "\<lambda>i. pcStatus i = ''blocked''", OF summaryItem_counts(1)]
  foldl_count[of csEstimatedItems summaryItem "\<lambda>i. pcStatus i = ''estimated''", OF summaryItem_counts(2)]
  foldl_count[of csCalculatedItems summaryItem "\<lambda>i. pcStatus i \<noteq> ''blocked'' \<and> pcStatus i \<noteq> ''estimated''", OF summaryItem_counts(3)]
  foldl_count[of csQuantityBreaks summaryItem "\<lambda>i. pcQuantityResidual i \<noteq> 0", OF summaryItem_counts(4)]
  foldl_count[of csMissingFeeItems summaryItem "\<lambda>i. containsStringValue (pcQualityFlags i) ''missing_fee_rule''", OF summaryItem_counts(5)]

lemma roundSummary_counts:
  "csBlockedItems (roundSummary m) = csBlockedItems m" "csEstimatedItems (roundSummary m) = csEstimatedItems m"
  "csCalculatedItems (roundSummary m) = csCalculatedItems m" "csQuantityBreaks (roundSummary m) = csQuantityBreaks m"
  "csMissingFeeItems (roundSummary m) = csMissingFeeItems m" "csSecurities (roundSummary m) = csSecurities m"
  by (simp_all add: roundSummary_def)

lemma Summary0_counts:
  "csBlockedItems Summary0 = 0" "csEstimatedItems Summary0 = 0" "csCalculatedItems Summary0 = 0" "csQuantityBreaks Summary0 = 0"
  "csMissingFeeItems Summary0 = 0"
  by (simp_all add: Summary0_def)

lemma finalize_positions [simp]: "crPositions (finalizeCostLedgerResult r) = crPositions r"
  by (simp add: finalizeCostLedgerResult_def Let_def)

lemma positive_length: "0 < int (length (filter P xs)) \<longleftrightarrow> (\<exists>x\<in>set xs. P x)"
  by (auto simp: filter_empty_conv)

definition provisional :: "PositionCostState \<Rightarrow> bool" where
  "provisional item \<longleftrightarrow> pcStatus item = ''estimated'' \<or> containsStringValue (pcQualityFlags item) ''missing_fee_rule''"

definition broken :: "PositionCostState \<Rightarrow> bool" where
  "broken item \<longleftrightarrow> pcStatus item = ''blocked'' \<or> pcQuantityResidual item \<noteq> 0"

lemma finalize_status:
  assumes "crSummary r = Summary0"
  shows "crStatus (finalizeCostLedgerResult r) =
     (if \<exists>i\<in>set (crPositions r). broken i then ''blocked''
      else if \<exists>i\<in>set (crPositions r). provisional i then ''estimated'' else crStatus r)"
  using assms
  by (simp add: finalizeCostLedgerResult_def Let_def roundSummary_counts summary_counts Summary0_counts positive_length
      broken_def provisional_def bex_disj_distrib flip: of_nat_0_less_iff)

section \<open>The calculation\<close>

text \<open>What a store that saves an item returns of it: the status, if it is one of the three, and the quantities.\<close>

definition figures :: "PositionCostState \<Rightarrow> string \<times> int \<times> int \<times> int \<times> int \<times> int \<times> int" where
  "figures item = (pcStatus item, pcOpenQuantity item, pcBuyQuantity item, pcSellQuantity item, pcCloseQuantity item,
     pcBrokerCloseQuantity item, pcQuantityResidual item)"

definition keeps_figures :: "'s PerformanceService \<Rightarrow> bool" where
  "keeps_figures sv \<longleftrightarrow> (\<forall>p s q t. known_status (pcStatus p) \<longrightarrow> svUpsertPositionCostState sv p s = (Inr q, t)
     \<longrightarrow> figures q = figures p)"

lemma dayResult_items:
  assumes "rolled.dayResult r" "item \<in> set (crPositions r)"
  shows "pcStatus item \<noteq> ''blocked'' \<longrightarrow> reconciled item" "crStatus r \<noteq> ''blocked'' \<Longrightarrow> pcStatus item \<noteq> ''blocked''"
    "known_status (pcStatus item)"
proof -
  obtain r0 where r0: "r = finalizeCostLedgerResult r0" "crSummary r0 = Summary0"
      "\<forall>item\<in>set (crPositions r0). rolled.closed (crCalculatedAt r0) item"
    using assms(1) by (auto simp: rolled.dayResult_def)
  then show "pcStatus item \<noteq> ''blocked'' \<longrightarrow> reconciled item"
    using assms(2) closed_reconciled by auto
  show "known_status (pcStatus item)" using r0 assms(2) closed_known by auto
  show "pcStatus item \<noteq> ''blocked''" if "crStatus r \<noteq> ''blocked''"
    using that assms(2) finalize_status[OF r0(2)] r0(1) by (auto simp: broken_def split: if_splits)
qed

lemma figures_reconciled: "figures q = figures p \<Longrightarrow> reconciled q \<longleftrightarrow> reconciled p"
  by (simp add: figures_def reconciled_def)

lemma saved_figures: "keeps_figures sv \<Longrightarrow> rolled.saved sv p q \<Longrightarrow> known_status (pcStatus p) \<Longrightarrow> figures q = figures p"
  by (auto simp: keeps_figures_def rolled.saved_def)

lemma list_all2_right: "list_all2 R ps qs \<Longrightarrow> q \<in> set qs \<Longrightarrow> \<exists>p\<in>set ps. R p q"
  by (induction rule: list_all2_induct) auto

text \<open>C3: A cost ledger agrees with the broker. The one condition is on the store: when an item whose status is
  \<^verbatim>\<open>calculated\<close>, \<^verbatim>\<open>estimated\<close> or \<^verbatim>\<open>blocked\<close> was saved, the item the store returns has this status and the six quantities
  of the saved one; the store of the repository does so (\<^verbatim>\<open>repository_keeps_figures\<close>). Whatever the store else, the calendar
  and the market service answer, and whether or not the result is saved: an item of the result that is not blocked has no
  quantity residual, its closing quantity is its opening quantity plus the bought less the sold quantity (as 64 bit
  integers), and that is the broker's closing quantity; and when the result as a whole is not blocked, all its items are so.\<close>

theorem cost_ledger_reconciles:
  assumes "keeps_figures sv" "CalculateCostLedger env sv accountID tradeDate persist s = (Inr r, t)"
  shows "(\<forall>item\<in>set (crPositions r). pcStatus item \<noteq> ''blocked'' \<longrightarrow> reconciled item)
       \<and> (crStatus r \<noteq> ''blocked'' \<longrightarrow> (\<forall>item\<in>set (crPositions r). pcStatus item \<noteq> ''blocked'' \<and> reconciled item))"
proof -
  have "rolled.ledgerResult sv r" using yieldsD[OF rolled.ledger0 assms(2)] .
  then consider "crStatus r = ''blocked''" "crPositions r = []" | "rolled.dayResult r"
    | r0 qs where "rolled.dayResult r0" "list_all2 (rolled.saved sv) (crPositions r0) qs" "r = r0\<lparr>crPositions := qs, crPersisted := True\<rparr>"
    by (auto simp: rolled.ledgerResult_def)
  then show ?thesis
  proof cases
    case 2
    then show ?thesis using dayResult_items by blast
  next
    case 3
    have "(pcStatus q \<noteq> ''blocked'' \<longrightarrow> reconciled q) \<and> (crStatus r0 \<noteq> ''blocked'' \<longrightarrow> pcStatus q \<noteq> ''blocked'')" if q: "q \<in> set qs" for q
    proof -
      obtain p where p: "p \<in> set (crPositions r0)" "rolled.saved sv p q" using list_all2_right[OF 3(2) q] by blast
      have "figures q = figures p" using saved_figures[OF assms(1) p(2)] dayResult_items(3)[OF 3(1) p(1)] .
      then show ?thesis using dayResult_items[OF 3(1) p(1)] figures_reconciled[of q p] by (auto simp: figures_def)
    qed
    then show ?thesis using 3(3) by auto
  qed simp
qed

section \<open>Fee sources\<close>

definition lumped :: "costWorkingState \<Rightarrow> bool" where
  "lumped st \<longleftrightarrow> pcFeeSource (cwItem st) = ''none'' \<or> pcFeeSource (cwItem st) = ''mixed''"

lemma lumped_marks [simp]:
  "lumped (setStatus x st) \<longleftrightarrow> lumped st" "lumped (addFlags fs st) \<longleftrightarrow> lumped st" "lumped (setAction a st) \<longleftrightarrow> lumped st"
  "lumped (mismatchAction f st) \<longleftrightarrow> lumped st" "lumped (markCorporateActionCheckUnavailable st) \<longleftrightarrow> lumped st"
  "lumped (flagMissingOpenCost p st) \<longleftrightarrow> lumped st"
  by (simp_all add: lumped_def state_steps markCorporateActionCheckUnavailable_def)

lemma lumped_corporate: "lumped st \<Longrightarrow> lumped (applyCorporateActionOpening q f av st)"
  unfolding applyCorporateActionOpening_def Let_def
  by (auto split: option.split) (simp_all add: lumped_def)

lemma lumped_meridian: "lumped st \<Longrightarrow> lumped (meridianState i p st)"
  by (simp add: meridianState_def Let_def) (simp add: lumped_def)

lemma lumped_start:
  "lumped (newCostWorkingState a d sy ex src)" "lumped (inceptionState a d src mark p)" "lumped (reanchoredState a d src p)"
  "lumped (carriedState a d src prev)" "lumped (unexplainedState a d src p)"
  by (simp_all add: inceptionState_def reanchoredState_def carriedState_def unexplainedState_def Let_def)
    (simp_all add: lumped_def newCostWorkingState_def)

lemma lumped_fee: "lumped st \<Longrightarrow> realFee fee \<Longrightarrow> lumped (noteFee fee st)"
  by (auto simp: noteFee_def lumped_def realFee_def mergeContributionFeeSource_def addFlags_def)

lemma lumped_fill: "lumped st \<Longrightarrow> realFee fee \<Longrightarrow> lumped (costFill fill fee st)"
  using lumped_fee[of st fee]
  by (auto simp: costFill_def buyFill_def sellFill_def Let_def) (simp_all add: lumped_def)

interpretation sourced: day_invariant lumped lumped
  by unfold_locales (simp_all add: lumped_start lumped_meridian lumped_corporate lumped_fill)

lemma bucket_source: "pcFeeSource (cwItem (costBucket a d n g)) = ''included_in_etf_t0_friction''"
proof (cases "splitContributionSecurityID (rgSecurityID g)")
  case (Pair sy ex)
  show ?thesis unfolding costBucket_def Let_def Pair prod.case if_distrib[of cwItem] by simp
qed

text \<open>The fee source of a position is lost: an item of a cost ledger that is not the bucket of a redemption group
  never names where its fees come from. It is \<^verbatim>\<open>none\<close>, or \<^verbatim>\<open>mixed\<close> even when all its fills have one and the same
  source, because the working state starts with \<^verbatim>\<open>none\<close> where merging expects the empty string.\<close>

theorem cost_fee_source_lost:
  assumes "CalculateCostLedger env sv accountID tradeDate False s = (Inr r, t)" "item \<in> set (crPositions r)"
  shows "pcFeeSource item \<in> {''none'', ''mixed'', ''included_in_etf_t0_friction''}"
proof -
  have p: "yields (\<lambda>r. crPositions r = [] \<or> sourced.dayResult r) (CalculateCostLedger env sv accountID tradeDate False)"
    by (rule sourced.unsaved0)
  then obtain r0 where "r = finalizeCostLedgerResult r0" "\<forall>item\<in>set (crPositions r0). sourced.closed (crCalculatedAt r0) item"
    using yieldsD[OF p assms(1)] assms(2) by (auto simp: sourced.dayResult_def)
  then have "sourced.closed (crCalculatedAt r0) item" using assms(2) by simp
  then show ?thesis
    using bucket_source closeState_fields(7) by (auto simp: sourced.closed_def lumped_def)
qed

section \<open>The fee of an order\<close>

text \<open>The fees the fills of a list are charged with, one after the other.\<close>

fun feeTrail ::
    "sprint \<Rightarrow> (Fill \<Rightarrow> contributionInstrument) \<Rightarrow> FeeRule list \<Rightarrow> (string \<rightharpoonup> OrderFeeRecord) \<Rightarrow> string set \<Rightarrow> Fill list
       \<Rightarrow> (Fill \<times> contributionFee) list" where
  "feeTrail pr inst rules fees consumed [] = []"
| "feeTrail pr inst rules fees consumed (f # fs) =
     (case contributionFeeForFill pr f (inst f) rules fees consumed of
        (fee, consumed') \<Rightarrow> (f, fee) # feeTrail pr inst rules fees consumed' fs)"

text \<open>The loop of the calculation charges exactly these fees.\<close>

lemma costFills_trail:
  "costFills pr bs items rules fees consumed fills m =
     foldl (\<lambda>m (f, fee). case map_of m (contributionSecurityID (fSymbol f) (fExchange f)) of
                           None \<Rightarrow> m
                         | Some st \<Rightarrow> putKey (contributionSecurityID (fSymbol f) (fExchange f)) (costFill f fee st) m)
       m (feeTrail pr (\<lambda>f. instrumentOf items (contributionSecurityID (fSymbol f) (fExchange f))) rules fees consumed
            (filter (\<lambda>f. contributionFillKey f \<notin> bs) fills))"
  by (induction fills arbitrary: consumed m) (auto simp: Let_def split: prod.split)

definition orderFee :: "OrderFeeRecord \<Rightarrow> contributionFee" where
  "orderFee rec = Fee0\<lparr>cfActual := frTotalFee rec, cfEffective := frTotalFee rec, cfSource := ''actual_order_fee:'' @ frFeeSource rec\<rparr>"

definition feesOf :: "string \<Rightarrow> (Fill \<times> contributionFee) list \<Rightarrow> contributionFee list" where
  "feesOf i trail = map snd (filter (\<lambda>(f, fee). TrimSpace (fGatewayOrderID f) = i) trail)"

lemma fee_of_order:
  assumes "fees (TrimSpace (fGatewayOrderID f)) = Some rec"
  shows "contributionFeeForFill pr f inst rules fees consumed =
     (if TrimSpace (fGatewayOrderID f) \<in> consumed then (Fee0, consumed) else (orderFee rec, insert (TrimSpace (fGatewayOrderID f)) consumed))"
  using assms by (simp add: contributionFeeForFill_def orderFee_def Let_def)

lemma consumed_other:
  "TrimSpace (fGatewayOrderID f) \<noteq> i \<Longrightarrow> i \<in> snd (contributionFeeForFill pr f inst rules fees consumed) \<longleftrightarrow> i \<in> consumed"
  by (simp add: contributionFeeForFill_def Let_def split: option.split)

lemma feesOf_trail:
  assumes "fees i = Some rec"
  shows "feesOf i (feeTrail pr inst rules fees consumed fills) =
     (case filter (\<lambda>f. TrimSpace (fGatewayOrderID f) = i) fills of
        [] \<Rightarrow> []
      | f # fs \<Rightarrow> (if i \<in> consumed then Fee0 else orderFee rec) # replicate (length fs) Fee0)"
proof (induction fills arbitrary: consumed)
  case (Cons f fs)
  obtain fee c where c: "contributionFeeForFill pr f (inst f) rules fees consumed = (fee, c)" by fastforce
  show ?case
  proof (cases "TrimSpace (fGatewayOrderID f) = i")
    case True
    then have "fee = (if i \<in> consumed then Fee0 else orderFee rec) \<and> i \<in> c"
      using c assms fee_of_order[of fees f rec pr "inst f" rules consumed] by (auto split: if_splits)
    then show ?thesis using True c Cons[of c] by (auto simp: feesOf_def split: list.splits)
  next
    case False
    then have "i \<in> c \<longleftrightarrow> i \<in> consumed" using c consumed_other[of f i pr "inst f" rules fees consumed] by simp
    then show ?thesis using False c Cons[of c] by (auto simp: feesOf_def split: list.splits)
  qed
qed (simp add: feesOf_def)

text \<open>C21: An authoritative order fee is charged once: when the broker gave a complete fee for an order, the first of the
  fills of the order that the cost ledger processes carries the whole fee, with its source, and every later one
  carries none, in whatever order the fills of other orders come between; and these are the fees the calculation
  applies to the positions.\<close>

theorem order_fee_charged_once:
  assumes "authoritativeOrderFees records i = Some rec"
    and "filter (\<lambda>f. TrimSpace (fGatewayOrderID f) = i \<and> contributionFillKey f \<notin> bucketFills) fills = first # later"
  shows "\<exists>trail. feesOf i trail = orderFee rec # replicate (length later) Fee0
     \<and> map fst trail = filter (\<lambda>f. contributionFillKey f \<notin> bucketFills) fills
     \<and> costFills pr bucketFills instruments rules (authoritativeOrderFees records) {} fills working =
         foldl (\<lambda>m (f, fee). case map_of m (contributionSecurityID (fSymbol f) (fExchange f)) of
                               None \<Rightarrow> m
                             | Some st \<Rightarrow> putKey (contributionSecurityID (fSymbol f) (fExchange f)) (costFill f fee st) m)
           working trail"
proof -
  let ?fs = "filter (\<lambda>f. contributionFillKey f \<notin> bucketFills) fills"
  let ?trail = "feeTrail pr (\<lambda>f. instrumentOf instruments (contributionSecurityID (fSymbol f) (fExchange f))) rules
                  (authoritativeOrderFees records) {} ?fs"
  have "filter (\<lambda>f. TrimSpace (fGatewayOrderID f) = i) ?fs = first # later" using assms(2) by (simp add: conj_commute)
  then have "feesOf i ?trail = orderFee rec # replicate (length later) Fee0" using feesOf_trail[of "authoritativeOrderFees records" i rec, OF assms(1)] by simp
  moreover have "map fst (feeTrail pr inst rs fe c fs) = fs" for inst rs fe c fs
    by (induction fs arbitrary: c) (auto split: prod.split)
  ultimately show ?thesis using costFills_trail by blast
qed

section \<open>The status of a result\<close>

text \<open>A result that was found to be blocked is let through: when the closing snapshot of the positions is missing, or the
  inception is not confirmed, the result is blocked before its items are counted; if no item is blocked or has a
  quantity residual and some item is estimated or misses a fee rule, finalizing overwrites that status, and the
  result leaves as estimated.\<close>

theorem blocked_result_let_through:
  assumes "crSummary result = Summary0" "crStatus result = ''blocked''"
    and "\<forall>item\<in>set (crPositions result). pcStatus item \<noteq> ''blocked'' \<and> pcQuantityResidual item = 0"
    and "\<exists>item\<in>set (crPositions result). pcStatus item = ''estimated''"
  shows "crStatus (finalizeCostLedgerResult result) = ''estimated''"
  using assms(3,4) unfolding finalize_status[OF assms(1)] by (auto simp: broken_def provisional_def)

text \<open>The summary of a cost ledger accounts for every item once: blocked, estimated and calculated items add up to the
  number of securities, which is the number of positions of the result.\<close>

theorem cost_summary_partition:
  assumes "crSummary result = Summary0"
  shows "let m = crSummary (finalizeCostLedgerResult result)
         in csBlockedItems m + csEstimatedItems m + csCalculatedItems m = csSecurities m
            \<and> csSecurities m = int (length (crPositions (finalizeCostLedgerResult result)))"
proof -
  have "length (filter (\<lambda>i. pcStatus i = ''blocked'') ps) + length (filter (\<lambda>i. pcStatus i = ''estimated'') ps)
      + length (filter (\<lambda>i. pcStatus i \<noteq> ''blocked'' \<and> pcStatus i \<noteq> ''estimated'') ps) = length ps" for ps
    by (induction ps) auto
  then show ?thesis
    using assms by (simp add: finalizeCostLedgerResult_def Let_def roundSummary_counts summary_counts Summary0_counts flip: of_nat_add)
qed

end
