(* ===== verification/Group_Laws.thy ===== *)
theory Group_Laws
  imports Cost_Laws
begin

text \<open>
  Redemption groups of a day: every buy order backs at most one redemption, a complete group bought
  exactly what it redeems, and the cost bucket of a group that is not blocked closes at nothing.
\<close>

section \<open>The selection of orders\<close>

definition selectedSum :: "(Order \<Rightarrow> int) \<Rightarrow> int \<Rightarrow> Order list \<Rightarrow> int" where
  "selectedSum qty start orders = foldl (\<lambda>q ord. wrap64 (q + qty ord)) start orders"

lemma selectOrders_sum: "selectOrders qty target q orders = (os, q') \<Longrightarrow> q' = selectedSum qty q os"
  by (induction qty target q orders arbitrary: os q' rule: selectOrders.induct)
    (auto simp: selectedSum_def split: if_splits prod.splits)

lemma selectOrders_sub: "selectOrders qty target q orders = (os, q') \<Longrightarrow> subseq os orders"
  by (induction qty target q orders arbitrary: os q' rule: selectOrders.induct)
    (auto split: if_splits prod.splits)

text \<open>The selection never takes more than is wanted as long as the sums stay within 64 bits; it may take less.\<close>

lemma subseq_ids: "subseq os orders \<Longrightarrow> distinct (map f orders) \<Longrightarrow> distinct (map f os) \<and> set os \<subseteq> set orders"
  by (induction os orders rule: list_emb.induct) auto

interpretation by_order_time: keyed_order orderLater "\<lambda>ord. - contributionOrderTime ord"
  by unfold_locales (simp add: orderLater_def)

section \<open>One group\<close>

abbreviation "filledOf fills ord \<equiv> contributionOrderFilledQuantity (fillsOfOrder fills (oGatewayOrderID ord))"

definition redemptionTarget :: "Order list \<Rightarrow> t0RedemptionGroup \<Rightarrow> int" where
  "redemptionTarget orders g =
     (if sumQty (rgRedemptions g) \<le> 0
      then (case ordersByID orders (fGatewayOrderID (hd (rgRedemptions g))) of None \<Rightarrow> oOrderQty Order0 | Some ord \<Rightarrow> oOrderQty ord)
      else sumQty (rgRedemptions g))"

definition group_sound :: "Order list \<Rightarrow> Fill list \<Rightarrow> t0RedemptionGroup \<Rightarrow> bool" where
  "group_sound orders fills g \<longleftrightarrow>
     (\<forall>ord\<in>set (rgOrders g). ord \<in> set orders \<and> oTradeSide ord = TradeSideBuy
          \<and> contributionSecurityID (oSymbol ord) (oExchange ord) = rgSecurityID g)
     \<and> rgBuyFills g = concat (map (\<lambda>ord. fillsOfOrder fills (oGatewayOrderID ord)) (rgOrders g))
     \<and> (if ''incomplete_t0_order_group'' \<in> set (rgFlags g) then rgOrders g = []
        else redemptionTarget orders g > 0 \<and> selectedSum (filledOf fills) 0 (rgOrders g) = redemptionTarget orders g)"

lemma set_appendUnique [simp]: "set (appendUnique xs ys) = set xs \<union> set ys"
  by (induction xs ys rule: appendUnique.induct) auto

lemma incomplete_flags:
  "''incomplete_t0_order_group'' \<notin> set (unitFlags u t)" "''incomplete_t0_order_group'' \<notin> set (typeFlags i)"
  "''incomplete_t0_order_group'' \<in> set (selectionFlags b e c t) \<longleftrightarrow> b"
  by (simp_all add: unitFlags_def typeFlags_def selectionFlags_def)

lemma T0Group_sound:
  assumes "distinct (map oGatewayOrderID orders)" "buildT0Group pr orders fills items units consumed i = (g, consumed')"
  shows "group_sound orders fills g" "distinct (map oGatewayOrderID (rgOrders g))"
    "oGatewayOrderID ` set (rgOrders g) \<inter> consumed = {}" "consumed \<union> oGatewayOrderID ` set (rgOrders g) \<subseteq> consumed'"
proof -
  let ?red = "redemptionBatch pr fills i"
  let ?r = "hd ?red"
  let ?sec = "contributionSecurityID (fSymbol ?r) (fExchange ?r)"
  let ?ro = "case ordersByID orders (fGatewayOrderID ?r) of None \<Rightarrow> Order0 | Some ord \<Rightarrow> ord"
  let ?ex = "firstNonBlank [fT0OrderGroupID ?r, oT0OrderGroupID ?ro]"
  let ?found = "filter (isCandidate fills consumed ?sec ?ex (contributionFillTime ?r)) orders"
  let ?target = "if sumQty ?red \<le> 0 then oOrderQty ?ro else sumQty ?red"
  obtain sel q where sel: "selectOrders (filledOf fills) ?target 0 (order_by orderLater ?found) = (sel, q)" by fastforce
  have "distinct (map oGatewayOrderID ?found)" using assms(1) by (simp add: distinct_map_filter)
  then have d: "distinct (map oGatewayOrderID (order_by orderLater ?found))"
    by (metis by_order_time.order_by_mset mset_map mset_eq_imp_distinct_iff)
  note ids = subseq_ids[OF selectOrders_sub[OF sel] d]
  have cand: "isCandidate fills consumed ?sec ?ex (contributionFillTime ?r) ord \<and> ord \<in> set orders" if "ord \<in> set sel" for ord
    using ids that by auto
  have q: "q = selectedSum (filledOf fills) 0 sel" by (rule selectOrders_sum[OF sel])
  have g: "rgOrders g = (if q \<noteq> ?target \<or> ?target \<le> 0 then [] else sel)" "rgSecurityID g = ?sec" "rgRedemptions g = ?red"
      "rgBuyFills g = concat (map (\<lambda>ord. fillsOfOrder fills (oGatewayOrderID ord)) (rgOrders g))"
      "''incomplete_t0_order_group'' \<in> set (rgFlags g) \<longleftrightarrow> q \<noteq> ?target \<or> ?target \<le> 0"
      "consumed' = insert (fGatewayOrderID ?r) (consumed \<union> set (map oGatewayOrderID (rgOrders g)))"
    using assms(2) unfolding buildT0Group_def Let_def sel prod.case by (auto simp: sel incomplete_flags)
  have t: "redemptionTarget orders g = ?target" by (simp add: redemptionTarget_def g(3) split: option.split)
  show "group_sound orders fills g"
    using cand q by (auto simp: group_sound_def g(1,2,4,5) t isCandidate_def)
  show "distinct (map oGatewayOrderID (rgOrders g))" using ids by (simp add: g(1))
  show "oGatewayOrderID ` set (rgOrders g) \<inter> consumed = {}" using cand by (auto simp: g(1) isCandidate_def)
  show "consumed \<union> oGatewayOrderID ` set (rgOrders g) \<subseteq> consumed'" by (auto simp: g(6))
qed

section \<open>All groups\<close>

lemma T0Loop_sound:
  assumes "distinct (map oGatewayOrderID orders)" "buildT0Loop pr orders fills items units consumed ids = (gs, consumed')"
  shows "(\<forall>g\<in>set gs. group_sound orders fills g) \<and> distinct (concat (map (\<lambda>g. map oGatewayOrderID (rgOrders g)) gs))
     \<and> set (concat (map (\<lambda>g. map oGatewayOrderID (rgOrders g)) gs)) \<inter> consumed = {}"
  using assms(2)
proof (induction ids arbitrary: consumed gs)
  case (Cons i ids)
  obtain g c1 where g: "buildT0Group pr orders fills items units consumed i = (g, c1)" by fastforce
  obtain gs1 c2 where l: "buildT0Loop pr orders fills items units c1 ids = (gs1, c2)" by fastforce
  have gs: "gs = g # gs1" using Cons.prems g l by simp
  note group0 = T0Group_sound[OF assms(1) g]
  have rest: "(\<forall>g\<in>set gs1. group_sound orders fills g) \<and> distinct (concat (map (\<lambda>g. map oGatewayOrderID (rgOrders g)) gs1))
     \<and> set (concat (map (\<lambda>g. map oGatewayOrderID (rgOrders g)) gs1)) \<inter> c1 = {}"
    by (rule Cons.IH) (use l Cons.prems g in auto)
  then have "set (concat (map (\<lambda>g. map oGatewayOrderID (rgOrders g)) gs1)) \<inter> (consumed \<union> oGatewayOrderID ` set (rgOrders g)) = {}"
    using group0(4) by blast
  then show ?case using group0(1-3) rest by (simp add: gs Int_Un_distrib Int_Un_distrib2 Int_commute)
qed simp

text \<open>C20: Every buy order backs at most one redemption: the orders of all redemption groups of a day are pairwise different,
  they are filled buy orders of the security that is redeemed, the group takes all their fills, and a group that is not
  marked incomplete bought exactly the quantity it redeems, which is positive; an incomplete one takes no order.\<close>

theorem t0_orders_back_one_redemption:
  assumes "distinct (map oGatewayOrderID orders)" "buildT0Groups pr orders fills instruments units = (groups, consumedOrders, consumedFills)"
  shows "distinct (concat (map (\<lambda>g. map oGatewayOrderID (rgOrders g)) groups)) \<and> (\<forall>g\<in>set groups. group_sound orders fills g)"
proof -
  obtain gs c where "buildT0Loop pr orders fills instruments units {} (redemptionOrderIDs pr fills) = (gs, c)" by fastforce
  then show ?thesis using T0Loop_sound[OF assms(1)] assms(2) by (fastforce simp: buildT0Groups_def)
qed

end
