(* ===== verification/Cost_Demo.thy ===== *)
theory Cost_Demo
  imports Group_Laws Fill_Laws
begin

text \<open>
  A day of one account on which 100 shares are bought and sold again, with the fee of each fill
  reported by the broker: the properties of the cost ledger applied to it.
\<close>

section \<open>The day\<close>

definition day_fill :: "string \<Rightarrow> string \<Rightarrow> TradeSide \<Rightarrow> gotime \<Rightarrow> Fill" where
  "day_fill i gw side time0 =
     \<lparr>fFillID = i, fAccountID = ''A1'', fGatewayOrderID = gw, fOrderID = 0, fOrderStreamID = [], fSymbol = ''600000'', fName = [],
      fExchange = ''SH'', fTradeSide = side, fBusinessType = [], fPrice = Fin 10, fQty = 100, fFee = Fin 5,
      fTradeDate = ''2026-07-01'', fMatchTimestamp = 0, fMatchedAt = time0, fShareholderID = [], fStrategyType = [], fStrategyID = [],
      fBasketID = [], fParentOrderID = [], fT0OrderGroupID = [], fAdapterContext = None\<rparr>"

definition day_fills :: "Fill list" where
  "day_fills = [day_fill ''F1'' ''gw-1'' TradeSideBuy 50, day_fill ''F2'' ''gw-2'' TradeSideSell 60]"

definition day_inception :: PerformanceInception where
  "day_inception = Inception0\<lparr>piAccountID := ''A1'', piInceptionDate := ''2026-07-01'', piStatus := ''confirmed'',
     piOpeningPositionSource := ''broker_open_snapshot''\<rparr>"

definition day_service :: "unit PerformanceService" where
  "day_service =
     \<lparr>svListOrders = (\<lambda>q. ret []), svListFills = (\<lambda>q. ret day_fills), svListOrderFeeRecords = (\<lambda>q. ret []),
      svListPositionSnapshots = (\<lambda>q. ret []), svListComponentTransfers = None, svGetAssetPositionObservation = (\<lambda>a d t. ret ()),
      svListFeeRules = (\<lambda>a b c n. ret []), svGetPerformanceInception = (\<lambda>a. ret day_inception),
      svListPositionCostStates = (\<lambda>a d b. ret []), svUpsertPositionCostState = ret, svCalendar = None, svMarket = None,
      svNow = (\<lambda>s. (7, s))\<rparr>"

definition day_env :: perf_env where
  "day_env = \<lparr>pePrint = (\<lambda>_. []), peParseFloat = (\<lambda>_. None), peVisitGroups = (\<lambda>_ xs. xs), peVisitKeys = (\<lambda>_ xs. xs)\<rparr>"

lemma day_words: "TrimSpace ''600000'' = ''600000''" "TrimSpace ''SH'' = ''SH''" "TrimSpace ''A1'' = ''A1''"
    "TrimSpace ''2026-07-01'' = ''2026-07-01''" "TrimSpace ''gw-1'' = ''gw-1''" "TrimSpace ''gw-2'' = ''gw-2''"
    "TrimSpace ''broker_open_snapshot'' = ''broker_open_snapshot''"
  by (rule TrimSpace_ascii_word, simp add: ascii_word_def)+

lemma day_date: "parseTradeDate ''2026-07-01'' = Inr (''2026-07-01'', dateInstant (2026, 7, 1))"
proof -
  have "parseDate10 ''2026-07-01'' = Some (2026, 7, 1)" "formatDate (2026, 7, 1) = ''2026-07-01''" by code_simp+
  then show ?thesis by (simp only: parseTradeDate_def day_words Let_def option.case)
qed

lemma day_security: "contributionSecurityID ''600000'' ''SH'' = ''600000.SH''"
proof -
  have "ToUpper ''SH'' = ''SH''" "ToUpper ''600000.SH'' = ''600000.SH''" "\<not> Contains ''600000'' ''.''" by code_simp+
  then show ?thesis by (simp add: contributionSecurityID_def day_words)
qed

lemma page_short: "length xs < limit \<Longrightarrow> scanPages (\<lambda>c. ret xs) limit e p (Suc n) items s = (Inr (items @ xs), s)"
  by (simp add: seq_def)

lemma EqualFold_Nil: "EqualFold [] v \<longleftrightarrow> v = []"
  by (cases v) (simp_all add: EqualFold_def fold_key.simps)

lemma day_fields: "piInceptionDate day_inception = ''2026-07-01''" "piOpeningPositionSource day_inception = ''broker_open_snapshot''"
  by (simp_all add: day_inception_def)

lemma day_marks: "\<not> marksAtPreClose ''2026-07-01'' day_inception"
  by (simp add: marksAtPreClose_def day_inception_def Inception0_def EqualFold_Nil meridianPreCloseMarkToMarketCostSource_def)

lemma seq_ret: "seq (ret x) f = f x" and attempt_ret: "attempt (ret x) g = g (Inr x)"
  by (simp_all add: fun_eq_iff)

lemma day_lists:
  "listContributionOrders day_service a d = ret []" "listTradeDateFills day_service a d = ret day_fills"
  "listContributionPositions day_service a d t = ret []" "listOrderFeeRecords day_service a d = ret []"
  "listContributionComponentTransfers day_service a d = ret []"
  by (simp_all add: fun_eq_iff listContributionOrders_def listTradeDateFills_def listContributionPositions_def listOrderFeeRecords_def
      listContributionComponentTransfers_def day_service_def page_short[where n = 39, simplified] page_short[where n = 3, simplified]
      day_fills_def del: scanPages.simps)

lemma day_fill_fields [simp]:
  "fFillID (day_fill i gw side t) = i" "fGatewayOrderID (day_fill i gw side t) = gw" "fTradeSide (day_fill i gw side t) = side"
  "fQty (day_fill i gw side t) = 100" "fMatchedAt (day_fill i gw side t) = t" "fSymbol (day_fill i gw side t) = ''600000''"
  "fExchange (day_fill i gw side t) = ''SH''" "fAdapterContext (day_fill i gw side t) = None" "fAccountID (day_fill i gw side t) = ''A1''"
  "fFee (day_fill i gw side t) = Fin 5" "fBusinessType (day_fill i gw side t) = []"
  by (simp_all add: day_fill_def)

lemma day_keys: "contributionFillKey (day_fill ''F1'' ''gw-1'' s t) \<noteq> contributionFillKey (day_fill ''F2'' ''gw-2'' s' t')"
  by (simp add: contributionFillKey_def)

lemma day_dedupe: "dedupeContributionFills day_fills = day_fills"
  by (simp add: day_keys[symmetric] dedupeContributionFills_def day_fills_def isSummaryFill_def)

lemma day_sorted: "order_by matchedFirst day_fills = day_fills"
  by (simp add: order_by_def day_fills_def matchedFirst_def)

lemma day_links:
  "buildComponentSaleLinks pr (\<lambda>_ xs. xs) [] day_fills [] = \<lparr>csByFill = Map.empty, csGroups = [], csFlags = []\<rparr>"
proof -
  have "linkSales pr (\<lambda>_ xs. xs) n fs \<lparr>csByFill = Map.empty, csGroups = [], csFlags = []\<rparr>
          = \<lparr>csByFill = Map.empty, csGroups = [], csFlags = []\<rparr>" for n fs
    by (induction fs arbitrary: n) (simp_all add: linkSale_def Let_def)
  then show ?thesis by (simp add: buildComponentSaleLinks_def)
qed

lemma day_loop: "ordinaryLoop \<lparr>csByFill = Map.empty, csGroups = [], csFlags = []\<rparr> day_fills [] = (day_fills, [])"
  by (simp add: day_fills_def isReverseRepo_def day_words excludes_def linksOf_def)

lemma day_ordinary: "ordinaryFills day_env [] day_fills (Inr []) [] = (day_fills, [])"
  by (simp add: ordinaryFills_def day_dedupe day_env_def day_links day_loop day_sorted redemptionFillsFromComponentTransfers_def)

lemma day_no_redemption: "filter (isRedemptionFill (\<lambda>_. [])) day_fills = []"
  by (simp add: day_fills_def isRedemptionFill_def isETFBusinessRedemption_def ctx_lookup_def EqualFold_Nil)

definition day_bought :: costWorkingState where
  "day_bought = costFill (day_fill ''F1'' ''gw-1'' TradeSideBuy 50) (Fee0\<lparr>cfActual := Fin 5, cfEffective := Fin 5, cfSource := ''actual''\<rparr>)
     (newCostWorkingState ''A1'' ''2026-07-01'' ''600000'' ''SH'' ''broker_open_snapshot'')"

definition day_sold :: costWorkingState where
  "day_sold = costFill (day_fill ''F2'' ''gw-2'' TradeSideSell 60) (Fee0\<lparr>cfActual := Fin 5, cfEffective := Fin 5, cfSource := ''actual''\<rparr>) day_bought"

lemma day_fee:
  "contributionFeeForFill pr (day_fill i gw side t) inst rules Map.empty c =
     (Fee0\<lparr>cfActual := Fin 5, cfEffective := Fin 5, cfSource := ''actual''\<rparr>, c)"
  by (simp add: contributionFeeForFill_def calculateContributionFillFee_def feeSourceOf_def ctx_lookup_def fzero_def Let_def)

lemma day_costs:
  "costFills pr {} items rules Map.empty {} day_fills
     [(''600000.SH'', newCostWorkingState ''A1'' ''2026-07-01'' ''600000'' ''SH'' ''broker_open_snapshot'')] = [(''600000.SH'', day_sold)]"
  by (simp add: day_fills_def day_fee day_security Let_def day_sold_def day_bought_def)

lemma day_sold_fields:
  "cwQuantity day_sold = 0" "pcStatus (cwItem day_sold) = ''calculated''" "pcFeeSource (cwItem day_sold) = ''mixed''"
  "pcBuyQuantity (cwItem day_sold) = 100" "pcSellQuantity (cwItem day_sold) = 100" "cwFlags day_sold = []"
  by (simp_all add: day_sold_def day_bought_def costFill_def buyFill_def sellFill_def noteFee_def addFlags_def Let_def
      newCostWorkingState_def Fee0_def mergeContributionFeeSource_def wrap64_id is_int64_def)

definition day_item :: PositionCostState where
  "day_item = closeState 0 (newInstrument ''600000.SH'') 7 day_sold"

definition day_result :: CostLedgerResult where
  "day_result = finalizeCostLedgerResult ((newResult ''A1'' ''2026-07-01'' 7)\<lparr>crInception := day_inception,
     crOpeningSource := ''broker_open_snapshot'', crStatus := ''calculated'', crQualityFlags := [''meridian_contribution_market_unavailable''],
     crPositions := [day_item]\<rparr>)"

lemma day_positions:
  "dayPositions day_env day_service day_inception [] [] ''broker_open_snapshot'' False
     ((newResult ''A1'' ''2026-07-01'' 7)\<lparr>crInception := day_inception\<rparr>) () = (Inr day_result, ())"
proof -
  have fields: "svCalendar day_service = None" "svMarket day_service = None" "svGetAssetPositionObservation day_service = (\<lambda>a d t. ret ())"
      "svListFeeRules day_service = (\<lambda>a b c n. ret [])" "pePrint day_env = (\<lambda>_. [])" "peVisitKeys day_env = (\<lambda>_ xs. xs)"
      "piInceptionDate day_inception = ''2026-07-01''" "piCostSource day_inception = []"
    by (simp_all add: day_service_def day_env_def day_inception_def Inception0_def)
  have new: "crAccountID (newResult a d n) = a" "crTradeDate (newResult a d n) = d" "crCalculatedAt (newResult a d n) = n"
      "crQualityFlags (newResult a d n) = []" "crStatus (newResult a d n) = ''calculated''" for a d n
    by (simp_all add: newResult_def)
  have work: "ensureFills ''A1'' ''2026-07-01'' ''broker_open_snapshot'' day_fills [] =
      [(''600000.SH'', newCostWorkingState ''A1'' ''2026-07-01'' ''600000'' ''SH'' ''broker_open_snapshot'')]"
    by (simp add: ensureFills_def day_fills_def ensureState_def day_security)
  have secs: "securityList day_env [] [] day_fills [] = [''600000.SH'']"
    by (simp add: securityList_def fields day_fills_def day_security)
  have inst: "loadContributionInstruments day_env day_service d [k] = ret ([(k, newInstrument k)], [''meridian_contribution_market_unavailable''])" for d k
    by (simp add: loadContributionInstruments_def fields)
  have units: "loadPCFRedemptionUnits day_env day_service d day_fills = ret ([], [])" for d
    by (simp add: loadPCFRedemptionUnits_def fields day_no_redemption sort_Strings_def)
  have groups: "buildT0Groups (\<lambda>_. []) [] day_fills items u = ([], {}, {})" for items u
    by (simp add: buildT0Groups_def redemptionOrderIDs_def day_no_redemption)
  show ?thesis
    unfolding dayPositions_def Let_def
    by (simp add: seq_ret attempt_ret day_lists day_ordinary fields new day_marks work secs inst units groups supplementClosePositionsFromNextOpen_def keyed_def
        ensurePositions_def buildT0CostBuckets_def authoritativeOrderFees_def day_costs closeWorking_def sort_Strings_def positionAt_def
        Position0_def instrumentOf_def day_result_def day_item_def)
qed

lemma day_run: "CalculateCostLedger day_env day_service ''A1'' ''2026-07-01'' False () = (Inr day_result, ())"
proof -
  have open0: "dayOpening day_service ''A1'' ''2026-07-01'' day_inception [] = ret (Opened [] ''broker_open_snapshot'' [] False)"
    by (simp add: dayOpening_def day_marks openWorking_def day_fields)
  have fields: "svNow day_service = (\<lambda>s. (7, s))" "svGetPerformanceInception day_service = (\<lambda>a. ret day_inception)"
      "piStatus day_inception = ''confirmed''" "piInceptionDate day_inception = ''2026-07-01''"
    by (simp_all add: day_service_def day_inception_def)
  have total: "of_total (\<lambda>s. (x, s)) = ret x" for x :: gotime by (simp add: fun_eq_iff of_total_def)
  have new: "(newResult a d n)\<lparr>crInception := i, crQualityFlags := []\<rparr> = (newResult a d n)\<lparr>crInception := i\<rparr>" for a d n i
    by (simp add: newResult_def)
  show ?thesis
    by (simp add: CalculateCostLedger_def day_words day_date fields day_lists open0 day_positions new seq_ret attempt_ret total savePositions_def Let_def)
qed

section \<open>The properties applied\<close>

lemma newResult_fields0: "crSummary (newResult a d n) = Summary0" "crPositions (newResult a d n) = []"
  by (simp_all add: newResult_def)

lemma day_result_positions: "crPositions day_result = [day_item]"
  by (simp add: day_result_def)

lemma newInstrument_unpriced: "ciHasClose (newInstrument k) = False"
  by (simp add: newInstrument_def Instrument0_def split: prod.split)

lemma day_item_status: "pcStatus day_item = ''calculated''"
  by (simp add: day_item_def closeState_def Let_def day_sold_fields newInstrument_unpriced containsStringValue_def wrap64_id is_int64_def)

theorem cost_ledger_reconciles_witness: "crPositions day_result \<noteq> [] \<and> list_all reconciled (crPositions day_result)"
proof -
  have "keeps_figures day_service" by (simp add: keeps_figures_def day_service_def)
  from cost_ledger_reconciles[OF this day_run] show ?thesis by (simp add: day_result_positions day_item_status list_all_iff)
qed

text \<open>Both fills have the source \<^verbatim>\<open>actual\<close>.\<close>

theorem cost_fee_source_lost_witness: "pcFeeSource day_item \<in> {''none'', ''mixed'', ''included_in_etf_t0_friction''} \<and> pcFeeSource day_item = ''mixed''"
  using cost_fee_source_lost[OF day_run, of day_item]
  by (simp add: day_result_positions day_item_def closeState_fields day_sold_fields)

lemma day_fee_known: "authoritativeOrderFees [demo_fee] ''gw-1'' = Some demo_fee"
proof -
  have "TrimSpace ''broker'' = ''broker''" by (rule TrimSpace_ascii_word) (simp add: ascii_word_def)
  then show ?thesis by (simp add: authoritativeOrderFees_def demo_fee_def day_words Let_def)
qed

text \<open>Two fills of one order with an authoritative fee.\<close>

theorem order_fee_charged_once_witness:
  "\<exists>trail. feesOf ''gw-1'' trail = [orderFee demo_fee, Fee0]
     \<and> map fst trail = [day_fill ''F1'' ''gw-1'' TradeSideBuy 50, day_fill ''F3'' ''gw-1'' TradeSideBuy 55]"
proof -
  let ?a = "day_fill ''F1'' ''gw-1'' TradeSideBuy 50" and ?b = "day_fill ''F3'' ''gw-1'' TradeSideBuy 55"
  have "filter (\<lambda>f. TrimSpace (fGatewayOrderID f) = ''gw-1'' \<and> contributionFillKey f \<notin> {}) [?a, ?b] = ?a # [?b]"
    by (simp add: day_words)
  from order_fee_charged_once[OF day_fee_known this, of "\<lambda>_. []" "[]" "[]" "[]"]
  show ?thesis by auto
qed

definition estimated_item :: PositionCostState where
  "estimated_item = (cwItem (newCostWorkingState [] [] [] [] []))\<lparr>pcStatus := ''estimated''\<rparr>"

theorem blocked_result_let_through_witness:
  "crStatus (finalizeCostLedgerResult ((newResult ''A1'' ''2026-07-01'' 7)\<lparr>crStatus := ''blocked'', crPositions := [estimated_item]\<rparr>))
     = ''estimated''"
  by (rule blocked_result_let_through) (simp_all add: newResult_fields0 estimated_item_def newState_item)

theorem cost_summary_partition_witness:
  "let m = crSummary (finalizeCostLedgerResult ((newResult ''A1'' ''2026-07-01'' 7)\<lparr>crPositions := [estimated_item]\<rparr>))
   in csBlockedItems m + csEstimatedItems m + csCalculatedItems m = 1"
  using cost_summary_partition[of "(newResult ''A1'' ''2026-07-01'' 7)\<lparr>crPositions := [estimated_item]\<rparr>"]
  by (simp add: newResult_fields0 Let_def)

text \<open>A redemption of 100 shares backed by one order that bought 100.\<close>

definition day_order :: Order where
  "day_order = Order0\<lparr>oAccountID := ''A1'', oGatewayOrderID := ''gw-1'', oSymbol := ''600000'', oExchange := ''SH'',
     oTradeSide := TradeSideBuy, oOrderQty := 100, oAcceptedAt := 40\<rparr>"

abbreviation "day_redeemed \<equiv> [day_fill ''F1'' ''gw-1'' TradeSideBuy 50, day_fill ''F2'' ''R1'' TradeSideRedemption 60]"

lemma day_group:
  "map rgOrders (fst (buildT0Groups (\<lambda>_. []) [day_order] day_redeemed [] Map.empty)) = [[day_order]]"
proof -
  have red: "filter (isRedemptionFill (\<lambda>_. [])) day_redeemed = [day_fill ''F2'' ''R1'' TradeSideRedemption 60]"
    by (simp add: isRedemptionFill_def isETFBusinessRedemption_def ctx_lookup_def EqualFold_Nil)
  have batch: "redemptionBatch (\<lambda>_. []) day_redeemed ''R1'' = [day_fill ''F2'' ''R1'' TradeSideRedemption 60]"
    by (simp only: redemptionBatch_def red) (simp add: fillsOfOrder_def)
  have ids: "redemptionOrderIDs (\<lambda>_. []) day_redeemed = [''R1'']"
    unfolding redemptionOrderIDs_def red by simp
  have qty: "contributionOrderFilledQuantity (fillsOfOrder day_redeemed ''gw-1'') = 100"
    by (simp add: fillsOfOrder_def contributionOrderFilledQuantity_def positiveQty_def wrap64_id is_int64_def)
  have ord: "oGatewayOrderID day_order = ''gw-1''" "oSymbol day_order = ''600000''" "oExchange day_order = ''SH''"
      "oTradeSide day_order = TradeSideBuy" "contributionOrderTime day_order = 40"
    by (simp_all add: day_order_def Order0_def contributionOrderTime_def IsZero_def zeroTime_def)
  have time0: "contributionFillTime (day_fill i gw side 60) = 60" for i gw side
    by (simp add: contributionFillTime_def IsZero_def zeroTime_def second_def)
  have cand: "isCandidate day_redeemed {} ''600000.SH'' [] 60 day_order"
    unfolding isCandidate_def ord qty by (simp add: day_security isETFBusinessRedemption_def IsZero_def zeroTime_def second_def)
  have none: "firstNonBlank [fT0OrderGroupID (day_fill i gw side t), oT0OrderGroupID Order0] = []" for i gw side t
    by (simp add: day_fill_def Order0_def)
  have sum0: "sumQty [day_fill i gw side t] = 100" for i gw side t by (simp add: sumQty_def wrap64_id is_int64_def)
  have unknown: "ordersByID [day_order] ''R1'' = None" by (simp add: ordersByID_def ord)
  have "rgOrders (fst (buildT0Group (\<lambda>_. []) [day_order] day_redeemed [] Map.empty {} ''R1'')) = [day_order]"
    unfolding buildT0Group_def Let_def batch list.sel day_fill_fields day_security unknown option.case none time0 sum0
    by (simp add: cand ord qty wrap64_id is_int64_def del: firstNonBlank.simps)
  then show ?thesis
    unfolding buildT0Groups_def ids by (cases "buildT0Group (\<lambda>_. []) [day_order] day_redeemed [] Map.empty {} ''R1''") simp
qed

theorem t0_orders_back_one_redemption_witness:
  "map rgOrders (fst (buildT0Groups (\<lambda>_. []) [day_order] day_redeemed [] Map.empty)) = [[day_order]]
   \<and> list_all (group_sound [day_order] day_redeemed) (fst (buildT0Groups (\<lambda>_. []) [day_order] day_redeemed [] Map.empty))"
proof -
  obtain gs c f where b: "buildT0Groups (\<lambda>_. []) [day_order] day_redeemed [] Map.empty = (gs, c, f)" by (metis prod_cases3)
  show ?thesis using t0_orders_back_one_redemption[OF _ b] day_group b by (simp add: list_all_iff)
qed

end
