(* ===== verification/Cost_Store.thy ===== *)
theory Cost_Store
  imports Cost_Laws Ledger_Fills
begin

text \<open>
  The store of the cost ledger (\<^verbatim>\<open>internal/ledger/cost.go\<close>): the tables of inceptions and of position costs as
  the migrations 000020 and 000023 declare them, as an extension of the state of the other tables, their
  statements, and the operations. The corporate action factor is NUMERIC(20,12): its conversion is the
  argument \<open>F\<close>. The service that stores in these tables satisfies the condition of the cost ledger.
\<close>

section \<open>Inceptions\<close>

record 'b cost_tables = "'b ledger_tables" +
  tbInceptions :: "PerformanceInception list"
  tbCosts :: "PositionCostState list"

type_synonym ('b, 'z, 'r) cost_act = "(('b, 'z) cost_tables_scheme, 'r) act"

definition normalizeInception :: "PerformanceInception \<Rightarrow> error + PerformanceInception" where
  "normalizeInception item =
     (if TrimSpace (piAccountID item) = [] then Inl (ErrInvalidLedgerInput ''account_id is required'')
      else case normalizeTradeDate (piInceptionDate item) of
             Inl e \<Rightarrow> Inl e
           | Inr d \<Rightarrow>
               let i = item\<lparr>piAccountID := TrimSpace (piAccountID item), piInceptionDate := d,
                     piStatus := firstLedgerValue (piStatus item) ''draft'',
                     piOpeningPositionSource := firstLedgerValue (piOpeningPositionSource item) ''broker_open_snapshot'',
                     piCostSource := firstLedgerValue (piCostSource item) ''broker_open_snapshot''\<rparr>
               in if flt (piOpeningCash i) fzero then Inl (ErrInvalidLedgerInput ''opening_cash cannot be negative'')
                  else if piStatus i \<notin> {''draft'', ''confirmed'', ''voided''}
                  then Inl (ErrInvalidLedgerInput ''invalid inception status'')
                  else Inr i)"

definition inception_values :: "pg \<Rightarrow> gotime \<Rightarrow> PerformanceInception \<Rightarrow> PerformanceInception" where
  "inception_values P now i =
     i\<lparr>piOpeningCash := pg_money P (piOpeningCash i), piConfirmedBy := of_null [] (nullString (piConfirmedBy i)),
       piConfirmedAt := of_null zeroTime (map_option (pg_time P) (nullTime (piConfirmedAt i))),
       piRawPayload := reload_ctx (piRawPayload i), piCreatedAt := pg_time P now, piUpdatedAt := pg_time P now\<rparr>"

definition put_row :: "('a \<Rightarrow> bool) \<Rightarrow> 'a \<Rightarrow> 'a list \<Rightarrow> 'a list" where
  "put_row same new rows = (if find same rows = None then rows @ [new] else map (\<lambda>r. if same r then new else r) rows)"

definition upsertPerformanceInceptionSQL :: "pg \<Rightarrow> PerformanceInception \<Rightarrow> ('b, 'z, PerformanceInception) cost_act" where
  "upsertPerformanceInceptionSQL P item s =
     (let new = inception_values P (dbServerNow s) item;
          same = (\<lambda>r. piAccountID r = piAccountID new);
          old = find same (tbInceptions s);
          stored = (case old of None \<Rightarrow> new | Some r \<Rightarrow> new\<lparr>piCreatedAt := piCreatedAt r\<rparr>)
      in if piInceptionDate new = [] then (Inl (ErrDatabase ''22007''), s)
         else if \<not> money_fits (piOpeningCash new) then (Inl (ErrDatabase ''22003''), s)
         else if \<not> num_nonnegative (piOpeningCash new) then (Inl (ErrDatabase ''23514''), s)
         else if old = None \<and> dbAccounts s (piAccountID new) = None then (Inl (ErrDatabase ''23503''), s)
         else (Inr stored, s\<lparr>tbInceptions := put_row same stored (tbInceptions s)\<rparr>))"

definition UpsertPerformanceInception :: "pg \<Rightarrow> PerformanceInception \<Rightarrow> ('b, 'z, PerformanceInception) cost_act" where
  "UpsertPerformanceInception P item =
     (case normalizeInception item of Inl e \<Rightarrow> raise e | Inr i \<Rightarrow> run_stmt (upsertPerformanceInceptionSQL P i))"

definition GetPerformanceInception :: "string \<Rightarrow> ('b, 'z, PerformanceInception) cost_act" where
  "GetPerformanceInception accountID =
     seq (run_stmt (\<lambda>s. (Inr (find (\<lambda>r. piAccountID r = TrimSpace accountID) (tbInceptions s)), s)))
       (\<lambda>row. case row of None \<Rightarrow> raise sqlErrNoRows | Some i \<Rightarrow> ret i)"

section \<open>Position costs\<close>

definition normalizePositionCost :: "PositionCostState \<Rightarrow> error + PositionCostState" where
  "normalizePositionCost item =
     (let i = item\<lparr>pcAccountID := TrimSpace (pcAccountID item), pcSymbol := TrimSpace (pcSymbol item),
            pcExchange := ToUpper (TrimSpace (pcExchange item))\<rparr>
      in if pcAccountID i = [] \<or> pcSymbol i = [] \<or> pcExchange i = []
         then Inl (ErrInvalidLedgerInput ''account_id, symbol and exchange are required'')
         else case normalizeTradeDate (pcTradeDate i) of
                Inl e \<Rightarrow> Inl e
              | Inr d \<Rightarrow>
                  Inr (i\<lparr>pcTradeDate := d, pcCostBucket := firstLedgerValue (pcCostBucket i) ''CORE'',
                         pcStatus := firstLedgerValue (pcStatus i) ''calculated'',
                         pcFormulaVersion := firstLedgerValue (pcFormulaVersion i) positionCostFormulaVersion,
                         pcFeeSource := firstLedgerValue (pcFeeSource i) ''none'',
                         pcCorporateActionType := firstLedgerValue (pcCorporateActionType i) ''none'',
                         pcSource := firstLedgerValue (pcSource i) ''relay.performance.cost_ledger''\<rparr>))"

definition cost_values :: "pg \<Rightarrow> (float64 \<Rightarrow> float64) \<Rightarrow> gotime \<Rightarrow> PositionCostState \<Rightarrow> PositionCostState" where
  "cost_values P F now i =
     i\<lparr>pcOpenTotalCost := pg_money P (pcOpenTotalCost i), pcBuyAmount := pg_money P (pcBuyAmount i),
       pcBuyFee := pg_money P (pcBuyFee i), pcSellAmount := pg_money P (pcSellAmount i),
       pcSellFee := pg_money P (pcSellFee i), pcRealizedPnL := pg_money P (pcRealizedPnL i),
       pcCloseTotalCost := pg_money P (pcCloseTotalCost i), pcAverageCost := pg_money P (pcAverageCost i),
       pcClosePrice := pg_money P (pcClosePrice i), pcCloseMarketValue := pg_money P (pcCloseMarketValue i),
       pcUnrealizedPnL := pg_money P (pcUnrealizedPnL i), pcCorporateActionFactor := F (pcCorporateActionFactor i),
       pcCorporateActionContext := reload_ctx (pcCorporateActionContext i),
       pcCalculatedAt := pg_time P (of_null now (nullTime (pcCalculatedAt i))),
       pcCreatedAt := pg_time P now, pcUpdatedAt := pg_time P now\<rparr>"

definition costAmounts :: "PositionCostState \<Rightarrow> float64 list" where
  "costAmounts i = [pcOpenTotalCost i, pcBuyAmount i, pcBuyFee i, pcSellAmount i, pcSellFee i, pcRealizedPnL i,
     pcCloseTotalCost i, pcAverageCost i, pcClosePrice i, pcCloseMarketValue i, pcUnrealizedPnL i]"

definition factor_fits :: "float64 \<Rightarrow> bool" where
  "factor_fits x \<longleftrightarrow> (case x of Fin q \<Rightarrow> \<bar>q\<bar> < 10 ^ 8 | NaN \<Rightarrow> True | _ \<Rightarrow> False)"

text \<open>The CHECK constraints of the table.\<close>

definition cost_checks :: "PositionCostState \<Rightarrow> bool" where
  "cost_checks i \<longleftrightarrow> pcExchange i \<in> {''SH'', ''SZ'', ''BJ''} \<and> pcStatus i \<in> {''calculated'', ''estimated'', ''blocked''}
     \<and> pcOpenQuantity i \<ge> 0 \<and> pcBuyQuantity i \<ge> 0 \<and> pcSellQuantity i \<ge> 0 \<and> pcCloseQuantity i \<ge> 0
     \<and> pcBrokerCloseQuantity i \<ge> 0 \<and> pcPreviousCloseQuantity i \<ge> 0 \<and> pcBrokerOpenQuantity i \<ge> 0
     \<and> num_nonnegative (pcOpenTotalCost i) \<and> num_nonnegative (pcCloseTotalCost i) \<and> num_nonnegative (pcAverageCost i)
     \<and> num_nonnegative (pcCorporateActionFactor i)"

definition same_cost :: "PositionCostState \<Rightarrow> PositionCostState \<Rightarrow> bool" where
  "same_cost a b \<longleftrightarrow> pcAccountID a = pcAccountID b \<and> pcTradeDate a = pcTradeDate b \<and> pcSymbol a = pcSymbol b
     \<and> pcExchange a = pcExchange b \<and> pcCostBucket a = pcCostBucket b"

text \<open>\<^verbatim>\<open>ON CONFLICT ... DO UPDATE\<close> sets every column but the key and the creation time.\<close>

definition upsertPositionCostStateSQL ::
    "pg \<Rightarrow> (float64 \<Rightarrow> float64) \<Rightarrow> PositionCostState \<Rightarrow> ('b, 'z, PositionCostState) cost_act" where
  "upsertPositionCostStateSQL P F item s =
     (let new = cost_values P F (dbServerNow s) item;
          old = find (same_cost new) (tbCosts s);
          stored = (case old of None \<Rightarrow> new | Some r \<Rightarrow> new\<lparr>pcCreatedAt := pcCreatedAt r\<rparr>)
      in if pcTradeDate new = [] then (Inl (ErrDatabase ''22007''), s)
         else if \<not> list_all money_fits (costAmounts new) \<or> \<not> factor_fits (pcCorporateActionFactor new)
         then (Inl (ErrDatabase ''22003''), s)
         else if \<not> cost_checks new then (Inl (ErrDatabase ''23514''), s)
         else if old = None \<and> dbAccounts s (pcAccountID new) = None then (Inl (ErrDatabase ''23503''), s)
         else (Inr stored, s\<lparr>tbCosts := put_row (same_cost new) stored (tbCosts s)\<rparr>))"

definition UpsertPositionCostState ::
    "pg \<Rightarrow> (float64 \<Rightarrow> float64) \<Rightarrow> PositionCostState \<Rightarrow> ('b, 'z, PositionCostState) cost_act" where
  "UpsertPositionCostState P F item =
     (case normalizePositionCost item of Inl e \<Rightarrow> raise e | Inr i \<Rightarrow> run_stmt (upsertPositionCostStateSQL P F i))"

text \<open>\<^verbatim>\<open>ORDER BY cost_bucket, symbol, exchange\<close>.\<close>

definition cost_first :: "PositionCostState \<Rightarrow> PositionCostState \<Rightarrow> bool" where
  "cost_first a b \<longleftrightarrow> string_less (pcCostBucket a) (pcCostBucket b)
     \<or> pcCostBucket a = pcCostBucket b
       \<and> (string_less (pcSymbol a) (pcSymbol b) \<or> pcSymbol a = pcSymbol b \<and> string_less (pcExchange a) (pcExchange b))"

definition listPositionCostStatesSQL :: "string \<Rightarrow> string \<Rightarrow> PositionCostState list \<Rightarrow> PositionCostState list" where
  "listPositionCostStatesSQL accountID date rows =
     order_by cost_first (filter (\<lambda>r. pcAccountID r = accountID \<and> pcTradeDate r = date) rows)"

definition listLatestPositionCostStatesBeforeSQL :: "string \<Rightarrow> string \<Rightarrow> PositionCostState list \<Rightarrow> PositionCostState list" where
  "listLatestPositionCostStatesBeforeSQL accountID date rows =
     (case filter (\<lambda>d. d < dateNum date) (map (dateNum \<circ> pcTradeDate) (filter (\<lambda>r. pcAccountID r = accountID) rows)) of
        [] \<Rightarrow> []
      | d # ds \<Rightarrow> order_by cost_first (filter (\<lambda>r. pcAccountID r = accountID \<and> dateNum (pcTradeDate r) = foldl max d ds) rows))"

definition ListPositionCostStates :: "string \<Rightarrow> string \<Rightarrow> string \<Rightarrow> ('b, 'z, PositionCostState list) cost_act" where
  "ListPositionCostStates accountID tradeDate beforeDate =
     (if TrimSpace accountID = [] then raise (ErrInvalidLedgerInput ''account_id is required'')
      else let onDay = TrimSpace tradeDate \<noteq> []
           in case normalizeTradeDate (if onDay then tradeDate else beforeDate) of
                Inl e \<Rightarrow> raise e
              | Inr d \<Rightarrow>
                  run_stmt (\<lambda>s. if d = [] then (Inl (ErrDatabase ''22007''), s)
                    else (Inr ((if onDay then listPositionCostStatesSQL else listLatestPositionCostStatesBeforeSQL)
                                 (TrimSpace accountID) d (tbCosts s)), s)))"

section \<open>The service on the repository\<close>

text \<open>A performance service whose inceptions and position costs are kept by the repository.\<close>

definition cost_repository ::
    "pg \<Rightarrow> (float64 \<Rightarrow> float64) \<Rightarrow> ('b, 'z) cost_tables_scheme PerformanceService \<Rightarrow> ('b, 'z) cost_tables_scheme PerformanceService" where
  "cost_repository P F sv = sv\<lparr>svGetPerformanceInception := GetPerformanceInception,
     svListPositionCostStates := ListPositionCostStates, svUpsertPositionCostState := UpsertPositionCostState P F\<rparr>"

lemma known_status_kept: "known_status x \<Longrightarrow> firstLedgerValue x d = x"
  unfolding known_status_def firstLedgerValue_def by (elim insertE emptyE) (simp_all add: TrimSpace_ascii_word)

lemma normalizePositionCost_figures:
  "normalizePositionCost p = Inr i \<Longrightarrow> known_status (pcStatus p) \<Longrightarrow> figures i = figures p"
  unfolding normalizePositionCost_def Let_def
  by (simp add: figures_def known_status_kept split: if_splits sum.splits) (force simp: known_status_kept)

lemma upsertPositionCostStateSQL_figures:
  "upsertPositionCostStateSQL P F i s = (Inr q, t) \<Longrightarrow> figures q = figures i"
  by (auto simp: upsertPositionCostStateSQL_def Let_def figures_def cost_values_def split: if_splits option.splits)

lemma run_stmt_result: "run_stmt m s = (Inr x, t) \<Longrightarrow> \<exists>s'. m s' = (Inr x, t)"
  by (auto simp: run_stmt_def Let_def split: list.splits fault.splits)

theorem repository_keeps_figures: "keeps_figures (cost_repository P F sv)"
  unfolding keeps_figures_def cost_repository_def
  by (auto simp: UpsertPositionCostState_def raise_def split: sum.splits
      dest!: run_stmt_result upsertPositionCostStateSQL_figures dest: normalizePositionCost_figures)

text \<open>What was saved is in the table, and the list of its day shows it.\<close>

lemma put_row_member: "same new \<Longrightarrow> new \<in> set (put_row same new rows)"
  by (auto simp: put_row_def find_None_iff image_iff)

lemma same_cost_created: "same_cost a (b\<lparr>pcCreatedAt := c\<rparr>) = same_cost a b"
  by (simp add: same_cost_def)

theorem saved_cost_listed:
  assumes "UpsertPositionCostState P F item s = (Inr q, t)"
  shows "q \<in> set (tbCosts t) \<and> q \<in> set (listPositionCostStatesSQL (pcAccountID q) (pcTradeDate q) (tbCosts t))"
proof -
  obtain i s' where "upsertPositionCostStateSQL P F i s' = (Inr q, t)"
    using assms by (auto simp: UpsertPositionCostState_def raise_def split: sum.splits dest!: run_stmt_result)
  then have "q \<in> set (tbCosts t)"
    by (auto simp: upsertPositionCostStateSQL_def Let_def same_cost_created same_cost_def intro!: put_row_member
        split: if_splits option.splits)
  then show ?thesis by (simp add: listPositionCostStatesSQL_def)
qed

end
