(* ===== verification/Archive_Replay.thy ===== *)
theory Archive_Replay
  imports Sync_Ledger
begin

text \<open>
  The replay of archived gateway messages, \<^verbatim>\<open>internal/redisstream/archive_replay.go\<close>: the messages of a window are read
  from the archive stage by stage and processed again with a writer that does not archive and does not synthesise
  fills. The text of a \<^verbatim>\<open>jsonb\<close> body and the row at which an iteration breaks off are parameters.
\<close>

section \<open>Options\<close>

record ArchiveReplayOptions =
  aoAccountID :: string
  aoDateFrom :: string
  aoDateTo :: string
  aoStages :: "string list"

fun normalizeStages :: "string list \<Rightarrow> string list \<Rightarrow> error + string list" where
  "normalizeStages [] seen = Inr seen"
| "normalizeStages (stage0 # stages) seen =
     (let stage = ToLower (TrimSpace stage0)
      in if stage \<notin> {''orders'', ''fills'', ''transfers''}
         then Inl (ErrText (''unsupported replay stage '' @ stage))
         else if stage \<in> set seen then normalizeStages stages seen
         else normalizeStages stages (seen @ [stage]))"

fun checkReplayDates :: "(string \<times> string) list \<Rightarrow> error option" where
  "checkReplayDates [] = None"
| "checkReplayDates ((label, v) # rest) =
     (if v = [] then checkReplayDates rest
      else if parseDate10 v = None then Some (ErrText (label @ '' must be YYYY-MM-DD''))
      else checkReplayDates rest)"

text \<open>\<open>visit\<close> is the order in which Go visits the two labels.\<close>

definition normalizeArchiveReplayOptions ::
    "((string \<times> string) list \<Rightarrow> (string \<times> string) list) \<Rightarrow> ArchiveReplayOptions \<Rightarrow> error + ArchiveReplayOptions" where
  "normalizeArchiveReplayOptions visit o0 =
     (let opts = o0\<lparr>aoAccountID := TrimSpace (aoAccountID o0), aoDateFrom := TrimSpace (aoDateFrom o0),
            aoDateTo := TrimSpace (aoDateTo o0)\<rparr>
      in case (if aoStages opts = [] then Inr [''orders'', ''fills'', ''transfers'']
               else case normalizeStages (aoStages opts) [] of
                      Inl e \<Rightarrow> Inl e
                    | Inr [] \<Rightarrow> Inl (ErrText ''at least one replay stage is required'')
                    | Inr stages \<Rightarrow> Inr stages) of
           Inl e \<Rightarrow> Inl e
         | Inr stages \<Rightarrow>
             (case checkReplayDates (visit [(''date_from'', aoDateFrom opts), (''date_to'', aoDateTo opts)]) of
                Some e \<Rightarrow> Inl e
              | None \<Rightarrow>
                  if aoDateFrom opts \<noteq> [] \<and> aoDateTo opts \<noteq> [] \<and> string_less (aoDateTo opts) (aoDateFrom opts)
                  then Inl (ErrText ''date_from must be on or before date_to'')
                  else Inr (opts\<lparr>aoStages := stages\<rparr>)))"

section \<open>Selecting archived messages\<close>

definition stagePredicate :: "string \<Rightarrow> json RawStreamMessage \<Rightarrow> bool" where
  "stagePredicate stage m \<longleftrightarrow>
     (if stage = ''orders''
      then rmRole m = ''event'' \<and> rmEventType m = ''order.event'' \<or> rmRole m = ''reply'' \<and> rmAction m = ''order.list.query''
      else if stage = ''fills''
      then rmRole m = ''event'' \<and> rmEventType m = ''fill.event'' \<or> rmRole m = ''reply'' \<and> rmAction m = ''fill.list.query''
      else rmRole m = ''event'' \<and> rmEventType m \<in> {''transfer.event'', ''etf_component_transfer.event''})"

text \<open>\<^verbatim>\<open>COALESCE(NULLIF(body_text, ''), body::text)\<close>, the text of a NULL being NULL.\<close>

definition archivedBody :: "(json \<Rightarrow> string) \<Rightarrow> json RawStreamMessage \<Rightarrow> string option" where
  "archivedBody bodyText m = (if rmBodyText m \<noteq> [] then Some (rmBodyText m) else map_option bodyText (rmBody m))"

definition businessDay :: "gotime \<Rightarrow> int" where
  "businessDay t = (t + businessOffset) div day_length"

definition archive_matches :: "(json \<Rightarrow> string) \<Rightarrow> ArchiveReplayOptions \<Rightarrow> string \<Rightarrow> json RawStreamMessage \<Rightarrow> bool" where
  "archive_matches bodyText opts stage m \<longleftrightarrow>
     rmParseError m = [] \<and> archivedBody bodyText m \<noteq> None \<and> archivedBody bodyText m \<noteq> Some [] \<and> stagePredicate stage m
     \<and> (aoAccountID opts = [] \<or> rmAccountID m = aoAccountID opts)
     \<and> (aoDateFrom opts = [] \<or> dateNum (aoDateFrom opts) \<le> businessDay (rmReceivedAt m))
     \<and> (aoDateTo opts = [] \<or> businessDay (rmReceivedAt m) \<le> dateNum (aoDateTo opts))"

text \<open>\<^verbatim>\<open>ORDER BY received_at, raw_message_pk\<close>: the table keeps the order of the keys.\<close>

definition archiveReplaySQL ::
    "(json \<Rightarrow> string) \<Rightarrow> ArchiveReplayOptions \<Rightarrow> string \<Rightarrow> json RawStreamMessage list \<Rightarrow> (string \<times> string \<times> string) list" where
  "archiveReplaySQL bodyText opts stage raws =
     map (\<lambda>m. (rmStreamKey m, rmStreamID m, of_null [] (archivedBody bodyText m)))
       (sort_key rmReceivedAt (filter (archive_matches bodyText opts stage) raws))"

section \<open>Replaying\<close>

definition archiveReplayWriter :: "'s SyncWriter \<Rightarrow> 's SyncWriter" where
  "archiveReplayWriter w = w\<lparr>swArchiveRawStreamMessage := (\<lambda>_. ret ()), swAllowSummaryFillSynthesis := Some False\<rparr>"

record ArchiveReplayStageReport =
  asName :: string
  asRows :: nat
  asTotals :: LedgerProcessResult
  asErrorCount :: nat
  asErrors :: "(string \<times> error list) list"

definition stageRow :: "string \<Rightarrow> LedgerProcessResult \<Rightarrow> ArchiveReplayStageReport \<Rightarrow> ArchiveReplayStageReport" where
  "stageRow streamID result rep =
     (let r = rep\<lparr>asRows := asRows rep + 1, asTotals := addResult (asTotals rep) result\<rparr>
      in if lpParseErrors result > 0 \<or> lpLedgerErrors result > 0
         then r\<lparr>asErrorCount := asErrorCount r + 1,
                asErrors := (if length (asErrors r) < 50 then asErrors r @ [(streamID, lpSkipReasons result)] else asErrors r)\<rparr>
         else r)"

fun replayRows :: "codec \<Rightarrow> 's SyncWriter \<Rightarrow> (string \<times> string \<times> string) list \<Rightarrow> ArchiveReplayStageReport \<Rightarrow> 's
    \<Rightarrow> ArchiveReplayStageReport \<times> 's" where
  "replayRows C w [] rep s = (rep, s)"
| "replayRows C w ((streamKey, streamID, body) # rows) rep s =
     (case ProcessLedgerEntry C w streamKey streamID [''body'' \<mapsto> SvString body] s of
        (result, s') \<Rightarrow> replayRows C w rows (stageRow streamID result rep) s')"

definition StageReport0 :: "string \<Rightarrow> ArchiveReplayStageReport" where
  "StageReport0 stage = \<lparr>asName = stage, asRows = 0, asTotals = Result0, asErrorCount = 0, asErrors = []\<rparr>"

text \<open>\<open>broken\<close>: the number of rows after which the connection of the query breaks off.\<close>

definition replayArchiveStage :: "codec \<Rightarrow> (json \<Rightarrow> string) \<Rightarrow> (json, 'z) ledger_tables_scheme SyncWriter \<Rightarrow> ArchiveReplayOptions
    \<Rightarrow> nat option \<Rightarrow> string \<Rightarrow> (json, 'z, ArchiveReplayStageReport) table_act" where
  "replayArchiveStage C bodyText w opts broken stage =
     attempt (run_stmt (\<lambda>s. (Inr (archiveReplaySQL bodyText opts stage (dbRaw s)), s))) (\<lambda>r.
       case r of
         Inl e \<Rightarrow> raise (ErrText (''query archived '' @ stage @ '' messages''))
       | Inr rows \<Rightarrow>
           (case broken of
              None \<Rightarrow> of_total (replayRows C w rows (StageReport0 stage))
            | Some n \<Rightarrow> seq (of_total (replayRows C w (take n rows) (StageReport0 stage)))
                (\<lambda>_. raise (ErrText (''iterate archived '' @ stage @ '' messages'')))))"

record ArchiveReplayReport =
  arStartedAt :: gotime
  arCompletedAt :: gotime
  arOptions :: ArchiveReplayOptions
  arStages :: "ArchiveReplayStageReport list"
  arTotals :: LedgerProcessResult

fun replayStages :: "codec \<Rightarrow> (json \<Rightarrow> string) \<Rightarrow> (json, 'z) ledger_tables_scheme SyncWriter \<Rightarrow> ArchiveReplayOptions
    \<Rightarrow> (string \<Rightarrow> nat option) \<Rightarrow> string list \<Rightarrow> ArchiveReplayReport \<Rightarrow> (json, 'z) ledger_tables_scheme
    \<Rightarrow> (ArchiveReplayReport \<times> error option) \<times> (json, 'z) ledger_tables_scheme" where
  "replayStages C bodyText w opts broken [] report s = ((report\<lparr>arCompletedAt := dbClientNow s\<rparr>, None), s)"
| "replayStages C bodyText w opts broken (stage # stages) report s =
     (case replayArchiveStage C bodyText w opts (broken stage) stage s of
        (Inl e, s') \<Rightarrow> ((report, Some e), s')
      | (Inr rep, s') \<Rightarrow>
          replayStages C bodyText w opts broken stages
            (report\<lparr>arStages := arStages report @ [rep], arTotals := addResult (arTotals report) (asTotals rep)\<rparr>) s')"

definition ReplayArchivedLedger :: "codec \<Rightarrow> (json \<Rightarrow> string) \<Rightarrow> ((string \<times> string) list \<Rightarrow> (string \<times> string) list) \<Rightarrow> bool
    \<Rightarrow> (json, 'z) ledger_tables_scheme SyncWriter option \<Rightarrow> ArchiveReplayOptions \<Rightarrow> (string \<Rightarrow> nat option)
    \<Rightarrow> (json, 'z) ledger_tables_scheme \<Rightarrow> (error + ArchiveReplayReport \<times> error option) \<times> (json, 'z) ledger_tables_scheme" where
  "ReplayArchivedLedger C bodyText visit hasDB writer options broken s =
     (if \<not> hasDB then (Inl (ErrText ''database is required''), s)
      else case writer of
             None \<Rightarrow> (Inl (ErrText ''ledger writer is required''), s)
           | Some w \<Rightarrow>
               (case normalizeArchiveReplayOptions visit options of
                  Inl e \<Rightarrow> (Inl e, s)
                | Inr opts \<Rightarrow>
                    (case replayStages C bodyText (archiveReplayWriter w) opts broken (aoStages opts)
                            \<lparr>arStartedAt = dbClientNow s, arCompletedAt = zeroTime, arOptions = opts, arStages = [], arTotals = Result0\<rparr> s of
                       (r, t) \<Rightarrow> (Inr r, t))))"

section \<open>What a replay keeps\<close>

context table_relation
begin

sublocale replay: writer_relation R "archiveReplayWriter (repo_writer Z P synthesis)"
  by unfold_locales
    (simp_all add: archiveReplayWriter_def repo_writer_def order_ops table_ops snapshot_ops R_refl ret)

lemma replay_rows: "R s (snd (replayRows C (archiveReplayWriter (repo_writer Z P synthesis)) rows rep s))"
proof (induction rows arbitrary: rep s)
  case (Cons row rows)
  obtain k i b where row: "row = (k, i, b)" by (cases row)
  obtain r s' where p: "ProcessLedgerEntry C (archiveReplayWriter (repo_writer Z P synthesis)) k i [''body'' \<mapsto> SvString b] s = (r, s')"
    by fastforce
  then have "R s s'" using replay.entry_stays [of s C Z P synthesis k i] by (metis snd_conv)
  then show ?case using Cons.IH [of s'] by (auto simp: row p intro: R_trans)
qed (simp add: R_refl)

lemma replay_stage: "stays R (replayArchiveStage C bodyText (archiveReplayWriter (repo_writer Z P synthesis)) opts broken stage)"
proof -
  have "stays R (of_total (replayRows C (archiveReplayWriter (repo_writer Z P synthesis)) rows rep))" for rows rep
    by (rule staysI) (simp add: of_total_def split_beta replay_rows)
  then show ?thesis
    unfolding replayArchiveStage_def by (intro attempt sum_case option_case seq raise stmt q_read)
qed

lemma replay_stages:
  "R s (snd (replayStages C bodyText (archiveReplayWriter (repo_writer Z P synthesis)) opts broken stages report s))"
proof (induction stages arbitrary: report s)
  case (Cons stage stages)
  obtain r s' where p: "replayArchiveStage C bodyText (archiveReplayWriter (repo_writer Z P synthesis)) opts (broken stage) stage s = (r, s')"
    by fastforce
  then have "R s s'" using staysD [OF replay_stage] by blast
  then show ?case using Cons.IH [of s'] by (cases r) (auto simp: p intro: R_trans)
qed (simp add: R_refl)

lemma replay_ledger:
  "R s (snd (ReplayArchivedLedger C bodyText visit hasDB (Some (repo_writer Z P synthesis)) options broken s))"
  using replay_stages by (auto simp: ReplayArchivedLedger_def R_refl split: sum.split prod.split) (metis snd_conv)

end

text \<open>The ledger evolves as under live synchronisation, and the archive stays as it is.\<close>

definition replay_evolves :: "(json, 'z) ledger_tables_scheme \<Rightarrow> (json, 'z) ledger_tables_scheme \<Rightarrow> bool" where
  "replay_evolves s t \<longleftrightarrow> ledger_evolves s t \<and> dbRaw t = dbRaw s"

lemma replay_stmt: "stays ledger_evolves m \<Longrightarrow> (\<And>s. dbRaw (snd (m s)) = dbRaw s) \<Longrightarrow> stays replay_evolves m"
  by (simp add: stays_def replay_evolves_def)

lemma raw_same:
  "dbRaw (snd (upsertOrderSQL P row s)) = dbRaw s" "dbRaw (snd (updateOrderStatusSQL P ev s)) = dbRaw s"
  "dbRaw (snd (appendOrderEventSQL v s)) = dbRaw s"
  by (simp_all add: upsertOrderSQL_def add_order_row_def updateOrderStatusSQL_def appendOrderEventSQL_def Let_def split: option.split)

lemma raw_same_tables:
  "dbRaw (snd (upsertPositionSQL p t)) = dbRaw t" "dbRaw (snd (deleteStalePositionsSQL P a c t)) = dbRaw t"
  "dbRaw (snd (upsertAssetSnapshotSQL x t)) = dbRaw t" "dbRaw (snd (insertComponentTransferSQL y t)) = dbRaw t"
  "dbRaw (snd (upsertOrderCancelAttemptSQL z t)) = dbRaw t" "dbRaw (snd (upsertOrderFeeRecordSQL Z P fee t)) = dbRaw t"
  "dbRaw (snd (insertFillSQL P f st so t)) = dbRaw t" "dbRaw (snd (deleteSummaryFillsForOrderSQL f t)) = dbRaw t"
  by (simp_all add: upsertPositionSQL_def deleteStalePositionsSQL_def upsertAssetSnapshotSQL_def insertComponentTransferSQL_def
      upsertOrderCancelAttemptSQL_def upsertOrderFeeRecordSQL_def insertFillSQL_def deleteSummaryFillsForOrderSQL_def Let_def
      split: option.split)

interpretation replayed_ledger: table_relation replay_evolves
proof unfold_locales
  show "replay_evolves s u" if "replay_evolves s t" "replay_evolves t u" for s t u
    using that evolving.R_trans [of s t u] by (simp add: replay_evolves_def)
qed (simp_all add: replay_stmt raw_same raw_same_tables synced.q_order synced.q_status synced.q_event synced.q_position synced.q_stale
    synced.q_asset synced.q_transfer synced.q_attempt synced.q_fee synced.q_fill synced.q_summary replay_evolves_def
    evolving.R_refl same_state_evolves)

section \<open>What a replay reports\<close>

text \<open>The reference: the results of processing messages one after the other, each with its stream, its id and its text,
  and the state this leaves.\<close>

fun entry_results :: "codec \<Rightarrow> 's SyncWriter \<Rightarrow> (string \<times> string \<times> string) list \<Rightarrow> 's
    \<Rightarrow> (string \<times> LedgerProcessResult) list \<times> 's" where
  "entry_results C w [] s = ([], s)"
| "entry_results C w ((streamKey, streamID, body) # rows) s =
     (case ProcessLedgerEntry C w streamKey streamID [''body'' \<mapsto> SvString body] s of
        (r, s') \<Rightarrow> (case entry_results C w rows s' of (rs, t) \<Rightarrow> ((streamID, r) # rs, t)))"

text \<open>What the report of a stage has to say about these results.\<close>

definition with_errors :: "(string \<times> LedgerProcessResult) list \<Rightarrow> (string \<times> LedgerProcessResult) list" where
  "with_errors rs = filter (\<lambda>(i, r). 0 < lpParseErrors r \<or> 0 < lpLedgerErrors r) rs"

definition stage_summary :: "string \<Rightarrow> (string \<times> LedgerProcessResult) list \<Rightarrow> ArchiveReplayStageReport" where
  "stage_summary stage rs =
     \<lparr>asName = stage, asRows = length rs, asTotals = foldl addResult Result0 (map snd rs),
      asErrorCount = length (with_errors rs),
      asErrors = take 50 (map (\<lambda>(i, r). (i, lpSkipReasons r)) (with_errors rs))\<rparr>"

text \<open>A query that succeeds leaves the tables as they are; the next fault of the list is used up.\<close>

definition queried :: "('b, 'z) ledger_db_scheme \<Rightarrow> ('b, 'z) ledger_db_scheme" where
  "queried s = snd (run_stmt (\<lambda>s. (Inr (), s)) s)"

text \<open>The reference of a whole replay: \<open>rows\<close> gives the messages of a stage.\<close>

fun stage_summaries :: "codec \<Rightarrow> ('b, 'z) ledger_db_scheme SyncWriter \<Rightarrow> (string \<Rightarrow> (string \<times> string \<times> string) list) \<Rightarrow> string list
    \<Rightarrow> ('b, 'z) ledger_db_scheme \<Rightarrow> ArchiveReplayStageReport list \<times> ('b, 'z) ledger_db_scheme" where
  "stage_summaries C w rows [] s = ([], s)"
| "stage_summaries C w rows (stage # stages) s =
     (case entry_results C w (rows stage) (queried s) of (rs, s') \<Rightarrow>
       (case stage_summaries C w rows stages s' of (reps, t) \<Rightarrow> (stage_summary stage rs # reps, t)))"

lemma entry_results_length: "length (fst (entry_results C w rows s)) = length rows"
  by (induction C w rows s rule: entry_results.induct) (auto split: prod.splits)

lemma stageRow_summary: "stageRow i r (stage_summary stage rs) = stage_summary stage (rs @ [(i, r)])"
  by (auto simp: stageRow_def stage_summary_def with_errors_def Let_def min_def)

lemma replayRows_results:
  "replayRows C w rows (stage_summary stage rs) s
   = (case entry_results C w rows s of (rs', t) \<Rightarrow> (stage_summary stage (rs @ rs'), t))"
  by (induction rows arbitrary: rs s) (auto simp: stageRow_summary split: prod.splits)

lemma StageReport0_summary: "StageReport0 stage = stage_summary stage []"
  by (simp add: StageReport0_def stage_summary_def with_errors_def)

lemma run_stmt_read: "run_stmt (\<lambda>s. (Inr (f (dbRaw s)), s)) s = (Inr x, t) \<Longrightarrow> x = f (dbRaw s) \<and> t = queried s"
  by (auto simp: run_stmt_def queried_def Let_def split: list.splits fault.splits)

lemma stage_results:
  assumes "replayArchiveStage C bodyText w opts broken stage s = (Inr rep, t)"
  shows "entry_results C w (archiveReplaySQL bodyText opts stage (dbRaw s)) (queried s) = (rs, u)
    \<Longrightarrow> rep = stage_summary stage rs \<and> t = u"
  using assms
  by (auto simp: replayArchiveStage_def attempt_def of_total_def seq_def StageReport0_summary replayRows_results
      dest!: run_stmt_read split: prod.splits sum.splits option.splits)

text \<open>The writer of the repository leaves the archive alone, so every stage selects from the same messages.\<close>

lemma replay_stages_results:
  assumes "w = archiveReplayWriter (repo_writer Z P synthesis)"
  shows "replayStages C bodyText w opts broken stages report s = ((rep, None), t) \<Longrightarrow>
    stage_summaries C w (\<lambda>stage. archiveReplaySQL bodyText opts stage (dbRaw s)) stages s
      = (drop (length (arStages report)) (arStages rep), t)
    \<and> take (length (arStages report)) (arStages rep) = arStages report
    \<and> arTotals rep = foldl addResult (arTotals report) (map asTotals (drop (length (arStages report)) (arStages rep)))
    \<and> arOptions rep = arOptions report"
proof (induction stages arbitrary: report s)
  case (Cons stage stages)
  obtain r s' where stage: "replayArchiveStage C bodyText w opts (broken stage) stage s = (Inr r, s')"
    and rest: "replayStages C bodyText w opts broken stages
      (report\<lparr>arStages := arStages report @ [r], arTotals := addResult (arTotals report) (asTotals r)\<rparr>) s' = ((rep, None), t)"
    using Cons.prems by (auto split: prod.splits sum.splits)
  have raw: "dbRaw s' = dbRaw s"
    using staysD [OF replayed_ledger.replay_stage stage [unfolded assms]] by (simp add: replay_evolves_def)
  obtain rs u where rs: "entry_results C w (archiveReplaySQL bodyText opts stage (dbRaw s)) (queried s) = (rs, u)"
    by fastforce
  from stage_results [OF stage rs] have r: "r = stage_summary stage rs" and u: "u = s'" by simp_all
  let ?n = "length (arStages report)"
  have IH: "stage_summaries C w (\<lambda>stage. archiveReplaySQL bodyText opts stage (dbRaw s)) stages s' = (drop (Suc ?n) (arStages rep), t)"
    "take (Suc ?n) (arStages rep) = arStages report @ [r]"
    "arTotals rep = foldl addResult (addResult (arTotals report) (asTotals r)) (map asTotals (drop (Suc ?n) (arStages rep)))"
    "arOptions rep = arOptions report"
    using Cons.IH [OF rest] by (simp_all add: raw)
  from IH(2) have "arStages rep = arStages report @ r # drop (Suc ?n) (arStages rep)"
    by (metis append_Cons append_assoc append_Nil append_take_drop_id)
  then obtain xs where "arStages rep = arStages report @ r # xs" by blast
  then show ?case using IH by (simp add: rs u r)
qed auto

text \<open>C15: A replay is safe to run on a live ledger. Whatever messages the archive holds, whatever window and stages
  are asked for, whatever fails and wherever an iteration breaks off: the archive is left exactly as it is, no order and
  no fill that is not a summary is lost, and no fee record is replaced by an older or a weaker one.\<close>

theorem archive_replay_safe:
  "replay_evolves s (snd (ReplayArchivedLedger C bodyText visit hasDB (Some (repo_writer Z P synthesis)) options broken s))"
  by (rule replayed_ledger.replay_ledger)

text \<open>C25: A replay that reports no error is complete and its report is exact. Its stages are the ones asked for, in
  order and each once. Every stage processed exactly the messages of the archive as it was at the start that belong to the
  stage and the window, in the order they were received, each with its own stream, id and text, on the ledger as the
  message before left it. The report of the stage counts these messages, adds up their results, counts exactly the messages
  whose result has a parse error or a failure of the ledger and shows the reasons of the first fifty of them; the report of
  the replay adds up its stages.\<close>

theorem archive_replay_complete:
  assumes "normalizeArchiveReplayOptions visit options = Inr opts"
    and "ReplayArchivedLedger C bodyText visit True (Some (repo_writer Z P synthesis)) options broken s = (Inr (rep, None), t)"
  shows "stage_summaries C (archiveReplayWriter (repo_writer Z P synthesis))
      (\<lambda>stage. archiveReplaySQL bodyText opts stage (dbRaw s)) (aoStages opts) s = (arStages rep, t)
    \<and> distinct (aoStages opts) \<and> arOptions rep = opts
    \<and> arTotals rep = foldl addResult Result0 (map asTotals (arStages rep))"
proof -
  have stages: "normalizeStages xs seen = Inr ys \<Longrightarrow> distinct seen \<Longrightarrow> distinct ys" for xs seen ys
    by (induction xs arbitrary: seen) (auto simp: Let_def split: if_splits)
  have "distinct (aoStages opts)"
    using assms(1) by (auto simp: normalizeArchiveReplayOptions_def Let_def split: if_splits sum.splits list.splits option.splits dest!: stages)
  moreover have "replayStages C bodyText (archiveReplayWriter (repo_writer Z P synthesis)) opts broken (aoStages opts)
      \<lparr>arStartedAt = dbClientNow s, arCompletedAt = zeroTime, arOptions = opts, arStages = [], arTotals = Result0\<rparr> s = ((rep, None), t)"
    using assms by (auto simp: ReplayArchivedLedger_def split: prod.splits)
  ultimately show ?thesis using replay_stages_results [OF refl] by fastforce
qed

section \<open>A replay of one message\<close>

text \<open>The archive holds an order event whose text is not JSON.\<close>

definition replay_codec :: codec where
  "replay_codec = \<lparr>js_print = \<lambda>_. [], js_parse = \<lambda>_. None\<rparr>"

definition replay_message :: "json RawStreamMessage" where
  "replay_message =
     \<lparr>rmStreamKey = ''relay:event'', rmStreamID = ''1-0'', rmOriginMessageID = [], rmRequestID = [], rmCorrelationID = [],
      rmIdempotencyKey = [], rmDirection = ''out'', rmRole = ''event'', rmMessageType = ''event'', rmAction = [],
      rmEventType = ''order.event'', rmStatus = [], rmCode = [], rmAccountID = ''A1'', rmGatewayOrderID = [], rmBody = None,
      rmBodyText = ''x'', rmParseError = [], rmReceivedAt = 5\<rparr>"

definition replay_tables :: "json ledger_tables" where
  "replay_tables =
     ledger_db.extend \<lparr>dbAccounts = Map.empty, dbOrders = [], dbOrderEvents = [], dbRaw = [replay_message], dbServerNow = 7,
       dbClientNow = 7, dbFaults = []\<rparr>
       \<lparr>tbPositions = [], tbAssets = [], tbFills = [], tbTransfers = [], tbAttempts = [], tbFees = [], tbCheckpoints = []\<rparr>"

definition replay_options :: ArchiveReplayOptions where
  "replay_options = \<lparr>aoAccountID = [], aoDateFrom = [], aoDateTo = [], aoStages = []\<rparr>"

definition replay_opts :: ArchiveReplayOptions where
  "replay_opts = replay_options\<lparr>aoStages := [''orders'', ''fills'', ''transfers'']\<rparr>"

lemma replay_normalized: "normalizeArchiveReplayOptions (\<lambda>xs. xs) replay_options = Inr replay_opts"
  by (simp add: normalizeArchiveReplayOptions_def replay_options_def replay_opts_def)

lemma replay_tables_fields [simp]:
  "dbFaults replay_tables = []" "dbRaw replay_tables = [replay_message]" "dbClientNow replay_tables = 7"
  by (simp_all add: replay_tables_def ledger_db.defs)

lemma replay_undecodable:
  "\<exists>r. ProcessLedgerEntry replay_codec (archiveReplayWriter (repo_writer Z P synthesis)) k i [''body'' \<mapsto> SvString b] s = (r, s)
     \<and> 0 < lpParseErrors r"
  by (simp add: ProcessLedgerEntry_def DecodeEntry_def bodyString_def replay_codec_def Let_def archiveParseError_def
      archiveReplayWriter_def repo_writer_def skipWith_def countArchived_def Result0_def)

lemma replay_rows_undecodable:
  "\<exists>rep. replayRows replay_codec (archiveReplayWriter (repo_writer Z P synthesis)) rows rep0 s = (rep, s)"
proof (induction rows arbitrary: rep0)
  case (Cons row rows)
  obtain k i b where row: "row = (k, i, b)" by (cases row)
  obtain r where "ProcessLedgerEntry replay_codec (archiveReplayWriter (repo_writer Z P synthesis)) k i [''body'' \<mapsto> SvString b] s = (r, s)"
    using replay_undecodable by blast
  then show ?case using Cons.IH [of "stageRow i r rep0"] by (simp add: row)
qed simp

lemma replay_stage_undecodable:
  "\<exists>rep. replayArchiveStage replay_codec bodyText (archiveReplayWriter (repo_writer Z P synthesis)) opts None stage replay_tables
     = (Inr rep, replay_tables)"
  using replay_rows_undecodable [of Z P synthesis "archiveReplaySQL bodyText opts stage [replay_message]" "StageReport0 stage" replay_tables]
  by (auto simp: replayArchiveStage_def run_stmt_def attempt_def of_total_def)

lemma replay_all_undecodable:
  "\<exists>rep. replayStages replay_codec bodyText (archiveReplayWriter (repo_writer Z P synthesis)) opts (\<lambda>_. None) stages rep0 replay_tables
     = ((rep, None), replay_tables)"
proof (induction stages arbitrary: rep0)
  case (Cons stage stages)
  obtain r where "replayArchiveStage replay_codec bodyText (archiveReplayWriter (repo_writer Z P synthesis)) opts None stage replay_tables
      = (Inr r, replay_tables)"
    using replay_stage_undecodable by blast
  then show ?case using Cons.IH by simp
qed simp

theorem archive_replay_complete_witness:
  "\<exists>Z P rep. fst (ReplayArchivedLedger replay_codec (\<lambda>_. []) (\<lambda>xs. xs) True (Some (repo_writer Z P None)) replay_options (\<lambda>_. None) replay_tables)
       = Inr (rep, None)
     \<and> map asName (arStages rep) = [''orders'', ''fills'', ''transfers'']
     \<and> map asRows (arStages rep) = [1, 0, 0] \<and> map asErrorCount (arStages rep) = [1, 0, 0]"
proof -
  fix Z P
  obtain rep where "replayStages replay_codec (\<lambda>_. []) (archiveReplayWriter (repo_writer Z P None)) replay_opts (\<lambda>_. None)
      (aoStages replay_opts) \<lparr>arStartedAt = 7, arCompletedAt = zeroTime, arOptions = replay_opts, arStages = [], arTotals = Result0\<rparr>
      replay_tables = ((rep, None), replay_tables)"
    using replay_all_undecodable by blast
  then have run: "ReplayArchivedLedger replay_codec (\<lambda>_. []) (\<lambda>xs. xs) True (Some (repo_writer Z P None)) replay_options (\<lambda>_. None)
      replay_tables = (Inr (rep, None), replay_tables)"
    by (simp add: ReplayArchivedLedger_def replay_normalized)
  have rows: "archiveReplaySQL (\<lambda>_. []) replay_opts stage [replay_message]
      = (if stage = ''orders'' then [(''relay:event'', ''1-0'', ''x'')] else [])" for stage
    by (simp add: archiveReplaySQL_def archive_matches_def archivedBody_def stagePredicate_def replay_message_def replay_opts_def
        replay_options_def of_null_def)
  have "aoStages replay_opts = [''orders'', ''fills'', ''transfers'']" by (simp add: replay_opts_def)
  moreover obtain r where "ProcessLedgerEntry replay_codec (archiveReplayWriter (repo_writer Z P None)) ''relay:event'' ''1-0''
      [''body'' \<mapsto> SvString ''x''] replay_tables = (r, replay_tables)" "0 < lpParseErrors r"
    using replay_undecodable by blast
  ultimately have "arStages rep = [stage_summary ''orders'' [(''1-0'', r)], stage_summary ''fills'' [], stage_summary ''transfers'' []]"
    "0 < lpParseErrors r"
    using archive_replay_complete [OF replay_normalized run] by (simp_all add: rows queried_def run_stmt_def)
  then show ?thesis using run by (intro exI [of _ Z] exI [of _ P] exI [of _ rep]) (simp add: stage_summary_def with_errors_def)
qed

end
