(* ===== verification/Migrations.thy ===== *)
theory Migrations
  imports Ledger_Orders "HOL-Library.Multiset"
begin

text \<open>
  Schema migrations, \<^verbatim>\<open>internal/db/migrations\<close>: loading the scripts of a directory and the runner that applies and
  reverts them in transactions. What a script does to the schema is the parameter \<open>sql\<close>; a script may contain a
  \<^verbatim>\<open>COMMIT\<close> of its own.
\<close>

section \<open>Loading\<close>

record Migration =
  mgrVersion :: int
  mgrName :: string
  mgrUpPath :: string
  mgrDownPath :: string
  mgrUpSQL :: string
  mgrDownSQL :: string

record dir_entry =
  deName :: string
  deIsDir :: bool
  deBody :: "string option"

text \<open>The submatches of \<^verbatim>\<open>^([0-9]+)_(.+)\.(up|down)\.sql$\<close>.\<close>

definition strip_suffix :: "string \<Rightarrow> string \<Rightarrow> string option" where
  "strip_suffix suf s =
     (if length suf \<le> length s \<and> drop (length s - length suf) s = suf then Some (take (length s - length suf) s) else None)"

definition submatch :: "string \<Rightarrow> (string \<times> string \<times> string) option" where
  "submatch s =
     (let digits = takeWhile is_digit s; rest = dropWhile is_digit s;
          body = (case strip_suffix ''.up.sql'' rest of
                    Some b \<Rightarrow> Some (b, ''up'')
                  | None \<Rightarrow> map_option (\<lambda>b. (b, ''down'')) (strip_suffix ''.down.sql'' rest))
      in case body of
           Some (CHR ''_'' # name, direction) \<Rightarrow>
             if digits \<noteq> [] \<and> name \<noteq> [] \<and> char_of (10::nat) \<notin> set name then Some (digits, name, direction) else None
         | _ \<Rightarrow> None)"

type_synonym by_version = "(int \<times> Migration) list"

definition put_migration :: "Migration \<Rightarrow> by_version \<Rightarrow> by_version" where
  "put_migration m ms =
     (if map_of ms (mgrVersion m) = None then ms @ [(mgrVersion m, m)]
      else map (\<lambda>(v, x). (v, if v = mgrVersion m then m else x)) ms)"

definition loadEntry :: "string \<Rightarrow> dir_entry \<Rightarrow> by_version \<Rightarrow> error + by_version" where
  "loadEntry dir entry ms =
     (if deIsDir entry then Inr ms
      else case submatch (deName entry) of
             None \<Rightarrow> Inr ms
           | Some (digits, name, direction) \<Rightarrow>
               (case ParseInt64 digits of
                  None \<Rightarrow> Inl (ErrText (''parse migration version '' @ digits))
                | Some version \<Rightarrow>
                    let m = (case map_of ms version of
                               Some m \<Rightarrow> m
                             | None \<Rightarrow> \<lparr>mgrVersion = version, mgrName = name, mgrUpPath = [], mgrDownPath = [],
                                        mgrUpSQL = [], mgrDownSQL = []\<rparr>);
                        path = dir @ ''/'' @ deName entry
                    in if mgrName m \<noteq> name
                       then Inl (ErrText (''migration version '' @ Itoa version @ '' has inconsistent names''))
                       else case deBody entry of
                              None \<Rightarrow> Inl (ErrText (''read migration '' @ path))
                            | Some body \<Rightarrow>
                                Inr (put_migration (if direction = ''up'' then m\<lparr>mgrUpPath := path, mgrUpSQL := body\<rparr>
                                                    else m\<lparr>mgrDownPath := path, mgrDownSQL := body\<rparr>) ms)))"

fun loadEntries :: "string \<Rightarrow> dir_entry list \<Rightarrow> by_version \<Rightarrow> error + by_version" where
  "loadEntries dir [] ms = Inr ms"
| "loadEntries dir (entry # entries) ms =
     (case loadEntry dir entry ms of Inl e \<Rightarrow> Inl e | Inr ms' \<Rightarrow> loadEntries dir entries ms')"

fun collect :: "Migration list \<Rightarrow> error + Migration list" where
  "collect [] = Inr []"
| "collect (m # ms) =
     (if mgrUpSQL m = [] then Inl (ErrText (''migration '' @ Itoa (mgrVersion m) @ ''_'' @ mgrName m @ '' is missing up SQL''))
      else if mgrDownSQL m = []
      then Inl (ErrText (''migration '' @ Itoa (mgrVersion m) @ ''_'' @ mgrName m @ '' is missing down SQL''))
      else case collect ms of Inl e \<Rightarrow> Inl e | Inr xs \<Rightarrow> Inr (m # xs))"

text \<open>\<open>visit\<close> is the order in which Go visits its map.\<close>

definition LoadDir :: "(Migration list \<Rightarrow> Migration list) \<Rightarrow> string \<Rightarrow> dir_entry list option \<Rightarrow> error + Migration list" where
  "LoadDir visit dir entries =
     (case entries of
        None \<Rightarrow> Inl (ErrText ''read migrations dir'')
      | Some es \<Rightarrow>
          (case loadEntries dir es [] of
             Inl e \<Rightarrow> Inl e
           | Inr ms \<Rightarrow> map_sum id (sort_key mgrVersion) (collect (visit (map snd ms)))))"

fun FindByVersion :: "Migration list \<Rightarrow> int \<Rightarrow> Migration option" where
  "FindByVersion [] version = None"
| "FindByVersion (m # ms) version = (if mgrVersion m = version then Some m else FindByVersion ms version)"

section \<open>The database of the runner\<close>

record AppliedMigration =
  amVersion :: int
  amName :: string
  amAppliedAt :: gotime

text \<open>What running a script in a session comes to: the schema it leaves in the session, or its error; and, when it
  executes \<^verbatim>\<open>COMMIT\<close> itself, the schema that has become durable by that.\<close>

record 'd script_run =
  srSchema :: "error + 'd"
  srCommitted :: "'d option"

record 'd migration_db =
  mdSchema :: 'd
  mdTable :: bool
  mdRows :: "AppliedMigration list"
  mdNow :: gotime
  mdFaults :: "fault list"

definition md_call :: "('d migration_db, 'a) act \<Rightarrow> ('d migration_db, 'a) act" where
  "md_call m s =
     (case mdFaults s of
        [] \<Rightarrow> m s
      | f # fs \<Rightarrow>
          let s1 = s\<lparr>mdFaults := fs\<rparr>
          in case f of
               NoFault \<Rightarrow> m s1
             | FaultBefore \<Rightarrow> (Inl (ErrDatabase ''08006''), s1)
             | FaultAfter \<Rightarrow> (Inl (ErrDatabase ''08006''), snd (m s1)))"

definition next_fault :: "'d migration_db \<Rightarrow> fault \<times> 'd migration_db" where
  "next_fault s = (case mdFaults s of [] \<Rightarrow> (NoFault, s) | f # fs \<Rightarrow> (f, s\<lparr>mdFaults := fs\<rparr>))"

definition EnsureTable :: "('d migration_db, unit) act" where
  "EnsureTable = md_call (\<lambda>s. (Inr (), s\<lparr>mdTable := True\<rparr>))"

definition selectApplied :: "(AppliedMigration list \<Rightarrow> AppliedMigration list) \<Rightarrow> ('d migration_db, AppliedMigration list) act" where
  "selectApplied order =
     md_call (\<lambda>s. if mdTable s then (Inr (order (mdRows s)), s) else (Inl (ErrDatabase ''42P01''), s))"

text \<open>The map of \<^verbatim>\<open>Applied\<close> by version.\<close>

definition Applied :: "('d migration_db, int \<rightharpoonup> AppliedMigration) act" where
  "Applied =
     seq EnsureTable (\<lambda>_.
       seq (selectApplied (sort_key amVersion)) (\<lambda>rows.
         ret (\<lambda>v. find (\<lambda>r. amVersion r = v) (rev rows))))"

record Status =
  stVersion :: int
  stName :: string
  stApplied :: bool
  stAppliedAt :: "gotime option"

definition migrationStatus :: "Migration list \<Rightarrow> ('d migration_db, Status list) act" where
  "migrationStatus migrations =
     seq Applied (\<lambda>applied.
       ret (map (\<lambda>m. \<lparr>stVersion = mgrVersion m, stName = mgrName m, stApplied = applied (mgrVersion m) \<noteq> None,
                       stAppliedAt = map_option amAppliedAt (applied (mgrVersion m))\<rparr>) migrations))"

section \<open>Transactions\<close>

text \<open>The body of a transaction: the script, then the statement on the table of versions. \<open>table\<close> is what that
  statement does to the rows, or its error. A call that is lost inside the transaction leaves nothing, unless the script
  has ended the transaction by its own \<^verbatim>\<open>COMMIT\<close>: then it leaves what was committed, the statement after it takes effect
  at once, and the final commit finds nothing to do.\<close>

definition commitTx :: "bool \<Rightarrow> 'd \<Rightarrow> AppliedMigration list \<Rightarrow> ('d migration_db, unit) act" where
  "commitTx ended d rows s =
     (if ended then md_call (\<lambda>s. (Inr (), s)) (s\<lparr>mdSchema := d, mdRows := rows\<rparr>)
      else md_call (\<lambda>s. (Inr (), s\<lparr>mdSchema := d, mdRows := rows\<rparr>)) s)"

definition recordTx :: "bool \<Rightarrow> 'd \<Rightarrow> ('d migration_db \<Rightarrow> error + AppliedMigration list) \<Rightarrow> ('d migration_db, unit) act" where
  "recordTx ended d table s0 =
     (case next_fault s0 of (f, s) \<Rightarrow>
        (case table s of
           Inl e \<Rightarrow> (Inl (if f = NoFault then e else ErrDatabase ''08006''), s)
         | Inr rows \<Rightarrow>
             (case f of
                NoFault \<Rightarrow> commitTx ended d rows s
              | FaultBefore \<Rightarrow> (Inl (ErrDatabase ''08006''), s)
              | FaultAfter \<Rightarrow> (Inl (ErrDatabase ''08006''), if ended then s\<lparr>mdRows := rows\<rparr> else s))))"

definition migrate :: "(string \<Rightarrow> 'd \<Rightarrow> 'd script_run) \<Rightarrow> string
    \<Rightarrow> ('d migration_db \<Rightarrow> error + AppliedMigration list) \<Rightarrow> (error \<Rightarrow> error) \<Rightarrow> ('d migration_db, unit) act" where
  "migrate sql script table wrap s0 =
     (case next_fault s0 of (begin_fault, s1) \<Rightarrow>
        if begin_fault \<noteq> NoFault then (Inl (ErrDatabase ''08006''), s1)
        else case next_fault s1 of (f, s2) \<Rightarrow>
          if f = FaultBefore then (Inl (wrap (ErrDatabase ''08006'')), s2)
          else let run = sql script (mdSchema s2);
                   s3 = (case srCommitted run of None \<Rightarrow> s2 | Some d \<Rightarrow> s2\<lparr>mdSchema := d\<rparr>)
               in if f = FaultAfter then (Inl (wrap (ErrDatabase ''08006'')), s3)
                  else case srSchema run of
                         Inl e \<Rightarrow> (Inl (wrap e), s3)
                       | Inr d \<Rightarrow> recordTx (srCommitted run \<noteq> None) d table s3)"

definition insertApplied :: "Migration \<Rightarrow> 'd migration_db \<Rightarrow> error + AppliedMigration list" where
  "insertApplied m s =
     (if \<not> mdTable s then Inl (ErrDatabase ''42P01'')
      else if list_ex (\<lambda>r. amVersion r = mgrVersion m) (mdRows s) then Inl (ErrDatabase ''23505'')
      else Inr (mdRows s @ [\<lparr>amVersion = mgrVersion m, amName = mgrName m, amAppliedAt = mdNow s\<rparr>]))"

definition migrationError :: "string \<Rightarrow> Migration \<Rightarrow> error \<Rightarrow> error" where
  "migrationError what m e = ErrText (what @ '' migration '' @ Itoa (mgrVersion m) @ ''_'' @ mgrName m)"

definition applyUp :: "(string \<Rightarrow> 'd \<Rightarrow> 'd script_run) \<Rightarrow> Migration \<Rightarrow> ('d migration_db, AppliedMigration) act" where
  "applyUp sql m s =
     (case migrate sql (mgrUpSQL m) (insertApplied m) (migrationError ''apply'' m) s of
        (Inl e, t) \<Rightarrow> (Inl e, t)
      | (Inr _, t) \<Rightarrow> (Inr \<lparr>amVersion = mgrVersion m, amName = mgrName m, amAppliedAt = mdNow s\<rparr>, t))"

definition deleteApplied :: "Migration \<Rightarrow> 'd migration_db \<Rightarrow> error + AppliedMigration list" where
  "deleteApplied m s = Inr (filter (\<lambda>r. amVersion r \<noteq> mgrVersion m) (mdRows s))"

definition applyDown :: "(string \<Rightarrow> 'd \<Rightarrow> 'd script_run) \<Rightarrow> Migration \<Rightarrow> ('d migration_db, unit) act" where
  "applyDown sql m = migrate sql (mgrDownSQL m) (deleteApplied m) (migrationError ''rollback'' m)"

section \<open>Up and down\<close>

text \<open>The migrations completed before an error are returned with it.\<close>

type_synonym 'd run = "'d migration_db \<Rightarrow> (AppliedMigration list \<times> error option) \<times> 'd migration_db"

fun applyAll :: "(string \<Rightarrow> 'd \<Rightarrow> 'd script_run) \<Rightarrow> (int \<rightharpoonup> AppliedMigration) \<Rightarrow> Migration list \<Rightarrow> AppliedMigration list
    \<Rightarrow> 'd run" where
  "applyAll sql applied [] completed s = ((completed, None), s)"
| "applyAll sql applied (m # ms) completed s =
     (if applied (mgrVersion m) \<noteq> None then applyAll sql applied ms completed s
      else case applyUp sql m s of
             (Inl e, t) \<Rightarrow> ((completed, Some e), t)
           | (Inr r, t) \<Rightarrow> applyAll sql applied ms (completed @ [r]) t)"

definition Up :: "(string \<Rightarrow> 'd \<Rightarrow> 'd script_run) \<Rightarrow> Migration list \<Rightarrow> 'd run" where
  "Up sql migrations s =
     (case EnsureTable s of
        (Inl e, t) \<Rightarrow> (([], Some e), t)
      | (Inr _, t) \<Rightarrow>
          (case Applied t of
             (Inl e, u) \<Rightarrow> (([], Some e), u)
           | (Inr applied, u) \<Rightarrow> applyAll sql applied migrations [] u))"

fun revertAll :: "(string \<Rightarrow> 'd \<Rightarrow> 'd script_run) \<Rightarrow> Migration list \<Rightarrow> AppliedMigration list \<Rightarrow> AppliedMigration list
    \<Rightarrow> 'd run" where
  "revertAll sql migrations [] completed s = ((completed, None), s)"
| "revertAll sql migrations (r # rs) completed s =
     (case FindByVersion migrations (amVersion r) of
        None \<Rightarrow> ((completed, Some (ErrText (''applied migration '' @ Itoa (amVersion r) @ '' has no local down SQL''))), s)
      | Some m \<Rightarrow>
          (case applyDown sql m s of
             (Inl e, t) \<Rightarrow> ((completed, Some e), t)
           | (Inr _, t) \<Rightarrow> revertAll sql migrations rs (completed @ [r]) t))"

definition Down :: "(string \<Rightarrow> 'd \<Rightarrow> 'd script_run) \<Rightarrow> Migration list \<Rightarrow> int \<Rightarrow> 'd run" where
  "Down sql migrations steps s =
     (if steps \<le> 0 then (([], Some (ErrText ''steps must be positive'')), s)
      else case EnsureTable s of
             (Inl e, t) \<Rightarrow> (([], Some e), t)
           | (Inr _, t) \<Rightarrow>
               (case selectApplied (\<lambda>rows. take (nat steps) (rev (sort_key amVersion rows))) t of
                  (Inl e, u) \<Rightarrow> (([], Some e), u)
                | (Inr targets, u) \<Rightarrow> revertAll sql migrations targets [] u))"

section \<open>What loading promises\<close>

definition version_keyed :: "by_version \<Rightarrow> bool" where
  "version_keyed ms \<longleftrightarrow> distinct (map fst ms) \<and> (\<forall>(v, m) \<in> set ms. mgrVersion m = v)"

lemma put_keys: "map fst (put_migration m ms) = (if map_of ms (mgrVersion m) = None then map fst ms @ [mgrVersion m] else map fst ms)"
  by (induction ms) (auto simp: put_migration_def)

lemma put_keyed: "version_keyed ms \<Longrightarrow> version_keyed (put_migration m ms)"
  unfolding version_keyed_def put_keys by (auto simp: put_migration_def map_of_eq_None_iff image_iff split: if_splits)

lemma loadEntry_keyed: "loadEntry dir e ms = Inr ms' \<Longrightarrow> version_keyed ms \<Longrightarrow> version_keyed ms'"
  by (auto simp: loadEntry_def Let_def put_keyed split: if_splits option.splits)

lemma loadEntries_keyed: "loadEntries dir es ms = Inr ms' \<Longrightarrow> version_keyed ms \<Longrightarrow> version_keyed ms'"
  by (induction dir es ms rule: loadEntries.induct) (auto split: sum.splits dest: loadEntry_keyed)

lemma collect_same: "collect ms = Inr xs \<Longrightarrow> xs = ms"
  by (induction ms arbitrary: xs) (auto split: if_splits sum.splits)

lemma LoadDir_versions:
  assumes "LoadDir visit dir entries = Inr ms" "\<And>xs. mset (visit xs) = mset xs"
  shows "sorted (map mgrVersion ms)" "distinct (map mgrVersion ms)"
proof -
  obtain es bv where es: "entries = Some es" "loadEntries dir es [] = Inr bv" and ms: "ms = sort_key mgrVersion (visit (map snd bv))"
    using assms(1) by (auto simp: LoadDir_def split: option.splits sum.splits) (metis collect_same map_sum.simps sum.exhaust sum.inject(2) sum.distinct(1))
  have "version_keyed bv" using loadEntries_keyed [OF es(2)] by (simp add: version_keyed_def)
  then have "map mgrVersion (map snd bv) = map fst bv" "distinct (map fst bv)" by (auto simp: version_keyed_def)
  then have "distinct (map mgrVersion (map snd bv))" by (simp only:)
  moreover have "mset (map mgrVersion ms) = mset (map mgrVersion (map snd bv))" using assms(2) by (simp add: ms multiset.map_comp)
  ultimately show "distinct (map mgrVersion ms)" using mset_eq_imp_distinct_iff by blast
  show "sorted (map mgrVersion ms)" by (simp add: ms)
qed

section \<open>The journal\<close>

text \<open>The schema that the scripts of the recorded versions make, in the order they were recorded.\<close>

fun replayed :: "(string \<Rightarrow> 'd \<Rightarrow> 'd script_run) \<Rightarrow> Migration list \<Rightarrow> int list \<Rightarrow> 'd \<Rightarrow> 'd option" where
  "replayed sql ms [] d = Some d"
| "replayed sql ms (v # vs) d =
     (case FindByVersion ms v of
        None \<Rightarrow> None
      | Some m \<Rightarrow> (case srSchema (sql (mgrUpSQL m) d) of Inl e \<Rightarrow> None | Inr d' \<Rightarrow> replayed sql ms vs d'))"

definition recorded_versions :: "'d migration_db \<Rightarrow> int list" where
  "recorded_versions s = map amVersion (mdRows s)"

definition journal :: "(string \<Rightarrow> 'd \<Rightarrow> 'd script_run) \<Rightarrow> Migration list \<Rightarrow> 'd \<Rightarrow> 'd migration_db \<Rightarrow> bool" where
  "journal sql ms d0 s \<longleftrightarrow> distinct (recorded_versions s) \<and> replayed sql ms (recorded_versions s) d0 = Some (mdSchema s)"

text \<open>A run that was interrupted in a script that commits by itself: the recorded versions are \<open>vs\<close>, or \<open>vs\<close> and the
  version \<open>v\<close> of this script, and the schema is the one the script has made durable on top of \<open>vs\<close>.\<close>

definition interrupted :: "(string \<Rightarrow> 'd \<Rightarrow> 'd script_run) \<Rightarrow> Migration list \<Rightarrow> 'd \<Rightarrow> int list \<Rightarrow> int \<Rightarrow> 'd migration_db \<Rightarrow> bool" where
  "interrupted sql ms d0 vs v s \<longleftrightarrow>
     (\<exists>m d. FindByVersion ms v = Some m \<and> replayed sql ms vs d0 = Some d
        \<and> srCommitted (sql (mgrUpSQL m) d) = Some (mdSchema s) \<and> recorded_versions s \<in> {vs, vs @ [v]})"

lemma replayed_append:
  "replayed sql ms (vs @ ws) d = Option.bind (replayed sql ms vs d) (replayed sql ms ws)"
  by (induction vs arbitrary: d) (auto split: option.split sum.split)

lemma FindByVersion_member: "distinct (map mgrVersion ms) \<Longrightarrow> m \<in> set ms \<Longrightarrow> FindByVersion ms (mgrVersion m) = Some m"
  by (induction ms) auto

lemma next_fault_same: "next_fault s = (f, t) \<Longrightarrow> mdSchema t = mdSchema s \<and> mdRows t = mdRows s \<and> mdTable t = mdTable s"
  by (auto simp: next_fault_def split: list.splits)

text \<open>A transaction happens as a whole, when it reports no error, or not at all; or its script committed by itself and it
  was interrupted after that.\<close>

lemma commitTx_outcome:
  "commitTx ended d rows s = (r, t) \<Longrightarrow> mdSchema t = d \<and> mdRows t = rows \<or> isl r \<and> mdSchema t = mdSchema s \<and> mdRows t = mdRows s"
  by (auto simp: commitTx_def md_call_def Let_def split: if_splits list.splits fault.splits)

lemma recordTx_outcome:
  assumes "recordTx ended d table s = (r, t)"
  shows "isl r \<and> mdSchema t = mdSchema s
       \<and> (mdRows t = mdRows s \<or> ended \<and> (\<exists>u. mdRows u = mdRows s \<and> table u = Inr (mdRows t)))
     \<or> (\<exists>u. mdRows u = mdRows s \<and> table u = Inr (mdRows t) \<and> mdSchema t = d)"
proof -
  obtain f s1 where f: "next_fault s = (f, s1)" by fastforce
  note same = next_fault_same [OF f]
  show ?thesis
  proof (cases "table s1")
    case (Inl e)
    then show ?thesis using assms same by (auto simp: recordTx_def f)
  next
    case (Inr rows)
    show ?thesis
    proof (cases f)
      case NoFault
      then have "commitTx ended d rows s1 = (r, t)" using assms Inr by (simp add: recordTx_def f)
      from commitTx_outcome [OF this] show ?thesis using Inr same by auto
    next
      case FaultBefore
      then show ?thesis using assms Inr same by (auto simp: recordTx_def f)
    next
      case FaultAfter
      then have "r = Inl (ErrDatabase ''08006'')" "t = (if ended then s1\<lparr>mdRows := rows\<rparr> else s1)"
        using assms Inr by (simp_all add: recordTx_def f)
      then show ?thesis using Inr same by auto
    qed
  qed
qed

lemma migrate_outcome:
  assumes "migrate sql script table wrap s = (r, t)"
  shows "mdSchema t = mdSchema s \<and> mdRows t = mdRows s \<and> isl r
     \<or> (\<exists>u. mdRows u = mdRows s \<and> table u = Inr (mdRows t) \<and> srSchema (sql script (mdSchema s)) = Inr (mdSchema t))
     \<or> isl r \<and> srCommitted (sql script (mdSchema s)) = Some (mdSchema t)
        \<and> (mdRows t = mdRows s \<or> (\<exists>u. mdRows u = mdRows s \<and> table u = Inr (mdRows t)))"
proof -
  obtain f1 s1 where f1: "next_fault s = (f1, s1)" by fastforce
  obtain f s2 where f: "next_fault s1 = (f, s2)" by fastforce
  have same: "mdSchema s2 = mdSchema s" "mdRows s2 = mdRows s" "mdSchema s1 = mdSchema s" "mdRows s1 = mdRows s"
    using next_fault_same [OF f1] next_fault_same [OF f] by simp_all
  let ?run = "sql script (mdSchema s)"
  define s3 where "s3 = (case srCommitted ?run of None \<Rightarrow> s2 | Some d \<Rightarrow> s2\<lparr>mdSchema := d\<rparr>)"
  have s3: "mdRows s3 = mdRows s" "mdSchema s3 = (case srCommitted ?run of None \<Rightarrow> mdSchema s | Some d \<Rightarrow> d)"
    by (simp_all add: s3_def same split: option.split)
  consider "isl r" "t = s1 \<or> t = s2 \<or> t = s3" | d where "srSchema ?run = Inr d" "recordTx (srCommitted ?run \<noteq> None) d table s3 = (r, t)"
    using assms by (auto simp: migrate_def f1 f same Let_def simp flip: s3_def split: if_splits sum.splits)
  then show ?thesis
  proof cases
    case 1
    then show ?thesis using same s3 by (auto split: option.splits)
  next
    case 2
    from recordTx_outcome [OF 2(2)] show ?thesis using 2(1) s3 by (auto split: option.splits)
  qed
qed

lemma insertApplied_rows:
  assumes "insertApplied m u = Inr rows" "mdRows u = mdRows s"
  shows "map amVersion rows = recorded_versions s @ [mgrVersion m] \<and> mgrVersion m \<notin> set (recorded_versions s)"
  using assms by (auto simp: insertApplied_def recorded_versions_def list_ex_iff split: if_splits)

lemma journal_applyUp:
  assumes "journal sql ms d0 s" "distinct (map mgrVersion ms)" "m \<in> set ms" "applyUp sql m s = (r, t)"
  shows "journal sql ms d0 t \<and> (recorded_versions t = recorded_versions s \<and> isl r \<or> recorded_versions t = recorded_versions s @ [mgrVersion m])
    \<or> isl r \<and> distinct (recorded_versions t) \<and> interrupted sql ms d0 (recorded_versions s) (mgrVersion m) t"
proof -
  have find: "FindByVersion ms (mgrVersion m) = Some m" using FindByVersion_member [OF assms(2,3)] .
  have s: "distinct (recorded_versions s)" "replayed sql ms (recorded_versions s) d0 = Some (mdSchema s)"
    using assms(1) by (simp_all add: journal_def)
  have rows: "recorded_versions t = recorded_versions s @ [mgrVersion m] \<and> mgrVersion m \<notin> set (recorded_versions s)"
    if "insertApplied m u = Inr (mdRows t)" "mdRows u = mdRows s" for u :: "'a migration_db"
    using insertApplied_rows [OF that] by (simp add: recorded_versions_def)
  obtain r' where run: "migrate sql (mgrUpSQL m) (insertApplied m) (migrationError ''apply'' m) s = (r', t)" "isl r = isl r'"
    using assms(4) by (auto simp: applyUp_def split: prod.splits sum.splits)
  consider "mdSchema t = mdSchema s" "mdRows t = mdRows s" "isl r"
    | u :: "'a migration_db" where "mdRows u = mdRows s" "insertApplied m u = Inr (mdRows t)" "srSchema (sql (mgrUpSQL m) (mdSchema s)) = Inr (mdSchema t)"
    | "isl r" "srCommitted (sql (mgrUpSQL m) (mdSchema s)) = Some (mdSchema t)"
        "mdRows t = mdRows s \<or> (\<exists>u :: 'a migration_db. mdRows u = mdRows s \<and> insertApplied m u = Inr (mdRows t))"
    using migrate_outcome [OF run(1)] run(2) by blast
  then show ?thesis
  proof cases
    case 1
    then show ?thesis using s by (simp add: journal_def recorded_versions_def)
  next
    case 2
    then show ?thesis using rows s find by (auto simp: journal_def replayed_append)
  next
    case 3
    then have "recorded_versions t = recorded_versions s
        \<or> recorded_versions t = recorded_versions s @ [mgrVersion m] \<and> mgrVersion m \<notin> set (recorded_versions s)"
      using rows by (auto simp: recorded_versions_def)
    then show ?thesis using 3 s find by (auto simp: interrupted_def)
  qed
qed

text \<open>What a run over the list appends to the table: an initial part of the versions it does not find there.\<close>

definition up_outcome :: "(string \<Rightarrow> 'd \<Rightarrow> 'd script_run) \<Rightarrow> Migration list \<Rightarrow> 'd \<Rightarrow> int list \<Rightarrow> int list \<Rightarrow> bool \<Rightarrow> 'd migration_db \<Rightarrow> bool" where
  "up_outcome sql ms d0 before pending failed t \<longleftrightarrow>
     distinct (recorded_versions t)
     \<and> (\<exists>vs ws. recorded_versions t = before @ vs \<and> pending = vs @ ws \<and> (\<not> failed \<longrightarrow> ws = []))
     \<and> (journal sql ms d0 t
        \<or> failed \<and> (\<exists>i < length pending. interrupted sql ms d0 (before @ take i pending) (pending ! i) t))"

lemma up_outcome_Cons:
  assumes "up_outcome sql ms d0 (before @ [v]) pending failed t"
  shows "up_outcome sql ms d0 before (v # pending) failed t"
proof -
  have "\<exists>vs ws. recorded_versions t = before @ vs \<and> v # pending = vs @ ws \<and> (\<not> failed \<longrightarrow> ws = [])"
    using assms unfolding up_outcome_def by (metis append_Cons append_assoc append_Nil)
  moreover have "\<exists>j < length (v # pending). interrupted sql ms d0 (before @ take j (v # pending)) ((v # pending) ! j) t"
    if "i < length pending" "interrupted sql ms d0 ((before @ [v]) @ take i pending) (pending ! i) t" for i
    using that by (intro exI [of _ "Suc i"]) simp
  ultimately show ?thesis using assms unfolding up_outcome_def by blast
qed

lemma applyAll_outcome:
  assumes "distinct (map mgrVersion ms)"
  shows "applyAll sql applied ns completed s = ((c, e), t) \<Longrightarrow> journal sql ms d0 s \<Longrightarrow> set ns \<subseteq> set ms \<Longrightarrow>
    up_outcome sql ms d0 (recorded_versions s) (map mgrVersion (filter (\<lambda>m. applied (mgrVersion m) = None) ns)) (e \<noteq> None) t"
proof (induction ns arbitrary: completed s)
  case Nil
  then show ?case by (simp add: up_outcome_def journal_def)
next
  case (Cons m ns)
  show ?case
  proof (cases "applied (mgrVersion m) = None")
    case False
    then obtain y where "applied (mgrVersion m) = Some y" by blast
    then show ?thesis using Cons.IH [of completed s] Cons.prems by simp
  next
    case True
    obtain r u where up: "applyUp sql m s = (r, u)" by fastforce
    have m: "m \<in> set ms" using Cons.prems(3) by simp
    note j = journal_applyUp [OF Cons.prems(2) assms m up]
    show ?thesis
    proof (cases r)
      case (Inl err)
      then have t: "t = u" "e = Some err" using Cons.prems(1) True up by simp_all
      have "distinct (recorded_versions u)" using j by (auto simp: journal_def)
      moreover have "recorded_versions u = recorded_versions s \<or> recorded_versions u = recorded_versions s @ [mgrVersion m]"
        using j by (auto simp: interrupted_def)
      moreover have "journal sql ms d0 u \<or> interrupted sql ms d0 (recorded_versions s) (mgrVersion m) u" using j by blast
      ultimately show ?thesis using True t by (auto simp: up_outcome_def)
    next
      case (Inr row)
      then have rest: "applyAll sql applied ns (completed @ [row]) u = ((c, e), t)" using Cons.prems(1) True up by simp
      have u: "journal sql ms d0 u" "recorded_versions u = recorded_versions s @ [mgrVersion m]" using j Inr by auto
      show ?thesis using up_outcome_Cons Cons.IH [OF rest u(1)] Cons.prems(3) True by (simp add: u(2))
    qed
  qed
qed

lemma md_call_read:
  assumes "md_call (\<lambda>s. (Inr (g s), s\<lparr>mdTable := True\<rparr>)) s = (r, t)"
  shows "mdSchema t = mdSchema s \<and> mdRows t = mdRows s"
  using assms by (auto simp: md_call_def Let_def split: list.splits fault.splits)

lemma ensure_same: "EnsureTable s = (r, t) \<Longrightarrow> mdSchema t = mdSchema s \<and> mdRows t = mdRows s"
  unfolding EnsureTable_def by (rule md_call_read)

lemma select_same: "selectApplied f s = (r, t) \<Longrightarrow> mdSchema t = mdSchema s \<and> mdRows t = mdRows s \<and> (\<forall>rows. r = Inr rows \<longrightarrow> rows = f (mdRows s))"
  by (auto simp: selectApplied_def md_call_def Let_def split: list.splits fault.splits if_splits)

lemma Applied_ok:
  assumes "Applied s = (r, t)"
  shows "mdSchema t = mdSchema s \<and> mdRows t = mdRows s \<and> (\<forall>applied v. r = Inr applied \<longrightarrow> (applied v = None \<longleftrightarrow> v \<notin> set (recorded_versions s)))"
proof -
  have "find p (rev (sort_key amVersion xs)) = None \<longleftrightarrow> (\<forall>x \<in> set xs. \<not> p x)" for p and xs :: "AppliedMigration list"
    by (auto simp: find_None_iff)
  then show ?thesis
    using assms by (auto simp: Applied_def seq_def recorded_versions_def split: prod.splits sum.splits dest!: ensure_same select_same)
qed

lemma journal_same: "mdSchema t = mdSchema s \<Longrightarrow> mdRows t = mdRows s \<Longrightarrow> journal sql ms d0 t = journal sql ms d0 s"
  by (simp add: journal_def recorded_versions_def)

text \<open>C7: The table of versions is the journal of the schema. Whatever calls to the database are lost, also the reply to a
  commit: when the recorded versions are distinct and their scripts make the schema, a run of \<^verbatim>\<open>Up\<close> appends an initial part, in
  ascending order, of the versions of the directory that were not recorded, each once, and all of them when it reports no
  error. After the run the recorded versions still make the schema, so that a run that failed can be repeated, with one
  exception: the run failed in a script that contains a \<^verbatim>\<open>COMMIT\<close> of its own (000015 to 000018 and 000030 do). Then the schema is the one
  this script has committed on top of the versions before it, and its version may be missing from the table.\<close>

theorem migrations_keep_journal:
  assumes "LoadDir visit dir entries = Inr ms" "\<And>xs. mset (visit xs) = mset xs"
    and "journal sql ms d0 s" "Up sql ms s = ((completed, err), t)"
    and "pending = sort (filter (\<lambda>v. v \<notin> set (recorded_versions s)) (map mgrVersion ms))"
  shows "distinct (recorded_versions t)
    \<and> (\<exists>vs ws. recorded_versions t = recorded_versions s @ vs \<and> pending = vs @ ws \<and> (err = None \<longrightarrow> ws = []))
    \<and> (journal sql ms d0 t
       \<or> err \<noteq> None \<and> (\<exists>i < length pending. interrupted sql ms d0 (recorded_versions s @ take i pending) (pending ! i) t))"
proof -
  note versions = LoadDir_versions [OF assms(1,2)]
  have pending: "pending = filter (\<lambda>v. v \<notin> set (recorded_versions s)) (map mgrVersion ms)"
    using versions(1) by (simp add: assms(5) sorted_sort_id sorted_filter [of id, simplified])
  obtain r1 s1 where e: "EnsureTable s = (r1, s1)" by fastforce
  obtain r2 s2 where a: "Applied s1 = (r2, s2)" by fastforce
  have same: "mdSchema s1 = mdSchema s" "mdRows s1 = mdRows s" "mdSchema s2 = mdSchema s" "mdRows s2 = mdRows s"
    using ensure_same [OF e] Applied_ok [OF a] by simp_all
  have "up_outcome sql ms d0 (recorded_versions s) pending (err \<noteq> None) t"
  proof (cases "isl r1 \<or> isl r2")
    case True
    then have "mdSchema t = mdSchema s" "mdRows t = mdRows s" "err \<noteq> None"
      using assms(4) e a same by (auto simp: Up_def split: sum.splits)
    then show ?thesis
      using assms(3) journal_same [of t s sql ms d0] by (auto simp: up_outcome_def journal_def recorded_versions_def)
  next
    case False
    then obtain u applied where "r1 = Inr u" "r2 = Inr applied" by (metis isl_def sum.exhaust)
    then have run: "applyAll sql applied ms [] s2 = ((completed, err), t)" using assms(4) e a by (simp add: Up_def)
    have none: "applied v = None \<longleftrightarrow> v \<notin> set (recorded_versions s)" for v
      using Applied_ok [OF a] \<open>r2 = Inr applied\<close> same by (auto simp: recorded_versions_def)
    have "journal sql ms d0 s2" using assms(3) journal_same same by metis
    from applyAll_outcome [OF versions(2) run this]
    show ?thesis using same by (simp add: pending none recorded_versions_def filter_map o_def)
  qed
  then show ?thesis by (simp add: up_outcome_def)
qed

section \<open>Down after up\<close>

text \<open>Without lost calls a migration whose script and whose statement succeed happens as a whole, also when its script
  commits by itself.\<close>

lemma migrate_clean:
  assumes "mdFaults s = []" "srSchema (sql script (mdSchema s)) = Inr d" "\<And>x. table (s\<lparr>mdSchema := x\<rparr>) = Inr rows"
  shows "migrate sql script table wrap s = (Inr (), s\<lparr>mdSchema := d, mdRows := rows\<rparr>)"
  using assms(1,2) assms(3) [of "mdSchema s"] assms(3)
  by (simp add: migrate_def next_fault_def recordTx_def commitTx_def md_call_def Let_def split: option.split)

lemma migrate_clean_ok:
  assumes "mdFaults s = []" "migrate sql script table wrap s = (Inr x, t)"
  shows "mdFaults t = [] \<and> srSchema (sql script (mdSchema s)) = Inr (mdSchema t)"
  using assms
  by (auto simp: migrate_def next_fault_def recordTx_def commitTx_def md_call_def Let_def split: sum.splits option.splits if_splits)

lemma insort_append:
  "\<forall>y \<in> set ys. f x \<le> f y \<Longrightarrow> insort_key f x (zs @ ys) = insort_key f x zs @ ys"
proof (induction zs)
  case Nil
  then show ?case by (cases ys) auto
qed auto

lemma sort_append_above:
  "sorted (map f ys) \<Longrightarrow> \<forall>x \<in> set xs. \<forall>y \<in> set ys. f x \<le> f y \<Longrightarrow> sort_key f (xs @ ys) = sort_key f xs @ ys"
  by (induction xs) (simp_all add: sorted_sort_id insort_append sort_key_id_if_sorted)

lemma revertAll_append:
  "revertAll sql ms xs c s = ((c', None), t) \<Longrightarrow> revertAll sql ms (xs @ ys) c s = revertAll sql ms ys c' t"
  by (induction xs arbitrary: c s) (auto split: option.splits prod.splits sum.splits)

text \<open>Applied one after the other from a schema on, every migration is reverted by its down script.\<close>

fun reverted :: "(string \<Rightarrow> 'd \<Rightarrow> 'd script_run) \<Rightarrow> Migration list \<Rightarrow> 'd \<Rightarrow> bool" where
  "reverted sql [] d \<longleftrightarrow> True"
| "reverted sql (m # ms) d \<longleftrightarrow>
     (case srSchema (sql (mgrUpSQL m) d) of
        Inl e \<Rightarrow> True
      | Inr d' \<Rightarrow> srSchema (sql (mgrDownSQL m) d') = Inr d \<and> reverted sql ms d')"

text \<open>The rows a clean run adds, and that reverting them in the opposite order restores the database.\<close>

definition undoes :: "(string \<Rightarrow> 'd \<Rightarrow> 'd script_run) \<Rightarrow> Migration list \<Rightarrow> AppliedMigration list \<Rightarrow> 'd migration_db \<Rightarrow> 'd migration_db \<Rightarrow> bool" where
  "undoes sql ms rows s t \<longleftrightarrow>
     (\<forall>c u. mdSchema u = mdSchema t \<and> mdRows u = mdRows t \<and> mdFaults u = [] \<longrightarrow>
        (\<exists>u'. revertAll sql ms (rev rows) c u = ((c @ rev rows, None), u') \<and> mdSchema u' = mdSchema s \<and> mdRows u' = mdRows s
          \<and> mdFaults u' = []))"

lemma applyUp_clean:
  assumes "mdFaults s = []" "applyUp sql m s = (Inr row, t)"
  shows "amVersion row = mgrVersion m \<and> mgrVersion m \<notin> set (recorded_versions s) \<and> mdRows t = mdRows s @ [row] \<and> mdFaults t = []
    \<and> srSchema (sql (mgrUpSQL m) (mdSchema s)) = Inr (mdSchema t)"
proof -
  obtain x where run: "migrate sql (mgrUpSQL m) (insertApplied m) (migrationError ''apply'' m) s = (Inr x, t)"
    and row: "row = \<lparr>amVersion = mgrVersion m, amName = mgrName m, amAppliedAt = mdNow s\<rparr>"
    using assms(2) by (auto simp: applyUp_def split: prod.splits sum.splits)
  note ok = migrate_clean_ok [OF assms(1) run]
  have "insertApplied m s = Inr (mdRows t)"
    using run assms(1)
    by (auto simp: migrate_def next_fault_def recordTx_def commitTx_def md_call_def insertApplied_def Let_def
        split: sum.splits option.splits if_splits)
  then have "mdRows t = mdRows s @ [row]" "mgrVersion m \<notin> set (recorded_versions s)"
    by (auto simp: insertApplied_def recorded_versions_def list_ex_iff row split: if_splits)
  then show ?thesis using ok by (simp add: row)
qed

lemma undo_one:
  assumes "distinct (map mgrVersion ms)" "m \<in> set ms" "mdFaults s = []" "applyUp sql m s = (Inr row, t)"
    and "srSchema (sql (mgrDownSQL m) (mdSchema t)) = Inr (mdSchema s)"
  shows "undoes sql ms [row] s t"
proof -
  note up = applyUp_clean [OF assms(3,4)]
  have find: "FindByVersion ms (amVersion row) = Some m" using FindByVersion_member [OF assms(1,2)] up by simp
  have rows: "filter (\<lambda>r. amVersion r \<noteq> mgrVersion m) (mdRows t) = mdRows s"
    using up by (force simp: recorded_versions_def filter_id_conv)
  show ?thesis
    unfolding undoes_def
  proof (intro allI impI)
    fix c and u :: "'a migration_db"
    assume u: "mdSchema u = mdSchema t \<and> mdRows u = mdRows t \<and> mdFaults u = []"
    have "applyDown sql m u = (Inr (), u\<lparr>mdSchema := mdSchema s, mdRows := mdRows s\<rparr>)"
      unfolding applyDown_def using u assms(5) rows by (intro migrate_clean) (simp_all add: deleteApplied_def)
    then show "\<exists>u'. revertAll sql ms (rev [row]) c u = ((c @ rev [row], None), u') \<and> mdSchema u' = mdSchema s
        \<and> mdRows u' = mdRows s \<and> mdFaults u' = []"
      using find u by simp
  qed
qed

lemma undo_append:
  assumes "undoes sql ms xs s t" "undoes sql ms ys t u"
  shows "undoes sql ms (xs @ ys) s u"
  unfolding undoes_def
proof (intro allI impI)
  fix c and w :: "'a migration_db"
  assume "mdSchema w = mdSchema u \<and> mdRows w = mdRows u \<and> mdFaults w = []"
  then obtain w1 where w1: "revertAll sql ms (rev ys) c w = ((c @ rev ys, None), w1)" "mdSchema w1 = mdSchema t \<and> mdRows w1 = mdRows t \<and> mdFaults w1 = []"
    using assms(2) unfolding undoes_def by blast
  then obtain w2 where "revertAll sql ms (rev xs) (c @ rev ys) w1 = (((c @ rev ys) @ rev xs, None), w2)"
    "mdSchema w2 = mdSchema s \<and> mdRows w2 = mdRows s \<and> mdFaults w2 = []"
    using assms(1) unfolding undoes_def by blast
  then show "\<exists>w'. revertAll sql ms (rev (xs @ ys)) c w = ((c @ rev (xs @ ys), None), w') \<and> mdSchema w' = mdSchema s
      \<and> mdRows w' = mdRows s \<and> mdFaults w' = []"
    using revertAll_append [OF w1(1), of "rev xs"] by simp
qed

lemma applyAll_undo:
  assumes "distinct (map mgrVersion ms)"
  shows "applyAll sql applied ns completed s = ((c, None), t) \<Longrightarrow> mdFaults s = [] \<Longrightarrow> set ns \<subseteq> set ms \<Longrightarrow>
    reverted sql (filter (\<lambda>m. applied (mgrVersion m) = None) ns) (mdSchema s) \<Longrightarrow>
    \<exists>rows. c = completed @ rows \<and> mdRows t = mdRows s @ rows \<and> mdFaults t = [] \<and> undoes sql ms rows s t
      \<and> map amVersion rows = filter (\<lambda>v. applied v = None) (map mgrVersion ns)"
proof (induction ns arbitrary: completed s)
  case Nil
  then show ?case by (auto simp: undoes_def)
next
  case (Cons m ns)
  show ?case
  proof (cases "applied (mgrVersion m)")
    case (Some y)
    then show ?thesis using Cons.IH [of completed s] Cons.prems by simp
  next
    case None
    then obtain row u where up: "applyUp sql m s = (Inr row, u)" and rest: "applyAll sql applied ns (completed @ [row]) u = ((c, None), t)"
      using Cons.prems(1) by (auto split: prod.splits sum.splits)
    have m: "m \<in> set ms" using Cons.prems(3) by simp
    note clean = applyUp_clean [OF Cons.prems(2) up]
    have down: "srSchema (sql (mgrDownSQL m) (mdSchema u)) = Inr (mdSchema s)"
      "reverted sql (filter (\<lambda>m. applied (mgrVersion m) = None) ns) (mdSchema u)"
      using Cons.prems(4) None clean by simp_all
    obtain rows where rows: "c = (completed @ [row]) @ rows" "mdRows t = mdRows u @ rows" "mdFaults t = []" "undoes sql ms rows u t"
      "map amVersion rows = filter (\<lambda>v. applied v = None) (map mgrVersion ns)"
      using Cons.IH [OF rest _ _ down(2)] clean Cons.prems(3) by auto
    have "undoes sql ms (row # rows) s t"
      using undo_append [OF undo_one [OF assms m Cons.prems(2) up down(1)] rows(4)] by simp
    then show ?thesis using rows clean None by (intro exI [of _ "row # rows"]) simp
  qed
qed

text \<open>C24: A run can be taken back. When \<^verbatim>\<open>Up\<close> completes on a database that loses no call, the versions it had to apply being
  above the recorded ones, and each migration it applied is reverted by its down script on the schema it made, then \<^verbatim>\<open>Down\<close> by
  the number of migrations it completed reverts exactly these, the last one first, and leaves the schema and the table of
  versions as they were. Nothing is asked of the migrations the run did not apply, and the scripts may commit by themselves;
  the condition excludes runs that apply 000014 or 000029, whose down scripts do nothing.\<close>

theorem migrations_up_then_down:
  assumes "LoadDir visit dir entries = Inr ms" "\<And>xs. mset (visit xs) = mset xs"
    and "mdFaults s = []" "Up sql ms s = ((completed, None), t)" "completed \<noteq> []"
    and "\<And>v w. v \<in> set (recorded_versions s) \<Longrightarrow> w \<in> mgrVersion ` set ms - set (recorded_versions s) \<Longrightarrow> v < w"
    and "reverted sql (filter (\<lambda>m. mgrVersion m \<notin> set (recorded_versions s)) ms) (mdSchema s)"
  shows "\<exists>u. Down sql ms (int (length completed)) t = ((rev completed, None), u) \<and> mdSchema u = mdSchema s \<and> mdRows u = mdRows s"
proof -
  note versions = LoadDir_versions [OF assms(1,2)]
  have e: "EnsureTable w = (Inr (), w\<lparr>mdTable := True\<rparr>)" if "mdFaults w = []" for w :: "'a migration_db"
    using that by (simp add: EnsureTable_def md_call_def)
  have sel: "selectApplied f w = (Inr (f (mdRows w)), w)" if "mdFaults w = []" "mdTable w" for f and w :: "'a migration_db"
    using that by (simp add: selectApplied_def md_call_def)
  define s1 where "s1 = s\<lparr>mdTable := True\<rparr>"
  obtain applied where a: "Applied s1 = (Inr applied, s1)"
    using e [of s1] sel [of s1] assms(3) by (simp add: Applied_def s1_def)
  have none: "applied v = None \<longleftrightarrow> v \<notin> set (recorded_versions s)" for v
    using Applied_ok [OF a] by (simp add: s1_def recorded_versions_def)
  have run: "applyAll sql applied ms [] s1 = ((completed, None), t)"
    using assms(4) a e [OF assms(3)] by (simp add: Up_def s1_def)
  obtain rows where rows: "completed = rows" "mdRows t = mdRows s @ rows" "mdFaults t = []" "undoes sql ms rows s1 t"
    "map amVersion rows = filter (\<lambda>v. v \<notin> set (recorded_versions s)) (map mgrVersion ms)"
    using applyAll_undo [OF versions(2) run] assms(3,7) by (auto simp: s1_def none)
  have "sorted (map amVersion rows)" using versions(1) rows(5) by (simp add: sorted_filter [of id, simplified])
  moreover have "amVersion x \<le> amVersion y" if "x \<in> set (mdRows s)" "y \<in> set rows" for x y
  proof -
    have "amVersion y \<in> set (map amVersion rows)" using that by simp
    then have "amVersion y \<in> mgrVersion ` set ms - set (recorded_versions s)" unfolding rows(5) by auto
    then show ?thesis using assms(6) [of "amVersion x" "amVersion y"] that(1) by (simp add: recorded_versions_def)
  qed
  ultimately have "sort_key amVersion (mdRows s @ rows) = sort_key amVersion (mdRows s) @ rows"
    using sort_append_above by blast
  then have targets: "take (length completed) (rev (sort_key amVersion (mdRows t))) = rev rows"
    using rows(1,2) by simp
  define t1 where "t1 = t\<lparr>mdTable := True\<rparr>"
  obtain u where "revertAll sql ms (rev rows) [] t1 = ((rev rows, None), u)" "mdSchema u = mdSchema s" "mdRows u = mdRows s"
    using rows(4) [unfolded undoes_def, rule_format, of t1 "[]"] rows(3) by (auto simp: t1_def s1_def)
  moreover have "Down sql ms (int (length completed)) t = revertAll sql ms (rev rows) [] t1"
    using e [OF rows(3)] sel [of t1] rows(3) targets assms(5) by (simp add: Down_def t1_def)
  ultimately show ?thesis using rows(1) by auto
qed

text \<open>The exception of the journal is real: a script that commits by itself, whose record is lost, changes the schema but
  not the table of versions.\<close>

theorem committing_script_unrecorded:
  assumes "srCommitted (sql (mgrUpSQL m) (mdSchema s)) = Some d" "srSchema (sql (mgrUpSQL m) (mdSchema s)) = Inr d"
    and "mdFaults s = [NoFault, NoFault, FaultBefore]"
  shows "\<exists>e t. applyUp sql m s = (Inl e, t) \<and> mdSchema t = d \<and> mdRows t = mdRows s"
  using assms by (simp add: applyUp_def migrate_def next_fault_def recordTx_def Let_def split: sum.split)

section \<open>A directory with two migrations\<close>

definition mig_entries :: "dir_entry list" where
  "mig_entries =
     [\<lparr>deName = ''1_a.down.sql'', deIsDir = False, deBody = Some ''-a''\<rparr>, \<lparr>deName = ''1_a.up.sql'', deIsDir = False, deBody = Some ''+a''\<rparr>,
      \<lparr>deName = ''2_b.down.sql'', deIsDir = False, deBody = Some ''-b''\<rparr>, \<lparr>deName = ''2_b.up.sql'', deIsDir = False, deBody = Some ''+b''\<rparr>,
      \<lparr>deName = ''README.md'', deIsDir = False, deBody = Some ''text''\<rparr>]"

definition mig_list :: "Migration list" where
  "mig_list =
     [\<lparr>mgrVersion = 1, mgrName = ''a'', mgrUpPath = ''m/1_a.up.sql'', mgrDownPath = ''m/1_a.down.sql'', mgrUpSQL = ''+a'', mgrDownSQL = ''-a''\<rparr>,
      \<lparr>mgrVersion = 2, mgrName = ''b'', mgrUpPath = ''m/2_b.up.sql'', mgrDownPath = ''m/2_b.down.sql'', mgrUpSQL = ''+b'', mgrDownSQL = ''-b''\<rparr>]"

text \<open>Scripts that push a name on the schema or take it off.\<close>

definition mig_sql :: "string \<Rightarrow> string list \<Rightarrow> string list script_run" where
  "mig_sql script d =
     \<lparr>srSchema = (if script = ''+a'' then Inr (''a'' # d) else if script = ''+b'' then Inr (''b'' # d)
        else case d of [] \<Rightarrow> Inl (ErrDatabase ''42P01'') | x # r \<Rightarrow> Inr r), srCommitted = None\<rparr>"

definition mig_db :: "fault list \<Rightarrow> string list migration_db" where
  "mig_db fs = \<lparr>mdSchema = [], mdTable = False, mdRows = [], mdNow = 5, mdFaults = fs\<rparr>"

lemma mig_loaded: "LoadDir (\<lambda>xs. xs) ''m'' (Some mig_entries) = Inr mig_list"
  by code_simp

lemma mig_start: "journal mig_sql mig_list [] (mig_db fs)"
  by (simp add: journal_def recorded_versions_def mig_db_def)

text \<open>The reply to the commit of the second migration is lost.\<close>

abbreviation "mig_faults \<equiv> replicate 10 NoFault @ [FaultAfter]"

theorem migrations_keep_journal_witness:
  "snd (fst (Up mig_sql mig_list (mig_db mig_faults))) \<noteq> None
   \<and> recorded_versions (snd (Up mig_sql mig_list (mig_db mig_faults))) = [1, 2]
   \<and> journal mig_sql mig_list [] (snd (Up mig_sql mig_list (mig_db mig_faults)))"
proof -
  obtain c e t where up: "Up mig_sql mig_list (mig_db mig_faults) = ((c, e), t)" by (metis surjective_pairing)
  have "(\<lambda>(r, t). snd r \<noteq> None \<and> recorded_versions t = [1, 2]) (Up mig_sql mig_list (mig_db mig_faults))" by code_simp
  moreover have "journal mig_sql mig_list [] t"
    using migrations_keep_journal [OF mig_loaded _ mig_start up refl] by (auto simp: interrupted_def mig_sql_def)
  ultimately show ?thesis by (simp add: up)
qed

theorem migrations_up_then_down_witness:
  "\<exists>u t. Down mig_sql mig_list 2 t = ((rev (fst (fst (Up mig_sql mig_list (mig_db [])))), None), u) \<and> mdSchema u = [] \<and> mdRows u = []"
proof -
  obtain c e t where up: "Up mig_sql mig_list (mig_db []) = ((c, e), t)" by (metis surjective_pairing)
  have "(\<lambda>(r, t). snd r = None \<and> length (fst r) = 2) (Up mig_sql mig_list (mig_db []))" by code_simp
  then have c: "e = None" "length c = 2" by (simp_all add: up)
  have "reverted mig_sql mig_list []" by (simp add: mig_list_def mig_sql_def)
  then have "\<exists>u. Down mig_sql mig_list (int (length c)) t = ((rev c, None), u) \<and> mdSchema u = mdSchema (mig_db []) \<and> mdRows u = mdRows (mig_db [])"
    by (intro migrations_up_then_down [OF mig_loaded _ _ up [unfolded c(1)]]) (use c in \<open>auto simp: mig_db_def recorded_versions_def\<close>)
  then show ?thesis using c up by (auto simp: mig_db_def)
qed

end
