(* ===== verification/Credential_Envelope.thy ===== *)
theory Credential_Envelope
  imports Go_Json
begin

text \<open>
  The sealed broker credentials of \<^verbatim>\<open>internal/credentials\<close> (\<^verbatim>\<open>envelope.go\<close>, \<^verbatim>\<open>config.go\<close>): the checks of
  identities and keys, the Redis keys, the envelope with its JSON form, and sealing and opening. Hexadecimal and
  base64 are modelled byte by byte. AES-GCM, SHA-256 and the JSON text of a value are the parameter \<open>crypt\<close>.
\<close>

section \<open>Bytes as text\<close>

definition hex_digit :: "nat \<Rightarrow> char" where
  "hex_digit n = ''0123456789abcdef'' ! n"

definition byte :: "char \<Rightarrow> nat" where
  "byte c = of_char c"

text \<open>\<^verbatim>\<open>hex.EncodeToString\<close> and \<^verbatim>\<open>hex.DecodeString\<close>, which takes capital digits too.\<close>

definition hexEncode :: "string \<Rightarrow> string" where
  "hexEncode s = concat (map (\<lambda>c. [hex_digit (byte c div 16), hex_digit (byte c mod 16)]) s)"

definition hex_val :: "char \<Rightarrow> nat option" where
  "hex_val c =
     (let n = byte c
      in if 48 \<le> n \<and> n \<le> 57 then Some (n - 48)
         else if 97 \<le> n \<and> n \<le> 102 then Some (n - 87)
         else if 65 \<le> n \<and> n \<le> 70 then Some (n - 55) else None)"

fun hexDecode :: "string \<Rightarrow> string option" where
  "hexDecode [] = Some []"
| "hexDecode [c] = None"
| "hexDecode (a # b # s) =
     (case (hex_val a, hex_val b, hexDecode s) of
        (Some x, Some y, Some r) \<Rightarrow> Some (char_of (16 * x + y) # r)
      | _ \<Rightarrow> None)"

definition b64_alphabet :: string where
  "b64_alphabet = ''ABCDEFGHIJKLMNOPQRSTUVWXYZabcdefghijklmnopqrstuvwxyz0123456789+/''"

definition b64_char :: "nat \<Rightarrow> char" where
  "b64_char n = b64_alphabet ! n"

definition b64_val :: "char \<Rightarrow> nat option" where
  "b64_val c =
     (let n = byte c
      in if 65 \<le> n \<and> n \<le> 90 then Some (n - 65)
         else if 97 \<le> n \<and> n \<le> 122 then Some (n - 71)
         else if 48 \<le> n \<and> n \<le> 57 then Some (n + 4)
         else if c = CHR ''+'' then Some 62 else if c = CHR ''/'' then Some 63 else None)"

fun base64Encode :: "string \<Rightarrow> string" where
  "base64Encode [] = []"
| "base64Encode [a] = [b64_char (byte a div 4), b64_char (byte a mod 4 * 16), CHR ''='', CHR ''='']"
| "base64Encode [a, b] =
     [b64_char (byte a div 4), b64_char (byte a mod 4 * 16 + byte b div 16), b64_char (byte b mod 16 * 4), CHR ''='']"
| "base64Encode (a # b # c # s) =
     b64_char (byte a div 4) # b64_char (byte a mod 4 * 16 + byte b div 16)
     # b64_char (byte b mod 16 * 4 + byte c div 64) # b64_char (byte c mod 64) # base64Encode s"

text \<open>\<^verbatim>\<open>base64.StdEncoding.DecodeString\<close>: line ends are skipped, padding is required and only at the end, and the
  bits a padded group leaves over are not looked at.\<close>

fun base64_groups :: "string \<Rightarrow> string option" where
  "base64_groups [] = Some []"
| "base64_groups (a # b # c # d # s) =
     (case (b64_val a, b64_val b) of
        (Some x, Some y) \<Rightarrow>
          if c = CHR ''='' then (if d = CHR ''='' \<and> s = [] then Some [char_of (4 * x + y div 16)] else None)
          else (case b64_val c of
                  None \<Rightarrow> None
                | Some z \<Rightarrow>
                    if d = CHR ''=''
                    then (if s = [] then Some [char_of (4 * x + y div 16), char_of (y mod 16 * 16 + z div 4)] else None)
                    else (case (b64_val d, base64_groups s) of
                            (Some w, Some r) \<Rightarrow>
                              Some (char_of (4 * x + y div 16) # char_of (y mod 16 * 16 + z div 4)
                                    # char_of (z mod 4 * 64 + w) # r)
                          | _ \<Rightarrow> None))
      | _ \<Rightarrow> None)"
| "base64_groups _ = None"

definition base64Decode :: "string \<Rightarrow> string option" where
  "base64Decode s = base64_groups (filter (\<lambda>c. byte c \<noteq> 10 \<and> byte c \<noteq> 13) s)"

lemma byte_less [simp]: "byte c < 256"
  by (simp add: byte_def)

lemma byte_high [simp]:
  "byte c div 16 div 16 = 0" "byte c div 16 mod 16 = byte c div 16"
  "byte c div 64 div 4 = 0" "byte c div 64 mod 4 = byte c div 64"
proof -
  have "byte c div 16 < 16" "byte c div 64 < 4" using byte_less [of c] by (simp_all add: less_mult_imp_div_less del: byte_less)
  then show "byte c div 16 div 16 = 0" "byte c div 16 mod 16 = byte c div 16" "byte c div 64 div 4 = 0"
    "byte c div 64 mod 4 = byte c div 64" by simp_all
qed

lemma char_of_byte [simp]: "char_of (byte c) = c"
  by (simp add: byte_def)

text \<open>Each digit of an alphabet stands for itself.\<close>

lemma hex_digits: "list_all (\<lambda>n. hex_val (hex_digit n) = Some n) [0..<16]"
  by (simp add: upt_conv_Cons hex_digit_def hex_val_def byte_def)

lemma b64_digits:
  "list_all (\<lambda>n. b64_val (b64_char n) = Some n \<and> b64_char n \<noteq> CHR ''='' \<and> byte (b64_char n) \<noteq> 10 \<and> byte (b64_char n) \<noteq> 13)
     [0..<64]"
  by (simp add: upt_conv_Cons b64_alphabet_def b64_char_def b64_val_def byte_def)

lemma hex_val_digit [simp]: "n < 16 \<Longrightarrow> hex_val (hex_digit n) = Some n"
  using hex_digits by (simp add: list_all_iff)

lemma b64_digit:
  assumes "n < 64"
  shows "b64_val (b64_char n) = Some n" "b64_char n \<noteq> CHR ''=''" "byte (b64_char n) \<noteq> 10" "byte (b64_char n) \<noteq> 13"
  using assms b64_digits by (simp_all add: list_all_iff)

lemma hex_roundtrip: "hexDecode (hexEncode s) = Some s"
proof (induction s)
  case (Cons c s)
  have "byte c div 16 < 16" "byte c mod 16 < 16" using byte_less [of c] by (simp_all add: less_mult_imp_div_less del: byte_less)
  moreover have "16 * (byte c div 16) + byte c mod 16 = byte c" by simp
  moreover have "hexEncode (c # s) = hex_digit (byte c div 16) # hex_digit (byte c mod 16) # hexEncode s"
    by (simp add: hexEncode_def)
  ultimately show ?case using Cons.IH by simp
qed (simp add: hexEncode_def)

lemma length_hexEncode [simp]: "length (hexEncode s) = 2 * length s"
  by (induction s) (simp_all add: hexEncode_def)

text \<open>Three bytes are the four six-bit groups \<open>a\<close> to \<open>d\<close> of an encoding.\<close>

lemma b64_bits:
  assumes "a < 256" and "b < 256" and "c < (256::nat)"
  shows "a div 4 < 64" "a mod 4 * 16 < 64" "a mod 4 * 16 + b div 16 < 64" "b mod 16 * 4 < 64" "b mod 16 * 4 + c div 64 < 64"
    "4 * (a div 4) + (a mod 4 * 16 + b div 16) div 16 = a"
    "(a mod 4 * 16 + b div 16) mod 16 * 16 + (b mod 16 * 4 + c div 64) div 4 = b"
    "(b mod 16 * 4 + c div 64) mod 4 * 64 + c mod 64 = c"
proof -
  have small: "a div 4 < 64" "b div 16 < 16" "c div 64 < 4" using assms by (simp_all add: less_mult_imp_div_less)
  have mods: "a mod 4 < 4" "b mod 16 < 16" by simp_all
  show "a div 4 < 64" "a mod 4 * 16 < 64" "a mod 4 * 16 + b div 16 < 64" "b mod 16 * 4 < 64" "b mod 16 * 4 + c div 64 < 64"
    using small mods by linarith+
  have parts: "(a mod 4 * 16 + b div 16) div 16 = a mod 4" "(a mod 4 * 16 + b div 16) mod 16 = b div 16"
    "(b mod 16 * 4 + c div 64) div 4 = b mod 16" "(b mod 16 * 4 + c div 64) mod 4 = c div 64"
    using small by simp_all
  show "4 * (a div 4) + (a mod 4 * 16 + b div 16) div 16 = a"
    "(a mod 4 * 16 + b div 16) mod 16 * 16 + (b mod 16 * 4 + c div 64) div 4 = b"
    "(b mod 16 * 4 + c div 64) mod 4 * 64 + c mod 64 = c"
    unfolding parts by simp_all
qed

lemma b64_bits_short:
  assumes "a < 256" and "b < (256::nat)"
  shows "4 * (a div 4) + a mod 4 * 16 div 16 = a"
    "(a mod 4 * 16 + b div 16) mod 16 * 16 + b mod 16 * 4 div 4 = b"
  using b64_bits(6) [of a 0 0] b64_bits(7) [of a b 0] assms by simp_all

lemma base64_groups_encode: "base64_groups (base64Encode s) = Some s"
proof (induction s rule: base64Encode.induct)
  case (2 a)
  note bits = b64_bits [OF byte_less [of a] byte_less [of a] byte_less [of a]] b64_bits_short [OF byte_less [of a] byte_less [of a]]
  show ?case by (simp add: b64_digit bits)
next
  case (3 a b)
  note bits = b64_bits [OF byte_less [of a] byte_less [of b] byte_less [of a]] b64_bits_short [OF byte_less [of a] byte_less [of b]]
  show ?case by (simp add: b64_digit bits)
next
  case (4 a b c s)
  note bits = b64_bits [OF byte_less [of a] byte_less [of b] byte_less [of c]]
  show ?case by (simp add: b64_digit bits "4.IH")
qed simp

lemma base64_no_breaks: "filter (\<lambda>c. byte c \<noteq> 10 \<and> byte c \<noteq> 13) (base64Encode s) = base64Encode s"
proof (induction s rule: base64Encode.induct)
  case (2 a)
  note bits = b64_bits [OF byte_less [of a] byte_less [of a] byte_less [of a]] b64_bits_short [OF byte_less [of a] byte_less [of a]]
  show ?case by (simp add: b64_digit bits) (simp add: byte_def)
next
  case (3 a b)
  note bits = b64_bits [OF byte_less [of a] byte_less [of b] byte_less [of a]] b64_bits_short [OF byte_less [of a] byte_less [of b]]
  show ?case by (simp add: b64_digit bits) (simp add: byte_def)
next
  case (4 a b c s)
  note bits = b64_bits [OF byte_less [of a] byte_less [of b] byte_less [of c]]
  show ?case by (simp add: b64_digit bits "4.IH")
qed simp

lemma base64_roundtrip [simp]: "base64Decode (base64Encode s) = Some s"
  by (simp add: base64Decode_def base64_no_breaks base64_groups_encode)

section \<open>Identities and keys\<close>

type_synonym 'a result = "error + 'a"

abbreviation fails :: "string \<Rightarrow> 'a result" where
  "fails msg \<equiv> Inl (ErrText msg)"

text \<open>The expressions of \<^verbatim>\<open>regexp.MustCompile\<close> here are anchored classes of bytes with a bounded repetition.\<close>

definition matches :: "(char \<Rightarrow> bool) \<Rightarrow> nat \<Rightarrow> nat \<Rightarrow> string \<Rightarrow> bool" where
  "matches ok least most s \<longleftrightarrow> least \<le> length s \<and> length s \<le> most \<and> list_all ok s"

definition is_small :: "char \<Rightarrow> bool" where
  "is_small c \<longleftrightarrow> 97 \<le> byte c \<and> byte c \<le> 122"

definition is_capital :: "char \<Rightarrow> bool" where
  "is_capital c \<longleftrightarrow> 65 \<le> byte c \<and> byte c \<le> 90"

definition accountIDPattern :: "string \<Rightarrow> bool" where
  "accountIDPattern = matches is_digit 6 20"

definition brokerIDPattern :: "string \<Rightarrow> bool" where
  "brokerIDPattern = matches (\<lambda>c. is_small c \<or> is_digit c \<or> c = CHR ''_'' \<or> c = CHR ''-'') 1 32"

definition keyIDPattern :: "string \<Rightarrow> bool" where
  "keyIDPattern = matches (\<lambda>c. is_small c \<or> is_capital c \<or> is_digit c \<or> c = CHR ''.'' \<or> c = CHR ''_'' \<or> c = CHR ''-'') 1 64"

record BrokerCredentials =
  bcLoginUser :: string
  bcPassword :: string
  bcDynamicPassword :: string

record KeyMaterial =
  kmID :: string
  kmKey :: string

definition ParseKeyMaterial :: "string \<Rightarrow> string \<Rightarrow> KeyMaterial result" where
  "ParseKeyMaterial keyID0 keyHex0 =
     (let keyID = TrimSpace keyID0; keyHex = TrimSpace keyHex0
      in if \<not> keyIDPattern keyID
         then fails ''credential key id must use 1-64 letters, digits, dot, underscore, or hyphen''
         else if length keyHex \<noteq> 64 then fails ''credential key must contain exactly 64 hexadecimal characters''
         else case hexDecode keyHex of
                Some key \<Rightarrow> if length key = 32 then Inr \<lparr>kmID = keyID, kmKey = key\<rparr>
                  else fails ''credential key must be a valid 32-byte hexadecimal value''
              | None \<Rightarrow> fails ''credential key must be a valid 32-byte hexadecimal value'')"

definition ValidateBrokerCredentials :: "BrokerCredentials \<Rightarrow> unit result" where
  "ValidateBrokerCredentials v =
     (if TrimSpace (bcLoginUser v) = [] then fails ''broker_login_user is required''
      else if TrimSpace (bcPassword v) = [] then fails ''broker_password is required'' else Inr ())"

definition ValidateIdentity :: "string \<Rightarrow> string \<Rightarrow> string \<Rightarrow> int \<Rightarrow> string \<Rightarrow> unit result" where
  "ValidateIdentity environment brokerID accountID version keyID =
     (if environment \<noteq> ''test'' \<and> environment \<noteq> ''prod'' then fails ''credential environment must be test or prod''
      else if \<not> brokerIDPattern brokerID
      then fails ''credential broker id must use 1-32 lowercase letters, digits, underscore, or hyphen''
      else if \<not> accountIDPattern accountID then fails ''credential account id must contain 6-20 digits''
      else if version < 1 then fails ''credential version must be positive''
      else if \<not> keyIDPattern keyID then fails ''credential key id is invalid'' else Inr ())"

definition ProtocolEnvironment :: "string \<Rightarrow> string result" where
  "ProtocolEnvironment environment =
     (if environment = ''test'' then Inr ''test''
      else if environment = ''production'' then Inr ''prod''
      else fails (''unsupported Relay environment '' @ environment))"

text \<open>\<open>lookup\<close> reads the process environment.\<close>

definition LoadKeyMaterialWithLookup :: "string \<Rightarrow> (string \<Rightarrow> string) \<Rightarrow> KeyMaterial result" where
  "LoadKeyMaterialWithLookup environment lookup =
     (let load = (\<lambda>idName hexName.
            let keyID = TrimSpace (lookup idName); keyHex = TrimSpace (lookup hexName)
            in if keyID = [] \<or> keyHex = []
               then fails (''credential key material is missing; set '' @ idName @ '' and '' @ hexName
                           @ '' through the secure process environment'')
               else ParseKeyMaterial keyID keyHex)
      in if TrimSpace environment = ''test''
         then load ''RELAY_OC_HUAXIN_TEST_CREDENTIAL_KEY_ID'' ''RELAY_OC_HUAXIN_TEST_CREDENTIAL_KEY_HEX''
         else if TrimSpace environment = ''prod''
         then load ''RELAY_OC_HUAXIN_PROD_CREDENTIAL_KEY_ID'' ''RELAY_OC_HUAXIN_PROD_CREDENTIAL_KEY_HEX''
         else fails ''credential environment must be test or prod'')"

section \<open>Redis keys\<close>

definition Prefix :: "string \<Rightarrow> string \<Rightarrow> string \<Rightarrow> string result" where
  "Prefix environment brokerID accountID =
     (case ValidateIdentity environment brokerID accountID 1 ''validation'' of
        Inl e \<Rightarrow> Inl e
      | Inr _ \<Rightarrow> Inr (''relay:'' @ environment @ '':v1:'' @ brokerID @ '':'' @ accountID))"

definition CurrentKey :: "string \<Rightarrow> string \<Rightarrow> string \<Rightarrow> string result" where
  "CurrentKey environment brokerID accountID =
     map_sum id (\<lambda>p. p @ '':secret:credentials:current'') (Prefix environment brokerID accountID)"

definition VersionKey :: "string \<Rightarrow> string \<Rightarrow> string \<Rightarrow> int \<Rightarrow> string result" where
  "VersionKey environment brokerID accountID version =
     (if version < 1 then fails ''credential version must be positive''
      else map_sum id (\<lambda>p. p @ '':secret:credentials:v'' @ Itoa version) (Prefix environment brokerID accountID))"

definition LockKey :: "string \<Rightarrow> string \<Rightarrow> string \<Rightarrow> string result" where
  "LockKey environment brokerID accountID =
     map_sum id (\<lambda>p. p @ '':secret:credentials:lock'') (Prefix environment brokerID accountID)"

section \<open>The envelope\<close>

record Envelope =
  evProtocol :: string
  evAlgorithm :: string
  evEnvironment :: string
  evBrokerID :: string
  evAccountID :: string
  evVersion :: int
  evKeyID :: string
  evNonceB64 :: string
  evCiphertextB64 :: string
  evTagB64 :: string
  evIssuedAt :: string

text \<open>What the library functions outside the model compute: sealing and opening under a key, a nonce and
  additional data, the digest, and the text of a JSON value. \<open>cyFirst\<close> is \<^verbatim>\<open>Decoder.Decode\<close>: the first value and the
  text behind it.\<close>

record crypt =
  cySeal :: "string \<Rightarrow> string \<Rightarrow> string \<Rightarrow> string \<Rightarrow> string"
  cyOpen :: "string \<Rightarrow> string \<Rightarrow> string \<Rightarrow> string \<Rightarrow> string option"
  cySHA256 :: "string \<Rightarrow> string"
  cyPrint :: "json \<Rightarrow> string"
  cyParse :: "string \<Rightarrow> json option"
  cyFirst :: "string \<Rightarrow> (json \<times> string) option"

abbreviation "NonceSize \<equiv> (12 :: nat)"
abbreviation "Overhead \<equiv> (16 :: nat)"

text \<open>The documented behaviour of \<^verbatim>\<open>cipher.AEAD\<close>: a sealed text is the plain text and a tag longer, and opens to
  what was sealed.\<close>

definition gcm_laws :: "crypt \<Rightarrow> bool" where
  "gcm_laws C \<longleftrightarrow> (\<forall>k n p a. length (cySeal C k n p a) = length p + Overhead \<and> cyOpen C k n (cySeal C k n p a) a = Some p)"

text \<open>Encoding a JSON value and reading it back.\<close>

definition json_laws :: "crypt \<Rightarrow> json \<Rightarrow> bool" where
  "json_laws C v \<longleftrightarrow> cyParse C (cyPrint C v) = Some v \<and> cyFirst C (cyPrint C v) = Some (v, [])"

definition envelope_json :: "Envelope \<Rightarrow> json" where
  "envelope_json e = JObj
     [(''protocol'', JStr (evProtocol e)), (''algorithm'', JStr (evAlgorithm e)), (''env'', JStr (evEnvironment e)),
      (''broker_id'', JStr (evBrokerID e)), (''account_id'', JStr (evAccountID e)),
      (''credential_version'', JInt (evVersion e)), (''key_id'', JStr (evKeyID e)), (''nonce_b64'', JStr (evNonceB64 e)),
      (''ciphertext_b64'', JStr (evCiphertextB64 e)), (''tag_b64'', JStr (evTagB64 e)), (''issued_at'', JStr (evIssuedAt e))]"

definition envelope_texts :: "string list" where
  "envelope_texts = [''protocol'', ''algorithm'', ''env'', ''broker_id'', ''account_id'', ''key_id'', ''nonce_b64'',
     ''ciphertext_b64'', ''tag_b64'', ''issued_at'']"

definition envelope_of :: "(string \<times> json) list \<Rightarrow> Envelope" where
  "envelope_of ps =
     \<lparr>evProtocol = jstr ''protocol'' ps, evAlgorithm = jstr ''algorithm'' ps, evEnvironment = jstr ''env'' ps,
      evBrokerID = jstr ''broker_id'' ps, evAccountID = jstr ''account_id'' ps,
      evVersion = jint ''credential_version'' ps, evKeyID = jstr ''key_id'' ps, evNonceB64 = jstr ''nonce_b64'' ps,
      evCiphertextB64 = jstr ''ciphertext_b64'' ps, evTagB64 = jstr ''tag_b64'' ps, evIssuedAt = jstr ''issued_at'' ps\<rparr>"

definition is_json_space :: "char \<Rightarrow> bool" where
  "is_json_space c \<longleftrightarrow> byte c = 32 \<or> byte c = 9 \<or> byte c = 10 \<or> byte c = 13"

text \<open>\<^verbatim>\<open>DisallowUnknownFields\<close>: a member no field answers to is an error.\<close>

definition decodeEnvelope :: "crypt \<Rightarrow> string \<Rightarrow> Envelope result" where
  "decodeEnvelope C data =
     (case cyFirst C data of
        None \<Rightarrow> fails ''credential envelope is invalid JSON''
      | Some (v, rest) \<Rightarrow>
          let ps = jmembers v
          in if jnot_object v \<or> str_errs envelope_texts ps \<or> int_errs [''credential_version''] ps
                \<or> list_ex (\<lambda>(k, _). \<not> list_ex (EqualFold k) (''credential_version'' # envelope_texts)) ps
             then fails ''credential envelope is invalid JSON''
             else if \<not> list_all is_json_space rest then fails ''credential envelope contains trailing data''
             else Inr (envelope_of ps))"

definition credentials_json :: "BrokerCredentials \<Rightarrow> json" where
  "credentials_json v = JObj
     [(''broker_login_user'', JStr (bcLoginUser v)), (''broker_password'', JStr (bcPassword v)),
      (''dynamic_password'', JStr (bcDynamicPassword v))]"

definition credentials_of :: "json \<Rightarrow> BrokerCredentials option" where
  "credentials_of v =
     (let ps = jmembers v
      in if jnot_object v \<or> str_errs [''broker_login_user'', ''broker_password'', ''dynamic_password''] ps then None
         else Some \<lparr>bcLoginUser = jstr ''broker_login_user'' ps, bcPassword = jstr ''broker_password'' ps,
                    bcDynamicPassword = jstr ''dynamic_password'' ps\<rparr>)"

section \<open>Sealing and opening\<close>

definition CredProtocol :: string where "CredProtocol = ''oc.secret.v1''"

definition CredAlgorithm :: string where "CredAlgorithm = ''A256GCM''"

definition AdditionalAuthenticatedData :: "string \<Rightarrow> string \<Rightarrow> string \<Rightarrow> int \<Rightarrow> string \<Rightarrow> string" where
  "AdditionalAuthenticatedData environment brokerID accountID version keyID =
     CredProtocol @ ''|'' @ environment @ ''|'' @ brokerID @ ''|'' @ accountID @ ''|'' @ Itoa version @ ''|'' @ keyID"

text \<open>\<^verbatim>\<open>time.RFC3339\<close> in the business location.\<close>

definition FormatRFC3339 :: "gotime \<Rightarrow> string" where
  "FormatRFC3339 t =
     (let s = (t + businessOffset) mod day_length div second
      in formatBusinessDate t @ ''T'' @ dig2 (s div 3600) @ '':'' @ dig2 (s div 60 mod 60) @ '':'' @ dig2 (s mod 60) @ ''+08:00'')"

text \<open>\<^verbatim>\<open>io.ReadFull\<close> from a source that holds the bytes of the state.\<close>

definition readFull :: "string \<Rightarrow> nat \<Rightarrow> (string, string) act" where
  "readFull msg n bytes =
     (if n \<le> length bytes then (Inr (take n bytes), drop n bytes) else (Inl (ErrText msg), []))"

definition randomToken :: "nat \<Rightarrow> (string, string) act" where
  "randomToken n = seq (readFull ''generate credential operation token'' n) (\<lambda>value. ret (hexEncode value))"

definition sealed_envelope :: "crypt \<Rightarrow> string \<Rightarrow> string \<Rightarrow> string \<Rightarrow> int \<Rightarrow> KeyMaterial \<Rightarrow> BrokerCredentials
    \<Rightarrow> gotime \<Rightarrow> string \<Rightarrow> Envelope result" where
  "sealed_envelope C environment brokerID accountID version key plaintext issuedAt nonce =
     (let aad = AdditionalAuthenticatedData environment brokerID accountID version (kmID key);
          sealed = cySeal C (kmKey key) nonce (cyPrint C (credentials_json plaintext)) aad;
          n = length sealed - Overhead
      in if length sealed < Overhead then fails ''credential encryption produced an invalid result''
         else Inr \<lparr>evProtocol = CredProtocol, evAlgorithm = CredAlgorithm, evEnvironment = environment, evBrokerID = brokerID,
                   evAccountID = accountID, evVersion = version, evKeyID = kmID key, evNonceB64 = base64Encode nonce,
                   evCiphertextB64 = base64Encode (take n sealed), evTagB64 = base64Encode (drop n sealed),
                   evIssuedAt = FormatRFC3339 issuedAt\<rparr>)"

definition Encrypt :: "crypt \<Rightarrow> string \<Rightarrow> string \<Rightarrow> string \<Rightarrow> int \<Rightarrow> KeyMaterial \<Rightarrow> BrokerCredentials \<Rightarrow> gotime
    \<Rightarrow> (string, Envelope) act" where
  "Encrypt C environment brokerID accountID version key plaintext issuedAt =
     seq (of_res (ValidateIdentity environment brokerID accountID version (kmID key))) (\<lambda>_.
       if length (kmKey key) \<noteq> 32 then raise (ErrText ''credential key must be 32 bytes'')
       else seq (of_res (ValidateBrokerCredentials plaintext)) (\<lambda>_.
         seq (readFull ''generate credential nonce'' NonceSize) (\<lambda>nonce.
           of_res (sealed_envelope C environment brokerID accountID version key plaintext issuedAt nonce))))"

fun cause_text :: "error \<Rightarrow> string" where
  "cause_text (ErrText t) = t"
| "cause_text _ = []"

definition Envelope_Validate :: "Envelope \<Rightarrow> string \<Rightarrow> string \<Rightarrow> string \<Rightarrow> int \<Rightarrow> string \<Rightarrow> unit result" where
  "Envelope_Validate e environment brokerID accountID version keyID =
     (if evProtocol e \<noteq> CredProtocol then fails ''credential envelope protocol mismatch''
      else if evAlgorithm e \<noteq> CredAlgorithm then fails ''credential envelope algorithm mismatch''
      else case ValidateIdentity (evEnvironment e) (evBrokerID e) (evAccountID e) (evVersion e) (evKeyID e) of
             Inl err \<Rightarrow> fails (''invalid credential envelope identity: '' @ cause_text err)
           | Inr _ \<Rightarrow>
               if evEnvironment e \<noteq> environment \<or> evBrokerID e \<noteq> brokerID \<or> evAccountID e \<noteq> accountID
                  \<or> evVersion e \<noteq> version \<or> evKeyID e \<noteq> keyID
               then fails ''credential envelope identity mismatch''
               else if parseRFC3339 (evIssuedAt e) = None then fails ''credential envelope issued_at is invalid''
               else Inr ())"

definition openEnvelope :: "crypt \<Rightarrow> Envelope \<Rightarrow> KeyMaterial \<Rightarrow> string \<Rightarrow> string \<Rightarrow> string \<Rightarrow> BrokerCredentials result" where
  "openEnvelope C e key nonce ciphertext tag =
     (if length nonce \<noteq> NonceSize \<or> length tag \<noteq> Overhead
      then fails ''credential envelope nonce or tag length is invalid''
      else case cyOpen C (kmKey key) nonce (ciphertext @ tag)
                  (AdditionalAuthenticatedData (evEnvironment e) (evBrokerID e) (evAccountID e) (evVersion e) (evKeyID e)) of
             None \<Rightarrow> fails ''credential envelope authentication failed''
           | Some plainJSON \<Rightarrow>
               (case Option.bind (cyParse C plainJSON) credentials_of of
                  None \<Rightarrow> fails ''credential plaintext is invalid JSON''
                | Some plaintext \<Rightarrow>
                    (case ValidateBrokerCredentials plaintext of
                       Inl err \<Rightarrow> fails (''credential plaintext is invalid: '' @ cause_text err)
                     | Inr _ \<Rightarrow> Inr plaintext)))"

definition Decrypt :: "crypt \<Rightarrow> Envelope \<Rightarrow> KeyMaterial \<Rightarrow> BrokerCredentials result" where
  "Decrypt C e key =
     (case Envelope_Validate e (evEnvironment e) (evBrokerID e) (evAccountID e) (evVersion e) (kmID key) of
        Inl err \<Rightarrow> Inl err
      | Inr _ \<Rightarrow>
          if length (kmKey key) \<noteq> 32 then fails ''credential key must be 32 bytes''
          else case base64Decode (evNonceB64 e) of
                 None \<Rightarrow> fails ''credential envelope nonce is not valid base64''
               | Some nonce \<Rightarrow>
                   (case base64Decode (evCiphertextB64 e) of
                      None \<Rightarrow> fails ''credential envelope ciphertext is not valid base64''
                    | Some ciphertext \<Rightarrow>
                        (case base64Decode (evTagB64 e) of
                           None \<Rightarrow> fails ''credential envelope tag is not valid base64''
                         | Some tag \<Rightarrow> openEnvelope C e key nonce ciphertext tag)))"

section \<open>What a sealed envelope opens to\<close>

lemma json_spaces_Nil [simp]: "list_all is_json_space []"
  by simp

lemma clock_digits:
  fixes s :: int
  assumes "0 \<le> s" "s < 86400"
  shows "10 * (s div 3600 div 10 mod 10) + s div 3600 mod 10 < 24"
    "10 * (s div 60 mod 60 div 10 mod 10) + s div 60 mod 60 mod 10 < 60"
    "10 * (s mod 60 div 10 mod 10) + s mod 60 mod 10 < 60"
proof -
  have "0 \<le> s div 3600" "s div 3600 < 24" "s div 60 mod 60 < 60" "s mod 60 < 60" using assms by simp_all
  then show "10 * (s div 3600 div 10 mod 10) + s div 3600 mod 10 < 24"
    "10 * (s div 60 mod 60 div 10 mod 10) + s div 60 mod 60 mod 10 < 60"
    "10 * (s mod 60 div 10 mod 10) + s mod 60 mod 10 < 60"
    by (simp_all add: decimal2)
qed

lemma takeClock_digits:
  assumes "num2 a b < 24" "num2 c d < 60" "num2 e f < 60" "list_all is_digit [a, b, c, d, e, f]"
  shows "takeClock (a # b # CHR '':'' # c # d # CHR '':'' # e # f # CHR ''+'' # z) =
    Some ((num2 a b * 3600 + num2 c d * 60 + num2 e f) * second, CHR ''+'' # z)"
  using assms by (cases z) (simp_all add: takeClock_def takeFraction_def)

lemma takeZone_business: "takeZone ''+08:00'' = Some (28800, [])"
  by code_simp

lemma parse_FormatRFC3339:
  assumes "valid_civil (businessDate t)"
  shows "parseRFC3339 (FormatRFC3339 t) \<noteq> None"
proof -
  define s where "s = (t + businessOffset) mod day_length div second"
  have day: "0 < day_length" "day_length = 86400 * second" by (simp_all add: day_length_def second_def)
  have "0 \<le> (t + businessOffset) mod day_length" "(t + businessOffset) mod day_length < 86400 * second"
    using pos_mod_bound [OF day(1)] day by simp_all
  then have "0 \<le> s" "s < 86400" unfolding s_def second_def by linarith+
  note digits = clock_digits [OF this]
  obtain a where f: "formatBusinessDate t = a" "length a = 10" "parseDate10 a = Some (businessDate t)"
    using assms by (simp add: formatBusinessDate_def length_formatDate parseDate10_formatDate)
  have "takeClock (dig2 (s div 3600) @ '':'' @ dig2 (s div 60 mod 60) @ '':'' @ dig2 (s mod 60) @ ''+08:00'') =
      Some ((num2 (dchar (s div 3600 div 10)) (dchar (s div 3600)) * 3600
        + num2 (dchar (s div 60 mod 60 div 10)) (dchar (s div 60 mod 60)) * 60
        + num2 (dchar (s mod 60 div 10)) (dchar (s mod 60))) * second, ''+08:00'')"
    unfolding dig2_def append.simps
    by (rule takeClock_digits) (simp_all only: num2_dchar digits list.pred_inject is_digit_dchar simp_thms)
  then obtain n where clock: "takeClock (dig2 (s div 3600) @ '':'' @ dig2 (s div 60 mod 60) @ '':'' @ dig2 (s mod 60) @ ''+08:00'')
      = Some (n, ''+08:00'')" by blast
  have "FormatRFC3339 t = a @ CHR ''T'' # dig2 (s div 3600) @ '':'' @ dig2 (s div 60 mod 60) @ '':'' @ dig2 (s mod 60) @ ''+08:00''"
    unfolding FormatRFC3339_def Let_def f(1) s_def [symmetric] by simp
  then have "parseRFC3339 (FormatRFC3339 t) = Some (days_from_civil (businessDate t) * day_length + n - 28800 * second)"
    unfolding parseRFC3339_def using f(2,3) clock takeZone_business by (simp del: takeZone.simps)
  then show ?thesis by simp
qed

lemma fold_key_envelope_names [simp]:
  "fold_key ''algorithm'' = ''algorithm''" "fold_key ''env'' = ''env''" "fold_key ''broker_id'' = ''broker_id''"
  "fold_key ''credential_version'' = ''credential_version''" "fold_key ''key_id'' = ''key_id''"
  "fold_key ''nonce_b64'' = ''nonce_b64''" "fold_key ''ciphertext_b64'' = ''ciphertext_b64''"
  "fold_key ''tag_b64'' = ''tag_b64''" "fold_key ''issued_at'' = ''issued_at''"
  "fold_key ''broker_login_user'' = ''broker_login_user''" "fold_key ''broker_password'' = ''broker_password''"
  "fold_key ''dynamic_password'' = ''dynamic_password''"
  by (rule fold_key_plain; simp add: name_chars_def)+

lemma credentials_json_roundtrip [simp]: "credentials_of (credentials_json v) = Some v"
  by (simp add: credentials_of_def credentials_json_def jnot_object_def str_errs_def EqualFold_def Let_def)

lemma decode_envelope_json:
  assumes "json_laws C (envelope_json e)" "is_int64 (evVersion e)"
  shows "decodeEnvelope C (cyPrint C (envelope_json e)) = Inr e"
  using assms
  by (simp add: json_laws_def decodeEnvelope_def envelope_json_def envelope_of_def jnot_object_def str_errs_def int_errs_def
      envelope_texts_def EqualFold_def Let_def jfield_hit)

lemma Encrypt_ok:
  assumes "Encrypt C environment brokerID accountID version key plaintext now rnd = (Inr e, rnd')"
  obtains nonce where "ValidateIdentity environment brokerID accountID version (kmID key) = Inr ()"
    "length (kmKey key) = 32" "ValidateBrokerCredentials plaintext = Inr ()" "length nonce = NonceSize"
    "sealed_envelope C environment brokerID accountID version key plaintext now nonce = Inr e"
proof (rule that [of "take NonceSize rnd"])
qed (use assms in \<open>auto simp: Encrypt_def seq_def of_res_def readFull_def split: sum.splits prod.splits if_splits\<close>)

lemma sealed_opens:
  assumes "gcm_laws C" "json_laws C (credentials_json plaintext)"
    and "Encrypt C environment brokerID accountID version key plaintext now rnd = (Inr e, rnd')"
    and "json_laws C (envelope_json e)" "is_int64 version" "valid_civil (businessDate now)"
  shows "decodeEnvelope C (cyPrint C (envelope_json e)) = Inr e
    \<and> Envelope_Validate e environment brokerID accountID version (kmID key) = Inr ()
    \<and> Decrypt C e key = Inr plaintext"
proof -
  obtain nonce where ok: "ValidateIdentity environment brokerID accountID version (kmID key) = Inr ()"
    "length (kmKey key) = 32" "ValidateBrokerCredentials plaintext = Inr ()" "length nonce = NonceSize"
    and e: "sealed_envelope C environment brokerID accountID version key plaintext now nonce = Inr e"
    using Encrypt_ok [OF assms(3)] .
  let ?aad = "AdditionalAuthenticatedData environment brokerID accountID version (kmID key)"
  define sealed where "sealed = cySeal C (kmKey key) nonce (cyPrint C (credentials_json plaintext)) ?aad"
  have len: "Overhead \<le> length sealed" and opens: "cyOpen C (kmKey key) nonce sealed ?aad = Some (cyPrint C (credentials_json plaintext))"
    using assms(1) by (simp_all add: gcm_laws_def sealed_def)
  have fields: "e = \<lparr>evProtocol = CredProtocol, evAlgorithm = CredAlgorithm, evEnvironment = environment, evBrokerID = brokerID,
      evAccountID = accountID, evVersion = version, evKeyID = kmID key, evNonceB64 = base64Encode nonce,
      evCiphertextB64 = base64Encode (take (length sealed - Overhead) sealed),
      evTagB64 = base64Encode (drop (length sealed - Overhead) sealed), evIssuedAt = FormatRFC3339 now\<rparr>"
    using e len by (simp add: sealed_envelope_def Let_def sealed_def split: if_splits)
  have valid: "Envelope_Validate e environment brokerID accountID version (kmID key) = Inr ()"
    using ok(1) parse_FormatRFC3339 [OF assms(6)] by (simp add: Envelope_Validate_def fields)
  moreover have "Decrypt C e key = Inr plaintext"
    using valid ok len opens assms(2)
    by (simp add: Decrypt_def openEnvelope_def fields json_laws_def)
  moreover have "decodeEnvelope C (cyPrint C (envelope_json e)) = Inr e"
    using decode_envelope_json [OF assms(4)] assms(5) by (simp add: fields)
  ultimately show ?thesis by blast
qed

text \<open>C23: What is sealed can be opened: when encryption of the credentials of an account succeeds, the envelope it
  returns names the account, the version and the key it was asked for, survives its JSON text, passes validation under
  this identity, and decrypts under the key to exactly the credentials that were encrypted.\<close>

theorem sealed_credentials_open:
  assumes "gcm_laws C" "json_laws C (credentials_json plaintext)"
    and "Encrypt C environment brokerID accountID version key plaintext now rnd = (Inr e, rnd')"
    and "json_laws C (envelope_json e)" "is_int64 version" "valid_civil (businessDate now)"
  shows "decodeEnvelope C (cyPrint C (envelope_json e)) = Inr e
    \<and> Envelope_Validate e environment brokerID accountID version (kmID key) = Inr ()
    \<and> Decrypt C e key = Inr plaintext"
  using sealed_opens [OF assms] .

end
