(* ===== verification/Credential_Manager.thy ===== *)
theory Credential_Manager
  imports Credential_Envelope Ledger_Orders
begin

text \<open>
  The credential operations of \<^verbatim>\<open>internal/credentials\<close> (\<^verbatim>\<open>manager.go\<close>, \<^verbatim>\<open>store.go\<close>, \<^verbatim>\<open>audit.go\<close>): the secret store on
  Redis with its lock, the audit trail, and \<^verbatim>\<open>Rotate\<close>, \<^verbatim>\<open>Status\<close> and \<^verbatim>\<open>Disable\<close>. Other processes act on the store
  between any two calls of an operation: the world holds what each of them does to it, the expiry of the lock
  included, and which calls lose their connection.
\<close>

section \<open>The world of an operation\<close>

type_synonym secrets = "string \<rightharpoonup> string"

record AuditEvent =
  aeOperationID :: string
  aeEnvironment :: string
  aeBrokerID :: string
  aeAccountID :: string
  aeAction :: string
  aeStatus :: string
  aeVersion :: "int option"
  aeKeyID :: string
  aeEnvelopeSHA256 :: string
  aeOperator :: string
  aeErrorCode :: string
  aeMetadata :: json
  aeCreatedAt :: gotime

record cred_world =
  cwStore :: secrets
  cwOthers :: "(secrets \<Rightarrow> secrets) list"
  cwAudit :: "AuditEvent list"
  cwRandom :: string
  cwNow :: gotime
  cwLater :: "gotime list"
  cwFaults :: "fault list"

definition others_act :: "cred_world \<Rightarrow> cred_world" where
  "others_act s =
     (case cwOthers s of [] \<Rightarrow> s | f # fs \<Rightarrow> s\<lparr>cwStore := f (cwStore s), cwOthers := fs\<rparr>)"

definition remote :: "string \<Rightarrow> (cred_world \<Rightarrow> (error + 'a) \<times> cred_world) \<Rightarrow> (cred_world, 'a) act" where
  "remote msg q s =
     (case cwFaults s of
        [] \<Rightarrow> q s
      | f # fs \<Rightarrow>
          let s1 = s\<lparr>cwFaults := fs\<rparr>
          in case f of
               NoFault \<Rightarrow> q s1
             | FaultBefore \<Rightarrow> (Inl (ErrText msg), s1)
             | FaultAfter \<Rightarrow> (Inl (ErrText msg), snd (q s1)))"

definition redis :: "string \<Rightarrow> (secrets \<Rightarrow> 'a \<times> secrets) \<Rightarrow> (cred_world, 'a) act" where
  "redis msg q s =
     remote msg (\<lambda>s. case q (cwStore s) of (x, st) \<Rightarrow> (Inr x, s\<lparr>cwStore := st\<rparr>)) (others_act s)"

definition drawing :: "(string, 'a) act \<Rightarrow> (cred_world, 'a) act" where
  "drawing m s = (case m (cwRandom s) of (r, rnd) \<Rightarrow> (r, s\<lparr>cwRandom := rnd\<rparr>))"

definition readNow :: "(cred_world, gotime) act" where
  "readNow s =
     (Inr (cwNow s), case cwLater s of [] \<Rightarrow> s | t # ts \<Rightarrow> s\<lparr>cwNow := t, cwLater := ts\<rparr>)"

section \<open>The secret store\<close>

definition ErrSecretNotFound :: error where
  "ErrSecretNotFound = ErrText ''credential secret is not configured''"

definition getSecret :: "string \<Rightarrow> (cred_world, string) act" where
  "getSecret key =
     seq (redis ''read Redis credential value'' (\<lambda>st. (st key, st)))
       (\<lambda>v. case v of None \<Rightarrow> raise ErrSecretNotFound | Some x \<Rightarrow> ret x)"

definition setnx :: "string \<Rightarrow> string \<Rightarrow> secrets \<Rightarrow> bool \<times> secrets" where
  "setnx key v st = (if st key = None then (True, st(key \<mapsto> v)) else (False, st))"

definition SetIfAbsent :: "string \<Rightarrow> string \<Rightarrow> (cred_world, bool) act" where
  "SetIfAbsent key v = redis ''write Redis credential version'' (setnx key v)"

text \<open>The lock has a time to live: one of the others is its expiry.\<close>

definition AcquireLock :: "string \<Rightarrow> string \<Rightarrow> (cred_world, bool) act" where
  "AcquireLock key token = redis ''acquire Redis credential lock'' (setnx key token)"

text \<open>The three scripts run atomically.\<close>

definition setIfLockOwnerLua :: "string \<Rightarrow> string \<Rightarrow> string \<Rightarrow> string \<Rightarrow> secrets \<Rightarrow> bool \<times> secrets" where
  "setIfLockOwnerLua lockKey token key v st =
     (if st lockKey \<noteq> Some token then (False, st) else (True, st(key \<mapsto> v)))"

definition SetIfLockOwner :: "string \<Rightarrow> string \<Rightarrow> string \<Rightarrow> string \<Rightarrow> (cred_world, bool) act" where
  "SetIfLockOwner lockKey token key v =
     redis ''activate Redis credential version'' (setIfLockOwnerLua lockKey token key v)"

definition deleteIfLockOwnerLua :: "string \<Rightarrow> string \<Rightarrow> string \<Rightarrow> secrets \<Rightarrow> bool \<times> secrets" where
  "deleteIfLockOwnerLua lockKey token key st =
     (if st lockKey \<noteq> Some token then (False, st) else (True, st(key := None)))"

definition DeleteIfLockOwner :: "string \<Rightarrow> string \<Rightarrow> string \<Rightarrow> (cred_world, bool) act" where
  "DeleteIfLockOwner lockKey token key =
     redis ''disable Redis credential pointer'' (deleteIfLockOwnerLua lockKey token key)"

definition releaseLockLua :: "string \<Rightarrow> string \<Rightarrow> secrets \<Rightarrow> unit \<times> secrets" where
  "releaseLockLua key token st = ((), if st key = Some token then st(key := None) else st)"

definition ReleaseLock :: "string \<Rightarrow> string \<Rightarrow> (cred_world, unit) act" where
  "ReleaseLock key token = redis ''release Redis credential lock'' (releaseLockLua key token)"

section \<open>Audit\<close>

definition is_hex_text :: "string \<Rightarrow> bool" where
  "is_hex_text s \<longleftrightarrow> length s = 64 \<and> list_all (\<lambda>c. is_digit c \<or> 97 \<le> byte c \<and> byte c \<le> 102) s"

text \<open>The checks of the table \<^verbatim>\<open>oc_credential_audit\<close>.\<close>

definition audit_row_ok :: "AuditEvent \<Rightarrow> bool" where
  "audit_row_ok ev \<longleftrightarrow>
     aeAction ev \<in> {''rotate'', ''disable''} \<and> aeStatus ev \<in> {''started'', ''succeeded'', ''failed''}
     \<and> aeEnvironment ev \<in> {''test'', ''prod''} \<and> (case aeVersion ev of None \<Rightarrow> True | Some v \<Rightarrow> v > 0)
     \<and> (aeEnvelopeSHA256 ev = [] \<or> is_hex_text (aeEnvelopeSHA256 ev))"

definition AppendCredentialAudit :: "AuditEvent \<Rightarrow> (cred_world, unit) act" where
  "AppendCredentialAudit ev =
     remote ''write credential audit record'' (\<lambda>s.
       if audit_row_ok ev then (Inr (), s\<lparr>cwAudit := cwAudit s @ [ev]\<rparr>)
       else (Inl (ErrText ''write credential audit record''), s))"

section \<open>The manager\<close>

record Manager =
  mgEnvironment :: string
  mgBrokerID :: string
  mgKey :: KeyMaterial
  mgAudit :: bool

definition NewManager :: "bool \<Rightarrow> bool \<Rightarrow> string \<Rightarrow> string \<Rightarrow> KeyMaterial \<Rightarrow> Manager result" where
  "NewManager hasStore hasAudit environment brokerID key =
     (if \<not> hasStore then fails ''credential secret store is required''
      else if environment \<noteq> ''test'' \<and> environment \<noteq> ''prod'' then fails ''credential environment must be test or prod''
      else if TrimSpace brokerID = [] then fails ''credential broker id is required''
      else Inr \<lparr>mgEnvironment = environment, mgBrokerID = TrimSpace brokerID, mgKey = key, mgAudit = hasAudit\<rparr>)"

definition appendAudit :: "Manager \<Rightarrow> AuditEvent \<Rightarrow> (cred_world, unit) act" where
  "appendAudit M ev =
     (if \<not> mgAudit M then raise (ErrText ''credential audit store is required for write operations'')
      else AppendCredentialAudit ev)"

text \<open>What every audit event of an operation says.\<close>

record operation =
  opID :: string
  opAccount :: string
  opOperator :: string
  opAction :: string

definition auditEvent :: "Manager \<Rightarrow> operation \<Rightarrow> string \<Rightarrow> gotime \<Rightarrow> AuditEvent" where
  "auditEvent M oper status now =
     \<lparr>aeOperationID = opID oper, aeEnvironment = mgEnvironment M, aeBrokerID = mgBrokerID M, aeAccountID = opAccount oper,
      aeAction = opAction oper, aeStatus = status, aeVersion = None, aeKeyID = [], aeEnvelopeSHA256 = [],
      aeOperator = opOperator oper, aeErrorCode = [], aeMetadata = JObj [], aeCreatedAt = now\<rparr>"

definition failOperation :: "Manager \<Rightarrow> operation \<Rightarrow> string \<Rightarrow> int option \<Rightarrow> error \<Rightarrow> (cred_world, 'a) act" where
  "failOperation M oper code version cause =
     seq readNow (\<lambda>now.
       attempt (appendAudit M ((auditEvent M oper ''failed'' now)
                  \<lparr>aeVersion := version, aeKeyID := kmID (mgKey M), aeErrorCode := code\<rparr>)) (\<lambda>r.
         case r of
           Inl _ \<Rightarrow> raise (ErrText (''credential operation failed ('' @ code @ ''); failure audit could not be written''))
         | Inr _ \<Rightarrow> raise (ErrText (''credential operation failed ('' @ code @ ''): '' @ cause_text cause))))"

definition orFail :: "('s, 'a) act \<Rightarrow> (error \<Rightarrow> ('s, 'b) act) \<Rightarrow> ('a \<Rightarrow> ('s, 'b) act) \<Rightarrow> ('s, 'b) act" where
  "orFail m h k = attempt m (\<lambda>r. case r of Inl e \<Rightarrow> h e | Inr x \<Rightarrow> k x)"

text \<open>The deferred release; its error is dropped.\<close>

definition releasing :: "string \<Rightarrow> string \<Rightarrow> (cred_world, 'a) act \<Rightarrow> (cred_world, 'a) act" where
  "releasing lockKey token body = attempt body (\<lambda>r. attempt (ReleaseLock lockKey token) (\<lambda>_. of_res r))"

text \<open>A key whose error is ignored.\<close>

definition keyOf :: "string result \<Rightarrow> string" where
  "keyOf r = (case r of Inl _ \<Rightarrow> [] | Inr k \<Rightarrow> k)"

definition lockKeyOf :: "Manager \<Rightarrow> string \<Rightarrow> string" where
  "lockKeyOf M accountID = keyOf (LockKey (mgEnvironment M) (mgBrokerID M) accountID)"

definition currentKeyOf :: "Manager \<Rightarrow> string \<Rightarrow> string" where
  "currentKeyOf M accountID = keyOf (CurrentKey (mgEnvironment M) (mgBrokerID M) accountID)"

definition versionKeyOf :: "Manager \<Rightarrow> string \<Rightarrow> int \<Rightarrow> string" where
  "versionKeyOf M accountID version = keyOf (VersionKey (mgEnvironment M) (mgBrokerID M) accountID version)"

definition parsePointer :: "string \<Rightarrow> int result" where
  "parsePointer v =
     (case ParseInt64 (TrimSpace v) of
        None \<Rightarrow> fails ''current credential version is invalid''
      | Some n \<Rightarrow> if n < 1 then fails ''current credential version is invalid'' else Inr n)"

definition currentVersion :: "Manager \<Rightarrow> string \<Rightarrow> (cred_world, int) act" where
  "currentVersion M accountID =
     attempt (getSecret (currentKeyOf M accountID)) (\<lambda>r.
       case r of
         Inl e \<Rightarrow> if e = ErrSecretNotFound then ret 0 else raise e
       | Inr v \<Rightarrow> of_res (parsePointer v))"

section \<open>Rotation\<close>

record RotationResult =
  rrOperationID :: string
  rrEnvironment :: string
  rrBrokerID :: string
  rrAccountID :: string
  rrVersion :: int
  rrKeyID :: string
  rrEnvelopeSHA256 :: string
  rrIssuedAt :: string
  rrCredentialSource :: string
  rrRestartRequired :: bool

text \<open>The loop over the candidates. It ends at \<open>bound\<close>; the fuel only makes it a structural recursion.\<close>

fun allocateVersion :: "crypt \<Rightarrow> Manager \<Rightarrow> operation \<Rightarrow> BrokerCredentials \<Rightarrow> gotime \<Rightarrow> nat \<Rightarrow> int \<Rightarrow> int
    \<Rightarrow> (cred_world, (int \<times> Envelope \<times> string) option) act" where
  "allocateVersion C M oper plaintext now 0 bound candidate = ret None"
| "allocateVersion C M oper plaintext now (Suc n) bound candidate =
     (if candidate > bound then ret None
      else orFail (drawing (Encrypt C (mgEnvironment M) (mgBrokerID M) (opAccount oper) candidate (mgKey M) plaintext now))
             (failOperation M oper ''ENCRYPT_FAILED'' None) (\<lambda>envelope.
           let envelopeJSON = cyPrint C (envelope_json envelope)
           in orFail (SetIfAbsent (versionKeyOf M (opAccount oper) candidate) envelopeJSON)
                (failOperation M oper ''VERSION_WRITE_FAILED'' None) (\<lambda>created.
              if created then ret (Some (candidate, envelope, envelopeJSON))
              else allocateVersion C M oper plaintext now n bound (wrap64 (candidate + 1)))))"

definition verifyVersion :: "crypt \<Rightarrow> Manager \<Rightarrow> operation \<Rightarrow> int \<Rightarrow> string \<Rightarrow> (cred_world, unit) act" where
  "verifyVersion C M oper version envelopeJSON =
     (let fail = (\<lambda>code. failOperation M oper code (Some version))
      in orFail (getSecret (versionKeyOf M (opAccount oper) version)) (fail ''VERSION_VERIFY_FAILED'') (\<lambda>stored.
           if stored \<noteq> envelopeJSON
           then fail ''VERSION_VERIFY_FAILED'' (ErrText ''credential version read-back mismatch'')
           else case decodeEnvelope C stored of
                  Inl e \<Rightarrow> fail ''ENVELOPE_INVALID'' e
                | Inr verified \<Rightarrow>
                    (case Envelope_Validate verified (mgEnvironment M) (mgBrokerID M) (opAccount oper) version (kmID (mgKey M)) of
                       Inl e \<Rightarrow> fail ''ENVELOPE_IDENTITY_MISMATCH'' e
                     | Inr _ \<Rightarrow>
                         (case Decrypt C verified (mgKey M) of
                            Inl e \<Rightarrow> fail ''ENVELOPE_DECRYPT_VERIFY_FAILED'' e
                          | Inr _ \<Rightarrow> ret ()))))"

definition activateVersion :: "Manager \<Rightarrow> operation \<Rightarrow> string \<Rightarrow> int \<Rightarrow> (cred_world, unit) act" where
  "activateVersion M oper token version =
     (let fail = failOperation M oper ''ACTIVATION_FAILED'' (Some version)
      in orFail (SetIfLockOwner (lockKeyOf M (opAccount oper)) token (currentKeyOf M (opAccount oper)) (Itoa version)) fail
           (\<lambda>activated. if activated then ret ()
              else fail (ErrText ''credential operation lock expired before activation'')))"

text \<open>The result with the error that goes with it: an activated version whose audit could not be written.\<close>

definition rotationDone :: "crypt \<Rightarrow> Manager \<Rightarrow> operation \<Rightarrow> int \<Rightarrow> Envelope \<Rightarrow> string
    \<Rightarrow> (cred_world, RotationResult \<times> error option) act" where
  "rotationDone C M oper version envelope envelopeJSON =
     (let digest = hexEncode (cySHA256 C envelopeJSON);
          done = \<lparr>rrOperationID = opID oper, rrEnvironment = mgEnvironment M, rrBrokerID = mgBrokerID M,
                  rrAccountID = opAccount oper, rrVersion = version, rrKeyID = kmID (mgKey M), rrEnvelopeSHA256 = digest,
                  rrIssuedAt = evIssuedAt envelope, rrCredentialSource = ''relay_redis_encrypted'', rrRestartRequired = True\<rparr>
      in seq readNow (\<lambda>now.
           attempt (appendAudit M ((auditEvent M oper ''succeeded'' now)
              \<lparr>aeVersion := Some version, aeKeyID := kmID (mgKey M), aeEnvelopeSHA256 := digest,
               aeMetadata := JObj [(''credential_source'', JStr (rrCredentialSource done)), (''restart_required'', JBool True)]\<rparr>))
             (\<lambda>r. ret (done, case r of Inl _ \<Rightarrow> Some (ErrText ''credential activated but success audit could not be written'')
                           | Inr _ \<Rightarrow> None))))"

text \<open>What happens while the lock is held.\<close>

definition rotateLocked :: "crypt \<Rightarrow> Manager \<Rightarrow> operation \<Rightarrow> BrokerCredentials \<Rightarrow> gotime \<Rightarrow> string
    \<Rightarrow> (cred_world, RotationResult \<times> error option) act" where
  "rotateLocked C M oper plaintext now token =
     orFail (currentVersion M (opAccount oper)) (failOperation M oper ''CURRENT_READ_FAILED'' None) (\<lambda>current.
       seq (allocateVersion C M oper plaintext now 1001 (wrap64 (current + 1000)) (wrap64 (current + 1))) (\<lambda>allocated.
         case allocated of
           None \<Rightarrow> failOperation M oper ''VERSION_EXHAUSTED'' None (ErrText ''could not allocate a credential version'')
         | Some (version, envelope, envelopeJSON) \<Rightarrow>
             seq (verifyVersion C M oper version envelopeJSON) (\<lambda>_.
               seq (activateVersion M oper token version) (\<lambda>_.
                 rotationDone C M oper version envelope envelopeJSON))))"

definition rotateStarted :: "crypt \<Rightarrow> Manager \<Rightarrow> operation \<Rightarrow> BrokerCredentials \<Rightarrow> gotime
    \<Rightarrow> (cred_world, RotationResult \<times> error option) act" where
  "rotateStarted C M oper plaintext now =
     orFail (drawing (randomToken 16)) (failOperation M oper ''RANDOM_FAILED'' None) (\<lambda>token.
       orFail (AcquireLock (lockKeyOf M (opAccount oper)) token) (failOperation M oper ''LOCK_FAILED'' None) (\<lambda>acquired.
         if \<not> acquired
         then failOperation M oper ''ROTATION_IN_PROGRESS'' None (ErrText ''another credential operation is in progress'')
         else releasing (lockKeyOf M (opAccount oper)) token (rotateLocked C M oper plaintext now token)))"

definition Rotate :: "crypt \<Rightarrow> Manager \<Rightarrow> string \<Rightarrow> string \<Rightarrow> BrokerCredentials
    \<Rightarrow> (cred_world, RotationResult \<times> error option) act" where
  "Rotate C M accountID0 operator0 plaintext =
     (let accountID = TrimSpace accountID0; operator = TrimSpace operator0
      in if operator = [] then raise (ErrText ''credential operator is required'')
         else seq (of_res (ValidateIdentity (mgEnvironment M) (mgBrokerID M) accountID 1 (kmID (mgKey M)))) (\<lambda>_.
           if length (kmKey (mgKey M)) \<noteq> 32 then raise (ErrText ''credential encryption key is not configured'')
           else seq (of_res (ValidateBrokerCredentials plaintext)) (\<lambda>_.
             seq (drawing (randomToken 16)) (\<lambda>operationID.
               seq readNow (\<lambda>now.
                 let oper = \<lparr>opID = operationID, opAccount = accountID, opOperator = operator, opAction = ''rotate''\<rparr>
                 in seq (appendAudit M ((auditEvent M oper ''started'' now)\<lparr>aeKeyID := kmID (mgKey M)\<rparr>))
                      (\<lambda>_. rotateStarted C M oper plaintext now))))))"

section \<open>Disabling\<close>

record DisableResult =
  drOperationID :: string
  drEnvironment :: string
  drBrokerID :: string
  drAccountID :: string
  drVersion :: int
  drDisabled :: bool
  drOCStopRequired :: bool

definition disableDone :: "Manager \<Rightarrow> operation \<Rightarrow> int \<Rightarrow> (cred_world, DisableResult \<times> error option) act" where
  "disableDone M oper version =
     seq readNow (\<lambda>now.
       attempt (appendAudit M ((auditEvent M oper ''succeeded'' now)
          \<lparr>aeVersion := (if version > 0 then Some version else None), aeMetadata := JObj [(''oc_stop_required'', JBool True)]\<rparr>))
         (\<lambda>r. ret (\<lparr>drOperationID = opID oper, drEnvironment = mgEnvironment M, drBrokerID = mgBrokerID M, drAccountID = opAccount oper,
                  drVersion = version, drDisabled = True, drOCStopRequired = True\<rparr>,
                 case r of Inl _ \<Rightarrow> Some (ErrText ''credential pointer deleted but success audit could not be written'')
                 | Inr _ \<Rightarrow> None)))"

definition disableLocked :: "Manager \<Rightarrow> operation \<Rightarrow> string \<Rightarrow> (cred_world, DisableResult \<times> error option) act" where
  "disableLocked M oper token =
     orFail (currentVersion M (opAccount oper)) (failOperation M oper ''CURRENT_READ_FAILED'' None) (\<lambda>version.
       let fail = failOperation M oper ''DISABLE_FAILED'' (if version > 0 then Some version else None)
       in orFail (DeleteIfLockOwner (lockKeyOf M (opAccount oper)) token (currentKeyOf M (opAccount oper))) fail (\<lambda>deleted.
            if \<not> deleted then fail (ErrText ''credential operation lock expired before disable'')
            else disableDone M oper version))"

definition disableStarted :: "Manager \<Rightarrow> operation \<Rightarrow> (cred_world, DisableResult \<times> error option) act" where
  "disableStarted M oper =
     orFail (drawing (randomToken 16)) (failOperation M oper ''RANDOM_FAILED'' None) (\<lambda>token.
       orFail (AcquireLock (lockKeyOf M (opAccount oper)) token) (failOperation M oper ''LOCK_FAILED'' None) (\<lambda>acquired.
         if \<not> acquired
         then failOperation M oper ''LOCK_FAILED'' None (ErrText ''another credential operation is in progress'')
         else releasing (lockKeyOf M (opAccount oper)) token (disableLocked M oper token)))"

definition Disable :: "Manager \<Rightarrow> string \<Rightarrow> string \<Rightarrow> (cred_world, DisableResult \<times> error option) act" where
  "Disable M accountID0 operator0 =
     (let accountID = TrimSpace accountID0; operator = TrimSpace operator0
      in if operator = [] then raise (ErrText ''credential operator is required'')
         else seq (of_res (ValidateIdentity (mgEnvironment M) (mgBrokerID M) accountID 1 ''disable'')) (\<lambda>_.
           seq (drawing (randomToken 16)) (\<lambda>operationID.
             let oper = \<lparr>opID = operationID, opAccount = accountID, opOperator = operator, opAction = ''disable''\<rparr>
             in seq readNow (\<lambda>now. seq (appendAudit M (auditEvent M oper ''started'' now)) (\<lambda>_. disableStarted M oper)))))"

section \<open>Status\<close>

record CredentialStatus =
  csEnvironment :: string
  csBrokerID :: string
  csAccountID :: string
  csConfigured :: bool
  csVersion :: int
  csKeyID :: string
  csIssuedAt :: string
  csProtocol :: string
  csAlgorithm :: string
  csEnvelopeSHA256 :: string
  csCredentialSource :: string
  csVerified :: bool

definition Status0 :: "Manager \<Rightarrow> string \<Rightarrow> CredentialStatus" where
  "Status0 M accountID =
     \<lparr>csEnvironment = mgEnvironment M, csBrokerID = mgBrokerID M, csAccountID = accountID, csConfigured = False, csVersion = 0,
      csKeyID = [], csIssuedAt = [], csProtocol = [], csAlgorithm = [], csEnvelopeSHA256 = [], csCredentialSource = [],
      csVerified = False\<rparr>"

definition statusOf :: "crypt \<Rightarrow> Manager \<Rightarrow> string \<Rightarrow> bool \<Rightarrow> int \<Rightarrow> string \<Rightarrow> CredentialStatus result" where
  "statusOf C M accountID verify version stored =
     (case decodeEnvelope C stored of
        Inl e \<Rightarrow> Inl e
      | Inr envelope \<Rightarrow>
          (case Envelope_Validate envelope (mgEnvironment M) (mgBrokerID M) accountID version (evKeyID envelope) of
             Inl e \<Rightarrow> Inl e
           | Inr _ \<Rightarrow>
               let st = (Status0 M accountID)\<lparr>csConfigured := True, csVersion := version, csKeyID := evKeyID envelope,
                         csIssuedAt := evIssuedAt envelope, csProtocol := evProtocol envelope, csAlgorithm := evAlgorithm envelope,
                         csEnvelopeSHA256 := hexEncode (cySHA256 C stored), csCredentialSource := ''relay_redis_encrypted''\<rparr>
               in if \<not> verify then Inr st
                  else if kmID (mgKey M) = [] \<or> length (kmKey (mgKey M)) \<noteq> 32
                  then fails ''credential verification key is not configured''
                  else if evKeyID envelope \<noteq> kmID (mgKey M)
                  then fails ''configured credential key id does not match the active envelope''
                  else case Decrypt C envelope (mgKey M) of Inl e \<Rightarrow> Inl e | Inr _ \<Rightarrow> Inr (st\<lparr>csVerified := True\<rparr>)))"

definition credentialStatus :: "crypt \<Rightarrow> Manager \<Rightarrow> string \<Rightarrow> bool \<Rightarrow> (cred_world, CredentialStatus) act" where
  "credentialStatus C M accountID0 verify =
     (let accountID = TrimSpace accountID0
      in seq (of_res (ValidateIdentity (mgEnvironment M) (mgBrokerID M) accountID 1 ''status'')) (\<lambda>_.
           seq (currentVersion M accountID) (\<lambda>version.
             if version = 0 then ret (Status0 M accountID)
             else attempt (getSecret (versionKeyOf M accountID version)) (\<lambda>r.
               case r of
                 Inl _ \<Rightarrow> raise (ErrText ''current credential version envelope is missing'')
               | Inr stored \<Rightarrow> of_res (statusOf C M accountID verify version stored)))))"

end
