(* ===== verification/Credential_Laws.thy ===== *)
theory Credential_Laws
  imports Credential_Manager
begin

text \<open>
  What credential operations promise each other. Each operation is a sequence of atomic calls with arbitrary actions
  of the others in between; the relation \<open>coexists\<close> is what an operation that holds the lock with a token relies on,
  and what every operation with another token guarantees.
\<close>

section \<open>Keys\<close>

definition numbered :: "string \<Rightarrow> bool" where
  "numbered k \<longleftrightarrow> k \<noteq> [] \<and> is_digit (last k)"

lemma key_shapes:
  obtains "lockKeyOf M a = []" "currentKeyOf M a = []" "\<And>v. versionKeyOf M a v = []"
  | p where "lockKeyOf M a = p @ '':secret:credentials:lock''" "currentKeyOf M a = p @ '':secret:credentials:current''"
      "\<And>v. versionKeyOf M a v = (if v < 1 then [] else p @ '':secret:credentials:v'' @ Itoa v)"
  by (cases "Prefix (mgEnvironment M) (mgBrokerID M) a")
    (auto simp: lockKeyOf_def currentKeyOf_def versionKeyOf_def LockKey_def CurrentKey_def VersionKey_def keyOf_def)

lemma last_Itoa: "0 \<le> n \<Longrightarrow> is_digit (last (Itoa n))"
  using Utoa_digits [of "nat n"] Utoa_not_Nil [of "nat n"] by (simp add: Itoa_def list_all_iff)

lemma Itoa_not_Nil [simp]: "Itoa n \<noteq> []"
  by (simp add: Itoa_def)

lemma version_key_numbered: "versionKeyOf M a v = [] \<or> numbered (versionKeyOf M a v)"
  by (rule key_shapes [of M a]) (auto simp: numbered_def last_Itoa)

lemma lock_key_named: "lockKeyOf M a = [] \<or> last (lockKeyOf M a) = CHR ''k''"
  by (rule key_shapes [of M a]) simp_all

lemma current_key_named: "currentKeyOf M a = [] \<or> last (currentKeyOf M a) = CHR ''t''"
  by (rule key_shapes [of M a]) simp_all

lemma not_numbered: "\<not> numbered (lockKeyOf M a)" "\<not> numbered (currentKeyOf M a)" "\<not> numbered []"
  using lock_key_named [of M a] current_key_named [of M a] by (auto simp: numbered_def is_digit_def)

definition known :: "Manager \<Rightarrow> string \<Rightarrow> bool" where
  "known M a \<longleftrightarrow> currentKeyOf M a \<noteq> []"

lemma known_if_valid:
  "ValidateIdentity (mgEnvironment M) (mgBrokerID M) a v k = Inr () \<Longrightarrow> known M a"
  by (auto simp: known_def currentKeyOf_def CurrentKey_def Prefix_def keyOf_def ValidateIdentity_def keyIDPattern_def
      matches_def is_small_def byte_def split: if_splits)

lemma known_keys:
  assumes "known M a"
  shows "lockKeyOf M a \<noteq> []" "lockKeyOf M a \<noteq> currentKeyOf M a" "currentKeyOf M a \<noteq> lockKeyOf N b"
    "lockKeyOf M a \<noteq> currentKeyOf N b" "versionKeyOf N b v \<noteq> lockKeyOf M a" "versionKeyOf N b v \<noteq> currentKeyOf M a"
    "currentKeyOf N b = currentKeyOf M a \<Longrightarrow> lockKeyOf N b = lockKeyOf M a"
proof -
  have K: "currentKeyOf M a \<noteq> []" using assms by (simp add: known_def)
  then show L: "lockKeyOf M a \<noteq> []" by (rule_tac key_shapes [of M a]) simp_all
  have ends: "last (lockKeyOf M a) = CHR ''k''" "last (currentKeyOf M a) = CHR ''t''"
    using L K lock_key_named [of M a] current_key_named [of M a] by simp_all
  show "lockKeyOf M a \<noteq> currentKeyOf M a" "currentKeyOf M a \<noteq> lockKeyOf N b" "lockKeyOf M a \<noteq> currentKeyOf N b"
    using ends L K lock_key_named [of N b] current_key_named [of N b] by auto
  show "versionKeyOf N b v \<noteq> lockKeyOf M a" "versionKeyOf N b v \<noteq> currentKeyOf M a"
    using L K not_numbered(1,2) [of M a] not_numbered(3) version_key_numbered [of N b v] by auto
  show "lockKeyOf N b = lockKeyOf M a" if same: "currentKeyOf N b = currentKeyOf M a"
  proof (rule key_shapes [of M a])
    fix p assume p: "lockKeyOf M a = p @ '':secret:credentials:lock''" "currentKeyOf M a = p @ '':secret:credentials:current''"
    show ?thesis using same K p by (rule_tac key_shapes [of N b]) auto
  qed (use K in auto)
qed

section \<open>What the operations guarantee each other\<close>

definition versions_kept :: "secrets \<Rightarrow> secrets \<Rightarrow> bool" where
  "versions_kept st st' \<longleftrightarrow> (\<forall>k. numbered k \<and> st k \<noteq> None \<longrightarrow> st' k = st k)"

text \<open>Nobody moves the pointer behind the back of a lock holder, and nobody takes over its token. \<open>h\<close> says whether also the
  lock stays with its holder: operations neither delete nor overwrite it, but it can expire.\<close>

definition fenced :: "string \<Rightarrow> string \<Rightarrow> string \<Rightarrow> secrets \<Rightarrow> secrets \<Rightarrow> bool" where
  "fenced lockKey currentKey token st st' \<longleftrightarrow>
     (st lockKey = Some token \<and> st' lockKey = Some token \<longrightarrow> st' currentKey = st currentKey)
     \<and> (st lockKey \<noteq> Some token \<longrightarrow> st' lockKey \<noteq> Some token)"

definition coexists :: "bool \<Rightarrow> Manager \<Rightarrow> string \<Rightarrow> string \<Rightarrow> secrets \<Rightarrow> secrets \<Rightarrow> bool" where
  "coexists h M a token st st' \<longleftrightarrow>
     versions_kept st st' \<and> fenced (lockKeyOf M a) (currentKeyOf M a) token st st'
     \<and> (h \<and> st (lockKeyOf M a) = Some token \<longrightarrow> st' (lockKeyOf M a) = Some token)"

lemma coexists_refl: "coexists h M a token st st"
  by (simp add: coexists_def versions_kept_def fenced_def)

lemma coexists_trans: "coexists h M a token st su \<Longrightarrow> coexists h M a token su sv \<Longrightarrow> coexists h M a token st sv"
  unfolding coexists_def versions_kept_def fenced_def by metis

text \<open>The store calls of another operation.\<close>

lemma coexists_version: "known M a \<Longrightarrow> coexists h M a token st (snd (setnx (versionKeyOf N b v) x st))"
  using known_keys(5,6) [of M a N b v] by (auto simp: coexists_def versions_kept_def fenced_def setnx_def)

lemma coexists_lock:
  "known M a \<Longrightarrow> t \<noteq> token \<Longrightarrow> coexists h M a token st (snd (setnx (lockKeyOf N b) t st))"
  using known_keys(3) [of M a N b] not_numbered(1) [of N b]
  by (auto simp: coexists_def versions_kept_def fenced_def setnx_def)

lemma coexists_activate:
  assumes "known M a" "t \<noteq> token"
  shows "coexists h M a token st (snd (setIfLockOwnerLua (lockKeyOf N b) t (currentKeyOf N b) x st))"
  using known_keys(4,7) [OF assms(1), of N b] not_numbered(2) [of N b] assms(2)
  by (auto simp: coexists_def versions_kept_def fenced_def setIfLockOwnerLua_def)

lemma coexists_disable:
  assumes "known M a" "t \<noteq> token"
  shows "coexists h M a token st (snd (deleteIfLockOwnerLua (lockKeyOf N b) t (currentKeyOf N b) st))"
  using known_keys(4,7) [OF assms(1), of N b] not_numbered(2) [of N b] assms(2)
  by (auto simp: coexists_def versions_kept_def fenced_def deleteIfLockOwnerLua_def)

text \<open>The release; by the holder itself it ends the lock.\<close>

lemma coexists_release:
  "known M a \<Longrightarrow> h \<longrightarrow> t \<noteq> token \<Longrightarrow> coexists h M a token st (snd (releaseLockLua (lockKeyOf N b) t st))"
  using known_keys(3) [of M a N b] not_numbered(1) [of N b]
  by (auto simp: coexists_def versions_kept_def fenced_def releaseLockLua_def)

section \<open>Operations in the world\<close>

text \<open>The others keep to the relation, and no token that can still be drawn is one of \<open>A\<close>.\<close>

definition peaceful :: "bool \<Rightarrow> Manager \<Rightarrow> string \<Rightarrow> string \<Rightarrow> cred_world \<Rightarrow> bool" where
  "peaceful h M a token s \<longleftrightarrow> (\<forall>f \<in> set (cwOthers s). \<forall>st. coexists h M a token st (f st))"

definition untaken :: "string set \<Rightarrow> cred_world \<Rightarrow> bool" where
  "untaken A s \<longleftrightarrow> (\<forall>n. hexEncode (take 16 (drop n (cwRandom s))) \<notin> A)"

definition world_coexists :: "bool \<Rightarrow> Manager \<Rightarrow> string \<Rightarrow> string \<Rightarrow> string set \<Rightarrow> cred_world \<Rightarrow> cred_world \<Rightarrow> bool" where
  "world_coexists h M a token A s t \<longleftrightarrow>
     (peaceful h M a token s \<and> untaken A s \<longrightarrow>
        peaceful h M a token t \<and> untaken A t \<and> coexists h M a token (cwStore s) (cwStore t))"

interpretation peace: world_preorder "world_coexists h M a token A" for h M a token A
  by unfold_locales (auto simp: world_coexists_def coexists_refl intro: coexists_trans)

lemma others_coexist: "world_coexists h M a token A s (others_act s)"
  by (cases "cwOthers s") (auto simp: world_coexists_def others_act_def peaceful_def untaken_def coexists_refl)

lemma remote_stays: "stays (world_coexists h M a token A) q \<Longrightarrow> stays (world_coexists h M a token A) (remote msg q)"
proof (rule staysI)
  fix s assume q: "stays (world_coexists h M a token A) q"
  have "world_coexists h M a token A s (s\<lparr>cwFaults := fs\<rparr>)" for fs
    by (simp add: world_coexists_def peaceful_def untaken_def coexists_refl)
  moreover have "world_coexists h M a token A s (snd (q (s\<lparr>cwFaults := fs\<rparr>)))" for fs
    using peace.R_trans [OF calculation stays_snd [OF q]] .
  ultimately show "world_coexists h M a token A s (snd (remote msg q s))"
    using stays_snd [OF q, of s] by (simp add: remote_def Let_def split: list.split fault.split)
qed

lemma redis_stays:
  assumes "\<And>st. coexists h M a token st (snd (q st))"
  shows "stays (world_coexists h M a token A) (redis msg q)"
proof (rule staysI)
  fix s
  have "stays (world_coexists h M a token A) (\<lambda>s. case q (cwStore s) of (x, st) \<Rightarrow> (Inr x, s\<lparr>cwStore := st\<rparr>))"
    using assms by (auto intro!: staysI simp: world_coexists_def peaceful_def untaken_def split_beta)
  from peace.R_trans [OF others_coexist stays_snd [OF remote_stays [OF this]]]
  show "world_coexists h M a token A s (snd (redis msg q s))" by (simp add: redis_def)
qed

lemma audit_stays: "stays (world_coexists h M a token A) (appendAudit N ev)"
proof -
  have "stays (world_coexists h M a token A) (AppendCredentialAudit ev)"
    unfolding AppendCredentialAudit_def
    by (rule remote_stays) (auto intro!: staysI simp: world_coexists_def peaceful_def untaken_def coexists_refl)
  then show ?thesis by (simp add: appendAudit_def peace.raise)
qed

lemma now_stays: "stays (world_coexists h M a token A) readNow"
  by (auto intro!: staysI simp: readNow_def world_coexists_def peaceful_def untaken_def coexists_refl split: list.split)

text \<open>Only a suffix of the random bytes is left after drawing.\<close>

lemma untaken_drop: "untaken A s \<Longrightarrow> untaken A (s\<lparr>cwRandom := drop n (cwRandom s)\<rparr>)"
  by (auto simp: untaken_def add.commute)

definition draws :: "(string, 'b) act \<Rightarrow> bool" where
  "draws m \<longleftrightarrow> (\<forall>rnd. \<exists>n. snd (m rnd) = drop n rnd)"

lemma draws_readFull: "draws (readFull msg n)"
  unfolding draws_def readFull_def by (auto intro: exI [where x = "length _"])

lemma draws_randomToken: "draws (randomToken n)"
  using draws_readFull [of "''generate credential operation token''" n]
  by (auto simp: draws_def randomToken_def seq_def split: prod.splits sum.splits) (metis snd_conv)+

lemma draws_Encrypt: "draws (Encrypt C e b acc v key pt t)"
proof -
  have "\<exists>n. snd (Encrypt C e b acc v key pt t rnd) = drop n rnd" for rnd
    using draws_readFull [of "''generate credential nonce''" NonceSize]
    by (auto simp: draws_def Encrypt_def seq_def of_res_def split: prod.splits sum.splits intro: exI [where x = 0])
      (metis snd_conv)+
  then show ?thesis by (simp add: draws_def)
qed

lemma drawing_stays: "draws m \<Longrightarrow> stays (world_coexists h M a token A) (drawing m)"
  unfolding draws_def stays_def drawing_def world_coexists_def
  by (auto simp: peaceful_def coexists_refl split: prod.split) (metis snd_conv untaken_drop)

lemma orFail_stays:
  assumes "stays R m" "\<And>e. stays R (h e)" "\<And>x. stays R (k x)" "world_preorder R"
  shows "stays R (orFail m h k)"
  unfolding orFail_def using assms by (intro world_preorder.attempt world_preorder.sum_case)

lemma token_stays:
  assumes "\<And>e. stays (world_coexists h M a token A) (g e)" "\<And>t. t \<notin> A \<Longrightarrow> stays (world_coexists h M a token A) (k t)"
  shows "stays (world_coexists h M a token A) (orFail (drawing (randomToken 16)) g k)"
proof (rule staysI)
  fix s
  obtain r t where d: "drawing (randomToken 16) s = (r, t)" by fastforce
  have st: "world_coexists h M a token A s t" using stays_snd [OF drawing_stays [OF draws_randomToken [of 16]], of h M a token A s] d by simp
  show "world_coexists h M a token A s (snd (orFail (drawing (randomToken 16)) g k s))"
  proof (cases r)
    case (Inl e)
    then show ?thesis using peace.R_trans [OF st stays_snd [OF assms(1)]] by (simp add: orFail_def attempt_def d)
  next
    case (Inr x)
    then have x: "x = hexEncode (take 16 (drop 0 (cwRandom s)))"
      using d by (auto simp: drawing_def randomToken_def seq_def readFull_def split: if_splits)
    show ?thesis
    proof (cases "x \<in> A")
      case True
      then have "\<not> untaken A s" unfolding untaken_def x by blast
      then show ?thesis by (simp add: world_coexists_def)
    next
      case False
      then show ?thesis using Inr peace.R_trans [OF st stays_snd [OF assms(2)]] by (simp add: orFail_def attempt_def d)
    qed
  qed
qed

lemma get_stays: "stays (world_coexists h M a token A) (getSecret k)"
  unfolding getSecret_def by (intro peace.rules redis_stays) (simp add: coexists_refl)

lemma fail_stays: "stays (world_coexists h M a token A) (failOperation N oper code v cause)"
  unfolding failOperation_def by (intro peace.rules now_stays audit_stays)

lemma current_stays: "stays (world_coexists h M a token A) (currentVersion N b)"
  unfolding currentVersion_def by (intro peace.rules get_stays)

lemmas stay_rules = peace.rules orFail_stays [OF _ _ _ peace.world_preorder_axioms] get_stays fail_stays current_stays
  now_stays audit_stays drawing_stays draws_Encrypt draws_randomToken redis_stays

lemma allocate_stays:
  assumes "known M a"
  shows "stays (world_coexists h M a token A) (allocateVersion C N oper pt now n bound candidate)"
proof (induction n arbitrary: candidate)
  case (Suc n)
  show ?case
    unfolding allocateVersion.simps SetIfAbsent_def
    by (intro stay_rules Suc.IH coexists_version [OF assms])
qed (simp add: peace.ret)

lemma verify_stays: "stays (world_coexists h M a token A) (verifyVersion C N oper v j)"
  unfolding verifyVersion_def Let_def by (intro stay_rules)

lemma done_stays:
  "stays (world_coexists h M a token A) (rotationDone C N oper v e j)" "stays (world_coexists h M a token A) (disableDone N oper v)"
  unfolding rotationDone_def disableDone_def Let_def by (intro stay_rules)+

lemma activate_stays:
  assumes "known M a" "t \<noteq> token"
  shows "stays (world_coexists h M a token A) (activateVersion N oper t v)"
  unfolding activateVersion_def SetIfLockOwner_def Let_def by (intro stay_rules coexists_activate [OF assms])

lemma releasing_stays:
  assumes "known M a" "t \<noteq> token" "stays (world_coexists h M a token A) m"
  shows "stays (world_coexists h M a token A) (releasing (lockKeyOf N b) t m)"
  unfolding releasing_def ReleaseLock_def by (intro stay_rules assms(3) coexists_release [OF assms(1)] impI assms(2))

lemma rotateStarted_stays:
  assumes "known M a"
  shows "stays (world_coexists h M a token {token}) (rotateStarted C N oper pt now)"
  unfolding rotateStarted_def AcquireLock_def rotateLocked_def
  by (intro token_stays releasing_stays stay_rules allocate_stays verify_stays activate_stays done_stays
      coexists_lock assms) auto

lemma disableStarted_stays:
  assumes "known M a"
  shows "stays (world_coexists h M a token {token}) (disableStarted N oper)"
  unfolding disableStarted_def AcquireLock_def disableLocked_def DeleteIfLockOwner_def Let_def
  by (intro token_stays releasing_stays stay_rules done_stays coexists_lock coexists_disable assms) auto

lemma operations_stay:
  assumes "known M a"
  shows "stays (world_coexists h M a token {token}) (Rotate C N b op pt)" "stays (world_coexists h M a token {token}) (Disable N b op)"
  unfolding Rotate_def Disable_def Let_def
  by (intro stay_rules rotateStarted_stays disableStarted_stays assms)+

text \<open>C13: Credential operations cannot hurt each other. While an operation on an account holds the lock under a token,
  any rotation or disabling by another process, of this or any other account, in any interleaving with others that do
  the same and with any connection failure, whether it succeeds or not: it never changes or deletes a stored version of
  any account, it does not move the current pointer of the account as long as the lock is held, and it does not take over the
  token. That holds with any expiry of the lock (\<open>h\<close> is false). And when the lock does not expire meanwhile (\<open>h\<close> is true), the lock
  that was held under the token is still held under it afterwards: the other operation neither deletes nor overwrites
  it, although it acquires and releases locks itself. The tokens it can draw are not the holder's.\<close>

theorem credential_operations_coexist:
  assumes "ValidateIdentity (mgEnvironment M) (mgBrokerID M) a v k = Inr ()" "peaceful h M a token s" "untaken {token} s"
  shows "coexists h M a token (cwStore s) (cwStore (snd (Rotate C N b operator plaintext s)))
    \<and> coexists h M a token (cwStore s) (cwStore (snd (Disable N b operator s)))"
  using operations_stay [OF known_if_valid [OF assms(1)], THEN stays_snd] assms(2,3) by (simp add: world_coexists_def)

section \<open>What a rotation did\<close>

lemma fail_never [simp]: "failOperation N oper code v cause s = (Inr y, t) \<longleftrightarrow> False"
  by (auto simp: failOperation_def seq_def attempt_def readNow_def split: prod.splits sum.splits)

lemma orFail_failE:
  assumes "orFail m (failOperation N oper code v) k s = (Inr y, t)"
  obtains x s' where "m s = (Inr x, s')" "k x s' = (Inr y, t)"
  using assms by (auto simp: orFail_def attempt_def split: prod.splits sum.splits)

text \<open>Steps of an operation whose environment is peaceful.\<close>

lemma peace_step:
  assumes "stays (world_coexists False M a token {}) m" "peaceful False M a token s" "m s = (r, t)"
  shows "peaceful False M a token t" "coexists False M a token (cwStore s) (cwStore t)"
  using staysD [OF assms(1,3)] assms(2) by (simp_all add: world_coexists_def untaken_def)

lemma remote_ok:
  assumes "remote msg q s = (Inr x, t)"
  obtains fs where "q (s\<lparr>cwFaults := fs\<rparr>) = (Inr x, t)"
proof (cases "cwFaults s")
  case Nil
  then have same: "s\<lparr>cwFaults := []\<rparr> = s" by simp
  show thesis by (rule that [of "[]"], simp only: same) (use assms Nil in \<open>simp add: remote_def\<close>)
next
  case (Cons f fs)
  then show thesis using assms that by (cases f) (simp_all add: remote_def Let_def)
qed

lemma redis_ok:
  assumes "redis msg q s = (Inr x, t)" "peaceful False M a token s"
  obtains st where "coexists False M a token (cwStore s) st" "q st = (x, cwStore t)" "peaceful False M a token t"
    "cwRandom t = cwRandom s"
proof (rule remote_ok [OF assms(1) [unfolded redis_def]])
  fix fs
  assume q: "(case q (cwStore (others_act s\<lparr>cwFaults := fs\<rparr>)) of
      (x, st) \<Rightarrow> (Inr x, others_act s\<lparr>cwFaults := fs, cwStore := st\<rparr>)) = (Inr x, t)"
  have "peaceful False M a token (others_act s)" "coexists False M a token (cwStore s) (cwStore (others_act s))"
    using others_coexist [of False M a token "{}" s] assms(2) by (simp_all add: world_coexists_def untaken_def)
  moreover have "q (cwStore (others_act s)) = (x, cwStore t)" "cwOthers t = cwOthers (others_act s)"
    "cwRandom t = cwRandom s"
    using q by (auto simp: others_act_def split: prod.splits list.splits)
  ultimately show thesis using that by (simp add: peaceful_def)
qed

lemma read_ok: "redis msg (\<lambda>st. (st k, st)) s = (Inr x, t) \<Longrightarrow> peaceful False M a token s \<Longrightarrow> cwStore t k = x"
  by (erule redis_ok) auto

lemma get_ok:
  assumes "getSecret k s = (Inr v, t)" "peaceful False M a token s"
  shows "cwStore t k = Some v"
proof -
  obtain x s' where r: "redis ''read Redis credential value'' (\<lambda>st. (st k, st)) s = (Inr x, s')"
    and x: "(case x of None \<Rightarrow> raise ErrSecretNotFound | Some x \<Rightarrow> ret x) s' = (Inr v, t)"
    using seq_InrE [OF assms(1) [unfolded getSecret_def]] .
  have "cwStore s' k = x" using read_ok [OF r assms(2)] .
  with x show ?thesis by (cases x) auto
qed

lemma remote_error:
  assumes "remote msg q s = (Inl e, t)" "\<And>s. \<exists>x. fst (q s) = Inr x"
  shows "e = ErrText msg"
proof (cases "cwFaults s")
  case Nil
  then show ?thesis using assms(1) assms(2) [of s] by (auto simp: remote_def)
next
  case (Cons f fs)
  then show ?thesis using assms(1) assms(2) [of "s\<lparr>cwFaults := fs\<rparr>"] by (cases f) (auto simp: remote_def Let_def)
qed

lemma redis_error: "redis msg q s = (Inl e, t) \<Longrightarrow> e = ErrText msg"
  unfolding redis_def by (erule remote_error) (simp split: prod.split)

lemma get_missing:
  assumes "getSecret k s = (Inl ErrSecretNotFound, t)" "peaceful False M a token s"
  shows "cwStore t k = None"
proof -
  obtain r s' where q: "redis ''read Redis credential value'' (\<lambda>st. (st k, st)) s = (r, s')" by fastforce
  show ?thesis
  proof (cases r)
    case (Inl e)
    then show ?thesis using redis_error [OF q [unfolded Inl]] assms(1) q by (simp add: getSecret_def ErrSecretNotFound_def)
  next
    case (Inr x)
    have "cwStore s' k = x" using read_ok [OF q [unfolded Inr] assms(2)] .
    with Inr show ?thesis using assms(1) q by (cases x) (simp_all add: getSecret_def)
  qed
qed

definition older :: "string option \<Rightarrow> int \<Rightarrow> bool" where
  "older p v \<longleftrightarrow> (case p of None \<Rightarrow> True | Some x \<Rightarrow> \<exists>n. parsePointer x = Inr n \<and> n < v)"

lemma parsePointer_int64: "parsePointer x = Inr n \<Longrightarrow> 1 \<le> n \<and> is_int64 n"
  by (auto simp: parsePointer_def ParseInt64_def Let_def split: option.splits if_splits)

lemma current_ok:
  assumes "currentVersion M a s = (Inr cur, t)" "peaceful False M a token s"
  shows "0 \<le> cur \<and> is_int64 cur \<and> (\<forall>v>cur. older (cwStore t (currentKeyOf M a)) v)"
proof -
  obtain r s' where g: "getSecret (currentKeyOf M a) s = (r, s')" by fastforce
  show ?thesis
  proof (cases r)
    case (Inl e)
    then have "e = ErrSecretNotFound" "cur = 0" "t = s'"
      using assms(1) g by (auto simp: currentVersion_def split: if_splits)
    moreover have "cwStore s' (currentKeyOf M a) = None" using g Inl calculation get_missing [OF _ assms(2)] by simp
    ultimately show ?thesis by (simp add: older_def is_int64_def)
  next
    case (Inr x)
    then have p: "parsePointer x = Inr cur" "t = s'"
      using assms(1) g by (auto simp: currentVersion_def of_res_def)
    have "cwStore t (currentKeyOf M a) = Some x" using get_ok [OF g [unfolded Inr] assms(2)] p by simp
    then show ?thesis using p parsePointer_int64 [OF p(1)] by (auto simp: older_def)
  qed
qed

lemma kept_fresh: "versions_kept st st' \<Longrightarrow> numbered k \<Longrightarrow> st' k = None \<Longrightarrow> st k = None"
  by (auto simp: versions_kept_def)

lemma kept_trans: "versions_kept st su \<Longrightarrow> versions_kept su sv \<Longrightarrow> versions_kept st sv"
  unfolding versions_kept_def by metis

lemma kept_stored: "versions_kept st st' \<Longrightarrow> numbered k \<Longrightarrow> st k = Some v \<Longrightarrow> st' k = Some v"
  by (auto simp: versions_kept_def)

lemma coexists_kept: "coexists False M a token st st' \<Longrightarrow> versions_kept st st'"
  by (simp add: coexists_def)

lemma version_numbered: "known M a \<Longrightarrow> 1 \<le> v \<Longrightarrow> numbered (versionKeyOf M a v)"
  by (rule key_shapes [of M a]) (auto simp: numbered_def last_Itoa known_def)

lemma Encrypt_version: "drawing (Encrypt C e b acc v key pt now) s = (Inr x, t) \<Longrightarrow> 1 \<le> v"
  by (auto simp: drawing_def Encrypt_def seq_def of_res_def ValidateIdentity_def split: prod.splits sum.splits if_splits)

text \<open>The allocated version was free before and is taken by the envelope afterwards.\<close>

lemma allocate_ok:
  assumes "known M a" "opAccount oper = a" "is_int64 candidate"
  shows "allocateVersion C M oper pt now n bound candidate s = (Inr (Some (v, e, j)), t) \<Longrightarrow> peaceful False M a token s \<Longrightarrow>
    1 \<le> candidate \<and> candidate \<le> v \<and> is_int64 v \<and> cwStore s (versionKeyOf M a v) = None \<and> cwStore t (versionKeyOf M a v) = Some j"
  using assms(3)
proof (induction n arbitrary: candidate s)
  case (Suc n)
  let ?enc = "drawing (Encrypt C (mgEnvironment M) (mgBrokerID M) a candidate (mgKey M) pt now)"
  obtain env s1 where enc: "?enc s = (Inr env, s1)"
    and rest: "orFail (SetIfAbsent (versionKeyOf M a candidate) (cyPrint C (envelope_json env)))
       (failOperation M oper ''VERSION_WRITE_FAILED'' None) (\<lambda>created.
          if created then ret (Some (candidate, env, cyPrint C (envelope_json env)))
          else allocateVersion C M oper pt now n bound (wrap64 (candidate + 1))) s1 = (Inr (Some (v, e, j)), t)"
    using Suc.prems(1) assms(2) by (auto simp: Let_def split: if_splits elim: orFail_failE)
  have candidate: "1 \<le> candidate" using Encrypt_version [OF enc] .
  have key: "numbered (versionKeyOf M a candidate)" using version_numbered [OF assms(1) candidate] .
  have p1: "peaceful False M a token s1" "coexists False M a token (cwStore s) (cwStore s1)"
    using peace_step [OF drawing_stays [OF draws_Encrypt] Suc.prems(2) enc] .
  obtain created s2 where set: "SetIfAbsent (versionKeyOf M a candidate) (cyPrint C (envelope_json env)) s1 = (Inr created, s2)"
    and go: "(if created then ret (Some (candidate, env, cyPrint C (envelope_json env)))
      else allocateVersion C M oper pt now n bound (wrap64 (candidate + 1))) s2 = (Inr (Some (v, e, j)), t)"
    using orFail_failE [OF rest] .
  obtain st where st: "coexists False M a token (cwStore s1) st" "setnx (versionKeyOf M a candidate) (cyPrint C (envelope_json env)) st
      = (created, cwStore s2)" and p2: "peaceful False M a token s2"
    using redis_ok [OF set [unfolded SetIfAbsent_def] p1(1)] .
  have s_st: "versions_kept (cwStore s) st" using coexists_kept [OF coexists_trans [OF p1(2) st(1)]] .
  show ?case
  proof (cases created)
    case True
    then have "st (versionKeyOf M a candidate) = None" "cwStore s2 = st(versionKeyOf M a candidate \<mapsto> cyPrint C (envelope_json env))"
      "v = candidate" "j = cyPrint C (envelope_json env)" "t = s2"
      using st(2) go by (auto simp: setnx_def split: if_splits)
    then show ?thesis using candidate Suc.prems(3) kept_fresh [OF s_st key] by simp
  next
    case False
    then have same: "cwStore s2 = st" using st(2) by (auto simp: setnx_def split: if_splits)
    have "is_int64 (wrap64 (candidate + 1))" by (rule wrap64_range)
    from Suc.IH [OF _ p2 this] go False
    have ih: "1 \<le> wrap64 (candidate + 1)" "wrap64 (candidate + 1) \<le> v" "is_int64 v" "cwStore s2 (versionKeyOf M a v) = None"
      "cwStore t (versionKeyOf M a v) = Some j" by auto
    have "wrap64 (candidate + 1) = candidate + 1"
    proof (cases "is_int64 (candidate + 1)")
      case False
      then have "candidate = 2 ^ 63 - 1" using Suc.prems(3) by (simp add: is_int64_def)
      then show ?thesis using ih(1) by (simp add: wrap64_def)
    qed (simp add: wrap64_id)
    moreover have "cwStore s (versionKeyOf M a v) = None"
      using kept_fresh [OF s_st version_numbered [OF assms(1)]] ih same by simp
    ultimately show ?thesis using ih candidate by simp
  qed
qed simp

definition readable :: "crypt \<Rightarrow> Manager \<Rightarrow> string \<Rightarrow> int \<Rightarrow> string \<Rightarrow> bool" where
  "readable C M a v stored \<longleftrightarrow>
     (case decodeEnvelope C stored of
        Inl _ \<Rightarrow> False
      | Inr e \<Rightarrow> Envelope_Validate e (mgEnvironment M) (mgBrokerID M) a v (kmID (mgKey M)) = Inr () \<and> \<not> isl (Decrypt C e (mgKey M)))"

lemma verify_ok: "verifyVersion C M oper v j s = (Inr u, t) \<Longrightarrow> readable C M (opAccount oper) v j"
  by (auto simp: verifyVersion_def readable_def Let_def split: sum.splits if_splits elim!: orFail_failE)

lemma activate_ok:
  assumes "activateVersion M oper token v s = (Inr u, t)" "peaceful False M a token s" "opAccount oper = a"
  obtains held where "coexists False M a token (cwStore s) held" "held (lockKeyOf M a) = Some token"
    "cwStore t = held(currentKeyOf M a \<mapsto> Itoa v)" "peaceful False M a token t"
proof -
  obtain ok s' where set: "SetIfLockOwner (lockKeyOf M a) token (currentKeyOf M a) (Itoa v) s = (Inr ok, s')" and "ok" "t = s'"
    using assms(1,3) by (auto simp: activateVersion_def Let_def split: if_splits elim!: orFail_failE)
  obtain st where "coexists False M a token (cwStore s) st" "peaceful False M a token s'"
    "setIfLockOwnerLua (lockKeyOf M a) token (currentKeyOf M a) (Itoa v) st = (ok, cwStore s')"
    using redis_ok [OF set [unfolded SetIfLockOwner_def] assms(2)] .
  then show thesis using that \<open>ok\<close> \<open>t = s'\<close> by (auto simp: setIfLockOwnerLua_def split: if_splits)
qed

lemma orFail_ok:
  assumes "orFail m (failOperation N oper code v) k s = (Inr y, t)" "stays (world_coexists False M a token {}) m" "peaceful False M a token s"
  obtains x s' where "m s = (Inr x, s')" "k x s' = (Inr y, t)" "peaceful False M a token s'" "coexists False M a token (cwStore s) (cwStore s')"
  using orFail_failE [OF assms(1)] peace_step [OF assms(2,3)] by metis

lemma seq_ok:
  assumes "seq m k s = (Inr y, t)" "stays (world_coexists False M a token {}) m" "peaceful False M a token s"
  obtains x s' where "m s = (Inr x, s')" "k x s' = (Inr y, t)" "peaceful False M a token s'" "coexists False M a token (cwStore s) (cwStore s')"
  using seq_InrE [OF assms(1)] peace_step [OF assms(2,3)] by metis

text \<open>What a rotation of \<open>a\<close> to version \<open>v\<close> under a token did between the stores \<open>st\<close> and \<open>st'\<close>: there is an instant of
  activation \<open>held\<close>.\<close>

definition rotated :: "crypt \<Rightarrow> Manager \<Rightarrow> string \<Rightarrow> string \<Rightarrow> int \<Rightarrow> secrets \<Rightarrow> secrets \<Rightarrow> bool" where
  "rotated C M a token v st st' \<longleftrightarrow>
     1 \<le> v \<and> is_int64 v \<and> st (versionKeyOf M a v) = None
     \<and> (\<exists>held stored. held (lockKeyOf M a) = Some token \<and> older (held (currentKeyOf M a)) v
          \<and> held (versionKeyOf M a v) = Some stored \<and> readable C M a v stored
          \<and> versions_kept (held(currentKeyOf M a \<mapsto> Itoa v)) st')"

lemma rotateLocked_ok:
  assumes known: "known M a" and a: "opAccount oper = a" and peace: "peaceful False M a token s"
    and run: "rotateLocked C M oper pt now token s = (Inr (res, err), t)"
  shows "rotated C M a token (rrVersion res) (cwStore s) (cwStore t) \<and> peaceful False M a token t"
proof -
  obtain cur s1 where cur: "currentVersion M a s = (Inr cur, s1)" and p1: "peaceful False M a token s1"
    and c1: "coexists False M a token (cwStore s) (cwStore s1)"
    and rest: "seq (allocateVersion C M oper pt now 1001 (wrap64 (cur + 1000)) (wrap64 (cur + 1))) (\<lambda>allocated.
         case allocated of
           None \<Rightarrow> failOperation M oper ''VERSION_EXHAUSTED'' None (ErrText ''could not allocate a credential version'')
         | Some (version, envelope, envelopeJSON) \<Rightarrow>
             seq (verifyVersion C M oper version envelopeJSON) (\<lambda>_.
               seq (activateVersion M oper token version) (\<lambda>_.
                 rotationDone C M oper version envelope envelopeJSON))) s1 = (Inr (res, err), t)"
    using orFail_ok [OF run [unfolded rotateLocked_def a] current_stays peace] .
  note c = current_ok [OF cur peace]
  obtain al s2 where al: "allocateVersion C M oper pt now 1001 (wrap64 (cur + 1000)) (wrap64 (cur + 1)) s1 = (Inr al, s2)"
    and p2: "peaceful False M a token s2" and c2: "coexists False M a token (cwStore s1) (cwStore s2)"
    and rest2: "(case al of
           None \<Rightarrow> failOperation M oper ''VERSION_EXHAUSTED'' None (ErrText ''could not allocate a credential version'')
         | Some (version, envelope, envelopeJSON) \<Rightarrow>
             seq (verifyVersion C M oper version envelopeJSON) (\<lambda>_.
               seq (activateVersion M oper token version) (\<lambda>_.
                 rotationDone C M oper version envelope envelopeJSON))) s2 = (Inr (res, err), t)"
    using seq_ok [OF rest allocate_stays [OF known] p1] .
  obtain v e j where al_v: "al = Some (v, e, j)" using rest2 by (cases al) auto
  note v = allocate_ok [OF known a wrap64_range al [unfolded al_v] p1]
  have cv: "cur < v"
  proof (cases "is_int64 (cur + 1)")
    case True
    then show ?thesis using v by (simp add: wrap64_id)
  next
    case False
    then have "cur = 2 ^ 63 - 1" using c by (simp add: is_int64_def)
    then show ?thesis using v by (simp add: wrap64_def)
  qed
  have chain: "seq (verifyVersion C M oper v j) (\<lambda>_. seq (activateVersion M oper token v) (\<lambda>_.
      rotationDone C M oper v e j)) s2 = (Inr (res, err), t)"
    using rest2 al_v by simp
  obtain u3 s3 where ver: "verifyVersion C M oper v j s2 = (Inr u3, s3)" and p3: "peaceful False M a token s3"
    and c3: "coexists False M a token (cwStore s2) (cwStore s3)"
    and rest3: "seq (activateVersion M oper token v) (\<lambda>_. rotationDone C M oper v e j) s3 = (Inr (res, err), t)"
    using seq_ok [OF chain verify_stays p2] .
  obtain u4 s4 where act: "activateVersion M oper token v s3 = (Inr u4, s4)"
    and fin: "rotationDone C M oper v e j s4 = (Inr (res, err), t)"
    using seq_InrE [OF rest3] .
  obtain held where h: "coexists False M a token (cwStore s3) held" "held (lockKeyOf M a) = Some token"
    "cwStore s4 = held(currentKeyOf M a \<mapsto> Itoa v)" and p4: "peaceful False M a token s4"
    using activate_ok [OF act p3 a] .
  have c1h: "coexists False M a token (cwStore s1) held" using coexists_trans [OF coexists_trans [OF c2 c3] h(1)] .
  then have "held (currentKeyOf M a) = cwStore s1 (currentKeyOf M a)"
    using h(2) by (auto simp: coexists_def fenced_def)
  then have old: "older (held (currentKeyOf M a)) v" using c cv by simp
  have num: "numbered (versionKeyOf M a v)" by (rule version_numbered [OF known]) (use v in linarith)
  have stored: "held (versionKeyOf M a v) = Some j"
    using kept_stored [OF coexists_kept [OF coexists_trans [OF c3 h(1)]] num] v by simp
  have kept: "versions_kept (held(currentKeyOf M a \<mapsto> Itoa v)) (cwStore t)" "peaceful False M a token t"
    using peace_step [OF done_stays(1) p4 fin] h(3) by (simp_all add: coexists_kept)
  have fresh: "cwStore s (versionKeyOf M a v) = None" using kept_fresh [OF coexists_kept [OF c1] num] v by simp
  have res: "rrVersion res = v"
    using fin by (auto simp: rotationDone_def Let_def seq_def attempt_def readNow_def split: prod.splits)
  have "\<exists>held stored. held (lockKeyOf M a) = Some token \<and> older (held (currentKeyOf M a)) v
      \<and> held (versionKeyOf M a v) = Some stored \<and> readable C M a v stored
      \<and> versions_kept (held(currentKeyOf M a \<mapsto> Itoa v)) (cwStore t)"
    using h(2) old stored verify_ok [OF ver] a kept(1) by blast
  then show ?thesis using v fresh kept(2) by (simp add: rotated_def res)
qed

lemma release_ok:
  assumes "releasing (lockKeyOf M a) token m s = (Inr y, t)" "known M a" "peaceful False M a token (snd (m s))"
  obtains s' where "m s = (Inr y, s')" "versions_kept (cwStore s') (cwStore t)"
proof -
  obtain r s' where m: "m s = (r, s')" by fastforce
  obtain r' where "ReleaseLock (lockKeyOf M a) token s' = (r', t)" "r = Inr y"
    using assms(1) m by (auto simp: releasing_def attempt_def of_res_def split: prod.splits)
  then show thesis
    using that m assms(3) coexists_kept [OF peace_step(2) [OF redis_stays [OF coexists_release [OF assms(2) impI]]]]
    by (auto simp: ReleaseLock_def)
qed

lemma rotated_release:
  "rotated C M a token v st su \<Longrightarrow> versions_kept st0 st \<Longrightarrow> versions_kept su st' \<Longrightarrow> known M a \<Longrightarrow>
   rotated C M a token v st0 st'"
  unfolding rotated_def
  by (auto dest: kept_fresh [OF _ version_numbered]) (auto simp: versions_kept_def)

lemma rotateStarted_ok:
  assumes known: "known M a" and a: "opAccount oper = a" and token: "token = hexEncode (take 16 (cwRandom s))"
    and peace: "peaceful False M a token s" and run: "rotateStarted C M oper pt now s = (Inr (res, err), t)"
  shows "rotated C M a token (rrVersion res) (cwStore s) (cwStore t)"
proof -
  obtain tok s1 where d: "drawing (randomToken 16) s = (Inr tok, s1)"
    and rest: "orFail (AcquireLock (lockKeyOf M a) tok) (failOperation M oper ''LOCK_FAILED'' None) (\<lambda>acquired.
         if \<not> acquired
         then failOperation M oper ''ROTATION_IN_PROGRESS'' None (ErrText ''another credential operation is in progress'')
         else releasing (lockKeyOf M a) tok (rotateLocked C M oper pt now tok)) s1 = (Inr (res, err), t)"
    using orFail_failE [OF run [unfolded rotateStarted_def a]] .
  have tok: "tok = token" using d token by (auto simp: drawing_def randomToken_def seq_def readFull_def split: if_splits)
  have p1: "peaceful False M a token s1" "versions_kept (cwStore s) (cwStore s1)"
    using peace_step [OF drawing_stays [OF draws_randomToken] peace d] by (simp_all add: coexists_kept)
  obtain acq s2 where acq: "AcquireLock (lockKeyOf M a) token s1 = (Inr acq, s2)"
    and rest2: "(if \<not> acq
         then failOperation M oper ''ROTATION_IN_PROGRESS'' None (ErrText ''another credential operation is in progress'')
         else releasing (lockKeyOf M a) token (rotateLocked C M oper pt now token)) s2 = (Inr (res, err), t)"
    using orFail_failE [OF rest [unfolded tok]] .
  obtain st where st: "coexists False M a token (cwStore s1) st" "setnx (lockKeyOf M a) token st = (acq, cwStore s2)"
    and p2: "peaceful False M a token s2"
    using redis_ok [OF acq [unfolded AcquireLock_def] p1(1)] .
  have "cwStore s2 = snd (setnx (lockKeyOf M a) token st)" using st(2) by simp
  then have "versions_kept st (cwStore s2)"
    using not_numbered(1) [of M a] by (auto simp: versions_kept_def setnx_def)
  then have k2: "versions_kept (cwStore s) (cwStore s2)"
    using coexists_kept [OF st(1)] p1(2) kept_trans by blast
  have rel: "releasing (lockKeyOf M a) token (rotateLocked C M oper pt now token) s2 = (Inr (res, err), t)"
    using rest2 by (auto split: if_splits)
  obtain r s3 where locked: "rotateLocked C M oper pt now token s2 = (r, s3)" by fastforce
  have r: "r = Inr (res, err)" using rel locked by (auto simp: releasing_def attempt_def of_res_def split: prod.splits)
  note ok = rotateLocked_ok [OF known a p2 locked [unfolded r]]
  have "versions_kept (cwStore s3) (cwStore t)"
    using release_ok [OF rel known] locked ok by auto
  then show ?thesis using rotated_release [OF conjunct1 [OF ok] k2 _ known] by blast
qed

text \<open>C4: A rotation is fenced by its lock. Whatever other operations, expiries and connection failures come in between,
  when a rotation reports success for a version: the version was not in the store before, at the instant the pointer was
  switched to it the lock was still the rotation's own, the pointer it replaced was absent or named an older version,
  and the new version held an envelope that passes validation for the account and decrypts under the manager's key; and
  no stored version changes afterwards. The others are assumed to keep what every operation guarantees.\<close>

theorem rotation_fenced:
  assumes "Rotate C M accountID operator plaintext s = (Inr (res, err), t)"
    and "peaceful False M (TrimSpace accountID) (hexEncode (take 16 (drop 16 (cwRandom s)))) s"
  shows "rotated C M (TrimSpace accountID) (hexEncode (take 16 (drop 16 (cwRandom s)))) (rrVersion res) (cwStore s) (cwStore t)"
proof -
  let ?a = "TrimSpace accountID"
  define token where "token = hexEncode (take 16 (drop 16 (cwRandom s)))"
  have valid: "ValidateIdentity (mgEnvironment M) (mgBrokerID M) ?a 1 (kmID (mgKey M)) = Inr ()"
    using assms(1) by (auto simp: Rotate_def Let_def seq_def of_res_def split: if_splits sum.splits)
  then have known: "known M ?a" by (rule known_if_valid)
  have "ValidateBrokerCredentials plaintext = Inr ()"
    using assms(1) valid by (auto simp: Rotate_def Let_def seq_def of_res_def split: if_splits sum.splits)
  then obtain ident s1 now s2 oper u s3 where d: "drawing (randomToken 16) s = (Inr ident, s1)" and n: "readNow s1 = (Inr now, s2)"
    and au: "appendAudit M ((auditEvent M oper ''started'' now)\<lparr>aeKeyID := kmID (mgKey M)\<rparr>) s2 = (Inr u, s3)"
    and run: "rotateStarted C M oper plaintext now s3 = (Inr (res, err), t)" and oper: "opAccount oper = ?a"
    using assms(1) valid by (auto simp: Rotate_def Let_def split: if_splits elim!: seq_InrE)
  have "cwRandom s1 = drop 16 (cwRandom s)"
    using d by (auto simp: drawing_def randomToken_def seq_def readFull_def split: if_splits)
  moreover have "cwRandom s2 = cwRandom s1" using n by (auto simp: readNow_def split: list.splits)
  moreover have "cwRandom s3 = cwRandom s2"
    using au by (auto simp: appendAudit_def AppendCredentialAudit_def split: if_splits elim!: remote_ok)
  ultimately have token: "token = hexEncode (take 16 (cwRandom s3))" by (simp add: token_def)
  note p1 = peace_step [OF drawing_stays [OF draws_randomToken] assms(2) d]
  note p2 = peace_step [OF now_stays p1(1) n]
  note p3 = peace_step [OF audit_stays p2(1) au]
  have kept: "versions_kept (cwStore s) (cwStore s3)"
    using coexists_kept [OF coexists_trans [OF coexists_trans [OF p1(2) p2(2)] p3(2)]] .
  have "rotated C M ?a token (rrVersion res) (cwStore s3) (cwStore t)"
    using rotateStarted_ok [OF known oper token _ run] p3(1) by (simp add: token_def)
  then show ?thesis
    using rotated_release [OF _ kept _ known] by (simp add: token_def versions_kept_def)
qed

end
