(* ===== verification/Credential_Demo.thy ===== *)
theory Credential_Demo
  imports Credential_Laws
begin

text \<open>
  A concrete rotation: a manager with a key, an empty store, and another process that acts before every call. It
  instantiates the properties of the credential operations.
\<close>

definition rot_credentials :: BrokerCredentials where
  "rot_credentials = \<lparr>bcLoginUser = ''user'', bcPassword = ''secret'', bcDynamicPassword = []\<rparr>"

definition rot_key :: KeyMaterial where
  "rot_key = \<lparr>kmID = ''k1'', kmKey = replicate 32 (CHR ''K'')\<rparr>"

definition rot_envelope :: Envelope where
  "rot_envelope =
     \<lparr>evProtocol = CredProtocol, evAlgorithm = CredAlgorithm, evEnvironment = ''test'', evBrokerID = ''huaxin'',
      evAccountID = ''123456'', evVersion = 1, evKeyID = ''k1'', evNonceB64 = base64Encode (replicate 12 (CHR ''r'')),
      evCiphertextB64 = base64Encode ''c'', evTagB64 = base64Encode (replicate 16 (CHR ''t'')),
      evIssuedAt = FormatRFC3339 0\<rparr>"

text \<open>A cipher and a printer that satisfy the laws on these values.\<close>

definition rot_crypt :: crypt where
  "rot_crypt =
     \<lparr>cySeal = \<lambda>k n p a. p @ replicate 16 (CHR ''t''), cyOpen = \<lambda>k n s a. Some (take (length s - 16) s),
      cySHA256 = \<lambda>s. replicate 32 (CHR ''d''),
      cyPrint = \<lambda>v. if v = credentials_json rot_credentials then ''c'' else ''e'',
      cyParse = \<lambda>s. Some (if s = ''c'' then credentials_json rot_credentials else envelope_json rot_envelope),
      cyFirst = \<lambda>s. Some (if s = ''c'' then credentials_json rot_credentials else envelope_json rot_envelope, [])\<rparr>"

definition rot_manager :: Manager where
  "rot_manager = \<lparr>mgEnvironment = ''test'', mgBrokerID = ''huaxin'', mgKey = rot_key, mgAudit = True\<rparr>"

text \<open>The other process stores a version of another account.\<close>

definition rot_other :: "secrets \<Rightarrow> secrets" where
  "rot_other st = snd (setnx (versionKeyOf rot_manager ''654321'' 1) ''x'' st)"

definition rot_world :: cred_world where
  "rot_world =
     \<lparr>cwStore = Map.empty, cwOthers = [rot_other, rot_other], cwAudit = [], cwRandom = replicate 60 (CHR ''r''), cwNow = 0,
      cwLater = [1, 2], cwFaults = [NoFault, NoFault]\<rparr>"

lemma rot_gcm: "gcm_laws rot_crypt"
  by (simp add: gcm_laws_def rot_crypt_def)

lemma rot_json: "json_laws rot_crypt (credentials_json rot_credentials)" "json_laws rot_crypt (envelope_json rot_envelope)"
  by (simp_all add: json_laws_def rot_crypt_def credentials_json_def envelope_json_def)

lemma rot_identity: "ValidateIdentity ''test'' ''huaxin'' ''123456'' 1 ''k1'' = Inr ()"
  by (simp add: ValidateIdentity_def brokerIDPattern_def accountIDPattern_def keyIDPattern_def matches_def is_small_def
      is_capital_def is_digit_def byte_def)

lemma rot_words: "TrimSpace ''user'' = ''user''" "TrimSpace ''secret'' = ''secret''" "TrimSpace ''123456'' = ''123456''"
    "TrimSpace ''op'' = ''op''"
  by (rule TrimSpace_ascii_word, simp add: ascii_word_def)+

lemma rot_credentials_ok: "ValidateBrokerCredentials rot_credentials = Inr ()"
  by (simp add: ValidateBrokerCredentials_def rot_credentials_def rot_words)

lemma rot_encrypt:
  "Encrypt rot_crypt ''test'' ''huaxin'' ''123456'' 1 rot_key rot_credentials 0 (replicate 28 (CHR ''r'')) =
     (Inr rot_envelope, replicate 16 (CHR ''r''))"
proof -
  have id: "ValidateIdentity ''test'' ''huaxin'' ''123456'' 1 (kmID rot_key) = Inr ()" and key: "length (kmKey rot_key) = 32"
    using rot_identity by (simp_all add: rot_key_def)
  have nonce: "readFull ''generate credential nonce'' NonceSize (replicate 28 (CHR ''r'')) =
      (Inr (replicate 12 (CHR ''r'')), replicate 16 (CHR ''r''))"
    by (simp add: readFull_def)
  have "sealed_envelope rot_crypt ''test'' ''huaxin'' ''123456'' 1 rot_key rot_credentials 0 (replicate 12 (CHR ''r'')) =
      Inr rot_envelope"
    by (simp add: sealed_envelope_def Let_def rot_crypt_def rot_envelope_def rot_key_def)
  with id key nonce show ?thesis by (simp add: Encrypt_def seq_def of_res_def rot_credentials_ok)
qed

lemma rot_date: "valid_civil (businessDate 0)"
  by code_simp

theorem sealed_credentials_open_witness:
  "Decrypt rot_crypt rot_envelope rot_key = Inr rot_credentials"
  using sealed_credentials_open [OF rot_gcm rot_json(1) rot_encrypt rot_json(2)] rot_date by (simp add: is_int64_def)

lemma rot_opens:
  "decodeEnvelope rot_crypt (cyPrint rot_crypt (envelope_json rot_envelope)) = Inr rot_envelope
   \<and> Envelope_Validate rot_envelope ''test'' ''huaxin'' ''123456'' 1 (kmID rot_key) = Inr ()
   \<and> Decrypt rot_crypt rot_envelope rot_key = Inr rot_credentials"
  using sealed_opens [OF rot_gcm rot_json(1) rot_encrypt rot_json(2)] rot_date by (simp add: is_int64_def)

lemma rot_known: "known rot_manager ''123456''"
  using known_if_valid [of rot_manager "''123456''" 1 "''k1''"] rot_identity by (simp add: rot_manager_def)

lemma rot_peaceful: "peaceful h rot_manager ''123456'' token rot_world"
  using coexists_version [OF rot_known] by (simp add: peaceful_def rot_world_def rot_other_def)

text \<open>Another process holds the lock under \<^verbatim>\<open>x\<close>.\<close>

definition rot_busy_world :: cred_world where
  "rot_busy_world = rot_world\<lparr>cwStore := [lockKeyOf rot_manager ''123456'' \<mapsto> ''x'']\<rparr>"

theorem credential_operations_coexist_witness:
  "cwStore (snd (Rotate rot_crypt rot_manager ''123456'' ''op'' rot_credentials rot_busy_world)) (lockKeyOf rot_manager ''123456'') = Some ''x''
   \<and> cwStore (snd (Disable rot_manager ''123456'' ''op'' rot_busy_world)) (lockKeyOf rot_manager ''123456'') = Some ''x''"
proof -
  have "ValidateIdentity (mgEnvironment rot_manager) (mgBrokerID rot_manager) ''123456'' 1 ''k1'' = Inr ()"
    using rot_identity by (simp add: rot_manager_def)
  moreover have "peaceful True rot_manager ''123456'' ''x'' rot_busy_world"
    using rot_peaceful by (simp add: peaceful_def rot_busy_world_def)
  moreover have "hexEncode bs \<noteq> ''x''" for bs
  proof
    assume "hexEncode bs = ''x''"
    then have "length (hexEncode bs) = 1" by simp
    then have "2 * length bs = 1" by (simp only: length_hexEncode)
    then show False by presburger
  qed
  then have "untaken {''x''} rot_busy_world" by (simp add: untaken_def)
  ultimately have "coexists True rot_manager ''123456'' ''x'' (cwStore rot_busy_world)
      (cwStore (snd (Rotate rot_crypt rot_manager ''123456'' ''op'' rot_credentials rot_busy_world)))
    \<and> coexists True rot_manager ''123456'' ''x'' (cwStore rot_busy_world)
      (cwStore (snd (Disable rot_manager ''123456'' ''op'' rot_busy_world)))"
    by (rule credential_operations_coexist)
  then show ?thesis by (simp add: coexists_def rot_busy_world_def)
qed

section \<open>The rotation, step by step\<close>

definition "rot_lock = lockKeyOf rot_manager ''123456''"
definition "rot_current = currentKeyOf rot_manager ''123456''"
definition "rot_version = versionKeyOf rot_manager ''123456'' 1"
definition "rot_elsewhere = versionKeyOf rot_manager ''654321'' 1"

lemma rot_prefix:
  "Prefix ''test'' ''huaxin'' ''123456'' = Inr ''relay:test:v1:huaxin:123456''"
  "Prefix ''test'' ''huaxin'' ''654321'' = Inr ''relay:test:v1:huaxin:654321''"
  by (simp_all add: Prefix_def ValidateIdentity_def brokerIDPattern_def accountIDPattern_def keyIDPattern_def matches_def
      is_small_def is_capital_def is_digit_def byte_def)

lemma rot_distinct [simp]:
  "rot_lock \<noteq> rot_current" "rot_lock \<noteq> rot_version" "rot_current \<noteq> rot_version" "rot_lock \<noteq> rot_elsewhere"
  "rot_current \<noteq> rot_elsewhere" "rot_version \<noteq> rot_elsewhere" "rot_current \<noteq> rot_lock" "rot_version \<noteq> rot_lock"
  "rot_version \<noteq> rot_current" "rot_elsewhere \<noteq> rot_lock" "rot_elsewhere \<noteq> rot_current" "rot_elsewhere \<noteq> rot_version"
  by (simp_all add: rot_lock_def rot_current_def rot_version_def rot_elsewhere_def lockKeyOf_def currentKeyOf_def
      versionKeyOf_def LockKey_def CurrentKey_def VersionKey_def keyOf_def rot_manager_def rot_prefix)

definition rot_operation :: operation where
  "rot_operation = \<lparr>opID = hexEncode (replicate 16 (CHR ''r'')), opAccount = ''123456'', opOperator = ''op'', opAction = ''rotate''\<rparr>"

lemma rot_operation_account: "opAccount rot_operation = ''123456''"
  by (simp add: rot_operation_def)

abbreviation "rot_token \<equiv> hexEncode (replicate 16 (CHR ''r''))"

definition rot_locked_world :: "AuditEvent list \<Rightarrow> cred_world" where
  "rot_locked_world tr = \<lparr>cwStore = [rot_elsewhere \<mapsto> ''x'', rot_lock \<mapsto> rot_token], cwOthers = [rot_other], cwAudit = tr,
     cwRandom = replicate 28 (CHR ''r''), cwNow = 1, cwLater = [2], cwFaults = []\<rparr>"

lemmas rot_steps = redis_def remote_def others_act_def setnx_def rot_other_def seq_def attempt_def orFail_def of_res_def

lemma rot_start:
  "\<exists>tr. Rotate rot_crypt rot_manager ''123456'' ''op'' rot_credentials rot_world =
     releasing rot_lock rot_token (rotateLocked rot_crypt rot_manager rot_operation rot_credentials 0 rot_token) (rot_locked_world tr)"
proof -
  have id: "ValidateIdentity (mgEnvironment rot_manager) (mgBrokerID rot_manager) ''123456'' 1 (kmID (mgKey rot_manager)) = Inr ()"
    and key: "length (kmKey (mgKey rot_manager)) = 32" and au: "mgAudit rot_manager"
    using rot_identity by (simp_all add: rot_manager_def rot_key_def)
  have token: "drawing (randomToken 16) s = (Inr rot_token, s\<lparr>cwRandom := replicate (n - 16) (CHR ''r'')\<rparr>)"
    if "cwRandom s = replicate n (CHR ''r'')" "16 \<le> n" for s n
    using that by (simp add: drawing_def randomToken_def readFull_def seq_def min_def)
  have ev: "audit_row_ok ((auditEvent rot_manager rot_operation ''started'' 0)\<lparr>aeKeyID := k\<rparr>)" for k
    by (simp add: audit_row_ok_def auditEvent_def rot_operation_def rot_manager_def)
  have lock: "AcquireLock (lockKeyOf rot_manager ''123456'') rot_token
      \<lparr>cwStore = Map.empty, cwOthers = [rot_other, rot_other], cwAudit = tr, cwRandom = replicate 28 (CHR ''r''), cwNow = 1,
       cwLater = [2], cwFaults = [NoFault]\<rparr> = (Inr True, rot_locked_world tr)" for tr
    unfolding AcquireLock_def rot_steps rot_locked_world_def rot_lock_def [symmetric] rot_elsewhere_def [symmetric]
    by (simp add: Let_def)
  show ?thesis
    by (rule exI [of _ "[(auditEvent rot_manager rot_operation ''started'' 0)\<lparr>aeKeyID := kmID (mgKey rot_manager)\<rparr>]"])
      (use id key au ev lock rot_operation_account in \<open>simp add: Rotate_def rot_words Let_def rot_credentials_ok seq_def token [of _ 60] token [of _ 44] rot_world_def
        readNow_def appendAudit_def AppendCredentialAudit_def remote_def rotateStarted_def orFail_def attempt_def
        rot_operation_def [symmetric] rot_lock_def\<close>)
qed

lemma rot_digest: "is_hex_text (hexEncode (replicate 32 (CHR ''d'')))"
  by code_simp

lemma rot_locked:
  "\<exists>t res. rotateLocked rot_crypt rot_manager rot_operation rot_credentials 0 rot_token (rot_locked_world tr) = (Inr (res, None), t)
     \<and> rrVersion res = 1 \<and> cwOthers t = [] \<and> cwFaults t = []"
proof -
  define w1 where "w1 = (rot_locked_world tr)\<lparr>cwStore := [rot_elsewhere \<mapsto> ''x'', rot_lock \<mapsto> rot_token], cwOthers := []\<rparr>"
  have current: "currentVersion rot_manager ''123456'' (rot_locked_world tr) = (Inr 0, w1)"
    by (simp add: currentVersion_def getSecret_def rot_steps rot_locked_world_def w1_def rot_current_def [symmetric]
        rot_elsewhere_def [symmetric])
  define w2 where "w2 = w1\<lparr>cwStore := [rot_elsewhere \<mapsto> ''x'', rot_lock \<mapsto> rot_token, rot_version \<mapsto> ''e''], cwRandom := replicate 16 (CHR ''r'')\<rparr>"
  have print: "cyPrint rot_crypt (envelope_json rot_envelope) = ''e''"
    by (simp add: rot_crypt_def envelope_json_def credentials_json_def)
  have enc: "drawing (Encrypt rot_crypt (mgEnvironment rot_manager) (mgBrokerID rot_manager) ''123456'' 1 (mgKey rot_manager)
      rot_credentials 0) w1 = (Inr rot_envelope, w1\<lparr>cwRandom := replicate 16 (CHR ''r'')\<rparr>)"
    using rot_encrypt by (simp add: drawing_def w1_def rot_locked_world_def rot_manager_def)
  have set: "SetIfAbsent (versionKeyOf rot_manager ''123456'' 1) ''e'' (w1\<lparr>cwRandom := replicate 16 (CHR ''r'')\<rparr>) = (Inr True, w2)"
    by (simp add: SetIfAbsent_def rot_steps w1_def w2_def rot_locked_world_def rot_version_def [symmetric] Let_def)
  have "wrap64 1 = 1" "wrap64 1000 = 1000" by (simp_all add: wrap64_def)
  then have alloc: "allocateVersion rot_crypt rot_manager rot_operation rot_credentials 0 1001 (wrap64 (0 + 1000)) (wrap64 (0 + 1)) w1
      = (Inr (Some (1, rot_envelope, ''e'')), w2)"
    using enc set by (simp add: eval_nat_numeral orFail_def attempt_def rot_operation_account print Let_def)
  have get: "getSecret (versionKeyOf rot_manager ''123456'' 1) w2 = (Inr ''e'', w2)"
    by (simp add: getSecret_def rot_steps w1_def w2_def rot_locked_world_def rot_version_def [symmetric])
  have opens: "decodeEnvelope rot_crypt ''e'' = Inr rot_envelope"
      "Envelope_Validate rot_envelope ''test'' ''huaxin'' ''123456'' 1 (kmID rot_key) = Inr ()"
      "Decrypt rot_crypt rot_envelope rot_key = Inr rot_credentials"
    using rot_opens print by auto
  have verify: "verifyVersion rot_crypt rot_manager rot_operation 1 ''e'' w2 = (Inr (), w2)"
    using get opens by (simp add: verifyVersion_def orFail_def attempt_def rot_operation_account Let_def rot_manager_def)
  have act: "\<exists>w3. activateVersion rot_manager rot_operation rot_token 1 w2 = (Inr (), w3) \<and> cwOthers w3 = [] \<and> cwFaults w3 = []
      \<and> cwNow w3 = 1 \<and> cwLater w3 = [2]"
    by (simp add: activateVersion_def SetIfLockOwner_def setIfLockOwnerLua_def rot_steps rot_operation_account w1_def w2_def
        rot_locked_world_def rot_lock_def [symmetric] rot_current_def [symmetric] Let_def)
  have fin: "\<exists>t res. rotationDone rot_crypt rot_manager rot_operation 1 rot_envelope ''e'' w = (Inr (res, None), t)
      \<and> rrVersion res = 1 \<and> cwOthers t = [] \<and> cwFaults t = []" if "cwOthers w = []" "cwFaults w = []" "cwLater w = [2]" for w
    using that by (simp add: rotationDone_def Let_def seq_def attempt_def readNow_def appendAudit_def AppendCredentialAudit_def
        remote_def rot_manager_def audit_row_ok_def auditEvent_def rot_operation_def rot_crypt_def rot_digest)
  show ?thesis
    using current alloc verify act fin
    by (fastforce simp: rotateLocked_def orFail_def attempt_def rot_operation_account seq_def)
qed

theorem rotation_fenced_witness:
  "\<exists>st st'. rotated rot_crypt rot_manager ''123456'' rot_token 1 st st' \<and> st = cwStore rot_world"
proof -
  obtain tr where start: "Rotate rot_crypt rot_manager ''123456'' ''op'' rot_credentials rot_world =
     releasing rot_lock rot_token (rotateLocked rot_crypt rot_manager rot_operation rot_credentials 0 rot_token) (rot_locked_world tr)"
    using rot_start by blast
  obtain res t' where "rotateLocked rot_crypt rot_manager rot_operation rot_credentials 0 rot_token (rot_locked_world tr)
      = (Inr (res, None), t')" "rrVersion res = 1"
    using rot_locked by blast
  moreover obtain r t where "ReleaseLock rot_lock rot_token t' = (r, t)" by fastforce
  ultimately have run: "Rotate rot_crypt rot_manager ''123456'' ''op'' rot_credentials rot_world = (Inr (res, None), t)"
    by (simp add: start releasing_def attempt_def of_res_def)
  have token: "hexEncode (take 16 (drop 16 (cwRandom rot_world))) = rot_token"
    by (simp add: rot_world_def min_def)
  from rotation_fenced [OF run] rot_peaceful \<open>rrVersion res = 1\<close>
  show ?thesis unfolding rot_words token by auto
qed

end
