(* ===== verification/Spec2Isabelle.thy ===== *)
theory Spec2Isabelle
  imports Event_Hub Replay Auto_Refresh Sync_Pages Loop_Laws Link_Laws Cost_Demo Cost_Store Archive_Replay Migrations Credential_Demo
begin

text \<open>
  A verification library of the trading relay, the Go program under \<^verbatim>\<open>src/internal\<close>.

  \<^bold>\<open>The program.\<close> The relay stands between the clients of a trading API and broker gateways behind
  Redis streams. The order service validates a request, reserves the order in the Postgres ledger
  and appends a command to the stream of the account's gateway. The gateways answer on reply and
  event streams. The synchronisation loop reads those streams, archives every entry, converts it to
  ledger records, writes them with the merge rules of the upserts, stores a checkpoint per stream
  and notifies the event hub and the refresh scheduler. The hub numbers the events and serves
  subscribers, who may resume from a cursor. Archived entries can be replayed into the ledger. A
  daily cost ledger is computed from the fills, fees and positions that the ledger holds. Broker
  credentials are sealed into versions in a secret store. The schema of the ledger is maintained by
  a runner of migration scripts.

  \<^bold>\<open>The theories.\<close> Files are relative to \<^verbatim>\<open>src/internal\<close>. Definitions carry the names of the Go
  functions; record fields carry a prefix for their struct, since Isabelle fields are global.

  \<^item> \<^verbatim>\<open>Go_Prelude\<close>, \<^verbatim>\<open>Go_Float\<close>, \<^verbatim>\<open>Go_Time\<close>, \<^verbatim>\<open>Go_Json\<close>: what the program uses of Go and its standard
    library. A Go string is a list of bytes; an \<^verbatim>\<open>int64\<close> is an \<open>int\<close> with the wrap-around written out
    by \<open>wrap64\<close>; a \<^verbatim>\<open>float64\<close> is a rational or one of the special values, each operation rounding
    its exact result to nearest even; an instant is a count of nanoseconds. A fallible computation on
    a state \<open>'s\<close> has the type \<open>('s, 'a) act\<close>, that is \<open>'s \<Rightarrow> (error + 'a) \<times> 's\<close>: an error leaves the
    state the code leaves behind. The prelude also holds the locale \<open>world_preorder\<close>, a reflexive and
    transitive relation on states with the composition rules of computations that stay in it.
  \<^item> \<^verbatim>\<open>Trading\<close>: \<^verbatim>\<open>trading/schema.go\<close> and \<^verbatim>\<open>validation.go\<close>, the data types, the normalisation of order
    states and the validation of requests.
  \<^item> \<^verbatim>\<open>Streams\<close>: \<^verbatim>\<open>redisstream/streams.go\<close>, \<^verbatim>\<open>command.go\<close> and the account routes of \<^verbatim>\<open>config/config.go\<close>.
  \<^item> \<^verbatim>\<open>Messages\<close>, \<^verbatim>\<open>Payloads\<close>: \<^verbatim>\<open>redisstream/message.go\<close> and the payload structs of \<^verbatim>\<open>ledger_sync.go\<close>, from
    the members of a JSON object to a struct with the flag that decoding failed.
  \<^item> \<^verbatim>\<open>Ledger_Dates\<close>, \<^verbatim>\<open>Ledger_Orders\<close>, \<^verbatim>\<open>Ledger_Repo\<close>, \<^verbatim>\<open>Ledger_Tables\<close>, \<^verbatim>\<open>Ledger_Fills\<close>: the repository,
    \<^verbatim>\<open>ledger/repository.go\<close>, \<^verbatim>\<open>sql.go\<close> and \<^verbatim>\<open>fees.go\<close>, with the constraints and unique indexes of the
    migrations. A table is a list of row records and a statement a function on them. A statement
    consumes one entry of a schedule of faults: it runs, fails without effect, or takes effect and
    then fails to report it.
  \<^item> \<^verbatim>\<open>Ledger_Laws\<close>, \<^verbatim>\<open>Ledger_Books\<close>, \<^verbatim>\<open>Fill_Laws\<close>: what the tables guarantee. Rows keep their identity and
    are never lost, terminal orders stay terminal without a correcting reply, quantities shrink only
    where a terminal report of the order says so, the table of positions refines a book of the newest
    reports, a fill is stored once, a fee record gives way only to a later or a stronger one.
  \<^item> \<^verbatim>\<open>Order_Flow\<close>, \<^verbatim>\<open>Order_Safety\<close>, \<^verbatim>\<open>Relay\<close>, \<^verbatim>\<open>Replay\<close>: \<^verbatim>\<open>orderflow/service.go\<close>; the contract the service
    needs of its ledger and publisher, with the proof that no order is published twice; the service
    put together with the ledger and the command streams; submission and its repetition.
  \<^item> \<^verbatim>\<open>Auto_Refresh\<close>: \<^verbatim>\<open>orderflow/auto_refresh.go\<close>, a step relation over timers and requests.
  \<^item> \<^verbatim>\<open>Event_Hub\<close>: \<^verbatim>\<open>events/hub.go\<close>, the hub as a step relation with its subscribers.
  \<^item> \<^verbatim>\<open>Ledger_Records\<close>, \<^verbatim>\<open>Ledger_Convert\<close>, \<^verbatim>\<open>Ledger_Sync\<close>: \<^verbatim>\<open>redisstream/ledger_sync.go\<close>, from a stream entry
    over its payload and ledger record to the writes. \<^verbatim>\<open>Sync_Laws\<close>, \<^verbatim>\<open>Sync_Ledger\<close> and \<^verbatim>\<open>Sync_Pages\<close>: what
    processing guarantees for every writer, for the repository, and for pages.
  \<^item> \<^verbatim>\<open>Sync_Loop\<close>, \<^verbatim>\<open>Loop_Laws\<close>: \<^verbatim>\<open>redisstream/ledger_sync_loop.go\<close> and \<^verbatim>\<open>events/ledger.go\<close>; cursors,
    checkpoints and notifications, and what holds over rounds, restarts and failures.
  \<^item> \<^verbatim>\<open>Archive_Replay\<close>: \<^verbatim>\<open>redisstream/archive_replay.go\<close>.
  \<^item> \<^verbatim>\<open>Perf_Fills\<close>, \<^verbatim>\<open>Component_Links\<close>, \<^verbatim>\<open>Cost_State\<close>, \<^verbatim>\<open>Cost_Ledger\<close>: the daily cost ledger of
    \<^verbatim>\<open>performance/cost_ledger.go\<close> with \<^verbatim>\<open>corporate_actions.go\<close>, \<^verbatim>\<open>etf_transfer_links.go\<close>,
    \<^verbatim>\<open>t0_cost_buckets.go\<close> and what it calls of \<^verbatim>\<open>contributions.go\<close> and \<^verbatim>\<open>service.go\<close>. \<^verbatim>\<open>Link_Laws\<close>,
    \<^verbatim>\<open>Cost_Laws\<close> and \<^verbatim>\<open>Group_Laws\<close> prove its quantities conserved, \<^verbatim>\<open>Cost_Demo\<close> is a day it is run on. \<^verbatim>\<open>Cost_Store\<close>: the store of
    the cost ledger, \<^verbatim>\<open>ledger/cost.go\<close>, with the proof that it satisfies the condition of \<^verbatim>\<open>Cost_Laws\<close>.
  \<^item> \<^verbatim>\<open>Credential_Envelope\<close>, \<^verbatim>\<open>Credential_Manager\<close>, \<^verbatim>\<open>Credential_Laws\<close>, \<^verbatim>\<open>Credential_Demo\<close>: package
    \<^verbatim>\<open>credentials\<close>. Any other process may act between two calls of an operation.
  \<^item> \<^verbatim>\<open>Migrations\<close>: package \<^verbatim>\<open>db/migrations\<close>, with transactions that lose their connection and scripts
    that end the transaction they run in.

  \<^bold>\<open>Interfaces.\<close> Where a component relies on another, a locale states the contract, and an
  interpretation discharges it for the model of the program:
  \<open>order_service\<close> (what the order service needs of its world) for the running relay;
  \<open>row_relation\<close> and \<open>row_invariant\<close> (what the merges of the upserts keep of a row) for identity,
  progress and frozen terminal orders and for the terminal flag;
  \<open>entry_contract\<close> (a property of a report that every handler establishes) for the accounting of
  entries and for stream ids;
  \<open>writer_relation\<close>, \<open>table_relation\<close> and \<open>statement_relation\<close> (a relation on the ledger that every
  write keeps) for the evolution of the ledger, for the archive under a replay and for the
  checkpoint marks;
  \<open>checkpointed\<close> (the loop over any writer and any checkpoint store) for the service's options;
  \<open>cursor_codec\<close> for the cursors of the hub; \<open>keyed_order\<close> for the comparisons of the sorts;
  \<open>day_invariant\<close> for the roll of quantities and for the sums of their sources; \<open>world_preorder\<close> for
  the coexistence of credential operations and several others.

  \<^bold>\<open>Loops.\<close> Loops over lists are recursive functions. The paged listings are bounded in the source:
  20 pages of 500 fills of an order in \<open>existingOrderFillQty\<close>, 40 pages of 500 or 4 pages of 5000
  in the performance service; the models recurse on that number of pages, and a listing that does
  not end within them takes the branch the code takes. \<open>nextTradingDay\<close> asks for at most 20 days, as
  the code does. \<open>allocateVersion\<close> tries 1000 candidates; its fuel of 1001 reaches the final error.
  The endless loop of the synchronisation is the reachability relation \<open>sync_reach\<close> over start,
  restart and rounds; the runs of the scheduler and the hub are reachability relations too.

  \<^bold>\<open>Parameters.\<close> Code outside \<^verbatim>\<open>src\<close> is an argument of the definitions that use it: the text of JSON
  values (\<open>codec\<close>) and of \<^verbatim>\<open>fmt.Sprint\<close>, \<^verbatim>\<open>strconv.ParseFloat\<close>, the zone database (\<open>zone\<close>), the
  conversions of the database driver (\<open>pg\<close>), AES-GCM and SHA-256 (\<open>crypt\<close>), the effect of a migration
  script (\<open>sql\<close>), the ids of Redis and the answers of XREAD, the market service and the calendar, the
  order in which Go visits a map, and the actions of other processes on the secret store. Laws
  assumed of them are premises of the theorems: an answer of XREAD holds the first entries after the
  given id, a decoder inverts its encoder, decryption inverts encryption under one key and nonce.

  \<^bold>\<open>What is proved.\<close> The properties C1 to C40 stand next to the lemmas they rest on. Safety of the
  money paths: orders are published once (C1), late reports leave the status of a terminal order, its open
  quantity and its rejection reason (C2), fills are stored once, and sales and buy orders are never charged twice. Accounting: every entry is
  archived or counted, every cost item rolls from opening to close, every batch is reported in full.
  Recovery: checkpoints never run ahead, replays lose nothing, hub cursors resume exactly or answer
  with a gap. Fencing of credential rotations holds under any interference and any loss of a connection. So
  does the journal of the migrations, except where a script that commits by itself is interrupted:
  the theorem says what the schema is then. Theorems with premises have a witness that evaluates
  them on a concrete run.

  \<^bold>\<open>Deviations.\<close> Go may fuse a multiplication and an addition on some platforms; the model rounds
  after each operation. The two zeros are one value. Error values carry the class of an error and
  not the text of a wrapped driver error. Mutexes make their critical sections single steps.
  A call of the Redis client is one attempt: the retries that the go-redis client makes by itself
  when the connection breaks are outside the model, also those of an XADD whose reply was lost.

  \<^bold>\<open>Not modelled.\<close> \<^verbatim>\<open>api\<close> and \<^verbatim>\<open>httpx\<close>: routing, JSON rendering and HTML reports around the order
  service and the repository, without state of their own. \<^verbatim>\<open>performance/service.go\<close>,
  \<^verbatim>\<open>trade_quality.go\<close>, \<^verbatim>\<open>etf_settlement_finalization.go\<close>, the results of \<^verbatim>\<open>contributions.go\<close> and their
  tables in \<^verbatim>\<open>ledger/performance.go\<close>: reports summed in floating point over rows modelled here; what
  the cost ledger calls of them is modelled. The reconciliation tables, job runs and strategies of
  the repository. \<^verbatim>\<open>events/postgres.go\<close>, \<^verbatim>\<open>market/meridian.go\<close>, \<^verbatim>\<open>logging\<close>, \<^verbatim>\<open>worker\<close>, the stream
  diagnostics of \<^verbatim>\<open>redisstream\<close> and the commands under \<^verbatim>\<open>src/cmd\<close>: network and process plumbing.
\<close>

end
